(* ===== verification/Rounding.thy ===== *)
theory Rounding
  imports Complex_Main
begin

text \<open>
  Rounding of exact rationals to a fixed number of significant digits in a fixed base, ties to
  even. Base 2 with 53 digits is the arithmetic of Python's \<^verbatim>\<open>float\<close>, base 10 with 28 digits that of
  the default \<^verbatim>\<open>decimal\<close> context. The theory proves that rounding is monotone, odd, idempotent and
  the identity on representable numbers, and gives equations on numerators and denominators by
  which closed terms are evaluated.
\<close>

section \<open>Integer helpers\<close>

function ilen :: "int \<Rightarrow> int \<Rightarrow> int" where
  "ilen b n = (if n \<le> 0 \<or> b \<le> 1 then 0 else 1 + ilen b (n div b))"
  by pat_completeness auto
termination
  by (relation "measure (\<lambda>(b, n). nat n)") (auto intro: int_div_less_self)

function ipow :: "int \<Rightarrow> int \<Rightarrow> int" where
  "ipow b k =
     (if k \<le> 0 then 1
      else if even k then ipow (b * b) (k div 2) else b * ipow (b * b) (k div 2))"
  by pat_completeness auto
termination
  by (relation "measure (\<lambda>(b, n). nat n)") auto

declare ilen.simps [simp del] ipow.simps [simp del]

lemma ipow_eq: "ipow b k = b ^ nat k"
proof (induction b k rule: ipow.induct)
  case (1 b k)
  show ?case
  proof (cases "k \<le> 0")
    case True
    then show ?thesis by (simp add: ipow.simps)
  next
    case False
    have dbl: "(b * b) ^ nat (k div 2) = b ^ (2 * nat (k div 2))"
      by (simp add: power_mult power2_eq_square)
    show ?thesis
    proof (cases "even k")
      case True
      then have "2 * nat (k div 2) = nat k" by auto
      with True False 1(1) dbl show ?thesis by (simp add: ipow.simps [of b k])
    next
      case odd: False
      then have "Suc (2 * nat (k div 2)) = nat k" using False by (auto elim: oddE)
      with odd False 1(2) dbl show ?thesis
        by (simp add: ipow.simps [of b k]) (metis power_Suc)
    qed
  qed
qed

lemma ilen_bounds:
  assumes "2 \<le> b" "0 < n"
  shows "1 \<le> ilen b n \<and> b ^ nat (ilen b n - 1) \<le> n \<and> n < b ^ nat (ilen b n)"
  using assms
proof (induction b n rule: ilen.induct)
  case (1 b n)
  show ?case
  proof (cases "n < b")
    case True
    then have "n div b = 0" using 1(3) by simp
    then have "ilen b n = 1" using 1(2,3) by (simp add: ilen.simps [of b n] ilen.simps [of b 0])
    then show ?thesis using 1(3) True by simp
  next
    case False
    let ?q = "n div b"
    let ?l = "ilen b ?q"
    have q: "0 < ?q" using False 1(2) by (simp add: pos_imp_zdiv_pos_iff)
    have ih: "1 \<le> ?l" "b ^ nat (?l - 1) \<le> ?q" "?q < b ^ nat ?l"
      using 1(1) q 1(2,3) by auto
    have modn: "n = b * ?q + n mod b" "0 \<le> n mod b" "n mod b < b" using 1(2) by auto
    have len: "ilen b n = 1 + ?l" using 1(2,3) by (simp add: ilen.simps [of b n])
    have "b ^ nat ?l = b * b ^ nat (?l - 1)"
      using ih(1) by (simp flip: power_Suc) (metis Suc_nat_eq_nat_zadd1 diff_add_cancel diff_ge_0_iff_ge add.commute)
    also have "\<dots> \<le> b * ?q" using ih(2) 1(2) by simp
    also have "\<dots> \<le> n" using modn by linarith
    finally have lo: "b ^ nat ?l \<le> n" .
    have "n < b * (?q + 1)" using modn by (simp only: distrib_left mult_1_right)
    also have "\<dots> \<le> b * b ^ nat ?l" using ih(3) 1(2) by simp
    also have "\<dots> = b ^ nat (1 + ?l)" using ih(1) by (simp add: nat_add_distrib)
    finally have hi: "n < b ^ nat (1 + ?l)" .
    show ?thesis using len lo hi ih(1) by simp
  qed
qed

section \<open>Rounding an exact rational to an integer, ties to even\<close>

definition round_half_even :: "rat \<Rightarrow> int" where
  "round_half_even x =
     (let f = \<lfloor>x\<rfloor>; d = x - of_int f
      in if d < 1 / 2 then f else if 1 / 2 < d then f + 1 else if even f then f else f + 1)"

lemma round_half_even_of_int [simp]: "round_half_even (of_int n) = n"
  by (simp add: round_half_even_def)

lemma round_half_even_near: "\<bar>of_int (round_half_even x) - x\<bar> \<le> 1 / 2"
proof -
  have "of_int \<lfloor>x\<rfloor> \<le> x" "x < of_int \<lfloor>x\<rfloor> + 1" using floor_correct [of x] by auto
  then show ?thesis by (auto simp: round_half_even_def Let_def abs_le_iff)
qed

lemma round_half_even_unique:
  assumes "\<bar>of_int n - x\<bar> < 1 / 2"
  shows "round_half_even x = n"
proof -
  have "\<bar>(of_int (round_half_even x - n) :: rat)\<bar> < 1"
    using assms round_half_even_near [of x] by (simp only: abs_less_iff abs_le_iff of_int_diff) linarith
  then have "\<bar>round_half_even x - n\<bar> < 1" by (metis of_int_abs of_int_less_1_iff)
  then show ?thesis by simp
qed

lemma round_half_even_mono:
  assumes "x \<le> y"
  shows "round_half_even x \<le> round_half_even y"
proof (cases "\<lfloor>x\<rfloor> = \<lfloor>y\<rfloor>")
  case True
  with assms show ?thesis by (auto simp: round_half_even_def Let_def)
next
  case False
  with assms floor_mono [of x y] have "\<lfloor>x\<rfloor> + 1 \<le> \<lfloor>y\<rfloor>" by linarith
  then show ?thesis by (auto simp: round_half_even_def Let_def)
qed

lemma round_half_even_minus: "round_half_even (- x) = - round_half_even x"
proof (cases "x = of_int \<lfloor>x\<rfloor>")
  case True
  then have "- x = of_int (- \<lfloor>x\<rfloor>)" by simp
  then show ?thesis using True round_half_even_of_int [of "\<lfloor>x\<rfloor>"] round_half_even_of_int [of "- \<lfloor>x\<rfloor>"] by metis
next
  case False
  then have "of_int \<lfloor>x\<rfloor> < x" using of_int_floor_le [of x] by linarith
  moreover have "x < of_int \<lfloor>x\<rfloor> + 1" using floor_correct [of x] by simp
  ultimately have "\<lfloor>- x\<rfloor> = - \<lfloor>x\<rfloor> - 1" by (intro floor_unique) auto
  then show ?thesis by (auto simp: round_half_even_def Let_def)
qed

section \<open>Powers of the base with integer exponents\<close>

abbreviation bpow :: "int \<Rightarrow> int \<Rightarrow> rat" where
  "bpow b k \<equiv> of_int b powi k"

lemma bpow_pos: "2 \<le> b \<Longrightarrow> 0 < bpow b k"
  by (simp add: zero_less_power_int)

lemma bpow_add: "2 \<le> b \<Longrightarrow> bpow b (k + l) = bpow b k * bpow b l"
  by (simp add: power_int_add)

lemma bpow_diff: "2 \<le> b \<Longrightarrow> bpow b k / bpow b l = bpow b (k - l)"
  by (simp add: power_int_diff)

lemma bpow_nonneg_int: "0 \<le> k \<Longrightarrow> bpow b k = of_int (b ^ nat k)"
  by (simp add: power_int_def)

lemma bpow_mono: "2 \<le> b \<Longrightarrow> k \<le> l \<Longrightarrow> bpow b k \<le> bpow b l"
  by (simp add: power_int_increasing)

lemma bpow_less_iff: "2 \<le> b \<Longrightarrow> bpow b k < bpow b l \<longleftrightarrow> k < l"
  using bpow_mono [of b l k] power_int_strict_increasing [of k l "of_int b :: rat"] by (auto simp: not_le[symmetric])

section \<open>The exponent of a positive rational\<close>

definition ilog :: "int \<Rightarrow> rat \<Rightarrow> int" where
  "ilog b x =
     (let (n, d) = quotient_of x; k = ilen b n - ilen b d
      in if bpow b k \<le> x then k else k - 1)"

lemma ilog_bounds:
  assumes b: "2 \<le> b" and x: "0 < x"
  shows "bpow b (ilog b x) \<le> x" "x < bpow b (ilog b x + 1)"
proof -
  obtain n d where q: "quotient_of x = (n, d)" by force
  have d: "0 < d" using q by (rule quotient_of_denom_pos)
  have xe: "x = of_int n / of_int d" using q by (rule quotient_of_div)
  have n: "0 < n" using x d by (simp add: xe zero_less_divide_iff)
  let ?k = "ilen b n - ilen b d"
  note bn = ilen_bounds [OF b n] and bd = ilen_bounds [OF b d]
  have n1: "bpow b (ilen b n - 1) \<le> of_int n" "of_int n < bpow b (ilen b n)"
    using bn by (simp_all add: bpow_nonneg_int del: of_int_power)
  have d1: "bpow b (ilen b d - 1) \<le> of_int d" "of_int d < bpow b (ilen b d)"
    using bd by (simp_all add: bpow_nonneg_int del: of_int_power)
  have "bpow b (?k - 1) = bpow b (ilen b n - 1) / bpow b (ilen b d)"
    using b by (simp add: bpow_diff algebra_simps)
  also have "\<dots> \<le> x" unfolding xe using n1 d1 d n bpow_pos [OF b]
    by (intro frac_le) (auto intro: less_imp_le)
  finally have lo: "bpow b (?k - 1) \<le> x" .
  have "x < bpow b (ilen b n) / bpow b (ilen b d - 1)" unfolding xe using n1 d1 n bpow_pos [OF b]
    by (intro frac_less) auto
  also have "\<dots> = bpow b (?k + 1)" using b by (simp add: bpow_diff algebra_simps)
  finally have hi: "x < bpow b (?k + 1)" .
  show "bpow b (ilog b x) \<le> x" "x < bpow b (ilog b x + 1)"
    using lo hi by (auto simp: ilog_def q Let_def)
qed

lemma ilog_le_iff:
  assumes "2 \<le> b" "0 < x"
  shows "x < bpow b k \<longleftrightarrow> ilog b x < k"
proof
  assume "x < bpow b k"
  then have "bpow b (ilog b x) < bpow b k" using ilog_bounds(1) [OF assms] by (rule le_less_trans [rotated])
  then show "ilog b x < k" using assms(1) by (simp add: bpow_less_iff)
next
  assume "ilog b x < k"
  then have "bpow b (ilog b x + 1) \<le> bpow b k" using assms(1) by (intro bpow_mono) auto
  then show "x < bpow b k" using ilog_bounds(2) [OF assms] by (rule less_le_trans [rotated])
qed

lemma ilog_mono:
  assumes "2 \<le> b" "0 < x" "x \<le> y"
  shows "ilog b x \<le> ilog b y"
proof -
  have "x < bpow b (ilog b y + 1)" using ilog_bounds(2) [of b y] assms by auto
  then show ?thesis using ilog_le_iff assms by auto
qed

section \<open>Rounding to a number of significant digits\<close>

definition ulp_exp :: "int \<Rightarrow> int \<Rightarrow> int \<Rightarrow> rat \<Rightarrow> int" where
  "ulp_exp b p emin x = max (ilog b \<bar>x\<bar>) emin - p + 1"

definition round_sig :: "int \<Rightarrow> int \<Rightarrow> int \<Rightarrow> rat \<Rightarrow> rat" where
  "round_sig b p emin x =
     (if x = 0 then 0
      else let u = bpow b (ulp_exp b p emin x) in of_int (round_half_even (x / u)) * u)"

definition representable :: "int \<Rightarrow> int \<Rightarrow> int \<Rightarrow> rat \<Rightarrow> bool" where
  "representable b p emin y \<longleftrightarrow>
     (\<exists>m k. y = of_int m * bpow b k \<and> \<bar>m\<bar> < b ^ nat p \<and> emin - p + 1 \<le> k)"

lemma round_sig_0 [simp]: "round_sig b p emin 0 = 0"
  by (simp add: round_sig_def)

lemma round_sig_minus: "round_sig b p emin (- x) = - round_sig b p emin x"
  by (simp add: round_sig_def ulp_exp_def Let_def round_half_even_minus)

lemma round_sig_representable_eq:
  assumes b: "2 \<le> b" and p: "1 \<le> p" and y: "representable b p emin y"
  shows "round_sig b p emin y = y"
proof (cases "y = 0")
  case False
  obtain m k where mk: "y = of_int m * bpow b k" "\<bar>m\<bar> < b ^ nat p" "emin - p + 1 \<le> k"
    using y by (auto simp: representable_def)
  let ?e = "ulp_exp b p emin y"
  have "\<bar>y\<bar> = of_int \<bar>m\<bar> * bpow b k" using bpow_pos [OF b, of k] by (simp add: mk(1) abs_mult)
  also have "\<dots> < bpow b p * bpow b k"
    using mk(2) p bpow_pos [OF b, of k]
    by (intro mult_strict_right_mono) (simp_all add: bpow_nonneg_int del: of_int_power of_int_abs)
  also have "\<dots> = bpow b (k + p)" using b by (simp add: bpow_add)
  finally have "ilog b \<bar>y\<bar> < k + p" using False b by (simp add: ilog_le_iff)
  then have ek: "?e \<le> k" using mk(3) by (simp add: ulp_exp_def)
  have "y / bpow b ?e = of_int m * bpow b (k - ?e)" using b by (simp add: mk(1) flip: bpow_diff)
  also have "\<dots> = of_int (m * b ^ nat (k - ?e))" using ek by (simp add: bpow_nonneg_int)
  finally have "of_int (round_half_even (y / bpow b ?e)) = y / bpow b ?e"
    by (simp del: of_int_mult)
  then show ?thesis using False bpow_pos [OF b, of ?e] b by (simp add: round_sig_def)
qed simp

lemma round_sig_upper:
  assumes b: "2 \<le> b" and p: "1 \<le> p" and x: "0 < x"
  shows "round_half_even (x / bpow b (ulp_exp b p emin x)) \<le> b ^ nat p"
proof -
  let ?e = "ulp_exp b p emin x"
  have "x < bpow b (?e + p)" using b x by (simp add: ilog_le_iff ulp_exp_def)
  then have "x / bpow b ?e \<le> bpow b p"
    using bpow_pos [OF b, of ?e] b by (simp add: divide_simps bpow_add mult.commute)
  then have "x / bpow b ?e \<le> of_int (b ^ nat p)" using p by (simp add: bpow_nonneg_int)
  then show ?thesis by (metis round_half_even_mono round_half_even_of_int)
qed

lemma round_sig_nonneg:
  assumes "2 \<le> b" "0 \<le> x"
  shows "0 \<le> round_sig b p emin x"
proof -
  have "0 \<le> round_half_even (x / bpow b (ulp_exp b p emin x))"
    using round_half_even_mono [of 0 "x / bpow b (ulp_exp b p emin x)"] round_half_even_of_int [of 0]
      assms bpow_pos [OF assms(1)] by (simp add: less_imp_le)
  then show ?thesis using bpow_pos [OF assms(1)] by (simp add: round_sig_def Let_def less_imp_le)
qed

lemma round_sig_representable_pos:
  assumes b: "2 \<le> b" and p: "1 \<le> p" and x: "0 < x"
  shows "representable b p emin (round_sig b p emin x)"
proof -
  let ?e = "ulp_exp b p emin x"
  let ?m = "round_half_even (x / bpow b ?e)"
  have nn: "0 \<le> ?m"
    using round_half_even_mono [of 0 "x / bpow b ?e"] round_half_even_of_int [of 0] x bpow_pos [OF b, of ?e]
    by (simp add: less_imp_le)
  have e: "emin - p + 1 \<le> ?e" by (simp add: ulp_exp_def)
  show ?thesis
  proof (cases "?m = b ^ nat p")
    case True
    have "round_sig b p emin x = of_int (b ^ nat (p - 1)) * bpow b (?e + 1)"
    proof -
      have "round_sig b p emin x = of_int (b ^ nat p) * bpow b ?e" using True x by (simp add: round_sig_def)
      also have "\<dots> = bpow b (p + ?e)" using p b by (simp add: bpow_nonneg_int bpow_add del: of_int_power)
      also have "\<dots> = of_int (b ^ nat (p - 1)) * bpow b (?e + 1)"
        using p b bpow_add [OF b, of "p - 1" "?e + 1"]
        by (simp add: bpow_nonneg_int [of "p - 1"] algebra_simps)
      finally show ?thesis .
    qed
    moreover have "b ^ nat (p - 1) < b ^ nat p" using b p by (intro power_strict_increasing) auto
    ultimately show ?thesis using e b unfolding representable_def
      by (intro exI [of _ "b ^ nat (p - 1)"] exI [of _ "?e + 1"]) auto
  next
    case False
    then have "\<bar>?m\<bar> < b ^ nat p" using round_sig_upper [OF b p x] nn by (simp add: order_less_le)
    then have "round_sig b p emin x = of_int ?m * bpow b ?e \<and> \<bar>?m\<bar> < b ^ nat p \<and> emin - p + 1 \<le> ?e"
      using e x by (simp add: round_sig_def Let_def)
    then show ?thesis unfolding representable_def by blast
  qed
qed

lemma representable_minus: "representable b p emin (- y) \<longleftrightarrow> representable b p emin y"
proof -
  have "representable b p emin y \<Longrightarrow> representable b p emin (- y)" for y
    unfolding representable_def by (metis abs_minus mult_minus_left of_int_minus)
  from this [of y] this [of "- y"] show ?thesis by auto
qed

lemma round_sig_representable:
  assumes b: "2 \<le> b" and p: "1 \<le> p"
  shows "representable b p emin (round_sig b p emin x)"
proof (cases x "0 :: rat" rule: linorder_cases)
  case less
  then have "representable b p emin (round_sig b p emin (- x))"
    using round_sig_representable_pos [OF b p, of "- x"] by simp
  then show ?thesis by (simp add: round_sig_minus representable_minus)
next
  case equal
  have "0 < b ^ nat p" using b by simp
  then show ?thesis using equal unfolding representable_def by (intro exI [of _ 0] exI [of _ "emin - p + 1"]) simp
next
  case greater
  then show ?thesis by (rule round_sig_representable_pos [OF b p])
qed

lemma round_sig_idem:
  assumes "2 \<le> b" "1 \<le> p"
  shows "round_sig b p emin (round_sig b p emin x) = round_sig b p emin x"
  using assms by (intro round_sig_representable_eq round_sig_representable)

lemma round_sig_mono_pos:
  assumes b: "2 \<le> b" and p: "1 \<le> p" and x: "0 < x" and xy: "x \<le> y"
  shows "round_sig b p emin x \<le> round_sig b p emin y"
proof -
  let ?ex = "ulp_exp b p emin x" and ?ey = "ulp_exp b p emin y"
  have le: "?ex \<le> ?ey" using ilog_mono [OF b x xy] x xy by (simp add: ulp_exp_def)
  show ?thesis
  proof (cases "?ex = ?ey")
    case True
    have "round_half_even (x / bpow b ?ex) \<le> round_half_even (y / bpow b ?ey)"
      using True xy bpow_pos [OF b, of ?ey] by (intro round_half_even_mono) (simp add: divide_right_mono less_imp_le)
    then show ?thesis using True x xy bpow_pos [OF b, of ?ey]
      by (simp add: round_sig_def Let_def mult_right_mono less_imp_le)
  next
    case False
    then have lt: "?ex + 1 \<le> ?ey" using le by simp
    have "round_sig b p emin x \<le> of_int (b ^ nat p) * bpow b ?ex"
      using round_sig_upper [OF b p x, of emin] x bpow_pos [OF b, of ?ex]
      by (simp add: round_sig_def Let_def mult_right_mono less_imp_le del: of_int_power)
    also have "\<dots> = bpow b (?ex + p)" using p b by (simp add: bpow_nonneg_int bpow_add mult.commute del: of_int_power)
    also have "\<dots> \<le> bpow b (?ey + (p - 1))" using b lt by (intro bpow_mono) auto
    also have "\<dots> \<le> round_sig b p emin y"
    proof -
      have "emin < ilog b \<bar>y\<bar>" using lt by (auto simp: ulp_exp_def max_def split: if_splits)
      then have "?ey + (p - 1) = ilog b y" using x xy by (simp add: ulp_exp_def)
      then have "bpow b (?ey + (p - 1)) \<le> y" using ilog_bounds(1) [OF b, of y] x xy by simp
      then have "of_int (b ^ nat (p - 1)) \<le> y / bpow b ?ey"
        using bpow_pos [OF b, of ?ey] p b
        by (simp add: bpow_nonneg_int bpow_add mult.commute divide_simps del: of_int_power)
      then have "b ^ nat (p - 1) \<le> round_half_even (y / bpow b ?ey)"
        by (metis round_half_even_mono round_half_even_of_int)
      then have "bpow b (p - 1) * bpow b ?ey \<le> of_int (round_half_even (y / bpow b ?ey)) * bpow b ?ey"
        using bpow_pos [OF b, of ?ey] p by (simp add: bpow_nonneg_int del: of_int_power)
      then show ?thesis using x xy b by (simp add: round_sig_def Let_def bpow_add mult.commute)
    qed
    finally show ?thesis .
  qed
qed

lemma round_sig_mono:
  assumes b: "2 \<le> b" and p: "1 \<le> p" and xy: "x \<le> y"
  shows "round_sig b p emin x \<le> round_sig b p emin y"
proof (cases "0 < x")
  case True
  then show ?thesis using round_sig_mono_pos assms by blast
next
  case x: False
  show ?thesis
  proof (cases "0 \<le> y")
    case True
    have "0 \<le> round_sig b p emin (- x)" using x b by (intro round_sig_nonneg) auto
    then show ?thesis using round_sig_nonneg [OF b True, of p emin] by (simp add: round_sig_minus)
  next
    case False
    then have "round_sig b p emin (- y) \<le> round_sig b p emin (- x)"
      using xy by (intro round_sig_mono_pos [OF b p]) auto
    then show ?thesis by (simp add: round_sig_minus)
  qed
qed

section \<open>Evaluation on numerators and denominators\<close>

definition rhe_div :: "int \<Rightarrow> int \<Rightarrow> int" where
  "rhe_div n d =
     (let f = n div d; r = 2 * (n mod d)
      in if r < d then f else if d < r then f + 1 else if even f then f else f + 1)"

lemma rhe_div_eq:
  assumes d: "0 < d"
  shows "rhe_div n d = round_half_even (of_int n / of_int d)"
proof -
  have f: "\<lfloor>(of_int n :: rat) / of_int d\<rfloor> = n div d" by (simp add: floor_divide_of_int_eq)
  have "(of_int n :: rat) = of_int (n div d) * of_int d + of_int (n mod d)"
    by (metis div_mult_mod_eq of_int_add of_int_mult)
  then have frac: "(of_int n :: rat) / of_int d - of_int (n div d) = of_int (n mod d) / of_int d"
    using d by (simp add: field_simps)
  have lt: "(of_int (n mod d) / of_int d < (1 / 2 :: rat)) = (2 * (n mod d) < d)"
  proof -
    have "(of_int (n mod d) / of_int d < (1 / 2 :: rat)) = ((of_int (2 * (n mod d)) :: rat) < of_int d)"
      using d by (simp add: divide_simps mult.commute)
    then show ?thesis by (simp only: of_int_less_iff)
  qed
  have gt: "((1 / 2 :: rat) < of_int (n mod d) / of_int d) = (d < 2 * (n mod d))"
  proof -
    have "((1 / 2 :: rat) < of_int (n mod d) / of_int d) = ((of_int d :: rat) < of_int (2 * (n mod d)))"
      using d by (simp add: divide_simps mult.commute)
    then show ?thesis by (simp only: of_int_less_iff)
  qed
  show ?thesis by (simp only: rhe_div_def round_half_even_def Let_def f frac lt gt)
qed

definition ilog_q :: "int \<Rightarrow> int \<Rightarrow> int \<Rightarrow> int" where
  "ilog_q b n d =
     (let k = ilen b n - ilen b d
      in if (if 0 \<le> k then d * ipow b k \<le> n else d \<le> n * ipow b (- k)) then k else k - 1)"

definition round_sig_q :: "int \<Rightarrow> int \<Rightarrow> int \<Rightarrow> int \<Rightarrow> int \<Rightarrow> rat" where
  "round_sig_q b p emin n d =
     (if n = 0 then 0
      else let e = max (ilog_q b \<bar>n\<bar> d) emin - p + 1
           in if 0 \<le> e then of_int (rhe_div n (d * ipow b e) * ipow b e)
              else Fract (rhe_div (n * ipow b (- e)) d) (ipow b (- e)))"

lemma bpow_neg: "k \<le> 0 \<Longrightarrow> bpow b k = 1 / of_int (ipow b (- k))"
  by (simp add: ipow_eq power_int_def inverse_eq_divide power_one_over)

lemma bpow_pos_ipow: "0 \<le> k \<Longrightarrow> bpow b k = of_int (ipow b k)"
  by (simp add: ipow_eq power_int_def)

lemma ipow_pos: "2 \<le> b \<Longrightarrow> 0 < ipow b k"
  by (simp add: ipow_eq)

lemma ilog_q_eq:
  assumes b: "2 \<le> b" and q: "quotient_of x = (n, d)"
  shows "ilog b x = ilog_q b n d"
proof -
  have d: "0 < d" using q by (rule quotient_of_denom_pos)
  have xe: "x = of_int n / of_int d" using q by (rule quotient_of_div)
  let ?k = "ilen b n - ilen b d"
  have "bpow b ?k \<le> x \<longleftrightarrow> (if 0 \<le> ?k then d * ipow b ?k \<le> n else d \<le> n * ipow b (- ?k))"
  proof (cases "0 \<le> ?k")
    case True
    then have "bpow b ?k \<le> x \<longleftrightarrow> (of_int (d * ipow b ?k) :: rat) \<le> of_int n"
      using d by (simp add: xe bpow_pos_ipow pos_le_divide_eq mult.commute)
    with True show ?thesis by (simp only: of_int_le_iff if_True)
  next
    case False
    then have "bpow b ?k \<le> x \<longleftrightarrow> (of_int d :: rat) \<le> of_int (n * ipow b (- ?k))"
      using d ipow_pos [OF b, of "- ?k"]
      by (simp add: xe bpow_neg pos_le_divide_eq pos_divide_le_eq mult.commute)
    with False show ?thesis by (simp only: of_int_le_iff if_False)
  qed
  then show ?thesis by (simp add: ilog_def ilog_q_def q Let_def)
qed

lemma round_sig_code:
  assumes b: "2 \<le> b"
  shows "round_sig b p emin x = (case quotient_of x of (n, d) \<Rightarrow> round_sig_q b p emin n d)"
proof -
  obtain n d where q: "quotient_of x = (n, d)" by force
  have d: "0 < d" using q by (rule quotient_of_denom_pos)
  have xe: "x = of_int n / of_int d" using q by (rule quotient_of_div)
  have e: "ulp_exp b p emin x = max (ilog_q b \<bar>n\<bar> d) emin - p + 1"
    using ilog_q_eq [OF b, of "\<bar>x\<bar>" "\<bar>n\<bar>" d] q by (simp add: ulp_exp_def rat_abs_code)
  let ?e = "max (ilog_q b \<bar>n\<bar> d) emin - p + 1"
  have "round_sig b p emin x = round_sig_q b p emin n d"
  proof (cases "x = 0")
    case True
    then show ?thesis using xe d by (simp add: round_sig_q_def)
  next
    case x: False
    then have n: "n \<noteq> 0" using xe by auto
    show ?thesis
    proof (cases "0 \<le> ?e")
      case True
      have "x / bpow b ?e = of_int n / of_int (d * ipow b ?e)" using True by (simp add: xe bpow_pos_ipow)
      then have "rhe_div n (d * ipow b ?e) = round_half_even (x / bpow b ?e)"
        using d ipow_pos [OF b] by (simp add: rhe_div_eq)
      then show ?thesis using x n True
        by (simp add: round_sig_def round_sig_q_def e Let_def bpow_pos_ipow)
    next
      case False
      have "x / bpow b ?e = of_int (n * ipow b (- ?e)) / of_int d" using False by (simp add: xe bpow_neg)
      then have "rhe_div (n * ipow b (- ?e)) d = round_half_even (x / bpow b ?e)"
        using d by (simp only: rhe_div_eq)
      then show ?thesis using x n False
        by (simp add: round_sig_def round_sig_q_def e Let_def bpow_neg Fract_of_int_quotient)
    qed
  qed
  then show ?thesis by (simp add: q)
qed

end
