(* ===== verification/Prelude.thy ===== *)
theory Prelude
  imports Complex_Main "HOL-Library.AList" "HOL-Library.Char_ord" "HOL-Library.List_Lexorder"
begin

text \<open>
  Shared vocabulary of the development.

  \<^item> Python exceptions are values: \<^verbatim>\<open>app/core/errors.py\<close> and the built-in exceptions the
    code raises are constructors of \<open>exn_class\<close>, an exception is a class with its message.
  \<^item> An operation of a stateful component returns the state it leaves behind together with a
    result, \<open>Inl e\<close> when it raised. Python does not undo assignments made before a
    \<^verbatim>\<open>raise\<close>, so the state is part of the outcome on both branches.
  \<^item> A Python \<^verbatim>\<open>dict\<close> is an association list with distinct keys in insertion order:
    \<open>dict_set\<close> overwrites in place or appends, as CPython does, and iteration
    (\<^verbatim>\<open>.values()\<close>, \<^verbatim>\<open>.items()\<close>) follows the list.
  \<^item> Instants are integers, microseconds since the epoch in UTC.
\<close>

named_theorems dict_simps \<open>lookup after an update of an insertion-ordered dictionary\<close>
named_theorems outcome_simps \<open>unfolding of the outcome combinators\<close>
named_theorems valid_defs \<open>definitions of the schema validators\<close>
named_theorems step_intros \<open>introduction rules of the step relations\<close>

section \<open>Exceptions and outcomes\<close>

datatype exn_class =
    CapitalCipherError | ValidationError | DataQualityError | MarketDataError | AgentError
  | AgentTimeoutError | RiskError | AuditError | DatabaseError | ConfigurationError
  | SecurityError | SystemStateError | ExternalServiceError | AmbiguousExecutionError
  | ExecutionRejectedError | KillSwitchActiveError
  | ValueError | KeyError | IndexError | ZeroDivisionError | PydanticValidationError | TransportError

datatype exn = Exn (exn_class: exn_class) (exn_message: string)

type_synonym 'a result = "exn + 'a"
type_synonym ('s, 'a) outcome = "'s \<times> 'a result"
type_synonym time = int

abbreviation raise :: "exn_class \<Rightarrow> string \<Rightarrow> 'a result" where
  "raise c m \<equiv> Inl (Exn c m)"

definition bind_result :: "'a result \<Rightarrow> ('a \<Rightarrow> 'b result) \<Rightarrow> 'b result" where
  [outcome_simps]: "bind_result r f = (case r of Inl e \<Rightarrow> Inl e | Inr x \<Rightarrow> f x)"

definition bind_outcome ::
  "('s, 'a) outcome \<Rightarrow> ('s \<Rightarrow> 'a \<Rightarrow> ('s, 'b) outcome) \<Rightarrow> ('s, 'b) outcome" where
  [outcome_simps]:
    "bind_outcome m f = (case m of (s, Inl e) \<Rightarrow> (s, Inl e) | (s, Inr x) \<Rightarrow> f s x)"

text \<open>Evaluation looks at the first computation before it enters the continuation.\<close>

declare bind_result_def [code_unfold] bind_outcome_def [code_unfold]

lemma bind_outcome_Inr:
  "bind_outcome m f = (t, Inr y) \<longleftrightarrow> (\<exists>s x. m = (s, Inr x) \<and> f s x = (t, Inr y))"
  by (auto simp: bind_outcome_def split: prod.splits sum.splits)

lemma bind_result_Inr: "bind_result m f = Inr y \<longleftrightarrow> (\<exists>x. m = Inr x \<and> f x = Inr y)"
  by (auto simp: bind_result_def split: sum.splits)

fun is_ok :: "'a result \<Rightarrow> bool" where
  "is_ok (Inl _) = False"
| "is_ok (Inr _) = True"

lemma is_ok_iff: "is_ok r \<longleftrightarrow> (\<exists>x. r = Inr x)"
  by (cases r) auto

text \<open>\<^verbatim>\<open>type(exc).__name__\<close>.\<close>

fun class_name :: "exn_class \<Rightarrow> string" where
  "class_name CapitalCipherError = ''CapitalCipherError''"
| "class_name ValidationError = ''ValidationError''"
| "class_name DataQualityError = ''DataQualityError''"
| "class_name MarketDataError = ''MarketDataError''"
| "class_name AgentError = ''AgentError''"
| "class_name AgentTimeoutError = ''AgentTimeoutError''"
| "class_name RiskError = ''RiskError''"
| "class_name AuditError = ''AuditError''"
| "class_name DatabaseError = ''DatabaseError''"
| "class_name ConfigurationError = ''ConfigurationError''"
| "class_name SecurityError = ''SecurityError''"
| "class_name SystemStateError = ''SystemStateError''"
| "class_name ExternalServiceError = ''ExternalServiceError''"
| "class_name AmbiguousExecutionError = ''AmbiguousExecutionError''"
| "class_name ExecutionRejectedError = ''ExecutionRejectedError''"
| "class_name KillSwitchActiveError = ''KillSwitchActiveError''"
| "class_name ValueError = ''ValueError''"
| "class_name KeyError = ''KeyError''"
| "class_name IndexError = ''IndexError''"
| "class_name ZeroDivisionError = ''ZeroDivisionError''"
| "class_name PydanticValidationError = ''ValidationError''"
| "class_name TransportError = ''TransportError''"

section \<open>Insertion-ordered dictionaries\<close>

type_synonym 'v dict = "(string \<times> 'v) list"

abbreviation dict_get :: "('k \<times> 'v) list \<Rightarrow> 'k \<Rightarrow> 'v option" where
  "dict_get d k \<equiv> map_of d k"

abbreviation dict_set :: "'k \<Rightarrow> 'v \<Rightarrow> ('k \<times> 'v) list \<Rightarrow> ('k \<times> 'v) list" where
  "dict_set k v d \<equiv> AList.update k v d"

abbreviation dict_pop :: "'k \<Rightarrow> ('k \<times> 'v) list \<Rightarrow> ('k \<times> 'v) list" where
  "dict_pop k d \<equiv> AList.delete k d"

definition dict_values :: "('k \<times> 'v) list \<Rightarrow> 'v list" where
  "dict_values d = map snd d"

definition dict_wf :: "('k \<times> 'v) list \<Rightarrow> bool" where
  "dict_wf d \<longleftrightarrow> distinct (map fst d)"

text \<open>\<^verbatim>\<open>{k(x): x for x in xs}\<close>: later elements overwrite earlier ones, in place.\<close>

definition dict_of :: "('a \<Rightarrow> 'k) \<Rightarrow> 'a list \<Rightarrow> ('k \<times> 'a) list" where
  "dict_of key xs = fold (\<lambda>x d. dict_set (key x) x d) xs []"

lemma dict_get_set [dict_simps]: "dict_get (dict_set k v d) k' = (if k' = k then Some v else dict_get d k')"
  by (simp add: update_conv')

lemma dict_get_pop [dict_simps]: "dict_get (dict_pop k d) k' = (if k' = k then None else dict_get d k')"
  by (simp add: delete_conv')

lemma dict_wf_Nil [simp]: "dict_wf []"
  by (simp add: dict_wf_def)

lemma dict_wf_set [simp]: "dict_wf d \<Longrightarrow> dict_wf (dict_set k v d)"
  by (simp add: dict_wf_def distinct_update)

lemma dict_wf_pop [simp]: "dict_wf d \<Longrightarrow> dict_wf (dict_pop k d)"
  by (simp add: dict_wf_def distinct_delete)

lemma dict_wf_fold_set:
  "dict_wf d \<Longrightarrow> dict_wf (fold (\<lambda>x d. dict_set (key x) x d) xs d)"
  by (induction xs arbitrary: d) auto

lemma dict_wf_dict_of [simp]: "dict_wf (dict_of key xs)"
  by (simp add: dict_of_def dict_wf_fold_set)

lemma set_dict_values: "dict_wf d \<Longrightarrow> set (dict_values d) = ran (dict_get d)"
  by (simp add: dict_wf_def dict_values_def ran_distinct)

lemma dict_get_in_values: "dict_get d k = Some v \<Longrightarrow> v \<in> set (dict_values d)"
  by (force simp: dict_values_def dest: map_of_SomeD)

lemma dict_get_fold_set:
  "dict_get (fold (\<lambda>x d. dict_set (key x) x d) xs d) k = Some v \<Longrightarrow>
     v \<in> set xs \<and> key v = k \<or> dict_get d k = Some v"
  by (induction xs arbitrary: d) (fastforce simp: dict_simps split: if_splits)+

lemma dict_get_dict_of: "dict_get (dict_of key xs) k = Some v \<Longrightarrow> v \<in> set xs \<and> key v = k"
  by (auto simp: dict_of_def dest: dict_get_fold_set)

lemma dict_get_fold_set_None:
  "dict_get (fold (\<lambda>x d. dict_set (key x) x d) xs d) k = None \<longleftrightarrow>
     k \<notin> key ` set xs \<and> dict_get d k = None"
  by (induction xs arbitrary: d) (auto simp: dict_simps)

lemma dict_get_dict_of_None: "dict_get (dict_of key xs) k = None \<longleftrightarrow> k \<notin> key ` set xs"
  by (simp add: dict_of_def dict_get_fold_set_None)

section \<open>Dictionaries indexed by a field of their values\<close>

definition indexed :: "('v \<Rightarrow> 'k) \<Rightarrow> ('k \<times> 'v) list \<Rightarrow> bool" where
  "indexed key d \<longleftrightarrow> dict_wf d \<and> (\<forall>(k, v) \<in> set d. key v = k)"

lemma indexed_Nil [simp]: "indexed key []"
  by (simp add: indexed_def)

lemma indexed_wf: "indexed key d \<Longrightarrow> dict_wf d"
  by (simp add: indexed_def)

lemma indexed_get:
  assumes "indexed key d"
  shows "dict_get d k = Some v \<longleftrightarrow> v \<in> set (dict_values d) \<and> key v = k"
proof
  assume "dict_get d k = Some v"
  then show "v \<in> set (dict_values d) \<and> key v = k"
    using assms by (auto simp: indexed_def intro: dict_get_in_values dest: map_of_SomeD)
next
  assume "v \<in> set (dict_values d) \<and> key v = k"
  then obtain j where "(j, v) \<in> set d" "key v = k" by (auto simp: dict_values_def)
  with assms show "dict_get d k = Some v"
    by (auto simp: indexed_def dict_wf_def intro!: map_of_is_SomeI)
qed

lemma indexed_member: "indexed key d \<Longrightarrow> v \<in> set (dict_values d) \<longleftrightarrow> dict_get d (key v) = Some v"
  by (simp add: indexed_get)

lemma indexed_get_None:
  "indexed key d \<Longrightarrow> dict_get d k = None \<longleftrightarrow> (\<forall>v \<in> set (dict_values d). key v \<noteq> k)"
  by (force simp: indexed_def dict_values_def map_of_eq_None_iff)

lemma set_update_values: "set (dict_set k v d) \<subseteq> insert (k, v) (set d)"
  by (induction d) auto

lemma indexed_set: "indexed key d \<Longrightarrow> indexed key (dict_set (key v) v d)"
  using set_update_values [of "key v" v d] by (auto simp: indexed_def)

lemma set_values_set:
  assumes "indexed key d" "dict_get d (key v) \<in> {None, Some v}"
  shows "set (dict_values (dict_set (key v) v d)) = insert v (set (dict_values d))"
proof (rule set_eqI)
  fix w
  have "w \<in> set (dict_values (dict_set (key v) v d)) \<longleftrightarrow> (if key w = key v then w = v else dict_get d (key w) = Some w)"
    using indexed_member [OF indexed_set [OF assms(1)], of w v] by (auto simp: dict_simps)
  also have "\<dots> \<longleftrightarrow> w \<in> insert v (set (dict_values d))"
    using assms(2) by (auto simp: indexed_member [OF assms(1)])
  finally show "w \<in> set (dict_values (dict_set (key v) v d)) \<longleftrightarrow> w \<in> insert v (set (dict_values d))" .
qed

lemma indexed_fold_set: "indexed key d \<Longrightarrow> indexed key (fold (\<lambda>x m. dict_set (key x) x m) xs d)"
  by (induction xs arbitrary: d) (simp_all add: indexed_set)

lemma get_fold_set:
  assumes "distinct (map key xs)"
  shows "dict_get (fold (\<lambda>x m. dict_set (key x) x m) xs d) k =
    (case List.find (\<lambda>x. key x = k) xs of Some x \<Rightarrow> Some x | None \<Rightarrow> dict_get d k)"
  using assms
proof (induction xs arbitrary: d)
  case (Cons x xs)
  have "List.find (\<lambda>y. key y = k) xs = None" if "key x = k"
    unfolding find_None_iff using Cons.prems that by (auto simp: image_iff)
  with Cons show ?case by (auto simp: dict_simps split: option.splits)
qed simp

lemma indexed_same_values:
  assumes d: "indexed key d" and d': "indexed key d'" and same: "set (dict_values d) = set (dict_values d')"
  shows "dict_get d k = dict_get d' k"
proof -
  have same_get: "dict_get d k = Some v \<longleftrightarrow> dict_get d' k = Some v" for v
    unfolding indexed_get [OF d] indexed_get [OF d'] same ..
  show ?thesis
  proof (cases "dict_get d k")
    case None
    then have "dict_get d' k \<noteq> Some v" for v using same_get [of v] by simp
    then have "dict_get d' k = None" by (metis not_Some_eq)
    with None show ?thesis by simp
  next
    case (Some v)
    with same_get [of v] show ?thesis by simp
  qed
qed

lemma dict_of_get:
  assumes "inj_on key (set xs)"
  shows "dict_get (dict_of key xs) k = Some v \<longleftrightarrow> v \<in> set xs \<and> key v = k"
proof
  assume "v \<in> set xs \<and> key v = k"
  then obtain w where "dict_get (dict_of key xs) k = Some w"
    by (metis dict_get_dict_of_None image_eqI not_Some_eq)
  with \<open>v \<in> set xs \<and> key v = k\<close> assms show "dict_get (dict_of key xs) k = Some v"
    by (metis dict_get_dict_of inj_onD)
qed (rule dict_get_dict_of)

lemma indexed_dict_of: "indexed key (dict_of key xs)"
  by (simp add: dict_of_def indexed_fold_set)

lemma indexed_inj: "indexed key d \<Longrightarrow> inj_on key (set (dict_values d))"
  by (rule inj_onI) (metis indexed_get option.inject)

section \<open>Related lists\<close>

lemma list_all2_source: "list_all2 P xs ys \<Longrightarrow> y \<in> set ys \<Longrightarrow> \<exists>x \<in> set xs. P x y"
  by (induction rule: list_all2_induct) auto

lemma list_all2_image: "list_all2 P xs ys \<Longrightarrow> x \<in> set xs \<Longrightarrow> \<exists>y \<in> set ys. P x y"
  by (induction rule: list_all2_induct) auto

lemma list_all2_members: "list_all2 P xs ys \<Longrightarrow> list_all2 (\<lambda>x y. x \<in> set xs \<and> P x y) xs ys"
  by (auto simp: list_all2_conv_all_nth)

section \<open>Strings\<close>

text \<open>\<^verbatim>\<open>sorted(set(ws))\<close> on ASCII strings: code point order.\<close>

definition sorted_set :: "string list \<Rightarrow> string list" where
  "sorted_set ws = sort (remdups ws)"

lemma set_sorted_set [simp]: "set (sorted_set ws) = set ws"
  by (simp add: sorted_set_def)

definition is_space :: "char \<Rightarrow> bool" where
  "is_space c \<longleftrightarrow> c \<in> {CHR '' '', CHR 0x09, CHR 0x0A, CHR 0x0B, CHR 0x0C, CHR 0x0D,
                       CHR 0x1C, CHR 0x1D, CHR 0x1E, CHR 0x1F}"

definition strip :: "string \<Rightarrow> string" where
  "strip s = rev (dropWhile is_space (rev (dropWhile is_space s)))"

lemma strip_Nil [simp]: "strip [] = []"
  by (simp add: strip_def)

definition to_upper :: "string \<Rightarrow> string" where
  "to_upper = map (\<lambda>c. if CHR ''a'' \<le> c \<and> c \<le> CHR ''z'' then char_of (of_char c - 32 :: nat) else c)"

text \<open>\<^verbatim>\<open>sep.join(xs)\<close> and the decimal text of an integer.\<close>

fun join :: "string \<Rightarrow> string list \<Rightarrow> string" where
  "join sep [] = []"
| "join sep [x] = x"
| "join sep (x # xs) = x @ sep @ join sep xs"

function decimal :: "nat \<Rightarrow> string" where
  "decimal n = (if n < 10 then [char_of (48 + n)] else decimal (n div 10) @ [char_of (48 + n mod 10)])"
  by auto
termination by (relation "measure id") auto

declare decimal.simps [simp del]

definition str_int :: "int \<Rightarrow> string" where
  "str_int n = (if n < 0 then CHR ''-'' # decimal (nat (- n)) else decimal (nat n))"

text \<open>\<^verbatim>\<open>xs[i:]\<close>: a negative start counts from the end.\<close>

definition slice_from :: "int \<Rightarrow> 'a list \<Rightarrow> 'a list" where
  "slice_from i xs = drop (nat (if i < 0 then max 0 (int (length xs) + i) else i)) xs"

end
