(* ===== verification/PyFloat.thy ===== *)
theory PyFloat
  imports Rounding Prelude
begin

text \<open>
  Python's \<^verbatim>\<open>float\<close>: IEEE 754 binary64 numbers as the rationals they denote. Every operation is the
  exact operation followed by one rounding to nearest, ties to even (\<open>fl\<close>), subnormals
  included, so the sums, products, quotients and comparisons of the definitions below are those
  the interpreter computes. \<open>flt q\<close> is the literal nearest to the rational \<open>q\<close>.

  The type covers the finite values: infinities and NaN are outside the model, and a result too
  large for binary64 keeps growing instead of becoming infinite. The two zeros are one value, as
  they are for Python's comparisons. \<open>x / 0\<close> is 0 in HOL; the definitions test a divisor
  that can be zero and raise as Python does.
\<close>

named_theorems fval_simps \<open>the rational value of a floating-point operation\<close>

section \<open>Rounding to binary64\<close>

definition fl :: "rat \<Rightarrow> rat" where
  "fl x = round_sig 2 53 (- 1022) x"

lemma fl_code [code]: "fl x = (case quotient_of x of (n, d) \<Rightarrow> round_sig_q 2 53 (- 1022) n d)"
  by (simp add: fl_def round_sig_code)

lemma fl_0 [simp]: "fl 0 = 0"
  by (simp add: fl_def)

lemma fl_idem [simp]: "fl (fl x) = fl x"
  by (simp add: fl_def round_sig_idem)

lemma fl_mono: "x \<le> y \<Longrightarrow> fl x \<le> fl y"
  by (simp add: fl_def round_sig_mono)

lemma fl_minus: "fl (- x) = - fl x"
  by (simp add: fl_def round_sig_minus)

lemma fl_integer:
  assumes "\<bar>n\<bar> < 2 ^ 53"
  shows "fl (of_int n) = of_int n"
proof -
  have "representable 2 53 (- 1022) (of_int n)"
    unfolding representable_def using assms by (intro exI [of _ n] exI [of _ "0 :: int"]) simp
  then show ?thesis by (simp add: fl_def round_sig_representable_eq)
qed

section \<open>The type of finite floats\<close>

typedef pyfloat = "{x :: rat. fl x = x}" morphisms fval mk_pyfloat
  by (rule exI [of _ 0]) simp

setup_lifting type_definition_pyfloat

lift_definition flt :: "rat \<Rightarrow> pyfloat" is fl
  by simp

lemma fl_fval [simp]: "fl (fval a) = fval a"
  using fval [of a] by simp

lemma fval_flt [simp]: "fval (flt x) = fl x"
  by (rule flt.rep_eq)

lemma flt_fval [simp]: "flt (fval a) = a"
  by (simp add: fval_inject [symmetric])

instantiation pyfloat :: "{zero, one, plus, minus, uminus, times, inverse, abs, equal}"
begin

lift_definition zero_pyfloat :: pyfloat is 0 by simp
lift_definition one_pyfloat :: pyfloat is 1 using fl_integer [of 1] by simp
lift_definition plus_pyfloat :: "pyfloat \<Rightarrow> pyfloat \<Rightarrow> pyfloat" is "\<lambda>x y. fl (x + y)" by simp
lift_definition minus_pyfloat :: "pyfloat \<Rightarrow> pyfloat \<Rightarrow> pyfloat" is "\<lambda>x y. fl (x - y)" by simp
lift_definition uminus_pyfloat :: "pyfloat \<Rightarrow> pyfloat" is "\<lambda>x. - x" by (simp add: fl_minus)
lift_definition times_pyfloat :: "pyfloat \<Rightarrow> pyfloat \<Rightarrow> pyfloat" is "\<lambda>x y. fl (x * y)" by simp
lift_definition divide_pyfloat :: "pyfloat \<Rightarrow> pyfloat \<Rightarrow> pyfloat" is "\<lambda>x y. fl (x / y)" by simp
lift_definition inverse_pyfloat :: "pyfloat \<Rightarrow> pyfloat" is "\<lambda>x. fl (1 / x)" by simp
lift_definition abs_pyfloat :: "pyfloat \<Rightarrow> pyfloat" is "\<lambda>x. \<bar>x\<bar>" by (auto simp: abs_if fl_minus)
lift_definition equal_pyfloat :: "pyfloat \<Rightarrow> pyfloat \<Rightarrow> bool" is "(=)" .

instance
  by standard (simp add: equal_pyfloat.rep_eq fval_inject)

end

instantiation pyfloat :: linorder
begin

lift_definition less_eq_pyfloat :: "pyfloat \<Rightarrow> pyfloat \<Rightarrow> bool" is "(\<le>)" .
lift_definition less_pyfloat :: "pyfloat \<Rightarrow> pyfloat \<Rightarrow> bool" is "(<)" .

instance
  by standard (transfer; auto)+

end

lemmas pyfloat_ops [fval_simps] =
  zero_pyfloat.rep_eq one_pyfloat.rep_eq plus_pyfloat.rep_eq minus_pyfloat.rep_eq
  uminus_pyfloat.rep_eq times_pyfloat.rep_eq divide_pyfloat.rep_eq abs_pyfloat.rep_eq

lemmas pyfloat_order [fval_simps] = less_eq_pyfloat.rep_eq less_pyfloat.rep_eq

section \<open>Order properties of the rounded operations\<close>

lemma flt_le: "x \<le> fval a \<Longrightarrow> flt x \<le> a"
  using fl_mono [of x "fval a"] by (simp add: fval_simps)

lemma flt_ge: "fval a \<le> x \<Longrightarrow> a \<le> flt x"
  using fl_mono [of "fval a" x] by (simp add: fval_simps)

lemma flt_mono: "x \<le> y \<Longrightarrow> flt x \<le> flt y"
  by (simp add: fval_simps fl_mono)

lemma flt_0 [simp]: "flt 0 = 0"
  by (simp add: fval_inject [symmetric] fval_simps)

lemma pyfloat_add_mono: "(a :: pyfloat) \<le> b \<Longrightarrow> c \<le> d \<Longrightarrow> a + c \<le> b + d"
  by (simp add: fval_simps fl_mono)

lemma pyfloat_diff_mono: "(a :: pyfloat) \<le> b \<Longrightarrow> d \<le> c \<Longrightarrow> a - c \<le> b - d"
  by (simp add: fval_simps fl_mono)

lemma pyfloat_add_nonneg: "(0 :: pyfloat) \<le> a \<Longrightarrow> 0 \<le> b \<Longrightarrow> 0 \<le> a + b"
  using fl_mono [of 0 "fval a + fval b"] by (simp add: fval_simps)

lemma pyfloat_le_add: "(0 :: pyfloat) \<le> b \<Longrightarrow> a \<le> a + b"
  using fl_mono [of "fval a" "fval a + fval b"] by (simp add: fval_simps)

lemma pyfloat_mult_nonneg: "(0 :: pyfloat) \<le> a \<Longrightarrow> 0 \<le> b \<Longrightarrow> 0 \<le> a * b"
  using fl_mono [of 0 "fval a * fval b"] by (simp add: fval_simps)

lemma pyfloat_mult_right_mono: "(a :: pyfloat) \<le> b \<Longrightarrow> 0 \<le> c \<Longrightarrow> a * c \<le> b * c"
  by (simp add: fval_simps fl_mono mult_right_mono)

lemma pyfloat_mult_le_left: "(0 :: pyfloat) \<le> a \<Longrightarrow> b \<le> 1 \<Longrightarrow> a * b \<le> a"
  using fl_mono [of "fval a * fval b" "fval a"] by (simp add: fval_simps mult_left_le)

lemma pyfloat_divide_nonneg: "(0 :: pyfloat) \<le> a \<Longrightarrow> 0 \<le> b \<Longrightarrow> 0 \<le> a / b"
  using fl_mono [of 0 "fval a / fval b"] by (simp add: fval_simps)

lemma pyfloat_divide_right_mono: "(a :: pyfloat) \<le> b \<Longrightarrow> 0 \<le> c \<Longrightarrow> a / c \<le> b / c"
  by (simp add: fval_simps fl_mono divide_right_mono)

lemma pyfloat_diff_le: "(0 :: pyfloat) \<le> b \<Longrightarrow> a - b \<le> a"
  using fl_mono [of "fval a - fval b" "fval a"] by (simp add: fval_simps)

lemma pyfloat_diff_nonneg: "(b :: pyfloat) \<le> a \<Longrightarrow> 0 \<le> a - b"
  using fl_mono [of 0 "fval a - fval b"] by (simp add: fval_simps)

lemma pyfloat_minus_nonneg [simp]: "(0 :: pyfloat) \<le> - a \<longleftrightarrow> a \<le> 0"
  by (simp add: fval_simps)

lemma pyfloat_minus_minus [simp]: "- (- a) = (a :: pyfloat)"
  by (simp add: fval_inject [symmetric] fval_simps)

lemma pyfloat_abs_nonneg [simp]: "(0 :: pyfloat) \<le> \<bar>a\<bar>"
  by (simp add: fval_simps)

lemma pyfloat_add_0 [simp]: "a + 0 = (a :: pyfloat)" "0 + a = a" "a - 0 = a"
  by (simp_all add: fval_inject [symmetric] fval_simps)

lemma pyfloat_diff_self [simp]: "a - a = (0 :: pyfloat)"
  by (simp add: fval_inject [symmetric] fval_simps)

lemma pyfloat_mult_1 [simp]: "a * 1 = (a :: pyfloat)" "1 * a = a" "a / 1 = a"
  by (simp_all add: fval_inject [symmetric] fval_simps)

lemma fl_double: "fl (2 * fval a) = 2 * fval a"
proof -
  have "representable 2 53 (- 1022) (fval a)"
    using round_sig_representable [of 2 53 "- 1022" "fval a"] fl_fval [of a] by (simp add: fl_def)
  then obtain m k where "fval a = of_int m * bpow 2 k" "\<bar>m\<bar> < 2 ^ nat 53" "- 1022 - 53 + 1 \<le> k"
    by (auto simp: representable_def)
  then have "representable 2 53 (- 1022) (2 * fval a)"
    unfolding representable_def using bpow_add [of 2 k 1]
    by (intro exI [of _ m] exI [of _ "k + 1"]) (simp add: bpow_nonneg_int [of 1])
  then show ?thesis by (simp add: fl_def round_sig_representable_eq)
qed

text \<open>The midpoint of two floats lies between them.\<close>

lemma pyfloat_midpoint:
  assumes "a \<le> b"
  shows "a \<le> (a + b) / flt 2" and "(a + b) / flt 2 \<le> b"
proof -
  have two: "fl 2 = 2" using fl_integer [of 2] by simp
  have "2 * fval a \<le> fl (fval a + fval b)"
    using fl_mono [of "2 * fval a" "fval a + fval b"] assms by (simp add: fl_double fval_simps)
  then have "fval a \<le> fl (fval a + fval b) / 2" by simp
  from fl_mono [OF this] show "a \<le> (a + b) / flt 2" by (simp add: fval_simps two)
  have "fl (fval a + fval b) \<le> 2 * fval b"
    using fl_mono [of "fval a + fval b" "2 * fval b"] assms by (simp add: fl_double fval_simps)
  then have "fl (fval a + fval b) / 2 \<le> fval b" by simp
  from fl_mono [OF this] show "(a + b) / flt 2 \<le> b" by (simp add: fval_simps two)
qed

section \<open>Built-in functions on floats\<close>

text \<open>
  \<^verbatim>\<open>round(x, n)\<close>: CPython rounds the exact binary value to \<open>n\<close> decimals, ties to even, and takes
  the float nearest to that decimal.
\<close>

definition py_round :: "pyfloat \<Rightarrow> nat \<Rightarrow> pyfloat" where
  "py_round x n = flt (of_int (round_half_even (fval x * 10 ^ n)) / 10 ^ n)"

lemma py_round_mono: "x \<le> y \<Longrightarrow> py_round x n \<le> py_round y n"
  unfolding py_round_def
  by (intro flt_mono divide_right_mono, simp_all only: of_int_le_iff, intro round_half_even_mono)
    (simp_all add: fval_simps mult_right_mono)

lemma round_half_even_0 [simp]: "round_half_even 0 = 0"
  using round_half_even_of_int [of 0] by simp

lemma py_round_0 [simp]: "py_round 0 n = 0"
  by (simp add: py_round_def fval_simps)

lemma py_round_nonneg: "0 \<le> x \<Longrightarrow> 0 \<le> py_round x n"
  using py_round_mono [of 0 x n] by simp

text \<open>
  \<^verbatim>\<open>sum\<close> over floats as CPython 3.12 and later compute it: Neumaier's compensated summation, started
  from the first element.
\<close>

fun neumaier :: "pyfloat \<Rightarrow> pyfloat \<Rightarrow> pyfloat list \<Rightarrow> pyfloat" where
  "neumaier s c [] = s + c"
| "neumaier s c (x # xs) =
     (let t = s + x
      in neumaier t (if \<bar>x\<bar> \<le> \<bar>s\<bar> then c + ((s - t) + x) else c + ((x - t) + s)) xs)"

fun py_sum :: "pyfloat list \<Rightarrow> pyfloat" where
  "py_sum [] = 0"
| "py_sum (x # xs) = neumaier x 0 xs"

lemma py_sum_single [simp]: "py_sum [x] = x"
  by simp

definition py_ceil :: "pyfloat \<Rightarrow> int" where
  "py_ceil x = \<lceil>fval x\<rceil>"

text \<open>\<^verbatim>\<open>timedelta(seconds=s)\<close> in microseconds, and \<^verbatim>\<open>timedelta.total_seconds()\<close>.\<close>

definition seconds_delta :: "pyfloat \<Rightarrow> int" where
  "seconds_delta s = round_half_even (fval s * 1000000)"

definition total_seconds :: "int \<Rightarrow> pyfloat" where
  "total_seconds us = flt (of_int us / 1000000)"

end
