(* ===== verification/Schemas.thy ===== *)
theory Schemas
  imports PyFloat
begin

text \<open>
  The data of the trading core: the enumerations of \<^verbatim>\<open>app/schemas/common.py\<close> and the pydantic models
  of \<^verbatim>\<open>app/schemas/decisions.py\<close>, \<^verbatim>\<open>risk.py\<close>, \<^verbatim>\<open>paper.py\<close> and \<^verbatim>\<open>oms.py\<close>. A model is a record with
  the fields of the class (the constant \<^verbatim>\<open>schema_version\<close> and \<^verbatim>\<open>engine_version\<close> strings are left
  out); \<open>valid_M\<close> is what pydantic checks when it constructs an \<open>M\<close>: the field
  constraints first, then the \<^verbatim>\<open>model_validator\<close>. \<open>validate\<close> is the constructor call, which
  raises when the check fails. \<^verbatim>\<open>model_copy(update=...)\<close> does not validate and is a record update.
\<close>

definition validate :: "('a \<Rightarrow> bool) \<Rightarrow> 'a \<Rightarrow> 'a result" where
  "validate valid x = (if valid x then Inr x else raise PydanticValidationError ''validation error'')"

lemma validate_Inr [simp]: "validate valid x = Inr y \<longleftrightarrow> valid x \<and> y = x"
  by (auto simp: validate_def)

lemma validate_ok: "valid x \<Longrightarrow> validate valid x = Inr x"
  by (simp add: validate_def)

section \<open>Enumerations\<close>

datatype exchange = BINANCE | BYBIT
datatype order_side = BUY | SELL
datatype candidate_action = ActBUY | ActSELL | ActHOLD | ActWAIT | ActBLOCK
datatype risk_status = RsPENDING | RsAPPROVED | RsREDUCED | RsBLOCKED | RsKILL_SWITCH
datatype paper_order_status =
  PsCREATED | PsFILLED | PsPARTIALLY_FILLED | PsCANCELLED | PsCLOSED | PsEXPIRED | PsFAILED
datatype approval_status = ApACTIVE | ApCONSUMED | ApREVOKED | ApEXPIRED
datatype environment = EnvPAPER | EnvTESTNET
datatype order_type = MARKET | LIMIT
datatype time_in_force = GTC | IOC | FOK | POST_ONLY
datatype oms_status =
    OsCREATED | OsPENDING_SUBMISSION | OsSUBMITTED | OsPARTIALLY_FILLED | OsFILLED
  | OsCANCEL_PENDING | OsCANCELED | OsREJECTED | OsEXPIRED | OsUNKNOWN | OsQUARANTINED
datatype command_type = SUBMIT | CANCEL
datatype command_status = CsPENDING | CsLEASED | CsCOMPLETED | CsDEAD_LETTER
datatype severity = INFO | WARNING | CRITICAL
datatype mismatch_type =
    LOCAL_ORDER_MISSING_AT_VENUE | ORPHAN_VENUE_ORDER | ORPHAN_VENUE_FILL | ORDER_STATUS_DRIFT
  | FILLED_QUANTITY_DRIFT | POSITION_QUANTITY_DRIFT | ADAPTER_UNAVAILABLE
datatype run_status = RunMATCHED | RunDRIFT | RunFAILED

fun exchange_value :: "exchange \<Rightarrow> string" where
  "exchange_value BINANCE = ''BINANCE''"
| "exchange_value BYBIT = ''BYBIT''"

fun side_value :: "order_side \<Rightarrow> string" where
  "side_value BUY = ''BUY''"
| "side_value SELL = ''SELL''"

fun environment_value :: "environment \<Rightarrow> string" where
  "environment_value EnvPAPER = ''PAPER''"
| "environment_value EnvTESTNET = ''TESTNET''"

fun approval_status_value :: "approval_status \<Rightarrow> string" where
  "approval_status_value ApACTIVE = ''ACTIVE''"
| "approval_status_value ApCONSUMED = ''CONSUMED''"
| "approval_status_value ApREVOKED = ''REVOKED''"
| "approval_status_value ApEXPIRED = ''EXPIRED''"

text \<open>\<^verbatim>\<open>OrderSide(decision.candidate_action.value)\<close>: only BUY and SELL are order sides.\<close>

fun side_of_action :: "candidate_action \<Rightarrow> order_side result" where
  "side_of_action ActBUY = Inr BUY"
| "side_of_action ActSELL = Inr SELL"
| "side_of_action _ = raise ValueError ''not a valid OrderSide''"

definition TERMINAL_OMS_STATUSES :: "oms_status list" where
  "TERMINAL_OMS_STATUSES = [OsFILLED, OsCANCELED, OsREJECTED, OsEXPIRED, OsQUARANTINED]"

abbreviation terminal :: "oms_status \<Rightarrow> bool" where
  "terminal s \<equiv> s \<in> set TERMINAL_OMS_STATUSES"

abbreviation approving :: "risk_status \<Rightarrow> bool" where
  "approving s \<equiv> s = RsAPPROVED \<or> s = RsREDUCED"

section \<open>JSON values\<close>

text \<open>
  What \<^verbatim>\<open>model_dump(mode="json")\<close> and \<^verbatim>\<open>json.dumps\<close> see. \<open>JTime\<close> is the ISO 8601 text of an
  instant. \<open>sort_keys\<close> puts the members of every object in key order, so two values with the
  same canonical form have the same \<^verbatim>\<open>json.dumps(..., sort_keys=True)\<close> text.
\<close>

datatype json =
    JNull
  | JBool bool
  | JInt int
  | JFloat pyfloat
  | JStr string
  | JTime time
  | JList "json list"
  | JObj "(string \<times> json) list"

fun sort_keys :: "json \<Rightarrow> json" where
  "sort_keys (JList xs) = JList (map sort_keys xs)"
| "sort_keys (JObj kvs) = JObj (sort_key fst (map (\<lambda>(k, v). (k, sort_keys v)) kvs))"
| "sort_keys j = j"

definition JOpt :: "('a \<Rightarrow> json) \<Rightarrow> 'a option \<Rightarrow> json" where
  "JOpt f x = (case x of None \<Rightarrow> JNull | Some y \<Rightarrow> f y)"

section \<open>Decisions\<close>

record decision =
  dec_decision_id :: string
  dec_correlation_id :: string
  dec_symbol :: string
  dec_timeframe :: string
  dec_candidate_action :: candidate_action
  dec_confidence :: int
  dec_strategy :: string
  dec_reason :: string
  dec_agent_summary :: "json list"
  dec_warnings :: "string list"
  dec_risk_status :: risk_status
  dec_created_at :: time

definition valid_decision :: "decision \<Rightarrow> bool" where
  [valid_defs]: "valid_decision d \<longleftrightarrow>
     dec_symbol d \<noteq> [] \<and> 0 \<le> dec_confidence d \<and> dec_confidence d \<le> 100"

section \<open>Risk\<close>

record risk_limits =
  rl_risk_per_trade_percent :: pyfloat
  rl_max_daily_drawdown_percent :: pyfloat
  rl_max_total_drawdown_percent :: pyfloat
  rl_max_consecutive_losses :: int
  rl_max_open_positions :: int
  rl_default_leverage :: pyfloat
  rl_max_leverage :: pyfloat
  rl_max_market_data_delay_ms :: int
  rl_min_risk_reward :: pyfloat
  rl_max_gross_exposure_percent :: pyfloat
  rl_max_net_exposure_percent :: pyfloat
  rl_max_symbol_exposure_percent :: pyfloat
  rl_max_strategy_exposure_percent :: pyfloat
  rl_max_single_position_percent :: pyfloat
  rl_max_symbol_concentration_percent :: pyfloat
  rl_max_portfolio_var_percent :: pyfloat
  rl_var_confidence :: pyfloat
  rl_var_lookback :: int
  rl_var_min_observations :: int
  rl_fallback_volatility_percent :: pyfloat
  rl_approval_ttl_seconds :: int
  rl_max_entry_deviation_bps :: pyfloat

definition default_risk_limits :: risk_limits where
  "default_risk_limits =
     \<lparr>rl_risk_per_trade_percent = flt 1, rl_max_daily_drawdown_percent = flt 5,
      rl_max_total_drawdown_percent = flt 10, rl_max_consecutive_losses = 3,
      rl_max_open_positions = 3, rl_default_leverage = flt 1, rl_max_leverage = flt 5,
      rl_max_market_data_delay_ms = 5000, rl_min_risk_reward = flt (3 / 2),
      rl_max_gross_exposure_percent = flt 200, rl_max_net_exposure_percent = flt 150,
      rl_max_symbol_exposure_percent = flt 100, rl_max_strategy_exposure_percent = flt 100,
      rl_max_single_position_percent = flt 100, rl_max_symbol_concentration_percent = flt 90,
      rl_max_portfolio_var_percent = flt 5, rl_var_confidence = flt (99 / 100),
      rl_var_lookback = 100, rl_var_min_observations = 30,
      rl_fallback_volatility_percent = flt 1, rl_approval_ttl_seconds = 60,
      rl_max_entry_deviation_bps = flt 100\<rparr>"

abbreviation in_gt_le :: "pyfloat \<Rightarrow> rat \<Rightarrow> rat \<Rightarrow> bool" where
  "in_gt_le x lo hi \<equiv> flt lo < x \<and> x \<le> flt hi"

definition valid_risk_limits :: "risk_limits \<Rightarrow> bool" where
  [valid_defs]: "valid_risk_limits l \<longleftrightarrow>
     in_gt_le (rl_risk_per_trade_percent l) 0 10 \<and>
     in_gt_le (rl_max_daily_drawdown_percent l) 0 100 \<and>
     in_gt_le (rl_max_total_drawdown_percent l) 0 100 \<and>
     1 \<le> rl_max_consecutive_losses l \<and> rl_max_consecutive_losses l \<le> 100 \<and>
     1 \<le> rl_max_open_positions l \<and> rl_max_open_positions l \<le> 1000 \<and>
     flt 1 \<le> rl_default_leverage l \<and> rl_default_leverage l \<le> flt 125 \<and>
     flt 1 \<le> rl_max_leverage l \<and> rl_max_leverage l \<le> flt 125 \<and>
     0 \<le> rl_max_market_data_delay_ms l \<and> rl_max_market_data_delay_ms l \<le> 300000 \<and>
     in_gt_le (rl_min_risk_reward l) 0 100 \<and>
     in_gt_le (rl_max_gross_exposure_percent l) 0 2000 \<and>
     in_gt_le (rl_max_net_exposure_percent l) 0 2000 \<and>
     in_gt_le (rl_max_symbol_exposure_percent l) 0 2000 \<and>
     in_gt_le (rl_max_strategy_exposure_percent l) 0 2000 \<and>
     in_gt_le (rl_max_single_position_percent l) 0 1000 \<and>
     in_gt_le (rl_max_symbol_concentration_percent l) 0 100 \<and>
     in_gt_le (rl_max_portfolio_var_percent l) 0 100 \<and>
     flt (9 / 10) \<le> rl_var_confidence l \<and> rl_var_confidence l < flt 1 \<and>
     20 \<le> rl_var_lookback l \<and> rl_var_lookback l \<le> 2000 \<and>
     10 \<le> rl_var_min_observations l \<and> rl_var_min_observations l \<le> 1000 \<and>
     in_gt_le (rl_fallback_volatility_percent l) 0 100 \<and>
     1 \<le> rl_approval_ttl_seconds l \<and> rl_approval_ttl_seconds l \<le> 3600 \<and>
     flt 0 \<le> rl_max_entry_deviation_bps l \<and> rl_max_entry_deviation_bps l \<le> flt 10000 \<and>
     rl_default_leverage l \<le> rl_max_leverage l \<and>
     rl_var_min_observations l \<le> rl_var_lookback l"

record position_exposure =
  pe_paper_order_id :: string
  pe_symbol :: string
  pe_timeframe :: string
  pe_strategy :: string
  pe_side :: order_side
  pe_notional :: pyfloat
  pe_leverage :: pyfloat

definition valid_position_exposure :: "position_exposure \<Rightarrow> bool" where
  [valid_defs]: "valid_position_exposure p \<longleftrightarrow> 0 < pe_notional p \<and> flt 1 \<le> pe_leverage p"

record portfolio_risk_snapshot =
  prs_balance :: pyfloat
  prs_position_count :: int
  prs_gross_exposure :: pyfloat
  prs_net_exposure :: pyfloat
  prs_proposed_notional :: pyfloat
  prs_resulting_gross_exposure :: pyfloat
  prs_resulting_net_exposure :: pyfloat
  prs_symbol_exposure :: pyfloat
  prs_strategy_exposure :: pyfloat
  prs_symbol_concentration_percent :: pyfloat

definition valid_portfolio_risk_snapshot :: "portfolio_risk_snapshot \<Rightarrow> bool" where
  [valid_defs]: "valid_portfolio_risk_snapshot s \<longleftrightarrow>
     0 < prs_balance s \<and> 0 \<le> prs_position_count s \<and> 0 \<le> prs_gross_exposure s \<and>
     0 \<le> prs_proposed_notional s \<and> 0 \<le> prs_resulting_gross_exposure s \<and>
     0 \<le> prs_symbol_exposure s \<and> 0 \<le> prs_strategy_exposure s \<and>
     0 \<le> prs_symbol_concentration_percent s \<and> prs_symbol_concentration_percent s \<le> flt 100"

record var_result =
  vr_method :: string
  vr_confidence :: pyfloat
  vr_observations :: int
  vr_value_at_risk :: pyfloat
  vr_value_at_risk_percent :: pyfloat
  vr_expected_shortfall :: pyfloat
  vr_warnings :: "string list"

definition valid_var_result :: "var_result \<Rightarrow> bool" where
  [valid_defs]: "valid_var_result v \<longleftrightarrow>
     flt (9 / 10) \<le> vr_confidence v \<and> vr_confidence v < flt 1 \<and> 0 \<le> vr_observations v \<and>
     0 \<le> vr_value_at_risk v \<and> 0 \<le> vr_value_at_risk_percent v \<and> 0 \<le> vr_expected_shortfall v"

record order_approval =
  oa_approval_id :: string
  oa_evaluation_id :: string
  oa_risk_check_id :: string
  oa_decision_id :: string
  oa_correlation_id :: string
  oa_request_fingerprint :: string
  oa_position_snapshot_hash :: string
  oa_symbol :: string
  oa_timeframe :: string
  oa_strategy :: string
  oa_side :: order_side
  oa_max_notional :: pyfloat
  oa_max_leverage :: pyfloat
  oa_reference_price :: pyfloat
  oa_max_entry_deviation_bps :: pyfloat
  oa_status :: approval_status
  oa_created_at :: time
  oa_expires_at :: time
  oa_consumed_at :: "time option"
  oa_paper_order_id :: "string option"
  oa_oms_order_id :: "string option"

abbreviation truthy_id :: "string option \<Rightarrow> bool" where
  "truthy_id x \<equiv> x \<noteq> None \<and> x \<noteq> Some []"

definition valid_order_approval :: "order_approval \<Rightarrow> bool" where
  [valid_defs]: "valid_order_approval a \<longleftrightarrow>
     length (oa_approval_id a) = 64 \<and> length (oa_evaluation_id a) = 64 \<and>
     length (oa_request_fingerprint a) = 64 \<and> length (oa_position_snapshot_hash a) = 64 \<and>
     0 < oa_max_notional a \<and> flt 1 \<le> oa_max_leverage a \<and> 0 < oa_reference_price a \<and>
     0 \<le> oa_max_entry_deviation_bps a \<and>
     oa_created_at a < oa_expires_at a \<and>
     (if oa_status a = ApCONSUMED
      then oa_consumed_at a \<noteq> None \<and> (truthy_id (oa_paper_order_id a) \<noteq> truthy_id (oa_oms_order_id a))
      else oa_consumed_at a = None \<and> \<not> truthy_id (oa_paper_order_id a) \<and> \<not> truthy_id (oa_oms_order_id a))"

text \<open>
  The free-text \<^verbatim>\<open>reason\<close> of a risk check is kept as the values it is rendered from; the text of a
  blocked check is the list of its reasons.
\<close>

datatype risk_reason =
    ReasonKillSwitch "string option"
  | ReasonState string
  | ReasonAction candidate_action
  | ReasonDataQuality int
  | ReasonMarketDelay int int
  | ReasonDailyDrawdown
  | ReasonTotalDrawdown
  | ReasonConsecutiveLosses
  | ReasonOpenPositions
  | ReasonLeverage pyfloat pyfloat
  | ReasonPortfolioCapacityZero
  | ReasonExposureExhausted
  | ReasonConcentration pyfloat pyfloat
  | ReasonVaR pyfloat
  | ReasonRiskReward pyfloat pyfloat
  | ReasonWithinLimits
  | ReasonReduced
  | ReasonAuditFailure
  | ReasonPersistenceFailure

record risk_check =
  rc_risk_check_id :: string
  rc_evaluation_id :: string
  rc_idempotency_key :: string
  rc_request_fingerprint :: string
  rc_decision_id :: string
  rc_correlation_id :: string
  rc_risk_status :: risk_status
  rc_approved :: bool
  rc_position_size :: "pyfloat option"
  rc_leverage :: "pyfloat option"
  rc_risk_percent :: "pyfloat option"
  rc_stop_loss :: "pyfloat option"
  rc_take_profit :: "pyfloat option"
  rc_risk_reward :: "pyfloat option"
  rc_reason :: "risk_reason list"
  rc_warnings :: "string list"
  rc_effective_limits :: "(string \<times> json) list"
  rc_portfolio_snapshot :: "portfolio_risk_snapshot option"
  rc_var_result :: "var_result option"
  rc_approval_id :: "string option"
  rc_created_at :: time

abbreviation opt_ge :: "pyfloat option \<Rightarrow> pyfloat \<Rightarrow> bool" where
  "opt_ge x lo \<equiv> (case x of None \<Rightarrow> True | Some v \<Rightarrow> lo \<le> v)"

abbreviation opt_gt :: "pyfloat option \<Rightarrow> pyfloat \<Rightarrow> bool" where
  "opt_gt x lo \<equiv> (case x of None \<Rightarrow> True | Some v \<Rightarrow> lo < v)"

definition valid_risk_check :: "risk_check \<Rightarrow> bool" where
  [valid_defs]: "valid_risk_check c \<longleftrightarrow>
     opt_ge (rc_position_size c) 0 \<and> opt_ge (rc_leverage c) (flt 1) \<and>
     opt_ge (rc_risk_percent c) 0 \<and> opt_ge (rc_risk_reward c) 0 \<and>
     rc_approved c = approving (rc_risk_status c) \<and>
     (if approving (rc_risk_status c)
      then truthy_id (rc_approval_id c) \<and> rc_evaluation_id c \<noteq> [] \<and>
           rc_request_fingerprint c \<noteq> [] \<and> rc_idempotency_key c \<noteq> [] \<and>
           rc_position_size c \<noteq> None \<and> rc_portfolio_snapshot c \<noteq> None \<and> rc_var_result c \<noteq> None
      else rc_approval_id c = None)"

record risk_state =
  rs_daily_pnl_percent :: pyfloat
  rs_total_drawdown_percent :: pyfloat
  rs_consecutive_losses :: int
  rs_open_positions :: int
  rs_kill_switch_active :: bool
  rs_blocked_operations :: int

definition initial_risk_state :: risk_state where
  "initial_risk_state =
     \<lparr>rs_daily_pnl_percent = 0, rs_total_drawdown_percent = 0, rs_consecutive_losses = 0,
      rs_open_positions = 0, rs_kill_switch_active = False, rs_blocked_operations = 0\<rparr>"

record risk_control_state =
  ctl_active :: bool
  ctl_revision :: int
  ctl_reason :: "string option"
  ctl_actor :: "string option"
  ctl_triggered_at :: "time option"
  ctl_reset_at :: "time option"

definition initial_risk_control_state :: risk_control_state where
  "initial_risk_control_state =
     \<lparr>ctl_active = False, ctl_revision = 0, ctl_reason = None, ctl_actor = None,
      ctl_triggered_at = None, ctl_reset_at = None\<rparr>"

section \<open>PAPER orders\<close>

record paper_order =
  po_paper_order_id :: string
  po_decision_id :: string
  po_risk_check_id :: string
  po_approval_id :: "string option"
  po_request_fingerprint :: "string option"
  po_correlation_id :: string
  po_exchange :: exchange
  po_symbol :: string
  po_timeframe :: "string option"
  po_strategy :: string
  po_side :: order_side
  po_entry_price :: pyfloat
  po_stop_loss :: "pyfloat option"
  po_take_profit :: "pyfloat option"
  po_position_size :: pyfloat
  po_leverage :: pyfloat
  po_initial_margin :: "pyfloat option"
  po_maintenance_margin_ratio :: "pyfloat option"
  po_liquidation_price :: "pyfloat option"
  po_liquidation_fee :: pyfloat
  po_status :: paper_order_status
  po_fees_estimated :: pyfloat
  po_slippage_estimated :: pyfloat
  po_opened_at :: "time option"
  po_closed_at :: "time option"
  po_pnl :: "pyfloat option"
  po_exit_price :: "pyfloat option"
  po_exit_reason :: "string option"
  po_created_at :: time

definition valid_paper_order :: "paper_order \<Rightarrow> bool" where
  [valid_defs]: "valid_paper_order p \<longleftrightarrow>
     po_symbol p \<noteq> [] \<and> 0 \<le> po_position_size p \<and> flt 1 \<le> po_leverage p \<and>
     opt_ge (po_initial_margin p) 0 \<and>
     (case po_maintenance_margin_ratio p of None \<Rightarrow> True | Some r \<Rightarrow> 0 \<le> r \<and> r < flt (1 / 2)) \<and>
     opt_ge (po_liquidation_price p) 0 \<and> 0 \<le> po_liquidation_fee p \<and>
     0 \<le> po_fees_estimated p \<and> 0 \<le> po_slippage_estimated p"

section \<open>Order management\<close>

record oms_order =
  oo_oms_order_id :: string
  oo_client_order_id :: string
  oo_decision_id :: string
  oo_risk_check_id :: string
  oo_approval_id :: string
  oo_request_fingerprint :: string
  oo_correlation_id :: string
  oo_exchange :: exchange
  oo_environment :: environment
  oo_symbol :: string
  oo_timeframe :: string
  oo_strategy :: string
  oo_side :: order_side
  oo_order_type :: order_type
  oo_time_in_force :: time_in_force
  oo_quantity :: pyfloat
  oo_requested_notional :: pyfloat
  oo_leverage :: pyfloat
  oo_limit_price :: "pyfloat option"
  oo_reference_price :: pyfloat
  oo_status :: oms_status
  oo_venue_order_id :: "string option"
  oo_cumulative_filled_quantity :: pyfloat
  oo_average_fill_price :: "pyfloat option"
  oo_rejection_reason :: "string option"
  oo_state_version :: int
  oo_created_at :: time
  oo_updated_at :: time
  oo_submitted_at :: "time option"
  oo_terminal_at :: "time option"

definition oms_order_shape :: "oms_order \<Rightarrow> bool" where
  [valid_defs]: "oms_order_shape o' \<longleftrightarrow>
     (oo_order_type o' = LIMIT \<longrightarrow> oo_limit_price o' \<noteq> None) \<and>
     oo_cumulative_filled_quantity o' \<le> oo_quantity o' + flt (1 / 10 ^ 12) \<and>
     (terminal (oo_status o') \<longleftrightarrow> oo_terminal_at o' \<noteq> None)"

definition valid_oms_order :: "oms_order \<Rightarrow> bool" where
  [valid_defs]: "valid_oms_order o' \<longleftrightarrow>
     8 \<le> length (oo_client_order_id o') \<and> length (oo_client_order_id o') \<le> 36 \<and>
     length (oo_approval_id o') = 64 \<and> length (oo_request_fingerprint o') = 64 \<and>
     oo_symbol o' \<noteq> [] \<and> oo_timeframe o' \<noteq> [] \<and> oo_strategy o' \<noteq> [] \<and>
     0 < oo_quantity o' \<and> 0 < oo_requested_notional o' \<and> flt 1 \<le> oo_leverage o' \<and>
     opt_gt (oo_limit_price o') 0 \<and> 0 < oo_reference_price o' \<and>
     0 \<le> oo_cumulative_filled_quantity o' \<and> opt_gt (oo_average_fill_price o') 0 \<and>
     1 \<le> oo_state_version o' \<and> oms_order_shape o'"

record venue_order_snapshot =
  vo_exchange :: exchange
  vo_environment :: environment
  vo_venue_order_id :: string
  vo_client_order_id :: string
  vo_symbol :: string
  vo_side :: order_side
  vo_order_type :: order_type
  vo_status :: oms_status
  vo_quantity :: pyfloat
  vo_cumulative_filled_quantity :: pyfloat
  vo_average_fill_price :: "pyfloat option"
  vo_observed_at :: time

definition valid_venue_order_snapshot :: "venue_order_snapshot \<Rightarrow> bool" where
  [valid_defs]: "valid_venue_order_snapshot v \<longleftrightarrow>
     0 < vo_quantity v \<and> 0 \<le> vo_cumulative_filled_quantity v \<and> opt_gt (vo_average_fill_price v) 0 \<and>
     vo_cumulative_filled_quantity v \<le> vo_quantity v + flt (1 / 10 ^ 12)"

record execution_fill =
  xf_fill_id :: string
  xf_oms_order_id :: "string option"
  xf_venue_order_id :: string
  xf_client_order_id :: "string option"
  xf_exchange :: exchange
  xf_environment :: environment
  xf_symbol :: string
  xf_side :: order_side
  xf_quantity :: pyfloat
  xf_price :: pyfloat
  xf_fee :: pyfloat
  xf_fee_asset :: "string option"
  xf_occurred_at :: time
  xf_observed_at :: time

definition valid_execution_fill :: "execution_fill \<Rightarrow> bool" where
  [valid_defs]: "valid_execution_fill f \<longleftrightarrow> 0 < xf_quantity f \<and> 0 < xf_price f \<and> 0 \<le> xf_fee f"

record venue_position_snapshot =
  vp_exchange :: exchange
  vp_environment :: environment
  vp_symbol :: string
  vp_side :: order_side
  vp_quantity :: pyfloat
  vp_entry_price :: "pyfloat option"
  vp_mark_price :: "pyfloat option"
  vp_unrealized_pnl :: pyfloat
  vp_observed_at :: time

definition valid_venue_position_snapshot :: "venue_position_snapshot \<Rightarrow> bool" where
  [valid_defs]: "valid_venue_position_snapshot p \<longleftrightarrow>
     0 \<le> vp_quantity p \<and> opt_ge (vp_entry_price p) 0 \<and> opt_ge (vp_mark_price p) 0"

record venue_balance_snapshot =
  vb_exchange :: exchange
  vb_environment :: environment
  vb_asset :: string
  vb_available :: pyfloat
  vb_locked :: pyfloat
  vb_equity :: pyfloat
  vb_observed_at :: time

definition valid_venue_balance_snapshot :: "venue_balance_snapshot \<Rightarrow> bool" where
  [valid_defs]: "valid_venue_balance_snapshot b \<longleftrightarrow> 0 \<le> vb_available b \<and> 0 \<le> vb_locked b \<and> 0 \<le> vb_equity b"

record venue_state_snapshot =
  vs_exchange :: exchange
  vs_environment :: environment
  vs_orders :: "venue_order_snapshot list"
  vs_fills :: "execution_fill list"
  vs_positions :: "venue_position_snapshot list"
  vs_balances :: "venue_balance_snapshot list"
  vs_observed_at :: time

definition valid_venue_state_snapshot :: "venue_state_snapshot \<Rightarrow> bool" where
  [valid_defs]: "valid_venue_state_snapshot s \<longleftrightarrow>
     (\<forall>o' \<in> set (vs_orders s). vo_exchange o' = vs_exchange s \<and> vo_environment o' = vs_environment s) \<and>
     (\<forall>f \<in> set (vs_fills s). xf_exchange f = vs_exchange s \<and> xf_environment f = vs_environment s) \<and>
     (\<forall>p \<in> set (vs_positions s). vp_exchange p = vs_exchange s \<and> vp_environment p = vs_environment s) \<and>
     (\<forall>b \<in> set (vs_balances s). vb_exchange b = vs_exchange s \<and> vb_environment b = vs_environment s)"

record execution_command =
  xc_command_id :: string
  xc_oms_order_id :: string
  xc_command_type :: command_type
  xc_status :: command_status
  xc_attempt_count :: int
  xc_max_attempts :: int
  xc_leased_by :: "string option"
  xc_lease_expires_at :: "time option"
  xc_available_at :: time
  xc_last_error_type :: "string option"
  xc_created_at :: time
  xc_completed_at :: "time option"

fun command_lifecycle :: "command_status \<Rightarrow> string option \<Rightarrow> time option \<Rightarrow> time option \<Rightarrow> bool" where
  "command_lifecycle CsPENDING leased_by lease_expires_at completed_at \<longleftrightarrow>
     leased_by = None \<and> lease_expires_at = None \<and> completed_at = None"
| "command_lifecycle CsLEASED leased_by lease_expires_at completed_at \<longleftrightarrow>
     truthy_id leased_by \<and> lease_expires_at \<noteq> None \<and> completed_at = None"
| "command_lifecycle _ leased_by lease_expires_at completed_at \<longleftrightarrow>
     leased_by = None \<and> lease_expires_at = None \<and> completed_at \<noteq> None"

definition valid_execution_command :: "execution_command \<Rightarrow> bool" where
  [valid_defs]: "valid_execution_command c \<longleftrightarrow>
     0 \<le> xc_attempt_count c \<and> xc_max_attempts c = 1 \<and> xc_attempt_count c \<le> xc_max_attempts c \<and>
     command_lifecycle (xc_status c) (xc_leased_by c) (xc_lease_expires_at c) (xc_completed_at c)"

record reconciliation_mismatch =
  mm_mismatch_id :: string
  mm_run_id :: string
  mm_mismatch_type :: mismatch_type
  mm_severity :: severity
  mm_exchange :: exchange
  mm_environment :: environment
  mm_oms_order_id :: "string option"
  mm_venue_order_id :: "string option"
  mm_symbol :: "string option"
  mm_expected :: "(string \<times> json) list"
  mm_observed :: "(string \<times> json) list"
  mm_created_at :: time

record reconciliation_run =
  rr_run_id :: string
  rr_exchange :: exchange
  rr_environment :: environment
  rr_status :: run_status
  rr_local_order_count :: int
  rr_venue_order_count :: int
  rr_fill_count :: int
  rr_position_count :: int
  rr_balance_count :: int
  rr_mismatch_count :: int
  rr_critical_mismatch_count :: int
  rr_started_at :: time
  rr_completed_at :: "time option"
  rr_error_type :: "string option"

definition valid_reconciliation_run :: "reconciliation_run \<Rightarrow> bool" where
  [valid_defs]: "valid_reconciliation_run r \<longleftrightarrow>
     0 \<le> rr_local_order_count r \<and> 0 \<le> rr_venue_order_count r \<and> 0 \<le> rr_fill_count r \<and>
     0 \<le> rr_position_count r \<and> 0 \<le> rr_balance_count r \<and> 0 \<le> rr_mismatch_count r \<and>
     0 \<le> rr_critical_mismatch_count r \<and>
     rr_critical_mismatch_count r \<le> rr_mismatch_count r \<and> rr_completed_at r \<noteq> None \<and>
     (rr_status r = RunFAILED \<longrightarrow> truthy_id (rr_error_type r)) \<and>
     (rr_status r \<noteq> RunFAILED \<longrightarrow> rr_error_type r = None)"

lemma default_risk_limits_valid: "valid_risk_limits default_risk_limits"
  by code_simp

lemma terminal_iff [simp]:
  "terminal s \<longleftrightarrow> s = OsFILLED \<or> s = OsCANCELED \<or> s = OsREJECTED \<or> s = OsEXPIRED \<or> s = OsQUARANTINED"
  by (auto simp: TERMINAL_OMS_STATUSES_def)

end
