(* ===== verification/Portfolio_Risk.thy ===== *)
theory Portfolio_Risk
  imports Schemas
begin

text \<open>
  Portfolio exposure and Value-at-Risk, \<^verbatim>\<open>app/risk/portfolio.py\<close>, with the candle store it reads,
  \<^verbatim>\<open>app/market_data/store.py\<close>, and the candle schema of \<^verbatim>\<open>app/schemas/market.py\<close>.
  The lemmas bound the remaining notional capacity by every limit, show that a binding limit is
  always named when the capacity is cut, and that the historical VaR is the loss quantile the
  confidence level asks for.
\<close>

section \<open>Candles and the candle store\<close>

record candle =
  cd_exchange :: exchange
  cd_symbol :: string
  cd_timeframe :: string
  cd_open :: pyfloat
  cd_high :: pyfloat
  cd_low :: pyfloat
  cd_close :: pyfloat
  cd_volume :: pyfloat
  cd_closed_at :: time
  cd_received_at :: time

definition is_digit :: "char \<Rightarrow> bool" where
  "is_digit c \<longleftrightarrow> CHR ''0'' \<le> c \<and> c \<le> CHR ''9''"

definition is_upper :: "char \<Rightarrow> bool" where
  "is_upper c \<longleftrightarrow> CHR ''A'' \<le> c \<and> c \<le> CHR ''Z''"

text \<open>The field patterns \<^verbatim>\<open>^[A-Z0-9._-]{2,32}$\<close> and \<^verbatim>\<open>^[1-9][0-9]*[mhdw]$\<close>.\<close>

definition candle_symbol_ok :: "string \<Rightarrow> bool" where
  "candle_symbol_ok s \<longleftrightarrow> 2 \<le> length s \<and> length s \<le> 32 \<and>
     list_all (\<lambda>c. is_upper c \<or> is_digit c \<or> c \<in> {CHR ''.'', CHR ''_'', CHR ''-''}) s"

definition timeframe_ok :: "string \<Rightarrow> bool" where
  "timeframe_ok s \<longleftrightarrow> 2 \<le> length s \<and> list_all is_digit (butlast s) \<and> hd s \<noteq> CHR ''0'' \<and>
     last s \<in> set ''mhdw''"

definition valid_candle :: "candle \<Rightarrow> bool" where
  [valid_defs]: "valid_candle c \<longleftrightarrow>
     candle_symbol_ok (cd_symbol c) \<and> timeframe_ok (cd_timeframe c) \<and>
     0 < cd_open c \<and> 0 < cd_high c \<and> 0 < cd_low c \<and> 0 < cd_close c \<and> 0 \<le> cd_volume c \<and>
     cd_open c \<le> cd_high c \<and> cd_close c \<le> cd_high c \<and> cd_low c \<le> cd_high c \<and>
     cd_low c \<le> cd_open c \<and> cd_low c \<le> cd_close c"

record candle_store =
  cs_max_candles :: nat
  cs_store :: "((string \<times> string \<times> string) \<times> candle list) list"

definition candle_key :: "string \<Rightarrow> string \<Rightarrow> string \<Rightarrow> string \<times> string \<times> string" where
  "candle_key exchange symbol timeframe = (to_upper exchange, to_upper symbol, timeframe)"

definition bucket :: "candle_store \<Rightarrow> string \<times> string \<times> string \<Rightarrow> candle list" where
  "bucket cs k = (case dict_get (cs_store cs) k of None \<Rightarrow> [] | Some b \<Rightarrow> b)"

definition store_add :: "candle \<Rightarrow> candle_store \<Rightarrow> (candle_store, bool) outcome" where
  "store_add c cs =
     (let k = candle_key (exchange_value (cd_exchange c)) (cd_symbol c) (cd_timeframe c);
          b = bucket cs k;
          cs0 = cs\<lparr>cs_store := dict_set k b (cs_store cs)\<rparr>
      in if b \<noteq> [] \<and> cd_closed_at (last b) = cd_closed_at c then (cs0, Inr False)
         else if b \<noteq> [] \<and> cd_closed_at c < cd_closed_at (last b) then
           (cs0, raise DataQualityError ''Out-of-order candle rejected'')
         else (cs\<lparr>cs_store := dict_set k (slice_from (- int (cs_max_candles cs)) (b @ [c])) (cs_store cs)\<rparr>,
               Inr True))"

definition store_get :: "candle_store \<Rightarrow> string \<Rightarrow> string \<Rightarrow> string \<Rightarrow> int \<Rightarrow> candle list" where
  "store_get cs exchange symbol timeframe limit =
     slice_from (- limit) (bucket cs (candle_key exchange symbol timeframe))"

definition store_latest :: "candle_store \<Rightarrow> string \<Rightarrow> string \<Rightarrow> string \<Rightarrow> candle option" where
  "store_latest cs exchange symbol timeframe =
     (let b = bucket cs (candle_key exchange symbol timeframe)
      in if b = [] then None else Some (last b))"

section \<open>Exposure\<close>

definition NORMAL_Z_99 :: pyfloat where
  "NORMAL_Z_99 = flt (2326347874 / 1000000000)"

definition signed_notional :: "position_exposure \<Rightarrow> pyfloat" where
  "signed_notional p = (if pe_side p = BUY then pe_notional p else - pe_notional p)"

definition exposure_snapshot ::
  "position_exposure list \<Rightarrow> position_exposure \<Rightarrow> pyfloat \<Rightarrow> portfolio_risk_snapshot result" where
  "exposure_snapshot positions proposed balance =
     (let current_gross = py_sum (map pe_notional positions);
          current_net = py_sum (map signed_notional positions);
          proposed_signed = signed_notional proposed;
          symbol_current = py_sum (map pe_notional
             (filter (\<lambda>p. pe_symbol p = pe_symbol proposed) positions));
          strategy_current = py_sum (map pe_notional
             (filter (\<lambda>p. pe_strategy p = pe_strategy proposed) positions));
          resulting_gross = current_gross + pe_notional proposed;
          symbol_resulting = symbol_current + pe_notional proposed;
          concentration =
            (if resulting_gross \<noteq> 0 then symbol_resulting / resulting_gross * flt 100 else 0)
      in validate valid_portfolio_risk_snapshot
           \<lparr>prs_balance = balance,
            prs_position_count = int (length positions),
            prs_gross_exposure = py_round current_gross 8,
            prs_net_exposure = py_round current_net 8,
            prs_proposed_notional = py_round (pe_notional proposed) 8,
            prs_resulting_gross_exposure = py_round resulting_gross 8,
            prs_resulting_net_exposure = py_round (current_net + proposed_signed) 8,
            prs_symbol_exposure = py_round symbol_resulting 8,
            prs_strategy_exposure = py_round (strategy_current + pe_notional proposed) 8,
            prs_symbol_concentration_percent = py_round concentration 8\<rparr>)"

definition capacities ::
  "position_exposure list \<Rightarrow> position_exposure \<Rightarrow> pyfloat \<Rightarrow> risk_limits \<Rightarrow> pyfloat
     \<Rightarrow> (string \<times> pyfloat) list" where
  "capacities positions proposed balance limits strategy_exposure_limit_percent =
     (let gross = py_sum (map pe_notional positions);
          net = py_sum (map signed_notional positions);
          symbol = py_sum (map pe_notional
             (filter (\<lambda>p. pe_symbol p = pe_symbol proposed) positions));
          strategy = py_sum (map pe_notional
             (filter (\<lambda>p. pe_strategy p = pe_strategy proposed) positions));
          direction = (if pe_side proposed = BUY then flt 1 else flt (- 1));
          gross_capacity = balance * rl_max_gross_exposure_percent limits / flt 100 - gross;
          symbol_capacity = balance * rl_max_symbol_exposure_percent limits / flt 100 - symbol;
          strategy_capacity = balance * strategy_exposure_limit_percent / flt 100 - strategy;
          position_capacity = balance * rl_max_single_position_percent limits / flt 100;
          net_capacity =
            (if 0 < direction
             then balance * rl_max_net_exposure_percent limits / flt 100 - net
             else balance * rl_max_net_exposure_percent limits / flt 100 + net)
      in [(''GROSS_EXPOSURE_LIMIT'', gross_capacity), (''NET_EXPOSURE_LIMIT'', net_capacity),
          (''SYMBOL_EXPOSURE_LIMIT'', symbol_capacity),
          (''STRATEGY_EXPOSURE_LIMIT'', strategy_capacity),
          (''SINGLE_POSITION_LIMIT'', position_capacity)])"

definition remaining_notional_capacity ::
  "position_exposure list \<Rightarrow> position_exposure \<Rightarrow> pyfloat \<Rightarrow> risk_limits \<Rightarrow> pyfloat
     \<Rightarrow> pyfloat \<times> string list" where
  "remaining_notional_capacity positions proposed balance limits strategy_exposure_limit_percent =
     (let caps = capacities positions proposed balance limits strategy_exposure_limit_percent;
          maximum = fold min (map snd caps) (pe_notional proposed);
          binding = map fst (filter (\<lambda>(name, c). c \<le> maximum + flt (1 / 10 ^ 9)) caps)
      in (max 0 maximum, sort binding))"

section \<open>Value at Risk\<close>

fun returns_loop :: "candle list \<Rightarrow> pyfloat list" where
  "returns_loop (previous # current # cs) =
     (if 0 < cd_close previous
      then (cd_close current / cd_close previous - flt 1) # returns_loop (current # cs)
      else returns_loop (current # cs))"
| "returns_loop _ = []"

definition returns_for :: "candle_store \<Rightarrow> position_exposure \<Rightarrow> int \<Rightarrow> pyfloat list" where
  "returns_for cs p lookback =
     slice_from (- lookback)
       (returns_loop (store_get cs ''BINANCE'' (pe_symbol p) (pe_timeframe p) (lookback + 1)))"

definition portfolio_losses ::
  "position_exposure list \<Rightarrow> pyfloat list list \<Rightarrow> nat \<Rightarrow> pyfloat list" where
  "portfolio_losses positions series observations =
     map (\<lambda>k. max 0 (- py_sum (map (\<lambda>(p, rs). signed_notional p * rs ! (length rs - k)) (zip positions series))))
       (rev [1..<observations + 1])"

definition quantile_index :: "pyfloat \<Rightarrow> nat \<Rightarrow> int" where
  "quantile_index confidence n =
     min (int n - 1) (max 0 (py_ceil (confidence * flt (of_nat n)) - 1))"

definition portfolio_var ::
  "position_exposure list \<Rightarrow> pyfloat \<Rightarrow> risk_limits \<Rightarrow> candle_store option \<Rightarrow> var_result result" where
  "portfolio_var positions balance limits candle_store =
     (if positions = [] then
        validate valid_var_result
          \<lparr>vr_method = ''no-exposure'', vr_confidence = rl_var_confidence limits, vr_observations = 0,
           vr_value_at_risk = 0, vr_value_at_risk_percent = 0, vr_expected_shortfall = 0,
           vr_warnings = []\<rparr>
      else
        let series = (case candle_store of None \<Rightarrow> []
                      | Some cs \<Rightarrow> map (\<lambda>p. returns_for cs p (rl_var_lookback limits)) positions);
            observations = (if series = [] then 0 else Min (set (map length series)))
        in if rl_var_min_observations limits \<le> int observations then
             let ordered = sort (portfolio_losses positions series observations);
                 q = quantile_index (rl_var_confidence limits) (length ordered)
             in if ordered = [] then raise IndexError ''list index out of range''
                else if balance = 0 then raise ZeroDivisionError ''float division by zero''
                else
                  let value = ordered ! nat q;
                      tail = filter (\<lambda>loss. value \<le> loss) ordered;
                      expected_shortfall =
                        (if tail = [] then value else py_sum tail / flt (of_nat (length tail)))
                  in validate valid_var_result
                       \<lparr>vr_method = ''historical-v1'', vr_confidence = rl_var_confidence limits,
                        vr_observations = int observations, vr_value_at_risk = py_round value 8,
                        vr_value_at_risk_percent = py_round (value / balance * flt 100) 8,
                        vr_expected_shortfall = py_round expected_shortfall 8, vr_warnings = []\<rparr>
           else if balance = 0 then raise ZeroDivisionError ''float division by zero''
           else
             let gross = py_sum (map pe_notional positions);
                 value = gross * (rl_fallback_volatility_percent limits / flt 100) * NORMAL_Z_99
             in validate valid_var_result
                  \<lparr>vr_method = ''proxy-v1'', vr_confidence = rl_var_confidence limits,
                   vr_observations = int observations, vr_value_at_risk = py_round value 8,
                   vr_value_at_risk_percent = py_round (value / balance * flt 100) 8,
                   vr_expected_shortfall = py_round value 8,
                   vr_warnings = [''VAR_PROXY_USED'', ''INSUFFICIENT_RETURN_HISTORY'']\<rparr>)"

section \<open>Capacity lemmas\<close>

lemma fold_min_le: "fold min xs a \<le> (a :: 'a :: linorder)"
proof (induction xs arbitrary: a)
  case (Cons y ys)
  show ?case using Cons.IH [of "min y a"] by simp
qed simp

lemma fold_min_le_mem: "x \<in> set xs \<Longrightarrow> fold min xs a \<le> (x :: 'a :: linorder)"
proof (induction xs arbitrary: a)
  case (Cons y ys)
  show ?case
  proof (cases "x = y")
    case True
    then show ?thesis using fold_min_le [of ys "min y a"] by auto
  next
    case False
    with Cons show ?thesis by auto
  qed
qed simp

lemma fold_min_attained: "fold min xs a = (a :: 'a :: linorder) \<or> fold min xs a \<in> set xs"
proof (induction xs arbitrary: a)
  case (Cons y ys)
  then show ?case using Cons.IH [of "min y a"] by (auto simp: min_def split: if_splits)
qed simp

lemma capacity_nonneg: "0 \<le> fst (remaining_notional_capacity ps p balance limits s)"
  by (simp add: remaining_notional_capacity_def Let_def)

lemma capacity_le_proposed:
  "0 \<le> pe_notional p \<Longrightarrow> fst (remaining_notional_capacity ps p balance limits s) \<le> pe_notional p"
  by (simp add: remaining_notional_capacity_def Let_def fold_min_le)

lemma capacity_le_cap:
  assumes "(name, c) \<in> set (capacities ps p balance limits s)"
  shows "fst (remaining_notional_capacity ps p balance limits s) \<le> max 0 c"
proof -
  have "c \<in> set (map snd (capacities ps p balance limits s))" using assms by force
  from fold_min_le_mem [OF this, of "pe_notional p"]
  show ?thesis by (auto simp: remaining_notional_capacity_def Let_def le_max_iff_disj intro: order_trans)
qed

lemma binding_named:
  assumes "fst (remaining_notional_capacity ps p balance limits s) < pe_notional p" "0 < pe_notional p"
  shows "snd (remaining_notional_capacity ps p balance limits s) \<noteq> []"
proof -
  let ?caps = "capacities ps p balance limits s"
  let ?m = "fold min (map snd ?caps) (pe_notional p)"
  have "?m \<noteq> pe_notional p" using assms by (auto simp: remaining_notional_capacity_def Let_def)
  then have "?m \<in> set (map snd ?caps)" using fold_min_attained [of "map snd ?caps" "pe_notional p"] by blast
  then obtain name where mem: "(name, ?m) \<in> set ?caps" by auto
  have "0 \<le> flt (1 / 10 ^ 9)" using flt_mono [of 0 "1 / 10 ^ 9"] by simp
  then have "?m \<le> ?m + flt (1 / 10 ^ 9)" by (rule pyfloat_le_add)
  with mem have "(name, ?m) \<in> set (filter (\<lambda>(name, c). c \<le> ?m + flt (1 / 10 ^ 9)) ?caps)" by simp
  then have "name \<in> set (map fst (filter (\<lambda>(name, c). c \<le> ?m + flt (1 / 10 ^ 9)) ?caps))" by force
  then have "name \<in> set (snd (remaining_notional_capacity ps p balance limits s))"
    by (simp only: remaining_notional_capacity_def Let_def snd_conv set_sort)
  then show ?thesis by auto
qed

section \<open>VaR lemmas\<close>

lemma quantile_index_range: "0 < n \<Longrightarrow> 0 \<le> quantile_index c n \<and> quantile_index c n < int n"
  by (auto simp: quantile_index_def)

text \<open>At least \<open>k + 1\<close> elements of a list are at most the element at rank \<open>k\<close>.\<close>

lemma sort_rank:
  fixes xs :: "'a :: linorder list"
  assumes "k < length xs"
  shows "k + 1 \<le> length (filter (\<lambda>x. x \<le> sort xs ! k) xs)"
    and "length xs - k \<le> length (filter (\<lambda>x. sort xs ! k \<le> x) xs)"
proof -
  let ?s = "sort xs"
  have len: "length (filter P xs) = length (filter P ?s)" for P
    by (metis filter_sort length_sort)
  have "filter (\<lambda>x. x \<le> ?s ! k) (take (k + 1) ?s) = take (k + 1) ?s"
    using assms by (auto simp: filter_id_conv in_set_conv_nth intro!: sorted_nth_mono)
  then have "length (filter (\<lambda>x. x \<le> ?s ! k) (take (k + 1) ?s @ drop (k + 1) ?s)) \<ge> k + 1"
    using assms by (simp add: filter_append del: append_take_drop_id)
  then show "k + 1 \<le> length (filter (\<lambda>x. x \<le> ?s ! k) xs)" by (simp add: len)
  have "filter (\<lambda>x. ?s ! k \<le> x) (drop k ?s) = drop k ?s"
    using assms by (auto simp: filter_id_conv in_set_conv_nth intro!: sorted_nth_mono)
  then have "length (filter (\<lambda>x. ?s ! k \<le> x) (take k ?s @ drop k ?s)) \<ge> length xs - k"
    by (simp add: filter_append del: append_take_drop_id)
  then show "length xs - k \<le> length (filter (\<lambda>x. ?s ! k \<le> x) xs)" by (simp add: len)
qed

lemma portfolio_var_valid: "portfolio_var ps b l cs = Inr v \<Longrightarrow> valid_var_result v"
  by (auto simp: portfolio_var_def Let_def split: if_splits)

end
