(* ===== verification/Database.thy ===== *)
theory Database
  imports Portfolio_Risk
begin

text \<open>
  The durable store behind the central risk engine and the OMS: the tables of
  \<^verbatim>\<open>app/database/models.py\<close> the trading core uses, the row guards that
  \<^verbatim>\<open>app/database/session.py\<close> installs as triggers, and the transactions of
  \<^verbatim>\<open>app/database/repositories/repository.py\<close>.

  A transaction is atomic: when its body raises, or the database itself fails, every change is
  rolled back. \<open>db_faults\<close> is the schedule of database failures, one entry per
  transaction, so a theorem about all database states covers every pattern of outages. A row is
  the schema object it is built from. SQL leaves the order of equal rows open; the model takes
  the first in insertion order. \<^verbatim>\<open>NUMERIC\<close> columns are taken to return the float stored in them.
\<close>

section \<open>Tables\<close>

record oms_order_event =
  oe_oms_order_id :: string
  oe_state_version :: int
  oe_event_type :: string
  oe_payload :: oms_order

record risk_control_event =
  ce_revision :: int
  ce_event_type :: string
  ce_reason :: string
  ce_actor :: string
  ce_correlation_id :: "string option"
  ce_created_at :: time

record audit_record =
  au_correlation_id :: string
  au_audit_type :: string
  au_entity_type :: string
  au_entity_id :: "string option"

record db =
  db_faults :: "bool list"
  db_evaluations :: "risk_check list"
  db_risk_checks :: "risk_check list"
  db_approvals :: "order_approval dict"
  db_paper_orders :: "paper_order dict"
  db_oms_orders :: "oms_order dict"
  db_oms_events :: "oms_order_event list"
  db_commands :: "execution_command dict"
  db_fills :: "execution_fill dict"
  db_runs :: "reconciliation_run list"
  db_mismatches :: "reconciliation_mismatch list"
  db_positions :: "(string \<times> venue_position_snapshot) list"
  db_balances :: "(string \<times> venue_balance_snapshot) list"
  db_risk_control :: "risk_control_state option"
  db_control_events :: "risk_control_event list"
  db_audit_logs :: "audit_record list"

definition empty_db :: db where
  "empty_db =
     \<lparr>db_faults = [], db_evaluations = [], db_risk_checks = [], db_approvals = [],
      db_paper_orders = [], db_oms_orders = [], db_oms_events = [], db_commands = [],
      db_fills = [], db_runs = [], db_mismatches = [], db_positions = [], db_balances = [],
      db_risk_control = None, db_control_events = [], db_audit_logs = []\<rparr>"

section \<open>Transactions\<close>

definition keep_db :: "exn_class \<Rightarrow> bool" where
  "keep_db c \<longleftrightarrow> c = DatabaseError"

definition keep_db_validation :: "exn_class \<Rightarrow> bool" where
  "keep_db_validation c \<longleftrightarrow> c = DatabaseError \<or> c = ValidationError"

definition transaction ::
  "(exn_class \<Rightarrow> bool) \<Rightarrow> (db \<Rightarrow> (db \<times> 'a) result) \<Rightarrow> db \<Rightarrow> (db, 'a) outcome" where
  "transaction keep body d =
     (let d1 = d\<lparr>db_faults := tl (db_faults d)\<rparr>
      in if db_faults d \<noteq> [] \<and> hd (db_faults d) then (d1, raise DatabaseError ''database unavailable'')
         else case body d1 of
                Inl e \<Rightarrow> (d1, Inl (if keep (exn_class e) then e else Exn DatabaseError (exn_message e)))
              | Inr (d2, x) \<Rightarrow> (d2, Inr x))"

text \<open>What the caller sees of the tables: a transaction that raises leaves them as they were.\<close>

definition tables :: "db \<Rightarrow> db" where
  "tables d = d\<lparr>db_faults := []\<rparr>"

lemma transaction_atomic: "transaction keep body d = (d', Inl e) \<Longrightarrow> tables d' = tables d"
  by (auto simp: transaction_def tables_def Let_def split: if_splits sum.splits prod.splits)

lemma transaction_commit:
  "transaction keep body d = (d', Inr x) \<longleftrightarrow>
     \<not> (db_faults d \<noteq> [] \<and> hd (db_faults d)) \<and>
     body (d\<lparr>db_faults := tl (db_faults d)\<rparr>) = Inr (d', x)"
  by (auto simp: transaction_def Let_def split: if_splits sum.splits prod.splits)

abbreviation integrity_error :: "'a result" where
  "integrity_error \<equiv> raise DatabaseError ''integrity constraint''"

section \<open>Row constraints and guards\<close>

definition oms_row_ok :: "oms_order \<Rightarrow> bool" where
  "oms_row_ok r \<longleftrightarrow>
     0 < oo_quantity r \<and> 0 < oo_requested_notional r \<and> 0 < oo_reference_price r \<and>
     flt 1 \<le> oo_leverage r \<and> 1 \<le> oo_state_version r \<and>
     0 \<le> oo_cumulative_filled_quantity r \<and> oo_cumulative_filled_quantity r \<le> oo_quantity r \<and>
     (oo_order_type r = LIMIT \<longrightarrow> oo_limit_price r \<noteq> None) \<and>
     (terminal (oo_status r) \<longleftrightarrow> oo_terminal_at r \<noteq> None)"

definition same_oms_identity :: "oms_order \<Rightarrow> oms_order \<Rightarrow> bool" where
  "same_oms_identity l r \<longleftrightarrow>
     oo_oms_order_id l = oo_oms_order_id r \<and> oo_client_order_id l = oo_client_order_id r \<and>
     oo_decision_id l = oo_decision_id r \<and> oo_risk_check_id l = oo_risk_check_id r \<and>
     oo_approval_id l = oo_approval_id r \<and> oo_request_fingerprint l = oo_request_fingerprint r \<and>
     oo_correlation_id l = oo_correlation_id r \<and> oo_exchange l = oo_exchange r \<and>
     oo_environment l = oo_environment r \<and> oo_symbol l = oo_symbol r \<and>
     oo_timeframe l = oo_timeframe r \<and> oo_strategy l = oo_strategy r \<and> oo_side l = oo_side r \<and>
     oo_order_type l = oo_order_type r \<and> oo_time_in_force l = oo_time_in_force r \<and>
     oo_quantity l = oo_quantity r \<and> oo_requested_notional l = oo_requested_notional r \<and>
     oo_leverage l = oo_leverage r \<and> oo_limit_price l = oo_limit_price r \<and>
     oo_reference_price l = oo_reference_price r"

definition oms_status_step :: "oms_status \<Rightarrow> oms_status \<Rightarrow> bool" where
  "oms_status_step old new \<longleftrightarrow> \<not> terminal old \<and> (new = old \<or> new \<noteq> OsCREATED)"

definition guard_oms_order_transition :: "oms_order \<Rightarrow> oms_order \<Rightarrow> bool" where
  "guard_oms_order_transition old new \<longleftrightarrow>
     same_oms_identity old new \<and> oo_created_at old = oo_created_at new \<and>
     oo_state_version new = oo_state_version old + 1 \<and> oms_status_step (oo_status old) (oo_status new)"

definition command_row_ok :: "execution_command \<Rightarrow> bool" where
  "command_row_ok c \<longleftrightarrow>
     0 \<le> xc_attempt_count c \<and> xc_max_attempts c = 1 \<and> xc_attempt_count c \<le> xc_max_attempts c \<and>
     (case xc_status c of
        CsPENDING \<Rightarrow> xc_leased_by c = None \<and> xc_lease_expires_at c = None \<and> xc_completed_at c = None
      | CsLEASED \<Rightarrow> xc_leased_by c \<noteq> None \<and> xc_lease_expires_at c \<noteq> None \<and> xc_completed_at c = None
      | _ \<Rightarrow> xc_leased_by c = None \<and> xc_lease_expires_at c = None \<and> xc_completed_at c \<noteq> None)"

definition guard_execution_command_transition :: "execution_command \<Rightarrow> execution_command \<Rightarrow> bool" where
  "guard_execution_command_transition old new \<longleftrightarrow>
     xc_command_id old = xc_command_id new \<and> xc_oms_order_id old = xc_oms_order_id new \<and>
     xc_command_type old = xc_command_type new \<and> xc_max_attempts old = xc_max_attempts new \<and>
     xc_available_at old = xc_available_at new \<and> xc_created_at old = xc_created_at new \<and>
     (xc_status old = CsPENDING \<and> xc_status new = CsLEASED \<or>
      xc_status old = CsLEASED \<and> xc_status new \<in> {CsLEASED, CsCOMPLETED, CsDEAD_LETTER})"

definition approval_row_ok :: "order_approval \<Rightarrow> bool" where
  "approval_row_ok a \<longleftrightarrow>
     length (oa_approval_id a) = 64 \<and> length (oa_position_snapshot_hash a) = 64 \<and>
     0 < oa_max_notional a \<and> flt 1 \<le> oa_max_leverage a \<and> 0 < oa_reference_price a \<and>
     0 \<le> oa_max_entry_deviation_bps a \<and> oa_created_at a < oa_expires_at a \<and>
     (if oa_status a = ApCONSUMED
      then oa_consumed_at a \<noteq> None \<and> (oa_paper_order_id a = None \<longleftrightarrow> oa_oms_order_id a \<noteq> None)
      else oa_consumed_at a = None \<and> oa_paper_order_id a = None \<and> oa_oms_order_id a = None)"

definition guard_order_approval_transition :: "order_approval \<Rightarrow> order_approval \<Rightarrow> bool" where
  "guard_order_approval_transition old new \<longleftrightarrow>
     oa_approval_id old = oa_approval_id new \<and> oa_evaluation_id old = oa_evaluation_id new \<and>
     oa_request_fingerprint old = oa_request_fingerprint new \<and>
     oa_position_snapshot_hash old = oa_position_snapshot_hash new \<and>
     oa_decision_id old = oa_decision_id new \<and> oa_risk_check_id old = oa_risk_check_id new \<and>
     oa_correlation_id old = oa_correlation_id new \<and> oa_symbol old = oa_symbol new \<and>
     oa_timeframe old = oa_timeframe new \<and> oa_strategy old = oa_strategy new \<and>
     oa_side old = oa_side new \<and> oa_max_notional old = oa_max_notional new \<and>
     oa_max_leverage old = oa_max_leverage new \<and> oa_reference_price old = oa_reference_price new \<and>
     oa_max_entry_deviation_bps old = oa_max_entry_deviation_bps new \<and>
     oa_created_at old = oa_created_at new \<and> oa_expires_at old = oa_expires_at new \<and>
     oa_status old = ApACTIVE \<and> oa_status new \<in> {ApCONSUMED, ApREVOKED, ApEXPIRED}"

definition guard_risk_control_transition :: "risk_control_state \<Rightarrow> risk_control_state \<Rightarrow> bool" where
  "guard_risk_control_transition old new \<longleftrightarrow>
     ctl_revision new = ctl_revision old + 1 \<and> ctl_active new \<noteq> ctl_active old"

section \<open>Row writes\<close>

definition insert_event :: "oms_order \<Rightarrow> string \<Rightarrow> db \<Rightarrow> db result" where
  "insert_event o' event_type d =
     (if \<exists>e \<in> set (db_oms_events d).
           oe_oms_order_id e = oo_oms_order_id o' \<and> oe_state_version e = oo_state_version o'
      then integrity_error
      else Inr (d\<lparr>db_oms_events := db_oms_events d @
                  [\<lparr>oe_oms_order_id = oo_oms_order_id o', oe_state_version = oo_state_version o',
                    oe_event_type = event_type, oe_payload = o'\<rparr>]\<rparr>))"

definition insert_oms_order :: "oms_order \<Rightarrow> db \<Rightarrow> db result" where
  "insert_oms_order o' d =
     (if \<not> oms_row_ok o' \<or> dict_get (db_oms_orders d) (oo_oms_order_id o') \<noteq> None \<or>
         dict_get (db_approvals d) (oo_approval_id o') = None \<or>
         (\<exists>r \<in> set (dict_values (db_oms_orders d)).
            oo_approval_id r = oo_approval_id o' \<or>
            oo_exchange r = oo_exchange o' \<and> oo_environment r = oo_environment o' \<and>
            oo_client_order_id r = oo_client_order_id o')
      then integrity_error
      else Inr (d\<lparr>db_oms_orders := dict_set (oo_oms_order_id o') o' (db_oms_orders d)\<rparr>))"

definition update_oms_row :: "oms_order \<Rightarrow> oms_order \<Rightarrow> db \<Rightarrow> db result" where
  "update_oms_row old new d =
     (if \<not> guard_oms_order_transition old new \<or> \<not> oms_row_ok new then integrity_error
      else Inr (d\<lparr>db_oms_orders := dict_set (oo_oms_order_id old) new (db_oms_orders d)\<rparr>))"

definition insert_command :: "execution_command \<Rightarrow> db \<Rightarrow> db result" where
  "insert_command c d =
     (if \<not> command_row_ok c \<or> dict_get (db_commands d) (xc_command_id c) \<noteq> None \<or>
         dict_get (db_oms_orders d) (xc_oms_order_id c) = None \<or>
         (\<exists>r \<in> set (dict_values (db_commands d)).
            xc_oms_order_id r = xc_oms_order_id c \<and> xc_command_type r = xc_command_type c)
      then integrity_error
      else Inr (d\<lparr>db_commands := dict_set (xc_command_id c) c (db_commands d)\<rparr>))"

definition update_command_row :: "execution_command \<Rightarrow> execution_command \<Rightarrow> db \<Rightarrow> db result" where
  "update_command_row old new d =
     (if \<not> guard_execution_command_transition old new \<or> \<not> command_row_ok new then integrity_error
      else Inr (d\<lparr>db_commands := dict_set (xc_command_id old) new (db_commands d)\<rparr>))"

definition update_approval_row :: "order_approval \<Rightarrow> order_approval \<Rightarrow> db \<Rightarrow> db result" where
  "update_approval_row old new d =
     (if \<not> guard_order_approval_transition old new \<or> \<not> approval_row_ok new then integrity_error
      else Inr (d\<lparr>db_approvals := dict_set (oa_approval_id old) new (db_approvals d)\<rparr>))"

abbreviation oms_order_from_row :: "oms_order \<Rightarrow> oms_order result" where
  "oms_order_from_row r \<equiv> validate valid_oms_order r"

abbreviation execution_command_from_row :: "execution_command \<Rightarrow> execution_command result" where
  "execution_command_from_row r \<equiv> validate valid_execution_command r"

fun map_result :: "('a \<Rightarrow> 'b result) \<Rightarrow> 'a list \<Rightarrow> 'b list result" where
  "map_result f [] = Inr []"
| "map_result f (x # xs) =
     bind_result (f x) (\<lambda>y. bind_result (map_result f xs) (\<lambda>ys. Inr (y # ys)))"

lemma map_result_Inr: "map_result f xs = Inr ys \<longleftrightarrow> list_all2 (\<lambda>x y. f x = Inr y) xs ys"
  by (induction xs arbitrary: ys) (auto simp: bind_result_Inr list_all2_Cons1)

fun fold_result :: "('a \<Rightarrow> 's \<Rightarrow> 's result) \<Rightarrow> 'a list \<Rightarrow> 's \<Rightarrow> 's result" where
  "fold_result f [] s = Inr s"
| "fold_result f (x # xs) s = bind_result (f x s) (fold_result f xs)"

end
