(* ===== verification/Repository.thy ===== *)
theory Repository
  imports Database
begin

text \<open>
  The transactions of \<^verbatim>\<open>app/database/repositories/repository.py\<close> that carry central risk and the OMS:
  durable exposure, risk evidence and approvals, OMS orders and their command outbox,
  reconciliation evidence and the risk control row. \<open>H\<close> is the SHA-256 of a canonical JSON
  text and \<open>now\<close> the clock reading a transaction takes.
\<close>

section \<open>Durable exposure\<close>

definition exposure_json :: "position_exposure \<Rightarrow> json" where
  "exposure_json p =
     JObj [(''paper_order_id'', JStr (pe_paper_order_id p)), (''symbol'', JStr (pe_symbol p)),
           (''timeframe'', JStr (pe_timeframe p)), (''strategy'', JStr (pe_strategy p)),
           (''side'', JStr (side_value (pe_side p))),
           (''notional'', JFloat (py_round (pe_notional p) 8)),
           (''leverage'', JFloat (py_round (pe_leverage p) 8))]"

definition exposure_snapshot_hash :: "(json \<Rightarrow> string) \<Rightarrow> position_exposure list \<Rightarrow> string" where
  "exposure_snapshot_hash H positions =
     H (sort_keys (JObj [(''positions'', JList (map exposure_json (sort_key pe_paper_order_id positions)))]))"

definition endswith :: "string \<Rightarrow> string \<Rightarrow> bool" where
  "endswith s suffix \<longleftrightarrow> length suffix \<le> length s \<and> drop (length s - length suffix) s = suffix"

definition QUOTE_ASSETS :: "string list" where
  "QUOTE_ASSETS = [''USDT'', ''USDC'', ''FDUSD'', ''TUSD'', ''BUSD'', ''BTC'', ''ETH'', ''BNB'']"

definition spot_base_asset :: "string \<Rightarrow> string option" where
  "spot_base_asset symbol =
     (let normalized = to_upper symbol
      in case find (endswith normalized) QUOTE_ASSETS of
           None \<Rightarrow> None
         | Some quote_asset \<Rightarrow>
             (let base = take (length normalized - length quote_asset) normalized
              in if base = [] then None else Some base))"

definition or_unknown :: "string option \<Rightarrow> string" where
  "or_unknown tf = (case tf of None \<Rightarrow> ''unknown'' | Some t \<Rightarrow> if t = [] then ''unknown'' else t)"

definition paper_row_exposure :: "paper_order \<Rightarrow> position_exposure result" where
  "paper_row_exposure r =
     validate valid_position_exposure
       \<lparr>pe_paper_order_id = po_paper_order_id r, pe_symbol = po_symbol r,
        pe_timeframe = or_unknown (po_timeframe r), pe_strategy = po_strategy r,
        pe_side = po_side r, pe_notional = po_position_size r, pe_leverage = po_leverage r\<rparr>"

definition reserving :: "oms_status \<Rightarrow> bool" where
  "reserving s \<longleftrightarrow>
     s \<in> {OsCREATED, OsPENDING_SUBMISSION, OsSUBMITTED, OsPARTIALLY_FILLED, OsCANCEL_PENDING, OsUNKNOWN}"

definition reserved_notional :: "oms_order \<Rightarrow> pyfloat" where
  "reserved_notional r =
     max 0 (oo_quantity r - oo_cumulative_filled_quantity r) * oo_reference_price r"

definition reservation_exposure :: "oms_order \<Rightarrow> position_exposure result" where
  "reservation_exposure r =
     validate valid_position_exposure
       \<lparr>pe_paper_order_id = ''oms-reservation:'' @ oo_oms_order_id r, pe_symbol = oo_symbol r,
        pe_timeframe = oo_timeframe r, pe_strategy = oo_strategy r, pe_side = oo_side r,
        pe_notional = reserved_notional r, pe_leverage = oo_leverage r\<rparr>"

text \<open>
  The newest finished TESTNET run of each exchange, by \<^verbatim>\<open>completed_at\<close> (every stored run has one).
\<close>

definition completed_key :: "reconciliation_run \<Rightarrow> time" where
  "completed_key r = (case rr_completed_at r of None \<Rightarrow> 0 | Some t \<Rightarrow> t)"

definition latest_runs :: "db \<Rightarrow> reconciliation_run list" where
  "latest_runs d =
     (let runs = filter (\<lambda>r. rr_environment r = EnvTESTNET \<and> rr_status r \<noteq> RunFAILED) (db_runs d);
          newest = (\<lambda>x. rev (sort_key completed_key (rev (filter (\<lambda>r. rr_exchange r = x) runs))))
      in take 1 (newest BINANCE) @ take 1 (newest BYBIT))"

definition or_price :: "pyfloat option \<Rightarrow> pyfloat \<Rightarrow> pyfloat" where
  "or_price x y = (case x of None \<Rightarrow> y | Some v \<Rightarrow> if v = 0 then y else v)"

definition venue_mark :: "venue_position_snapshot \<Rightarrow> pyfloat" where
  "venue_mark p = or_price (vp_mark_price p) (or_price (vp_entry_price p) 0)"

definition venue_exposure :: "venue_position_snapshot \<Rightarrow> position_exposure result" where
  "venue_exposure p =
     validate valid_position_exposure
       \<lparr>pe_paper_order_id = ''venue:'' @ exchange_value (vp_exchange p) @ '':'' @
          environment_value (vp_environment p) @ '':'' @ vp_symbol p @ '':'' @ side_value (vp_side p),
        pe_symbol = vp_symbol p, pe_timeframe = ''venue'', pe_strategy = ''OMS_RECONCILED'',
        pe_side = vp_side p, pe_notional = vp_quantity p * venue_mark p, pe_leverage = flt 1\<rparr>"

fun first_per_symbol :: "oms_order list \<Rightarrow> oms_order dict" where
  "first_per_symbol [] = []"
| "first_per_symbol (r # rs) = (oo_symbol r, r) # filter (\<lambda>(s, _). s \<noteq> oo_symbol r) (first_per_symbol rs)"

definition latest_binance_orders :: "oms_order list \<Rightarrow> oms_order dict" where
  "latest_binance_orders rows =
     first_per_symbol (rev (sort_key oo_updated_at (rev (filter (\<lambda>r. oo_exchange r = BINANCE) rows))))"

definition spot_exposure :: "string \<Rightarrow> oms_order \<Rightarrow> venue_balance_snapshot dict \<Rightarrow> position_exposure list result" where
  "spot_exposure symbol order balances_by_asset =
     (case spot_base_asset symbol of
        None \<Rightarrow> Inr []
      | Some base \<Rightarrow>
          (let quantity = (case dict_get balances_by_asset base of None \<Rightarrow> 0 | Some b \<Rightarrow> vb_equity b);
               price = or_price (oo_average_fill_price order) (oo_reference_price order)
           in if quantity \<le> 0 \<or> price \<le> 0 then Inr []
              else bind_result
                     (validate valid_position_exposure
                        \<lparr>pe_paper_order_id = ''venue:BINANCE:TESTNET:'' @ symbol @ '':BUY'',
                         pe_symbol = symbol, pe_timeframe = ''venue'', pe_strategy = ''OMS_RECONCILED'',
                         pe_side = BUY, pe_notional = quantity * price, pe_leverage = flt 1\<rparr>)
                     (\<lambda>e. Inr [e])))"

definition unreconciled_exposure :: "oms_order \<Rightarrow> position_exposure result" where
  "unreconciled_exposure r =
     validate valid_position_exposure
       \<lparr>pe_paper_order_id = ''oms:'' @ oo_oms_order_id r, pe_symbol = oo_symbol r,
        pe_timeframe = oo_timeframe r, pe_strategy = oo_strategy r, pe_side = oo_side r,
        pe_notional = oo_cumulative_filled_quantity r *
          or_price (oo_average_fill_price r) (oo_reference_price r),
        pe_leverage = oo_leverage r\<rparr>"

definition durable_position_exposures :: "db \<Rightarrow> position_exposure list result" where
  "durable_position_exposures d =
     (let testnet = filter (\<lambda>r. oo_environment r = EnvTESTNET) (dict_values (db_oms_orders d));
          runs = latest_runs d;
          run_ids = map rr_run_id runs;
          position_rows = map snd (filter (\<lambda>(run, _). run \<in> set run_ids) (db_positions d));
          balance_rows = map snd (filter (\<lambda>(run, b). run \<in> set run_ids \<and> vb_exchange b = BINANCE) (db_balances d));
          balances_by_asset = dict_of (\<lambda>b. to_upper (vb_asset b)) balance_rows;
          binance = (if runs = [] then [] else latest_binance_orders testnet);
          reconciled_symbols =
            (if runs = [] then []
             else map (\<lambda>p. (vp_exchange p, vp_symbol p)) position_rows
               @ (if BYBIT \<in> set (map rr_exchange runs)
                  then map (\<lambda>r. (oo_exchange r, oo_symbol r)) (filter (\<lambda>r. oo_exchange r = BYBIT) testnet)
                  else [])
               @ map (\<lambda>(s, _). (BINANCE, s)) (filter (\<lambda>(s, _). spot_base_asset s \<noteq> None) binance))
      in bind_result (map_result paper_row_exposure
                        (filter (\<lambda>r. po_status r = PsFILLED) (dict_values (db_paper_orders d)))) (\<lambda>paper.
         bind_result (map_result reservation_exposure
                        (filter (\<lambda>r. reserving (oo_status r) \<and> \<not> reserved_notional r \<le> 0) testnet)) (\<lambda>reserved.
         bind_result (map_result venue_exposure
                        (if runs = [] then []
                         else filter (\<lambda>p. 0 < vp_quantity p \<and> 0 < venue_mark p) position_rows)) (\<lambda>venue.
         bind_result (map_result (\<lambda>(s, r). spot_exposure s r balances_by_asset) binance) (\<lambda>spot.
         bind_result (map_result unreconciled_exposure
                        (filter (\<lambda>r. 0 < oo_cumulative_filled_quantity r \<and>
                                     (oo_exchange r, oo_symbol r) \<notin> set reconciled_symbols) testnet)) (\<lambda>rest.
         Inr (paper @ reserved @ venue @ concat spot @ rest)))))))"

definition load_open_position_exposures :: "db \<Rightarrow> (db, position_exposure list) outcome" where
  "load_open_position_exposures =
     transaction keep_db (\<lambda>d. bind_result (durable_position_exposures d) (\<lambda>ps. Inr (d, ps)))"

section \<open>Risk evidence and approvals\<close>

definition evaluation_row_ok :: "risk_check \<Rightarrow> bool" where
  "evaluation_row_ok c \<longleftrightarrow>
     length (rc_evaluation_id c) = 64 \<and> length (rc_request_fingerprint c) = 64 \<and>
     rc_risk_status c \<noteq> RsPENDING \<and> rc_approved c = approving (rc_risk_status c)"

definition insert_approval :: "order_approval \<Rightarrow> db \<Rightarrow> db result" where
  "insert_approval a d =
     (if \<not> approval_row_ok a \<or> dict_get (db_approvals d) (oa_approval_id a) \<noteq> None \<or>
         (\<exists>r \<in> set (dict_values (db_approvals d)). oa_evaluation_id r = oa_evaluation_id a) \<or>
         (\<forall>c \<in> set (db_evaluations d). rc_evaluation_id c \<noteq> oa_evaluation_id a)
      then integrity_error
      else Inr (d\<lparr>db_approvals := dict_set (oa_approval_id a) a (db_approvals d)\<rparr>))"

definition save_central_risk_evaluation ::
  "risk_check \<Rightarrow> order_approval option \<Rightarrow> db \<Rightarrow> (db, unit) outcome" where
  "save_central_risk_evaluation check approval =
     transaction keep_db (\<lambda>d.
       case find (\<lambda>c. rc_evaluation_id c = rc_evaluation_id check) (db_evaluations d) of
         Some existing \<Rightarrow>
           if rc_request_fingerprint existing \<noteq> rc_request_fingerprint check \<or>
              rc_idempotency_key existing \<noteq> rc_idempotency_key check
           then raise ValidationError ''Immutable risk evaluation identity conflict''
           else Inr (d, ())
       | None \<Rightarrow>
           if \<exists>c \<in> set (db_evaluations d). rc_idempotency_key c = rc_idempotency_key check
           then raise ValidationError ''Risk idempotency key already belongs to another request''
           else if \<not> evaluation_row_ok check \<or>
                   (\<exists>c \<in> set (db_evaluations d) \<union> set (db_risk_checks d). rc_risk_check_id c = rc_risk_check_id check)
           then integrity_error
           else
             let d1 = d\<lparr>db_evaluations := db_evaluations d @ [check],
                        db_risk_checks := db_risk_checks d @ [check]\<rparr>
             in case approval of
                  None \<Rightarrow> Inr (d1, ())
                | Some a \<Rightarrow> bind_result (insert_approval a d1) (\<lambda>d2. Inr (d2, ())))"

definition load_central_risk_evaluation_by_key ::
  "string \<Rightarrow> db \<Rightarrow> (db, (risk_check \<times> order_approval option) option) outcome" where
  "load_central_risk_evaluation_by_key key =
     transaction (\<lambda>_. False) (\<lambda>d.
       case find (\<lambda>c. rc_idempotency_key c = key) (db_evaluations d) of
         None \<Rightarrow> Inr (d, None)
       | Some evaluation \<Rightarrow>
           bind_result (validate valid_risk_check evaluation) (\<lambda>check.
           case find (\<lambda>a. oa_evaluation_id a = rc_evaluation_id evaluation) (dict_values (db_approvals d)) of
             None \<Rightarrow> Inr (d, Some (check, None))
           | Some row \<Rightarrow>
               bind_result (validate valid_order_approval row) (\<lambda>a. Inr (d, Some (check, Some a)))))"

definition tol8 :: pyfloat where
  "tol8 = flt (1 / 10 ^ 8)"

definition paper_differs_from_approval :: "paper_order \<Rightarrow> order_approval \<Rightarrow> bool" where
  "paper_differs_from_approval order stored \<longleftrightarrow>
     oa_risk_check_id stored \<noteq> po_risk_check_id order \<or> oa_decision_id stored \<noteq> po_decision_id order \<or>
     Some (oa_request_fingerprint stored) \<noteq> po_request_fingerprint order \<or>
     oa_symbol stored \<noteq> po_symbol order \<or> oa_strategy stored \<noteq> po_strategy order \<or>
     oa_side stored \<noteq> po_side order \<or>
     oa_max_notional stored + tol8 < po_position_size order \<or>
     oa_max_leverage stored + tol8 < po_leverage order"

definition write_paper_order :: "paper_order \<Rightarrow> oms_order option \<Rightarrow> db \<Rightarrow> (db \<times> unit) result" where
  "write_paper_order order oms_order d =
     (if po_approval_id order \<noteq> None \<and>
         (\<exists>r \<in> set (dict_values (db_paper_orders d)). po_approval_id r = po_approval_id order)
      then integrity_error
      else
        let d1 = d\<lparr>db_paper_orders := dict_set (po_paper_order_id order) order (db_paper_orders d)\<rparr>
        in case oms_order of
             None \<Rightarrow> Inr (d1, ())
           | Some m \<Rightarrow> bind_result (insert_oms_order m d1) (\<lambda>d2.
                       bind_result (insert_event m ''PAPER_FILLED'' d2) (\<lambda>d3. Inr (d3, ()))))"

text \<open>
  On an expired approval the code assigns \<^verbatim>\<open>stored.status = EXPIRED\<close> and raises inside the
  transaction, so the assignment is rolled back with it.
\<close>

definition consume_stored ::
  "(json \<Rightarrow> string) \<Rightarrow> time \<Rightarrow> order_approval \<Rightarrow> paper_order \<Rightarrow> order_approval \<Rightarrow> db \<Rightarrow> db result" where
  "consume_stored H now approval order stored d =
     (if oa_status stored \<noteq> ApACTIVE
      then raise ValidationError (''Order approval is '' @ approval_status_value (oa_status stored))
      else bind_result (durable_position_exposures d) (\<lambda>exposures.
        if oa_position_snapshot_hash stored \<noteq> exposure_snapshot_hash H exposures
        then raise ValidationError ''Order approval is stale for the durable portfolio''
        else if oa_expires_at stored \<le> now
        then raise ValidationError ''Order approval expired''
        else if paper_differs_from_approval order stored
        then raise ValidationError ''Order payload differs from durable approval''
        else if dict_get (db_paper_orders d) (po_paper_order_id order) \<noteq> None
        then raise ValidationError ''Paper order already exists for this approval''
        else update_approval_row stored
               (stored\<lparr>oa_status := ApCONSUMED, oa_consumed_at := oa_consumed_at approval,
                       oa_paper_order_id := Some (po_paper_order_id order), oa_oms_order_id := None\<rparr>) d))"

definition consume_order_approval ::
  "(json \<Rightarrow> string) \<Rightarrow> time \<Rightarrow> order_approval \<Rightarrow> paper_order \<Rightarrow> oms_order option \<Rightarrow> db \<Rightarrow> (db, unit) outcome" where
  "consume_order_approval H now approval order oms_order d0 =
     (if (case oms_order of None \<Rightarrow> False
          | Some m \<Rightarrow> oo_environment m \<noteq> EnvPAPER \<or> oo_oms_order_id m \<noteq> po_paper_order_id order \<or>
                     oo_approval_id m \<noteq> oa_approval_id approval)
      then (d0, raise ValidationError ''Invalid PAPER OMS mirror'')
      else transaction keep_db (\<lambda>d.
        if (case db_risk_control d of None \<Rightarrow> False | Some c \<Rightarrow> ctl_active c)
        then raise ValidationError ''Durable kill switch prevents order approval''
        else case dict_get (db_approvals d) (oa_approval_id approval) of
          None \<Rightarrow> raise ValidationError ''Order approval is not durable''
        | Some stored \<Rightarrow>
            bind_result (consume_stored H now approval order stored d) (write_paper_order order oms_order)) d0)"

definition save_paper_order :: "paper_order \<Rightarrow> db \<Rightarrow> (db, unit) outcome" where
  "save_paper_order order =
     transaction (\<lambda>_. False) (\<lambda>d.
       case dict_get (db_paper_orders d) (po_paper_order_id order) of
         Some existing \<Rightarrow>
           Inr (d\<lparr>db_paper_orders := dict_set (po_paper_order_id order)
                    (existing\<lparr>po_status := po_status order, po_closed_at := po_closed_at order,
                              po_pnl := po_pnl order, po_fees_estimated := po_fees_estimated order\<rparr>)
                    (db_paper_orders d)\<rparr>, ())
       | None \<Rightarrow>
           if po_approval_id order \<noteq> None \<and>
              (\<exists>r \<in> set (dict_values (db_paper_orders d)). po_approval_id r = po_approval_id order)
           then integrity_error
           else Inr (d\<lparr>db_paper_orders := dict_set (po_paper_order_id order) order (db_paper_orders d)\<rparr>, ()))"

section \<open>Risk control\<close>

definition load_risk_control_state :: "db \<Rightarrow> (db, risk_control_state option) outcome" where
  "load_risk_control_state = transaction (\<lambda>_. False) (\<lambda>d. Inr (d, db_risk_control d))"

definition revoke_active :: "order_approval \<Rightarrow> order_approval" where
  "revoke_active a = (if oa_status a = ApACTIVE then a\<lparr>oa_status := ApREVOKED\<rparr> else a)"

definition set_risk_control ::
  "time \<Rightarrow> bool \<Rightarrow> string \<Rightarrow> string \<Rightarrow> string option \<Rightarrow> db \<Rightarrow> (db, risk_control_state) outcome" where
  "set_risk_control now active reason actor correlation_id =
     transaction keep_db (\<lambda>d.
       let row = (case db_risk_control d of None \<Rightarrow> initial_risk_control_state | Some r \<Rightarrow> r)
       in if ctl_active row = active
          then raise ValidationError ''Risk control is already in the requested state''
          else
            let row1 = row\<lparr>ctl_active := active, ctl_revision := ctl_revision row + 1,
                           ctl_reason := Some reason, ctl_actor := Some actor\<rparr>;
                row2 = (if active then row1\<lparr>ctl_triggered_at := Some now, ctl_reset_at := None\<rparr>
                        else row1\<lparr>ctl_reset_at := Some now\<rparr>);
                approvals = (if active then map (\<lambda>(k, a). (k, revoke_active a)) (db_approvals d)
                             else db_approvals d)
            in if \<not> guard_risk_control_transition row row2 \<or>
                  (\<exists>e \<in> set (db_control_events d). ce_revision e = ctl_revision row2)
               then integrity_error
               else Inr (d\<lparr>db_risk_control := Some row2, db_approvals := approvals,
                           db_control_events := db_control_events d @
                             [\<lparr>ce_revision = ctl_revision row2,
                               ce_event_type = (if active then ''TRIGGERED'' else ''RESET''),
                               ce_reason = reason, ce_actor = actor,
                               ce_correlation_id = correlation_id, ce_created_at = now\<rparr>]\<rparr>, row2))"

definition save_audit_log :: "audit_record \<Rightarrow> db \<Rightarrow> (db, unit) outcome" where
  "save_audit_log r = transaction (\<lambda>_. False) (\<lambda>d. Inr (d\<lparr>db_audit_logs := db_audit_logs d @ [r]\<rparr>, ()))"

end
