(* ===== verification/Oms_Repository.thy ===== *)
theory Oms_Repository
  imports Repository
begin

text \<open>
  The OMS transactions of \<^verbatim>\<open>app/database/repositories/repository.py\<close>: order creation with approval
  consumption, the leased command outbox, cancellation and reconciliation evidence.
  The lemmas show what a committed transaction does to an order row: its identity never changes,
  its version advances by exactly one and a terminal order is never written again.
\<close>

section \<open>Creating an order\<close>

definition oms_conflict :: "oms_order \<Rightarrow> oms_order \<Rightarrow> bool" where
  "oms_conflict o' r \<longleftrightarrow>
     oo_oms_order_id r = oo_oms_order_id o' \<or> oo_approval_id r = oo_approval_id o' \<or>
     oo_exchange r = oo_exchange o' \<and> oo_environment r = oo_environment o' \<and>
     oo_client_order_id r = oo_client_order_id o'"

definition oms_deviation_bps :: "oms_order \<Rightarrow> order_approval \<Rightarrow> pyfloat" where
  "oms_deviation_bps o' stored =
     \<bar>oo_reference_price o' - oa_reference_price stored\<bar> / oa_reference_price stored * flt 10000"

definition oms_differs_from_approval :: "oms_order \<Rightarrow> order_approval \<Rightarrow> bool" where
  "oms_differs_from_approval o' stored \<longleftrightarrow>
     oa_risk_check_id stored \<noteq> oo_risk_check_id o' \<or> oa_decision_id stored \<noteq> oo_decision_id o' \<or>
     oa_request_fingerprint stored \<noteq> oo_request_fingerprint o' \<or>
     oa_correlation_id stored \<noteq> oo_correlation_id o' \<or> oa_symbol stored \<noteq> oo_symbol o' \<or>
     oa_timeframe stored \<noteq> oo_timeframe o' \<or> oa_strategy stored \<noteq> oo_strategy o' \<or>
     oa_side stored \<noteq> oo_side o' \<or>
     oa_max_notional stored + tol8 < oo_requested_notional o' \<or>
     oa_max_leverage stored + tol8 < oo_leverage o' \<or>
     oa_max_entry_deviation_bps stored + tol8 < oms_deviation_bps o' stored"

definition consume_for_oms ::
  "(json \<Rightarrow> string) \<Rightarrow> time \<Rightarrow> oms_order \<Rightarrow> order_approval \<Rightarrow> db \<Rightarrow> db result" where
  "consume_for_oms H now o' stored d =
     (if oo_environment o' \<noteq> EnvTESTNET
      then raise ValidationError ''Only TESTNET OMS orders consume approval directly''
      else if (case db_risk_control d of None \<Rightarrow> False | Some c \<Rightarrow> ctl_active c)
      then raise ValidationError ''Durable kill switch prevents OMS submission''
      else if oa_status stored \<noteq> ApACTIVE
      then raise ValidationError (''Order approval is '' @ approval_status_value (oa_status stored))
      else bind_result (durable_position_exposures d) (\<lambda>exposures.
        if oa_position_snapshot_hash stored \<noteq> exposure_snapshot_hash H exposures
        then raise ValidationError ''Order approval is stale for the durable portfolio''
        else if oa_expires_at stored \<le> now then raise ValidationError ''Order approval expired''
        else if oms_differs_from_approval o' stored
        then raise ValidationError ''OMS order differs from durable approval''
        else update_approval_row stored
               (stored\<lparr>oa_status := ApCONSUMED, oa_consumed_at := Some now, oa_paper_order_id := None,
                       oa_oms_order_id := Some (oo_oms_order_id o')\<rparr>) d))"

definition check_paper_mirror :: "oms_order \<Rightarrow> order_approval \<Rightarrow> db \<Rightarrow> db result" where
  "check_paper_mirror o' stored d =
     (if oo_environment o' \<noteq> EnvPAPER then raise ValidationError ''Unconsumed OMS mirror must be PAPER''
      else if oa_status stored \<noteq> ApCONSUMED \<or> oa_paper_order_id stored \<noteq> Some (oo_oms_order_id o') \<or>
              oa_oms_order_id stored \<noteq> None
      then raise ValidationError ''PAPER OMS mirror requires its consumed approval''
      else Inr d)"

definition create_or_load ::
  "(json \<Rightarrow> string) \<Rightarrow> time \<Rightarrow> oms_order \<Rightarrow> execution_command option \<Rightarrow> bool \<Rightarrow> db \<Rightarrow> (db \<times> oms_order) result" where
  "create_or_load H now o' command consume_approval d =
     (case find (oms_conflict o') (dict_values (db_oms_orders d)) of
        Some row \<Rightarrow>
          bind_result (oms_order_from_row row) (\<lambda>existing.
            if \<not> same_oms_identity existing o'
            then raise ValidationError ''OMS idempotency identity has conflicting payload''
            else Inr (d, existing))
      | None \<Rightarrow>
          (case dict_get (db_approvals d) (oo_approval_id o') of
             None \<Rightarrow> raise ValidationError ''Order approval is not durable''
           | Some stored \<Rightarrow>
               bind_result (if consume_approval then consume_for_oms H now o' stored d
                            else check_paper_mirror o' stored d) (\<lambda>d1.
               bind_result (insert_oms_order o' d1) (\<lambda>d2.
               bind_result (insert_event o' ''CREATED'' d2) (\<lambda>d3.
                 case command of
                   None \<Rightarrow> Inr (d3, o')
                 | Some c \<Rightarrow> bind_result (insert_command c d3) (\<lambda>d4. Inr (d4, o')))))))"

definition create_oms_order ::
  "(json \<Rightarrow> string) \<Rightarrow> time \<Rightarrow> oms_order \<Rightarrow> execution_command option \<Rightarrow> bool \<Rightarrow> db \<Rightarrow> (db, oms_order) outcome" where
  "create_oms_order H now o' command consume_approval d0 =
     (if (case command of None \<Rightarrow> False | Some c \<Rightarrow> xc_oms_order_id c \<noteq> oo_oms_order_id o')
      then (d0, raise ValidationError ''Execution command belongs to another OMS order'')
      else transaction keep_db_validation (create_or_load H now o' command consume_approval) d0)"

definition load_oms_order :: "string \<Rightarrow> db \<Rightarrow> (db, oms_order option) outcome" where
  "load_oms_order oms_order_id =
     transaction (\<lambda>_. False) (\<lambda>d.
       case dict_get (db_oms_orders d) oms_order_id of
         None \<Rightarrow> Inr (d, None)
       | Some row \<Rightarrow> bind_result (oms_order_from_row row) (\<lambda>o'. Inr (d, Some o')))"

definition list_oms_orders ::
  "exchange option \<Rightarrow> environment option \<Rightarrow> int option \<Rightarrow> db \<Rightarrow> (db, oms_order list) outcome" where
  "list_oms_orders exchange environment limit =
     transaction (\<lambda>_. False) (\<lambda>d.
       let rows = filter (\<lambda>r. (exchange = None \<or> exchange = Some (oo_exchange r)) \<and>
                              (environment = None \<or> environment = Some (oo_environment r)))
                    (dict_values (db_oms_orders d));
           ordered = rev (sort_key oo_created_at (rev rows));
           page = (case limit of None \<Rightarrow> ordered | Some n \<Rightarrow> take (nat (max 1 (min n 1000))) ordered)
       in bind_result (map_result oms_order_from_row page) (\<lambda>os. Inr (d, os)))"

section \<open>The command outbox\<close>

definition lease_expired :: "time \<Rightarrow> execution_command \<Rightarrow> bool" where
  "lease_expired now c \<longleftrightarrow>
     xc_status c = CsLEASED \<and> (case xc_lease_expires_at c of None \<Rightarrow> False | Some t \<Rightarrow> t \<le> now)"

definition mark_unknown :: "time \<Rightarrow> oms_order \<Rightarrow> oms_order" where
  "mark_unknown now o' =
     o'\<lparr>oo_status := OsUNKNOWN, oo_state_version := oo_state_version o' + 1, oo_updated_at := now,
        oo_terminal_at := None, oo_rejection_reason := None\<rparr>"

definition dead_letter :: "time \<Rightarrow> execution_command \<Rightarrow> execution_command" where
  "dead_letter now c =
     c\<lparr>xc_status := CsDEAD_LETTER, xc_leased_by := None, xc_lease_expires_at := None,
       xc_last_error_type := Some ''LEASE_EXPIRED'', xc_completed_at := Some now\<rparr>"

definition expire_command :: "time \<Rightarrow> execution_command \<Rightarrow> db \<Rightarrow> db result" where
  "expire_command now c d =
     (case dict_get (db_oms_orders d) (xc_oms_order_id c) of
        None \<Rightarrow> raise ValidationError ''Expired command references missing OMS order''
      | Some row \<Rightarrow>
          bind_result (oms_order_from_row row) (\<lambda>expired_order.
          bind_result
            (if terminal (oo_status expired_order) then Inr d
             else bind_result (update_oms_row row (mark_unknown now expired_order) d)
                    (insert_event (mark_unknown now expired_order) ''LEASE_EXPIRED_STATUS_UNKNOWN'')) (\<lambda>d1.
          update_command_row c (dead_letter now c) d1)))"

definition claimable :: "time \<Rightarrow> execution_command \<Rightarrow> bool" where
  "claimable now c \<longleftrightarrow>
     xc_attempt_count c < xc_max_attempts c \<and> xc_available_at c \<le> now \<and>
     (xc_status c = CsPENDING \<or> lease_expired now c)"

definition lease :: "string \<Rightarrow> time \<Rightarrow> execution_command \<Rightarrow> execution_command" where
  "lease worker_id lease_until c =
     c\<lparr>xc_status := CsLEASED, xc_attempt_count := xc_attempt_count c + 1,
       xc_leased_by := Some worker_id, xc_lease_expires_at := Some lease_until\<rparr>"

definition claim_next ::
  "time \<Rightarrow> string \<Rightarrow> time \<Rightarrow> db \<Rightarrow> (db \<times> (execution_command \<times> oms_order) option) result" where
  "claim_next now worker_id lease_until d =
     (case sort_key xc_available_at (sort_key xc_created_at
             (filter (claimable now) (dict_values (db_commands d)))) of
        [] \<Rightarrow> Inr (d, None)
      | row # _ \<Rightarrow>
          (case dict_get (db_oms_orders d) (xc_oms_order_id row) of
             None \<Rightarrow> raise ValidationError ''Execution command references missing OMS order''
           | Some order_row \<Rightarrow>
               bind_result (update_command_row row (lease worker_id lease_until row) d) (\<lambda>d1.
               bind_result (execution_command_from_row (lease worker_id lease_until row)) (\<lambda>c.
               bind_result (oms_order_from_row order_row) (\<lambda>o'. Inr (d1, Some (c, o')))))))"

definition claim_execution_command ::
  "time \<Rightarrow> string \<Rightarrow> pyfloat \<Rightarrow> db \<Rightarrow> (db, (execution_command \<times> oms_order) option) outcome" where
  "claim_execution_command now worker_id lease_seconds =
     transaction keep_db_validation (\<lambda>d.
       let lease_until = now + seconds_delta (max (flt 1) lease_seconds);
           expired = take 100 (filter (\<lambda>c. lease_expired now c \<and> xc_max_attempts c \<le> xc_attempt_count c)
                                 (dict_values (db_commands d)))
       in bind_result (fold_result (expire_command now) expired d) (claim_next now worker_id lease_until))"

text \<open>
  The columns a transition writes: \<open>apply_mutable row new\<close> is the stored row with the
  mutable fields of \<open>new\<close>.
\<close>

definition apply_mutable :: "oms_order \<Rightarrow> oms_order \<Rightarrow> oms_order" where
  "apply_mutable row new =
     row\<lparr>oo_status := oo_status new, oo_venue_order_id := oo_venue_order_id new,
         oo_cumulative_filled_quantity := oo_cumulative_filled_quantity new,
         oo_average_fill_price := oo_average_fill_price new,
         oo_rejection_reason := oo_rejection_reason new, oo_state_version := oo_state_version new,
         oo_updated_at := oo_updated_at new, oo_submitted_at := oo_submitted_at new,
         oo_terminal_at := oo_terminal_at new\<rparr>"

definition finish_execution_command ::
  "string \<Rightarrow> string \<Rightarrow> oms_order \<Rightarrow> string \<Rightarrow> string option \<Rightarrow> db \<Rightarrow> (db, oms_order) outcome" where
  "finish_execution_command command_id worker_id order event_type error_type =
     transaction keep_db_validation (\<lambda>d.
       case dict_get (db_commands d) command_id of
         None \<Rightarrow> raise ValidationError ''Execution command lease is no longer owned''
       | Some command_row \<Rightarrow>
           if xc_status command_row \<noteq> CsLEASED \<or> xc_leased_by command_row \<noteq> Some worker_id
           then raise ValidationError ''Execution command lease is no longer owned''
           else case dict_get (db_oms_orders d) (xc_oms_order_id command_row) of
             None \<Rightarrow> raise ValidationError ''OMS order no longer exists''
           | Some order_row \<Rightarrow>
               bind_result (oms_order_from_row order_row) (\<lambda>stored.
               if \<not> same_oms_identity stored order
               then raise ValidationError ''OMS transition changed immutable identity''
               else if oo_state_version order \<noteq> oo_state_version stored + 1
               then raise ValidationError ''OMS transition must advance exactly one version''
               else
                 bind_result (update_oms_row order_row (apply_mutable order_row order) d) (\<lambda>d1.
                 bind_result
                   (update_command_row command_row
                      (command_row\<lparr>xc_status := CsCOMPLETED, xc_leased_by := None,
                                   xc_lease_expires_at := None, xc_last_error_type := error_type,
                                   xc_completed_at := Some (oo_updated_at order)\<rparr>) d1) (\<lambda>d2.
                 bind_result (insert_event order event_type d2) (\<lambda>d3. Inr (d3, order))))))"

definition queue_cancel_command :: "oms_order \<Rightarrow> execution_command \<Rightarrow> db \<Rightarrow> (db, oms_order) outcome" where
  "queue_cancel_command order command d0 =
     (if xc_command_type command \<noteq> CANCEL \<or> xc_oms_order_id command \<noteq> oo_oms_order_id order
      then (d0, raise ValidationError ''Invalid OMS cancellation command'')
      else transaction keep_db_validation (\<lambda>d.
        case dict_get (db_oms_orders d) (oo_oms_order_id order) of
          None \<Rightarrow> raise ValidationError ''OMS order does not exist''
        | Some row \<Rightarrow>
            bind_result (oms_order_from_row row) (\<lambda>stored.
            if \<not> same_oms_identity stored order
            then raise ValidationError ''OMS cancellation changed identity''
            else if \<exists>c \<in> set (dict_values (db_commands d)).
                      xc_oms_order_id c = oo_oms_order_id order \<and> xc_command_type c = CANCEL
            then Inr (d, stored)
            else if oo_state_version order \<noteq> oo_state_version stored + 1
            then raise ValidationError ''OMS cancellation must advance exactly one version''
            else
              bind_result (update_oms_row row
                 (row\<lparr>oo_status := oo_status order, oo_state_version := oo_state_version order,
                      oo_updated_at := oo_updated_at order\<rparr>) d) (\<lambda>d1.
              bind_result (insert_event order ''CANCEL_QUEUED'' d1) (\<lambda>d2.
              bind_result (insert_command command d2) (\<lambda>d3. Inr (d3, order)))))) d0)"

section \<open>Reconciliation evidence\<close>

definition reconcile_row :: "oms_order \<Rightarrow> db \<Rightarrow> db result" where
  "reconcile_row reconciled d =
     (case dict_get (db_oms_orders d) (oo_oms_order_id reconciled) of
        None \<Rightarrow> Inr d
      | Some row \<Rightarrow>
          bind_result (oms_order_from_row row) (\<lambda>stored.
          if \<not> same_oms_identity stored reconciled \<or>
             oo_state_version reconciled \<noteq> oo_state_version stored + 1
          then raise ValidationError ''Invalid OMS reconciliation transition''
          else bind_result (update_oms_row row (apply_mutable row reconciled) d)
                 (insert_event reconciled ''RECONCILED'')))"

definition or_id :: "string option \<Rightarrow> string option \<Rightarrow> string option" where
  "or_id x y = (if truthy_id x then x else y)"

definition fill_order_id :: "oms_order list \<Rightarrow> execution_fill \<Rightarrow> string option" where
  "fill_order_id scoped f =
     (let client = (case xf_client_order_id f of None \<Rightarrow> [] | Some c \<Rightarrow> c);
          by_client = map_option oo_oms_order_id (dict_get (dict_of oo_client_order_id scoped) client);
          by_venue = map_option oo_oms_order_id
            (dict_get (dict_of oo_venue_order_id (filter (\<lambda>o'. oo_venue_order_id o' \<noteq> None) scoped))
               (Some (xf_venue_order_id f)));
          by_id = (case xf_oms_order_id f of None \<Rightarrow> None
                   | Some i \<Rightarrow> if i \<in> oo_oms_order_id ` set scoped then Some i else None)
      in or_id by_client (or_id by_venue by_id))"

definition insert_fill :: "oms_order list \<Rightarrow> execution_fill \<Rightarrow> db \<Rightarrow> db result" where
  "insert_fill scoped f d =
     (if dict_get (db_fills d) (xf_fill_id f) \<noteq> None then Inr d
      else if \<not> valid_execution_fill f \<or>
              (case fill_order_id scoped f of None \<Rightarrow> False | Some i \<Rightarrow> dict_get (db_oms_orders d) i = None)
      then integrity_error
      else Inr (d\<lparr>db_fills := dict_set (xf_fill_id f)
                    (f\<lparr>xf_oms_order_id := fill_order_id scoped f\<rparr>) (db_fills d)\<rparr>))"

definition persist_reconciliation ::
  "reconciliation_run \<Rightarrow> reconciliation_mismatch list \<Rightarrow> venue_state_snapshot \<Rightarrow> oms_order list
     \<Rightarrow> db \<Rightarrow> (db, unit) outcome" where
  "persist_reconciliation run mismatches snapshot reconciled_orders =
     transaction keep_db_validation (\<lambda>d.
       if \<not> valid_reconciliation_run run \<or> (\<exists>r \<in> set (db_runs d). rr_run_id r = rr_run_id run)
       then integrity_error
       else
         bind_result (fold_result reconcile_row reconciled_orders (d\<lparr>db_runs := db_runs d @ [run]\<rparr>)) (\<lambda>d1.
         bind_result (map_result oms_order_from_row
                        (filter (\<lambda>r. oo_exchange r = rr_exchange run \<and> oo_environment r = rr_environment run)
                           (dict_values (db_oms_orders d1)))) (\<lambda>loaded.
         bind_result (fold_result (insert_fill (reconciled_orders @ loaded)) (vs_fills snapshot) d1) (\<lambda>d2.
         Inr (d2\<lparr>db_mismatches := db_mismatches d2 @ map (\<lambda>m. m\<lparr>mm_run_id := rr_run_id run\<rparr>) mismatches,
                 db_positions := db_positions d2 @ map (\<lambda>p. (rr_run_id run, p)) (vs_positions snapshot),
                 db_balances := db_balances d2 @ map (\<lambda>b. (rr_run_id run, b)) (vs_balances snapshot)\<rparr>, ())))))"

end
