(* ===== verification/Oms_Store.thy ===== *)
theory Oms_Store
  imports Oms_Repository "HOL-Library.Sublist"
begin

text \<open>
  What may change in the durable store. Three tables carry the trading state: OMS orders, execution
  commands and order approvals. Each has a well-formedness the constraints keep (every row is
  stored under its own key and satisfies its row constraint; an approval backs at most one OMS
  order, an order has at most one command of each type, an evaluation at most one approval) and an
  order of succession the guards keep: an order row keeps its identity, its version never goes back
  and it is frozen once terminal; a command keeps its identity, its attempts only grow and it is
  frozen once finished; an approval changes only while it is ACTIVE, into the same approval with
  another status. Events, evaluations and control events are only appended, fills never rewritten.
  \<open>db_le\<close> collects this, and every transaction of the repository respects it, committed or
  rolled back.
\<close>

section \<open>Tables\<close>

definition coherent :: "('v \<Rightarrow> string) \<Rightarrow> ('v \<Rightarrow> bool) \<Rightarrow> 'v dict \<Rightarrow> bool" where
  "coherent key ok t \<longleftrightarrow> dict_wf t \<and> (\<forall>k v. dict_get t k = Some v \<longrightarrow> key v = k \<and> ok v)"

definition unique_by :: "('v \<Rightarrow> 'v \<Rightarrow> bool) \<Rightarrow> 'v dict \<Rightarrow> bool" where
  "unique_by clash t \<longleftrightarrow>
     (\<forall>k k' v v'. dict_get t k = Some v \<longrightarrow> dict_get t k' = Some v' \<longrightarrow> clash v v' \<longrightarrow> k = k')"

definition table_advances :: "('v \<Rightarrow> 'v \<Rightarrow> bool) \<Rightarrow> 'v dict \<Rightarrow> 'v dict \<Rightarrow> bool" where
  "table_advances adv t t' \<longleftrightarrow>
     (\<forall>k v. dict_get t k = Some v \<longrightarrow> (\<exists>v'. dict_get t' k = Some v' \<and> adv v v'))"

lemma coherent_key: "coherent key ok t \<Longrightarrow> dict_get t k = Some v \<Longrightarrow> key v = k"
  by (simp add: coherent_def)

lemma coherent_row: "coherent key ok t \<Longrightarrow> dict_get t k = Some v \<Longrightarrow> ok v"
  by (simp add: coherent_def)

lemma coherent_set: "coherent key ok t \<Longrightarrow> key v = k \<Longrightarrow> ok v \<Longrightarrow> coherent key ok (dict_set k v t)"
  by (auto simp: coherent_def dict_simps)

lemma coherent_member: "coherent key ok t \<Longrightarrow> v \<in> set (dict_values t) \<Longrightarrow> dict_get t (key v) = Some v"
  by (auto simp: coherent_def set_dict_values ran_def)

lemma unique_byD:
  "unique_by clash t \<Longrightarrow> dict_get t k = Some v \<Longrightarrow> dict_get t k' = Some v' \<Longrightarrow> clash v v' \<Longrightarrow> k = k'"
  by (simp add: unique_by_def)

lemma unique_by_replace:
  assumes "unique_by clash t" "dict_get t k = Some old" "\<And>v. clash new v = clash old v" "\<And>v. clash v new = clash v old"
  shows "unique_by clash (dict_set k new t)"
  using assms(1,2) unfolding unique_by_def by (simp add: dict_simps assms(3,4)) metis

lemma unique_by_fresh:
  assumes "unique_by clash t" "\<And>v. v \<in> set (dict_values t) \<Longrightarrow> \<not> clash v new \<and> \<not> clash new v"
  shows "unique_by clash (dict_set k new t)"
  using assms(1) assms(2) [OF dict_get_in_values] unfolding unique_by_def by (simp add: dict_simps)

lemma table_advances_trans:
  assumes "\<And>x y z. adv x y \<Longrightarrow> adv y z \<Longrightarrow> adv x z"
    and "table_advances adv t u" "table_advances adv u v"
  shows "table_advances adv t v"
  using assms unfolding table_advances_def by meson

text \<open>
  A guarded table: rows of type \<open>'v\<close> under a string key, a row constraint, the uniqueness
  constraints as a symmetric clash of rows, and the row guard as a preorder that keeps both. The order on whole tables and the two ways a
  transaction writes a row (insert a fresh one, replace a stored one) are derived once.
\<close>

locale guarded_table =
  fixes key :: "'v \<Rightarrow> string" and ok :: "'v \<Rightarrow> bool" and clash :: "'v \<Rightarrow> 'v \<Rightarrow> bool"
    and adv :: "'v \<Rightarrow> 'v \<Rightarrow> bool"
  assumes adv_refl: "adv v v"
    and adv_trans: "adv x y \<Longrightarrow> adv y z \<Longrightarrow> adv x z"
    and adv_key: "adv x y \<Longrightarrow> key y = key x"
    and adv_clash: "adv x y \<Longrightarrow> clash y z = clash x z"
    and clash_sym: "clash x y = clash y x"
begin

definition wf :: "'v dict \<Rightarrow> bool" where
  "wf t \<longleftrightarrow> coherent key ok t \<and> unique_by clash t"

definition le :: "'v dict \<Rightarrow> 'v dict \<Rightarrow> bool" where
  "le t t' \<longleftrightarrow> (wf t \<longrightarrow> wf t' \<and> table_advances adv t t')"

lemma le_refl: "le t t"
  by (auto simp: le_def table_advances_def adv_refl)

lemma le_trans: "le t u \<Longrightarrow> le u v \<Longrightarrow> le t v"
  unfolding le_def by (meson table_advances_trans [where adv = adv] adv_trans)

lemma le_replace:
  assumes "wf t \<Longrightarrow> dict_get t (key old) = Some old" "adv old new" "ok new"
  shows "le t (dict_set (key old) new t)"
  unfolding le_def
proof
  assume wf: "wf t"
  have "coherent key ok (dict_set (key old) new t)"
    using wf adv_key [OF assms(2)] assms(3) by (simp add: wf_def coherent_set)
  moreover have "unique_by clash (dict_set (key old) new t)"
    using wf assms(1) adv_clash [OF assms(2)] clash_sym by (intro unique_by_replace) (auto simp: wf_def)
  moreover have "table_advances adv t (dict_set (key old) new t)"
    using assms(1) [OF wf] assms(2) by (auto simp: table_advances_def dict_simps adv_refl)
  ultimately show "wf (dict_set (key old) new t) \<and> table_advances adv t (dict_set (key old) new t)"
    by (simp add: wf_def)
qed

lemma le_insert:
  assumes "dict_get t (key new) = None" "ok new" "\<And>v. v \<in> set (dict_values t) \<Longrightarrow> \<not> clash v new"
  shows "le t (dict_set (key new) new t)"
  unfolding le_def
proof
  assume wf: "wf t"
  have "unique_by clash (dict_set (key new) new t)"
    using wf assms(3) clash_sym by (auto simp: wf_def intro: unique_by_fresh)
  then have "wf (dict_set (key new) new t)"
    using wf assms(2) by (simp add: wf_def coherent_set)
  moreover have "table_advances adv t (dict_set (key new) new t)"
    using assms(1) by (auto simp: table_advances_def dict_simps adv_refl)
  ultimately show "wf (dict_set (key new) new t) \<and> table_advances adv t (dict_set (key new) new t)" ..
qed

lemma wf_key: "wf t \<Longrightarrow> dict_get t k = Some v \<Longrightarrow> dict_get t (key v) = Some v"
  by (auto simp: wf_def dest: coherent_key)

lemma le_row:
  assumes "le t t'" "wf t" "dict_get t k = Some v"
  obtains v' where "dict_get t' k = Some v'" "adv v v'"
  using assms by (auto simp: le_def table_advances_def)

end

section \<open>The guarded tables of the trading core\<close>

definition order_advances :: "oms_order \<Rightarrow> oms_order \<Rightarrow> bool" where
  "order_advances r r' \<longleftrightarrow>
     same_oms_identity r r' \<and> oo_state_version r \<le> oo_state_version r' \<and>
     (terminal (oo_status r) \<longrightarrow> r' = r)"

definition finished :: "execution_command \<Rightarrow> bool" where
  "finished c \<longleftrightarrow> xc_status c = CsCOMPLETED \<or> xc_status c = CsDEAD_LETTER"

definition command_advances :: "execution_command \<Rightarrow> execution_command \<Rightarrow> bool" where
  "command_advances c c' \<longleftrightarrow>
     xc_command_id c' = xc_command_id c \<and> xc_oms_order_id c' = xc_oms_order_id c \<and>
     xc_command_type c' = xc_command_type c \<and> xc_attempt_count c \<le> xc_attempt_count c' \<and>
     (finished c \<longrightarrow> c' = c)"

definition same_approval :: "order_approval \<Rightarrow> order_approval \<Rightarrow> bool" where
  "same_approval a a' \<longleftrightarrow>
     a' = a\<lparr>oa_status := oa_status a', oa_consumed_at := oa_consumed_at a',
            oa_paper_order_id := oa_paper_order_id a', oa_oms_order_id := oa_oms_order_id a'\<rparr>"

definition approval_advances :: "order_approval \<Rightarrow> order_approval \<Rightarrow> bool" where
  "approval_advances a a' \<longleftrightarrow> same_approval a a' \<and> (oa_status a \<noteq> ApACTIVE \<longrightarrow> a' = a)"

lemma same_oms_identity_refl [simp]: "same_oms_identity r r"
  by (simp add: same_oms_identity_def)

lemma same_oms_identity_trans: "same_oms_identity a b \<Longrightarrow> same_oms_identity b c \<Longrightarrow> same_oms_identity a c"
  by (simp add: same_oms_identity_def)

definition order_clash :: "oms_order \<Rightarrow> oms_order \<Rightarrow> bool" where
  "order_clash r r' \<longleftrightarrow>
     oo_approval_id r = oo_approval_id r' \<or>
     oo_exchange r = oo_exchange r' \<and> oo_environment r = oo_environment r' \<and>
     oo_client_order_id r = oo_client_order_id r'"

definition command_clash :: "execution_command \<Rightarrow> execution_command \<Rightarrow> bool" where
  "command_clash c c' \<longleftrightarrow> xc_oms_order_id c = xc_oms_order_id c' \<and> xc_command_type c = xc_command_type c'"

definition approval_clash :: "order_approval \<Rightarrow> order_approval \<Rightarrow> bool" where
  "approval_clash a a' \<longleftrightarrow> oa_evaluation_id a = oa_evaluation_id a'"

interpretation orders: guarded_table oo_oms_order_id oms_row_ok order_clash order_advances
proof
  show "order_advances v v" for v by (simp add: order_advances_def)
  show "order_advances x y \<Longrightarrow> order_advances y z \<Longrightarrow> order_advances x z" for x y z
    using same_oms_identity_trans [of x y z] by (auto simp: order_advances_def)
qed (auto simp: order_advances_def same_oms_identity_def order_clash_def)

interpretation commands: guarded_table xc_command_id command_row_ok command_clash command_advances
proof
  show "command_advances v v" for v by (simp add: command_advances_def)
  show "command_advances x y \<Longrightarrow> command_advances y z \<Longrightarrow> command_advances x z" for x y z
    by (auto simp: command_advances_def)
qed (auto simp: command_advances_def command_clash_def)

lemma same_approval_trans:
  assumes "same_approval a b" "same_approval b c"
  shows "same_approval a c"
  using assms by (cases a; cases b; cases c) (simp add: same_approval_def)

interpretation approvals: guarded_table oa_approval_id approval_row_ok approval_clash approval_advances
proof
  show "approval_advances v v" for v by (simp add: approval_advances_def same_approval_def)
  show "approval_advances x y \<Longrightarrow> approval_advances y z \<Longrightarrow> approval_advances x z" for x y z
    using same_approval_trans [of x y z] unfolding approval_advances_def by metis
  show "approval_advances x y \<Longrightarrow> oa_approval_id y = oa_approval_id x" for x y
    by (cases x; cases y) (simp add: approval_advances_def same_approval_def)
  show "approval_advances x y \<Longrightarrow> approval_clash y z = approval_clash x z" for x y z
    by (cases x; cases y) (simp add: approval_advances_def same_approval_def approval_clash_def)
qed (auto simp: approval_clash_def)

section \<open>The order on database states\<close>

definition db_wf :: "db \<Rightarrow> bool" where
  "db_wf d \<longleftrightarrow> orders.wf (db_oms_orders d) \<and> commands.wf (db_commands d) \<and> approvals.wf (db_approvals d)"

definition fills_le :: "execution_fill dict \<Rightarrow> execution_fill dict \<Rightarrow> bool" where
  "fills_le = table_advances (=)"

definition db_step :: "db \<Rightarrow> db \<Rightarrow> bool" where
  "db_step d d' \<longleftrightarrow>
     orders.le (db_oms_orders d) (db_oms_orders d') \<and> commands.le (db_commands d) (db_commands d') \<and>
     approvals.le (db_approvals d) (db_approvals d') \<and> fills_le (db_fills d) (db_fills d') \<and>
     prefix (db_oms_events d) (db_oms_events d') \<and> prefix (db_evaluations d) (db_evaluations d') \<and>
     prefix (db_control_events d) (db_control_events d')"

definition db_le :: "db \<Rightarrow> db \<Rightarrow> bool" where
  "db_le d d' \<longleftrightarrow> (db_wf d \<longrightarrow> db_step d d')"

lemma fills_le_refl [simp]: "fills_le t t"
  by (simp add: fills_le_def table_advances_def)

lemma fills_le_trans: "fills_le t u \<Longrightarrow> fills_le u v \<Longrightarrow> fills_le t v"
  unfolding fills_le_def by (rule table_advances_trans [where adv = "(=)"]) auto

lemma db_step_wf: "db_step d d' \<Longrightarrow> db_wf d \<Longrightarrow> db_wf d'"
  by (simp add: db_step_def db_wf_def orders.le_def commands.le_def approvals.le_def)

lemma db_step_trans: "db_step a b \<Longrightarrow> db_step b c \<Longrightarrow> db_step a c"
  unfolding db_step_def
  by (elim conjE, intro conjI)
    (erule (1) orders.le_trans commands.le_trans approvals.le_trans fills_le_trans prefix_order.trans)+

lemmas le_refls = orders.le_refl commands.le_refl approvals.le_refl

lemmas db_le_defs = db_le_def db_step_def

text \<open>
  The interface a transaction body is proved against: a relation on database states that is
  reflexive, transitive and blind to the failure schedule. A body made of steps in the relation
  stays in it, and so does the transaction, committed or rolled back.
\<close>

locale ordered_store =
  fixes le :: "db \<Rightarrow> db \<Rightarrow> bool"
  assumes store_refl: "le d d"
    and store_trans: "le a b \<Longrightarrow> le b c \<Longrightarrow> le a c"
    and store_faults: "le d (d\<lparr>db_faults := fs\<rparr>)"
begin

lemma fold_result_le:
  assumes "\<And>x s s'. f x s = Inr s' \<Longrightarrow> le s s'"
  shows "fold_result f xs s = Inr s' \<Longrightarrow> le s s'"
proof (induction xs arbitrary: s)
  case Nil
  then show ?case by (simp add: store_refl)
next
  case (Cons x xs)
  then obtain t where "f x s = Inr t" "fold_result f xs t = Inr s'" by (auto simp: bind_result_Inr)
  then show ?case using assms Cons.IH store_trans by blast
qed

lemma transaction_le:
  assumes "\<And>a b x. body a = Inr (b, x) \<Longrightarrow> le a b"
  shows "le d (fst (transaction keep body d))"
proof (cases "transaction keep body d")
  case (Pair d' r)
  show ?thesis
  proof (cases r)
    case (Inl e)
    with Pair have "d' = d\<lparr>db_faults := tl (db_faults d)\<rparr>"
      by (simp add: transaction_def Let_def split: if_splits sum.splits prod.splits)
    with Pair show ?thesis by (simp add: store_faults)
  next
    case (Inr x)
    with Pair have "body (d\<lparr>db_faults := tl (db_faults d)\<rparr>) = Inr (d', x)" by (simp add: transaction_commit)
    then have "le d d'" using assms store_faults store_trans by blast
    with Pair show ?thesis by simp
  qed
qed

end

text \<open>A predicate that does not read the failure schedule is kept by a transaction whose body keeps it.\<close>

locale store_invariant =
  fixes inv :: "db \<Rightarrow> bool"
  assumes inv_faults: "inv (d\<lparr>db_faults := fs\<rparr>) = inv d"
begin

lemma inv_tables: "tables d' = tables d \<Longrightarrow> inv d' = inv d"
  unfolding tables_def by (metis inv_faults)

end

sublocale store_invariant \<subseteq> ordered_store "\<lambda>d d'. inv d \<longrightarrow> inv d'"
  by unfold_locales (auto simp: inv_faults)

interpretation store: ordered_store db_le
proof
  show "db_le d d" for d by (simp add: db_le_defs le_refls)
  show "db_le a b \<Longrightarrow> db_le b c \<Longrightarrow> db_le a c" for a b c
    unfolding db_le_def using db_step_wf db_step_trans by blast
  show "db_le d (d\<lparr>db_faults := fs\<rparr>)" for d fs by (simp add: db_le_defs le_refls)
qed

lemma db_wf_key:
  "db_wf d \<Longrightarrow> dict_get (db_oms_orders d) k = Some r \<Longrightarrow> dict_get (db_oms_orders d) (oo_oms_order_id r) = Some r"
  "db_wf d \<Longrightarrow> dict_get (db_commands d) k = Some c \<Longrightarrow> dict_get (db_commands d) (xc_command_id c) = Some c"
  "db_wf d \<Longrightarrow> dict_get (db_approvals d) k = Some a \<Longrightarrow> dict_get (db_approvals d) (oa_approval_id a) = Some a"
  by (simp_all add: db_wf_def orders.wf_key commands.wf_key approvals.wf_key)

lemma db_le_then: "db_le a b \<Longrightarrow> (db_wf a \<Longrightarrow> db_le b c) \<Longrightarrow> db_le a c"
  using store.store_trans by (auto simp: db_le_def)

lemma db_le_wf: "db_le d d' \<Longrightarrow> db_wf d \<Longrightarrow> db_wf d'"
  unfolding db_le_def using db_step_wf by blast

section \<open>Row writes\<close>

lemma insert_event_le: "insert_event o' t d = Inr d' \<Longrightarrow> db_le d d'"
  unfolding insert_event_def by (simp split: if_splits) (clarsimp simp: db_le_defs le_refls)

lemma insert_event_frame:
  assumes "insert_event o' t d = Inr d'"
  shows "db_oms_orders d' = db_oms_orders d" "db_commands d' = db_commands d" "db_approvals d' = db_approvals d"
  using assms unfolding insert_event_def by (simp_all split: if_splits) auto

lemma guard_order_advances: "guard_oms_order_transition old new \<Longrightarrow> order_advances old new"
  by (simp add: guard_oms_order_transition_def order_advances_def oms_status_step_def)

lemma update_oms_row_le:
  assumes "update_oms_row old new d = Inr d'"
    and "db_wf d \<Longrightarrow> dict_get (db_oms_orders d) (oo_oms_order_id old) = Some old"
  shows "db_le d d'"
proof -
  have "guard_oms_order_transition old new" "oms_row_ok new"
    and "d' = d\<lparr>db_oms_orders := dict_set (oo_oms_order_id old) new (db_oms_orders d)\<rparr>"
    using assms(1) by (simp_all add: update_oms_row_def split: if_splits)
  then show ?thesis
    unfolding db_le_def using orders.le_replace [of "db_oms_orders d" old new] assms(2) guard_order_advances
    by (simp add: db_step_def le_refls)
qed

lemma insert_oms_order_le:
  assumes "insert_oms_order o' d = Inr d'"
  shows "db_le d d'"
proof -
  have "oms_row_ok o'" "dict_get (db_oms_orders d) (oo_oms_order_id o') = None"
    and "\<And>r. r \<in> set (dict_values (db_oms_orders d)) \<Longrightarrow> \<not> order_clash r o'"
    and "d' = d\<lparr>db_oms_orders := dict_set (oo_oms_order_id o') o' (db_oms_orders d)\<rparr>"
    using assms by (auto simp: insert_oms_order_def order_clash_def split: if_splits)
  then show ?thesis
    using orders.le_insert [of "db_oms_orders d" o'] by (simp add: db_le_defs le_refls)
qed

lemma guard_command_advances:
  "guard_execution_command_transition old new \<Longrightarrow> xc_attempt_count old \<le> xc_attempt_count new \<Longrightarrow>
     command_advances old new"
  by (auto simp: guard_execution_command_transition_def command_advances_def finished_def)

lemma update_command_row_le:
  assumes "update_command_row old new d = Inr d'" "xc_attempt_count old \<le> xc_attempt_count new"
    and "db_wf d \<Longrightarrow> dict_get (db_commands d) (xc_command_id old) = Some old"
  shows "db_le d d'"
proof -
  have "guard_execution_command_transition old new" "command_row_ok new"
    and "d' = d\<lparr>db_commands := dict_set (xc_command_id old) new (db_commands d)\<rparr>"
    using assms(1) by (simp_all add: update_command_row_def split: if_splits)
  then show ?thesis
    unfolding db_le_def using commands.le_replace [of "db_commands d" old new] assms(2,3) guard_command_advances
    by (simp add: db_step_def le_refls)
qed

lemma insert_command_le:
  assumes "insert_command c d = Inr d'"
  shows "db_le d d'"
proof -
  have "command_row_ok c" "dict_get (db_commands d) (xc_command_id c) = None"
    and "\<And>r. r \<in> set (dict_values (db_commands d)) \<Longrightarrow> \<not> command_clash r c"
    and "d' = d\<lparr>db_commands := dict_set (xc_command_id c) c (db_commands d)\<rparr>"
    using assms by (auto simp: insert_command_def command_clash_def split: if_splits)
  then show ?thesis
    using commands.le_insert [of "db_commands d" c] by (simp add: db_le_defs le_refls)
qed

lemma guard_approval_advances:
  "guard_order_approval_transition old new \<Longrightarrow> approval_advances old new"
  by (cases old; cases new) (simp add: guard_order_approval_transition_def approval_advances_def same_approval_def)

lemma update_approval_row_le:
  assumes "update_approval_row old new d = Inr d'"
    and "db_wf d \<Longrightarrow> dict_get (db_approvals d) (oa_approval_id old) = Some old"
  shows "db_le d d'"
proof -
  have "guard_order_approval_transition old new" "approval_row_ok new"
    and "d' = d\<lparr>db_approvals := dict_set (oa_approval_id old) new (db_approvals d)\<rparr>"
    using assms(1) by (simp_all add: update_approval_row_def split: if_splits)
  then show ?thesis
    unfolding db_le_def using approvals.le_replace [of "db_approvals d" old new] assms(2) guard_approval_advances
    by (simp add: db_step_def le_refls)
qed

lemma insert_approval_le:
  assumes "insert_approval a d = Inr d'"
  shows "db_le d d'"
proof -
  have "approval_row_ok a" "dict_get (db_approvals d) (oa_approval_id a) = None"
    and "\<And>r. r \<in> set (dict_values (db_approvals d)) \<Longrightarrow> \<not> approval_clash r a"
    and "d' = d\<lparr>db_approvals := dict_set (oa_approval_id a) a (db_approvals d)\<rparr>"
    using assms by (auto simp: insert_approval_def approval_clash_def split: if_splits)
  then show ?thesis
    using approvals.le_insert [of "db_approvals d" a] by (simp add: db_le_defs le_refls)
qed

section \<open>Every transaction respects the order\<close>

lemma consume_for_oms_le:
  assumes "consume_for_oms H now o' stored d = Inr d'" "dict_get (db_approvals d) k = Some stored"
  shows "db_le d d'"
  using assms(1) unfolding consume_for_oms_def
  by (auto split: if_splits option.splits simp: bind_result_Inr
      intro!: update_approval_row_le db_wf_key(3) [OF _ assms(2)])

lemma check_paper_mirror_le: "check_paper_mirror o' stored d = Inr d' \<Longrightarrow> db_le d d'"
  by (simp add: check_paper_mirror_def store.store_refl split: if_splits)

lemmas write_le = consume_for_oms_le check_paper_mirror_le insert_oms_order_le insert_event_le insert_command_le

lemma create_or_load_cases:
  assumes "create_or_load H now o' command consume d = Inr (d', x)"
  obtains (existing) "d' = d" "find (oms_conflict o') (dict_values (db_oms_orders d)) = Some x"
      "same_oms_identity x o'"
  | (created) stored d1 d2 d3 where "x = o'"
      "find (oms_conflict o') (dict_values (db_oms_orders d)) = None"
      "dict_get (db_approvals d) (oo_approval_id o') = Some stored"
      "(if consume then consume_for_oms H now o' stored d else check_paper_mirror o' stored d) = Inr d1"
      "insert_oms_order o' d1 = Inr d2" "insert_event o' ''CREATED'' d2 = Inr d3"
      "case command of None \<Rightarrow> d' = d3 | Some c \<Rightarrow> insert_command c d3 = Inr d'"
proof (cases "find (oms_conflict o') (dict_values (db_oms_orders d))")
  case (Some row)
  with assms existing show ?thesis by (simp add: create_or_load_def bind_result_Inr split: if_splits)
next
  case None
  with assms obtain stored where st: "dict_get (db_approvals d) (oo_approval_id o') = Some stored"
    by (simp add: create_or_load_def split: option.splits)
  with assms None obtain d1 d2 d3 where
    "(if consume then consume_for_oms H now o' stored d else check_paper_mirror o' stored d) = Inr d1"
    "insert_oms_order o' d1 = Inr d2" "insert_event o' ''CREATED'' d2 = Inr d3"
    "(case command of None \<Rightarrow> Inr (d3, o')
      | Some c \<Rightarrow> bind_result (insert_command c d3) (\<lambda>d4. Inr (d4, o'))) = Inr (d', x)"
    by (simp add: create_or_load_def bind_result_Inr) blast
  with None st created show ?thesis by (simp add: bind_result_Inr split: option.splits)
qed

lemma create_or_load_le: "create_or_load H now o' command consume d = Inr (d', x) \<Longrightarrow> db_le d d'"
proof (erule create_or_load_cases)
  fix stored d1 d2 d3
  assume st: "dict_get (db_approvals d) (oo_approval_id o') = Some stored"
    and 1: "(if consume then consume_for_oms H now o' stored d else check_paper_mirror o' stored d) = Inr d1"
    and 2: "insert_oms_order o' d1 = Inr d2" "insert_event o' ''CREATED'' d2 = Inr d3"
    and 3: "case command of None \<Rightarrow> d' = d3 | Some c \<Rightarrow> insert_command c d3 = Inr d'"
  have "db_le d d1"
    using 1 consume_for_oms_le [OF _ st] check_paper_mirror_le by (cases consume) auto
  moreover have "db_le d3 d'" using 3 store.store_refl insert_command_le by (cases command) auto
  ultimately show "db_le d d'"
    using insert_oms_order_le [OF 2(1)] insert_event_le [OF 2(2)] store.store_trans by blast
qed (simp add: store.store_refl)

lemma create_oms_order_le: "db_le d (fst (create_oms_order H now o' command consume d))"
  unfolding create_oms_order_def
  by (simp add: store.store_refl) (blast intro: store.transaction_le create_or_load_le)

lemma load_oms_order_le: "db_le d (fst (load_oms_order i d))"
  unfolding load_oms_order_def
  by (rule store.transaction_le) (auto simp: store.store_refl bind_result_Inr split: option.splits)

lemma list_oms_orders_le: "db_le d (fst (list_oms_orders x e l d))"
  unfolding list_oms_orders_def
  by (rule store.transaction_le) (auto simp: store.store_refl bind_result_Inr Let_def)

lemma update_oms_row_commands: "update_oms_row old new d = Inr d' \<Longrightarrow> db_commands d' = db_commands d"
  by (auto simp: update_oms_row_def split: if_splits)

lemma expire_command_orders:
  assumes "(if terminal (oo_status r) then Inr d
            else bind_result (update_oms_row row (mark_unknown now r) d)
                   (insert_event (mark_unknown now r) t)) = Inr d1"
    and "dict_get (db_oms_orders d) k = Some row"
  shows "db_le d d1" and "db_commands d1 = db_commands d"
proof -
  have "db_le d d1 \<and> db_commands d1 = db_commands d"
  proof (cases "terminal (oo_status r)")
    case True
    with assms(1) show ?thesis by (simp add: store.store_refl del: terminal_iff)
  next
    case False
    with assms(1) obtain d0 where "update_oms_row row (mark_unknown now r) d = Inr d0"
      and "insert_event (mark_unknown now r) t d0 = Inr d1"
      by (auto simp: bind_result_Inr simp del: terminal_iff)
    moreover from this have "db_le d d0"
      using update_oms_row_le db_wf_key(1) [OF _ assms(2)] by blast
    ultimately show ?thesis
      using insert_event_le store.store_trans update_oms_row_commands insert_event_frame(2) by metis
  qed
  then show "db_le d d1" "db_commands d1 = db_commands d" by simp_all
qed

lemma expire_command_le:
  assumes "expire_command now c d = Inr d'"
    and "db_wf d \<Longrightarrow> dict_get (db_commands d) (xc_command_id c) = Some c"
  shows "db_le d d'" and "db_commands d' = dict_set (xc_command_id c) (dead_letter now c) (db_commands d)"
proof -
  obtain row r d1 where row: "dict_get (db_oms_orders d) (xc_oms_order_id c) = Some row"
    and 1: "(if terminal (oo_status r) then Inr d
            else bind_result (update_oms_row row (mark_unknown now r) d)
                   (insert_event (mark_unknown now r) ''LEASE_EXPIRED_STATUS_UNKNOWN'')) = Inr d1"
    and 2: "update_command_row c (dead_letter now c) d1 = Inr d'"
    using assms(1) unfolding expire_command_def
    by (auto simp: bind_result_Inr simp del: terminal_iff split: option.splits)
  note first = expire_command_orders [OF 1 row]
  have "db_le d1 d'" if "db_wf d"
    using update_command_row_le [OF 2] assms(2) [OF that] first(2) by (simp add: dead_letter_def)
  with first(1) show "db_le d d'" by (rule db_le_then)
  show "db_commands d' = dict_set (xc_command_id c) (dead_letter now c) (db_commands d)"
    using 2 first(2) by (auto simp: update_command_row_def split: if_splits)
qed

lemma expire_commands_le:
  assumes "fold_result (expire_command now) cs d = Inr d'" "distinct (map xc_command_id cs)"
    and "\<And>c. db_wf d \<Longrightarrow> c \<in> set cs \<Longrightarrow> dict_get (db_commands d) (xc_command_id c) = Some c"
  shows "db_le d d'"
  using assms
proof (induction cs arbitrary: d)
  case Nil
  then show ?case by (simp add: store.store_refl)
next
  case (Cons c cs)
  then obtain d1 where 1: "expire_command now c d = Inr d1" and 2: "fold_result (expire_command now) cs d1 = Inr d'"
    by (auto simp: bind_result_Inr)
  have stored: "db_wf d \<Longrightarrow> dict_get (db_commands d) (xc_command_id c) = Some c"
    using Cons.prems(3) by simp
  note le = expire_command_le [OF 1 stored]
  have "db_le d1 d'" if wf: "db_wf d"
  proof (rule Cons.IH [OF 2])
    show "dict_get (db_commands d1) (xc_command_id c') = Some c'" if "c' \<in> set cs" for c'
    proof -
      have "xc_command_id c' \<noteq> xc_command_id c" using that Cons.prems(2) by (metis distinct.simps(2) image_eqI list.map(2) set_map)
      then show ?thesis using that Cons.prems(3) wf le(2) by (simp add: dict_simps)
    qed
  qed (use Cons.prems(2) in simp)
  with le(1) show ?case by (rule db_le_then)
qed

lemma distinct_coherent_values: "coherent key ok t \<Longrightarrow> distinct (map key (dict_values t))"
proof -
  assume *: "coherent key ok t"
  then have "map key (dict_values t) = map fst t"
    by (auto simp: dict_values_def coherent_def dict_wf_def)
  with * show ?thesis by (simp add: coherent_def dict_wf_def)
qed

lemma expired_le:
  assumes "fold_result (expire_command now) (take n (filter P (dict_values (db_commands a)))) a = Inr d1"
  shows "db_le a d1"
proof -
  let ?cs = "take n (filter P (dict_values (db_commands a)))"
  have "db_le a d1" if "db_wf a"
  proof (rule expire_commands_le [OF assms])
    have co: "coherent xc_command_id command_row_ok (db_commands a)"
      using that by (simp add: db_wf_def commands.wf_def)
    show "distinct (map xc_command_id ?cs)"
      by (simp add: take_map [symmetric] distinct_map_filter distinct_coherent_values [OF co])
    show "dict_get (db_commands a) (xc_command_id c) = Some c" if "c \<in> set ?cs" for c
      using that coherent_member [OF co] in_set_takeD by fastforce
  qed
  then show ?thesis by (auto simp: db_le_def)
qed

lemma claim_next_cases:
  assumes "claim_next now w lease_until d = Inr (d', x)"
  obtains "d' = d" "x = None"
  | row order_row where "row \<in> set (dict_values (db_commands d))" "claimable now row"
      "dict_get (db_oms_orders d) (xc_oms_order_id row) = Some order_row"
      "update_command_row row (lease w lease_until row) d = Inr d'"
      "valid_execution_command (lease w lease_until row)" "valid_oms_order order_row"
      "x = Some (lease w lease_until row, order_row)"
proof (cases "sort_key xc_available_at (sort_key xc_created_at
                 (filter (claimable now) (dict_values (db_commands d))))")
  case Nil
  with assms that(1) show ?thesis by (simp add: claim_next_def)
next
  case (Cons row rest)
  have "row \<in> set (filter (claimable now) (dict_values (db_commands d)))"
    using arg_cong [OF Cons, of set] by auto
  with assms Cons that(2) show ?thesis
    by (auto simp: claim_next_def bind_result_Inr split: option.splits)
qed

lemma db_wf_member: "db_wf d \<Longrightarrow> c \<in> set (dict_values (db_commands d)) \<Longrightarrow>
    dict_get (db_commands d) (xc_command_id c) = Some c"
  using coherent_member by (fastforce simp: db_wf_def commands.wf_def)

lemma claim_next_le: "claim_next now w lease_until d = Inr (d', x) \<Longrightarrow> db_le d d'"
  by (erule claim_next_cases) (auto simp: store.store_refl lease_def intro: update_command_row_le db_wf_member)

lemma claim_execution_command_le: "db_le d (fst (claim_execution_command now w secs d))"
  unfolding claim_execution_command_def Let_def
  by (rule store.transaction_le)
    (auto simp: bind_result_Inr intro: store.store_trans [OF expired_le claim_next_le])

lemma finish_execution_command_le: "db_le d (fst (finish_execution_command i w o' t e d))"
proof -
  have body: "db_le a b" if "dict_get (db_oms_orders a) k = Some row" "update_oms_row row new a = Inr d1"
      "dict_get (db_commands a) k' = Some c" "update_command_row c c' d1 = Inr d2"
      "xc_attempt_count c \<le> xc_attempt_count c'"
      "insert_event o' t d2 = Inr b" for a b k row new d1 c c' d2 k'
  proof (rule db_le_then)
    show "db_le a d1" using update_oms_row_le [OF that(2)] db_wf_key(1) [OF _ that(1)] by blast
    assume wf: "db_wf a"
    have "db_le d1 d2"
      using update_command_row_le [OF that(4,5)] db_wf_key(2) [OF wf that(3)] update_oms_row_commands [OF that(2)]
      by simp
    then show "db_le d1 b" using insert_event_le [OF that(6)] store.store_trans by blast
  qed
  show ?thesis
    unfolding finish_execution_command_def
    by (rule store.transaction_le) (auto simp: bind_result_Inr split: option.splits if_splits intro: body)
qed

lemma update_oms_row_stored_le:
  "dict_get (db_oms_orders d) k = Some row \<Longrightarrow> update_oms_row row new d = Inr d' \<Longrightarrow> db_le d d'"
  using update_oms_row_le db_wf_key(1) by blast

lemma queue_cancel_command_le: "db_le d (fst (queue_cancel_command o' c d))"
  unfolding queue_cancel_command_def
  by (auto simp: store.store_refl bind_result_Inr split: option.splits if_splits
      intro!: store.transaction_le) (meson store.store_trans update_oms_row_stored_le write_le)+

lemma reconcile_row_le: "reconcile_row r d = Inr d' \<Longrightarrow> db_le d d'"
  unfolding reconcile_row_def
  by (auto simp: store.store_refl bind_result_Inr split: option.splits if_splits)
    (meson store.store_trans update_oms_row_stored_le insert_event_le)

lemma insert_fill_le: "insert_fill scoped f d = Inr d' \<Longrightarrow> db_le d d'"
  unfolding insert_fill_def
  by (simp add: store.store_refl split: if_splits)
    (clarsimp simp: db_le_defs le_refls fills_le_def table_advances_def dict_simps store.store_refl split: if_splits)+

lemma db_le_evidence:
  "db_le d (d\<lparr>db_mismatches := ms, db_positions := ps, db_balances := bs\<rparr>)" "db_le d (d\<lparr>db_runs := rs\<rparr>)"
  "db_le d (d\<lparr>db_paper_orders := pos\<rparr>)" "db_le d (d\<lparr>db_audit_logs := al\<rparr>)"
  "db_le d (d\<lparr>db_evaluations := db_evaluations d @ es, db_risk_checks := rcs\<rparr>)"
  by (simp_all add: db_le_defs le_refls)

lemma persist_reconciliation_le: "db_le d (fst (persist_reconciliation run mms snap os d))"
proof -
  have body: "db_le a (c\<lparr>db_mismatches := ms, db_positions := ps, db_balances := bs\<rparr>)"
    if "fold_result reconcile_row os (a\<lparr>db_runs := rs\<rparr>) = Inr b" "fold_result (insert_fill sc) fs b = Inr c"
    for a b c ms ps bs rs sc fs
    using store.fold_result_le [OF reconcile_row_le that(1)] store.fold_result_le [OF insert_fill_le that(2)]
      db_le_evidence(1,2) store.store_trans by meson
  show ?thesis
    unfolding persist_reconciliation_def
    by (rule store.transaction_le) (auto simp: bind_result_Inr split: if_splits intro: body)
qed

lemma load_open_position_exposures_le: "db_le d (fst (load_open_position_exposures d))"
  unfolding load_open_position_exposures_def
  by (rule store.transaction_le) (auto simp: bind_result_Inr store.store_refl)

lemma save_central_risk_evaluation_le: "db_le d (fst (save_central_risk_evaluation check approval d))"
  unfolding save_central_risk_evaluation_def
  by (rule store.transaction_le)
    (auto simp: bind_result_Inr Let_def store.store_refl db_le_evidence split: option.splits if_splits
      intro: store.store_trans [OF db_le_evidence(5) insert_approval_le])

lemma load_central_risk_evaluation_by_key_le: "db_le d (fst (load_central_risk_evaluation_by_key k d))"
  unfolding load_central_risk_evaluation_by_key_def
  by (rule store.transaction_le) (auto simp: bind_result_Inr store.store_refl split: option.splits)

lemma update_approval_stored_le:
  "dict_get (db_approvals d) k = Some a \<Longrightarrow> update_approval_row a a' d = Inr d' \<Longrightarrow> db_le d d'"
  using update_approval_row_le db_wf_key(3) by blast

lemma consume_stored_le:
  assumes "consume_stored H now approval order stored d = Inr d'" "dict_get (db_approvals d) k = Some stored"
  shows "db_le d d'"
  using assms(1) unfolding consume_stored_def
  by (simp add: bind_result_Inr split: if_splits) (elim exE conjE, rule update_approval_stored_le [OF assms(2)])

lemma write_paper_order_le:
  assumes "write_paper_order order m d = Inr (d', u)"
  shows "db_le d d'"
proof -
  let ?d1 = "d\<lparr>db_paper_orders := dict_set (po_paper_order_id order) order (db_paper_orders d)\<rparr>"
  have "db_le ?d1 d'"
  proof (cases m)
    case None
    with assms have "d' = ?d1" by (simp add: write_paper_order_def split: if_splits)
    then show ?thesis by (simp only: store.store_refl)
  next
    case (Some o')
    with assms obtain d2 where "insert_oms_order o' ?d1 = Inr d2" "insert_event o' ''PAPER_FILLED'' d2 = Inr d'"
      by (simp add: write_paper_order_def bind_result_Inr split: if_splits) blast
    then show ?thesis by (blast intro: store.store_trans insert_oms_order_le insert_event_le)
  qed
  with db_le_evidence(3) show ?thesis by (rule store.store_trans)
qed

lemma consume_order_approval_le: "db_le d (fst (consume_order_approval H now approval order m d))"
  unfolding consume_order_approval_def
  by (auto simp: bind_result_Inr store.store_refl split: option.splits if_splits
      intro!: store.transaction_le intro: store.store_trans [OF consume_stored_le write_paper_order_le])

lemma save_paper_order_le: "db_le d (fst (save_paper_order order d))"
  unfolding save_paper_order_def
  by (rule store.transaction_le) (simp split: option.splits if_splits; clarify; rule db_le_evidence)

lemma load_risk_control_state_le: "db_le d (fst (load_risk_control_state d))"
  unfolding load_risk_control_state_def by (rule store.transaction_le) (simp add: store.store_refl)

lemma save_audit_log_le: "db_le d (fst (save_audit_log r d))"
  unfolding save_audit_log_def by (rule store.transaction_le) (auto simp: db_le_evidence)

lemma dict_get_map_values: "dict_get (map (\<lambda>(k, a). (k, f a)) t) k = map_option f (dict_get t k)"
  by (induction t) auto

lemma revoke_active_advances: "approval_advances a (revoke_active a)"
  by (cases a) (simp add: revoke_active_def approval_advances_def same_approval_def)

lemma revoke_active_ok: "approval_row_ok a \<Longrightarrow> approval_row_ok (revoke_active a)"
  by (simp add: revoke_active_def approval_row_ok_def)

lemma revoke_active_keys [simp]:
  "oa_approval_id (revoke_active a) = oa_approval_id a" "oa_evaluation_id (revoke_active a) = oa_evaluation_id a"
  by (simp_all add: revoke_active_def)

lemma revoke_all_le: "approvals.le t (map (\<lambda>(k, a). (k, revoke_active a)) t)"
  unfolding approvals.le_def
proof
  assume wf: "approvals.wf t"
  have keys: "map fst (map (\<lambda>(k, a). (k, revoke_active a)) t) = map fst t" by (induction t) auto
  have "approvals.wf (map (\<lambda>(k, a). (k, revoke_active a)) t)"
    using wf unfolding approvals.wf_def coherent_def unique_by_def dict_wf_def keys
    by (auto simp: dict_get_map_values revoke_active_ok approval_clash_def simp del: map_map)
  then show "approvals.wf (map (\<lambda>(k, a). (k, revoke_active a)) t) \<and>
      table_advances approval_advances t (map (\<lambda>(k, a). (k, revoke_active a)) t)"
    by (simp add: table_advances_def dict_get_map_values revoke_active_advances)
qed

lemma set_risk_control_le: "db_le d (fst (set_risk_control now active reason actor cid d))"
  unfolding set_risk_control_def
  by (rule store.transaction_le)
    (auto simp: Let_def db_le_defs le_refls revoke_all_le split: option.splits if_splits)

section \<open>Histories of the store\<close>

text \<open>
  One step of the repository: any of its transactions with any arguments, on any failure schedule.
\<close>

inductive repo_step :: "db \<Rightarrow> db \<Rightarrow> bool" where
  step_exposures: "repo_step d (fst (load_open_position_exposures d))"
| step_evaluation: "repo_step d (fst (save_central_risk_evaluation check approval d))"
| step_evaluation_by_key: "repo_step d (fst (load_central_risk_evaluation_by_key k d))"
| step_consume: "repo_step d (fst (consume_order_approval H now approval order m d))"
| step_paper: "repo_step d (fst (save_paper_order order d))"
| step_create: "repo_step d (fst (create_oms_order H now o' command consume d))"
| step_load: "repo_step d (fst (load_oms_order i d))"
| step_list: "repo_step d (fst (list_oms_orders x e l d))"
| step_claim: "repo_step d (fst (claim_execution_command now w secs d))"
| step_finish: "repo_step d (fst (finish_execution_command i w o' t er d))"
| step_cancel: "repo_step d (fst (queue_cancel_command o' c d))"
| step_reconcile: "repo_step d (fst (persist_reconciliation run mms snap os d))"
| step_load_control: "repo_step d (fst (load_risk_control_state d))"
| step_control: "repo_step d (fst (set_risk_control now active reason actor cid d))"
| step_audit: "repo_step d (fst (save_audit_log r d))"

lemma repo_step_le: "repo_step d d' \<Longrightarrow> db_le d d'"
  by (induction rule: repo_step.induct)
    (rule load_open_position_exposures_le save_central_risk_evaluation_le
      load_central_risk_evaluation_by_key_le consume_order_approval_le save_paper_order_le
      create_oms_order_le load_oms_order_le list_oms_orders_le claim_execution_command_le
      finish_execution_command_le queue_cancel_command_le persist_reconciliation_le
      load_risk_control_state_le set_risk_control_le save_audit_log_le)+

lemma repo_steps_le: "repo_step\<^sup>*\<^sup>* d d' \<Longrightarrow> db_le d d'"
  by (induction rule: rtranclp_induct) (auto intro: store.store_refl store.store_trans repo_step_le)

lemma empty_db_wf: "db_wf empty_db"
  by (simp add: db_wf_def empty_db_def orders.wf_def commands.wf_def approvals.wf_def coherent_def unique_by_def)

definition repo_reachable :: "db \<Rightarrow> bool" where
  "repo_reachable d \<longleftrightarrow> (\<exists>fs. repo_step\<^sup>*\<^sup>* (empty_db\<lparr>db_faults := fs\<rparr>) d)"

lemma repo_reachable_wf: "repo_reachable d \<Longrightarrow> db_wf d"
  unfolding repo_reachable_def using repo_steps_le db_le_wf store.store_faults empty_db_wf by blast

lemma repo_reachable_empty: "repo_reachable empty_db"
proof -
  have "empty_db\<lparr>db_faults := []\<rparr> = empty_db" by (simp add: empty_db_def)
  then show ?thesis unfolding repo_reachable_def by (metis rtranclp.rtrancl_refl)
qed

lemma repo_reachable_step: "repo_reachable d \<Longrightarrow> repo_step d d' \<Longrightarrow> repo_reachable d'"
  unfolding repo_reachable_def by (meson rtranclp.rtrancl_into_rtrancl)

lemma repo_steps_step: "db_wf d \<Longrightarrow> repo_step\<^sup>*\<^sup>* d d' \<Longrightarrow> db_step d d'"
  using repo_steps_le by (auto simp: db_le_def)

lemma later_order:
  assumes "db_wf d" "repo_step\<^sup>*\<^sup>* d d'" "dict_get (db_oms_orders d) k = Some r"
  obtains r' where "dict_get (db_oms_orders d') k = Some r'" "order_advances r r'"
  using assms orders.le_row [of "db_oms_orders d" "db_oms_orders d'" k r] repo_steps_step
  by (auto simp: db_step_def db_wf_def)

lemma later_command:
  assumes "db_wf d" "repo_step\<^sup>*\<^sup>* d d'" "dict_get (db_commands d) k = Some c"
  obtains c' where "dict_get (db_commands d') k = Some c'" "command_advances c c'"
  using assms commands.le_row [of "db_commands d" "db_commands d'" k c] repo_steps_step
  by (auto simp: db_step_def db_wf_def)

lemma later_approval:
  assumes "db_wf d" "repo_step\<^sup>*\<^sup>* d d'" "dict_get (db_approvals d) k = Some a"
  obtains a' where "dict_get (db_approvals d') k = Some a'" "approval_advances a a'"
  using assms approvals.le_row [of "db_approvals d" "db_approvals d'" k a] repo_steps_step
  by (auto simp: db_step_def db_wf_def)

end
