(* ===== verification/Samples.thy ===== *)
theory Samples
  imports Oms_Store
begin

text \<open>
  Concrete values on which the properties of the store are instantiated: one approved TESTNET buy
  of 0.5 BTC, its order and submit command, and the database states the repository's own
  transactions produce from them, starting from the empty database.
\<close>

definition hash64 :: "char \<Rightarrow> string" where
  "hash64 c = replicate 64 c"

definition sample_H :: "json \<Rightarrow> string" where
  "sample_H j = hash64 CHR ''h''"

definition sample_snapshot :: portfolio_risk_snapshot where
  "sample_snapshot =
     \<lparr>prs_balance = flt 10000, prs_position_count = 0, prs_gross_exposure = 0, prs_net_exposure = 0,
      prs_proposed_notional = flt 500, prs_resulting_gross_exposure = flt 500,
      prs_resulting_net_exposure = flt 500, prs_symbol_exposure = flt 500,
      prs_strategy_exposure = flt 500, prs_symbol_concentration_percent = 0\<rparr>"

definition sample_var :: var_result where
  "sample_var =
     \<lparr>vr_method = ''PARAMETRIC_FALLBACK'', vr_confidence = flt (99 / 100), vr_observations = 0,
      vr_value_at_risk = flt 12, vr_value_at_risk_percent = flt (12 / 100),
      vr_expected_shortfall = flt 15, vr_warnings = []\<rparr>"

definition sample_check :: risk_check where
  "sample_check =
     \<lparr>rc_risk_check_id = ''check-1'', rc_evaluation_id = hash64 CHR ''e'', rc_idempotency_key = ''key-1'',
      rc_request_fingerprint = hash64 CHR ''f'', rc_decision_id = ''dec-1'', rc_correlation_id = ''corr-1'',
      rc_risk_status = RsAPPROVED, rc_approved = True, rc_position_size = Some (flt 500),
      rc_leverage = Some (flt 1), rc_risk_percent = Some (flt 1), rc_stop_loss = None,
      rc_take_profit = None, rc_risk_reward = None, rc_reason = [ReasonWithinLimits], rc_warnings = [],
      rc_effective_limits = [], rc_portfolio_snapshot = Some sample_snapshot,
      rc_var_result = Some sample_var, rc_approval_id = Some (hash64 CHR ''a''), rc_created_at = 0\<rparr>"

definition sample_approval :: order_approval where
  "sample_approval =
     \<lparr>oa_approval_id = hash64 CHR ''a'', oa_evaluation_id = hash64 CHR ''e'', oa_risk_check_id = ''check-1'',
      oa_decision_id = ''dec-1'', oa_correlation_id = ''corr-1'', oa_request_fingerprint = hash64 CHR ''f'',
      oa_position_snapshot_hash = hash64 CHR ''h'', oa_symbol = ''BTCUSDT'', oa_timeframe = ''1m'',
      oa_strategy = ''TREND'', oa_side = BUY, oa_max_notional = flt 500, oa_max_leverage = flt 1,
      oa_reference_price = flt 1000, oa_max_entry_deviation_bps = flt 100, oa_status = ApACTIVE,
      oa_created_at = 0, oa_expires_at = 60000000, oa_consumed_at = None, oa_paper_order_id = None,
      oa_oms_order_id = None\<rparr>"

definition sample_order :: oms_order where
  "sample_order =
     \<lparr>oo_oms_order_id = ''oms-1'', oo_client_order_id = ''ccoms-00000001'', oo_decision_id = ''dec-1'',
      oo_risk_check_id = ''check-1'', oo_approval_id = hash64 CHR ''a'',
      oo_request_fingerprint = hash64 CHR ''f'', oo_correlation_id = ''corr-1'', oo_exchange = BYBIT,
      oo_environment = EnvTESTNET, oo_symbol = ''BTCUSDT'', oo_timeframe = ''1m'', oo_strategy = ''TREND'',
      oo_side = BUY, oo_order_type = MARKET, oo_time_in_force = IOC, oo_quantity = flt (1 / 2),
      oo_requested_notional = flt 500, oo_leverage = flt 1, oo_limit_price = None,
      oo_reference_price = flt 1000, oo_status = OsPENDING_SUBMISSION, oo_venue_order_id = None,
      oo_cumulative_filled_quantity = 0, oo_average_fill_price = None, oo_rejection_reason = None,
      oo_state_version = 1, oo_created_at = 1000000, oo_updated_at = 1000000, oo_submitted_at = None,
      oo_terminal_at = None\<rparr>"

definition sample_command :: execution_command where
  "sample_command =
     \<lparr>xc_command_id = ''cmd-1'', xc_oms_order_id = ''oms-1'', xc_command_type = SUBMIT,
      xc_status = CsPENDING, xc_attempt_count = 0, xc_max_attempts = 1, xc_leased_by = None,
      xc_lease_expires_at = None, xc_available_at = 1000000, xc_last_error_type = None,
      xc_created_at = 1000000, xc_completed_at = None\<rparr>"

definition sample_filled :: oms_order where
  "sample_filled =
     sample_order\<lparr>oo_status := OsFILLED, oo_venue_order_id := Some ''venue-1'',
       oo_cumulative_filled_quantity := flt (1 / 2), oo_average_fill_price := Some (flt 1000),
       oo_state_version := 2, oo_updated_at := 3000000, oo_submitted_at := Some 3000000,
       oo_terminal_at := Some 3000000\<rparr>"

definition sample_submitted :: oms_order where
  "sample_submitted =
     sample_order\<lparr>oo_status := OsSUBMITTED, oo_venue_order_id := Some ''venue-1'', oo_state_version := 2,
       oo_updated_at := 3000000, oo_submitted_at := Some 3000000\<rparr>"

definition sample_cancel :: execution_command where
  "sample_cancel = sample_command\<lparr>xc_command_id := ''cmd-2'', xc_command_type := CANCEL\<rparr>"

definition db_approved :: db where
  "db_approved =
     empty_db\<lparr>db_evaluations := [sample_check], db_risk_checks := [sample_check],
              db_approvals := [(hash64 CHR ''a'', sample_approval)]\<rparr>"

definition sample_consumed :: order_approval where
  "sample_consumed =
     sample_approval\<lparr>oa_status := ApCONSUMED, oa_consumed_at := Some 1000000, oa_oms_order_id := Some ''oms-1''\<rparr>"

definition event_of :: "oms_order \<Rightarrow> string \<Rightarrow> oms_order_event" where
  "event_of o' t =
     \<lparr>oe_oms_order_id = oo_oms_order_id o', oe_state_version = oo_state_version o', oe_event_type = t,
      oe_payload = o'\<rparr>"

definition db_created :: db where
  "db_created =
     db_approved\<lparr>db_approvals := [(hash64 CHR ''a'', sample_consumed)],
       db_oms_orders := [(''oms-1'', sample_order)], db_oms_events := [event_of sample_order ''CREATED''],
       db_commands := [(''cmd-1'', sample_command)]\<rparr>"

definition db_claimed :: db where
  "db_claimed = db_created\<lparr>db_commands := [(''cmd-1'', lease ''worker'' 32000000 sample_command)]\<rparr>"

definition finished_command :: execution_command where
  "finished_command =
     sample_command\<lparr>xc_status := CsCOMPLETED, xc_attempt_count := 1, xc_completed_at := Some 3000000\<rparr>"

definition db_finished :: db where
  "db_finished =
     db_claimed\<lparr>db_oms_orders := [(''oms-1'', sample_filled)], db_commands := [(''cmd-1'', finished_command)],
       db_oms_events := [event_of sample_order ''CREATED'', event_of sample_filled ''SUBMITTED'']\<rparr>"

definition db_submitted :: db where
  "db_submitted =
     db_claimed\<lparr>db_oms_orders := [(''oms-1'', sample_submitted)], db_commands := [(''cmd-1'', finished_command)],
       db_oms_events := [event_of sample_order ''CREATED'', event_of sample_submitted ''SUBMITTED'']\<rparr>"

definition sample_cancelling :: oms_order where
  "sample_cancelling = sample_submitted\<lparr>oo_status := OsCANCEL_PENDING, oo_state_version := 3\<rparr>"

definition db_cancelling :: db where
  "db_cancelling =
     db_submitted\<lparr>db_oms_orders := [(''oms-1'', sample_cancelling)],
       db_commands := [(''cmd-1'', finished_command), (''cmd-2'', sample_cancel)],
       db_oms_events := db_oms_events db_submitted @ [event_of sample_cancelling ''CANCEL_QUEUED'']\<rparr>"

lemma sample_history:
  "save_central_risk_evaluation sample_check (Some sample_approval) empty_db = (db_approved, Inr ())"
  "create_oms_order sample_H 1000000 sample_order (Some sample_command) True db_approved =
     (db_created, Inr sample_order)"
  "claim_execution_command 2000000 ''worker'' (flt 30) db_created =
     (db_claimed, Inr (Some (lease ''worker'' 32000000 sample_command, sample_order)))"
  "finish_execution_command ''cmd-1'' ''worker'' sample_filled ''SUBMITTED'' None db_claimed =
     (db_finished, Inr sample_filled)"
  "finish_execution_command ''cmd-1'' ''worker'' sample_submitted ''SUBMITTED'' None db_claimed =
     (db_submitted, Inr sample_submitted)"
  "queue_cancel_command sample_cancelling sample_cancel db_submitted = (db_cancelling, Inr sample_cancelling)"
  by code_simp+

lemma repo_reachable_result: "repo_reachable d \<Longrightarrow> repo_step d (fst m) \<Longrightarrow> m = (d', r) \<Longrightarrow> repo_reachable d'"
  using repo_reachable_step by fastforce

lemma db_approved_reachable: "repo_reachable db_approved"
  by (rule repo_reachable_result [OF repo_reachable_empty step_evaluation sample_history(1)])

lemma db_created_reachable: "repo_reachable db_created"
  by (rule repo_reachable_result [OF db_approved_reachable step_create sample_history(2)])

lemma db_claimed_reachable: "repo_reachable db_claimed"
  by (rule repo_reachable_result [OF db_created_reachable step_claim sample_history(3)])

lemma db_finished_reachable: "repo_reachable db_finished"
  by (rule repo_reachable_result [OF db_claimed_reachable step_finish sample_history(4)])

lemma db_created_rows:
  "dict_get (db_approvals db_created) (hash64 CHR ''a'') = Some sample_consumed"
  "dict_get (db_oms_orders db_created) ''oms-1'' = Some sample_order"
  "dict_get (db_commands db_created) ''cmd-1'' = Some sample_command"
  by (simp_all add: db_created_def)

lemma db_finished_order: "dict_get (db_oms_orders db_finished) ''oms-1'' = Some sample_filled"
  by (simp add: db_finished_def)

end
