(* ===== verification/Store_Properties.thy ===== *)
theory Store_Properties
  imports Samples
begin

text \<open>
  What the durable store guarantees over every history of transactions, with outages anywhere:
  single use of approvals, at most one dispatch of a command, frozen terminal orders, the effect of
  the durable kill switch, atomicity and idempotence of order creation.
\<close>

section \<open>Commands are dispatched at most once\<close>

lemma claim_execution_command_Some:
  assumes "claim_execution_command now w secs d = (d', Inr (Some (c, o')))"
  obtains d1 row where "db_le d d1" "row \<in> set (dict_values (db_commands d1))" "claimable now row"
    "update_command_row row c d1 = Inr d'" "c = lease w (now + seconds_delta (max (flt 1) secs)) row"
    "dict_get (db_oms_orders d1) (xc_oms_order_id row) = Some o'"
proof -
  let ?d0 = "d\<lparr>db_faults := tl (db_faults d)\<rparr>"
  from assms obtain d1 where 1: "fold_result (expire_command now)
        (take 100 (filter (\<lambda>c. lease_expired now c \<and> xc_max_attempts c \<le> xc_attempt_count c)
          (dict_values (db_commands ?d0)))) ?d0 = Inr d1"
    and 2: "claim_next now w (now + seconds_delta (max (flt 1) secs)) d1 = Inr (d', Some (c, o'))"
    unfolding claim_execution_command_def transaction_commit Let_def bind_result_Inr by blast
  have "db_le d d1" using store.store_trans [OF store.store_faults expired_le [OF 1]] .
  with 2 that show ?thesis by (elim claim_next_cases) auto
qed

lemma claimed_row:
  assumes "claim_execution_command now w secs d = (d', Inr (Some (c, o')))" "db_wf d"
  shows "db_wf d'" "dict_get (db_commands d') (xc_command_id c) = Some c" "1 \<le> xc_attempt_count c"
proof -
  obtain d1 row where le: "db_le d d1" and row: "row \<in> set (dict_values (db_commands d1))"
    and u: "update_command_row row c d1 = Inr d'"
    and c: "c = lease w (now + seconds_delta (max (flt 1) secs)) row"
    using claim_execution_command_Some [OF assms(1)] by metis
  have wf: "db_wf d1" using le assms(2) db_le_wf by blast
  show "db_wf d'" using claim_execution_command_le [of d now w secs] assms db_le_wf by simp
  show "dict_get (db_commands d') (xc_command_id c) = Some c"
    using u by (auto simp: update_command_row_def c lease_def dict_simps split: if_splits)
  have "command_row_ok row"
    using wf db_wf_member [OF wf row] by (auto simp: db_wf_def commands.wf_def coherent_def)
  then show "1 \<le> xc_attempt_count c" by (simp add: c lease_def command_row_ok_def)
qed

lemma claimable_fresh:
  assumes "claim_execution_command now w secs d = (d', Inr (Some (c, o')))" "db_wf d"
    and "dict_get (db_commands d) k = Some old" "1 \<le> xc_attempt_count old"
  shows "(xc_oms_order_id c, xc_command_type c) \<noteq> (xc_oms_order_id old, xc_command_type old)"
proof
  assume same: "(xc_oms_order_id c, xc_command_type c) = (xc_oms_order_id old, xc_command_type old)"
  obtain d1 row where le: "db_le d d1" and row: "row \<in> set (dict_values (db_commands d1))"
    and cl: "claimable now row" and c: "c = lease w (now + seconds_delta (max (flt 1) secs)) row"
    using claim_execution_command_Some [OF assms(1)] by metis
  have wf: "db_wf d1" using le assms(2) db_le_wf by blast
  obtain old' where old': "dict_get (db_commands d1) k = Some old'" "command_advances old old'"
    using commands.le_row [of "db_commands d" "db_commands d1"] le assms(2,3)
    by (auto simp: db_le_def db_step_def db_wf_def)
  have "xc_oms_order_id row = xc_oms_order_id old'" "xc_command_type row = xc_command_type old'"
    using same old'(2) by (simp_all add: c lease_def command_advances_def)
  then have "k = xc_command_id row"
    using unique_byD [OF _ old'(1) db_wf_member [OF wf row]] wf
    by (auto simp: db_wf_def commands.wf_def command_clash_def)
  then have "row = old'" using old'(1) db_wf_member [OF wf row] by simp
  moreover have "command_row_ok row" using wf db_wf_member [OF wf row] by (auto simp: db_wf_def commands.wf_def coherent_def)
  ultimately show False using cl assms(4) old'(2) by (simp add: claimable_def command_row_ok_def command_advances_def)
qed

text \<open>
  C2. At most one dispatch: once a worker has claimed the SUBMIT (or CANCEL) command of an order, no
  later claim, by any worker and after any history of transactions, outages and lease expiries,
  ever hands out a SUBMIT (or CANCEL) command of that order again. A crashed submission is
  therefore never replayed to the venue.
\<close>

theorem at_most_one_dispatch:
  assumes "repo_reachable d"
    and "claim_execution_command now w secs d = (d1, Inr (Some (c, o')))"
    and "repo_step\<^sup>*\<^sup>* d1 d2"
    and "claim_execution_command now' w' secs' d2 = (d3, Inr (Some (c', o'')))"
  shows "(xc_oms_order_id c', xc_command_type c') \<noteq> (xc_oms_order_id c, xc_command_type c)"
proof -
  have wf: "db_wf d" using assms(1) by (rule repo_reachable_wf)
  note claimed = claimed_row [OF assms(2) wf]
  obtain c2 where c2: "dict_get (db_commands d2) (xc_command_id c) = Some c2" "command_advances c c2"
    using later_command [OF claimed(1) assms(3) claimed(2)] .
  have "db_wf d2" using repo_steps_le [OF assms(3)] claimed(1) db_le_wf by blast
  then have "(xc_oms_order_id c', xc_command_type c') \<noteq> (xc_oms_order_id c2, xc_command_type c2)"
    using claimable_fresh [OF assms(4) _ c2(1)] c2(2) claimed(3) by (simp add: command_advances_def)
  with c2(2) show ?thesis by (simp add: command_advances_def)
qed

lemma sample_second_claim:
  "snd (claim_execution_command 4000000 ''other'' (flt 30) db_cancelling) =
     Inr (Some (lease ''other'' 34000000 sample_cancel, sample_cancelling))"
  by code_simp

lemma sample_claim_history: "repo_step\<^sup>*\<^sup>* db_claimed db_cancelling"
  using step_finish [of db_claimed "''cmd-1''" "''worker''" sample_submitted "''SUBMITTED''" None]
    step_cancel [of db_submitted sample_cancelling sample_cancel]
  by (simp add: sample_history(5,6))

theorem at_most_one_dispatch_witness:
  "repo_reachable db_created \<and>
   (xc_oms_order_id (lease ''other'' 34000000 sample_cancel), xc_command_type (lease ''other'' 34000000 sample_cancel)) \<noteq>
   (xc_oms_order_id (lease ''worker'' 32000000 sample_command), xc_command_type (lease ''worker'' 32000000 sample_command))"
  using at_most_one_dispatch [OF db_created_reachable sample_history(3) sample_claim_history]
    sample_second_claim db_created_reachable by (metis prod.collapse)

section \<open>Every order is backed by its own consumed approval\<close>

definition consumed_for :: "oms_order \<Rightarrow> order_approval \<Rightarrow> bool" where
  "consumed_for r a \<longleftrightarrow>
     oa_status a = ApCONSUMED \<and>
     (if oo_environment r = EnvTESTNET
      then oa_oms_order_id a = Some (oo_oms_order_id r) \<and> \<not> oms_differs_from_approval r a
      else oa_paper_order_id a = Some (oo_oms_order_id r))"

definition backed :: "db \<Rightarrow> bool" where
  "backed d \<longleftrightarrow> (\<forall>r. r \<in> ran (dict_get (db_oms_orders d)) \<longrightarrow>
     (\<exists>a. dict_get (db_approvals d) (oo_approval_id r) = Some a \<and> consumed_for r a))"

lemma consumed_for_identity: "same_oms_identity r r' \<Longrightarrow> consumed_for r' a = consumed_for r a"
  by (simp add: same_oms_identity_def consumed_for_def oms_differs_from_approval_def oms_deviation_bps_def)

text \<open>Transactions that add no order, as a second order on database states.\<close>

definition keyed_orders :: "db \<Rightarrow> bool" where
  "keyed_orders d \<longleftrightarrow> (\<forall>k r. dict_get (db_oms_orders d) k = Some r \<longrightarrow> oo_oms_order_id r = k)"

definition same_order_keys :: "db \<Rightarrow> db \<Rightarrow> bool" where
  "same_order_keys d d' \<longleftrightarrow>
     (keyed_orders d \<longrightarrow> keyed_orders d' \<and> dom (dict_get (db_oms_orders d')) = dom (dict_get (db_oms_orders d)))"

interpretation order_keys: ordered_store same_order_keys
proof
  show "same_order_keys a b \<Longrightarrow> same_order_keys b c \<Longrightarrow> same_order_keys a c" for a b c
    unfolding same_order_keys_def by simp
qed (simp_all add: same_order_keys_def keyed_orders_def)

lemma same_order_keysI: "db_oms_orders d' = db_oms_orders d \<Longrightarrow> same_order_keys d d'"
  by (simp add: same_order_keys_def keyed_orders_def)

lemma db_wf_keyed: "db_wf d \<Longrightarrow> keyed_orders d"
  by (auto simp: db_wf_def orders.wf_def keyed_orders_def coherent_def)

lemma backed_advance:
  assumes "backed d" "db_wf d" "db_le d d'" "same_order_keys d d'"
  shows "backed d'"
  unfolding backed_def
proof (intro allI impI)
  fix r' assume "r' \<in> ran (dict_get (db_oms_orders d'))"
  then obtain k where k: "dict_get (db_oms_orders d') k = Some r'" by (auto simp: ran_def)
  then obtain r where r: "dict_get (db_oms_orders d) k = Some r"
    using assms(2,4) db_wf_keyed unfolding same_order_keys_def by (metis domD domI)
  then have "order_advances r r'"
    using orders.le_row [of "db_oms_orders d" "db_oms_orders d'" k r] assms(2,3) k
    by (auto simp: db_le_def db_step_def db_wf_def)
  then have same: "same_oms_identity r r'" by (simp add: order_advances_def)
  obtain a where a: "dict_get (db_approvals d) (oo_approval_id r) = Some a" "consumed_for r a"
    using assms(1) r unfolding backed_def ran_def by blast
  then obtain a' where a': "dict_get (db_approvals d') (oo_approval_id r) = Some a'" "approval_advances a a'"
    using approvals.le_row [of "db_approvals d" "db_approvals d'"] assms(2,3)
    by (auto simp: db_le_def db_step_def db_wf_def)
  have "a' = a" using a(2) a'(2) by (auto simp: consumed_for_def approval_advances_def)
  moreover have "oo_approval_id r' = oo_approval_id r" using same by (simp add: same_oms_identity_def)
  ultimately show "\<exists>a. dict_get (db_approvals d') (oo_approval_id r') = Some a \<and> consumed_for r' a"
    using a(2) a'(1) consumed_for_identity [OF same] by simp
qed

lemma backed_insert:
  assumes "backed d" "insert_oms_order o' d = Inr d'" "dict_get (db_approvals d) (oo_approval_id o') = Some a"
    "consumed_for o' a"
  shows "backed d'" and "db_approvals d' = db_approvals d"
proof -
  have d': "d' = d\<lparr>db_oms_orders := dict_set (oo_oms_order_id o') o' (db_oms_orders d)\<rparr>"
    using assms(2) by (simp add: insert_oms_order_def split: if_splits)
  then show "db_approvals d' = db_approvals d" by simp
  show "backed d'"
    using assms(1,3,4) unfolding backed_def d' by (auto simp: ran_def dict_simps)
qed

lemma backed_tables:
  "db_oms_orders d' = db_oms_orders d \<Longrightarrow> db_approvals d' = db_approvals d \<Longrightarrow> backed d' = backed d"
  by (simp add: backed_def)

lemma insert_event_backed: "insert_event o' t d = Inr d' \<Longrightarrow> backed d' = backed d"
  using backed_tables insert_event_frame by blast

lemma insert_command_backed: "insert_command c d = Inr d' \<Longrightarrow> backed d' = backed d"
  by (simp add: insert_command_def split: if_splits) (clarsimp simp: backed_def)

lemma update_approval_row_frame:
  assumes "update_approval_row old new d = Inr d'"
  shows "db_oms_orders d' = db_oms_orders d" "dict_get (db_approvals d') (oa_approval_id old) = Some new"
  using assms by (auto simp: update_approval_row_def dict_simps split: if_splits)

lemma consume_for_oms_backs:
  assumes "consume_for_oms H now o' stored d = Inr d'" "dict_get (db_approvals d) (oo_approval_id o') = Some stored"
    "db_wf d" "backed d"
  shows "backed d' \<and> (\<exists>a. dict_get (db_approvals d') (oo_approval_id o') = Some a \<and> consumed_for o' a)"
proof -
  let ?new = "stored\<lparr>oa_status := ApCONSUMED, oa_consumed_at := Some now, oa_paper_order_id := None,
                 oa_oms_order_id := Some (oo_oms_order_id o')\<rparr>"
  have u: "update_approval_row stored ?new d = Inr d'" "oo_environment o' = EnvTESTNET"
      "\<not> oms_differs_from_approval o' stored"
    using assms(1) by (auto simp: consume_for_oms_def bind_result_Inr split: if_splits)
  have "oa_approval_id stored = oo_approval_id o'"
    using assms(2,3) by (auto simp: db_wf_def approvals.wf_def coherent_def)
  moreover have "consumed_for o' ?new"
    using u by (simp add: consumed_for_def oms_differs_from_approval_def oms_deviation_bps_def)
  moreover have "backed d'"
    using backed_advance [OF assms(4,3) consume_for_oms_le [OF assms(1,2)]] update_approval_row_frame(1) [OF u(1)]
      same_order_keysI by blast
  ultimately show ?thesis using update_approval_row_frame(2) [OF u(1)] by auto
qed

definition backed_store :: "db \<Rightarrow> bool" where
  "backed_store d \<longleftrightarrow> db_wf d \<and> backed d"

interpretation backed: store_invariant backed_store
  by unfold_locales (simp add: backed_store_def backed_def db_wf_def)

lemma backed_storeI:
  "backed_store d \<Longrightarrow> db_le d d' \<Longrightarrow> same_order_keys d d' \<Longrightarrow> backed_store d'"
  using backed_advance db_le_wf by (auto simp: backed_store_def)

lemma check_paper_mirror_backs:
  assumes "check_paper_mirror o' stored d = Inr d'" "dict_get (db_approvals d) (oo_approval_id o') = Some stored"
  shows "d' = d" "consumed_for o' stored"
  using assms by (auto simp: check_paper_mirror_def consumed_for_def split: if_splits)

lemma written_order_backed:
  assumes 0: "dict_get (db_approvals a) (oo_approval_id o') = Some stored" "backed_store a"
    and 1: "(if consume then consume_for_oms H now o' stored a else check_paper_mirror o' stored a) = Inr d1"
    and 2: "insert_oms_order o' d1 = Inr d2" "insert_event o' t d2 = Inr d3"
  shows "backed_store d3"
proof -
  have wf: "db_wf a" "backed a" using 0(2) by (auto simp: backed_store_def)
  have "db_le a d1"
    using 1 consume_for_oms_le [OF _ 0(1)] check_paper_mirror_le by (cases consume) auto
  then have "db_wf d3"
    using insert_oms_order_le [OF 2(1)] insert_event_le [OF 2(2)] wf(1) db_le_wf by blast
  moreover have "backed d1 \<and> (\<exists>a. dict_get (db_approvals d1) (oo_approval_id o') = Some a \<and> consumed_for o' a)"
  proof (cases consume)
    case True
    with 1 show ?thesis using consume_for_oms_backs [OF _ 0(1) wf] by simp
  next
    case False
    with 1 show ?thesis using check_paper_mirror_backs [of o' stored a d1] 0(1) wf(2) by auto
  qed
  then have "backed d2" using backed_insert [OF _ 2(1)] by blast
  ultimately show ?thesis using insert_event_backed [OF 2(2)] by (simp add: backed_store_def)
qed

lemma insert_command_backed_store: "insert_command c d = Inr d' \<Longrightarrow> backed_store d \<Longrightarrow> backed_store d'"
  using insert_command_backed db_le_wf [OF insert_command_le] unfolding backed_store_def by blast

lemma create_oms_order_backed:
  "backed_store d \<longrightarrow> backed_store (fst (create_oms_order H now o' command consume d))"
proof -
  have "backed_store a \<longrightarrow> backed_store b"
    if "create_or_load H now o' command consume a = Inr (b, x)" for a b x
    using that
  proof (cases rule: create_or_load_cases)
    case (created stored d1 d2 d3)
    have "backed_store d3" if "backed_store a"
      by (rule written_order_backed [OF created(3) that created(4-6)])
    with created(7) show ?thesis by (cases command) (auto intro: insert_command_backed_store)
  qed simp
  then show ?thesis unfolding create_oms_order_def by (simp add: backed.transaction_le)
qed

lemma insert_order_backed_store:
  assumes "backed_store d" "insert_oms_order o' d = Inr d1" "insert_event o' t d1 = Inr d2"
    "dict_get (db_approvals d) (oo_approval_id o') = Some a" "consumed_for o' a"
  shows "backed_store d2"
proof -
  have "db_wf d2"
    using assms(1) db_le_wf insert_oms_order_le [OF assms(2)] insert_event_le [OF assms(3)]
    unfolding backed_store_def by blast
  moreover have "backed d1" using backed_insert(1) [OF _ assms(2,4,5)] assms(1) by (simp add: backed_store_def)
  ultimately show ?thesis using insert_event_backed [OF assms(3)] by (simp add: backed_store_def)
qed

lemma consume_stored_backs:
  assumes "consume_stored H now approval order stored d = Inr d'" "dict_get (db_approvals d) k = Some stored"
    "backed_store d"
  shows "backed_store d'"
    "\<exists>a. dict_get (db_approvals d') k = Some a \<and> oa_status a = ApCONSUMED \<and>
         oa_paper_order_id a = Some (po_paper_order_id order)"
proof -
  obtain new where u: "update_approval_row stored new d = Inr d'" "oa_status new = ApCONSUMED"
      "oa_paper_order_id new = Some (po_paper_order_id order)"
    using assms(1) by (simp add: consume_stored_def bind_result_Inr split: if_splits) force
  show "backed_store d'"
    using backed_storeI [OF assms(3) consume_stored_le [OF assms(1,2)]] update_approval_row_frame(1) [OF u(1)]
      same_order_keysI by blast
  have "oa_approval_id stored = k"
    using assms(2,3) by (auto simp: backed_store_def db_wf_def approvals.wf_def coherent_def)
  with update_approval_row_frame(2) [OF u(1)] u(2,3)
  show "\<exists>a. dict_get (db_approvals d') k = Some a \<and> oa_status a = ApCONSUMED \<and>
         oa_paper_order_id a = Some (po_paper_order_id order)" by auto
qed

lemma write_paper_order_backed:
  assumes "write_paper_order order m d = Inr (d', u)" "backed_store d"
    and "\<And>o'. m = Some o' \<Longrightarrow> \<exists>a. dict_get (db_approvals d) (oo_approval_id o') = Some a \<and> consumed_for o' a"
  shows "backed_store d'"
proof -
  let ?d1 = "d\<lparr>db_paper_orders := dict_set (po_paper_order_id order) order (db_paper_orders d)\<rparr>"
  have b: "backed_store ?d1"
    by (rule backed_storeI [OF assms(2) db_le_evidence(3)]) (simp add: same_order_keysI)
  show ?thesis
  proof (cases m)
    case None
    with assms(1) have "d' = ?d1" by (simp add: write_paper_order_def split: if_splits)
    with b show ?thesis by (simp only:)
  next
    case (Some o')
    with assms(1) obtain d2 where "insert_oms_order o' ?d1 = Inr d2" "insert_event o' ''PAPER_FILLED'' d2 = Inr d'"
      by (simp add: write_paper_order_def bind_result_Inr split: if_splits) blast
    moreover obtain a where "dict_get (db_approvals d) (oo_approval_id o') = Some a" "consumed_for o' a"
      using assms(3) [OF Some] by blast
    ultimately show ?thesis using insert_order_backed_store [OF b] by simp
  qed
qed

lemma consume_order_approval_backed:
  "backed_store d \<longrightarrow> backed_store (fst (consume_order_approval H now approval order m d))"
proof (cases "case m of None \<Rightarrow> False
          | Some m \<Rightarrow> oo_environment m \<noteq> EnvPAPER \<or> oo_oms_order_id m \<noteq> po_paper_order_id order \<or>
                     oo_approval_id m \<noteq> oa_approval_id approval")
  case True
  then show ?thesis by (simp add: consume_order_approval_def)
next
  case False
  have step: "backed_store b"
    if "dict_get (db_approvals a) (oa_approval_id approval) = Some stored" "backed_store a"
      "consume_stored H now approval order stored a = Inr d1" "write_paper_order order m d1 = Inr (b, x)"
    for a b stored d1 x
    using consume_stored_backs [OF that(3,1,2)] False
    by (intro write_paper_order_backed [OF that(4)]) (auto simp: consumed_for_def)
  from False show ?thesis
    unfolding consume_order_approval_def
    by (simp only: if_False) (rule backed.transaction_le,
        auto simp: bind_result_Inr split: option.splits if_splits intro: step)
qed

lemma update_oms_row_keys:
  assumes "update_oms_row row new d = Inr d'" "dict_get (db_oms_orders d) k = Some row"
  shows "same_order_keys d d'"
proof -
  have "oo_oms_order_id new = oo_oms_order_id row"
    and "d' = d\<lparr>db_oms_orders := dict_set (oo_oms_order_id row) new (db_oms_orders d)\<rparr>"
    using assms(1)
    by (simp_all add: update_oms_row_def guard_oms_order_transition_def same_oms_identity_def split: if_splits)
  with assms(2) show ?thesis by (auto simp: same_order_keys_def keyed_orders_def dict_simps split: if_splits)
qed

lemma insert_event_keys: "insert_event o' t d = Inr d' \<Longrightarrow> same_order_keys d d'"
  by (rule same_order_keysI) (rule insert_event_frame)

lemma insert_command_keys: "insert_command c d = Inr d' \<Longrightarrow> same_order_keys d d'"
  by (rule same_order_keysI) (auto simp: insert_command_def split: if_splits)

lemma update_command_row_keys: "update_command_row c c' d = Inr d' \<Longrightarrow> same_order_keys d d'"
  by (rule same_order_keysI) (auto simp: update_command_row_def split: if_splits)

lemma insert_fill_keys: "insert_fill sc f d = Inr d' \<Longrightarrow> same_order_keys d d'"
  by (rule same_order_keysI) (auto simp: insert_fill_def split: if_splits)

lemma expire_command_keys: "expire_command now c d = Inr d' \<Longrightarrow> same_order_keys d d'"
  unfolding expire_command_def
  by (auto simp: bind_result_Inr simp del: terminal_iff split: option.splits if_splits intro: update_command_row_keys)
    (meson order_keys.store_trans update_oms_row_keys insert_event_keys update_command_row_keys)

lemma claim_execution_command_keys: "same_order_keys d (fst (claim_execution_command now w secs d))"
proof -
  have "same_order_keys a b" if "claim_next now w t a = Inr (b, x)" for a b t x
    using that by (cases rule: claim_next_cases) (auto simp: order_keys.store_refl intro: update_command_row_keys)
  then show ?thesis
    unfolding claim_execution_command_def Let_def
    by (intro order_keys.transaction_le)
      (auto simp: bind_result_Inr intro: order_keys.store_trans [OF order_keys.fold_result_le [OF expire_command_keys]])
qed

lemma finish_execution_command_keys: "same_order_keys d (fst (finish_execution_command i w o' t e d))"
proof -
  have body: "same_order_keys a b" if "dict_get (db_oms_orders a) k = Some row" "update_oms_row row new a = Inr d1"
      "update_command_row c c' d1 = Inr d2" "insert_event o' t d2 = Inr b" for a b k row new d1 c c' d2
    using update_oms_row_keys [OF that(2,1)] update_command_row_keys [OF that(3)] insert_event_keys [OF that(4)]
      order_keys.store_trans by blast
  show ?thesis
    unfolding finish_execution_command_def
    by (rule order_keys.transaction_le) (auto simp: bind_result_Inr split: option.splits if_splits intro: body)
qed

lemma queue_cancel_command_keys: "same_order_keys d (fst (queue_cancel_command o' c d))"
  unfolding queue_cancel_command_def
  by (auto simp: order_keys.store_refl bind_result_Inr split: option.splits if_splits
      intro!: order_keys.transaction_le)
    (meson order_keys.store_trans update_oms_row_keys insert_event_keys insert_command_keys)+

lemma reconcile_row_keys: "reconcile_row r d = Inr d' \<Longrightarrow> same_order_keys d d'"
  unfolding reconcile_row_def
  by (auto simp: order_keys.store_refl bind_result_Inr split: option.splits if_splits)
    (meson order_keys.store_trans update_oms_row_keys insert_event_keys)

lemma persist_reconciliation_keys: "same_order_keys d (fst (persist_reconciliation run mms snap os d))"
proof -
  have body: "same_order_keys a (c\<lparr>db_mismatches := ms, db_positions := ps, db_balances := bs\<rparr>)"
    if "fold_result reconcile_row os (a\<lparr>db_runs := rs\<rparr>) = Inr b" "fold_result (insert_fill sc) fs b = Inr c"
    for a b c ms ps bs rs sc fs
  proof -
    have "same_order_keys a (a\<lparr>db_runs := rs\<rparr>)"
      and "same_order_keys c (c\<lparr>db_mismatches := ms, db_positions := ps, db_balances := bs\<rparr>)"
      by (simp_all add: same_order_keysI)
    then show ?thesis
      using order_keys.fold_result_le [OF reconcile_row_keys that(1)]
        order_keys.fold_result_le [OF insert_fill_keys that(2)] order_keys.store_trans by meson
  qed
  show ?thesis
    unfolding persist_reconciliation_def
    by (rule order_keys.transaction_le) (auto simp: bind_result_Inr split: if_splits intro: body)
qed

text \<open>Transactions that do not write the order table at all.\<close>

lemma insert_approval_keys: "insert_approval a d = Inr d' \<Longrightarrow> same_order_keys d d'"
  by (rule same_order_keysI) (auto simp: insert_approval_def split: if_splits)

lemma other_keys:
  "same_order_keys d (fst (load_open_position_exposures d))"
  "same_order_keys d (fst (load_central_risk_evaluation_by_key k d))"
  "same_order_keys d (fst (load_oms_order i d))"
  "same_order_keys d (fst (list_oms_orders x e l d))"
  "same_order_keys d (fst (load_risk_control_state d))"
  "same_order_keys d (fst (save_audit_log r d))"
  unfolding load_open_position_exposures_def load_central_risk_evaluation_by_key_def load_oms_order_def
    list_oms_orders_def load_risk_control_state_def save_audit_log_def
  by (intro order_keys.transaction_le;
      auto simp: bind_result_Inr order_keys.store_refl Let_def split: option.splits intro: same_order_keysI)+

lemma save_paper_order_keys: "same_order_keys d (fst (save_paper_order order d))"
  unfolding save_paper_order_def
  by (rule order_keys.transaction_le)
    (simp split: option.splits if_splits; clarify; rule same_order_keysI; simp)

lemma set_risk_control_keys: "same_order_keys d (fst (set_risk_control now active reason actor cid d))"
  unfolding set_risk_control_def
  by (rule order_keys.transaction_le) (auto simp: Let_def split: option.splits if_splits intro: same_order_keysI)

lemma save_central_risk_evaluation_keys: "same_order_keys d (fst (save_central_risk_evaluation check approval d))"
proof -
  have *: "same_order_keys a b"
    if "insert_approval ap (a\<lparr>db_evaluations := es, db_risk_checks := cs\<rparr>) = Inr b" for a b ap es cs
  proof -
    have "same_order_keys a (a\<lparr>db_evaluations := es, db_risk_checks := cs\<rparr>)" by (rule same_order_keysI) simp
    then show ?thesis using insert_approval_keys [OF that] by (rule order_keys.store_trans)
  qed
  show ?thesis
    unfolding save_central_risk_evaluation_def
    by (rule order_keys.transaction_le)
      (auto simp: bind_result_Inr Let_def order_keys.store_refl split: option.splits if_splits
        intro: * same_order_keysI)
qed

lemma repo_step_backed: "repo_step d d' \<Longrightarrow> backed_store d \<Longrightarrow> backed_store d'"
proof (induction rule: repo_step.induct)
  case (step_create d H now o' command consume)
  then show ?case using create_oms_order_backed by blast
next
  case (step_consume d H now approval order m)
  then show ?case using consume_order_approval_backed by blast
qed (rule backed_storeI, assumption, rule repo_step_le, rule repo_step.intros,
     rule other_keys save_central_risk_evaluation_keys save_paper_order_keys claim_execution_command_keys
       finish_execution_command_keys queue_cancel_command_keys persist_reconciliation_keys set_risk_control_keys)+

lemma repo_reachable_backed: "repo_reachable d \<Longrightarrow> backed_store d"
proof -
  assume "repo_reachable d"
  then obtain fs where "repo_step\<^sup>*\<^sup>* (empty_db\<lparr>db_faults := fs\<rparr>) d" by (auto simp: repo_reachable_def)
  then show ?thesis
  proof (induction rule: rtranclp_induct)
    case base
    have "backed_store empty_db" by (simp add: backed_store_def empty_db_wf backed_def) (simp add: empty_db_def)
    then show ?case by (simp only: backed.inv_faults)
  qed (auto intro: repo_step_backed)
qed

text \<open>
  C3. No order without its approval: in every reachable state, each TESTNET order of the OMS is
  backed by an approval that was consumed for exactly that order, agrees with it on decision, risk
  check, correlation, fingerprint, symbol, timeframe, strategy and side, and bounds its notional and
  leverage; and no two orders share an approval.
\<close>

theorem testnet_orders_backed:
  assumes "repo_reachable d" "dict_get (db_oms_orders d) k = Some r" "oo_environment r = EnvTESTNET"
  shows "(\<exists>a. dict_get (db_approvals d) (oo_approval_id r) = Some a \<and> oa_status a = ApCONSUMED \<and>
            oa_oms_order_id a = Some k \<and> oa_decision_id a = oo_decision_id r \<and>
            oa_risk_check_id a = oo_risk_check_id r \<and> oa_request_fingerprint a = oo_request_fingerprint r \<and>
            oa_correlation_id a = oo_correlation_id r \<and> oa_symbol a = oo_symbol r \<and>
            oa_timeframe a = oo_timeframe r \<and> oa_strategy a = oo_strategy r \<and> oa_side a = oo_side r \<and>
            oo_requested_notional r \<le> oa_max_notional a + tol8 \<and> oo_leverage r \<le> oa_max_leverage a + tol8) \<and>
         (\<forall>k' r'. dict_get (db_oms_orders d) k' = Some r' \<longrightarrow> oo_approval_id r' = oo_approval_id r \<longrightarrow> k' = k)"
    (is "?backed \<and> ?unique")
proof
  have b: "backed d" "db_wf d" using repo_reachable_backed [OF assms(1)] by (auto simp: backed_store_def)
  obtain a where a: "dict_get (db_approvals d) (oo_approval_id r) = Some a" "consumed_for r a"
    using b(1) assms(2) unfolding backed_def ran_def by blast
  have "oo_oms_order_id r = k" using b(2) assms(2) by (auto simp: db_wf_def orders.wf_def coherent_def)
  with a assms(3) show ?backed
    by (intro exI [of _ a]) (simp add: consumed_for_def oms_differs_from_approval_def not_less)
  show ?unique
    using unique_byD [OF _ _ assms(2)] b(2) by (auto simp: db_wf_def orders.wf_def order_clash_def)
qed

theorem testnet_orders_backed_witness:
  "\<exists>a. dict_get (db_approvals db_created) (hash64 CHR ''a'') = Some a \<and> oa_oms_order_id a = Some ''oms-1''"
  using testnet_orders_backed [OF db_created_reachable db_created_rows(2)]
  by (auto simp: sample_order_def)

text \<open>
  C4. An approval is used at most once: whatever happens after an approval has been consumed,
  revoked or expired, its row stays exactly as it is, so it can never be consumed again or for
  another order.
\<close>

theorem approval_used_once:
  assumes "repo_reachable d" "repo_step\<^sup>*\<^sup>* d d'"
    and "dict_get (db_approvals d) k = Some a" "oa_status a \<noteq> ApACTIVE"
  shows "dict_get (db_approvals d') k = Some a"
  using later_approval [OF repo_reachable_wf [OF assms(1)] assms(2,3)] assms(4)
  by (auto simp: approval_advances_def)

theorem approval_used_once_witness:
  "repo_step\<^sup>*\<^sup>* db_created db_claimed \<and>
   dict_get (db_approvals db_claimed) (hash64 CHR ''a'') =
     Some sample_consumed"
proof -
  have "repo_step\<^sup>*\<^sup>* db_created db_claimed"
    using step_claim [of db_created 2000000 "''worker''" "flt 30"] by (simp add: sample_history(3) r_into_rtranclp)
  moreover have "oa_status sample_consumed \<noteq> ApACTIVE" by (simp add: sample_consumed_def)
  ultimately show ?thesis using approval_used_once [OF db_created_reachable _ db_created_rows(1)] by blast
qed

text \<open>
  C6. A terminal order is final: once an order is filled, canceled, rejected, expired or
  quarantined, no transaction changes its row; before that its identity (approval, client id,
  symbol, side, quantity, notional, prices) never changes and its version never goes back.
\<close>

theorem terminal_orders_final:
  assumes "repo_reachable d" "repo_step\<^sup>*\<^sup>* d d'" "dict_get (db_oms_orders d) k = Some r"
  shows "\<exists>r'. dict_get (db_oms_orders d') k = Some r' \<and> same_oms_identity r r' \<and>
           oo_state_version r \<le> oo_state_version r' \<and> (terminal (oo_status r) \<longrightarrow> r' = r)"
  using later_order [OF repo_reachable_wf [OF assms(1)] assms(2,3)] unfolding order_advances_def by blast

theorem terminal_orders_final_witness:
  "dict_get (db_oms_orders (fst (claim_execution_command 9000000 ''worker'' (flt 30) db_finished))) ''oms-1'' =
     Some sample_filled"
proof -
  have "repo_step\<^sup>*\<^sup>* db_finished (fst (claim_execution_command 9000000 ''worker'' (flt 30) db_finished))"
    by (rule r_into_rtranclp) (rule step_claim)
  moreover have "terminal (oo_status sample_filled)" by (simp add: sample_filled_def)
  ultimately show ?thesis
    using terminal_orders_final [OF db_finished_reachable _ db_finished_order] by blast
qed

lemma set_risk_control_active:
  assumes "set_risk_control now True reason actor cid d = (d', Inr st)"
  shows "db_approvals d' = map (\<lambda>(k, a). (k, revoke_active a)) (db_approvals d)" "ctl_active st"
    "db_risk_control d' = Some st"
proof -
  define r where "r = (case db_risk_control d of None \<Rightarrow> initial_risk_control_state | Some r \<Rightarrow> r)"
  from assms have "\<not> ctl_active r \<and> st = r\<lparr>ctl_active := True, ctl_revision := ctl_revision r + 1,
      ctl_reason := Some reason, ctl_actor := Some actor, ctl_triggered_at := Some now, ctl_reset_at := None\<rparr> \<and>
      db_approvals d' = map (\<lambda>(k, a). (k, revoke_active a)) (db_approvals d) \<and> db_risk_control d' = Some st"
    unfolding set_risk_control_def transaction_commit Let_def by (simp flip: r_def split: if_splits) auto
  then show "db_approvals d' = map (\<lambda>(k, a). (k, revoke_active a)) (db_approvals d)" "ctl_active st"
    "db_risk_control d' = Some st" by simp_all
qed

text \<open>
  C5. The durable kill switch revokes outstanding capability for good: when activating it commits,
  no approval is ACTIVE any more, and no approval that existed then is ever ACTIVE again, or
  consumed if it was not before, through any later history, a reset of the kill switch included.
\<close>

theorem kill_switch_revokes:
  assumes "repo_reachable d" "set_risk_control now True reason actor cid d = (d1, Inr st)"
    and "repo_step\<^sup>*\<^sup>* d1 d2" "dict_get (db_approvals d) k = Some a"
  shows "\<exists>a'. dict_get (db_approvals d2) k = Some a' \<and> a' = revoke_active a \<and> oa_status a' \<noteq> ApACTIVE"
proof -
  have "repo_reachable d1"
    using repo_reachable_step [OF assms(1) step_control [of d now True reason actor cid]] assms(2) by simp
  moreover have "dict_get (db_approvals d1) k = Some (revoke_active a)"
    using set_risk_control_active(1) [OF assms(2)] assms(4) by (simp add: dict_get_map_values)
  moreover have "oa_status (revoke_active a) \<noteq> ApACTIVE" by (simp add: revoke_active_def)
  ultimately show ?thesis
    using later_approval [OF repo_reachable_wf _ , of d1 d2] assms(3) by (auto simp: approval_advances_def)
qed

theorem kill_switch_revokes_witness:
  "\<exists>a'. dict_get (db_approvals (fst (set_risk_control 2000000 True ''drift'' ''ops'' None db_approved)))
         (hash64 CHR ''a'') = Some a' \<and> oa_status a' \<noteq> ApACTIVE"
proof -
  have "dict_get (db_approvals db_approved) (hash64 CHR ''a'') = Some sample_approval" by code_simp
  moreover have "is_ok (snd (set_risk_control 2000000 True ''drift'' ''ops'' None db_approved))" by code_simp
  then obtain st where "set_risk_control 2000000 True ''drift'' ''ops'' None db_approved =
      (fst (set_risk_control 2000000 True ''drift'' ''ops'' None db_approved), Inr st)"
    by (metis is_ok_iff prod.collapse)
  ultimately show ?thesis
    using kill_switch_revokes [OF db_approved_reachable] by blast
qed

lemma find_unique:
  assumes "x \<in> set xs" "P x" "\<And>y. y \<in> set xs \<Longrightarrow> P y \<Longrightarrow> y = x"
  shows "find P xs = Some x"
proof (cases "find P xs")
  case None
  with assms(1,2) show ?thesis by (auto simp: find_None_iff)
next
  case (Some y)
  then have "y \<in> set xs" "P y" by (auto simp: find_Some_iff)
  with assms(3) Some show ?thesis by simp
qed

lemma conflicting_row:
  assumes "db_wf d" "dict_get (db_oms_orders d) (oo_oms_order_id o') = Some r" "same_oms_identity o' r"
  shows "find (oms_conflict o') (dict_values (db_oms_orders d)) = Some r"
proof (rule find_unique)
  have co: "coherent oo_oms_order_id oms_row_ok (db_oms_orders d)" "unique_by order_clash (db_oms_orders d)"
    using assms(1) by (auto simp: db_wf_def orders.wf_def)
  have ids: "oo_oms_order_id o' = oo_oms_order_id r" "oo_approval_id o' = oo_approval_id r"
      "oo_exchange o' = oo_exchange r" "oo_environment o' = oo_environment r"
      "oo_client_order_id o' = oo_client_order_id r"
    using assms(3) by (simp_all add: same_oms_identity_def)
  show "r \<in> set (dict_values (db_oms_orders d))" using assms(2) by (rule dict_get_in_values)
  show "oms_conflict o' r" by (simp add: oms_conflict_def ids)
  fix y assume y: "y \<in> set (dict_values (db_oms_orders d))" "oms_conflict o' y"
  note stored = coherent_member [OF co(1) y(1)]
  have "oo_oms_order_id y = oo_oms_order_id o'"
    using y(2) unique_byD [OF co(2) stored assms(2)] by (auto simp: oms_conflict_def order_clash_def ids)
  with stored assms(2) show "y = r" by simp
qed

lemma created_row:
  assumes "create_oms_order H now o' command consume d = (d', Inr x)" "db_wf d"
  shows "dict_get (db_oms_orders d') (oo_oms_order_id x) = Some x \<and> same_oms_identity x o' \<and> db_wf d'"
proof -
  have wf: "db_wf d'" using create_oms_order_le [of d H now o' command consume] assms db_le_wf by simp
  have body: "create_or_load H now o' command consume (d\<lparr>db_faults := tl (db_faults d)\<rparr>) = Inr (d', x)"
    using assms(1) by (simp add: create_oms_order_def transaction_commit split: if_splits)
  then show ?thesis
  proof (cases rule: create_or_load_cases)
    case existing
    then have "x \<in> set (dict_values (db_oms_orders d'))" by (auto simp: find_Some_iff)
    then show ?thesis
      using wf coherent_member existing(3) by (fastforce simp: db_wf_def orders.wf_def)
  next
    case (created stored d1 d2 d3)
    have "db_oms_orders d' = db_oms_orders d2"
      using created(7) insert_event_frame(1) [OF created(6)]
      by (cases command) (auto simp: insert_command_def split: if_splits)
    then show ?thesis
      using created(1,5) wf by (auto simp: insert_oms_order_def dict_simps split: if_splits)
  qed
qed

text \<open>
  Order creation is idempotent: repeating the call that created an order, with the same order
  with any clock, at any later time, returns the order as it is stored then (provided the database is up
  and the row still satisfies the schema) and changes no table, so a retried request never consumes
  an approval twice or queues a second submission.
\<close>


theorem create_oms_order_idempotent:
  assumes "repo_reachable d" "create_oms_order H now o' command consume d = (d1, Inr x)"
    and "repo_step\<^sup>*\<^sup>* d1 d2" "create_oms_order H now' o' command consume d2 = (d3, res)"
    and "\<not> (db_faults d2 \<noteq> [] \<and> hd (db_faults d2))"
    and "\<And>r. dict_get (db_oms_orders d2) (oo_oms_order_id x) = Some r \<Longrightarrow> valid_oms_order r"
  shows "\<exists>r. res = Inr r \<and> same_oms_identity x r \<and> oo_state_version x \<le> oo_state_version r \<and>
           dict_get (db_oms_orders d2) (oo_oms_order_id x) = Some r \<and> tables d3 = tables d2"
proof -
  have wf: "db_wf d" using assms(1) by (rule repo_reachable_wf)
  have row: "dict_get (db_oms_orders d1) (oo_oms_order_id x) = Some x" "same_oms_identity x o'" "db_wf d1"
    using created_row [OF assms(2) wf] by auto
  obtain r where r: "dict_get (db_oms_orders d2) (oo_oms_order_id x) = Some r" "order_advances x r"
    using later_order [OF row(3) assms(3) row(1)] .
  have wf2: "db_wf d2" using repo_steps_le [OF assms(3)] row(3) db_le_wf by blast
  have same: "same_oms_identity o' r" "oo_oms_order_id o' = oo_oms_order_id x"
    using row(2) r(2) by (auto simp: order_advances_def same_oms_identity_def)
  have "find (oms_conflict o') (dict_values (db_oms_orders d2)) = Some r"
    using conflicting_row [OF wf2 _ same(1)] r(1) same(2) by simp
  moreover have "same_oms_identity r o'" using same(1) by (simp add: same_oms_identity_def)
  ultimately have "create_or_load H now' o' command consume (d2\<lparr>db_faults := tl (db_faults d2)\<rparr>) =
      Inr (d2\<lparr>db_faults := tl (db_faults d2)\<rparr>, r)"
    using assms(6) [OF r(1)] by (simp add: create_or_load_def validate_ok bind_result_def)
  moreover have "\<not> (case command of None \<Rightarrow> False | Some c \<Rightarrow> xc_oms_order_id c \<noteq> oo_oms_order_id o')"
    using assms(2) by (auto simp: create_oms_order_def split: if_splits)
  ultimately have "res = Inr r \<and> d3 = d2\<lparr>db_faults := tl (db_faults d2)\<rparr>"
    using assms(4,5) by (auto simp: create_oms_order_def transaction_def Let_def)
  with r show ?thesis by (auto simp: order_advances_def tables_def)
qed

lemma sample_execution_history: "repo_step\<^sup>*\<^sup>* db_created db_finished"
  using step_claim [of db_created 2000000 "''worker''" "flt 30"]
    step_finish [of db_claimed "''cmd-1''" "''worker''" sample_filled "''SUBMITTED''" None]
  by (simp add: sample_history(3,4))

theorem create_oms_order_idempotent_witness:
  "\<exists>r. snd (create_oms_order sample_H 8000000 sample_order (Some sample_command) True db_finished) = Inr r \<and>
       oo_status r = OsFILLED"
proof -
  obtain d3 res where res: "create_oms_order sample_H 8000000 sample_order (Some sample_command) True db_finished = (d3, res)"
    by fastforce
  have "\<not> (db_faults db_finished \<noteq> [] \<and> hd (db_faults db_finished))" by code_simp
  moreover have "valid_oms_order r" if "dict_get (db_oms_orders db_finished) (oo_oms_order_id sample_order) = Some r" for r
  proof -
    have "valid_oms_order sample_filled" by code_simp
    with that db_finished_order show ?thesis by (simp add: sample_order_def)
  qed
  ultimately show ?thesis
    using create_oms_order_idempotent [OF db_approved_reachable sample_history(2) sample_execution_history res]
      db_finished_order res by (auto simp: sample_order_def sample_filled_def)
qed

end
