(* ===== verification/Audit_Service.thy ===== *)
theory Audit_Service
  imports Repository
begin

text \<open>
  The audit service, \<^verbatim>\<open>app/audit/service.py\<close>: a bounded in-memory trail with optional persistence.
  The database is shared with the other services, so it is passed along. Of a record the model
  keeps what identifies it; its random id, time and payload are left out. A record that cannot be
  persisted stays in the buffer and the call raises.
\<close>

record audit_service =
  as_repository :: bool
  as_buffer :: "audit_record list"
  as_max_buffer :: int
  as_fail_mode :: bool

definition new_audit_service :: "bool \<Rightarrow> audit_service" where
  "new_audit_service repository =
     \<lparr>as_repository = repository, as_buffer = [], as_max_buffer = 5000, as_fail_mode = False\<rparr>"

definition record_audit :: "audit_record \<Rightarrow> audit_service \<times> db \<Rightarrow> (audit_service \<times> db, unit) outcome" where
  "record_audit r s =
     (case s of (a, d) \<Rightarrow>
        if as_fail_mode a then ((a, d), raise AuditError ''Audit storage unavailable'')
        else
          let appended = as_buffer a @ [r];
              a' = a\<lparr>as_buffer := (if as_max_buffer a < int (length appended) then tl appended else appended)\<rparr>
          in if as_repository a
             then (case save_audit_log r d of
                     (d', Inl e) \<Rightarrow> ((a', d'), raise AuditError (''Audit persistence failed: '' @ exn_message e))
                   | (d', Inr _) \<Rightarrow> ((a', d'), Inr ()))
             else ((a', d), Inr ()))"

definition query_audit :: "string option \<Rightarrow> string option \<Rightarrow> int \<Rightarrow> audit_service \<Rightarrow> audit_record list" where
  "query_audit correlation_id audit_type limit a =
     slice_from (- limit)
       (filter (\<lambda>r. (\<not> truthy_id correlation_id \<or> Some (au_correlation_id r) = correlation_id) \<and>
                    (\<not> truthy_id audit_type \<or> Some (au_audit_type r) = audit_type)) (as_buffer a))"

lemma record_audit_ok:
  assumes "record_audit r (a, d) = ((a', d'), Inr u)"
  shows "\<not> as_fail_mode a" and "as_repository a \<Longrightarrow> db_audit_logs d' = db_audit_logs d @ [r]"
  using assms
  by (auto simp: record_audit_def Let_def save_audit_log_def transaction_commit
      split: if_splits prod.splits sum.splits)

lemma record_audit_bounded:
  assumes "int (length (as_buffer a)) \<le> as_max_buffer a" "0 < as_max_buffer a"
  shows "int (length (as_buffer (fst (fst (record_audit r (a, d)))))) \<le> as_max_buffer a"
  using assms by (auto simp: record_audit_def Let_def split: prod.splits sum.splits)

lemma record_audit_tables:
  assumes "record_audit r (a, d) = ((a', d'), res)"
  shows "tables (d'\<lparr>db_audit_logs := []\<rparr>) = tables (d\<lparr>db_audit_logs := []\<rparr>)"
  using assms
  by (auto simp: record_audit_def Let_def save_audit_log_def transaction_def tables_def
      split: if_splits prod.splits sum.splits)

end
