(* ===== verification/State_Machine.thy ===== *)
theory State_Machine
  imports Prelude
begin

text \<open>
  The system state machine, \<^verbatim>\<open>app/core/state_machine.py\<close>: the explicit operational state of the
  whole system, its transition table, the kill switch latch and the transition history.
  A listener is an arbitrary callable, of which only what the caller observes is kept: the
  exception it raises, if any. The invariant \<open>sm_inv\<close> says that the state is never a LIVE
  state, that the history is a chain of allowed transitions that starts at OFFLINE and ends in the
  current state, and the reachability theorems follow from it by rule induction.
\<close>

datatype system_state =
  OFFLINE | INITIALIZING | PAPER | LIVE_LOCKED | LIVE | DEGRADED | ERROR | MAINTENANCE

fun system_state_value :: "system_state \<Rightarrow> string" where
  "system_state_value OFFLINE = ''OFFLINE''"
| "system_state_value INITIALIZING = ''INITIALIZING''"
| "system_state_value PAPER = ''PAPER''"
| "system_state_value LIVE_LOCKED = ''LIVE_LOCKED''"
| "system_state_value LIVE = ''LIVE''"
| "system_state_value DEGRADED = ''DEGRADED''"
| "system_state_value ERROR = ''ERROR''"
| "system_state_value MAINTENANCE = ''MAINTENANCE''"

fun ALLOWED_TRANSITIONS :: "system_state \<Rightarrow> system_state list" where
  "ALLOWED_TRANSITIONS OFFLINE = [INITIALIZING]"
| "ALLOWED_TRANSITIONS INITIALIZING = [PAPER, ERROR]"
| "ALLOWED_TRANSITIONS PAPER = [DEGRADED, ERROR, OFFLINE]"
| "ALLOWED_TRANSITIONS DEGRADED = [PAPER, ERROR]"
| "ALLOWED_TRANSITIONS ERROR = [MAINTENANCE]"
| "ALLOWED_TRANSITIONS MAINTENANCE = [OFFLINE]"
| "ALLOWED_TRANSITIONS LIVE_LOCKED = []"
| "ALLOWED_TRANSITIONS LIVE = []"

definition PHASE_1_FORBIDDEN_TARGETS :: "system_state list" where
  "PHASE_1_FORBIDDEN_TARGETS = [LIVE, LIVE_LOCKED]"

definition OPERATIONAL_STATES :: "system_state list" where
  "OPERATIONAL_STATES = [PAPER, DEGRADED]"

record state_transition =
  st_previous :: system_state
  st_new :: system_state
  st_reason :: string
  st_actor :: string
  st_timestamp :: time
  st_correlation_id :: "string option"

type_synonym transition_listener = "state_transition \<Rightarrow> exn option"

record state_machine =
  sm_state :: system_state
  sm_kill_switch_active :: bool
  sm_kill_switch_reason :: "string option"
  sm_history :: "state_transition list"
  sm_listeners :: "transition_listener list"

definition new_state_machine :: "system_state \<Rightarrow> state_machine" where
  "new_state_machine initial =
     \<lparr>sm_state = initial, sm_kill_switch_active = False, sm_kill_switch_reason = None,
      sm_history = [], sm_listeners = []\<rparr>"

definition add_listener :: "transition_listener \<Rightarrow> state_machine \<Rightarrow> state_machine" where
  "add_listener l sm = sm\<lparr>sm_listeners := sm_listeners sm @ [l]\<rparr>"

definition can_operate :: "state_machine \<Rightarrow> bool" where
  "can_operate sm \<longleftrightarrow> sm_state sm \<in> set OPERATIONAL_STATES \<and> \<not> sm_kill_switch_active sm"

text \<open>The listeners run in registration order; the first exception ends the call.\<close>

fun notify :: "transition_listener list \<Rightarrow> state_transition \<Rightarrow> exn option" where
  "notify [] t = None"
| "notify (l # ls) t = (case l t of Some e \<Rightarrow> Some e | None \<Rightarrow> notify ls t)"

definition transition ::
  "system_state \<Rightarrow> string \<Rightarrow> string \<Rightarrow> string option \<Rightarrow> time \<Rightarrow> state_machine
     \<Rightarrow> (state_machine, state_transition) outcome" where
  "transition new_state reason actor correlation_id now sm =
     (if new_state \<in> set PHASE_1_FORBIDDEN_TARGETS then
        (sm, raise SecurityError
               (''Transition to '' @ system_state_value new_state @ '' is prohibited in Phase 1.''))
      else if new_state = sm_state sm then
        (sm, raise SystemStateError (''System already in state '' @ system_state_value new_state @ ''.''))
      else if new_state \<notin> set (ALLOWED_TRANSITIONS (sm_state sm)) then
        (sm, raise SystemStateError
               (''Transition '' @ system_state_value (sm_state sm) @ '' -> ''
                  @ system_state_value new_state @ '' is not allowed.''))
      else
        let t = \<lparr>st_previous = sm_state sm, st_new = new_state, st_reason = reason,
                 st_actor = actor, st_timestamp = now, st_correlation_id = correlation_id\<rparr>;
            sm' = sm\<lparr>sm_state := new_state, sm_history := sm_history sm @ [t]\<rparr>
        in (sm', case notify (sm_listeners sm) t of Some e \<Rightarrow> Inl e | None \<Rightarrow> Inr t))"

definition trigger_kill_switch ::
  "string \<Rightarrow> string \<Rightarrow> string option \<Rightarrow> time \<Rightarrow> state_machine
     \<Rightarrow> (state_machine, state_transition option) outcome" where
  "trigger_kill_switch reason actor correlation_id now sm =
     (let sm1 = sm\<lparr>sm_kill_switch_active := True, sm_kill_switch_reason := Some reason\<rparr>
      in if sm_state sm1 \<in> set OPERATIONAL_STATES then
           (case transition ERROR (''KILL_SWITCH_TRIGGERED: '' @ reason) actor correlation_id now sm1 of
              (sm2, Inl e) \<Rightarrow> (sm2, Inl e)
            | (sm2, Inr t) \<Rightarrow> (sm2, Inr (Some t)))
         else (sm1, Inr None))"

definition reset_kill_switch_after_maintenance :: "state_machine \<Rightarrow> (state_machine, unit) outcome" where
  "reset_kill_switch_after_maintenance sm =
     (if sm_state sm \<noteq> MAINTENANCE then
        (sm, raise SystemStateError ''Kill switch reset requires MAINTENANCE state.'')
      else (sm\<lparr>sm_kill_switch_active := False, sm_kill_switch_reason := None\<rparr>, Inr ()))"

section \<open>Runs of the machine\<close>

datatype sm_event =
    Transition system_state string string "string option" time
  | TriggerKillSwitch string string "string option" time
  | ResetKillSwitch
  | AddListener transition_listener

fun sm_step :: "sm_event \<Rightarrow> state_machine \<Rightarrow> state_machine" where
  "sm_step (Transition s r a c now) sm = fst (transition s r a c now sm)"
| "sm_step (TriggerKillSwitch r a c now) sm = fst (trigger_kill_switch r a c now sm)"
| "sm_step ResetKillSwitch sm = fst (reset_kill_switch_after_maintenance sm)"
| "sm_step (AddListener l) sm = add_listener l sm"

inductive sm_reachable :: "state_machine \<Rightarrow> bool" where
  boot: "sm_reachable (new_state_machine OFFLINE)"
| step: "sm_reachable sm \<Longrightarrow> sm_reachable (sm_step e sm)"

lemmas sm_reachable_intros [step_intros] = sm_reachable.intros

lemmas sm_defs =
  transition_def trigger_kill_switch_def reset_kill_switch_after_maintenance_def add_listener_def
  PHASE_1_FORBIDDEN_TARGETS_def OPERATIONAL_STATES_def

section \<open>Fail-safe latches\<close>

text \<open>
  A latch that only named events can clear. \<open>quiet\<close> says that no event of a run clears it in the
  state it meets; a run that is quiet keeps the latch. The interface is used for the kill switch of
  the state machine here and for the one of the risk manager.
\<close>

fun quiet :: "('e \<Rightarrow> 's \<Rightarrow> 's) \<Rightarrow> ('e \<Rightarrow> 's \<Rightarrow> bool) \<Rightarrow> 'e list \<Rightarrow> 's \<Rightarrow> bool" where
  "quiet step clears [] s \<longleftrightarrow> True"
| "quiet step clears (e # es) s \<longleftrightarrow> \<not> clears e s \<and> quiet step clears es (step e s)"

locale fail_safe_latch =
  fixes step :: "'e \<Rightarrow> 's \<Rightarrow> 's" and latched :: "'s \<Rightarrow> bool" and clears :: "'e \<Rightarrow> 's \<Rightarrow> bool"
  assumes latched_step: "latched s \<Longrightarrow> \<not> clears e s \<Longrightarrow> latched (step e s)"
begin

lemma latched_run: "latched s \<Longrightarrow> quiet step clears es s \<Longrightarrow> latched (fold step es s)"
  by (induction es arbitrary: s) (auto intro: latched_step)

lemma released_by:
  assumes "latched s" "\<not> latched (fold step es s)"
  shows "\<exists>pre e post. es = pre @ e # post \<and> latched (fold step pre s) \<and> clears e (fold step pre s)"
  using assms
proof (induction es arbitrary: s)
  case (Cons e es)
  show ?case
  proof (cases "clears e s")
    case True
    with Cons.prems(1) show ?thesis by (intro exI [of _ "[]"] exI [of _ e] exI [of _ es]) simp
  next
    case False
    have "latched (step e s)" using latched_step [OF Cons.prems(1) False] .
    from Cons.IH [OF this] Cons.prems(2) obtain pre e' post where
      "es = pre @ e' # post" "latched (fold step pre (step e s))" "clears e' (fold step pre (step e s))" by auto
    then show ?thesis by (intro exI [of _ "e # pre"] exI [of _ e'] exI [of _ post]) simp
  qed
qed simp

end

fun sm_clears :: "sm_event \<Rightarrow> state_machine \<Rightarrow> bool" where
  "sm_clears ResetKillSwitch sm \<longleftrightarrow> sm_state sm = MAINTENANCE"
| "sm_clears _ sm \<longleftrightarrow> False"

section \<open>Invariant\<close>

fun chained :: "system_state \<Rightarrow> state_transition list \<Rightarrow> system_state \<Rightarrow> bool" where
  "chained s [] s' \<longleftrightarrow> s = s'"
| "chained s (t # ts) s' \<longleftrightarrow>
     st_previous t = s \<and> st_new t \<in> set (ALLOWED_TRANSITIONS s) \<and> chained (st_new t) ts s'"

lemma chained_snoc:
  "chained s (ts @ [t]) s' \<longleftrightarrow>
     chained s ts (st_previous t) \<and> st_new t \<in> set (ALLOWED_TRANSITIONS (st_previous t)) \<and> st_new t = s'"
  by (induction ts arbitrary: s) auto

definition sm_inv :: "state_machine \<Rightarrow> bool" where
  "sm_inv sm \<longleftrightarrow> sm_state sm \<notin> set PHASE_1_FORBIDDEN_TARGETS \<and> chained OFFLINE (sm_history sm) (sm_state sm)"

lemma transition_inv: "sm_inv sm \<Longrightarrow> sm_inv (fst (transition s r a c now sm))"
  by (auto simp: sm_inv_def transition_def Let_def chained_snoc)

lemma transition_frame [simp]:
  "sm_kill_switch_active (fst (transition s r a c now sm)) = sm_kill_switch_active sm"
  "sm_kill_switch_reason (fst (transition s r a c now sm)) = sm_kill_switch_reason sm"
  "sm_listeners (fst (transition s r a c now sm)) = sm_listeners sm"
  by (auto simp: transition_def Let_def)

lemma trigger_kill_switch_inv: "sm_inv sm \<Longrightarrow> sm_inv (fst (trigger_kill_switch r a c now sm))"
  using transition_inv
    [of "sm\<lparr>sm_kill_switch_active := True, sm_kill_switch_reason := Some r\<rparr>" ERROR
        "''KILL_SWITCH_TRIGGERED: '' @ r" a c now]
  by (auto simp: trigger_kill_switch_def Let_def sm_inv_def split: prod.splits sum.splits)

lemma sm_step_inv: "sm_inv sm \<Longrightarrow> sm_inv (sm_step e sm)"
proof (cases e)
  case ResetKillSwitch
  then show "sm_inv sm \<Longrightarrow> ?thesis" by (auto simp: reset_kill_switch_after_maintenance_def sm_inv_def)
next
  case (AddListener l)
  then show "sm_inv sm \<Longrightarrow> ?thesis" by (simp add: add_listener_def sm_inv_def)
qed (simp_all add: transition_inv trigger_kill_switch_inv)

lemma reachable_sm_inv: "sm_reachable sm \<Longrightarrow> sm_inv sm"
proof (induction rule: sm_reachable.induct)
  case boot
  show ?case by (simp add: sm_inv_def new_state_machine_def PHASE_1_FORBIDDEN_TARGETS_def)
next
  case (step sm e)
  then show ?case by (simp add: sm_step_inv)
qed

lemma trigger_kill_switch_latches:
  "sm_kill_switch_active (fst (trigger_kill_switch r a c now sm))"
  by (auto simp: trigger_kill_switch_def Let_def transition_def split: prod.splits sum.splits)

lemma trigger_kill_switch_not_operational:
  "sm_state (fst (trigger_kill_switch r a c now sm)) \<notin> set OPERATIONAL_STATES"
  by (auto simp: trigger_kill_switch_def Let_def transition_def OPERATIONAL_STATES_def
      PHASE_1_FORBIDDEN_TARGETS_def split: prod.splits sum.splits)

lemma sm_step_kill_switch_cleared:
  assumes "sm_kill_switch_active sm" "\<not> sm_kill_switch_active (sm_step e sm)"
  shows "e = ResetKillSwitch \<and> sm_state sm = MAINTENANCE"
  using assms
proof (cases e)
  case (TriggerKillSwitch r a c now)
  with assms(2) show ?thesis by (simp add: trigger_kill_switch_latches)
qed (auto simp: add_listener_def reset_kill_switch_after_maintenance_def split: if_splits)

interpretation machine_latch: fail_safe_latch sm_step sm_kill_switch_active sm_clears
proof
  fix sm e
  assume "sm_kill_switch_active sm" "\<not> sm_clears e sm"
  then show "sm_kill_switch_active (sm_step e sm)"
    using sm_step_kill_switch_cleared [of sm e] by (cases e) auto
qed

text \<open>
  The kill switch of the state machine is released only in maintenance: if it is active and a run
  of events ends with it inactive, some event of the run was a reset met in state MAINTENANCE with
  the switch still active. In every reachable state the machine is never LIVE or LIVE_LOCKED and
  its history is an unbroken chain of allowed transitions from OFFLINE.
\<close>

theorem kill_switch_released_in_maintenance:
  assumes "sm_reachable sm"
  shows "sm_state sm \<noteq> LIVE \<and> sm_state sm \<noteq> LIVE_LOCKED \<and> chained OFFLINE (sm_history sm) (sm_state sm) \<and>
    (sm_kill_switch_active sm \<and> \<not> sm_kill_switch_active (fold sm_step es sm) \<longrightarrow>
     (\<exists>pre post. es = pre @ ResetKillSwitch # post \<and> sm_kill_switch_active (fold sm_step pre sm) \<and>
        sm_state (fold sm_step pre sm) = MAINTENANCE))"
proof -
  have "\<exists>pre post. es = pre @ ResetKillSwitch # post \<and> sm_kill_switch_active (fold sm_step pre sm) \<and>
        sm_state (fold sm_step pre sm) = MAINTENANCE"
    if run: "sm_kill_switch_active sm" "\<not> sm_kill_switch_active (fold sm_step es sm)"
  proof -
    obtain pre e post where "es = pre @ e # post" "sm_kill_switch_active (fold sm_step pre sm)"
        "sm_clears e (fold sm_step pre sm)"
      using machine_latch.released_by [OF run] by blast
    moreover from this(3) have "e = ResetKillSwitch \<and> sm_state (fold sm_step pre sm) = MAINTENANCE"
      by (cases e) auto
    ultimately show ?thesis by blast
  qed
  moreover have "sm_inv sm" using assms by (rule reachable_sm_inv)
  ultimately show ?thesis by (auto simp: sm_inv_def PHASE_1_FORBIDDEN_TARGETS_def)
qed

definition tripped_machine :: state_machine where
  "tripped_machine =
     fold sm_step [Transition INITIALIZING ''boot'' ''system'' None 0, Transition PAPER ''ready'' ''system'' None 1,
       TriggerKillSwitch ''drift'' ''risk'' None 2] (new_state_machine OFFLINE)"

definition recovery :: "sm_event list" where
  "recovery = [Transition MAINTENANCE ''repair'' ''operator'' None 3, ResetKillSwitch]"

lemma tripped_machine_reachable: "sm_reachable tripped_machine"
  unfolding tripped_machine_def by (simp add: sm_reachable.intros del: sm_step.simps)

theorem kill_switch_released_in_maintenance_witness:
  "\<exists>pre post. recovery = pre @ ResetKillSwitch # post \<and> sm_state (fold sm_step pre tripped_machine) = MAINTENANCE"
proof -
  have "sm_kill_switch_active tripped_machine \<and> \<not> sm_kill_switch_active (fold sm_step recovery tripped_machine)"
    by code_simp
  then show ?thesis using kill_switch_released_in_maintenance [OF tripped_machine_reachable] by blast
qed

end
