(* ===== verification/Risk_Manager.thy ===== *)
theory Risk_Manager
  imports Audit_Service State_Machine Oms_Repository
begin

text \<open>
  The central risk engine, \<^verbatim>\<open>app/risk/manager.py\<close>. The manager's record holds its own fields and the
  services it drives: the state machine, the audit service and the shared database
  (\<open>rm_repository\<close> says whether a repository was configured). \<open>H\<close> is the SHA-256 of a
  canonical JSON text, \<open>U\<close> is \<^verbatim>\<open>uuid5(NAMESPACE_URL, .)\<close>, \<open>now\<close> the clock. A call runs to
  completion before the next one starts.

  \<open>check\<close> is the whole evaluation: idempotency, the blocking gates in the order of the code,
  position sizing, the exposure caps, the concentration limit, the value-at-risk bisection and
  \<open>finalize\<close>, which mints the approval and persists the evidence.
\<close>

section \<open>State\<close>

record risk_manager =
  rm_limits :: risk_limits
  rm_sm :: state_machine
  rm_audit :: audit_service
  rm_repository :: bool
  rm_db :: db
  rm_candle_store :: "candle_store option"
  rm_initial_balance :: pyfloat
  rm_state :: risk_state
  rm_control_state :: risk_control_state
  rm_peak_equity :: pyfloat
  rm_positions :: "position_exposure dict"
  rm_checks_by_key :: "risk_check dict"
  rm_approvals :: "order_approval dict"

definition new_risk_manager ::
  "risk_limits \<Rightarrow> state_machine \<Rightarrow> audit_service \<Rightarrow> bool \<Rightarrow> db \<Rightarrow> candle_store option \<Rightarrow> pyfloat \<Rightarrow> risk_manager" where
  "new_risk_manager limits sm audit repository d candle_store initial_balance =
     \<lparr>rm_limits = limits, rm_sm = sm, rm_audit = audit, rm_repository = repository, rm_db = d,
      rm_candle_store = candle_store, rm_initial_balance = initial_balance,
      rm_state = initial_risk_state, rm_control_state = initial_risk_control_state,
      rm_peak_equity = initial_balance, rm_positions = [], rm_checks_by_key = [], rm_approvals = []\<rparr>"

definition kill_switch_active :: "risk_manager \<Rightarrow> bool" where
  "kill_switch_active rm \<longleftrightarrow>
     ctl_active (rm_control_state rm) \<or> rs_kill_switch_active (rm_state rm) \<or> sm_kill_switch_active (rm_sm rm)"

text \<open>The latch that \<^verbatim>\<open>check\<close> and the consumption of approvals read.\<close>

abbreviation latched :: "risk_manager \<Rightarrow> bool" where
  "latched rm \<equiv> sm_kill_switch_active (rm_sm rm) \<or> ctl_active (rm_control_state rm)"

definition position_snapshot_hash :: "(json \<Rightarrow> string) \<Rightarrow> position_exposure list \<Rightarrow> string" where
  "position_snapshot_hash H positions =
     H (sort_keys (JObj [(''positions'', JList (map exposure_json (sort_key pe_paper_order_id positions)))]))"

section \<open>Positions, results and equity\<close>

definition set_open_positions :: "int \<Rightarrow> risk_manager \<Rightarrow> risk_manager" where
  "set_open_positions n rm = rm\<lparr>rm_state := (rm_state rm)\<lparr>rs_open_positions := n\<rparr>\<rparr>"

definition with_positions :: "position_exposure dict \<Rightarrow> risk_manager \<Rightarrow> risk_manager" where
  "with_positions ps rm = set_open_positions (int (length ps)) (rm\<lparr>rm_positions := ps\<rparr>)"

definition sync_positions :: "position_exposure list \<Rightarrow> risk_manager \<Rightarrow> risk_manager" where
  "sync_positions positions rm = with_positions (dict_of pe_paper_order_id positions) rm"

definition position_exposures :: "risk_manager \<Rightarrow> position_exposure list" where
  "position_exposures rm = dict_values (rm_positions rm)"

definition refresh_positions :: "risk_manager \<Rightarrow> (risk_manager, unit) outcome" where
  "refresh_positions rm =
     (if \<not> rm_repository rm then (rm, Inr ())
      else case load_open_position_exposures (rm_db rm) of
             (d, Inl e) \<Rightarrow> (rm\<lparr>rm_db := d\<rparr>, Inl e)
           | (d, Inr ps) \<Rightarrow> (sync_positions ps (rm\<lparr>rm_db := d\<rparr>), Inr ()))"

definition register_position :: "paper_order \<Rightarrow> risk_manager \<Rightarrow> (risk_manager, unit) outcome" where
  "register_position order rm =
     (case paper_row_exposure order of
        Inl e \<Rightarrow> (rm, Inl e)
      | Inr p \<Rightarrow> (with_positions (dict_set (po_paper_order_id order) p (rm_positions rm)) rm, Inr ()))"

definition unregister_position :: "string \<Rightarrow> risk_manager \<Rightarrow> risk_manager" where
  "unregister_position paper_order_id rm =
     with_positions (dict_pop paper_order_id (rm_positions rm)) rm"

definition register_trade_result :: "pyfloat \<Rightarrow> risk_manager \<Rightarrow> (risk_manager, unit) outcome" where
  "register_trade_result pnl rm =
     (let s = rm_state rm;
          s1 = s\<lparr>rs_consecutive_losses := (if pnl < 0 then rs_consecutive_losses s + 1 else 0)\<rparr>
      in if rm_initial_balance rm = 0
         then (rm\<lparr>rm_state := s1\<rparr>, raise ZeroDivisionError ''float division by zero'')
         else (rm\<lparr>rm_state := s1\<lparr>rs_daily_pnl_percent :=
                  rs_daily_pnl_percent s1 + pnl / rm_initial_balance rm * flt 100\<rparr>\<rparr>, Inr ()))"

definition reset_daily :: "risk_manager \<Rightarrow> risk_manager" where
  "reset_daily rm =
     rm\<lparr>rm_state := (rm_state rm)\<lparr>rs_daily_pnl_percent := 0, rs_consecutive_losses := 0\<rparr>\<rparr>"

definition update_equity :: "pyfloat \<Rightarrow> risk_manager \<Rightarrow> risk_manager" where
  "update_equity balance rm =
     (let peak = max (rm_peak_equity rm) balance;
          rm1 = rm\<lparr>rm_peak_equity := peak\<rparr>
      in if 0 < peak
         then rm1\<lparr>rm_state := (rm_state rm1)\<lparr>rs_total_drawdown_percent :=
                    (peak - balance) / peak * flt 100\<rparr>\<rparr>
         else rm1)"

definition initialize :: "time \<Rightarrow> risk_manager \<Rightarrow> (risk_manager, unit) outcome" where
  "initialize now rm =
     (if \<not> rm_repository rm then (rm, Inr ())
      else case load_risk_control_state (rm_db rm) of
             (d, Inl e) \<Rightarrow> (rm\<lparr>rm_db := d\<rparr>, Inl e)
           | (d, Inr None) \<Rightarrow> refresh_positions (rm\<lparr>rm_db := d\<rparr>)
           | (d, Inr (Some control)) \<Rightarrow>
               let rm1 = rm\<lparr>rm_db := d, rm_control_state := control\<rparr>
               in if ctl_active control
                  then
                    let rm2 = rm1\<lparr>rm_state := (rm_state rm1)\<lparr>rs_kill_switch_active := True\<rparr>\<rparr>;
                        reason = (if truthy_id (ctl_reason control) then the (ctl_reason control)
                                  else ''Durable kill switch active'');
                        actor = (if truthy_id (ctl_actor control) then the (ctl_actor control) else ''risk-restore'')
                    in (case trigger_kill_switch reason actor None now (rm_sm rm2) of
                          (sm, Inl e) \<Rightarrow> (rm2\<lparr>rm_sm := sm\<rparr>, Inl e)
                        | (sm, Inr _) \<Rightarrow> refresh_positions (rm2\<lparr>rm_sm := sm\<rparr>))
                  else refresh_positions rm1)"

text \<open>\<^verbatim>\<open>d[k] = d.get(k, 0.0) + x\<close> over the positions, then rounded in key order.\<close>

definition totals_by :: "(position_exposure \<Rightarrow> string) \<Rightarrow> position_exposure list \<Rightarrow> pyfloat dict" where
  "totals_by key positions =
     map (\<lambda>(k, v). (k, py_round v 8))
       (sort_key fst
          (fold (\<lambda>p t. dict_set (key p)
                    ((case dict_get t (key p) of None \<Rightarrow> 0 | Some v \<Rightarrow> v) + pe_notional p) t) positions []))"

record portfolio_report =
  pr_position_count :: int
  pr_gross_exposure :: pyfloat
  pr_gross_exposure_percent :: pyfloat
  pr_net_exposure :: pyfloat
  pr_net_exposure_percent :: pyfloat
  pr_by_symbol :: "pyfloat dict"
  pr_by_strategy :: "pyfloat dict"
  pr_var :: var_result

definition portfolio_status :: "pyfloat option \<Rightarrow> risk_manager \<Rightarrow> portfolio_report result" where
  "portfolio_status balance' rm =
     (let balance = (case balance' of None \<Rightarrow> rm_initial_balance rm | Some b \<Rightarrow> b);
          positions = dict_values (rm_positions rm);
          gross = py_sum (map pe_notional positions);
          net = py_sum (map signed_notional positions)
      in bind_result (portfolio_var positions balance (rm_limits rm) (rm_candle_store rm)) (\<lambda>current_var.
           if balance = 0 then raise ZeroDivisionError ''float division by zero''
           else Inr \<lparr>pr_position_count = int (length positions), pr_gross_exposure = py_round gross 8,
                     pr_gross_exposure_percent = py_round (gross / balance * flt 100) 8,
                     pr_net_exposure = py_round net 8,
                     pr_net_exposure_percent = py_round (net / balance * flt 100) 8,
                     pr_by_symbol = totals_by pe_symbol positions,
                     pr_by_strategy = totals_by pe_strategy positions, pr_var = current_var\<rparr>))"

section \<open>The request\<close>

record risk_request =
  rq_entry_price :: pyfloat
  rq_atr :: "pyfloat option"
  rq_data_quality_score :: int
  rq_market_data_delay_ms :: int
  rq_balance :: "pyfloat option"
  rq_leverage :: "pyfloat option"
  rq_idempotency_key :: "string option"
  rq_risk_per_trade_percent :: "pyfloat option"
  rq_min_risk_reward :: "pyfloat option"
  rq_max_open_positions :: "int option"
  rq_max_strategy_exposure_percent :: "pyfloat option"
  rq_max_portfolio_var_percent :: "pyfloat option"
  rq_max_notional :: "pyfloat option"

definition or_default :: "'a option \<Rightarrow> 'a \<Rightarrow> 'a" where
  "or_default x y = (case x of None \<Rightarrow> y | Some v \<Rightarrow> v)"

text \<open>What the call works with after the defaults and the overrides, which only ever tighten a limit.\<close>

record effective =
  ef_balance :: pyfloat
  ef_leverage :: pyfloat
  ef_risk :: pyfloat
  ef_rr :: pyfloat
  ef_positions :: int
  ef_strategy_exposure :: pyfloat
  ef_var :: pyfloat

definition effective_of :: "risk_manager \<Rightarrow> risk_request \<Rightarrow> effective" where
  "effective_of rm q =
     (let l = rm_limits rm
      in \<lparr>ef_balance = or_default (rq_balance q) (rm_initial_balance rm),
          ef_leverage = or_default (rq_leverage q) (rl_default_leverage l),
          ef_risk = min (rl_risk_per_trade_percent l)
                      (or_default (rq_risk_per_trade_percent q) (rl_risk_per_trade_percent l)),
          ef_rr = max (rl_min_risk_reward l) (or_default (rq_min_risk_reward q) (rl_min_risk_reward l)),
          ef_positions = min (rl_max_open_positions l)
                           (or_default (rq_max_open_positions q) (rl_max_open_positions l)),
          ef_strategy_exposure = min (rl_max_strategy_exposure_percent l)
             (or_default (rq_max_strategy_exposure_percent q) (rl_max_strategy_exposure_percent l)),
          ef_var = min (rl_max_portfolio_var_percent l)
             (or_default (rq_max_portfolio_var_percent q) (rl_max_portfolio_var_percent l))\<rparr>)"

definition effective_limits :: "risk_manager \<Rightarrow> risk_request \<Rightarrow> (string \<times> json) list" where
  "effective_limits rm q =
     (let ef = effective_of rm q
      in [(''risk_per_trade_percent'', JFloat (ef_risk ef)), (''min_risk_reward'', JFloat (ef_rr ef)),
          (''max_open_positions'', JInt (ef_positions ef)),
          (''max_strategy_exposure_percent'', JFloat (ef_strategy_exposure ef)),
          (''max_portfolio_var_percent'', JFloat (ef_var ef)),
          (''max_leverage'', JFloat (rl_max_leverage (rm_limits rm)))]
         @ (case rq_max_notional q of None \<Rightarrow> [] | Some n \<Rightarrow> [(''portfolio_max_notional'', JFloat n)]))"

fun action_value :: "candidate_action \<Rightarrow> string" where
  "action_value ActBUY = ''BUY''"
| "action_value ActSELL = ''SELL''"
| "action_value ActHOLD = ''HOLD''"
| "action_value ActWAIT = ''WAIT''"
| "action_value ActBLOCK = ''BLOCK''"

fun risk_status_value :: "risk_status \<Rightarrow> string" where
  "risk_status_value RsPENDING = ''PENDING''"
| "risk_status_value RsAPPROVED = ''APPROVED''"
| "risk_status_value RsREDUCED = ''REDUCED''"
| "risk_status_value RsBLOCKED = ''BLOCKED''"
| "risk_status_value RsKILL_SWITCH = ''KILL_SWITCH''"

definition decision_json :: "decision \<Rightarrow> json" where
  "decision_json d =
     JObj [(''decision_id'', JStr (dec_decision_id d)), (''correlation_id'', JStr (dec_correlation_id d)),
           (''symbol'', JStr (dec_symbol d)), (''timeframe'', JStr (dec_timeframe d)),
           (''candidate_action'', JStr (action_value (dec_candidate_action d))),
           (''confidence'', JInt (dec_confidence d)), (''strategy'', JStr (dec_strategy d)),
           (''reason'', JStr (dec_reason d)), (''agent_summary'', JList (dec_agent_summary d)),
           (''warnings'', JList (map JStr (dec_warnings d))),
           (''risk_status'', JStr (risk_status_value (dec_risk_status d))),
           (''created_at'', JTime (dec_created_at d))]"

definition request_key :: "decision \<Rightarrow> risk_request \<Rightarrow> string" where
  "request_key dec q =
     strip (if truthy_id (rq_idempotency_key q) then the (rq_idempotency_key q) else dec_decision_id dec)"

definition request_fingerprint :: "(json \<Rightarrow> string) \<Rightarrow> risk_manager \<Rightarrow> decision \<Rightarrow> risk_request \<Rightarrow> string" where
  "request_fingerprint H rm dec q =
     (let ef = effective_of rm q
      in H (sort_keys (JObj
           [(''decision'', decision_json dec), (''entry_price'', JFloat (rq_entry_price q)),
            (''atr'', JOpt JFloat (rq_atr q)), (''data_quality_score'', JInt (rq_data_quality_score q)),
            (''market_data_delay_ms'', JInt (rq_market_data_delay_ms q)),
            (''balance'', JFloat (ef_balance ef)), (''leverage'', JFloat (ef_leverage ef)),
            (''effective_limits'', JObj (effective_limits rm q))])))"

definition request_evaluation_id :: "(json \<Rightarrow> string) \<Rightarrow> string \<Rightarrow> string \<Rightarrow> string" where
  "request_evaluation_id H key fingerprint =
     H (sort_keys (JObj [(''idempotency_key'', JStr key), (''request_fingerprint'', JStr fingerprint)]))"

section \<open>The gates\<close>

definition observed_position_count :: "risk_manager \<Rightarrow> int" where
  "observed_position_count rm = max (int (length (rm_positions rm))) (rs_open_positions (rm_state rm))"

definition near_position_limit :: "risk_manager \<Rightarrow> effective \<Rightarrow> bool" where
  "near_position_limit rm ef \<longleftrightarrow> observed_position_count rm = ef_positions ef - 1"

definition gate_reasons :: "risk_manager \<Rightarrow> decision \<Rightarrow> risk_request \<Rightarrow> effective \<Rightarrow> risk_reason list" where
  "gate_reasons rm dec q ef =
     (let l = rm_limits rm; s = rm_state rm; when = (\<lambda>b r. if b then [r] else [])
      in when (\<not> can_operate (rm_sm rm)) (ReasonState (system_state_value (sm_state (rm_sm rm))))
       @ when (dec_candidate_action dec \<noteq> ActBUY \<and> dec_candidate_action dec \<noteq> ActSELL)
           (ReasonAction (dec_candidate_action dec))
       @ when (rq_data_quality_score q < 60) (ReasonDataQuality (rq_data_quality_score q))
       @ when (rl_max_market_data_delay_ms l < rq_market_data_delay_ms q)
           (ReasonMarketDelay (rq_market_data_delay_ms q) (rl_max_market_data_delay_ms l))
       @ when (rs_daily_pnl_percent s \<le> - rl_max_daily_drawdown_percent l) ReasonDailyDrawdown
       @ when (rl_max_total_drawdown_percent l \<le> rs_total_drawdown_percent s) ReasonTotalDrawdown
       @ when (rl_max_consecutive_losses l \<le> rs_consecutive_losses s) ReasonConsecutiveLosses
       @ when (ef_positions ef \<le> observed_position_count rm) ReasonOpenPositions
       @ when (rl_max_leverage l < ef_leverage ef \<or> ef_leverage ef < flt 1)
           (ReasonLeverage (ef_leverage ef) (rl_max_leverage l))
       @ when (rq_max_notional q = Some 0) ReasonPortfolioCapacityZero)"

definition gate_warnings :: "risk_manager \<Rightarrow> effective \<Rightarrow> string list" where
  "gate_warnings rm ef = (if near_position_limit rm ef then [''NEAR_MAX_OPEN_POSITIONS''] else [])"

section \<open>The evaluation\<close>

record verdict =
  vd_status :: risk_status
  vd_reason :: "risk_reason list"
  vd_warnings :: "string list"
  vd_position_size :: "pyfloat option"
  vd_risk_percent :: "pyfloat option"
  vd_stop_loss :: "pyfloat option"
  vd_take_profit :: "pyfloat option"
  vd_risk_reward :: "pyfloat option"
  vd_snapshot :: "portfolio_risk_snapshot option"
  vd_var :: "var_result option"
  vd_entry_price :: "pyfloat option"
  vd_side :: "order_side option"
  vd_leverage :: "pyfloat option"

definition refusal ::
  "risk_status \<Rightarrow> risk_reason list \<Rightarrow> string list \<Rightarrow> portfolio_risk_snapshot option \<Rightarrow> var_result option \<Rightarrow> verdict" where
  "refusal status reason warnings snapshot var =
     \<lparr>vd_status = status, vd_reason = reason, vd_warnings = warnings, vd_position_size = None,
      vd_risk_percent = None, vd_stop_loss = None, vd_take_profit = None, vd_risk_reward = None,
      vd_snapshot = snapshot, vd_var = var, vd_entry_price = None, vd_side = None, vd_leverage = None\<rparr>"

definition stop_distance :: "risk_request \<Rightarrow> pyfloat" where
  "stop_distance q =
     (case rq_atr q of
        Some atr \<Rightarrow> if 0 < atr then atr * flt (3 / 2) else rq_entry_price q * flt (5 / 1000)
      | None \<Rightarrow> rq_entry_price q * flt (5 / 1000))"

definition proposed_side :: "decision \<Rightarrow> order_side" where
  "proposed_side dec = (if dec_candidate_action dec = ActBUY then BUY else SELL)"

definition stop_loss_price :: "decision \<Rightarrow> risk_request \<Rightarrow> pyfloat" where
  "stop_loss_price dec q =
     (if proposed_side dec = BUY then rq_entry_price q - stop_distance q else rq_entry_price q + stop_distance q)"

definition take_profit_price :: "decision \<Rightarrow> risk_request \<Rightarrow> effective \<Rightarrow> pyfloat" where
  "take_profit_price dec q ef =
     (let target = stop_distance q * max (flt 2) (ef_rr ef)
      in if proposed_side dec = BUY then rq_entry_price q + target else rq_entry_price q - target)"

definition unrestricted_notional :: "risk_manager \<Rightarrow> risk_request \<Rightarrow> effective \<Rightarrow> pyfloat result" where
  "unrestricted_notional rm q ef =
     (let ratio = stop_distance q / rq_entry_price q
      in if ratio = 0 then raise ZeroDivisionError ''float division by zero''
         else Inr (min (ef_balance ef * ef_risk ef / flt 100 / ratio)
                       (ef_balance ef * rl_max_single_position_percent (rm_limits rm) / flt 100)))"

record sizing =
  sz_proposed :: position_exposure
  sz_reduced :: bool
  sz_warnings :: "string list"
  sz_unrestricted :: pyfloat

definition size_position ::
  "risk_manager \<Rightarrow> decision \<Rightarrow> risk_request \<Rightarrow> effective \<Rightarrow> string \<Rightarrow> sizing result" where
  "size_position rm dec q ef evaluation_id =
     bind_result (unrestricted_notional rm q ef) (\<lambda>unrestricted.
       let portfolio_capped = (case rq_max_notional q of None \<Rightarrow> False | Some m \<Rightarrow> m + tol8 < unrestricted);
           allowed = (case rq_max_notional q of None \<Rightarrow> unrestricted | Some m \<Rightarrow> min unrestricted m);
           near = near_position_limit rm ef;
           requested = (if near then allowed * flt (1 / 2) else allowed);
           warnings = gate_warnings rm ef @ (if portfolio_capped then [''PORTFOLIO_CONSTRUCTION_CAP''] else [])
       in bind_result
            (validate valid_position_exposure
               \<lparr>pe_paper_order_id = ''proposed:'' @ evaluation_id, pe_symbol = dec_symbol dec,
                pe_timeframe = dec_timeframe dec, pe_strategy = dec_strategy dec,
                pe_side = proposed_side dec, pe_notional = requested, pe_leverage = ef_leverage ef\<rparr>) (\<lambda>proposed.
          let (capacity, binding) =
                remaining_notional_capacity (dict_values (rm_positions rm)) proposed (ef_balance ef)
                  (rm_limits rm) (ef_strategy_exposure ef);
              reduced = (portfolio_capped \<or> near \<or> capacity + tol8 < requested)
          in Inr \<lparr>sz_proposed = (if reduced then proposed\<lparr>pe_notional := capacity\<rparr> else proposed),
                  sz_reduced = reduced, sz_warnings = warnings @ (if reduced then binding else []),
                  sz_unrestricted = unrestricted\<rparr>))"

definition var_with :: "risk_manager \<Rightarrow> effective \<Rightarrow> position_exposure \<Rightarrow> pyfloat \<Rightarrow> var_result result" where
  "var_with rm ef proposed notional =
     portfolio_var (dict_values (rm_positions rm) @ [proposed\<lparr>pe_notional := notional\<rparr>]) (ef_balance ef)
       (rm_limits rm) (rm_candle_store rm)"

fun var_bisect :: "nat \<Rightarrow> (pyfloat \<Rightarrow> var_result result) \<Rightarrow> pyfloat \<Rightarrow> pyfloat \<Rightarrow> pyfloat \<Rightarrow> pyfloat result" where
  "var_bisect 0 var limit low high = Inr low"
| "var_bisect (Suc n) var limit low high =
     (let middle = (low + high) / flt 2
      in bind_result (var middle) (\<lambda>v.
           if vr_value_at_risk_percent v \<le> limit then var_bisect n var limit middle high
           else var_bisect n var limit low middle))"

definition conclude ::
  "decision \<Rightarrow> risk_request \<Rightarrow> effective \<Rightarrow> sizing \<Rightarrow> pyfloat \<Rightarrow> bool \<Rightarrow> string list
     \<Rightarrow> portfolio_risk_snapshot \<Rightarrow> var_result \<Rightarrow> verdict result" where
  "conclude dec q ef sz notional reduced warnings snapshot var =
     (let entry = rq_entry_price q; sl = stop_loss_price dec q; tp = take_profit_price dec q ef
      in if \<bar>entry - sl\<bar> = 0 then raise ZeroDivisionError ''float division by zero''
         else
           let risk_reward = \<bar>tp - entry\<bar> / \<bar>entry - sl\<bar>
           in if risk_reward < ef_rr ef - flt (1 / 10 ^ 9)
              then Inr (refusal RsBLOCKED [ReasonRiskReward risk_reward (ef_rr ef)] warnings (Some snapshot) (Some var))
              else Inr
                \<lparr>vd_status = (if reduced then RsREDUCED else RsAPPROVED),
                 vd_reason = [if reduced then ReasonReduced else ReasonWithinLimits],
                 vd_warnings = sorted_set warnings, vd_position_size = Some (py_round notional 8),
                 vd_risk_percent = Some (py_round (ef_risk ef * notional / sz_unrestricted sz) 8),
                 vd_stop_loss = Some (py_round sl 8), vd_take_profit = Some (py_round tp 8),
                 vd_risk_reward = Some (py_round risk_reward 8), vd_snapshot = Some snapshot,
                 vd_var = Some var, vd_entry_price = Some entry, vd_side = Some (proposed_side dec),
                 vd_leverage = Some (ef_leverage ef)\<rparr>)"

definition limit_var ::
  "risk_manager \<Rightarrow> decision \<Rightarrow> risk_request \<Rightarrow> effective \<Rightarrow> sizing \<Rightarrow> portfolio_risk_snapshot \<Rightarrow> verdict result" where
  "limit_var rm dec q ef sz snapshot =
     (let proposed = sz_proposed sz
      in bind_result (var_with rm ef proposed (pe_notional proposed)) (\<lambda>var.
         let warnings = sz_warnings sz @ vr_warnings var
         in if vr_value_at_risk_percent var \<le> ef_var ef
            then conclude dec q ef sz (pe_notional proposed) (sz_reduced sz) warnings snapshot var
            else
              bind_result (var_bisect 24 (var_with rm ef proposed) (ef_var ef) 0 (pe_notional proposed)) (\<lambda>low.
              if low < flt (1 / 100)
              then Inr (refusal RsBLOCKED [ReasonVaR (ef_var ef)] warnings (Some snapshot) (Some var))
              else
                bind_result (exposure_snapshot (dict_values (rm_positions rm)) (proposed\<lparr>pe_notional := low\<rparr>)
                               (ef_balance ef)) (\<lambda>snapshot'.
                bind_result (var_with rm ef proposed low) (\<lambda>var'.
                  conclude dec q ef sz low True
                    (warnings @ ''PORTFOLIO_VAR_LIMIT'' # vr_warnings var') snapshot' var')))))"

definition decide_sized ::
  "risk_manager \<Rightarrow> decision \<Rightarrow> risk_request \<Rightarrow> effective \<Rightarrow> sizing \<Rightarrow> verdict result" where
  "decide_sized rm dec q ef sz =
     (let positions = dict_values (rm_positions rm);
          max_concentration = rl_max_symbol_concentration_percent (rm_limits rm)
      in if pe_notional (sz_proposed sz) \<le> 0
         then Inr (refusal RsBLOCKED [ReasonExposureExhausted] (sz_warnings sz) None None)
         else
           bind_result (exposure_snapshot positions (sz_proposed sz) (ef_balance ef)) (\<lambda>snapshot.
           if positions \<noteq> [] \<and> max_concentration < prs_symbol_concentration_percent snapshot
           then Inr (refusal RsBLOCKED
                  [ReasonConcentration (prs_symbol_concentration_percent snapshot) max_concentration]
                  (sz_warnings sz) (Some snapshot) None)
           else limit_var rm dec q ef sz snapshot))"

definition decide :: "risk_manager \<Rightarrow> decision \<Rightarrow> risk_request \<Rightarrow> string \<Rightarrow> verdict result" where
  "decide rm dec q evaluation_id =
     (let ef = effective_of rm q; blocked = gate_reasons rm dec q ef
      in if blocked \<noteq> [] then Inr (refusal RsBLOCKED blocked (gate_warnings rm ef) None None)
         else bind_result (size_position rm dec q ef evaluation_id) (decide_sized rm dec q ef))"

section \<open>Recording the verdict\<close>

definition risk_check_id_of :: "(string \<Rightarrow> string) \<Rightarrow> string \<Rightarrow> string" where
  "risk_check_id_of U evaluation_id = U (''risk:'' @ evaluation_id)"

definition approval_id_of :: "(json \<Rightarrow> string) \<Rightarrow> string \<Rightarrow> string \<Rightarrow> string \<Rightarrow> string" where
  "approval_id_of H evaluation_id risk_check_id fingerprint =
     H (sort_keys (JObj [(''evaluation_id'', JStr evaluation_id), (''risk_check_id'', JStr risk_check_id),
                         (''fingerprint'', JStr fingerprint)]))"

definition mint_approval ::
  "(json \<Rightarrow> string) \<Rightarrow> (string \<Rightarrow> string) \<Rightarrow> time \<Rightarrow> risk_manager \<Rightarrow> decision \<Rightarrow> string \<Rightarrow> string \<Rightarrow> verdict
     \<Rightarrow> order_approval result" where
  "mint_approval H U now rm dec fingerprint evaluation_id v =
     (case (vd_side v, vd_position_size v, vd_leverage v, vd_entry_price v) of
        (Some side, Some size', Some leverage, Some entry_price) \<Rightarrow>
          validate valid_order_approval
            \<lparr>oa_approval_id = approval_id_of H evaluation_id (risk_check_id_of U evaluation_id) fingerprint,
             oa_evaluation_id = evaluation_id, oa_risk_check_id = risk_check_id_of U evaluation_id,
             oa_decision_id = dec_decision_id dec, oa_correlation_id = dec_correlation_id dec,
             oa_request_fingerprint = fingerprint,
             oa_position_snapshot_hash = position_snapshot_hash H (dict_values (rm_positions rm)),
             oa_symbol = dec_symbol dec, oa_timeframe = dec_timeframe dec, oa_strategy = dec_strategy dec,
             oa_side = side, oa_max_notional = size', oa_max_leverage = leverage,
             oa_reference_price = entry_price,
             oa_max_entry_deviation_bps = rl_max_entry_deviation_bps (rm_limits rm),
             oa_status = ApACTIVE, oa_created_at = now,
             oa_expires_at = now + rl_approval_ttl_seconds (rm_limits rm) * 1000000,
             oa_consumed_at = None, oa_paper_order_id = None, oa_oms_order_id = None\<rparr>
      | _ \<Rightarrow> raise PydanticValidationError ''validation error'')"

definition verdict_check ::
  "(string \<Rightarrow> string) \<Rightarrow> time \<Rightarrow> decision \<Rightarrow> string \<Rightarrow> string \<Rightarrow> string \<Rightarrow> (string \<times> json) list \<Rightarrow> string option
     \<Rightarrow> verdict \<Rightarrow> risk_check" where
  "verdict_check U now dec key fingerprint evaluation_id limits approval_id v =
     (let approved = approving (vd_status v)
      in \<lparr>rc_risk_check_id = risk_check_id_of U evaluation_id, rc_evaluation_id = evaluation_id,
          rc_idempotency_key = key, rc_request_fingerprint = fingerprint,
          rc_decision_id = dec_decision_id dec, rc_correlation_id = dec_correlation_id dec,
          rc_risk_status = vd_status v, rc_approved = approved, rc_position_size = vd_position_size v,
          rc_leverage = (if approved then vd_leverage v else None), rc_risk_percent = vd_risk_percent v,
          rc_stop_loss = vd_stop_loss v, rc_take_profit = vd_take_profit v,
          rc_risk_reward = vd_risk_reward v, rc_reason = vd_reason v, rc_warnings = vd_warnings v,
          rc_effective_limits = limits, rc_portfolio_snapshot = vd_snapshot v, rc_var_result = vd_var v,
          rc_approval_id = approval_id, rc_created_at = now\<rparr>)"

text \<open>The audit record first, then the durable evidence; either may fail.\<close>

definition persist_evidence ::
  "risk_check \<Rightarrow> order_approval option \<Rightarrow> risk_manager \<Rightarrow> (risk_manager, unit) outcome" where
  "persist_evidence check approval rm =
     (case record_audit \<lparr>au_correlation_id = rc_correlation_id check, au_audit_type = ''RISK_CHECK'',
             au_entity_type = ''risk_check'', au_entity_id = Some (rc_risk_check_id check)\<rparr> (rm_audit rm, rm_db rm) of
        ((a, d), Inl e) \<Rightarrow> (rm\<lparr>rm_audit := a, rm_db := d\<rparr>, Inl e)
      | ((a, d), Inr _) \<Rightarrow>
          if \<not> rm_repository rm then (rm\<lparr>rm_audit := a, rm_db := d\<rparr>, Inr ())
          else (case save_central_risk_evaluation check approval d of
                  (d', r) \<Rightarrow> (rm\<lparr>rm_audit := a, rm_db := d'\<rparr>, r)))"

definition withheld :: "exn \<Rightarrow> risk_check \<Rightarrow> risk_check" where
  "withheld e check =
     check\<lparr>rc_risk_status := RsBLOCKED, rc_approved := False, rc_approval_id := None,
           rc_reason := [if exn_class e = AuditError then ReasonAuditFailure else ReasonPersistenceFailure],
           rc_warnings := sorted_set (rc_warnings check @ [''RISK_PERSISTENCE_FAILED''])\<rparr>"

definition count_blocked :: "risk_manager \<Rightarrow> risk_manager" where
  "count_blocked rm =
     rm\<lparr>rm_state := (rm_state rm)\<lparr>rs_blocked_operations := rs_blocked_operations (rm_state rm) + 1\<rparr>\<rparr>"

definition finalize ::
  "(json \<Rightarrow> string) \<Rightarrow> (string \<Rightarrow> string) \<Rightarrow> time \<Rightarrow> decision \<Rightarrow> string \<Rightarrow> string \<Rightarrow> string \<Rightarrow> (string \<times> json) list
     \<Rightarrow> verdict \<Rightarrow> risk_manager \<Rightarrow> (risk_manager, risk_check) outcome" where
  "finalize H U now dec key fingerprint evaluation_id limits v rm =
     (case (if approving (vd_status v)
            then bind_result (mint_approval H U now rm dec fingerprint evaluation_id v) (\<lambda>a. Inr (Some a))
            else Inr None) of
        Inl e \<Rightarrow> (rm, Inl e)
      | Inr approval \<Rightarrow>
          (case validate valid_risk_check
                  (verdict_check U now dec key fingerprint evaluation_id limits
                     (map_option oa_approval_id approval) v) of
             Inl e \<Rightarrow> (rm, Inl e)
           | Inr check \<Rightarrow>
               (case persist_evidence check approval rm of
                  (rm1, Inl e) \<Rightarrow>
                    (count_blocked (rm1\<lparr>rm_checks_by_key := dict_set key (withheld e check) (rm_checks_by_key rm1)\<rparr>),
                     Inr (withheld e check))
                | (rm1, Inr _) \<Rightarrow>
                    (rm1\<lparr>rm_checks_by_key := dict_set key check (rm_checks_by_key rm1),
                         rm_approvals := (case approval of None \<Rightarrow> rm_approvals rm1
                                          | Some a \<Rightarrow> dict_set (oa_approval_id a) a (rm_approvals rm1))\<rparr>,
                     Inr check))))"

section \<open>\<open>RiskManager.check\<close>\<close>

definition check_fresh ::
  "(json \<Rightarrow> string) \<Rightarrow> (string \<Rightarrow> string) \<Rightarrow> time \<Rightarrow> decision \<Rightarrow> risk_request \<Rightarrow> risk_manager
     \<Rightarrow> (risk_manager, risk_check) outcome" where
  "check_fresh H U now dec q rm =
     (let key = request_key dec q; fingerprint = request_fingerprint H rm dec q;
          evaluation_id = request_evaluation_id H key fingerprint;
          record' = finalize H U now dec key fingerprint evaluation_id (effective_limits rm q)
      in if latched rm
         then record' (refusal RsKILL_SWITCH
                [ReasonKillSwitch (if truthy_id (sm_kill_switch_reason (rm_sm rm)) then sm_kill_switch_reason (rm_sm rm)
                                   else ctl_reason (rm_control_state rm))] [] None None) rm
         else case decide rm dec q evaluation_id of
                Inl e \<Rightarrow> (rm, Inl e)
              | Inr v \<Rightarrow> record' v (if vd_status v = RsBLOCKED then count_blocked rm else rm))"

definition check ::
  "(json \<Rightarrow> string) \<Rightarrow> (string \<Rightarrow> string) \<Rightarrow> time \<Rightarrow> decision \<Rightarrow> risk_request \<Rightarrow> risk_manager
     \<Rightarrow> (risk_manager, risk_check) outcome" where
  "check H U now dec q rm =
     (let ef = effective_of rm q; key = request_key dec q; fingerprint = request_fingerprint H rm dec q
      in if rq_entry_price q \<le> 0 \<or> ef_balance ef \<le> 0
         then (rm, raise ValidationError ''Risk evaluation requires positive price and balance'')
         else if (case rq_max_notional q of None \<Rightarrow> False | Some m \<Rightarrow> m < 0)
         then (rm, raise ValidationError ''Portfolio notional override cannot be negative'')
         else case dict_get (rm_checks_by_key rm) key of
                Some existing \<Rightarrow>
                  if rc_request_fingerprint existing \<noteq> fingerprint
                  then (rm, raise ValidationError ''Risk idempotency key reused with different input'')
                  else (rm, Inr existing)
              | None \<Rightarrow>
                  if \<not> rm_repository rm then check_fresh H U now dec q rm
                  else (case load_central_risk_evaluation_by_key key (rm_db rm) of
                          (d, Inl e) \<Rightarrow> (rm\<lparr>rm_db := d\<rparr>, Inl e)
                        | (d, Inr None) \<Rightarrow> check_fresh H U now dec q (rm\<lparr>rm_db := d\<rparr>)
                        | (d, Inr (Some (durable_check, durable_approval))) \<Rightarrow>
                            if rc_request_fingerprint durable_check \<noteq> fingerprint
                            then (rm\<lparr>rm_db := d\<rparr>, raise ValidationError ''Risk idempotency key reused with different input'')
                            else (rm\<lparr>rm_db := d,
                                     rm_checks_by_key := dict_set key durable_check (rm_checks_by_key rm),
                                     rm_approvals :=
                                       (case durable_approval of None \<Rightarrow> rm_approvals rm
                                        | Some a \<Rightarrow> dict_set (oa_approval_id a) a (rm_approvals rm))\<rparr>,
                                  Inr durable_check)))"

section \<open>Consuming approvals\<close>

definition approval_of_check :: "risk_check \<Rightarrow> risk_manager \<Rightarrow> order_approval option" where
  "approval_of_check c rm =
     dict_get (rm_approvals rm) (case rc_approval_id c of None \<Rightarrow> [] | Some i \<Rightarrow> i)"

definition deviation_bps :: "pyfloat \<Rightarrow> order_approval \<Rightarrow> pyfloat" where
  "deviation_bps price a = \<bar>price - oa_reference_price a\<bar> / oa_reference_price a * flt 10000"

text \<open>
  The common part of both consumptions, in the order of the code. The state is returned because an
  expired approval is marked EXPIRED before the call raises.
\<close>

definition authorize ::
  "(json \<Rightarrow> string) \<Rightarrow> time \<Rightarrow> decision \<Rightarrow> risk_check \<Rightarrow> order_side \<Rightarrow> pyfloat \<Rightarrow> pyfloat \<Rightarrow> pyfloat \<Rightarrow> string
     \<Rightarrow> risk_manager \<Rightarrow> (risk_manager, order_approval) outcome" where
  "authorize H now dec c side notional leverage price mismatch rm =
     (case approval_of_check c rm of
        None \<Rightarrow> (rm, raise RiskError ''Order approval is unknown or was not issued centrally'')
      | Some a \<Rightarrow>
          if dict_get (rm_checks_by_key rm) (rc_idempotency_key c) \<noteq> Some c
          then (rm, raise RiskError ''Risk check differs from immutable central evidence'')
          else if oa_status a \<noteq> ApACTIVE
          then (rm, raise RiskError (''Order approval is '' @ approval_status_value (oa_status a)))
          else if oa_position_snapshot_hash a \<noteq> position_snapshot_hash H (dict_values (rm_positions rm))
          then (rm, raise RiskError ''Order approval is stale for the current portfolio'')
          else if oa_expires_at a \<le> now
          then (rm\<lparr>rm_approvals := dict_set (oa_approval_id a) (a\<lparr>oa_status := ApEXPIRED\<rparr>) (rm_approvals rm)\<rparr>,
                raise RiskError ''Order approval expired'')
          else if \<not> (oa_decision_id a = dec_decision_id dec \<and> oa_risk_check_id a = rc_risk_check_id c \<and>
                     oa_correlation_id a = dec_correlation_id dec \<and> oa_symbol a = dec_symbol dec \<and>
                     oa_timeframe a = dec_timeframe dec \<and> oa_strategy a = dec_strategy dec \<and>
                     oa_side a = side \<and> notional \<le> oa_max_notional a + tol8 \<and>
                     leverage \<le> oa_max_leverage a + tol8) \<or>
                  oa_max_entry_deviation_bps a < deviation_bps price a
          then (rm, raise RiskError mismatch)
          else if latched rm then (rm, raise RiskError ''Kill switch prevents approval consumption'')
          else (rm, Inr a))"

definition paper_mirror :: "order_approval \<Rightarrow> paper_order \<Rightarrow> oms_order result" where
  "paper_mirror a order =
     (if po_entry_price order = 0 then raise ZeroDivisionError ''float division by zero''
      else case po_request_fingerprint order of
             None \<Rightarrow> raise PydanticValidationError ''validation error''
           | Some fingerprint \<Rightarrow>
               let opened = (case po_opened_at order of None \<Rightarrow> po_created_at order | Some t \<Rightarrow> t);
                   quantity = po_position_size order / po_entry_price order
               in validate valid_oms_order
                    \<lparr>oo_oms_order_id = po_paper_order_id order,
                     oo_client_order_id = ''paper-'' @ take 24 (oa_approval_id a),
                     oo_decision_id = po_decision_id order, oo_risk_check_id = po_risk_check_id order,
                     oo_approval_id = oa_approval_id a, oo_request_fingerprint = fingerprint,
                     oo_correlation_id = po_correlation_id order, oo_exchange = po_exchange order,
                     oo_environment = EnvPAPER, oo_symbol = po_symbol order,
                     oo_timeframe = or_unknown (po_timeframe order), oo_strategy = po_strategy order,
                     oo_side = po_side order, oo_order_type = MARKET, oo_time_in_force = IOC,
                     oo_quantity = quantity, oo_requested_notional = po_position_size order,
                     oo_leverage = po_leverage order, oo_limit_price = None,
                     oo_reference_price = po_entry_price order, oo_status = OsFILLED,
                     oo_venue_order_id = Some (po_paper_order_id order),
                     oo_cumulative_filled_quantity = quantity,
                     oo_average_fill_price = Some (po_entry_price order), oo_rejection_reason = None,
                     oo_state_version = 1, oo_created_at = po_created_at order, oo_updated_at = opened,
                     oo_submitted_at = Some opened, oo_terminal_at = Some opened\<rparr>)"

definition consume_approval ::
  "(json \<Rightarrow> string) \<Rightarrow> time \<Rightarrow> time \<Rightarrow> decision \<Rightarrow> risk_check \<Rightarrow> paper_order \<Rightarrow> pyfloat \<Rightarrow> risk_manager
     \<Rightarrow> (risk_manager, unit) outcome" where
  "consume_approval H now db_now dec c order current_price rm0 =
     bind_outcome (authorize H now dec c (po_side order) (po_position_size order) (po_leverage order) current_price
                     ''Paper order does not match its central approval'' rm0) (\<lambda>rm a.
       let consumed = a\<lparr>oa_status := ApCONSUMED, oa_consumed_at := Some now,
                        oa_paper_order_id := Some (po_paper_order_id order), oa_oms_order_id := None\<rparr>;
           keep = (\<lambda>rm. rm\<lparr>rm_approvals := dict_set (oa_approval_id a) consumed (rm_approvals rm)\<rparr>)
       in case paper_mirror a order of
            Inl e \<Rightarrow> (rm, Inl e)
          | Inr mirror \<Rightarrow>
              if \<not> rm_repository rm then (keep rm, Inr ())
              else (case consume_order_approval H db_now consumed order (Some mirror) (rm_db rm) of
                      (d, Inl e) \<Rightarrow> (rm\<lparr>rm_db := d\<rparr>, Inl e)
                    | (d, Inr _) \<Rightarrow> (keep (rm\<lparr>rm_db := d\<rparr>), Inr ())))"

text \<open>
  The reservation the manager takes for an order on its way to the venue. Building the exposure may
  raise after the durable order exists; the in-memory approval is then still ACTIVE.
\<close>

definition reserve_created :: "oms_order \<Rightarrow> risk_manager \<Rightarrow> (risk_manager, unit) outcome" where
  "reserve_created created rm =
     (let remaining = max 0 (oo_quantity created - oo_cumulative_filled_quantity created)
      in if 0 < remaining
         then (case reservation_exposure created of
                 Inl e \<Rightarrow> (rm, Inl e)
               | Inr p \<Rightarrow> (with_positions (dict_set (pe_paper_order_id p) p (rm_positions rm)) rm, Inr ()))
         else (rm, Inr ()))"

definition consume_oms_approval ::
  "(json \<Rightarrow> string) \<Rightarrow> time \<Rightarrow> time \<Rightarrow> decision \<Rightarrow> risk_check \<Rightarrow> oms_order \<Rightarrow> execution_command \<Rightarrow> risk_manager
     \<Rightarrow> (risk_manager, oms_order) outcome" where
  "consume_oms_approval H now db_now dec c order command rm0 =
     (if oo_environment order \<noteq> EnvTESTNET
      then (rm0, raise RiskError ''OMS approval consumption is TESTNET-only'')
      else
        bind_outcome (authorize H now dec c (oo_side order) (oo_requested_notional order) (oo_leverage order)
                        (oo_reference_price order) ''OMS order does not match its central approval'' rm0) (\<lambda>rm a.
        bind_outcome (if \<not> rm_repository rm then (rm, Inr order)
                      else (case create_oms_order H db_now order (Some command) True (rm_db rm) of
                              (d, r) \<Rightarrow> (rm\<lparr>rm_db := d\<rparr>, r))) (\<lambda>rm1 created.
        bind_outcome (reserve_created created rm1) (\<lambda>rm2 _.
          (rm2\<lparr>rm_approvals := dict_set (oa_approval_id a)
                 (a\<lparr>oa_status := ApCONSUMED, oa_consumed_at := Some now, oa_paper_order_id := None,
                    oa_oms_order_id := Some (oo_oms_order_id order)\<rparr>) (rm_approvals rm2)\<rparr>, Inr created)))))"

section \<open>The kill switch\<close>

definition set_control ::
  "time \<Rightarrow> bool \<Rightarrow> string \<Rightarrow> string \<Rightarrow> string option \<Rightarrow> risk_manager \<Rightarrow> (risk_manager, unit) outcome" where
  "set_control now active reason actor correlation_id rm =
     (if rm_repository rm
      then (case set_risk_control now active reason actor correlation_id (rm_db rm) of
              (d, Inl e) \<Rightarrow> (rm\<lparr>rm_db := d\<rparr>, Inl e)
            | (d, Inr control) \<Rightarrow> (rm\<lparr>rm_db := d, rm_control_state := control\<rparr>, Inr ()))
      else (rm\<lparr>rm_control_state :=
               \<lparr>ctl_active = active, ctl_revision = ctl_revision (rm_control_state rm) + 1,
                ctl_reason = Some reason, ctl_actor = Some actor,
                ctl_triggered_at = (if active then Some now else None),
                ctl_reset_at = (if active then None else Some now)\<rparr>\<rparr>, Inr ()))"

definition control_audit ::
  "string \<Rightarrow> string option \<Rightarrow> risk_manager \<Rightarrow> (risk_manager, unit) outcome" where
  "control_audit audit_type correlation_id rm =
     (case record_audit
             \<lparr>au_correlation_id = (if truthy_id correlation_id then the correlation_id
                                  else ''00000000-0000-0000-0000-000000000000''),
              au_audit_type = audit_type, au_entity_type = ''risk_control'', au_entity_id = None\<rparr>
             (rm_audit rm, rm_db rm) of
        ((a, d), r) \<Rightarrow> (rm\<lparr>rm_audit := a, rm_db := d\<rparr>, r))"

text \<open>
  The \<^verbatim>\<open>finally\<close> block: an exception of the state machine's listeners replaces the one in flight and
  skips the rest of the block.
\<close>

definition trip ::
  "string \<Rightarrow> string \<Rightarrow> string option \<Rightarrow> time \<Rightarrow> risk_manager \<Rightarrow> (risk_manager, unit) outcome" where
  "trip reason actor correlation_id now rm =
     (case trigger_kill_switch reason actor correlation_id now (rm_sm rm) of
        (sm, Inl e) \<Rightarrow> (rm\<lparr>rm_sm := sm\<rparr>, Inl e)
      | (sm, Inr _) \<Rightarrow>
          (rm\<lparr>rm_sm := sm, rm_state := (rm_state rm)\<lparr>rs_kill_switch_active := True\<rparr>,
              rm_approvals := map (\<lambda>(k, a). (k, revoke_active a)) (rm_approvals rm)\<rparr>, Inr ()))"

definition trigger_risk_kill_switch ::
  "time \<Rightarrow> string \<Rightarrow> string \<Rightarrow> string option \<Rightarrow> risk_manager \<Rightarrow> (risk_manager, unit) outcome" where
  "trigger_risk_kill_switch now reason actor correlation_id rm =
     (if strip reason = [] then (rm, raise ValidationError ''Kill switch reason is required'')
      else case set_control now True (strip reason) actor correlation_id rm of
             (rm1, r1) \<Rightarrow>
               (case trip (strip reason) actor correlation_id now rm1 of
                  (rm2, Inl e) \<Rightarrow> (rm2, Inl e)
                | (rm2, Inr _) \<Rightarrow>
                    (case r1 of
                       Inl e \<Rightarrow> (rm2, Inl e)
                     | Inr _ \<Rightarrow> control_audit ''KILL_SWITCH_TRIGGERED'' correlation_id rm2)))"

definition reset_risk_kill_switch ::
  "time \<Rightarrow> string \<Rightarrow> string \<Rightarrow> string option \<Rightarrow> risk_manager \<Rightarrow> (risk_manager, unit) outcome" where
  "reset_risk_kill_switch now reason actor correlation_id rm =
     (if sm_state (rm_sm rm) \<noteq> MAINTENANCE
      then (rm, raise SystemStateError ''Kill switch reset requires MAINTENANCE state'')
      else if strip reason = [] then (rm, raise ValidationError ''Kill switch reset reason is required'')
      else
        bind_outcome (set_control now False (strip reason) actor correlation_id rm) (\<lambda>rm1 _.
          case reset_kill_switch_after_maintenance (rm_sm rm1) of
            (sm, Inl e) \<Rightarrow> (rm1\<lparr>rm_sm := sm\<rparr>, Inl e)
          | (sm, Inr _) \<Rightarrow>
              control_audit ''KILL_SWITCH_RESET'' correlation_id
                (rm1\<lparr>rm_sm := sm, rm_state := (rm_state rm1)\<lparr>rs_kill_switch_active := False\<rparr>\<rparr>)))"

end
