(* ===== verification/Risk_Properties.thy ===== *)
theory Risk_Properties
  imports Risk_Manager Store_Properties
begin

text \<open>
  What the central risk engine guarantees. The lemmas take an approving evaluation apart stage by
  stage: no gate fired, the size respects every exposure cap, the value at risk recorded is the
  one of the approved size and within the limit, the evidence is durable. The latch of the kill
  switch is an instance of a general fail-safe latch.
\<close>

section \<open>Value at risk bisection\<close>

lemma var_bisect_range:
  assumes "var_bisect n var limit low high = Inr r" "low \<le> high"
  shows "low \<le> r \<and> r \<le> high"
  using assms
proof (induction n arbitrary: low high)
  case (Suc n)
  have mid: "low \<le> (low + high) / flt 2" "(low + high) / flt 2 \<le> high"
    using pyfloat_midpoint [OF Suc.prems(2)] by auto
  from Suc.prems(1) obtain v where
    "var_bisect n var limit ((low + high) / flt 2) high = Inr r \<or>
     var_bisect n var limit low ((low + high) / flt 2) = Inr r"
    by (auto simp: Let_def bind_result_Inr split: if_splits)
  then show ?case using Suc.IH [OF _ mid(1)] Suc.IH [OF _ mid(2)] mid by fastforce
qed simp

lemma var_bisect_within:
  assumes "var_bisect n var limit low high = Inr r"
  shows "r = low \<or> (\<exists>v. var r = Inr v \<and> vr_value_at_risk_percent v \<le> limit)"
  using assms
proof (induction n arbitrary: low high)
  case (Suc n)
  from Suc.prems obtain v where v: "var ((low + high) / flt 2) = Inr v"
    and step: "if vr_value_at_risk_percent v \<le> limit
         then var_bisect n var limit ((low + high) / flt 2) high = Inr r
         else var_bisect n var limit low ((low + high) / flt 2) = Inr r"
    by (auto simp: Let_def bind_result_Inr split: if_splits)
  show ?case
  proof (cases "vr_value_at_risk_percent v \<le> limit")
    case True
    with step have "var_bisect n var limit ((low + high) / flt 2) high = Inr r" by simp
    from Suc.IH [OF this] v True show ?thesis by auto
  next
    case False
    with step have "var_bisect n var limit low ((low + high) / flt 2) = Inr r" by simp
    from Suc.IH [OF this] show ?thesis .
  qed
qed simp

section \<open>An approving evaluation, stage by stage\<close>

lemma gate_reasons_Nil:
  "gate_reasons rm dec q ef = [] \<longleftrightarrow>
     can_operate (rm_sm rm) \<and> (dec_candidate_action dec = ActBUY \<or> dec_candidate_action dec = ActSELL) \<and>
     60 \<le> rq_data_quality_score q \<and> rq_market_data_delay_ms q \<le> rl_max_market_data_delay_ms (rm_limits rm) \<and>
     - rl_max_daily_drawdown_percent (rm_limits rm) < rs_daily_pnl_percent (rm_state rm) \<and>
     rs_total_drawdown_percent (rm_state rm) < rl_max_total_drawdown_percent (rm_limits rm) \<and>
     rs_consecutive_losses (rm_state rm) < rl_max_consecutive_losses (rm_limits rm) \<and>
     observed_position_count rm < ef_positions ef \<and>
     flt 1 \<le> ef_leverage ef \<and> ef_leverage ef \<le> rl_max_leverage (rm_limits rm) \<and> rq_max_notional q \<noteq> Some 0"
  by (auto simp: gate_reasons_def Let_def)

definition cap_of :: "risk_manager \<Rightarrow> decision \<Rightarrow> effective \<Rightarrow> (string \<times> pyfloat) list" where
  "cap_of rm dec ef =
     capacities (dict_values (rm_positions rm))
       \<lparr>pe_paper_order_id = [], pe_symbol = dec_symbol dec, pe_timeframe = dec_timeframe dec,
        pe_strategy = dec_strategy dec, pe_side = proposed_side dec, pe_notional = 0, pe_leverage = ef_leverage ef\<rparr>
       (ef_balance ef) (rm_limits rm) (ef_strategy_exposure ef)"

lemma capacities_cong:
  "pe_symbol p = pe_symbol p' \<Longrightarrow> pe_strategy p = pe_strategy p' \<Longrightarrow> pe_side p = pe_side p' \<Longrightarrow>
     capacities ps p b l s = capacities ps p' b l s"
  by (simp add: capacities_def)

lemma tol8_nonneg: "0 \<le> tol8"
  using flt_mono [of 0 "1 / 10 ^ 8"] by (simp add: tol8_def)

lemma half_le: "0 \<le> x \<Longrightarrow> x * flt (1 / 2) \<le> x"
proof -
  have "flt (1 / 2) \<le> (1 :: pyfloat)" by code_simp
  then show "0 \<le> x \<Longrightarrow> x * flt (1 / 2) \<le> x" by (rule pyfloat_mult_le_left [rotated])
qed

definition proposal_of :: "decision \<Rightarrow> effective \<Rightarrow> string \<Rightarrow> pyfloat \<Rightarrow> position_exposure" where
  "proposal_of dec ef evaluation_id n =
     \<lparr>pe_paper_order_id = ''proposed:'' @ evaluation_id, pe_symbol = dec_symbol dec, pe_timeframe = dec_timeframe dec,
      pe_strategy = dec_strategy dec, pe_side = proposed_side dec, pe_notional = n, pe_leverage = ef_leverage ef\<rparr>"

lemma size_position_bounds:
  assumes sz: "size_position rm dec q ef evaluation_id = Inr sz"
    and pos: "0 < pe_notional (sz_proposed sz)"
  defines "n \<equiv> pe_notional (sz_proposed sz)"
  shows "n \<le> ef_balance ef * rl_max_single_position_percent (rm_limits rm) / flt 100"
    and "rq_max_notional q = Some m \<Longrightarrow> n \<le> m"
    and "(name, c) \<in> set (cap_of rm dec ef) \<Longrightarrow> n \<le> max 0 c + tol8"
    and "n \<le> ef_balance ef * ef_risk ef / flt 100 / (stop_distance q / rq_entry_price q)"
    and "sz_proposed sz = proposal_of dec ef evaluation_id n"
proof -
  obtain u where u: "unrestricted_notional rm q ef = Inr u"
    using sz by (auto simp: size_position_def bind_result_Inr)
  define allowed where "allowed = (case rq_max_notional q of None \<Rightarrow> u | Some m \<Rightarrow> min u m)"
  define requested where "requested = (if near_position_limit rm ef then allowed * flt (1 / 2) else allowed)"
  define p where "p = \<lparr>pe_paper_order_id = ''proposed:'' @ evaluation_id, pe_symbol = dec_symbol dec,
                pe_timeframe = dec_timeframe dec, pe_strategy = dec_strategy dec,
                pe_side = proposed_side dec, pe_notional = requested, pe_leverage = ef_leverage ef\<rparr>"
  define capacity where "capacity = fst (remaining_notional_capacity (dict_values (rm_positions rm)) p
      (ef_balance ef) (rm_limits rm) (ef_strategy_exposure ef))"
  have valid: "0 < requested" and n: "n = capacity \<or> n = requested \<and> requested \<le> capacity + tol8"
    and proposed: "sz_proposed sz = p\<lparr>pe_notional := n\<rparr>"
  proof -
    from sz have "valid_position_exposure p" and "sz_proposed sz = p\<lparr>pe_notional := capacity\<rparr> \<or>
        sz_proposed sz = p \<and> \<not> capacity + tol8 < requested"
      unfolding size_position_def u bind_result_def sum.case Let_def case_prod_unfold
        allowed_def [symmetric] requested_def [symmetric] p_def [symmetric] validate_def
      by (auto simp: capacity_def split: if_splits)
    then show "0 < requested" "n = capacity \<or> n = requested \<and> requested \<le> capacity + tol8" "sz_proposed sz = p\<lparr>pe_notional := n\<rparr>"
      by (auto simp: n_def p_def valid_position_exposure_def)
  qed
  have "capacity \<le> requested"
    using capacity_le_proposed [of p] valid by (simp add: capacity_def p_def)
  with n have nr: "n \<le> requested" by auto
  have "requested \<le> allowed"
  proof (cases "near_position_limit rm ef")
    case True
    have "0 \<le> allowed"
    proof (rule ccontr)
      assume "\<not> 0 \<le> allowed"
      then have "allowed * flt (1 / 2) \<le> 0 * flt (1 / 2)"
        by (intro pyfloat_mult_right_mono) (auto intro: less_imp_le flt_mono [of 0 "1 / 2", simplified])
      with valid True show False by (simp add: requested_def fval_simps)
    qed
    with True show ?thesis by (simp add: requested_def half_le)
  qed (simp add: requested_def)
  with nr have na: "n \<le> allowed" by simp
  have "allowed \<le> u" by (simp add: allowed_def split: option.splits)
  moreover have "u \<le> ef_balance ef * rl_max_single_position_percent (rm_limits rm) / flt 100"
    using u by (auto simp: unrestricted_notional_def Let_def split: if_splits)
  ultimately show "n \<le> ef_balance ef * rl_max_single_position_percent (rm_limits rm) / flt 100"
    using na by simp
  have "u \<le> ef_balance ef * ef_risk ef / flt 100 / (stop_distance q / rq_entry_price q)"
    using u by (auto simp: unrestricted_notional_def Let_def split: if_splits)
  with \<open>allowed \<le> u\<close> na show "n \<le> ef_balance ef * ef_risk ef / flt 100 / (stop_distance q / rq_entry_price q)" by simp
  show "sz_proposed sz = proposal_of dec ef evaluation_id n" using proposed by (simp add: p_def proposal_of_def)
  show "n \<le> m" if "rq_max_notional q = Some m" using na that by (simp add: allowed_def)
  show "n \<le> max 0 c + tol8" if "(name, c) \<in> set (cap_of rm dec ef)"
  proof -
    have "cap_of rm dec ef = capacities (dict_values (rm_positions rm)) p (ef_balance ef) (rm_limits rm) (ef_strategy_exposure ef)"
      unfolding cap_of_def p_def by (rule capacities_cong) simp_all
    with that have "capacity \<le> max 0 c" using capacity_le_cap unfolding capacity_def by metis
    moreover have "n \<le> capacity + tol8" using n pyfloat_le_add [OF tol8_nonneg] by auto
    ultimately show ?thesis using pyfloat_add_mono [of capacity "max 0 c" tol8 tol8] by simp
  qed
qed

text \<open>An approved size \<open>n\<close>, smaller than the size proposed only when that one is over the value at risk, and the evidence recorded with it.\<close>

definition approved_size :: "risk_manager \<Rightarrow> effective \<Rightarrow> verdict \<Rightarrow> sizing \<Rightarrow> pyfloat \<Rightarrow> bool" where
  "approved_size rm ef v sz n \<longleftrightarrow>
     0 < n \<and> n \<le> pe_notional (sz_proposed sz) \<and> vd_position_size v = Some (py_round n 8) \<and>
     (n = pe_notional (sz_proposed sz) \<or>
      (\<exists>var. var_with rm ef (sz_proposed sz) (pe_notional (sz_proposed sz)) = Inr var \<and> ef_var ef < vr_value_at_risk_percent var)) \<and>
     (\<exists>var. vd_var v = Some var \<and> var_with rm ef (sz_proposed sz) n = Inr var \<and>
            vr_value_at_risk_percent var \<le> ef_var ef) \<and>
     (\<exists>snapshot. vd_snapshot v = Some snapshot \<and>
        exposure_snapshot (dict_values (rm_positions rm)) ((sz_proposed sz)\<lparr>pe_notional := n\<rparr>) (ef_balance ef)
          = Inr snapshot)"

lemma conclude_approving:
  assumes "conclude dec q ef sz n reduced w snapshot var = Inr v" "approving (vd_status v)"
  shows "vd_position_size v = Some (py_round n 8)" "vd_var v = Some var" "vd_snapshot v = Some snapshot"
    "vd_side v = Some (proposed_side dec) \<and> vd_leverage v = Some (ef_leverage ef) \<and>
     vd_entry_price v = Some (rq_entry_price q)"
  using assms by (auto simp: conclude_def Let_def refusal_def split: if_splits)

lemma refusal_not_approving [simp]: "vd_status (refusal s r w sn va) = s"
  by (simp add: refusal_def)

lemma limit_var_approving:
  assumes lv: "limit_var rm dec q ef sz snap = Inr v" and ap: "approving (vd_status v)"
    and pos: "0 < pe_notional (sz_proposed sz)"
    and snap: "exposure_snapshot (dict_values (rm_positions rm)) (sz_proposed sz) (ef_balance ef) = Inr snap"
  shows "\<exists>n. approved_size rm ef v sz n"
    and "vd_side v = Some (proposed_side dec) \<and> vd_leverage v = Some (ef_leverage ef) \<and>
     vd_entry_price v = Some (rq_entry_price q)"
proof -
  let ?p = "sz_proposed sz"
  from lv obtain var where var: "var_with rm ef ?p (pe_notional ?p) = Inr var"
    by (auto simp: limit_var_def Let_def bind_result_Inr)
  have "(\<exists>n. approved_size rm ef v sz n) \<and> vd_side v = Some (proposed_side dec) \<and>
      vd_leverage v = Some (ef_leverage ef) \<and> vd_entry_price v = Some (rq_entry_price q)"
  proof (cases "vr_value_at_risk_percent var \<le> ef_var ef")
    case True
    with lv var obtain w where c: "conclude dec q ef sz (pe_notional ?p) (sz_reduced sz) w snap var = Inr v"
      by (auto simp: limit_var_def Let_def bind_result_def)
    have "approved_size rm ef v sz (pe_notional ?p)"
      using True conclude_approving [OF c ap] pos snap var by (simp add: approved_size_def)
    then show ?thesis using conclude_approving(4) [OF c ap] by blast
  next
    case False
    with lv var obtain low where
      low: "var_bisect 24 (var_with rm ef ?p) (ef_var ef) 0 (pe_notional ?p) = Inr low"
      and rest: "(if low < flt (1 / 100)
              then Inr (refusal RsBLOCKED [ReasonVaR (ef_var ef)] (sz_warnings sz @ vr_warnings var) (Some snap) (Some var))
              else
                bind_result (exposure_snapshot (dict_values (rm_positions rm)) (?p\<lparr>pe_notional := low\<rparr>)
                               (ef_balance ef)) (\<lambda>snapshot'.
                bind_result (var_with rm ef ?p low) (\<lambda>var'.
                  conclude dec q ef sz low True
                    ((sz_warnings sz @ vr_warnings var) @ ''PORTFOLIO_VAR_LIMIT'' # vr_warnings var') snapshot' var')))
          = Inr v"
      unfolding limit_var_def Let_def by (auto simp: bind_result_Inr)
    have big: "\<not> low < flt (1 / 100)" using rest ap by auto
    with rest obtain snap' var' w where
      s': "exposure_snapshot (dict_values (rm_positions rm)) (?p\<lparr>pe_notional := low\<rparr>) (ef_balance ef) = Inr snap'"
      and v': "var_with rm ef ?p low = Inr var'" and c: "conclude dec q ef sz low True w snap' var' = Inr v"
      by (auto simp: bind_result_Inr)
    have "(0 :: pyfloat) < flt (1 / 100)" by code_simp
    with big have p0: "0 < low" by simp
    have "low \<le> pe_notional ?p" using var_bisect_range [OF low] pos by simp
    moreover have "vr_value_at_risk_percent var' \<le> ef_var ef" using var_bisect_within [OF low] p0 v' by auto
    ultimately have "approved_size rm ef v sz low"
      using conclude_approving [OF c ap] s' v' p0 var False by (auto simp: approved_size_def not_le)
    then show ?thesis using conclude_approving(4) [OF c ap] by blast
  qed
  then show "\<exists>n. approved_size rm ef v sz n"
    and "vd_side v = Some (proposed_side dec) \<and> vd_leverage v = Some (ef_leverage ef) \<and>
     vd_entry_price v = Some (rq_entry_price q)" by blast+
qed

lemma decide_approving:
  assumes d: "decide rm dec q evaluation_id = Inr v" and ap: "approving (vd_status v)"
  obtains sz n where "gate_reasons rm dec q (effective_of rm q) = []"
    "size_position rm dec q (effective_of rm q) evaluation_id = Inr sz"
    "approved_size rm (effective_of rm q) v sz n"
    "vd_side v = Some (proposed_side dec)" "vd_leverage v = Some (ef_leverage (effective_of rm q))"
    "vd_entry_price v = Some (rq_entry_price q)"
    "\<exists>snap. exposure_snapshot (dict_values (rm_positions rm)) (sz_proposed sz) (ef_balance (effective_of rm q)) = Inr snap \<and>
       (rm_positions rm \<noteq> [] \<longrightarrow>
        prs_symbol_concentration_percent snap \<le> rl_max_symbol_concentration_percent (rm_limits rm))"
proof -
  let ?ef = "effective_of rm q"
  have gates: "gate_reasons rm dec q ?ef = []"
    using d ap by (auto simp: decide_def Let_def split: if_splits)
  with d obtain sz where sz: "size_position rm dec q ?ef evaluation_id = Inr sz" "decide_sized rm dec q ?ef sz = Inr v"
    by (auto simp: decide_def Let_def bind_result_Inr)
  have pos: "0 < pe_notional (sz_proposed sz)"
    using sz(2) ap by (auto simp: decide_sized_def Let_def not_le split: if_splits)
  obtain snap where snap: "exposure_snapshot (dict_values (rm_positions rm)) (sz_proposed sz) (ef_balance ?ef) = Inr snap"
    and var: "limit_var rm dec q ?ef sz snap = Inr v"
    and "rm_positions rm \<noteq> [] \<longrightarrow> prs_symbol_concentration_percent snap \<le> rl_max_symbol_concentration_percent (rm_limits rm)"
    using sz(2) pos ap by (auto simp: decide_sized_def Let_def bind_result_Inr dict_values_def not_less split: if_splits)
  with limit_var_approving [OF var ap pos snap] gates sz(1) that show thesis by blast
qed

section \<open>From the evaluation to the recorded check\<close>

lemma db_irrelevant [simp]:
  "effective_of (rm\<lparr>rm_db := d\<rparr>) = effective_of rm"
  "effective_limits (rm\<lparr>rm_db := d\<rparr>) = effective_limits rm"
  "request_fingerprint H (rm\<lparr>rm_db := d\<rparr>) = request_fingerprint H rm"
  "gate_reasons (rm\<lparr>rm_db := d\<rparr>) = gate_reasons rm"
  "gate_warnings (rm\<lparr>rm_db := d\<rparr>) = gate_warnings rm"
  "near_position_limit (rm\<lparr>rm_db := d\<rparr>) = near_position_limit rm"
  "unrestricted_notional (rm\<lparr>rm_db := d\<rparr>) = unrestricted_notional rm"
  "var_with (rm\<lparr>rm_db := d\<rparr>) = var_with rm"
  by (simp_all add: fun_eq_iff effective_of_def effective_limits_def request_fingerprint_def gate_reasons_def
      gate_warnings_def near_position_limit_def observed_position_count_def unrestricted_notional_def var_with_def Let_def cong: if_cong)

lemma decide_db [simp]: "decide (rm\<lparr>rm_db := d\<rparr>) = decide rm"
proof -
  have "size_position (rm\<lparr>rm_db := d\<rparr>) = size_position rm" by (simp add: fun_eq_iff size_position_def Let_def cong: if_cong)
  moreover have "limit_var (rm\<lparr>rm_db := d\<rparr>) = limit_var rm" by (simp add: fun_eq_iff limit_var_def Let_def cong: if_cong)
  then have "decide_sized (rm\<lparr>rm_db := d\<rparr>) = decide_sized rm" by (simp add: fun_eq_iff decide_sized_def Let_def cong: if_cong)
  ultimately show ?thesis by (intro ext) (simp add: decide_def Let_def cong: if_cong)
qed

lemma finalize_approved:
  assumes "finalize H U now dec key fp eid limits v rm = (rm', Inr c)" "rc_approved c"
  obtains a rm1 where "approving (vd_status v)" "mint_approval H U now rm dec fp eid v = Inr a"
    "c = verdict_check U now dec key fp eid limits (Some (oa_approval_id a)) v"
    "persist_evidence c (Some a) rm = (rm1, Inr ())"
    "rm' = rm1\<lparr>rm_checks_by_key := dict_set key c (rm_checks_by_key rm1),
              rm_approvals := dict_set (oa_approval_id a) a (rm_approvals rm1)\<rparr>"
  using assms
  by (auto simp: finalize_def verdict_check_def withheld_def Let_def bind_result_def validate_def
      split: sum.splits prod.splits if_splits option.splits)

definition fresh_request :: "decision \<Rightarrow> risk_request \<Rightarrow> risk_manager \<Rightarrow> bool" where
  "fresh_request dec q rm \<longleftrightarrow>
     dict_get (rm_checks_by_key rm) (request_key dec q) = None \<and>
     (rm_repository rm \<longrightarrow>
        (\<forall>c \<in> set (db_evaluations (rm_db rm)). rc_idempotency_key c \<noteq> request_key dec q))"

lemma load_evaluation_fresh:
  assumes "\<forall>c \<in> set (db_evaluations d). rc_idempotency_key c \<noteq> key"
    and "load_central_risk_evaluation_by_key key d = (d', Inr r)"
  shows "r = None \<and> d' = d\<lparr>db_faults := tl (db_faults d)\<rparr>"
proof -
  have "find (\<lambda>c. rc_idempotency_key c = key) (db_evaluations d) = None" using assms(1) by (simp add: find_None_iff)
  with assms(2) show ?thesis by (simp add: load_central_risk_evaluation_by_key_def transaction_commit)
qed

lemma check_is_fresh:
  assumes "check H U now dec q rm = (rm', Inr c)" "fresh_request dec q rm"
  obtains fs where "check_fresh H U now dec q (rm\<lparr>rm_db := (rm_db rm)\<lparr>db_faults := fs\<rparr>\<rparr>) = (rm', Inr c)"
    and "\<not> (case rq_max_notional q of None \<Rightarrow> False | Some m \<Rightarrow> m < 0)"
proof (cases "rm_repository rm")
  case True
  obtain d r where l: "load_central_risk_evaluation_by_key (request_key dec q) (rm_db rm) = (d, r)" by fastforce
  show thesis
  proof (cases r)
    case (Inl e)
    with True l assms show ?thesis by (simp add: check_def fresh_request_def Let_def split: if_splits)
  next
    case (Inr x)
    with l True assms(2) have "x = None \<and> d = (rm_db rm)\<lparr>db_faults := tl (db_faults (rm_db rm))\<rparr>"
      using load_evaluation_fresh by (auto simp: fresh_request_def)
    with True l Inr assms that show ?thesis by (simp add: check_def fresh_request_def Let_def split: if_splits)
  qed
next
  case False
  have "rm\<lparr>rm_db := (rm_db rm)\<lparr>db_faults := db_faults (rm_db rm)\<rparr>\<rparr> = rm" by simp
  with False assms that [of "db_faults (rm_db rm)"] show ?thesis
    by (simp add: check_def fresh_request_def Let_def split: if_splits)
qed

lemma check_fresh_approved:
  assumes "check_fresh H U now dec q rm = (rm', Inr c)" "rc_approved c"
  obtains v where "\<not> latched rm"
    "decide rm dec q (request_evaluation_id H (request_key dec q) (request_fingerprint H rm dec q)) = Inr v"
    "finalize H U now dec (request_key dec q) (request_fingerprint H rm dec q)
       (request_evaluation_id H (request_key dec q) (request_fingerprint H rm dec q)) (effective_limits rm q) v rm
     = (rm', Inr c)"
    "approving (vd_status v)"
proof -
  have nl: "\<not> latched rm"
  proof
    assume "latched rm"
    then obtain r where "finalize H U now dec (request_key dec q) (request_fingerprint H rm dec q)
       (request_evaluation_id H (request_key dec q) (request_fingerprint H rm dec q)) (effective_limits rm q)
       (refusal RsKILL_SWITCH r [] None None) rm = (rm', Inr c)"
      using assms(1) by (auto simp: check_fresh_def Let_def)
    from finalize_approved [OF this assms(2)] show False by auto
  qed
  with assms(1) obtain v where v:
    "decide rm dec q (request_evaluation_id H (request_key dec q) (request_fingerprint H rm dec q)) = Inr v"
    and f: "finalize H U now dec (request_key dec q) (request_fingerprint H rm dec q)
       (request_evaluation_id H (request_key dec q) (request_fingerprint H rm dec q)) (effective_limits rm q) v
       (if vd_status v = RsBLOCKED then count_blocked rm else rm) = (rm', Inr c)"
    by (auto simp: check_fresh_def Let_def split: sum.splits)
  have "approving (vd_status v)" using finalize_approved [OF f assms(2)] by blast
  moreover from this have "vd_status v \<noteq> RsBLOCKED" by auto
  ultimately show thesis using that nl v f by simp
qed

section \<open>A concrete manager\<close>

definition sample_sm :: state_machine where
  "sample_sm = (new_state_machine PAPER)"

definition sample_rm :: risk_manager where
  "sample_rm =
     new_risk_manager default_risk_limits sample_sm (new_audit_service True) True empty_db None (flt 10000)"

definition sample_U :: "string \<Rightarrow> string" where
  "sample_U s = ''uuid''"

definition sample_decision :: decision where
  "sample_decision =
     \<lparr>dec_decision_id = ''dec-1'', dec_correlation_id = ''corr-1'', dec_symbol = ''BTCUSDT'',
      dec_timeframe = ''1m'', dec_candidate_action = ActBUY, dec_confidence = 80, dec_strategy = ''TREND'',
      dec_reason = [], dec_agent_summary = [], dec_warnings = [], dec_risk_status = RsPENDING, dec_created_at = 0\<rparr>"

definition sample_request :: risk_request where
  "sample_request =
     \<lparr>rq_entry_price = flt 1536, rq_atr = Some (flt 64), rq_data_quality_score = 90,
      rq_market_data_delay_ms = 100, rq_balance = None, rq_leverage = None, rq_idempotency_key = None,
      rq_risk_per_trade_percent = None, rq_min_risk_reward = None, rq_max_open_positions = None,
      rq_max_strategy_exposure_percent = None, rq_max_portfolio_var_percent = None, rq_max_notional = None\<rparr>"

definition sample_checked :: risk_manager where
  "sample_checked = fst (check sample_H sample_U 0 sample_decision sample_request sample_rm)"

definition sample_result :: risk_check where
  "sample_result =
     (case snd (check sample_H sample_U 0 sample_decision sample_request sample_rm) of
        Inr c \<Rightarrow> c | Inl _ \<Rightarrow> sample_check)"

lemma sample_fresh: "fresh_request sample_decision sample_request sample_rm"
  by code_simp

lemma sample_evaluation:
  "case snd (check sample_H sample_U 0 sample_decision sample_request sample_rm) of
     Inl _ \<Rightarrow> False | Inr c \<Rightarrow> rc_risk_status c = RsAPPROVED \<and> rc_approved c"
  by code_simp

lemma sample_checked:
  "check sample_H sample_U 0 sample_decision sample_request sample_rm = (sample_checked, Inr sample_result)"
  using sample_evaluation unfolding sample_checked_def sample_result_def
  by (auto simp: prod_eq_iff split: sum.splits)

lemma sample_approved: "rc_risk_status sample_result = RsAPPROVED" "rc_approved sample_result"
  using sample_evaluation by (simp_all add: sample_checked)

section \<open>Properties of an evaluation\<close>

text \<open>
  C7. The gates hold: a fresh evaluation approves only if no kill switch is latched, the system may
  operate, the action is BUY or SELL, the data quality is at least 60 and the data fresh enough,
  neither drawdown limit nor the loss limit is reached, there is a free position slot under the
  effective limit, and the leverage is between 1 and the maximum.
\<close>

theorem approval_requires_gates:
  assumes "check H U now dec q rm = (rm', Inr c)" "fresh_request dec q rm" "rc_approved c"
  shows "\<not> latched rm \<and> can_operate (rm_sm rm) \<and>
     (dec_candidate_action dec = ActBUY \<or> dec_candidate_action dec = ActSELL) \<and>
     60 \<le> rq_data_quality_score q \<and> rq_market_data_delay_ms q \<le> rl_max_market_data_delay_ms (rm_limits rm) \<and>
     - rl_max_daily_drawdown_percent (rm_limits rm) < rs_daily_pnl_percent (rm_state rm) \<and>
     rs_total_drawdown_percent (rm_state rm) < rl_max_total_drawdown_percent (rm_limits rm) \<and>
     rs_consecutive_losses (rm_state rm) < rl_max_consecutive_losses (rm_limits rm) \<and>
     observed_position_count rm < min (rl_max_open_positions (rm_limits rm))
       (or_default (rq_max_open_positions q) (rl_max_open_positions (rm_limits rm))) \<and>
     flt 1 \<le> ef_leverage (effective_of rm q) \<and>
     ef_leverage (effective_of rm q) \<le> rl_max_leverage (rm_limits rm)"
proof -
  obtain fs where f: "check_fresh H U now dec q (rm\<lparr>rm_db := (rm_db rm)\<lparr>db_faults := fs\<rparr>\<rparr>) = (rm', Inr c)"
    using check_is_fresh [OF assms(1,2)] .
  obtain v where v: "\<not> latched rm"
    "decide rm dec q (request_evaluation_id H (request_key dec q) (request_fingerprint H rm dec q)) = Inr v"
    "approving (vd_status v)"
    using check_fresh_approved [OF f assms(3)] by simp metis
  have "gate_reasons rm dec q (effective_of rm q) = []" using decide_approving [OF v(2,3)] by metis
  moreover have "ef_positions (effective_of rm q) = min (rl_max_open_positions (rm_limits rm))
       (or_default (rq_max_open_positions q) (rl_max_open_positions (rm_limits rm)))"
    by (simp add: effective_of_def Let_def)
  ultimately show ?thesis using v(1) unfolding gate_reasons_Nil by simp
qed

theorem approval_requires_gates_witness:
  "rc_approved sample_result \<and> can_operate (rm_sm sample_rm)"
  using approval_requires_gates [OF sample_checked sample_fresh] sample_approved by blast

text \<open>
  C8. An approved size respects every limit. The recorded position size is the 8-decimal rounding of a positive
  notional \<open>n\<close>. It is at most the notional at which the stop loses the risk per trade, at most the single position
  limit and at most the caller's cap. It is within one hundred-millionth of what the gross, net, symbol and strategy
  limits leave beside the open positions (of zero where one is already exceeded); the net limit leaves its amount less
  the net exposure for a purchase and plus it for a sale. With positions open, the share of the symbol in the exposure
  that results from the sized notional, of which \<open>n\<close> is a part only when it is over the value at risk, is within the
  concentration limit. The value at risk recorded is that of the open positions with this very proposal of notional \<open>n\<close>,
  and is within the effective limit.
\<close>

theorem approved_size_within_limits:
  assumes "check H U now dec q rm = (rm', Inr c)" "fresh_request dec q rm" "rc_approved c"
  defines "l \<equiv> rm_limits rm" and "ps \<equiv> dict_values (rm_positions rm)"
    and "balance \<equiv> or_default (rq_balance q) (rm_initial_balance rm)"
    and "risk \<equiv> min (rl_risk_per_trade_percent (rm_limits rm))
       (or_default (rq_risk_per_trade_percent q) (rl_risk_per_trade_percent (rm_limits rm)))"
    and "strategy_limit \<equiv> min (rl_max_strategy_exposure_percent (rm_limits rm))
       (or_default (rq_max_strategy_exposure_percent q) (rl_max_strategy_exposure_percent (rm_limits rm)))"
    and "var_limit \<equiv> min (rl_max_portfolio_var_percent (rm_limits rm))
       (or_default (rq_max_portfolio_var_percent q) (rl_max_portfolio_var_percent (rm_limits rm)))"
    and "stop \<equiv> (case rq_atr q of Some atr \<Rightarrow> if 0 < atr then atr * flt (3 / 2) else rq_entry_price q * flt (5 / 1000)
       | None \<Rightarrow> rq_entry_price q * flt (5 / 1000))"
    and "gross \<equiv> py_sum (map pe_notional (dict_values (rm_positions rm)))"
    and "net \<equiv> py_sum (map (\<lambda>p. if pe_side p = BUY then pe_notional p else - pe_notional p) (dict_values (rm_positions rm)))"
    and "symbol \<equiv> py_sum (map pe_notional (filter (\<lambda>p. pe_symbol p = dec_symbol dec) (dict_values (rm_positions rm))))"
    and "strategy \<equiv> py_sum (map pe_notional (filter (\<lambda>p. pe_strategy p = dec_strategy dec) (dict_values (rm_positions rm))))"
    and "proposal \<equiv> \<lambda>n. \<lparr>pe_paper_order_id =
         ''proposed:'' @ request_evaluation_id H (request_key dec q) (request_fingerprint H rm dec q),
       pe_symbol = dec_symbol dec, pe_timeframe = dec_timeframe dec, pe_strategy = dec_strategy dec,
       pe_side = (if dec_candidate_action dec = ActBUY then BUY else SELL), pe_notional = n,
       pe_leverage = or_default (rq_leverage q) (rl_default_leverage (rm_limits rm))\<rparr>"
  shows "\<exists>n sized var. rc_position_size c = Some (py_round n 8) \<and> 0 < n \<and> n \<le> sized \<and>
     sized \<le> balance * risk / flt 100 / (stop / rq_entry_price q) \<and>
     sized \<le> balance * rl_max_single_position_percent l / flt 100 \<and>
     (\<forall>m. rq_max_notional q = Some m \<longrightarrow> sized \<le> m) \<and>
     sized \<le> max 0 (balance * rl_max_gross_exposure_percent l / flt 100 - gross) + tol8 \<and>
     sized \<le> max 0 (if dec_candidate_action dec = ActBUY then balance * rl_max_net_exposure_percent l / flt 100 - net
                   else balance * rl_max_net_exposure_percent l / flt 100 + net) + tol8 \<and>
     sized \<le> max 0 (balance * rl_max_symbol_exposure_percent l / flt 100 - symbol) + tol8 \<and>
     sized \<le> max 0 (balance * strategy_limit / flt 100 - strategy) + tol8 \<and>
     (ps \<noteq> [] \<longrightarrow> py_round (if gross + sized = 0 then 0 else (symbol + sized) / (gross + sized) * flt 100) 8
        \<le> rl_max_symbol_concentration_percent l) \<and>
     (n = sized \<or> (\<exists>over. portfolio_var (ps @ [proposal sized]) balance l (rm_candle_store rm) = Inr over \<and>
        var_limit < vr_value_at_risk_percent over)) \<and>
     rc_var_result c = Some var \<and> portfolio_var (ps @ [proposal n]) balance l (rm_candle_store rm) = Inr var \<and>
     vr_value_at_risk_percent var \<le> var_limit"
proof -
  let ?ef = "effective_of rm q" and ?eid = "request_evaluation_id H (request_key dec q) (request_fingerprint H rm dec q)"
  obtain fs where f: "check_fresh H U now dec q (rm\<lparr>rm_db := (rm_db rm)\<lparr>db_faults := fs\<rparr>\<rparr>) = (rm', Inr c)"
    using check_is_fresh [OF assms(1,2)] .
  obtain v lim key fp where v: "decide rm dec q ?eid = Inr v" "approving (vd_status v)"
    and fin: "finalize H U now dec key fp ?eid lim v (rm\<lparr>rm_db := (rm_db rm)\<lparr>db_faults := fs\<rparr>\<rparr>) = (rm', Inr c)"
    using check_fresh_approved [OF f assms(3)] by simp metis
  obtain aid where c: "c = verdict_check U now dec key fp ?eid lim aid v"
    using finalize_approved [OF fin assms(3)] by metis
  obtain sz n snap where sz: "size_position rm dec q ?ef ?eid = Inr sz" and n: "approved_size rm ?ef v sz n"
    and snap: "exposure_snapshot ps (sz_proposed sz) (ef_balance ?ef) = Inr snap"
    and conc: "rm_positions rm \<noteq> [] \<longrightarrow> prs_symbol_concentration_percent snap \<le> rl_max_symbol_concentration_percent l"
    using decide_approving [OF v] unfolding ps_def l_def by metis
  define sized where "sized = pe_notional (sz_proposed sz)"
  have np: "0 < n" "n \<le> sized" "vd_position_size v = Some (py_round n 8)"
    using n by (auto simp: approved_size_def sized_def)
  have sp: "0 < pe_notional (sz_proposed sz)" using np by (simp add: sized_def)
  note bounds = size_position_bounds [OF sz sp, folded sized_def]
  have ef: "ef_balance ?ef = balance" "ef_risk ?ef = risk" "ef_strategy_exposure ?ef = strategy_limit" "ef_var ?ef = var_limit"
    "ef_leverage ?ef = or_default (rq_leverage q) (rl_default_leverage (rm_limits rm))"
    by (simp_all add: effective_of_def Let_def balance_def risk_def strategy_limit_def var_limit_def)
  have stop: "stop_distance q = stop" by (simp add: stop_distance_def stop_def split: option.split)
  have proposed: "sz_proposed sz = proposal sized" using bounds(5) ef by (simp add: proposal_of_def proposal_def proposed_side_def)
  have var_with: "var_with rm ?ef (sz_proposed sz) k = portfolio_var (ps @ [proposal k]) balance l (rm_candle_store rm)" for k
    by (simp add: var_with_def proposed ef ps_def l_def) (simp add: proposal_def)
  obtain var where var: "vd_var v = Some var" "portfolio_var (ps @ [proposal n]) balance l (rm_candle_store rm) = Inr var"
      "vr_value_at_risk_percent var \<le> var_limit"
    using n by (auto simp: approved_size_def var_with ef)
  have over: "n = sized \<or> (\<exists>over. portfolio_var (ps @ [proposal sized]) balance l (rm_candle_store rm) = Inr over \<and>
        var_limit < vr_value_at_risk_percent over)"
    using n by (auto simp: approved_size_def var_with ef sized_def)
  have share: "prs_symbol_concentration_percent snap =
      py_round (if gross + sized = 0 then 0 else (symbol + sized) / (gross + sized) * flt 100) 8"
    using snap by (auto simp: exposure_snapshot_def Let_def validate_def proposed proposal_def gross_def symbol_def ps_def split: if_splits)
  have side: "(0 < (if proposed_side dec = BUY then flt 1 else flt (- 1))) = (dec_candidate_action dec = ActBUY)"
  proof -
    have "0 < flt 1" "\<not> 0 < flt (- 1)" by code_simp+
    then show ?thesis by (simp add: proposed_side_def)
  qed
  have caps: "set (cap_of rm dec ?ef) =
      {(''GROSS_EXPOSURE_LIMIT'', balance * rl_max_gross_exposure_percent l / flt 100 - gross),
       (''NET_EXPOSURE_LIMIT'', if dec_candidate_action dec = ActBUY then balance * rl_max_net_exposure_percent l / flt 100 - net
          else balance * rl_max_net_exposure_percent l / flt 100 + net),
       (''SYMBOL_EXPOSURE_LIMIT'', balance * rl_max_symbol_exposure_percent l / flt 100 - symbol),
       (''STRATEGY_EXPOSURE_LIMIT'', balance * strategy_limit / flt 100 - strategy),
       (''SINGLE_POSITION_LIMIT'', balance * rl_max_single_position_percent l / flt 100)}"
    unfolding cap_of_def capacities_def Let_def ef position_exposure.simps side signed_notional_def
    by (simp add: gross_def net_def symbol_def strategy_def l_def)
  have recorded: "rc_position_size c = Some (py_round n 8)" "rc_var_result c = Some var"
    using c np(3) var(1) by (simp_all add: verdict_check_def Let_def)
  have concentration: "ps \<noteq> [] \<longrightarrow>
      py_round (if gross + sized = 0 then 0 else (symbol + sized) / (gross + sized) * flt 100) 8 \<le> rl_max_symbol_concentration_percent l"
    using conc share by (simp add: ps_def dict_values_def)
  have exposure1: "sized \<le> max 0 (balance * rl_max_gross_exposure_percent l / flt 100 - gross) + tol8"
    by (rule bounds(3) [of "''GROSS_EXPOSURE_LIMIT''"]) (simp_all add: caps)
  have exposure2: "sized \<le> max 0 (if dec_candidate_action dec = ActBUY then balance * rl_max_net_exposure_percent l / flt 100 - net
       else balance * rl_max_net_exposure_percent l / flt 100 + net) + tol8"
    by (rule bounds(3) [of "''NET_EXPOSURE_LIMIT''"]) (simp_all add: caps)
  have exposure3: "sized \<le> max 0 (balance * rl_max_symbol_exposure_percent l / flt 100 - symbol) + tol8"
    by (rule bounds(3) [of "''SYMBOL_EXPOSURE_LIMIT''"]) (simp_all add: caps)
  have exposure4: "sized \<le> max 0 (balance * strategy_limit / flt 100 - strategy) + tol8"
    by (rule bounds(3) [of "''STRATEGY_EXPOSURE_LIMIT''"]) (simp_all add: caps)
  have caller: "\<forall>m. rq_max_notional q = Some m \<longrightarrow> sized \<le> m" using bounds(2) by blast
  show ?thesis
    by (intro exI conjI, rule recorded(1), rule np(1), rule np(2), rule bounds(4) [unfolded ef stop],
        rule bounds(1) [unfolded ef, folded l_def], rule caller, rule exposure1, rule exposure2, rule exposure3,
        rule exposure4, rule concentration, rule over, rule recorded(2), rule var(2), rule var(3))
qed

theorem approved_size_within_limits_witness:
  "\<exists>n. rc_position_size sample_result = Some (py_round n 8) \<and> 0 < n \<and>
     n \<le> flt 10000 * rl_max_single_position_percent default_risk_limits / flt 100"
proof -
  have "rq_balance sample_request = None" "rm_initial_balance sample_rm = flt 10000" "rm_limits sample_rm = default_risk_limits"
    by (simp_all add: sample_request_def sample_rm_def new_risk_manager_def)
  then show ?thesis
    using approved_size_within_limits [OF sample_checked sample_fresh sample_approved(2)]
    by (auto simp: or_default_def intro: order_trans)
qed

section \<open>Evidence before capability\<close>

lemma save_evaluation_commit:
  assumes "save_central_risk_evaluation c (Some a) d = (d', Inr u)"
    and "\<forall>e \<in> set (db_evaluations d). rc_idempotency_key e \<noteq> rc_idempotency_key c"
  shows "c \<in> set (db_evaluations d') \<and> dict_get (db_approvals d') (oa_approval_id a) = Some a"
proof (cases "find (\<lambda>e. rc_evaluation_id e = rc_evaluation_id c) (db_evaluations d)")
  case (Some e)
  then have "e \<in> set (db_evaluations d)" by (auto simp: find_Some_iff)
  with assms(2) have "rc_idempotency_key e \<noteq> rc_idempotency_key c" by blast
  with Some assms(1) show ?thesis by (simp add: save_central_risk_evaluation_def transaction_commit)
next
  case None
  with assms(1) have "insert_approval a (d\<lparr>db_faults := tl (db_faults d),
      db_evaluations := db_evaluations d @ [c], db_risk_checks := db_risk_checks d @ [c]\<rparr>) = Inr d'"
    by (simp add: save_central_risk_evaluation_def transaction_commit Let_def bind_result_Inr split: if_splits)
  then show ?thesis by (auto simp: insert_approval_def dict_simps split: if_splits)
qed

lemma record_audit_evaluations:
  assumes "record_audit r (a, d) = ((a', d'), res)"
  shows "db_evaluations d' = db_evaluations d"
  using assms
  by (auto simp: record_audit_def Let_def save_audit_log_def transaction_def split: if_splits prod.splits sum.splits)

lemma persist_evidence_durable:
  assumes "persist_evidence c (Some a) rm = (rm', Inr u)" "rm_repository rm"
    and "\<forall>e \<in> set (db_evaluations (rm_db rm)). rc_idempotency_key e \<noteq> rc_idempotency_key c"
  shows "c \<in> set (db_evaluations (rm_db rm')) \<and> dict_get (db_approvals (rm_db rm')) (oa_approval_id a) = Some a"
proof -
  define r where "r = \<lparr>au_correlation_id = rc_correlation_id c, au_audit_type = ''RISK_CHECK'',
      au_entity_type = ''risk_check'', au_entity_id = Some (rc_risk_check_id c)\<rparr>"
  obtain au d res where ra: "record_audit r (rm_audit rm, rm_db rm) = ((au, d), res)" by (metis prod.collapse)
  from ra assms(1,2) obtain d' where s: "save_central_risk_evaluation c (Some a) d = (d', Inr u)" "rm_db rm' = d'"
    unfolding persist_evidence_def r_def [symmetric]
    by (auto split: sum.splits prod.splits)
  show ?thesis
    using save_evaluation_commit [OF s(1)] s(2) assms(3) record_audit_evaluations [OF ra] by simp
qed

lemma persist_evidence_frame:
  assumes "persist_evidence c a rm = (rm', r)"
  shows "rm_approvals rm' = rm_approvals rm" "rm_checks_by_key rm' = rm_checks_by_key rm"
    "rm_limits rm' = rm_limits rm" "rm_initial_balance rm' = rm_initial_balance rm" "rm_sm rm' = rm_sm rm"
    "rm_control_state rm' = rm_control_state rm" "rm_positions rm' = rm_positions rm"
    "rm_repository rm' = rm_repository rm"
  using assms by (auto simp: persist_evidence_def split: sum.splits prod.splits if_splits)

text \<open>
  C11. No capability without evidence: when a fresh evaluation returns an approved check and a
  repository is configured, the check and its ACTIVE approval are already in the database, and the
  approval in memory is that same approval, bound to the decision, the portfolio it was computed
  for, the approved size and leverage, and expiring after the configured time to live. Any audit
  or database failure therefore yields a blocked check.
\<close>

theorem approval_is_durable:
  assumes "check H U now dec q rm = (rm', Inr c)" "fresh_request dec q rm" "rc_approved c" "rm_repository rm"
  shows "\<exists>a. rc_approval_id c = Some (oa_approval_id a) \<and> c \<in> set (db_evaluations (rm_db rm')) \<and>
     dict_get (db_approvals (rm_db rm')) (oa_approval_id a) = Some a \<and>
     dict_get (rm_approvals rm') (oa_approval_id a) = Some a \<and>
     dict_get (rm_checks_by_key rm') (rc_idempotency_key c) = Some c \<and>
     oa_status a = ApACTIVE \<and> oa_decision_id a = dec_decision_id dec \<and> oa_risk_check_id a = rc_risk_check_id c \<and>
     oa_position_snapshot_hash a = position_snapshot_hash H (dict_values (rm_positions rm)) \<and>
     rc_position_size c = Some (oa_max_notional a) \<and> rc_leverage c = Some (oa_max_leverage a) \<and>
     oa_expires_at a = now + rl_approval_ttl_seconds (rm_limits rm) * 1000000"
proof -
  obtain fs where f: "check_fresh H U now dec q (rm\<lparr>rm_db := (rm_db rm)\<lparr>db_faults := fs\<rparr>\<rparr>) = (rm', Inr c)"
    using check_is_fresh [OF assms(1,2)] .
  let ?rm = "rm\<lparr>rm_db := (rm_db rm)\<lparr>db_faults := fs\<rparr>\<rparr>"
  obtain v lim fp eid where ap: "approving (vd_status v)"
    and fin: "finalize H U now dec (request_key dec q) fp eid lim v ?rm = (rm', Inr c)"
    using check_fresh_approved [OF f assms(3)] by metis
  obtain a rm1 where m: "mint_approval H U now ?rm dec fp eid v = Inr a"
    and c: "c = verdict_check U now dec (request_key dec q) fp eid lim (Some (oa_approval_id a)) v"
    and p: "persist_evidence c (Some a) ?rm = (rm1, Inr ())"
    and rm': "rm' = rm1\<lparr>rm_checks_by_key := dict_set (request_key dec q) c (rm_checks_by_key rm1),
              rm_approvals := dict_set (oa_approval_id a) a (rm_approvals rm1)\<rparr>"
    using finalize_approved [OF fin assms(3)] .
  have key: "rc_idempotency_key c = request_key dec q" "rc_approval_id c = Some (oa_approval_id a)"
    by (simp_all add: c verdict_check_def Let_def)
  have "c \<in> set (db_evaluations (rm_db rm1)) \<and> dict_get (db_approvals (rm_db rm1)) (oa_approval_id a) = Some a"
    using persist_evidence_durable [OF p] assms(2,4) key(1) by (simp add: fresh_request_def)
  moreover have "oa_status a = ApACTIVE \<and> oa_decision_id a = dec_decision_id dec \<and>
      oa_risk_check_id a = risk_check_id_of U eid \<and>
      oa_position_snapshot_hash a = position_snapshot_hash H (dict_values (rm_positions rm)) \<and>
      vd_position_size v = Some (oa_max_notional a) \<and> vd_leverage v = Some (oa_max_leverage a) \<and>
      oa_expires_at a = now + rl_approval_ttl_seconds (rm_limits rm) * 1000000"
    using m by (auto simp: mint_approval_def split: option.splits)
  moreover from this have "rc_position_size c = Some (oa_max_notional a)" "rc_leverage c = Some (oa_max_leverage a)"
      "rc_risk_check_id c = risk_check_id_of U eid"
    using ap by (simp_all add: c verdict_check_def Let_def)
  ultimately show ?thesis using key rm' by (intro exI [of _ a]) (simp add: dict_simps)
qed

theorem approval_is_durable_witness:
  "\<exists>a. dict_get (db_approvals (rm_db sample_checked)) (oa_approval_id a) = Some a \<and> oa_status a = ApACTIVE"
proof -
  have "rm_repository sample_rm" by (simp add: sample_rm_def new_risk_manager_def)
  then show ?thesis using approval_is_durable [OF sample_checked sample_fresh sample_approved(2)] by blast
qed

section \<open>Idempotence\<close>

lemma finalize_cases:
  assumes "finalize H U now dec key fp eid limits v rm = (rm', Inr c)"
  obtains (lost) approval check' rm1 e where
      "check' = verdict_check U now dec key fp eid limits (map_option oa_approval_id approval) v"
      "persist_evidence check' approval rm = (rm1, Inl e)" "c = withheld e check'"
      "rm' = count_blocked (rm1\<lparr>rm_checks_by_key := dict_set key (withheld e check') (rm_checks_by_key rm1)\<rparr>)"
  | (kept) approval rm1 where
      "c = verdict_check U now dec key fp eid limits (map_option oa_approval_id approval) v"
      "persist_evidence c approval rm = (rm1, Inr ())"
      "rm' = rm1\<lparr>rm_checks_by_key := dict_set key c (rm_checks_by_key rm1),
                rm_approvals := (case approval of None \<Rightarrow> rm_approvals rm1
                                 | Some a \<Rightarrow> dict_set (oa_approval_id a) a (rm_approvals rm1))\<rparr>"
proof -
  define ap where "ap = (if approving (vd_status v)
            then bind_result (mint_approval H U now rm dec fp eid v) (\<lambda>a. Inr (Some a)) else Inr None)"
  from assms obtain approval where ap: "ap = Inr approval"
    unfolding finalize_def ap_def [symmetric] by (cases ap) auto
  let ?c = "verdict_check U now dec key fp eid limits (map_option oa_approval_id approval) v"
  obtain rm1 r where p: "persist_evidence ?c approval rm = (rm1, r)" by fastforce
  show thesis
  proof (cases r)
    case (Inl e)
    with assms ap p lost [of ?c approval rm1 e] show ?thesis
      unfolding finalize_def ap_def [symmetric] by (auto simp: validate_def split: if_splits)
  next
    case (Inr u)
    with assms ap p kept [of approval rm1] show ?thesis
      unfolding finalize_def ap_def [symmetric] by (auto simp: validate_def split: if_splits)
  qed
qed

lemma finalize_cached:
  assumes "finalize H U now dec key fp eid limits v rm = (rm', Inr c)"
  shows "dict_get (rm_checks_by_key rm') key = Some c \<and> rc_request_fingerprint c = fp \<and>
     rm_limits rm' = rm_limits rm \<and> rm_initial_balance rm' = rm_initial_balance rm"
  using assms
proof (cases rule: finalize_cases)
  case (lost approval check' rm1 e)
  then show ?thesis using persist_evidence_frame [OF lost(2)]
    by (simp add: dict_simps withheld_def count_blocked_def verdict_check_def Let_def)
next
  case (kept approval rm1)
  then show ?thesis using persist_evidence_frame [OF kept(2)]
    by (simp add: dict_simps verdict_check_def Let_def)
qed

text \<open>
  Evaluation is idempotent: once a request has been answered, repeating it returns the same
  check and leaves the whole state unchanged, at any later clock reading; reusing its key for a
  request with another fingerprint is refused.
\<close>

theorem check_idempotent:
  assumes "check H U now dec q rm = (rm', Inr c)"
  shows "check H U now' dec q rm' = (rm', Inr c) \<and>
     (request_key dec' q' = request_key dec q \<longrightarrow>
      request_fingerprint H rm' dec' q' \<noteq> request_fingerprint H rm dec q \<longrightarrow>
      (\<exists>e. check H U now' dec' q' rm' = (rm', Inl e) \<and> exn_class e = ValidationError))"
proof -
  have cached: "dict_get (rm_checks_by_key rm') (request_key dec q) = Some c \<and>
      rc_request_fingerprint c = request_fingerprint H rm dec q \<and>
      rm_limits rm' = rm_limits rm \<and> rm_initial_balance rm' = rm_initial_balance rm"
  proof -
    have fresh: "dict_get (rm_checks_by_key rm') (request_key dec q) = Some c \<and>
      rc_request_fingerprint c = request_fingerprint H rm dec q \<and>
      rm_limits rm' = rm_limits rm \<and> rm_initial_balance rm' = rm_initial_balance rm"
      if "check_fresh H U now dec q (rm\<lparr>rm_db := d\<rparr>) = (rm', Inr c)" for d
    proof -
      from that obtain lim eid v rm0 where
        "finalize H U now dec (request_key dec q) (request_fingerprint H rm dec q) eid lim v rm0 = (rm', Inr c)"
        and "rm_limits rm0 = rm_limits rm" "rm_initial_balance rm0 = rm_initial_balance rm"
        by (auto simp: check_fresh_def Let_def count_blocked_def split: if_splits sum.splits)
      then show ?thesis using finalize_cached by metis
    qed
    have "rm\<lparr>rm_db := rm_db rm\<rparr> = rm" by simp
    with assms fresh [of "rm_db rm"] fresh show ?thesis
      unfolding check_def Let_def
      by (auto simp: dict_simps split: if_splits option.splits prod.splits sum.splits)
  qed
  then have "effective_of rm' = effective_of rm" by (simp add: effective_of_def fun_eq_iff)
  moreover from this have "request_fingerprint H rm' dec q = request_fingerprint H rm dec q"
    using cached by (simp add: request_fingerprint_def effective_limits_def)
  moreover have "0 < rq_entry_price q" "0 < ef_balance (effective_of rm q)"
      "\<not> (case rq_max_notional q of None \<Rightarrow> False | Some m \<Rightarrow> m < 0)"
    using assms by (auto simp: check_def Let_def not_le split: if_splits)
  ultimately show ?thesis using cached by (auto simp: check_def Let_def)
qed

theorem check_idempotent_witness:
  "check sample_H sample_U 5 sample_decision sample_request sample_checked = (sample_checked, Inr sample_result)"
  using check_idempotent [OF sample_checked] by blast

end
