(* ===== verification/Risk_Latch.thy ===== *)
theory Risk_Latch
  imports Risk_Properties
begin

text \<open>
  Runs of the risk manager: every operation of the class, and any event of the state machine it
  shares with the rest of the system, as one step function. The kill switch is a fail-safe latch of
  these runs, and while it is latched nothing can be approved or consumed.
\<close>

section \<open>Runs\<close>

datatype rm_event =
    RmCheck time decision risk_request
  | RmConsume time time decision risk_check paper_order pyfloat
  | RmConsumeOms time time decision risk_check oms_order execution_command
  | RmTrigger time string string "string option"
  | RmReset time string string "string option"
  | RmInitialize time
  | RmRefresh
  | RmSync "position_exposure list"
  | RmRegister paper_order
  | RmUnregister string
  | RmTradeResult pyfloat
  | RmResetDaily
  | RmEquity pyfloat
  | RmMachine sm_event

fun rm_step :: "(json \<Rightarrow> string) \<Rightarrow> (string \<Rightarrow> string) \<Rightarrow> rm_event \<Rightarrow> risk_manager \<Rightarrow> risk_manager" where
  "rm_step H U (RmCheck now dec q) rm = fst (check H U now dec q rm)"
| "rm_step H U (RmConsume now now' dec c order p) rm = fst (consume_approval H now now' dec c order p rm)"
| "rm_step H U (RmConsumeOms now now' dec c order cmd) rm = fst (consume_oms_approval H now now' dec c order cmd rm)"
| "rm_step H U (RmTrigger now reason actor cid) rm = fst (trigger_risk_kill_switch now reason actor cid rm)"
| "rm_step H U (RmReset now reason actor cid) rm = fst (reset_risk_kill_switch now reason actor cid rm)"
| "rm_step H U (RmInitialize now) rm = fst (initialize now rm)"
| "rm_step H U RmRefresh rm = fst (refresh_positions rm)"
| "rm_step H U (RmSync ps) rm = sync_positions ps rm"
| "rm_step H U (RmRegister order) rm = fst (register_position order rm)"
| "rm_step H U (RmUnregister i) rm = unregister_position i rm"
| "rm_step H U (RmTradeResult pnl) rm = fst (register_trade_result pnl rm)"
| "rm_step H U RmResetDaily rm = reset_daily rm"
| "rm_step H U (RmEquity balance) rm = update_equity balance rm"
| "rm_step H U (RmMachine e) rm = rm\<lparr>rm_sm := sm_step e (rm_sm rm)\<rparr>"

fun rm_clears :: "rm_event \<Rightarrow> risk_manager \<Rightarrow> bool" where
  "rm_clears (RmReset now reason actor cid) rm \<longleftrightarrow> sm_state (rm_sm rm) = MAINTENANCE"
| "rm_clears (RmMachine e) rm \<longleftrightarrow> sm_clears e (rm_sm rm)"
| "rm_clears _ rm \<longleftrightarrow> False"

section \<open>What each operation does to the state machine\<close>

lemma finalize_sm: "rm_sm (fst (finalize H U now dec key fp eid limits v rm)) = rm_sm rm"
proof -
  have "rm_sm (fst (finalize H U now dec key fp eid limits v rm)) = rm_sm rm"
    if "finalize H U now dec key fp eid limits v rm = (rm', Inr c)" for rm' c
    using that
  proof (cases rule: finalize_cases)
    case (lost approval check' rm1 e)
    with that show ?thesis using persist_evidence_frame(5) [OF lost(2)] by (simp add: count_blocked_def)
  next
    case (kept approval rm1)
    with that show ?thesis using persist_evidence_frame(5) [OF kept(2)] by simp
  qed
  moreover have "rm' = rm" if "finalize H U now dec key fp eid limits v rm = (rm', Inl e)" for rm' e
    using that by (auto simp: finalize_def split: sum.splits prod.splits)
  ultimately show ?thesis
    by (cases "finalize H U now dec key fp eid limits v rm") (metis fst_conv sum.exhaust)
qed

lemma check_fresh_sm: "rm_sm (fst (check_fresh H U now dec q rm)) = rm_sm rm"
  by (simp add: check_fresh_def Let_def finalize_sm count_blocked_def split: sum.splits)

lemma check_sm: "rm_sm (fst (check H U now dec q rm)) = rm_sm rm"
proof -
  have "rm_sm (fst (check_fresh H U now dec q (rm\<lparr>rm_db := d\<rparr>))) = rm_sm rm" for d
    by (simp add: check_fresh_sm)
  then show ?thesis
    unfolding check_def Let_def by (auto simp: check_fresh_sm split: option.splits prod.splits sum.splits)
qed

lemma authorize_frame:
  "rm_sm (fst (authorize H now dec c side n l p m rm)) = rm_sm rm"
  "rm_db (fst (authorize H now dec c side n l p m rm)) = rm_db rm"
  "rm_repository (fst (authorize H now dec c side n l p m rm)) = rm_repository rm"
  by (auto simp: authorize_def split: option.splits)

lemma authorize_ok:
  assumes "authorize H now dec c side n l p m rm = (rm', Inr a)"
  shows "rm' = rm" "approval_of_check c rm = Some a" "oa_status a = ApACTIVE" "now < oa_expires_at a"
    "\<not> latched rm" "n \<le> oa_max_notional a + tol8" "l \<le> oa_max_leverage a + tol8" "oa_side a = side"
    "oa_position_snapshot_hash a = position_snapshot_hash H (dict_values (rm_positions rm))"
    "dict_get (rm_checks_by_key rm) (rc_idempotency_key c) = Some c" "oa_risk_check_id a = rc_risk_check_id c"
    "oa_decision_id a = dec_decision_id dec" "oa_symbol a = dec_symbol dec"
    "deviation_bps p a \<le> oa_max_entry_deviation_bps a"
  using assms by (auto simp: authorize_def not_less not_le split: option.splits if_splits)

lemma consume_approval_sm: "rm_sm (fst (consume_approval H now now' dec c order p rm)) = rm_sm rm"
proof -
  obtain rm1 r where a: "authorize H now dec c (po_side order) (po_position_size order) (po_leverage order) p
      ''Paper order does not match its central approval'' rm = (rm1, r)" by fastforce
  have "rm_sm rm1 = rm_sm rm" using authorize_frame(1) a by (metis fst_conv)
  with a show ?thesis
    unfolding consume_approval_def by (auto simp: bind_outcome_def Let_def split: sum.splits prod.splits)
qed

lemma with_positions_sm [simp]: "rm_sm (with_positions ps rm) = rm_sm rm"
  by (simp add: with_positions_def set_open_positions_def)

lemma reserve_created_sm: "rm_sm (fst (reserve_created o' rm)) = rm_sm rm"
  by (auto simp: reserve_created_def Let_def split: sum.splits)

lemma consume_oms_approval_sm: "rm_sm (fst (consume_oms_approval H now now' dec c order cmd rm)) = rm_sm rm"
proof -
  obtain rm1 r where a: "authorize H now dec c (oo_side order) (oo_requested_notional order) (oo_leverage order)
      (oo_reference_price order) ''OMS order does not match its central approval'' rm = (rm1, r)" by fastforce
  have 1: "rm_sm rm1 = rm_sm rm" using authorize_frame(1) a by (metis fst_conv)
  have 2: "rm_sm rm2 = rm_sm rm'" if "reserve_created o' rm' = (rm2, r)" for o' rm' rm2 r
    using reserve_created_sm [of o' rm'] that by simp
  show ?thesis
    unfolding consume_oms_approval_def a
    by (auto simp: bind_outcome_def 1 split: sum.splits prod.splits if_splits dest!: 2)
qed

lemma refresh_positions_sm [simp]: "rm_sm (fst (refresh_positions rm)) = rm_sm rm"
  by (auto simp: refresh_positions_def sync_positions_def split: prod.splits sum.splits)

lemma initialize_latched:
  assumes "sm_kill_switch_active (rm_sm rm)"
  shows "sm_kill_switch_active (rm_sm (fst (initialize now rm)))"
proof (cases "rm_repository rm")
  case True
  obtain d r where l: "load_risk_control_state (rm_db rm) = (d, r)" by fastforce
  have t: "sm_kill_switch_active sm" if "trigger_kill_switch r a c now (rm_sm rm) = (sm, x)" for r a c sm x
    using trigger_kill_switch_latches [of r a c now "rm_sm rm"] that by simp
  show ?thesis
  proof (cases r)
    case (Inl e)
    with True l assms show ?thesis by (simp add: initialize_def)
  next
    case (Inr control)
    show ?thesis
    proof (cases control)
      case None
      with True l Inr assms show ?thesis by (simp add: initialize_def)
    next
      case (Some ctl)
      with True l Inr assms show ?thesis
        by (simp add: initialize_def Let_def split: prod.split sum.split) (blast intro: t)
    qed
  qed
qed (use assms in \<open>simp add: initialize_def\<close>)

lemma set_control_sm: "rm_sm (fst (set_control now active reason actor cid rm)) = rm_sm rm"
  by (auto simp: set_control_def split: prod.splits sum.splits)

lemma control_audit_sm: "rm_sm (fst (control_audit t cid rm)) = rm_sm rm"
  by (auto simp: control_audit_def split: prod.splits)

lemma trip_latches: "sm_kill_switch_active (rm_sm (fst (trip reason actor cid now rm)))"
  using trigger_kill_switch_latches [of reason actor cid now "rm_sm rm"]
  by (auto simp: trip_def split: prod.splits sum.splits)

lemma trigger_latches:
  assumes "strip reason \<noteq> []"
  shows "sm_kill_switch_active (rm_sm (fst (trigger_risk_kill_switch now reason actor cid rm)))"
proof -
  obtain rm1 r1 where 1: "set_control now True (strip reason) actor cid rm = (rm1, r1)" by fastforce
  obtain rm2 r2 where 2: "trip (strip reason) actor cid now rm1 = (rm2, r2)" by fastforce
  have "sm_kill_switch_active (rm_sm rm2)" using trip_latches [of "strip reason" actor cid now rm1] 2 by simp
  with assms 1 2 show ?thesis
    by (auto simp: trigger_risk_kill_switch_def control_audit_sm split: sum.splits)
qed

lemma trigger_keeps_latch:
  "sm_kill_switch_active (rm_sm rm) \<Longrightarrow>
     sm_kill_switch_active (rm_sm (fst (trigger_risk_kill_switch now reason actor cid rm)))"
  by (cases "strip reason = []") (simp_all add: trigger_latches, simp add: trigger_risk_kill_switch_def)

interpretation risk_latch: fail_safe_latch "rm_step H U" "\<lambda>rm. sm_kill_switch_active (rm_sm rm)" rm_clears
  for H :: "json \<Rightarrow> string" and U :: "string \<Rightarrow> string"
proof
  fix rm e
  assume l: "sm_kill_switch_active (rm_sm rm)" "\<not> rm_clears e rm"
  show "sm_kill_switch_active (rm_sm (rm_step H U e rm))"
  proof (cases e)
    case (RmMachine x)
    with l show ?thesis using machine_latch.latched_step [of "rm_sm rm" x] by simp
  qed (use l in \<open>simp_all add: check_sm consume_approval_sm consume_oms_approval_sm trigger_keeps_latch
        initialize_latched reset_risk_kill_switch_def sync_positions_def register_position_def
        unregister_position_def register_trade_result_def reset_daily_def update_equity_def Let_def
        split: sum.splits\<close>)
qed

section \<open>While the kill switch is latched\<close>

lemma latched_authorize:
  "latched rm \<Longrightarrow> \<exists>e. snd (authorize H now dec c side n l p m rm) = Inl e"
  by (auto simp: authorize_def split: option.splits)

lemma latched_consume:
  assumes "latched rm"
  shows "\<exists>e. snd (consume_approval H now now' dec c order p rm) = Inl e"
    and "rm_db (fst (consume_approval H now now' dec c order p rm)) = rm_db rm"
proof -
  obtain rm1 r where a: "authorize H now dec c (po_side order) (po_position_size order) (po_leverage order) p
      ''Paper order does not match its central approval'' rm = (rm1, r)" by fastforce
  moreover obtain e where "r = Inl e" using latched_authorize [OF assms] a by (metis snd_conv)
  moreover have "rm_db rm1 = rm_db rm" using authorize_frame(2) a by (metis fst_conv)
  ultimately show "\<exists>e. snd (consume_approval H now now' dec c order p rm) = Inl e"
    and "rm_db (fst (consume_approval H now now' dec c order p rm)) = rm_db rm"
    by (simp_all add: consume_approval_def bind_outcome_def)
qed

lemma latched_consume_oms:
  assumes "latched rm"
  shows "\<exists>e. snd (consume_oms_approval H now now' dec c order cmd rm) = Inl e"
    and "rm_db (fst (consume_oms_approval H now now' dec c order cmd rm)) = rm_db rm"
proof -
  obtain rm1 r where a: "authorize H now dec c (oo_side order) (oo_requested_notional order) (oo_leverage order)
      (oo_reference_price order) ''OMS order does not match its central approval'' rm = (rm1, r)" by fastforce
  moreover obtain e where "r = Inl e" using latched_authorize [OF assms] a by (metis snd_conv)
  moreover have "rm_db rm1 = rm_db rm" using authorize_frame(2) a by (metis fst_conv)
  ultimately show "\<exists>e. snd (consume_oms_approval H now now' dec c order cmd rm) = Inl e"
    and "rm_db (fst (consume_oms_approval H now now' dec c order cmd rm)) = rm_db rm"
    by (simp_all add: consume_oms_approval_def bind_outcome_def)
qed

lemma latched_check:
  assumes "latched rm" "check H U now dec q rm = (rm', Inr c)" "fresh_request dec q rm"
  shows "\<not> rc_approved c"
proof
  assume ap: "rc_approved c"
  obtain fs where f: "check_fresh H U now dec q (rm\<lparr>rm_db := (rm_db rm)\<lparr>db_faults := fs\<rparr>\<rparr>) = (rm', Inr c)"
    using check_is_fresh [OF assms(2,3)] .
  obtain v where "\<not> latched (rm\<lparr>rm_db := (rm_db rm)\<lparr>db_faults := fs\<rparr>\<rparr>)"
    using check_fresh_approved [OF f ap] by metis
  with assms(1) show False by simp
qed

text \<open>
  C9. The kill switch stops trading until maintenance: after it is triggered with a non-blank reason,
  even if the database is down and the call raises, and through any further run in which nobody
  resets it in MAINTENANCE, the system may not operate, no fresh evaluation is approved, and no
  PAPER or TESTNET order can consume an approval or reach the database.
\<close>

theorem kill_switch_stops_trading:
  assumes "strip reason \<noteq> []" "trigger_risk_kill_switch now reason actor cid rm0 = (rm1, res)"
    and "quiet (rm_step H U) rm_clears es rm1"
  defines "rm \<equiv> fold (rm_step H U) es rm1"
  shows "\<not> can_operate (rm_sm rm) \<and>
    (\<forall>t dec q rm' c. check H U t dec q rm = (rm', Inr c) \<longrightarrow> fresh_request dec q rm \<longrightarrow> \<not> rc_approved c) \<and>
    (\<forall>t t' dec c order p. (\<exists>e. snd (consume_approval H t t' dec c order p rm) = Inl e) \<and>
       rm_db (fst (consume_approval H t t' dec c order p rm)) = rm_db rm) \<and>
    (\<forall>t t' dec c order cmd. (\<exists>e. snd (consume_oms_approval H t t' dec c order cmd rm) = Inl e) \<and>
       rm_db (fst (consume_oms_approval H t t' dec c order cmd rm)) = rm_db rm)"
proof -
  have "sm_kill_switch_active (rm_sm rm1)" using trigger_latches [OF assms(1), of now actor cid rm0] assms(2) by simp
  then have active: "sm_kill_switch_active (rm_sm rm)"
    unfolding rm_def by (rule risk_latch.latched_run [OF _ assms(3)])
  then have l: "latched rm" by blast
  show ?thesis
    by (intro conjI allI impI)
      (use active latched_check [OF l] latched_consume [OF l] latched_consume_oms [OF l] in
        \<open>auto simp: can_operate_def\<close>)
qed

lemma sample_trip_quiet:
  "quiet (rm_step sample_H sample_U) rm_clears [RmRefresh, RmEquity (flt 9000)]
     (fst (trigger_risk_kill_switch 9 ''drift'' ''ops'' None sample_rm))"
  by simp

theorem kill_switch_stops_trading_witness:
  "\<not> can_operate (rm_sm (fold (rm_step sample_H sample_U) [RmRefresh, RmEquity (flt 9000)]
     (fst (trigger_risk_kill_switch 9 ''drift'' ''ops'' None sample_rm))))"
proof -
  have "strip ''drift'' \<noteq> []" by code_simp
  then show ?thesis
    using kill_switch_stops_trading [OF _ surjective_pairing [of "trigger_risk_kill_switch 9 ''drift'' ''ops'' None sample_rm"]
        sample_trip_quiet] by blast
qed

lemma notify_silent: "\<forall>l \<in> set ls. \<forall>t. l t = None \<Longrightarrow> notify ls t = None"
  by (induction ls) auto

lemma trigger_silent_ok:
  assumes "\<forall>l \<in> set (sm_listeners sm). \<forall>t. l t = None"
  shows "\<exists>t. snd (trigger_kill_switch r a c now sm) = Inr t"
  using notify_silent [OF assms]
  by (auto simp: trigger_kill_switch_def transition_def Let_def OPERATIONAL_STATES_def PHASE_1_FORBIDDEN_TARGETS_def
      split: prod.splits sum.splits option.splits)

lemma revoke_active_inactive [simp]: "oa_status (revoke_active a) \<noteq> ApACTIVE"
  by (simp add: revoke_active_def)

lemma revoked_none_active: "a \<in> ran (dict_get (map (\<lambda>(k, a). (k, revoke_active a)) t)) \<Longrightarrow> oa_status a \<noteq> ApACTIVE"
  unfolding ran_def dict_get_map_values by (auto simp del: map_of_eq_Some_iff)

text \<open>
  Triggering the kill switch leaves no usable approval in memory: whatever the database does, and
  provided no transition listener raises, no approval held by the manager is ACTIVE
  afterwards, and the kill switch reads as active.
\<close>

theorem kill_switch_revokes_memory:
  assumes "strip reason \<noteq> []" "\<forall>l \<in> set (sm_listeners (rm_sm rm)). \<forall>t. l t = None"
    and "trigger_risk_kill_switch now reason actor cid rm = (rm', res)"
  shows "(\<forall>a \<in> ran (dict_get (rm_approvals rm')). oa_status a \<noteq> ApACTIVE) \<and> kill_switch_active rm'"
proof -
  obtain rm1 r1 where 1: "set_control now True (strip reason) actor cid rm = (rm1, r1)" by fastforce
  have sm1: "rm_sm rm1 = rm_sm rm" using set_control_sm 1 by (metis fst_conv)
  obtain sm x where 2: "trigger_kill_switch (strip reason) actor cid now (rm_sm rm1) = (sm, Inr x)"
    using trigger_silent_ok assms(2) sm1 by (metis prod.collapse)
  have active: "sm_kill_switch_active sm"
    using trigger_kill_switch_latches [of "strip reason" actor cid now "rm_sm rm1"] 2 by simp
  have frame: "rm_approvals (fst (control_audit t cid m)) = rm_approvals m" for t m
    by (auto simp: control_audit_def split: prod.splits)
  have "rm_approvals rm' = map (\<lambda>(k, a). (k, revoke_active a)) (rm_approvals rm1) \<and> rm_sm rm' = sm"
  proof (cases r1)
    case (Inl e)
    with assms(1,3) 1 2 show ?thesis by (auto simp: trigger_risk_kill_switch_def trip_def)
  next
    case (Inr u)
    let ?m = "rm1\<lparr>rm_sm := sm, rm_state := (rm_state rm1)\<lparr>rs_kill_switch_active := True\<rparr>,
             rm_approvals := map (\<lambda>(k, a). (k, revoke_active a)) (rm_approvals rm1)\<rparr>"
    have "control_audit ''KILL_SWITCH_TRIGGERED'' cid ?m = (rm', res)"
      using Inr assms(1,3) 1 2 by (simp add: trigger_risk_kill_switch_def trip_def)
    then show ?thesis
      using frame [of "''KILL_SWITCH_TRIGGERED''" ?m] control_audit_sm [of "''KILL_SWITCH_TRIGGERED''" cid ?m]
      by simp
  qed
  with active show ?thesis using revoked_none_active by (auto simp: kill_switch_active_def)
qed

lemma not_in_imageI: "\<forall>x \<in> A. f x \<noteq> y \<Longrightarrow> y \<notin> f ` A"
  by auto

theorem kill_switch_revokes_memory_witness:
  "ApACTIVE \<notin> oa_status `
     ran (dict_get (rm_approvals (fst (trigger_risk_kill_switch 9 ''drift'' ''ops'' None sample_checked))))"
proof -
  have blank: "strip ''drift'' \<noteq> []" by code_simp
  have "rm_sm sample_checked = sample_sm"
    unfolding sample_checked_def check_sm by (simp add: sample_rm_def new_risk_manager_def)
  then have silent: "\<forall>l \<in> set (sm_listeners (rm_sm sample_checked)). \<forall>t. l t = None"
    by (simp add: sample_sm_def new_state_machine_def)
  note revoked = kill_switch_revokes_memory [OF blank silent surjective_pairing, of 9 "''ops''" None]
  show ?thesis by (rule not_in_imageI [OF conjunct1 [OF revoked]])
qed

section \<open>Consumption and equity\<close>

lemma consume_approval_cases:
  assumes "consume_approval H now now' dec c order p rm = (rm', Inr u)"
  obtains a mirror where
    "authorize H now dec c (po_side order) (po_position_size order) (po_leverage order) p
       ''Paper order does not match its central approval'' rm = (rm, Inr a)"
    "paper_mirror a order = Inr mirror"
    "rm_approvals rm' = dict_set (oa_approval_id a)
       (a\<lparr>oa_status := ApCONSUMED, oa_consumed_at := Some now,
          oa_paper_order_id := Some (po_paper_order_id order), oa_oms_order_id := None\<rparr>) (rm_approvals rm)"
    "rm_checks_by_key rm' = rm_checks_by_key rm"
proof -
  obtain rm1 r where a: "authorize H now dec c (po_side order) (po_position_size order) (po_leverage order) p
      ''Paper order does not match its central approval'' rm = (rm1, r)" by fastforce
  with assms obtain a where r: "r = Inr a" by (cases r) (auto simp: consume_approval_def bind_outcome_def)
  with a have rm1: "rm1 = rm" using authorize_ok(1) by metis
  show thesis
    using assms a r rm1 that [of a]
    by (auto simp: consume_approval_def bind_outcome_def Let_def split: sum.splits prod.splits if_splits)
qed

text \<open>
  A PAPER order is opened only under its live approval, once: consuming succeeds only if the
  approval was issued by this manager for exactly this check and decision, is ACTIVE and unexpired,
  belongs to the current portfolio, covers the order's size, leverage, side and price, and no kill
  switch is latched; afterwards it is CONSUMED for this order and consuming it again is refused.
\<close>

theorem consume_approval_once:
  assumes "consume_approval H now now' dec c order p rm = (rm', Inr u)"
    and "\<And>k a. dict_get (rm_approvals rm) k = Some a \<Longrightarrow> oa_approval_id a = k"
  shows "\<exists>a. approval_of_check c rm = Some a \<and> oa_status a = ApACTIVE \<and> now < oa_expires_at a \<and> \<not> latched rm \<and>
     oa_position_snapshot_hash a = position_snapshot_hash H (dict_values (rm_positions rm)) \<and>
     oa_risk_check_id a = rc_risk_check_id c \<and> oa_decision_id a = dec_decision_id dec \<and>
     oa_side a = po_side order \<and> po_position_size order \<le> oa_max_notional a + tol8 \<and>
     po_leverage order \<le> oa_max_leverage a + tol8 \<and> deviation_bps p a \<le> oa_max_entry_deviation_bps a \<and>
     approval_of_check c rm' = Some (a\<lparr>oa_status := ApCONSUMED, oa_consumed_at := Some now,
        oa_paper_order_id := Some (po_paper_order_id order), oa_oms_order_id := None\<rparr>) \<and>
     (\<forall>t t' dec' order' p'. \<exists>e. snd (consume_approval H t t' dec' c order' p' rm') = Inl e)"
proof -
  obtain a mirror where a: "authorize H now dec c (po_side order) (po_position_size order) (po_leverage order) p
       ''Paper order does not match its central approval'' rm = (rm, Inr a)"
    and new: "rm_approvals rm' = dict_set (oa_approval_id a)
       (a\<lparr>oa_status := ApCONSUMED, oa_consumed_at := Some now,
          oa_paper_order_id := Some (po_paper_order_id order), oa_oms_order_id := None\<rparr>) (rm_approvals rm)"
    using consume_approval_cases [OF assms(1)] by metis
  note ok = authorize_ok [OF a]
  have key: "oa_approval_id a = (case rc_approval_id c of None \<Rightarrow> [] | Some i \<Rightarrow> i)"
    using ok(2) assms(2) by (simp add: approval_of_check_def)
  then have stored: "approval_of_check c rm' = Some (a\<lparr>oa_status := ApCONSUMED, oa_consumed_at := Some now,
        oa_paper_order_id := Some (po_paper_order_id order), oa_oms_order_id := None\<rparr>)"
    using new by (simp add: approval_of_check_def dict_simps)
  have "\<exists>e. snd (consume_approval H t t' dec' c order' p' rm') = Inl e" for t t' dec' order' p'
  proof (cases "consume_approval H t t' dec' c order' p' rm'")
    case (Pair rm2 r)
    show ?thesis
    proof (cases r)
      case (Inr v)
      with Pair have "consume_approval H t t' dec' c order' p' rm' = (rm2, Inr v)" by simp
      from consume_approval_cases [OF this] obtain a2 where
        "authorize H t dec' c (po_side order') (po_position_size order') (po_leverage order') p'
           ''Paper order does not match its central approval'' rm' = (rm', Inr a2)" by metis
      from authorize_ok(2,3) [OF this] stored show ?thesis by auto
    qed (simp add: Pair)
  qed
  with ok stored show ?thesis by (intro exI [of _ a]) simp
qed

definition ledger_rm :: risk_manager where
  "ledger_rm =
     (new_risk_manager default_risk_limits sample_sm (new_audit_service False) False empty_db None (flt 10000))
       \<lparr>rm_checks_by_key := [(''key-1'', sample_check)],
        rm_approvals := [(hash64 CHR ''a'', sample_approval)]\<rparr>"

definition sample_paper_order :: paper_order where
  "sample_paper_order =
     \<lparr>po_paper_order_id = ''paper-1'', po_decision_id = ''dec-1'', po_risk_check_id = ''check-1'',
      po_approval_id = Some (hash64 CHR ''a''), po_request_fingerprint = Some (hash64 CHR ''f''),
      po_correlation_id = ''corr-1'', po_exchange = BINANCE, po_symbol = ''BTCUSDT'', po_timeframe = Some ''1m'',
      po_strategy = ''TREND'', po_side = BUY, po_entry_price = flt 1000, po_stop_loss = None,
      po_take_profit = None, po_position_size = flt 500, po_leverage = flt 1, po_initial_margin = None,
      po_maintenance_margin_ratio = None, po_liquidation_price = None, po_liquidation_fee = 0,
      po_status = PsFILLED, po_fees_estimated = 0, po_slippage_estimated = 0, po_opened_at = Some 5,
      po_closed_at = None, po_pnl = None, po_exit_price = None, po_exit_reason = None, po_created_at = 5\<rparr>"

lemma sample_consumption:
  "is_ok (snd (consume_approval sample_H 5 5 sample_decision sample_check sample_paper_order (flt 1000) ledger_rm))"
  by code_simp

theorem consume_approval_once_witness:
  "\<exists>e. snd (consume_approval sample_H 6 6 sample_decision sample_check sample_paper_order (flt 1000)
          (fst (consume_approval sample_H 5 5 sample_decision sample_check sample_paper_order (flt 1000) ledger_rm))) = Inl e"
proof -
  obtain u where "consume_approval sample_H 5 5 sample_decision sample_check sample_paper_order (flt 1000) ledger_rm =
      (fst (consume_approval sample_H 5 5 sample_decision sample_check sample_paper_order (flt 1000) ledger_rm), Inr u)"
    using sample_consumption unfolding is_ok_iff by (metis prod.collapse)
  moreover have "oa_approval_id a = k" if "dict_get (rm_approvals ledger_rm) k = Some a" for k a
    using that by (auto simp: ledger_rm_def sample_approval_def split: if_splits)
  ultimately show ?thesis using consume_approval_once by blast
qed

text \<open>
  The drawdown gauge is sound: after an equity update the peak is the larger of the old peak and
  the balance, never decreases, and for a non-negative balance and a positive peak the recorded
  drawdown is between 0 and 100 percent, being 0 exactly at a new peak.
\<close>

theorem update_equity_bounds:
  assumes "0 \<le> balance" "0 < rm_peak_equity rm"
  shows "rm_peak_equity rm \<le> rm_peak_equity (update_equity balance rm) \<and>
     balance \<le> rm_peak_equity (update_equity balance rm) \<and>
     0 \<le> rs_total_drawdown_percent (rm_state (update_equity balance rm)) \<and>
     rs_total_drawdown_percent (rm_state (update_equity balance rm)) \<le> flt 100 \<and>
     (rm_peak_equity rm \<le> balance \<longrightarrow> rs_total_drawdown_percent (rm_state (update_equity balance rm)) = 0)"
proof -
  define peak where "peak = max (rm_peak_equity rm) balance"
  have p: "0 < peak" "balance \<le> peak" "rm_peak_equity rm \<le> peak" using assms(2) by (auto simp: peak_def less_max_iff_disj)
  have u: "rm_peak_equity (update_equity balance rm) = peak"
    "rs_total_drawdown_percent (rm_state (update_equity balance rm)) = (peak - balance) / peak * flt 100"
    using p(1) by (simp_all add: update_equity_def Let_def peak_def [symmetric])
  have c: "0 \<le> flt 100" using flt_mono [of 0 100] by simp
  have "(peak - balance) / peak \<le> peak / peak"
    using p(1) assms(1) by (intro pyfloat_divide_right_mono pyfloat_diff_le) auto
  moreover have "peak / peak = 1" using p(1) by (simp add: fval_inject [symmetric] fval_simps) (simp add: fl_integer [of 1, simplified])
  ultimately have "(peak - balance) / peak * flt 100 \<le> 1 * flt 100"
    by (intro pyfloat_mult_right_mono c) simp
  moreover have "0 \<le> (peak - balance) / peak * flt 100"
    using p c by (intro pyfloat_mult_nonneg pyfloat_divide_nonneg pyfloat_diff_nonneg) auto
  moreover have "(peak - balance) / peak * flt 100 = 0" if "rm_peak_equity rm \<le> balance"
    using that by (simp add: peak_def fval_inject [symmetric] fval_simps)
  ultimately show ?thesis using p u by simp
qed

theorem update_equity_bounds_witness:
  "rs_total_drawdown_percent (rm_state (update_equity (flt 9000) sample_rm)) \<le> flt 100"
proof -
  have "0 \<le> flt 9000" "0 < rm_peak_equity sample_rm" by code_simp+
  then show ?thesis using update_equity_bounds by blast
qed

end
