(* ===== verification/Paper_Execution.thy ===== *)
theory Paper_Execution
  imports Portfolio_Risk
begin

text \<open>
  Deterministic execution costs, \<^verbatim>\<open>app/paper_trading/execution.py\<close>, with the as-of spread and funding
  data of \<^verbatim>\<open>app/backtesting/execution_data.py\<close>: market fills with spread, slippage and a square-root
  volume impact, funding between two instants, and the isolated-margin liquidation model.
\<close>

section \<open>Square root\<close>

text \<open>
  \<^verbatim>\<open>math.sqrt\<close> is the correctly rounded square root. The integer square root is computed bit by bit;
  it is taken on the argument scaled by an even power of two large enough for 56 significant bits,
  and a final sticky bit marks an inexact root, so that one rounding gives the nearest float.
\<close>

fun isqrt_bits :: "nat \<Rightarrow> int \<Rightarrow> int \<Rightarrow> int" where
  "isqrt_bits 0 n r = r"
| "isqrt_bits (Suc k) n r =
     (let c = r + 2 ^ k in if c * c \<le> n then isqrt_bits k n c else isqrt_bits k n r)"

definition isqrt :: "int \<Rightarrow> int" where
  "isqrt n = isqrt_bits (nat (ilen 2 n) + 1) n 0"

lemma isqrt_bits_bounds:
  assumes "0 \<le> r" "r * r \<le> n" "n < (r + 2 ^ k) * (r + 2 ^ k)"
  shows "r \<le> isqrt_bits k n r \<and> isqrt_bits k n r * isqrt_bits k n r \<le> n \<and>
         n < (isqrt_bits k n r + 1) * (isqrt_bits k n r + 1)"
  using assms
proof (induction k arbitrary: r)
  case (Suc k)
  let ?c = "r + 2 ^ k"
  show ?case
  proof (cases "?c * ?c \<le> n")
    case True
    have "?c + 2 ^ k = r + 2 ^ Suc k" by simp
    then have "n < (?c + 2 ^ k) * (?c + 2 ^ k)" using Suc.prems(3) by (simp only:)
    with Suc.IH [of ?c] Suc.prems(1) True
    have "?c \<le> isqrt_bits k n ?c \<and> isqrt_bits k n ?c * isqrt_bits k n ?c \<le> n \<and>
         n < (isqrt_bits k n ?c + 1) * (isqrt_bits k n ?c + 1)" by simp
    moreover have "r \<le> ?c" by simp
    ultimately show ?thesis using True order_trans [of r ?c] by simp
  next
    case False
    with Suc.IH [of r] Suc.prems(1,2) show ?thesis by simp
  qed
qed simp

lemma isqrt_bounds:
  assumes "0 \<le> n"
  shows "0 \<le> isqrt n \<and> isqrt n * isqrt n \<le> n \<and> n < (isqrt n + 1) * (isqrt n + 1)"
proof -
  let ?k = "nat (ilen 2 n) + 1"
  have "n < 2 ^ ?k"
  proof (cases "n = 0")
    case False
    with assms have "n < 2 ^ nat (ilen 2 n)" using ilen_bounds [of 2 n] by simp
    also have "(2 :: int) ^ nat (ilen 2 n) \<le> 2 ^ ?k" by (intro power_increasing) simp_all
    finally show ?thesis .
  qed simp
  also have "(2 :: int) ^ ?k \<le> 2 ^ ?k * 2 ^ ?k"
    using mult_left_mono [of 1 "2 ^ ?k" "2 ^ ?k :: int"] by (simp del: power_Suc)
  finally have "n < (0 + 2 ^ ?k) * (0 + 2 ^ ?k)" by simp
  from isqrt_bits_bounds [OF _ _ this] assms show ?thesis unfolding isqrt_def by simp
qed

definition py_sqrt :: "pyfloat \<Rightarrow> pyfloat result" where
  "py_sqrt x =
     (if x < 0 then raise ValueError ''math domain error''
      else case quotient_of (fval x) of (n, d) \<Rightarrow>
        let k = max 0 ((114 - ilen 2 n + ilen 2 d) div 2 + 1);
            scaled = n * ipow 4 k;
            r = isqrt (scaled div d)
        in Inr (flt (of_int (2 * r + (if r * r * d = scaled then 0 else 1)) / of_int (2 * ipow 2 k))))"

lemma py_sqrt_unit:
  assumes "py_sqrt x = Inr y" "x \<le> 1"
  shows "0 \<le> y" and "y \<le> 1"
proof -
  obtain n d where q: "quotient_of (fval x) = (n, d)" by force
  define k where "k = max 0 ((114 - ilen 2 n + ilen 2 d) div 2 + 1)"
  define p where "p = ipow 2 k"
  define r where "r = isqrt (n * ipow 4 k div d)"
  define t where "t = (if r * r * d = n * ipow 4 k then 0 else 1 :: int)"
  have x0: "0 \<le> x" using assms(1) by (simp add: py_sqrt_def split: if_splits)
  have y: "y = flt (of_int (2 * r + t) / of_int (2 * p))"
    using assms(1) x0 unfolding py_sqrt_def q prod.case Let_def k_def [symmetric] p_def [symmetric] r_def [symmetric]
      t_def [symmetric] using leD by fastforce
  have d: "0 < d" and fx: "fval x = of_int n / of_int d"
    using quotient_of_denom_pos [OF q] quotient_of_div [OF q] by auto
  have four: "ipow 4 k = p * p"
  proof -
    have "(4 :: int) ^ nat k = (2 * 2) ^ nat k" by simp
    then show ?thesis by (simp only: p_def ipow_eq power_mult_distrib)
  qed
  have p: "0 < p" by (simp add: p_def ipow_pos)
  have n: "0 \<le> n" using x0 d by (simp add: fval_simps fx zero_le_divide_iff)
  have nd: "n \<le> d"
  proof -
    have "(of_int n :: rat) / of_int d \<le> 1" using assms(2) by (simp add: fval_simps fx)
    then show ?thesis using d by (simp add: divide_le_eq_1)
  qed
  have m0: "0 \<le> n * ipow 4 k div d" using n d p by (simp add: four pos_imp_zdiv_nonneg_iff)
  note rb = isqrt_bounds [OF m0, folded r_def]
  have "n * ipow 4 k div d \<le> p * p"
  proof -
    have "n * (p * p) \<le> d * (p * p)" using nd p by (intro mult_right_mono) auto
    then have "n * (p * p) div d \<le> d * (p * p) div d" using d by (intro zdiv_mono1)
    then show ?thesis using d by (simp add: four)
  qed
  then have rp: "r \<le> p" using rb p by (smt (verit) mult_strict_mono)
  have top: "2 * r + t \<le> 2 * p"
  proof (cases "r = p")
    case True
    have "r * r * d \<le> n * ipow 4 k"
    proof -
      have "r * r * d \<le> (n * ipow 4 k div d) * d" using rb d by (intro mult_right_mono) auto
      also have "\<dots> \<le> n * ipow 4 k" using d by (simp add: div_times_less_eq_dividend pos_mod_sign minus_mod_eq_div_mult [symmetric])
      finally show ?thesis .
    qed
    moreover have "n * ipow 4 k \<le> d * (p * p)" unfolding four using nd p by (intro mult_right_mono) auto
    ultimately have "t = 0" using True by (simp add: t_def mult.commute mult.left_commute)
    with True show ?thesis by simp
  next
    case False
    with rp have "2 * r + 1 \<le> 2 * p" by linarith
    then show ?thesis by (simp add: t_def)
  qed
  have "0 \<le> 2 * r + t" using rb by (simp add: t_def)
  then have "(0 :: rat) \<le> of_int (2 * r + t) / of_int (2 * p)" using p by (intro divide_nonneg_nonneg) (simp_all only: of_int_0_le_iff)
  then show "0 \<le> y" using flt_mono y by fastforce
  have "(of_int (2 * r + t) :: rat) / of_int (2 * p) \<le> 1" using p top by (simp only: divide_le_eq_1 of_int_le_iff) simp
  then show "y \<le> 1" using flt_le [of _ 1] y by (simp add: one_pyfloat.rep_eq)
qed

section \<open>Assumptions and data\<close>

record execution_assumptions =
  ea_taker_fee_bps :: pyfloat
  ea_half_spread_bps :: pyfloat
  ea_base_slippage_bps :: pyfloat
  ea_volume_impact_bps :: pyfloat
  ea_funding_rate_bps_per_8h :: pyfloat

definition default_execution_assumptions :: execution_assumptions where
  "default_execution_assumptions =
     \<lparr>ea_taker_fee_bps = flt 8, ea_half_spread_bps = flt 1, ea_base_slippage_bps = flt 2,
      ea_volume_impact_bps = flt 10, ea_funding_rate_bps_per_8h = 0\<rparr>"

definition in_range :: "pyfloat \<Rightarrow> rat \<Rightarrow> rat \<Rightarrow> bool" where
  "in_range x lo hi \<longleftrightarrow> lo \<le> fval x \<and> fval x \<le> hi"

definition valid_execution_assumptions :: "execution_assumptions \<Rightarrow> bool" where
  "valid_execution_assumptions a \<longleftrightarrow>
     in_range (ea_taker_fee_bps a) 0 1000 \<and> in_range (ea_half_spread_bps a) 0 1000 \<and>
     in_range (ea_base_slippage_bps a) 0 1000 \<and> in_range (ea_volume_impact_bps a) 0 10000 \<and>
     in_range (ea_funding_rate_bps_per_8h a) (- 1000) 1000"

record execution_observation =
  ob_observed_at :: time
  ob_half_spread_bps :: pyfloat
  ob_funding_rate_bps_per_8h :: pyfloat
  ob_source_record_id :: string

definition valid_execution_observation :: "execution_observation \<Rightarrow> bool" where
  "valid_execution_observation o' \<longleftrightarrow>
     in_range (ob_half_spread_bps o') 0 1000 \<and> in_range (ob_funding_rate_bps_per_8h o') (- 1000) 1000 \<and>
     ob_source_record_id o' \<noteq> [] \<and> length (ob_source_record_id o') \<le> 256"

record execution_dataset =
  ds_source :: string
  ds_exchange :: exchange
  ds_symbol :: string
  ds_max_age_seconds :: int
  ds_observations :: "execution_observation list"

text \<open>The pattern \<^verbatim>\<open>^[A-Za-z0-9][A-Za-z0-9._:/-]+$\<close> of the source name.\<close>

definition source_name_ok :: "string \<Rightarrow> bool" where
  "source_name_ok s \<longleftrightarrow>
     (let alnum = (\<lambda>c. is_digit c \<or> is_upper c \<or> CHR ''a'' \<le> c \<and> c \<le> CHR ''z'')
      in 3 \<le> length s \<and> length s \<le> 128 \<and> alnum (hd s) \<and>
         list_all (\<lambda>c. alnum c \<or> c \<in> set ''._:/-'') (tl s))"

definition valid_execution_dataset :: "execution_dataset \<Rightarrow> bool" where
  "valid_execution_dataset d \<longleftrightarrow>
     (let timestamps = map ob_observed_at (ds_observations d)
      in source_name_ok (ds_source d) \<and> candle_symbol_ok (ds_symbol d) \<and>
         1 \<le> ds_max_age_seconds d \<and> ds_max_age_seconds d \<le> 604800 \<and>
         1 \<le> length timestamps \<and> length timestamps \<le> 1000000 \<and>
         list_all valid_execution_observation (ds_observations d) \<and>
         timestamps = sort timestamps \<and> distinct timestamps \<and>
         distinct (map ob_source_record_id (ds_observations d)))"

record margin_assumptions =
  ma_leverage :: pyfloat
  ma_maintenance_margin_ratio :: pyfloat
  ma_liquidation_fee_bps :: pyfloat

definition default_margin_assumptions :: margin_assumptions where
  "default_margin_assumptions =
     \<lparr>ma_leverage = 1, ma_maintenance_margin_ratio = flt (5 / 1000), ma_liquidation_fee_bps = flt 10\<rparr>"

definition valid_margin_assumptions :: "margin_assumptions \<Rightarrow> bool" where
  "valid_margin_assumptions m \<longleftrightarrow>
     in_range (ma_leverage m) 1 125 \<and> 0 \<le> ma_maintenance_margin_ratio m \<and>
     fval (ma_maintenance_margin_ratio m) < 1 / 2 \<and> in_range (ma_liquidation_fee_bps m) 0 1000"

section \<open>As-of observations\<close>

text \<open>
  \<^verbatim>\<open>bisect.bisect_right\<close>, the binary search of the standard library.
\<close>

function bisect_loop :: "time list \<Rightarrow> time \<Rightarrow> nat \<Rightarrow> nat \<Rightarrow> nat" where
  "bisect_loop ts x lo hi =
     (if lo < hi
      then let mid = (lo + hi) div 2
           in if x < ts ! mid then bisect_loop ts x lo mid else bisect_loop ts x (mid + 1) hi
      else lo)"
  by pat_completeness auto

termination
  by (relation "measure (\<lambda>(ts, x, lo, hi). hi - lo)") auto

declare bisect_loop.simps [simp del]

definition bisect_right :: "time list \<Rightarrow> time \<Rightarrow> nat" where
  "bisect_right ts x = bisect_loop ts x 0 (length ts)"

text \<open>The instants shown in the error messages are left out of the modelled text.\<close>

definition resolve :: "execution_dataset \<Rightarrow> time \<Rightarrow> execution_observation result" where
  "resolve ds instant =
     (let k = bisect_right (map ob_observed_at (ds_observations ds)) instant
      in if k = 0 then raise ValueError ''Historical execution dataset has no observation available''
         else
           let observation = ds_observations ds ! (k - 1)
           in if of_int (ds_max_age_seconds ds) < fval (total_seconds (instant - ob_observed_at observation))
              then raise ValueError ''Historical execution observation is stale''
              else Inr observation)"

fun validate_each_candle :: "execution_dataset \<Rightarrow> candle list \<Rightarrow> unit result" where
  "validate_each_candle ds [] = Inr ()"
| "validate_each_candle ds (c # cs) =
     (if cd_exchange c \<noteq> ds_exchange ds \<or> cd_symbol c \<noteq> ds_symbol ds
      then raise ValueError ''Historical execution dataset does not match candle series''
      else bind_result (resolve ds (cd_closed_at c)) (\<lambda>_. validate_each_candle ds cs))"

definition validate_candles :: "execution_dataset \<Rightarrow> candle list \<Rightarrow> unit result" where
  "validate_candles ds candles =
     (if candles = [] then raise ValueError ''Historical execution validation requires candles''
      else validate_each_candle ds candles)"

text \<open>
  The funding loop. \<open>rest\<close> is the list of observations from \<^verbatim>\<open>next_index\<close> on. Each turn pays one
  segment up to the next observation or to the end, whichever comes first; the
  loop goes on with the next observation exactly when that one lies before the end.
\<close>

definition segment_cost :: "pyfloat \<Rightarrow> pyfloat \<Rightarrow> execution_observation \<Rightarrow> pyfloat \<Rightarrow> pyfloat" where
  "segment_cost notional direction current segment_seconds =
     notional * (ob_funding_rate_bps_per_8h current / flt 10000) * (segment_seconds / flt 3600 / flt 8) * direction"

fun next_change_after :: "time \<Rightarrow> execution_observation list \<Rightarrow> time" where
  "next_change_after end_at [] = end_at"
| "next_change_after end_at (o' # _) = ob_observed_at o'"

definition funding_segment ::
  "int \<Rightarrow> pyfloat \<Rightarrow> pyfloat \<Rightarrow> execution_observation \<Rightarrow> time \<Rightarrow> time \<Rightarrow> pyfloat \<Rightarrow> pyfloat result" where
  "funding_segment max_age notional direction current current_at segment_end paid =
     (let segment_seconds = total_seconds (segment_end - current_at)
      in if flt (of_int max_age) - total_seconds (current_at - ob_observed_at current) < segment_seconds
         then raise ValueError ''Historical funding observation becomes stale''
         else Inr (paid + segment_cost notional direction current segment_seconds))"

function funding_loop ::
  "int \<Rightarrow> pyfloat \<Rightarrow> pyfloat \<Rightarrow> time \<Rightarrow> execution_observation list \<Rightarrow> time \<Rightarrow> execution_observation \<Rightarrow> pyfloat
     \<Rightarrow> pyfloat result" where
  "funding_loop max_age notional direction end_at rest current_at current paid =
     (if \<not> current_at < end_at then Inr paid
      else
        case funding_segment max_age notional direction current current_at
               (min (next_change_after end_at rest) end_at) paid of
          Inl e \<Rightarrow> Inl e
        | Inr paid' \<Rightarrow>
            if next_change_after end_at rest < end_at
            then funding_loop max_age notional direction end_at (tl rest) (next_change_after end_at rest) (hd rest) paid'
            else funding_loop max_age notional direction end_at rest end_at current paid')"
  by pat_completeness auto

termination
proof (relation "measure (\<lambda>(max_age, notional, direction, end_at, rest, current_at, current, paid).
        length rest + (if current_at < end_at then 1 else 0))", goal_cases)
  case (2 max_age notional direction end_at rest current_at current paid x)
  then show ?case by (cases rest) auto
qed auto

declare funding_loop.simps [simp del]

definition historical_funding_cost ::
  "execution_dataset \<Rightarrow> pyfloat \<Rightarrow> pyfloat \<Rightarrow> time \<Rightarrow> time \<Rightarrow> pyfloat result" where
  "historical_funding_cost ds notional direction start_at end_at =
     (if end_at \<le> start_at then Inr 0
      else bind_result (resolve ds start_at) (\<lambda>current.
        funding_loop (ds_max_age_seconds ds) notional direction end_at
          (drop (bisect_right (map ob_observed_at (ds_observations ds)) start_at) (ds_observations ds))
          start_at current 0))"

section \<open>Fills\<close>

record simulated_fill =
  sf_reference_price :: pyfloat
  sf_fill_price :: pyfloat
  sf_fee_cost :: pyfloat
  sf_spread_cost :: pyfloat
  sf_slippage_cost :: pyfloat
  sf_volume_impact_cost :: pyfloat
  sf_participation_rate :: pyfloat

record execution_model =
  em_assumptions :: execution_assumptions
  em_historical :: "execution_dataset option"

definition opposite :: "order_side \<Rightarrow> order_side" where
  "opposite side = (if side = BUY then SELL else BUY)"

definition side_sign :: "order_side \<Rightarrow> pyfloat" where
  "side_sign side = (if side = BUY then 1 else - 1)"

definition participation_of :: "pyfloat \<Rightarrow> candle option \<Rightarrow> pyfloat" where
  "participation_of notional candle =
     (let quote_volume = (case candle of
            None \<Rightarrow> 0
          | Some c \<Rightarrow> if 0 < cd_volume c then cd_volume c * cd_close c else 0)
      in if 0 < quote_volume then min 1 (notional / quote_volume) else 1)"

definition half_spread_of :: "execution_model \<Rightarrow> candle option \<Rightarrow> pyfloat result" where
  "half_spread_of m candle =
     (case em_historical m of
        None \<Rightarrow> Inr (ea_half_spread_bps (em_assumptions m))
      | Some ds \<Rightarrow>
          (case candle of
             None \<Rightarrow> raise ValueError ''Historical execution fills require a timestamped candle''
           | Some c \<Rightarrow> bind_result (resolve ds (cd_closed_at c)) (\<lambda>ob. Inr (ob_half_spread_bps ob))))"

definition price_fill ::
  "execution_assumptions \<Rightarrow> order_side \<Rightarrow> pyfloat \<Rightarrow> pyfloat \<Rightarrow> pyfloat option \<Rightarrow> pyfloat \<Rightarrow> pyfloat \<Rightarrow> pyfloat
     \<Rightarrow> simulated_fill" where
  "price_fill a action_side reference_price notional quantity participation impact_bps half_spread_bps =
     (let adverse_bps = half_spread_bps + ea_base_slippage_bps a + impact_bps;
          fill_price = reference_price * (1 + side_sign action_side * adverse_bps / flt 10000);
          executed_notional = (case quantity of None \<Rightarrow> notional | Some q \<Rightarrow> q * fill_price);
          volume_impact_cost = notional * impact_bps / flt 10000
      in \<lparr>sf_reference_price = reference_price, sf_fill_price = fill_price,
          sf_fee_cost = executed_notional * ea_taker_fee_bps a / flt 10000,
          sf_spread_cost = notional * half_spread_bps / flt 10000,
          sf_slippage_cost = notional * ea_base_slippage_bps a / flt 10000 + volume_impact_cost,
          sf_volume_impact_cost = volume_impact_cost, sf_participation_rate = participation\<rparr>)"

definition fill_order ::
  "execution_model \<Rightarrow> order_side \<Rightarrow> pyfloat \<Rightarrow> pyfloat \<Rightarrow> pyfloat option \<Rightarrow> candle option \<Rightarrow> simulated_fill result" where
  "fill_order m action_side reference_price notional quantity candle =
     (if reference_price \<le> 0 then raise ValueError ''reference_price must be positive''
      else if notional < 0 then raise ValueError ''position_notional must not be negative''
      else
        let participation = participation_of notional candle
        in bind_result (py_sqrt participation) (\<lambda>root.
           let impact_bps = ea_volume_impact_bps (em_assumptions m) * root
           in bind_result (half_spread_of m candle) (\<lambda>half_spread_bps.
              Inr (price_fill (em_assumptions m) action_side reference_price notional quantity
                     participation impact_bps half_spread_bps))))"

definition open_fill ::
  "execution_model \<Rightarrow> order_side \<Rightarrow> pyfloat \<Rightarrow> pyfloat \<Rightarrow> candle option \<Rightarrow> simulated_fill result" where
  "open_fill m side reference_price notional candle = fill_order m side reference_price notional None candle"

definition close_fill ::
  "execution_model \<Rightarrow> order_side \<Rightarrow> pyfloat \<Rightarrow> pyfloat \<Rightarrow> candle option \<Rightarrow> simulated_fill result" where
  "close_fill m position_side reference_price quantity candle =
     fill_order m (opposite position_side) reference_price (quantity * reference_price) (Some quantity) candle"

definition funding_cost :: "execution_model \<Rightarrow> paper_order \<Rightarrow> time \<Rightarrow> time \<Rightarrow> pyfloat result" where
  "funding_cost m order start_at end_at =
     (let elapsed_hours = max 0 (total_seconds (end_at - start_at) / flt 3600);
          direction = side_sign (po_side order)
      in if elapsed_hours = 0 then Inr 0
         else case em_historical m of
                Some ds \<Rightarrow> historical_funding_cost ds (po_position_size order) direction start_at end_at
              | None \<Rightarrow>
                  let rate = ea_funding_rate_bps_per_8h (em_assumptions m) / flt 10000
                  in Inr (po_position_size order * rate * (elapsed_hours / flt 8) * direction))"

section \<open>Isolated margin\<close>

definition initial_margin :: "margin_assumptions \<Rightarrow> pyfloat \<Rightarrow> pyfloat" where
  "initial_margin m notional = notional / ma_leverage m"

definition liquidation_price :: "margin_assumptions \<Rightarrow> order_side \<Rightarrow> pyfloat \<Rightarrow> pyfloat" where
  "liquidation_price m side entry_price =
     (let inverse_leverage = 1 / ma_leverage m; maintenance = ma_maintenance_margin_ratio m
      in if side = BUY then max 0 (entry_price * (1 - inverse_leverage + maintenance))
         else entry_price * (1 + inverse_leverage - maintenance))"

definition liquidation_reference :: "paper_order \<Rightarrow> candle \<Rightarrow> pyfloat option" where
  "liquidation_reference order candle =
     (case po_liquidation_price order of
        None \<Rightarrow> None
      | Some p \<Rightarrow>
          if p \<le> 0 then None
          else if po_side order = BUY \<and> cd_low candle \<le> p then Some (min p (cd_open candle))
          else if po_side order = SELL \<and> p \<le> cd_high candle then Some (max p (cd_open candle))
          else None)"

definition liquidation_fee :: "margin_assumptions \<Rightarrow> pyfloat \<Rightarrow> pyfloat" where
  "liquidation_fee m executed_notional = executed_notional * ma_liquidation_fee_bps m / flt 10000"

end
