(* ===== verification/Execution_Properties.thy ===== *)
theory Execution_Properties
  imports Paper_Execution
begin

text \<open>
  The simulated execution is conservative and free of look-ahead: the binary search of the as-of data
  against its reference, funding that depends only on what was observed before its end, fills that
  are never better than the reference price, and liquidations at a price the candle traded.
\<close>

section \<open>The binary search\<close>

lemma bisect_loop_spec:
  assumes "sorted ts" "lo \<le> hi" "hi \<le> length ts" "\<forall>i < lo. ts ! i \<le> x"
    and "\<forall>i. hi \<le> i \<and> i < length ts \<longrightarrow> x < ts ! i"
  shows "bisect_loop ts x lo hi \<le> length ts \<and> (\<forall>i < bisect_loop ts x lo hi. ts ! i \<le> x) \<and>
         (\<forall>i. bisect_loop ts x lo hi \<le> i \<and> i < length ts \<longrightarrow> x < ts ! i)"
  using assms
proof (induction ts x lo hi rule: bisect_loop.induct)
  case (1 ts x lo hi)
  show ?case
  proof (cases "lo < hi")
    case True
    let ?mid = "(lo + hi) div 2"
    have mid: "lo \<le> ?mid" "?mid < hi" "?mid < length ts" using True 1(4,5) by auto
    show ?thesis
    proof (cases "x < ts ! ?mid")
      case above: True
      have "x < ts ! i" if "?mid \<le> i" "i < length ts" for i
        using sorted_nth_mono [OF 1(3) that] above by linarith
      with 1(1) [OF True refl above] 1(3-7) mid above True show ?thesis
        by (subst (1 2 3) bisect_loop.simps) (simp add: Let_def)
    next
      case below: False
      have "ts ! i \<le> x" if "i < ?mid + 1" for i
        using sorted_nth_mono [OF 1(3), of i ?mid] that below mid by simp
      with 1(2) [OF True refl below] 1(3-7) mid below True show ?thesis
        by (subst (1 2 3) bisect_loop.simps) (simp add: Let_def)
    qed
  next
    case False
    with 1(3-7) show ?thesis by (subst (1 2 3) bisect_loop.simps) simp
  qed
qed

lemma bisect_right_takeWhile: "sorted ts \<Longrightarrow> bisect_right ts x = length (takeWhile (\<lambda>t. t \<le> x) ts)"
proof -
  assume "sorted ts"
  from bisect_loop_spec [OF this, of 0 "length ts" x]
  have k: "bisect_right ts x \<le> length ts" "\<forall>i < bisect_right ts x. ts ! i \<le> x"
    "\<forall>i. bisect_right ts x \<le> i \<and> i < length ts \<longrightarrow> x < ts ! i"
    by (simp_all add: bisect_right_def)
  have "takeWhile (\<lambda>t. t \<le> x) ts = take (bisect_right ts x) ts"
    using k by (intro takeWhile_eq_take_P_nth) (auto simp: not_le)
  with k(1) show ?thesis by simp
qed

text \<open>The observations known at an instant are a prefix of the dataset.\<close>

definition known_at :: "execution_dataset \<Rightarrow> time \<Rightarrow> execution_observation list" where
  "known_at ds t = takeWhile (\<lambda>ob. ob_observed_at ob \<le> t) (ds_observations ds)"

lemma dataset_sorted: "valid_execution_dataset ds \<Longrightarrow> sorted (map ob_observed_at (ds_observations ds))"
  unfolding valid_execution_dataset_def Let_def by (metis sorted_sort)

lemma bisect_known:
  "sorted (map ob_observed_at (ds_observations ds)) \<Longrightarrow>
     bisect_right (map ob_observed_at (ds_observations ds)) t = length (known_at ds t)"
  by (simp add: bisect_right_takeWhile known_at_def takeWhile_map comp_def)

lemma known_at_prefix: "take (length (known_at ds t)) (ds_observations ds) = known_at ds t"
  unfolding known_at_def by (metis takeWhile_eq_take)

lemma later_dropped: "drop (length (known_at ds t)) (ds_observations ds) =
     dropWhile (\<lambda>ob. ob_observed_at ob \<le> t) (ds_observations ds)"
  unfolding known_at_def by (metis append_eq_conv_conj takeWhile_dropWhile_id)

lemma known_at_last: "known_at ds t \<noteq> [] \<Longrightarrow> ds_observations ds ! (length (known_at ds t) - 1) = last (known_at ds t)"
  unfolding known_at_def
  by (metis One_nat_def Suc_pred diff_less last_conv_nth length_greater_0_conv lessI takeWhile_nth zero_less_one)

lemma resolve_known:
  assumes "sorted (map ob_observed_at (ds_observations ds))"
  shows "resolve ds t =
     (if known_at ds t = [] then raise ValueError ''Historical execution dataset has no observation available''
      else if of_int (ds_max_age_seconds ds) < fval (total_seconds (t - ob_observed_at (last (known_at ds t))))
      then raise ValueError ''Historical execution observation is stale''
      else Inr (last (known_at ds t)))"
  using assms known_at_last [of ds t] by (simp add: resolve_def Let_def bisect_known)

lemma set_takeWhile_sorted:
  "sorted (map f xs) \<Longrightarrow> set (takeWhile (\<lambda>x. f x \<le> t) xs) = {x \<in> set xs. f x \<le> (t :: 'b :: linorder)}"
  by (induction xs) (auto dest: set_takeWhileD)

lemma sorted_le_last: "sorted (map f xs) \<Longrightarrow> x \<in> set xs \<Longrightarrow> f x \<le> (f (last xs) :: 'b :: linorder)"
  by (induction xs rule: rev_induct) (auto simp: sorted_append)

lemma sorted_known:
  assumes "sorted (map ob_observed_at (ds_observations ds))"
  shows "set (known_at ds t) = {ob \<in> set (ds_observations ds). ob_observed_at ob \<le> t}"
  using set_takeWhile_sorted [OF assms] by (simp add: known_at_def)

lemma sorted_last_known:
  assumes "sorted (map ob_observed_at (ds_observations ds))" "ob \<in> set (known_at ds t)"
  shows "ob_observed_at ob \<le> ob_observed_at (last (known_at ds t))"
proof -
  have "sorted (map ob_observed_at (known_at ds t))"
    using assms(1) known_at_prefix [of ds t] by (metis sorted_wrt_take take_map)
  with assms(2) show ?thesis by (intro sorted_le_last)
qed

lemma total_seconds_mono: "x \<le> y \<Longrightarrow> total_seconds x \<le> total_seconds y"
  by (simp add: total_seconds_def flt_mono divide_right_mono)

lemma resolve_member:
  assumes "valid_execution_dataset ds" "resolve ds t = Inr ob"
  shows "ob \<in> set (ds_observations ds)"
proof -
  note sorted = dataset_sorted [OF assms(1)]
  from assms(2) have "ob \<in> set (known_at ds t)"
    by (auto simp: resolve_known [OF sorted] split: if_splits)
  then show ?thesis using sorted_known [OF sorted] by auto
qed

lemma next_change_append:
  assumes "\<forall>ob \<in> set late. end_at \<le> ob_observed_at ob"
  shows "min (next_change_after end_at (rest @ late)) end_at = min (next_change_after end_at rest) end_at"
    and "next_change_after end_at (rest @ late) < end_at \<longleftrightarrow> next_change_after end_at rest < end_at"
    and "next_change_after end_at rest < end_at \<Longrightarrow> rest \<noteq> []"
    and "next_change_after end_at rest < end_at \<Longrightarrow>
           next_change_after end_at (rest @ late) = next_change_after end_at rest"
  using assms by (cases rest; cases late; auto)+

lemma funding_loop_truncate:
  assumes "\<forall>ob \<in> set late. end_at \<le> ob_observed_at ob"
  shows "funding_loop max_age n dir end_at (rest @ late) t cur paid = funding_loop max_age n dir end_at rest t cur paid"
  using assms
proof (induction max_age n dir end_at rest t cur paid rule: funding_loop.induct)
  case (1 max_age n dir end_at rest t cur paid)
  note nc = next_change_append [OF 1(3), of rest]
  show ?case
  proof (cases "t < end_at")
    case True
    show ?thesis
    proof (cases "funding_segment max_age n dir cur t (min (next_change_after end_at rest) end_at) paid")
      case (Inl e)
      with True nc(1) show ?thesis by (subst (1 2) funding_loop.simps) simp
    next
      case (Inr paid')
      show ?thesis
      proof (cases "next_change_after end_at rest < end_at")
        case before: True
        have "rest \<noteq> []" using nc(3) before by simp
        with 1(1) [OF _ Inr before 1(3)] True Inr nc before show ?thesis
          by (subst (1 2) funding_loop.simps) simp
      next
        case False
        with 1(2) [OF _ Inr False 1(3)] True Inr nc show ?thesis
          by (subst (1 2) funding_loop.simps) simp
      qed
    qed
  next
    case False
    then show ?thesis by (subst (1 2) funding_loop.simps) simp
  qed
qed

text \<open>
  C16. The historical spread and funding data are read as of an instant: on a valid dataset, the
  observation used at an instant is not later than it, is the latest such observation, and is not
  older than the maximum age; and the search fails only if nothing was observed yet or the latest
  observation is too old.
\<close>

theorem resolve_as_of:
  assumes "valid_execution_dataset ds"
  shows "(case resolve ds t of
            Inr ob \<Rightarrow> ob \<in> set (ds_observations ds) \<and> ob_observed_at ob \<le> t \<and>
              (\<forall>ob' \<in> set (ds_observations ds). ob_observed_at ob' \<le> t \<longrightarrow> ob_observed_at ob' \<le> ob_observed_at ob) \<and>
              fval (total_seconds (t - ob_observed_at ob)) \<le> of_int (ds_max_age_seconds ds)
          | Inl e \<Rightarrow> \<forall>ob \<in> set (ds_observations ds). ob_observed_at ob \<le> t \<longrightarrow>
              of_int (ds_max_age_seconds ds) < fval (total_seconds (t - ob_observed_at ob)))"
proof -
  let ?k = "known_at ds t"
  note sorted = dataset_sorted [OF assms]
  have known: "ob \<in> set ?k \<longleftrightarrow> ob \<in> set (ds_observations ds) \<and> ob_observed_at ob \<le> t" for ob
    using sorted_known [OF sorted] by auto
  have latest: "ob_observed_at ob \<le> ob_observed_at (last ?k)" if "ob \<in> set ?k" for ob
    using sorted_last_known [OF sorted that] .
  have mono: "fval (total_seconds (t - ob_observed_at (last ?k))) \<le> fval (total_seconds (t - ob_observed_at ob))"
    if "ob \<in> set ?k" for ob
    using latest [OF that] total_seconds_mono by (simp add: less_eq_pyfloat.rep_eq [symmetric])
  show ?thesis
  proof (cases "?k = []")
    case True
    with known show ?thesis by (auto simp: resolve_known [OF sorted])
  next
    case False
    then have "last ?k \<in> set ?k" by simp
    with False known latest mono show ?thesis
      by (auto simp: resolve_known [OF sorted] not_less intro: less_le_trans)
  qed
qed

definition sample_observation :: "time \<Rightarrow> string \<Rightarrow> execution_observation" where
  "sample_observation t i =
     \<lparr>ob_observed_at = t, ob_half_spread_bps = flt 2, ob_funding_rate_bps_per_8h = flt 1, ob_source_record_id = i\<rparr>"

definition sample_dataset :: execution_dataset where
  "sample_dataset =
     \<lparr>ds_source = ''venue'', ds_exchange = BINANCE, ds_symbol = ''BTCUSDT'', ds_max_age_seconds = 28800,
      ds_observations = [sample_observation 0 ''a'', sample_observation 3600000000 ''b'',
                         sample_observation 7200000000 ''c'']\<rparr>"

lemma sample_dataset_valid: "valid_execution_dataset sample_dataset"
proof -
  have "source_name_ok ''venue''" "candle_symbol_ok ''BTCUSDT''" by code_simp+
  moreover have "in_range (flt 2) 0 1000" "in_range (flt 1) (- 1000) 1000" by code_simp+
  ultimately show ?thesis
    by (simp add: valid_execution_dataset_def valid_execution_observation_def sample_dataset_def sample_observation_def)
qed

theorem resolve_as_of_witness:
  "resolve sample_dataset 3600000001 = Inr (sample_observation 3600000000 ''b'') \<and>
   fval (total_seconds 1) \<le> 28800"
proof -
  have r: "resolve sample_dataset 3600000001 = Inr (sample_observation 3600000000 ''b'')" by code_simp
  with resolve_as_of [OF sample_dataset_valid, of 3600000001] show ?thesis
    by (simp add: sample_observation_def sample_dataset_def)
qed

lemma takeWhile_beyond: "\<forall>x \<in> set ys. \<not> P x \<Longrightarrow> takeWhile P (xs @ ys) = takeWhile P xs"
  by (induction xs) (cases ys; simp)+

text \<open>
  Funding has no look-ahead: the cost of holding a position until an instant is the same whatever
  is recorded in the dataset from that instant on.
\<close>

theorem funding_no_lookahead:
  assumes "sorted (map ob_observed_at (early @ late))" "\<forall>ob \<in> set late. end_at \<le> ob_observed_at ob"
  shows "historical_funding_cost (ds\<lparr>ds_observations := early @ late\<rparr>) n dir start_at end_at =
         historical_funding_cost (ds\<lparr>ds_observations := early\<rparr>) n dir start_at end_at"
proof (cases "end_at \<le> start_at")
  case False
  let ?f = "ds\<lparr>ds_observations := early @ late\<rparr>" and ?e = "ds\<lparr>ds_observations := early\<rparr>"
  have late: "\<forall>ob \<in> set late. \<not> ob_observed_at ob \<le> start_at" using assms(2) False by auto
  have sorted: "sorted (map ob_observed_at (ds_observations ?f))" "sorted (map ob_observed_at (ds_observations ?e))"
    using assms(1) by (simp_all add: sorted_append)
  have known: "known_at ?f start_at = known_at ?e start_at"
    using late takeWhile_beyond [of late] by (simp add: known_at_def)
  have "length (known_at ?e start_at) \<le> length early" by (simp add: known_at_def length_takeWhile_le)
  then have rest: "drop (length (known_at ?f start_at)) (early @ late) =
      drop (length (known_at ?e start_at)) early @ late"
    by (simp add: known)
  have "resolve ?f start_at = resolve ?e start_at"
    using resolve_known [OF sorted(1)] resolve_known [OF sorted(2)] known by simp
  then show ?thesis
    using False rest bisect_known [OF sorted(1)] bisect_known [OF sorted(2)]
    by (simp add: historical_funding_cost_def funding_loop_truncate [OF assms(2)])
qed (simp add: historical_funding_cost_def)

theorem funding_no_lookahead_witness:
  "historical_funding_cost sample_dataset (flt 1000) 1 0 7000000000 =
   historical_funding_cost (sample_dataset\<lparr>ds_observations := take 2 (ds_observations sample_dataset)\<rparr>)
     (flt 1000) 1 0 7000000000"
proof -
  have all: "sample_dataset\<lparr>ds_observations := take 2 (ds_observations sample_dataset) @ drop 2 (ds_observations sample_dataset)\<rparr>
      = sample_dataset" by (simp add: sample_dataset_def)
  have "sorted (map ob_observed_at (take 2 (ds_observations sample_dataset) @ drop 2 (ds_observations sample_dataset)))"
    and "\<forall>ob \<in> set (drop 2 (ds_observations sample_dataset)). (7000000000 :: int) \<le> ob_observed_at ob"
    by (simp_all add: sample_dataset_def sample_observation_def)
  from funding_no_lookahead [OF this, of sample_dataset "flt 1000" 1 0] show ?thesis unfolding all .
qed

section \<open>Fills\<close>

lemma pyfloat_mult_commute: "(a :: pyfloat) * b = b * a"
  by transfer (simp add: mult.commute)

lemma pyfloat_mult_left_mono: "(a :: pyfloat) \<le> b \<Longrightarrow> 0 \<le> c \<Longrightarrow> c * a \<le> c * b"
  using pyfloat_mult_right_mono by (simp add: pyfloat_mult_commute)

lemma pyfloat_negate: "(- 1 :: pyfloat) * a = - a"
  by transfer (simp add: fl_minus)

lemma pyfloat_minus_nonpos: "- a \<le> (0 :: pyfloat) \<longleftrightarrow> 0 \<le> a"
  by transfer simp

lemma pyfloat_add_commute: "(a :: pyfloat) + b = b + a"
  by transfer (simp add: add.commute)

lemma pyfloat_add_nonpos: "b \<le> (0 :: pyfloat) \<Longrightarrow> a + b \<le> a"
  using pyfloat_add_mono [of a a b 0] by simp

lemma pyfloat_zero_divide [simp]: "(0 :: pyfloat) / a = 0"
  by transfer simp

lemma pyfloat_divide_nonpos: "a \<le> (0 :: pyfloat) \<Longrightarrow> 0 \<le> b \<Longrightarrow> a / b \<le> 0"
  using pyfloat_divide_right_mono [of a 0 b] by simp

lemma in_range_nonneg: "in_range x 0 h \<Longrightarrow> 0 \<le> x"
  by (simp add: in_range_def fval_simps)

lemma ten_thousand_pos: "(0 :: pyfloat) \<le> flt 10000"
  by code_simp

lemma participation_unit:
  assumes "0 \<le> notional"
  shows "0 \<le> participation_of notional candle \<and> participation_of notional candle \<le> 1"
proof -
  have "(0 :: pyfloat) \<le> 1" by code_simp
  then show ?thesis
    using assms pyfloat_divide_nonneg
    by (auto simp: participation_of_def Let_def min_def not_le less_imp_le split: option.splits)
qed

lemma fill_order_cases:
  assumes "fill_order m side p n q c = Inr f"
  obtains root hs where "0 < p" "0 \<le> n" "py_sqrt (participation_of n c) = Inr root" "half_spread_of m c = Inr hs"
    "f = price_fill (em_assumptions m) side p n q (participation_of n c)
           (ea_volume_impact_bps (em_assumptions m) * root) hs"
  using assms by (auto simp: fill_order_def Let_def bind_result_Inr not_le not_less split: if_splits)

definition valid_execution_model :: "execution_model \<Rightarrow> bool" where
  "valid_execution_model m \<longleftrightarrow> valid_execution_assumptions (em_assumptions m) \<and>
     (case em_historical m of None \<Rightarrow> True | Some ds \<Rightarrow> valid_execution_dataset ds)"

lemma half_spread_nonneg:
  assumes "valid_execution_model m" "half_spread_of m c = Inr hs"
  shows "0 \<le> hs"
proof (cases "em_historical m")
  case None
  with assms show ?thesis
    by (auto simp: valid_execution_model_def half_spread_of_def valid_execution_assumptions_def in_range_nonneg)
next
  case (Some ds)
  obtain candle where c: "c = Some candle" using assms(2) Some by (cases c) (auto simp: half_spread_of_def)
  with assms(2) Some obtain ob where "resolve ds (cd_closed_at candle) = Inr ob" "hs = ob_half_spread_bps ob"
    by (auto simp: half_spread_of_def bind_result_Inr)
  moreover have "valid_execution_dataset ds" using assms(1) Some by (simp add: valid_execution_model_def)
  ultimately have "ob \<in> set (ds_observations ds)" "list_all valid_execution_observation (ds_observations ds)"
    by (auto simp: valid_execution_dataset_def Let_def intro: resolve_member)
  then have "valid_execution_observation ob" by (simp add: list_all_iff)
  with \<open>hs = ob_half_spread_bps ob\<close> show ?thesis
    by (auto simp: valid_execution_observation_def intro: in_range_nonneg)
qed

lemma fill_costs_nonneg:
  assumes "valid_execution_model m" "fill_order m side p n q c = Inr f"
  obtains root hs where "f = price_fill (em_assumptions m) side p n q (participation_of n c)
           (ea_volume_impact_bps (em_assumptions m) * root) hs" "0 < p" "0 \<le> n" "0 \<le> hs"
    "0 \<le> ea_base_slippage_bps (em_assumptions m)" "0 \<le> ea_taker_fee_bps (em_assumptions m)"
    "0 \<le> ea_volume_impact_bps (em_assumptions m) * root"
    "0 \<le> participation_of n c" "participation_of n c \<le> 1"
proof -
  obtain root hs where f: "0 < p" "0 \<le> n" "py_sqrt (participation_of n c) = Inr root" "half_spread_of m c = Inr hs"
    "f = price_fill (em_assumptions m) side p n q (participation_of n c)
           (ea_volume_impact_bps (em_assumptions m) * root) hs"
    using fill_order_cases [OF assms(2)] by metis
  have unit: "0 \<le> participation_of n c" "participation_of n c \<le> 1" using participation_unit [OF f(2)] by auto
  have root: "0 \<le> root" using py_sqrt_unit(1) [OF f(3) unit(2)] .
  have valid: "valid_execution_assumptions (em_assumptions m)" using assms(1) by (simp add: valid_execution_model_def)
  have ranges: "0 \<le> ea_base_slippage_bps (em_assumptions m)" "0 \<le> ea_taker_fee_bps (em_assumptions m)"
    "0 \<le> ea_volume_impact_bps (em_assumptions m)"
    using valid by (auto simp: valid_execution_assumptions_def intro: in_range_nonneg)
  show thesis
    using that [OF f(5,1,2) half_spread_nonneg [OF assms(1) f(4)] ranges(1,2) _ unit] ranges(3) root
    by (simp add: pyfloat_mult_nonneg)
qed

text \<open>
  Simulated fills are conservative: with valid assumptions and data, the participation rate is
  between 0 and 1, a buy is never filled below the reference price and a sell never above it, and
  spread, slippage and volume impact are costs, the impact being part of the slippage.
\<close>

theorem fill_is_adverse:
  assumes "valid_execution_model m" "fill_order m side p n q c = Inr f"
  shows "0 \<le> sf_participation_rate f \<and> sf_participation_rate f \<le> 1 \<and>
         (side = BUY \<longrightarrow> p \<le> sf_fill_price f) \<and> (side = SELL \<longrightarrow> sf_fill_price f \<le> p) \<and>
         0 \<le> sf_spread_cost f \<and> 0 \<le> sf_volume_impact_cost f \<and>
         sf_volume_impact_cost f \<le> sf_slippage_cost f \<and> (q = None \<longrightarrow> 0 \<le> sf_fee_cost f)"
proof -
  obtain root hs where f: "f = price_fill (em_assumptions m) side p n q (participation_of n c)
           (ea_volume_impact_bps (em_assumptions m) * root) hs" "0 < p" "0 \<le> n" "0 \<le> hs"
    "0 \<le> ea_base_slippage_bps (em_assumptions m)" "0 \<le> ea_taker_fee_bps (em_assumptions m)"
    "0 \<le> ea_volume_impact_bps (em_assumptions m) * root"
    "0 \<le> participation_of n c" "participation_of n c \<le> 1"
    using fill_costs_nonneg [OF assms] by metis
  define adverse where
    "adverse = hs + ea_base_slippage_bps (em_assumptions m) + ea_volume_impact_bps (em_assumptions m) * root"
  have adverse: "0 \<le> adverse" using f(4,5,7) by (simp add: adverse_def pyfloat_add_nonneg)
  have price: "sf_fill_price f = p * (1 + side_sign side * adverse / flt 10000)"
    by (simp add: f(1) price_fill_def Let_def adverse_def)
  have "p \<le> sf_fill_price f" if "side = BUY"
    using pyfloat_mult_left_mono [OF pyfloat_le_add, of "adverse / flt 10000" p 1] adverse f(2) that ten_thousand_pos
    by (simp add: price side_sign_def pyfloat_divide_nonneg)
  moreover have "sf_fill_price f \<le> p" if "side = SELL"
    using pyfloat_mult_left_mono [OF pyfloat_add_nonpos, of "- adverse / flt 10000" p 1] adverse f(2) that ten_thousand_pos
      pyfloat_divide_nonpos [of "- adverse" "flt 10000"]
    by (simp add: price side_sign_def pyfloat_negate pyfloat_minus_nonpos)
  moreover have "0 \<le> n * x / flt 10000" if "0 \<le> x" for x
    using f(3) that ten_thousand_pos by (simp add: pyfloat_mult_nonneg pyfloat_divide_nonneg)
  ultimately show ?thesis
    using f(3-9) pyfloat_le_add [of "n * ea_base_slippage_bps (em_assumptions m) / flt 10000"]
    by (simp add: f(1) price_fill_def Let_def
        pyfloat_add_commute [of "n * ea_base_slippage_bps (em_assumptions m) / flt 10000"])
qed

definition sample_model :: execution_model where
  "sample_model = \<lparr>em_assumptions = default_execution_assumptions, em_historical = None\<rparr>"

lemma sample_model_valid: "valid_execution_model sample_model"
  by code_simp

definition sample_candle :: candle where
  "sample_candle =
     \<lparr>cd_exchange = BINANCE, cd_symbol = ''BTCUSDT'', cd_timeframe = ''15m'', cd_open = flt 100,
      cd_high = flt 104, cd_low = flt 96, cd_close = flt 100, cd_volume = flt 10, cd_closed_at = 900000000,
      cd_received_at = 900000000\<rparr>"

theorem fill_is_adverse_witness:
  "\<exists>f. fill_order sample_model SELL (flt 100) (flt 250) None (Some sample_candle) = Inr f \<and> sf_fill_price f \<le> flt 100"
proof -
  have "is_ok (fill_order sample_model SELL (flt 100) (flt 250) None (Some sample_candle))" by code_simp
  then obtain f where f: "fill_order sample_model SELL (flt 100) (flt 250) None (Some sample_candle) = Inr f"
    unfolding is_ok_iff by metis
  with fill_is_adverse [OF sample_model_valid f] show ?thesis by simp
qed

text \<open>
  The bounds of the assumptions do not keep a fill positive: at their upper ends a sale is filled at
  a negative price.
\<close>

lemma fill_price_may_be_negative:
  "valid_execution_assumptions
      \<lparr>ea_taker_fee_bps = flt 8, ea_half_spread_bps = flt 1000, ea_base_slippage_bps = flt 1000,
       ea_volume_impact_bps = flt 10000, ea_funding_rate_bps_per_8h = 0\<rparr> \<and>
   map_sum (\<lambda>e. e) (\<lambda>f. sf_fill_price f < 0)
     (fill_order \<lparr>em_assumptions =
          \<lparr>ea_taker_fee_bps = flt 8, ea_half_spread_bps = flt 1000, ea_base_slippage_bps = flt 1000,
           ea_volume_impact_bps = flt 10000, ea_funding_rate_bps_per_8h = 0\<rparr>, em_historical = None\<rparr>
        SELL (flt 100) (flt 250) None None) = Inr True"
  by code_simp

section \<open>Liquidation\<close>

text \<open>
  A liquidation happens at a price the candle traded, never better than the liquidation price: when
  a valid candle triggers it, the reference price lies between the candle's low and high, and is at
  most the liquidation price for a long position, at least it for a short one. It is triggered exactly
  when the candle reaches a positive liquidation price.
\<close>

theorem liquidation_within_candle:
  assumes "valid_candle c" "po_liquidation_price order = Some p" "0 < p"
  shows "(case liquidation_reference order c of
            Some x \<Rightarrow> cd_low c \<le> x \<and> x \<le> cd_high c \<and> (if po_side order = BUY then x \<le> p else p \<le> x)
          | None \<Rightarrow> (if po_side order = BUY then p < cd_low c else cd_high c < p))"
proof (cases "po_side order")
  case BUY
  with assms show ?thesis
    by (auto simp: valid_candle_def liquidation_reference_def min_def not_le split: if_splits)
next
  case SELL
  with assms show ?thesis
    by (auto simp: valid_candle_def liquidation_reference_def max_def not_le split: if_splits)
qed

definition sample_long :: paper_order where
  "sample_long =
     \<lparr>po_paper_order_id = ''p1'', po_decision_id = ''d1'', po_risk_check_id = ''r1'', po_approval_id = Some ''a1'',
      po_request_fingerprint = Some ''f1'', po_correlation_id = ''c1'', po_exchange = BINANCE,
      po_symbol = ''BTCUSDT'', po_timeframe = Some ''15m'', po_strategy = ''trend'', po_side = BUY,
      po_entry_price = flt 100, po_stop_loss = Some (flt 98), po_take_profit = Some (flt 103),
      po_position_size = flt 250, po_leverage = flt 20, po_initial_margin = None,
      po_maintenance_margin_ratio = None, po_liquidation_price = Some (flt 97), po_liquidation_fee = 0,
      po_status = PsFILLED, po_fees_estimated = 0, po_slippage_estimated = 0, po_opened_at = Some 0,
      po_closed_at = None, po_pnl = None, po_exit_price = None, po_exit_reason = None, po_created_at = 0\<rparr>"

theorem liquidation_within_candle_witness:
  "liquidation_reference sample_long sample_candle = Some (flt 97) \<and> cd_low sample_candle \<le> flt 97"
proof -
  have "valid_candle sample_candle" "(0 :: pyfloat) < flt 97" by code_simp+
  moreover have "po_liquidation_price sample_long = Some (flt 97)" by (simp add: sample_long_def)
  moreover have r: "liquidation_reference sample_long sample_candle = Some (flt 97)" by code_simp
  ultimately show ?thesis using liquidation_within_candle [of sample_candle sample_long "flt 97"] by simp
qed

end
