(* ===== verification/Paper_Engine.thy ===== *)
theory Paper_Engine
  imports Risk_Latch Execution_Properties
begin

text \<open>
  The PAPER trading engine, \<^verbatim>\<open>app/paper_trading/engine.py\<close>: order creation under a consumed approval,
  stop, target and liquidation on closed candles, funding, the account and its performance reports.

  The engine, the risk manager and the order management share one audit service and one repository
  (\<^verbatim>\<open>api/context.py\<close>, \<^verbatim>\<open>backtesting/engine.py\<close>); both live in the risk manager's record, so a call that goes
  through either object sees the same store. Each reading of the clock is an argument.
\<close>

section \<open>State\<close>

record cost_ledger =
  cl_fees :: pyfloat
  cl_spread :: pyfloat
  cl_slippage :: pyfloat
  cl_volume_impact :: pyfloat
  cl_funding :: pyfloat
  cl_liquidation_fees :: pyfloat

definition empty_ledger :: cost_ledger where
  "empty_ledger =
     \<lparr>cl_fees = 0, cl_spread = 0, cl_slippage = 0, cl_volume_impact = 0, cl_funding = 0, cl_liquidation_fees = 0\<rparr>"

record paper_engine =
  pt_risk :: risk_manager
  pt_repository :: bool
  pt_initial_balance :: pyfloat
  pt_balance :: pyfloat
  pt_fee_rate :: pyfloat
  pt_slippage_rate :: pyfloat
  pt_execution_model :: "execution_model option"
  pt_margin_model :: "margin_assumptions option"
  pt_open_orders :: "paper_order dict"
  pt_closed_orders :: "paper_order list"
  pt_execution_costs :: "cost_ledger dict"
  pt_last_funding_at :: "time dict"
  pt_processed_keys :: "(string \<times> string) set"
  pt_peak_equity :: pyfloat
  pt_max_drawdown_percent :: pyfloat
  pt_equity_curve :: "(time \<times> pyfloat) list"

definition new_paper_engine ::
  "risk_manager \<Rightarrow> pyfloat \<Rightarrow> pyfloat \<Rightarrow> pyfloat \<Rightarrow> execution_model option \<Rightarrow> margin_assumptions option \<Rightarrow> time
     \<Rightarrow> bool \<Rightarrow> paper_engine" where
  "new_paper_engine risk initial_balance fee_rate_percent slippage_rate_percent execution_model margin_model started_at
      repository =
     \<lparr>pt_risk = risk, pt_repository = repository, pt_initial_balance = initial_balance,
      pt_balance = initial_balance, pt_fee_rate = fee_rate_percent / flt 100,
      pt_slippage_rate = slippage_rate_percent / flt 100, pt_execution_model = execution_model,
      pt_margin_model = margin_model, pt_open_orders = [], pt_closed_orders = [], pt_execution_costs = [],
      pt_last_funding_at = [], pt_processed_keys = {}, pt_peak_equity = initial_balance,
      pt_max_drawdown_percent = 0, pt_equity_curve = [(started_at, initial_balance)]\<rparr>"

definition simulated_leverage :: "paper_engine \<Rightarrow> pyfloat" where
  "simulated_leverage e =
     (case pt_margin_model e of Some m \<Rightarrow> ma_leverage m | None \<Rightarrow> rl_default_leverage (rm_limits (pt_risk e)))"

definition with_risk :: "(risk_manager, 'a) outcome \<Rightarrow> paper_engine \<Rightarrow> (paper_engine, 'a) outcome" where
  "with_risk m e = (case m of (rm, r) \<Rightarrow> (e\<lparr>pt_risk := rm\<rparr>, r))"

definition audit_paper :: "string \<Rightarrow> paper_order \<Rightarrow> paper_engine \<Rightarrow> (paper_engine, unit) outcome" where
  "audit_paper audit_type order e =
     (case record_audit \<lparr>au_correlation_id = po_correlation_id order, au_audit_type = audit_type,
             au_entity_type = ''paper_order'', au_entity_id = Some (po_paper_order_id order)\<rparr>
             (rm_audit (pt_risk e), rm_db (pt_risk e)) of
        ((a, d), r) \<Rightarrow> (e\<lparr>pt_risk := (pt_risk e)\<lparr>rm_audit := a, rm_db := d\<rparr>\<rparr>, r))"

section \<open>Opening an order\<close>

fun side_of_action :: "candidate_action \<Rightarrow> order_side result" where
  "side_of_action ActBUY = Inr BUY"
| "side_of_action ActSELL = Inr SELL"
| "side_of_action a = raise ValueError (action_value a @ '' is not a valid OrderSide'')"

text \<open>Entry price, fees, slippage estimate, ledger and the number of decimals of the entry price.\<close>

record entry =
  en_price :: pyfloat
  en_fees :: pyfloat
  en_slippage :: pyfloat
  en_ledger :: cost_ledger
  en_precision :: nat

definition price_entry ::
  "paper_engine \<Rightarrow> order_side \<Rightarrow> pyfloat \<Rightarrow> pyfloat \<Rightarrow> candle option \<Rightarrow> entry result" where
  "price_entry e side position_size current_price market_candle =
     (case pt_execution_model e of
        Some m \<Rightarrow>
          bind_result (open_fill m side current_price position_size market_candle) (\<lambda>f.
            Inr \<lparr>en_price = sf_fill_price f, en_fees = sf_fee_cost f,
                 en_slippage = sf_spread_cost f + sf_slippage_cost f,
                 en_ledger = empty_ledger\<lparr>cl_fees := sf_fee_cost f, cl_spread := sf_spread_cost f,
                   cl_slippage := sf_slippage_cost f, cl_volume_impact := sf_volume_impact_cost f\<rparr>,
                 en_precision = 8\<rparr>)
      | None \<Rightarrow>
          let slippage_cost = current_price * pt_slippage_rate e
          in Inr \<lparr>en_price = (if side = BUY then current_price + slippage_cost else current_price - slippage_cost),
                  en_fees = position_size * pt_fee_rate e, en_slippage = slippage_cost,
                  en_ledger = empty_ledger, en_precision = 2\<rparr>)"

definition build_order ::
  "(string \<Rightarrow> string) \<Rightarrow> paper_engine \<Rightarrow> decision \<Rightarrow> risk_check \<Rightarrow> order_side \<Rightarrow> pyfloat \<Rightarrow> entry \<Rightarrow> time \<Rightarrow> time
     \<Rightarrow> paper_order result" where
  "build_order U e dec c side position_size en opened_at created_at =
     validate valid_paper_order
       \<lparr>po_paper_order_id = U (''paper-order:'' @ (case rc_approval_id c of None \<Rightarrow> ''None'' | Some i \<Rightarrow> i)),
        po_decision_id = dec_decision_id dec, po_risk_check_id = rc_risk_check_id c,
        po_approval_id = rc_approval_id c, po_request_fingerprint = Some (rc_request_fingerprint c),
        po_correlation_id = dec_correlation_id dec, po_exchange = BINANCE, po_symbol = dec_symbol dec,
        po_timeframe = Some (dec_timeframe dec), po_strategy = dec_strategy dec, po_side = side,
        po_entry_price = py_round (en_price en) (en_precision en), po_stop_loss = rc_stop_loss c,
        po_take_profit = rc_take_profit c, po_position_size = position_size,
        po_leverage =
          (case pt_margin_model e of
             Some m \<Rightarrow> ma_leverage m
           | None \<Rightarrow> (case rc_leverage c of
                        None \<Rightarrow> rl_default_leverage (rm_limits (pt_risk e))
                      | Some l \<Rightarrow> if l = 0 then rl_default_leverage (rm_limits (pt_risk e)) else l)),
        po_initial_margin = map_option (\<lambda>m. py_round (initial_margin m position_size) 8) (pt_margin_model e),
        po_maintenance_margin_ratio = map_option ma_maintenance_margin_ratio (pt_margin_model e),
        po_liquidation_price =
          map_option (\<lambda>m. py_round (liquidation_price m side (en_price en)) 8) (pt_margin_model e),
        po_liquidation_fee = 0, po_status = PsFILLED, po_fees_estimated = py_round (en_fees en) 4,
        po_slippage_estimated = py_round (en_slippage en) 4, po_opened_at = Some opened_at,
        po_closed_at = None, po_pnl = None, po_exit_price = None, po_exit_reason = None,
        po_created_at = created_at\<rparr>"

definition enter_book :: "paper_order \<Rightarrow> cost_ledger \<Rightarrow> time \<Rightarrow> paper_engine \<Rightarrow> paper_engine" where
  "enter_book order ledger opened_at e =
     (let i = po_paper_order_id order;
          e1 = e\<lparr>pt_processed_keys := insert (po_decision_id order, po_risk_check_id order) (pt_processed_keys e),
                 pt_open_orders := dict_set i order (pt_open_orders e)\<rparr>
      in if pt_execution_model e = None then e1
         else e1\<lparr>pt_execution_costs := dict_set i ledger (pt_execution_costs e1),
                 pt_last_funding_at := dict_set i opened_at (pt_last_funding_at e1)\<rparr>)"

text \<open>
  \<open>now\<close>, \<open>created_at\<close>, \<open>t\<close> and \<open>t'\<close> are the successive readings of the clock: for the opening time, by the
  schema, by the risk manager and by the repository.
\<close>

definition create_order ::
  "(json \<Rightarrow> string) \<Rightarrow> (string \<Rightarrow> string) \<Rightarrow> time \<Rightarrow> time \<Rightarrow> time \<Rightarrow> time \<Rightarrow> decision \<Rightarrow> risk_check \<Rightarrow> pyfloat
     \<Rightarrow> candle option \<Rightarrow> time option \<Rightarrow> paper_engine \<Rightarrow> (paper_engine, paper_order) outcome" where
  "create_order H U now created_at t t' dec c current_price market_candle occurred_at e =
     (if \<not> approving (rc_risk_status c)
      then (e, raise RiskError (''Paper order rejected: risk_status='' @ risk_status_value (rc_risk_status c)))
      else if rc_decision_id c \<noteq> dec_decision_id dec
      then (e, raise ValidationError ''Risk check does not belong to this decision'')
      else if (dec_decision_id dec, rc_risk_check_id c) \<in> pt_processed_keys e
      then (e, raise ValidationError ''Duplicate paper order for the same decision and risk check'')
      else
        let position_size = or_default (rc_position_size c) 0; opened_at = or_default occurred_at now
        in case bind_result (side_of_action (dec_candidate_action dec)) (\<lambda>side.
                bind_result (price_entry e side position_size current_price market_candle) (\<lambda>en.
                bind_result (build_order U e dec c side position_size en opened_at created_at) (\<lambda>order.
                  Inr (order, en_ledger en)))) of
             Inl ex \<Rightarrow> (e, Inl ex)
           | Inr (order, ledger) \<Rightarrow>
               bind_outcome (audit_paper ''PAPER_ORDER_CREATED'' order e) (\<lambda>e1 _.
               bind_outcome (with_risk (consume_approval H t t' dec c order current_price (pt_risk e1)) e1) (\<lambda>e2 _.
                 let e3 = enter_book order ledger opened_at e2
                 in bind_outcome (with_risk (register_position order (pt_risk e3)) e3) (\<lambda>e4 _. (e4, Inr order)))))"

section \<open>Funding\<close>

definition accrue_funding :: "paper_order \<Rightarrow> time \<Rightarrow> paper_engine \<Rightarrow> (paper_engine, unit) outcome" where
  "accrue_funding order end_at e =
     (let i = po_paper_order_id order
      in case pt_execution_model e of
           None \<Rightarrow> (e, Inr ())
         | Some m \<Rightarrow>
             (case dict_get (pt_last_funding_at e) i of
                None \<Rightarrow> (e, Inr ())
              | Some start_at \<Rightarrow>
                  if end_at \<le> start_at then (e, Inr ())
                  else (case dict_get (pt_execution_costs e) i of
                          None \<Rightarrow> (e, raise KeyError i)
                        | Some ledger \<Rightarrow>
                            (case funding_cost m order start_at end_at of
                               Inl ex \<Rightarrow> (e, Inl ex)
                             | Inr cost \<Rightarrow>
                                 (e\<lparr>pt_execution_costs :=
                                      dict_set i (ledger\<lparr>cl_funding := cl_funding ledger + cost\<rparr>) (pt_execution_costs e),
                                    pt_last_funding_at := dict_set i end_at (pt_last_funding_at e)\<rparr>, Inr ())))))"

section \<open>Closing an order\<close>

record settlement =
  se_exit_price :: pyfloat
  se_exit_fees :: pyfloat
  se_slippage :: pyfloat
  se_liquidation_fee :: pyfloat
  se_ledger :: cost_ledger

definition ledger_of :: "string \<Rightarrow> paper_engine \<Rightarrow> cost_ledger" where
  "ledger_of i e = or_default (dict_get (pt_execution_costs e) i) empty_ledger"

definition settle_exit ::
  "paper_engine \<Rightarrow> paper_order \<Rightarrow> pyfloat \<Rightarrow> pyfloat \<Rightarrow> string option \<Rightarrow> candle option \<Rightarrow> settlement result" where
  "settle_exit e order qty exit_price exit_reason market_candle =
     (let stored = ledger_of (po_paper_order_id order) e;
          liquidated = (\<lambda>s. case pt_margin_model e of
             Some m \<Rightarrow>
               if exit_reason = Some ''LIQUIDATION''
               then let fee = liquidation_fee m (qty * se_exit_price s)
                    in s\<lparr>se_liquidation_fee := fee,
                         se_ledger := (se_ledger s)\<lparr>cl_liquidation_fees := cl_liquidation_fees (se_ledger s) + fee\<rparr>\<rparr>
               else s
           | None \<Rightarrow> s)
      in case pt_execution_model e of
           Some m \<Rightarrow>
             bind_result (close_fill m (po_side order) exit_price qty market_candle) (\<lambda>f.
               let ledger = stored\<lparr>cl_fees := cl_fees stored + sf_fee_cost f,
                     cl_spread := cl_spread stored + sf_spread_cost f,
                     cl_slippage := cl_slippage stored + sf_slippage_cost f,
                     cl_volume_impact := cl_volume_impact stored + sf_volume_impact_cost f\<rparr>
               in Inr (liquidated \<lparr>se_exit_price = sf_fill_price f, se_exit_fees = sf_fee_cost f,
                    se_slippage = cl_spread ledger + cl_slippage ledger, se_liquidation_fee = 0,
                    se_ledger = ledger\<rparr>))
         | None \<Rightarrow>
             Inr (liquidated \<lparr>se_exit_price = exit_price, se_exit_fees = po_position_size order * pt_fee_rate e,
                    se_slippage = po_slippage_estimated order, se_liquidation_fee = 0, se_ledger = stored\<rparr>))"

definition net_pnl :: "paper_order \<Rightarrow> pyfloat \<Rightarrow> settlement \<Rightarrow> pyfloat" where
  "net_pnl order qty s =
     (se_exit_price s - po_entry_price order) * qty * side_sign (po_side order)
       - po_fees_estimated order - se_exit_fees s - cl_funding (se_ledger s) - se_liquidation_fee s"

definition closed_order :: "paper_order \<Rightarrow> pyfloat \<Rightarrow> string option \<Rightarrow> settlement \<Rightarrow> time \<Rightarrow> paper_order" where
  "closed_order order pnl exit_reason s closed_at =
     order\<lparr>po_status := PsCLOSED, po_closed_at := Some closed_at, po_pnl := Some (py_round pnl 4),
           po_exit_price := Some (py_round (se_exit_price s) 8), po_exit_reason := exit_reason,
           po_fees_estimated := py_round (po_fees_estimated order + se_exit_fees s) 4,
           po_slippage_estimated := py_round (se_slippage s) 4,
           po_liquidation_fee := py_round (se_liquidation_fee s) 4\<rparr>"

text \<open>The account after the terminal state has been recorded, in the order of the assignments.\<close>

definition leave_book :: "paper_order \<Rightarrow> cost_ledger \<Rightarrow> paper_engine \<Rightarrow> paper_engine" where
  "leave_book settled ledger e =
     (let i = po_paper_order_id settled;
          e1 = (if pt_execution_model e = None then e
                else e\<lparr>pt_execution_costs := dict_set i ledger (pt_execution_costs e),
                       pt_last_funding_at := dict_pop i (pt_last_funding_at e)\<rparr>)
      in e1\<lparr>pt_open_orders := dict_pop i (pt_open_orders e1), pt_closed_orders := pt_closed_orders e1 @ [settled]\<rparr>)"

definition book_result :: "time \<Rightarrow> pyfloat \<Rightarrow> paper_order \<Rightarrow> paper_engine \<Rightarrow> (paper_engine, paper_order) outcome" where
  "book_result closed_at pnl settled e =
     (let e1 = e\<lparr>pt_balance := pt_balance e + pnl,
                 pt_risk := unregister_position (po_paper_order_id settled) (pt_risk e)\<rparr>
      in bind_outcome (with_risk (register_trade_result pnl (pt_risk e1)) e1) (\<lambda>e2 _.
         let peak = max (pt_peak_equity e2) (pt_balance e2); e3 = e2\<lparr>pt_peak_equity := peak\<rparr>
         in if peak = 0 then (e3, raise ZeroDivisionError ''float division by zero'')
            else
              (e3\<lparr>pt_max_drawdown_percent :=
                    max (pt_max_drawdown_percent e3) ((peak - pt_balance e3) / peak * flt 100),
                  pt_risk := update_equity (pt_balance e3) (pt_risk e3),
                  pt_equity_curve := pt_equity_curve e3 @ [(closed_at, py_round (pt_balance e3) 4)]\<rparr>,
               Inr settled)))"

definition store_closed :: "paper_order \<Rightarrow> paper_engine \<Rightarrow> (paper_engine, unit) outcome" where
  "store_closed settled e =
     (if \<not> pt_repository e then (e, Inr ())
      else case save_paper_order settled (rm_db (pt_risk e)) of
             (d, r) \<Rightarrow> (e\<lparr>pt_risk := (pt_risk e)\<lparr>rm_db := d\<rparr>\<rparr>, r))"

definition close_order ::
  "time \<Rightarrow> string \<Rightarrow> pyfloat \<Rightarrow> string option \<Rightarrow> candle option \<Rightarrow> time option \<Rightarrow> paper_engine
     \<Rightarrow> (paper_engine, paper_order) outcome" where
  "close_order now paper_order_id exit_price exit_reason market_candle occurred_at e =
     (if exit_price \<le> 0 then (e, raise ValidationError ''Paper order exit price must be positive'')
      else case dict_get (pt_open_orders e) paper_order_id of
             None \<Rightarrow> (e, raise ValidationError (''Paper order '' @ paper_order_id @ '' is not open''))
           | Some order \<Rightarrow>
               if po_entry_price order = 0 then (e, raise ZeroDivisionError ''float division by zero'')
               else
                 let qty = po_position_size order / po_entry_price order; closed_at = or_default occurred_at now
                 in bind_outcome (case occurred_at of None \<Rightarrow> (e, Inr ()) | Some at' \<Rightarrow> accrue_funding order at' e) (\<lambda>e1 _.
                    case settle_exit e1 order qty exit_price exit_reason market_candle of
                      Inl ex \<Rightarrow> (e1, Inl ex)
                    | Inr s \<Rightarrow>
                        let pnl = net_pnl order qty s; settled = closed_order order pnl exit_reason s closed_at
                        in bind_outcome (audit_paper ''PAPER_ORDER_CLOSED'' settled e1) (\<lambda>e2 _.
                           bind_outcome (store_closed settled e2) (\<lambda>e3 _.
                             book_result closed_at pnl settled (leave_book settled (se_ledger s) e3)))))"

section \<open>Candles\<close>

text \<open>Liquidation first, then the stop, then the target.\<close>

definition exit_of :: "paper_engine \<Rightarrow> paper_order \<Rightarrow> candle \<Rightarrow> (pyfloat \<times> string) option" where
  "exit_of e order c =
     (case (case pt_margin_model e of None \<Rightarrow> None | Some _ \<Rightarrow> liquidation_reference order c) of
        Some p \<Rightarrow> Some (p, ''LIQUIDATION'')
      | None \<Rightarrow>
          let stopped = (case po_stop_loss order of
                None \<Rightarrow> False
              | Some sl \<Rightarrow> if po_side order = BUY then cd_low c \<le> sl else sl \<le> cd_high c);
              target = (case po_take_profit order of
                None \<Rightarrow> False
              | Some tp \<Rightarrow> if po_side order = BUY then tp \<le> cd_high c else cd_low c \<le> tp)
          in if stopped then Some (the (po_stop_loss order), ''STOP_LOSS'')
             else if target then Some (the (po_take_profit order), ''TAKE_PROFIT'')
             else None)"

fun check_orders ::
  "time \<Rightarrow> candle \<Rightarrow> paper_order list \<Rightarrow> paper_order list \<Rightarrow> paper_engine \<Rightarrow> (paper_engine, paper_order list) outcome" where
  "check_orders now c [] settled e = (e, Inr settled)"
| "check_orders now c (order # orders) settled e =
     (if po_symbol order \<noteq> cd_symbol c then check_orders now c orders settled e
      else case accrue_funding order (cd_closed_at c) e of
             (e1, Inl ex) \<Rightarrow> (e1, Inl ex)
           | (e1, Inr _) \<Rightarrow>
               (case exit_of e1 order c of
                  None \<Rightarrow> check_orders now c orders settled e1
                | Some (price, reason) \<Rightarrow>
                    (case close_order now (po_paper_order_id order) price (Some reason) (Some c)
                            (Some (cd_closed_at c)) e1 of
                       (e2, Inl ex) \<Rightarrow> (e2, Inl ex)
                     | (e2, Inr settled') \<Rightarrow> check_orders now c orders (settled @ [settled']) e2)))"

definition on_candle :: "time \<Rightarrow> candle \<Rightarrow> paper_engine \<Rightarrow> (paper_engine, paper_order list) outcome" where
  "on_candle now c e = check_orders now c (dict_values (pt_open_orders e)) [] e"

section \<open>Reports\<close>

record paper_performance =
  pp_total_trades :: int
  pp_open_trades :: int
  pp_closed_trades :: int
  pp_wins :: int
  pp_losses :: int
  pp_win_rate :: pyfloat
  pp_gross_pnl :: pyfloat
  pp_net_pnl :: pyfloat
  pp_fees_total :: pyfloat
  pp_slippage_total :: pyfloat
  pp_spread_total :: pyfloat
  pp_volume_impact_total :: pyfloat
  pp_funding_total :: pyfloat
  pp_liquidations :: int
  pp_liquidation_fees_total :: pyfloat
  pp_total_execution_cost :: pyfloat
  pp_max_drawdown_percent :: pyfloat
  pp_consecutive_losses :: int
  pp_balance :: pyfloat
  pp_initial_balance :: pyfloat

definition pnl_of :: "paper_order \<Rightarrow> pyfloat" where
  "pnl_of o' = or_default (po_pnl o') 0"

definition ratio_percent :: "nat \<Rightarrow> nat \<Rightarrow> pyfloat" where
  "ratio_percent a b = (if b = 0 then 0 else py_round (flt (of_nat a / of_nat b) * flt 100) 2)"

definition performance :: "paper_engine \<Rightarrow> paper_performance" where
  "performance e =
     (let settled = pt_closed_orders e;
          wins = filter (\<lambda>o'. 0 < pnl_of o') settled; losses = filter (\<lambda>o'. pnl_of o' \<le> 0) settled;
          cost = (\<lambda>o'. ledger_of (po_paper_order_id o') e);
          total_of = (\<lambda>f. py_sum (map f settled));
          fees_of = (\<lambda>o'. if pt_execution_model e = None then po_fees_estimated o' else cl_fees (cost o'));
          slippage_of = (\<lambda>o'. if pt_execution_model e = None then po_slippage_estimated o' else cl_slippage (cost o'));
          fees = py_round (total_of fees_of) 4;
          slippage = py_round (total_of slippage_of) 4;
          spread = py_round (total_of (\<lambda>o'. cl_spread (cost o'))) 4;
          funding = py_round (total_of (\<lambda>o'. cl_funding (cost o'))) 4;
          liquidation = py_round (total_of (\<lambda>o'. cl_liquidation_fees (cost o'))) 4
      in \<lparr>pp_total_trades = int (length settled + length (pt_open_orders e)),
          pp_open_trades = int (length (pt_open_orders e)), pp_closed_trades = int (length settled),
          pp_wins = int (length wins), pp_losses = int (length losses),
          pp_win_rate = ratio_percent (length wins) (length settled),
          pp_gross_pnl = py_round (total_of (\<lambda>o'. pnl_of o' + fees_of o' + cl_funding (cost o')
             + cl_liquidation_fees (cost o'))) 4,
          pp_net_pnl = py_round (total_of pnl_of) 4, pp_fees_total = fees, pp_slippage_total = slippage,
          pp_spread_total = spread,
          pp_volume_impact_total = py_round (total_of (\<lambda>o'. cl_volume_impact (cost o'))) 4,
          pp_funding_total = funding,
          pp_liquidations = int (length (filter (\<lambda>o'. po_exit_reason o' = Some ''LIQUIDATION'') settled)),
          pp_liquidation_fees_total = liquidation,
          pp_total_execution_cost = py_round (fees + slippage + spread + funding + liquidation) 4,
          pp_max_drawdown_percent = py_round (pt_max_drawdown_percent e) 4,
          pp_consecutive_losses = rs_consecutive_losses (rm_state (pt_risk e)),
          pp_balance = py_round (pt_balance e) 2, pp_initial_balance = pt_initial_balance e\<rparr>)"

record symbol_performance =
  sy_key :: string
  sy_trades :: int
  sy_wins :: int
  sy_losses :: int
  sy_win_rate :: pyfloat
  sy_net_pnl :: pyfloat
  sy_profit_factor :: "pyfloat option"

definition group_performance :: "string \<Rightarrow> paper_order list \<Rightarrow> symbol_performance" where
  "group_performance key orders =
     (let wins = filter (\<lambda>o'. 0 < pnl_of o') orders; losses = filter (\<lambda>o'. pnl_of o' \<le> 0) orders;
          gross_wins = py_sum (map pnl_of wins); gross_losses = \<bar>py_sum (map pnl_of losses)\<bar>
      in \<lparr>sy_key = key, sy_trades = int (length orders), sy_wins = int (length wins),
          sy_losses = int (length losses), sy_win_rate = ratio_percent (length wins) (length orders),
          sy_net_pnl = py_round (py_sum (map pnl_of orders)) 4,
          sy_profit_factor = (if 0 < gross_losses then Some (py_round (gross_wins / gross_losses) 3) else None)\<rparr>)"

definition group_by :: "('a \<Rightarrow> string) \<Rightarrow> 'a list \<Rightarrow> (string \<times> 'a list) list" where
  "group_by key xs = fold (\<lambda>x g. dict_set (key x) (or_default (dict_get g (key x)) [] @ [x]) g) xs []"

definition performance_by :: "string \<Rightarrow> paper_engine \<Rightarrow> symbol_performance list" where
  "performance_by dimension e =
     map (\<lambda>(k, orders). group_performance k orders)
       (sort_key fst
          (group_by (\<lambda>o'. if dimension = ''symbol'' then po_symbol o' else or_unknown (po_timeframe o'))
             (pt_closed_orders e)))"

end
