(* ===== verification/Paper_Properties.thy ===== *)
theory Paper_Properties
  imports Paper_Engine
begin

text \<open>
  Correctness of the PAPER engine: an order enters the book only under its live approval and once, a
  failed creation leaves the account untouched, closing moves exactly the recorded result into the
  balance, and every reachable account satisfies the book invariant.
\<close>

section \<open>Frames\<close>

lemma audit_paper_frame:
  obtains a d r where "audit_paper t order e = (e\<lparr>pt_risk := (pt_risk e)\<lparr>rm_audit := a, rm_db := d\<rparr>\<rparr>, r)"
proof -
  obtain a d r where "record_audit \<lparr>au_correlation_id = po_correlation_id order, au_audit_type = t,
      au_entity_type = ''paper_order'', au_entity_id = Some (po_paper_order_id order)\<rparr>
      (rm_audit (pt_risk e), rm_db (pt_risk e)) = ((a, d), r)" by (metis surj_pair)
  then show thesis using that by (simp add: audit_paper_def)
qed

definition book :: "paper_engine \<Rightarrow> paper_engine" where
  "book e = e\<lparr>pt_risk := undefined\<rparr>"

lemma book_eq_iff: "book e' = book e \<longleftrightarrow> (\<exists>rm. e' = e\<lparr>pt_risk := rm\<rparr>)"
proof
  assume "book e' = book e"
  then have "e' = e\<lparr>pt_risk := pt_risk e'\<rparr>"
    by (cases e, cases e') (simp add: book_def)
  then show "\<exists>rm. e' = e\<lparr>pt_risk := rm\<rparr>" by metis
qed (auto simp: book_def)

lemma book_risk [simp]: "book (e\<lparr>pt_risk := rm\<rparr>) = book e"
  by (simp add: book_def)

lemma book_fields:
  assumes "book e' = book e"
  shows "pt_open_orders e' = pt_open_orders e" "pt_closed_orders e' = pt_closed_orders e"
    "pt_balance e' = pt_balance e" "pt_processed_keys e' = pt_processed_keys e"
    "pt_execution_costs e' = pt_execution_costs e" "pt_last_funding_at e' = pt_last_funding_at e"
    "pt_peak_equity e' = pt_peak_equity e" "pt_max_drawdown_percent e' = pt_max_drawdown_percent e"
    "pt_execution_model e' = pt_execution_model e" "pt_margin_model e' = pt_margin_model e"
    "pt_initial_balance e' = pt_initial_balance e" "pt_equity_curve e' = pt_equity_curve e"
    "pt_repository e' = pt_repository e" "pt_fee_rate e' = pt_fee_rate e" "pt_slippage_rate e' = pt_slippage_rate e"
  using assms by (auto simp: book_eq_iff)

lemma audit_paper_book [simp]: "book (fst (audit_paper t order e)) = book e"
  by (rule audit_paper_frame [of t order e]) simp

lemma store_closed_book [simp]: "book (fst (store_closed o' e)) = book e"
  by (simp add: store_closed_def split: prod.splits)

section \<open>Creation\<close>

text \<open>An order whose approval was consumed can be registered as a position.\<close>

lemma mirrored_registers:
  assumes "paper_mirror a order = Inr mirror"
  shows "\<exists>p. paper_row_exposure order = Inr p"
proof -
  have "valid_oms_order mirror" "oo_requested_notional mirror = po_position_size order" "oo_leverage mirror = po_leverage order"
    using assms by (auto simp: paper_mirror_def Let_def split: if_splits option.splits)
  then have "0 < po_position_size order" "flt 1 \<le> po_leverage order" by (auto simp: valid_oms_order_def)
  then show ?thesis by (simp add: paper_row_exposure_def valid_position_exposure_def validate_def)
qed

lemma consumed_registers:
  assumes "consume_approval H t t' dec c order p rm = (rm', Inr u)"
  obtains rm3 where "register_position order rm' = (rm3, Inr ())"
    and "rm_checks_by_key rm3 = rm_checks_by_key rm'" "rm_approvals rm3 = rm_approvals rm'"
proof -
  obtain q where "paper_row_exposure order = Inr q"
    using consume_approval_cases [OF assms] mirrored_registers by metis
  then show thesis using that by (simp add: register_position_def with_positions_def set_open_positions_def)
qed

lemma consume_approval_initial:
  "rm_initial_balance (fst (consume_approval H t t' dec c order p rm)) = rm_initial_balance rm"
proof -
  let ?m = "''Paper order does not match its central approval''"
  have "rm_initial_balance (fst (authorize H t dec c (po_side order) (po_position_size order) (po_leverage order) p ?m rm))
      = rm_initial_balance rm"
    by (auto simp: authorize_def split: option.splits)
  then show ?thesis
    unfolding consume_approval_def bind_outcome_def Let_def by (auto split: prod.splits sum.splits)
qed

lemma create_order_inner:
  assumes "bind_result (side_of_action (dec_candidate_action dec)) (\<lambda>side.
             bind_result (price_entry e side size' price candle) (\<lambda>en.
             bind_result (build_order U e dec c side size' en opened created) (\<lambda>order.
               Inr (order, en_ledger en)))) = Inr (order, ledger)"
  obtains side en where "side_of_action (dec_candidate_action dec) = Inr side"
    "price_entry e side size' price candle = Inr en" "build_order U e dec c side size' en opened created = Inr order"
    "ledger = en_ledger en"
  using assms by (auto simp: bind_result_Inr)

lemma create_order_cases:
  assumes "create_order H U now created t t' dec c price candle occurred e = (e', res)"
  obtains (refused) ex where "res = Inl ex" "book e' = book e"
    "rm_initial_balance (pt_risk e') = rm_initial_balance (pt_risk e)"
  | (opened) side en order e1 rm2 rm3 where "res = Inr order" "approving (rc_risk_status c)"
    "rc_decision_id c = dec_decision_id dec" "(dec_decision_id dec, rc_risk_check_id c) \<notin> pt_processed_keys e"
    "side_of_action (dec_candidate_action dec) = Inr side"
    "price_entry e side (or_default (rc_position_size c) 0) price candle = Inr en"
    "build_order U e dec c side (or_default (rc_position_size c) 0) en (or_default occurred now) created = Inr order"
    "audit_paper ''PAPER_ORDER_CREATED'' order e = (e1, Inr ())"
    "consume_approval H t t' dec c order price (pt_risk e1) = (rm2, Inr ())"
    "register_position order rm2 = (rm3, Inr ())"
    "e' = (enter_book order (en_ledger en) (or_default occurred now) e1)\<lparr>pt_risk := rm3\<rparr>"
proof (cases "approving (rc_risk_status c) \<and> rc_decision_id c = dec_decision_id dec \<and>
              (dec_decision_id dec, rc_risk_check_id c) \<notin> pt_processed_keys e")
  case False
  then show thesis using assms refused by (auto simp: create_order_def split: if_splits)
next
  case True
  let ?size = "or_default (rc_position_size c) 0" and ?at = "or_default occurred now"
  let ?inner = "bind_result (side_of_action (dec_candidate_action dec)) (\<lambda>side.
             bind_result (price_entry e side ?size price candle) (\<lambda>en.
             bind_result (build_order U e dec c side ?size en ?at created) (\<lambda>order.
               Inr (order, en_ledger en))))"
  show thesis
  proof (cases ?inner)
    case (Inl x)
    then show thesis using assms True refused by (auto simp: create_order_def Let_def)
  next
    case (Inr ol)
    obtain order ledger where ol: "ol = (order, ledger)" by force
    from create_order_inner [OF Inr [unfolded ol]] obtain side en where
      inner: "side_of_action (dec_candidate_action dec) = Inr side" "price_entry e side ?size price candle = Inr en"
        "build_order U e dec c side ?size en ?at created = Inr order" "ledger = en_ledger en" by metis
    obtain e1 r1 where a: "audit_paper ''PAPER_ORDER_CREATED'' order e = (e1, r1)" by force
    obtain au d where e1: "e1 = e\<lparr>pt_risk := (pt_risk e)\<lparr>rm_audit := au, rm_db := d\<rparr>\<rparr>"
      using a audit_paper_frame [of "''PAPER_ORDER_CREATED''" order e] by (metis prod.inject)
    have b1: "book e1 = book e" "rm_initial_balance (pt_risk e1) = rm_initial_balance (pt_risk e)"
      by (simp_all add: e1)
    obtain rm2 r2 where b: "consume_approval H t t' dec c order price (pt_risk e1) = (rm2, r2)" by force
    have step: "create_order H U now created t t' dec c price candle occurred e =
        bind_outcome (e1, r1) (\<lambda>e1 _.
          bind_outcome (with_risk (consume_approval H t t' dec c order price (pt_risk e1)) e1) (\<lambda>e2 _.
            let e3 = enter_book order ledger ?at e2
            in bind_outcome (with_risk (register_position order (pt_risk e3)) e3) (\<lambda>e4 _. (e4, Inr order))))"
      using True Inr ol a by (simp add: create_order_def Let_def)
    show thesis
    proof (cases r1)
      case (Inl x)
      then show thesis using step assms b1 refused by (simp add: bind_outcome_def)
    next
      case (Inr u1)
      show thesis
      proof (cases r2)
        case (Inl x)
        have "rm_initial_balance rm2 = rm_initial_balance (pt_risk e)"
          using consume_approval_initial [of H t t' dec c order price "pt_risk e1"] b b1 by simp
        then show thesis using step assms b1 b \<open>r1 = Inr u1\<close> Inl refused [of x]
          by (simp add: bind_outcome_def with_risk_def)
      next
        case (Inr u2)
        then obtain rm3 where reg: "register_position order rm2 = (rm3, Inr ())"
          using consumed_registers b by (metis (full_types))
        show thesis
          using opened [of order side en e1 rm2 rm3] True inner a b reg step assms \<open>r1 = Inr u1\<close> Inr
          by (simp add: bind_outcome_def with_risk_def Let_def enter_book_def split: if_splits)
      qed
    qed
  qed
qed

lemma enter_book_fields [simp]:
  "pt_open_orders (enter_book order l t e) = dict_set (po_paper_order_id order) order (pt_open_orders e)"
  "pt_closed_orders (enter_book order l t e) = pt_closed_orders e"
  "pt_balance (enter_book order l t e) = pt_balance e"
  "pt_processed_keys (enter_book order l t e) =
     insert (po_decision_id order, po_risk_check_id order) (pt_processed_keys e)"
  "pt_risk (enter_book order l t e) = pt_risk e"
  "pt_execution_model (enter_book order l t e) = pt_execution_model e"
  "pt_margin_model (enter_book order l t e) = pt_margin_model e"
  "pt_initial_balance (enter_book order l t e) = pt_initial_balance e"
  "pt_peak_equity (enter_book order l t e) = pt_peak_equity e"
  "pt_max_drawdown_percent (enter_book order l t e) = pt_max_drawdown_percent e"
  by (simp_all add: enter_book_def Let_def)

lemma build_order_fields:
  assumes "build_order U e dec c side size' en opened created = Inr order"
  shows "po_decision_id order = dec_decision_id dec" "po_risk_check_id order = rc_risk_check_id c"
    "po_side order = side" "po_position_size order = size'" "po_status order = PsFILLED"
    "po_approval_id order = rc_approval_id c" "po_symbol order = dec_symbol dec"
    "po_paper_order_id order = U (''paper-order:'' @ (case rc_approval_id c of None \<Rightarrow> ''None'' | Some i \<Rightarrow> i))"
  using assms by (auto simp: build_order_def validate_def split: if_splits)

text \<open>
  C12. A PAPER order enters the book only under its live approval, and once: when a creation succeeds,
  the check was approving and belongs to the decision, its approval was ACTIVE and unexpired, covers
  the order's side and size, and no kill switch was latched; the order is in the book, its position
  is registered with the risk manager, and repeating the creation is refused as a duplicate without
  any change.
\<close>

theorem paper_order_under_approval:
  assumes "create_order H U now created t t' dec c price candle occurred e = (e', Inr order)"
  shows "approving (rc_risk_status c) \<and> rc_decision_id c = dec_decision_id dec \<and>
     (\<exists>a. approval_of_check c (pt_risk e) = Some a \<and> oa_status a = ApACTIVE \<and> t < oa_expires_at a \<and>
          oa_side a = po_side order \<and> po_position_size order \<le> oa_max_notional a + tol8) \<and>
     \<not> latched (pt_risk e) \<and>
     dict_get (pt_open_orders e') (po_paper_order_id order) = Some order \<and>
     dict_get (rm_positions (pt_risk e')) (po_paper_order_id order) \<noteq> None \<and>
     create_order H U now2 created2 t2 t2' dec c price2 candle2 occurred2 e' =
       (e', raise ValidationError ''Duplicate paper order for the same decision and risk check'')"
  using assms
proof (cases rule: create_order_cases)
  case (opened side en order1 e1 rm2 rm3)
  then have o1: "order1 = order" by simp
  note built = build_order_fields [OF opened(7)]
  obtain a d where e1: "e1 = e\<lparr>pt_risk := (pt_risk e)\<lparr>rm_audit := a, rm_db := d\<rparr>\<rparr>"
    using opened(8) audit_paper_frame [of "''PAPER_ORDER_CREATED''" order1 e] by (metis prod.inject)
  obtain ap where ap: "authorize H t dec c (po_side order1) (po_position_size order1) (po_leverage order1) price
       ''Paper order does not match its central approval'' (pt_risk e1) = (pt_risk e1, Inr ap)"
    using consume_approval_cases [OF opened(9)] by metis
  note ok = authorize_ok [OF ap]
  have held: "approval_of_check c (pt_risk e) = Some ap" "\<not> latched (pt_risk e)"
    using ok by (simp_all add: e1 approval_of_check_def)
  have pos: "dict_get (rm_positions rm3) (po_paper_order_id order) \<noteq> None"
    using opened(10) o1
    by (auto simp: register_position_def with_positions_def set_open_positions_def dict_simps split: sum.splits)
  have dup: "(dec_decision_id dec, rc_risk_check_id c) \<in> pt_processed_keys e'"
    using opened(11) built by simp
  have "create_order H U now2 created2 t2 t2' dec c price2 candle2 occurred2 e' =
       (e', raise ValidationError ''Duplicate paper order for the same decision and risk check'')"
    using dup opened(2,3) unfolding create_order_def by (simp only: if_True if_False not_True_eq_False simp_thms)
  then show ?thesis using opened(2,3,11) held ok pos o1 by (simp add: dict_simps)
next
  case refused
  from refused(1) show ?thesis by simp
qed

text \<open>
  A failed creation leaves the account untouched: whichever step raises (the checks, the fill, the
  schema, the audit record, the consumption of the approval), the open and closed orders, the balance,
  the processed keys, the cost ledgers and the funding clocks are as before.
\<close>

theorem create_order_atomic:
  assumes "create_order H U now created t t' dec c price candle occurred e = (e', Inl ex)"
  shows "pt_open_orders e' = pt_open_orders e \<and> pt_closed_orders e' = pt_closed_orders e \<and>
         pt_balance e' = pt_balance e \<and> pt_processed_keys e' = pt_processed_keys e \<and>
         pt_execution_costs e' = pt_execution_costs e \<and> pt_last_funding_at e' = pt_last_funding_at e"
  using assms
proof (cases rule: create_order_cases)
  case refused
  show ?thesis using book_fields [OF refused(2)] by simp
next
  case opened
  from opened(1) show ?thesis by simp
qed

section \<open>Closing\<close>

lemma accrue_cases:
  assumes "accrue_funding order t e = (e', r)"
  shows "e' = e \<or> (\<exists>l f. pt_execution_model e \<noteq> None \<and> r = Inr () \<and>
     e' = e\<lparr>pt_execution_costs := dict_set (po_paper_order_id order) (l\<lparr>cl_funding := f\<rparr>) (pt_execution_costs e),
            pt_last_funding_at := dict_set (po_paper_order_id order) t (pt_last_funding_at e)\<rparr>)"
  using assms unfolding accrue_funding_def Let_def
  by (simp split: option.splits sum.splits if_splits) blast+

definition account :: "paper_engine \<Rightarrow> paper_engine" where
  "account e = e\<lparr>pt_risk := undefined, pt_execution_costs := undefined, pt_last_funding_at := undefined\<rparr>"

lemma account_fields:
  assumes "account e' = account e"
  shows "pt_open_orders e' = pt_open_orders e" "pt_closed_orders e' = pt_closed_orders e"
    "pt_balance e' = pt_balance e" "pt_processed_keys e' = pt_processed_keys e"
    "pt_peak_equity e' = pt_peak_equity e" "pt_max_drawdown_percent e' = pt_max_drawdown_percent e"
    "pt_execution_model e' = pt_execution_model e" "pt_margin_model e' = pt_margin_model e"
    "pt_initial_balance e' = pt_initial_balance e" "pt_equity_curve e' = pt_equity_curve e"
    "pt_fee_rate e' = pt_fee_rate e"
  using assms by (cases e, cases e', simp add: account_def)+

lemma account_risk [simp]: "account (e\<lparr>pt_risk := rm\<rparr>) = account e"
  by (simp add: account_def)

lemma book_account: "book e' = book e \<Longrightarrow> account e' = account e"
  by (auto simp: book_eq_iff account_def)

lemma accrue_account: "account (fst (accrue_funding order t e)) = account e"
proof -
  obtain e' r where "accrue_funding order t e = (e', r)" by force
  with accrue_cases [OF this] show ?thesis by (auto simp: account_def)
qed

lemma accrue_risk: "pt_risk (fst (accrue_funding order t e)) = pt_risk e"
proof -
  obtain e' r where "accrue_funding order t e = (e', r)" by force
  with accrue_cases [OF this] show ?thesis by auto
qed

text \<open>With an execution model, every open order has its cost ledger and its funding clock.\<close>

definition ledgers_ok :: "paper_engine \<Rightarrow> bool" where
  "ledgers_ok e \<longleftrightarrow> pt_execution_model e = None \<or>
     (\<forall>i \<in> set (map fst (pt_open_orders e)). dict_get (pt_execution_costs e) i \<noteq> None \<and> dict_get (pt_last_funding_at e) i \<noteq> None)"

lemma ledgers_ok_risk [simp]: "ledgers_ok (e\<lparr>pt_risk := rm\<rparr>) = ledgers_ok e"
  by (simp add: ledgers_ok_def)

lemma accrue_ledgers: "ledgers_ok e \<Longrightarrow> ledgers_ok (fst (accrue_funding order t e))"
proof -
  assume ok: "ledgers_ok e"
  obtain e' r where "accrue_funding order t e = (e', r)" by force
  with accrue_cases [OF this] ok show ?thesis
    unfolding ledgers_ok_def by (auto simp: dict_simps simp del: set_map)
qed

text \<open>The stages of a close that reaches the account, and the states a refused close may leave.\<close>

lemma close_order_cases:
  assumes "close_order now i price reason candle occurred e = (e', res)"
  obtains (refused) ex where "res = Inl ex" "account e' = account e"
      "rm_initial_balance (pt_risk e') = rm_initial_balance (pt_risk e)" "ledgers_ok e \<Longrightarrow> ledgers_ok e'"
  | (settled) order s e1 e3 where "dict_get (pt_open_orders e) i = Some order" "0 < price"
      "account e3 = account e" "rm_initial_balance (pt_risk e3) = rm_initial_balance (pt_risk e)"
      "settle_exit e1 order (po_position_size order / po_entry_price order) price reason candle = Inr s"
      "account e1 = account e"
      "book_result (or_default occurred now) (net_pnl order (po_position_size order / po_entry_price order) s)
         (closed_order order (net_pnl order (po_position_size order / po_entry_price order) s) reason s
            (or_default occurred now))
         (leave_book (closed_order order (net_pnl order (po_position_size order / po_entry_price order) s) reason s
            (or_default occurred now)) (se_ledger s) e3) = (e', res)"
      "ledgers_ok e \<Longrightarrow> ledgers_ok e3"
proof (cases "price \<le> 0 \<or> dict_get (pt_open_orders e) i = None \<or>
              po_entry_price (the (dict_get (pt_open_orders e) i)) = 0")
  case True
  then show thesis using assms refused
    by (auto simp: close_order_def split: if_splits option.splits)
next
  case False
  then obtain order where order: "dict_get (pt_open_orders e) i = Some order" "po_entry_price order \<noteq> 0" "\<not> price \<le> 0"
    by auto
  then have pos: "0 < price" by simp
  let ?qty = "po_position_size order / po_entry_price order" and ?at = "or_default occurred now"
  obtain e1 r1 where a: "(case occurred of None \<Rightarrow> (e, Inr ()) | Some at' \<Rightarrow> accrue_funding order at' e) = (e1, r1)"
    by force
  have e1: "account e1 = account e" "pt_risk e1 = pt_risk e" "ledgers_ok e \<Longrightarrow> ledgers_ok e1"
    using a accrue_account [of order _ e] accrue_risk [of order _ e] accrue_ledgers [of e order]
    by (auto split: option.splits) (metis fst_conv)+
  show thesis
  proof (cases r1)
    case (Inl x)
    then show thesis using assms order a e1 refused [of x] by (simp add: close_order_def Let_def bind_outcome_def)
  next
    case ok1: (Inr u)
    show thesis
    proof (cases "settle_exit e1 order ?qty price reason candle")
      case (Inl x)
      then show thesis using assms order a e1 ok1 refused [of x] by (simp add: close_order_def Let_def bind_outcome_def)
    next
      case (Inr s)
      let ?pnl = "net_pnl order ?qty s"
      let ?settled = "closed_order order ?pnl reason s ?at"
      obtain e2 r2 where b: "audit_paper ''PAPER_ORDER_CLOSED'' ?settled e1 = (e2, r2)" by force
      obtain e3 r3 where c: "store_closed ?settled e2 = (e3, r3)" by force
      obtain au d where "e2 = e1\<lparr>pt_risk := (pt_risk e1)\<lparr>rm_audit := au, rm_db := d\<rparr>\<rparr>"
        using b audit_paper_frame [of "''PAPER_ORDER_CLOSED''" ?settled e1] by (metis prod.inject)
      then have e2: "account e2 = account e" "rm_initial_balance (pt_risk e2) = rm_initial_balance (pt_risk e)"
        "ledgers_ok e \<Longrightarrow> ledgers_ok e2"
        using e1 by simp_all
      have e3: "account e3 = account e" "rm_initial_balance (pt_risk e3) = rm_initial_balance (pt_risk e)"
        "ledgers_ok e \<Longrightarrow> ledgers_ok e3"
        using c e2 by (auto simp: store_closed_def split: if_splits prod.splits)
      have step: "(e', res) = bind_outcome (e2, r2) (\<lambda>e2 _. bind_outcome (store_closed ?settled e2) (\<lambda>e3 _.
           book_result ?at ?pnl ?settled (leave_book ?settled (se_ledger s) e3)))"
        using assms order a ok1 Inr b by (simp add: close_order_def Let_def bind_outcome_def)
      show thesis
      proof (cases "is_ok r2 \<and> is_ok r3")
        case True
        then show thesis using settled [OF order(1) pos e3(1,2) Inr e1(1) _ e3(3)] step c
          by (auto simp: is_ok_iff bind_outcome_def)
      next
        case False
        then have "\<exists>x. res = Inl x \<and> (e' = e2 \<or> e' = e3)"
          using step c by (cases r2; cases r3) (auto simp: bind_outcome_def)
        then show thesis using refused e2 e3 by metis
      qed
    qed
  qed
qed

lemma leave_book_fields [simp]:
  "pt_open_orders (leave_book o' l e) = dict_pop (po_paper_order_id o') (pt_open_orders e)"
  "pt_closed_orders (leave_book o' l e) = pt_closed_orders e @ [o']"
  "pt_balance (leave_book o' l e) = pt_balance e" "pt_risk (leave_book o' l e) = pt_risk e"
  "pt_peak_equity (leave_book o' l e) = pt_peak_equity e"
  "pt_max_drawdown_percent (leave_book o' l e) = pt_max_drawdown_percent e"
  "pt_equity_curve (leave_book o' l e) = pt_equity_curve e"
  "pt_initial_balance (leave_book o' l e) = pt_initial_balance e"
  "pt_execution_model (leave_book o' l e) = pt_execution_model e"
  "pt_margin_model (leave_book o' l e) = pt_margin_model e"
  "pt_processed_keys (leave_book o' l e) = pt_processed_keys e"
  by (simp_all add: leave_book_def Let_def)

lemma book_result_ok:
  assumes "rm_initial_balance (pt_risk e) \<noteq> 0" "0 < pt_peak_equity e"
  obtains rm d where "book_result t pnl o' e =
     (e\<lparr>pt_balance := pt_balance e + pnl, pt_peak_equity := max (pt_peak_equity e) (pt_balance e + pnl),
        pt_max_drawdown_percent := max (pt_max_drawdown_percent e) d, pt_risk := rm,
        pt_equity_curve := pt_equity_curve e @ [(t, py_round (pt_balance e + pnl) 4)]\<rparr>, Inr o')"
    "dict_get (rm_positions rm) (po_paper_order_id o') = None" "rm_initial_balance rm = rm_initial_balance (pt_risk e)"
proof -
  let ?rm = "unregister_position (po_paper_order_id o') (pt_risk e)"
  have ib: "rm_initial_balance ?rm = rm_initial_balance (pt_risk e)"
    and gone: "dict_get (rm_positions ?rm) (po_paper_order_id o') = None"
    by (simp_all add: unregister_position_def with_positions_def set_open_positions_def dict_simps)
  obtain rm1 where tr: "register_trade_result pnl ?rm = (rm1, Inr ())"
    and rm1: "rm_positions rm1 = rm_positions ?rm" "rm_initial_balance rm1 = rm_initial_balance ?rm"
    using assms(1) ib by (auto simp: register_trade_result_def Let_def)
  let ?peak = "max (pt_peak_equity e) (pt_balance e + pnl)"
  have peak: "?peak \<noteq> 0" using assms(2) by (auto simp: max_def)
  have eq: "rm_positions (update_equity b rm1) = rm_positions rm1"
    "rm_initial_balance (update_equity b rm1) = rm_initial_balance rm1" for b
    by (simp_all add: update_equity_def Let_def)
  show thesis
  proof (rule that)
    show "book_result t pnl o' e =
     (e\<lparr>pt_balance := pt_balance e + pnl, pt_peak_equity := ?peak,
        pt_max_drawdown_percent := max (pt_max_drawdown_percent e) ((?peak - (pt_balance e + pnl)) / ?peak * flt 100),
        pt_risk := update_equity (pt_balance e + pnl) rm1,
        pt_equity_curve := pt_equity_curve e @ [(t, py_round (pt_balance e + pnl) 4)]\<rparr>, Inr o')"
      using tr peak by (simp add: book_result_def with_risk_def bind_outcome_def Let_def)
  qed (use gone rm1 ib eq in simp_all)
qed

definition keyed_book :: "paper_engine \<Rightarrow> bool" where
  "keyed_book e \<longleftrightarrow> dict_wf (pt_open_orders e) \<and>
     (\<forall>(k, o') \<in> set (pt_open_orders e). po_paper_order_id o' = k \<and> po_status o' = PsFILLED)"

lemma keyed_bookD:
  "keyed_book e \<Longrightarrow> dict_get (pt_open_orders e) k = Some o' \<Longrightarrow> po_paper_order_id o' = k \<and> po_status o' = PsFILLED"
  unfolding keyed_book_def by (fastforce dest: map_of_SomeD)

lemma closed_order_fields [simp]:
  "po_paper_order_id (closed_order o' pnl reason s t) = po_paper_order_id o'"
  "po_status (closed_order o' pnl reason s t) = PsCLOSED"
  "po_pnl (closed_order o' pnl reason s t) = Some (py_round pnl 4)"
  "po_exit_reason (closed_order o' pnl reason s t) = reason"
  "po_symbol (closed_order o' pnl reason s t) = po_symbol o'"
  by (simp_all add: closed_order_def)

lemma close_order_never_late:
  assumes "book_result t pnl o' (leave_book o'' l e) = (e', res)"
    and "rm_initial_balance (pt_risk e) \<noteq> 0" "0 < pt_peak_equity e"
  shows "res = Inr o'"
proof -
  have "rm_initial_balance (pt_risk (leave_book o'' l e)) \<noteq> 0" "0 < pt_peak_equity (leave_book o'' l e)"
    using assms(2,3) by simp_all
  then show ?thesis using assms(1) by (metis book_result_ok prod.inject)
qed

lemma close_order_effect:
  assumes "close_order now i price reason candle occurred e = (e', Inr settled)"
    and "keyed_book e" "rm_initial_balance (pt_risk e) \<noteq> 0" "0 < pt_peak_equity e"
  shows "dict_get (pt_open_orders e) i \<noteq> None \<and> po_paper_order_id settled = i \<and>
     po_status settled = PsCLOSED \<and> po_exit_reason settled = reason \<and>
     pt_open_orders e' = dict_pop i (pt_open_orders e) \<and>
     pt_closed_orders e' = pt_closed_orders e @ [settled] \<and>
     (\<exists>pnl. po_pnl settled = Some (py_round pnl 4) \<and> pt_balance e' = pt_balance e + pnl) \<and>
     pt_peak_equity e' = max (pt_peak_equity e) (pt_balance e') \<and>
     pt_max_drawdown_percent e \<le> pt_max_drawdown_percent e' \<and>
     dict_get (rm_positions (pt_risk e')) i = None \<and> pt_margin_model e' = pt_margin_model e"
  using assms(1)
proof (cases rule: close_order_cases)
  case (refused ex)
  from refused(1) show ?thesis by simp
next
  case closing: (settled order s e1 e3)
  let ?pnl = "net_pnl order (po_position_size order / po_entry_price order) s"
  let ?settled = "closed_order order ?pnl reason s (or_default occurred now)"
  note same = account_fields [OF closing(3)]
  have i: "po_paper_order_id order = i" using keyed_bookD [OF assms(2) closing(1)] by simp
  let ?out = "leave_book ?settled (se_ledger s) e3"
  have "rm_initial_balance (pt_risk ?out) \<noteq> 0" "0 < pt_peak_equity ?out"
    using assms(3,4) closing(4) same by simp_all
  then obtain rm d where br: "book_result (or_default occurred now) ?pnl ?settled ?out =
     (?out\<lparr>pt_balance := pt_balance ?out + ?pnl, pt_peak_equity := max (pt_peak_equity ?out) (pt_balance ?out + ?pnl),
        pt_max_drawdown_percent := max (pt_max_drawdown_percent ?out) d, pt_risk := rm,
        pt_equity_curve := pt_equity_curve ?out @ [(or_default occurred now, py_round (pt_balance ?out + ?pnl) 4)]\<rparr>,
      Inr ?settled)" and gone: "dict_get (rm_positions rm) (po_paper_order_id ?settled) = None"
    by (rule book_result_ok)
  from br closing(7) have e': "settled = ?settled" "pt_risk e' = rm"
    "pt_open_orders e' = dict_pop i (pt_open_orders e)" "pt_closed_orders e' = pt_closed_orders e @ [?settled]"
    "pt_balance e' = pt_balance e + ?pnl" "pt_peak_equity e' = max (pt_peak_equity e) (pt_balance e + ?pnl)"
    "pt_max_drawdown_percent e' = max (pt_max_drawdown_percent e) d" "pt_margin_model e' = pt_margin_model e"
    using same i by (simp_all add: eq_commute [of _ e'])
  then show ?thesis using i closing(1) gone by auto
qed

text \<open>
  C13. Closing a position settles it exactly once: if the close raises, the open and closed orders, the
  balance and the equity curve are unchanged (only funding may have been accrued); otherwise the order
  was open, leaves the open book, is appended to the closed orders with status CLOSED and its rounded
  result, the unrounded result is added to the balance, the peak follows the balance, the recorded
  drawdown never decreases, and the risk manager no longer counts the position.
\<close>

theorem close_order_settles:
  assumes "close_order now i price reason candle occurred e = (e', res)"
    and "keyed_book e" "rm_initial_balance (pt_risk e) \<noteq> 0" "0 < pt_peak_equity e"
  shows "(case res of
            Inl ex \<Rightarrow> pt_open_orders e' = pt_open_orders e \<and> pt_closed_orders e' = pt_closed_orders e \<and>
              pt_balance e' = pt_balance e \<and> pt_equity_curve e' = pt_equity_curve e
          | Inr settled \<Rightarrow>
              dict_get (pt_open_orders e) i \<noteq> None \<and> po_paper_order_id settled = i \<and>
              po_status settled = PsCLOSED \<and> po_exit_reason settled = reason \<and>
              pt_open_orders e' = dict_pop i (pt_open_orders e) \<and>
              pt_closed_orders e' = pt_closed_orders e @ [settled] \<and>
              (\<exists>pnl. po_pnl settled = Some (py_round pnl 4) \<and> pt_balance e' = pt_balance e + pnl) \<and>
              pt_peak_equity e' = max (pt_peak_equity e) (pt_balance e') \<and>
              pt_max_drawdown_percent e \<le> pt_max_drawdown_percent e' \<and>
              dict_get (rm_positions (pt_risk e')) i = None)"
proof (cases res)
  case (Inr settled)
  with close_order_effect assms show ?thesis by fastforce
next
  case (Inl x)
  show ?thesis using assms(1)
  proof (cases rule: close_order_cases)
    case (refused ex)
    show ?thesis using refused(1) account_fields [OF refused(2)] by simp
  next
    case (settled order s e1 e3)
    with close_order_never_late [OF settled(7)] account_fields [OF settled(3)] assms(3,4) Inl show ?thesis by auto
  qed
qed

section \<open>The account invariant\<close>

definition paper_inv :: "paper_engine \<Rightarrow> bool" where
  "paper_inv e \<longleftrightarrow> keyed_book e \<and> ledgers_ok e \<and> list_all (\<lambda>o'. po_status o' = PsCLOSED) (pt_closed_orders e) \<and>
     0 < pt_initial_balance e \<and> pt_initial_balance e \<le> pt_peak_equity e \<and> pt_balance e \<le> pt_peak_equity e \<and>
     0 \<le> pt_max_drawdown_percent e \<and> rm_initial_balance (pt_risk e) \<noteq> 0"

lemma keyed_book_cong: "pt_open_orders e' = pt_open_orders e \<Longrightarrow> keyed_book e' = keyed_book e"
  by (simp add: keyed_book_def)

lemma keyed_book_risk [simp]: "keyed_book (e\<lparr>pt_risk := rm\<rparr>) = keyed_book e"
  by (simp add: keyed_book_def)

lemma paper_inv_account:
  assumes "account e' = account e" "ledgers_ok e \<Longrightarrow> ledgers_ok e'"
    "rm_initial_balance (pt_risk e') = rm_initial_balance (pt_risk e)" "paper_inv e"
  shows "paper_inv e'"
  using assms(2-4) account_fields [OF assms(1)] keyed_book_cong [of e' e] by (simp add: paper_inv_def)

lemma set_dict_set: "x \<in> set (dict_set k v d) \<Longrightarrow> x = (k, v) \<or> x \<in> set d"
  by (induction d) (auto split: if_splits)

lemma set_dict_pop: "x \<in> set (dict_pop k d) \<Longrightarrow> x \<in> set d"
  by (induction d) (auto split: if_splits)

lemma keyed_book_enter:
  assumes "keyed_book e" "po_status order = PsFILLED"
  shows "keyed_book (enter_book order l t e)"
  using assms unfolding keyed_book_def by (auto dest!: set_dict_set)

lemma keys_dict_set: "set (map fst (dict_set k v d)) = insert k (set (map fst d))"
  by (induction d) auto

lemma ledgers_ok_enter: "ledgers_ok e \<Longrightarrow> ledgers_ok (enter_book order l t e)"
  by (auto simp: ledgers_ok_def enter_book_def Let_def keys_dict_set dict_simps simp del: set_map)

lemma keyed_book_leave: "keyed_book e \<Longrightarrow> keyed_book (leave_book o' l e)"
  unfolding keyed_book_def by (auto dest: set_dict_pop)

lemma ledgers_ok_leave:
  assumes "ledgers_ok e" shows "ledgers_ok (leave_book o' l e)"
  using assms
  by (auto simp: ledgers_ok_def leave_book_def Let_def delete_keys dict_simps simp del: set_map)

lemma create_order_inv:
  assumes "create_order H U now created t t' dec c price candle occurred e = (e', res)" "paper_inv e"
  shows "paper_inv e'"
  using assms(1)
proof (cases rule: create_order_cases)
  case (refused ex)
  then have "ledgers_ok e \<Longrightarrow> ledgers_ok e'" by (auto simp: book_eq_iff)
  from paper_inv_account [OF book_account [OF refused(2)] this refused(3) assms(2)] show ?thesis .
next
  case (opened side en order e1 rm2 rm3)
  obtain a d where e1: "e1 = e\<lparr>pt_risk := (pt_risk e)\<lparr>rm_audit := a, rm_db := d\<rparr>\<rparr>"
    using opened(8) audit_paper_frame [of "''PAPER_ORDER_CREATED''" order e] by (metis prod.inject)
  have "rm_initial_balance rm2 = rm_initial_balance (pt_risk e)"
    using consume_approval_initial [of H t t' dec c order price "pt_risk e1"] opened(9) e1 by simp
  then have rm3: "rm_initial_balance rm3 = rm_initial_balance (pt_risk e)"
    using opened(10)
    by (auto simp: register_position_def with_positions_def set_open_positions_def split: sum.splits)
  have filled: "po_status order = PsFILLED" using build_order_fields [OF opened(7)] by simp
  have "keyed_book e1" "ledgers_ok e1" using assms(2) by (auto simp: e1 paper_inv_def keyed_book_def)
  then have "keyed_book (enter_book order (en_ledger en) (or_default occurred now) e1)"
    "ledgers_ok (enter_book order (en_ledger en) (or_default occurred now) e1)"
    using keyed_book_enter [OF _ filled] ledgers_ok_enter by auto
  then show ?thesis using assms(2) rm3 opened(11)
    by (simp add: paper_inv_def e1)
qed

lemma close_order_inv:
  assumes "close_order now i price reason candle occurred e = (e', res)" "paper_inv e"
  shows "paper_inv e'"
  using assms(1)
proof (cases rule: close_order_cases)
  case (refused ex)
  show ?thesis by (rule paper_inv_account [OF refused(2,4,3) assms(2)])
next
  case (settled order s e1 e3)
  let ?pnl = "net_pnl order (po_position_size order / po_entry_price order) s"
  let ?settled = "closed_order order ?pnl reason s (or_default occurred now)"
  let ?out = "leave_book ?settled (se_ledger s) e3"
  have e3: "paper_inv e3" by (rule paper_inv_account [OF settled(3,8,4) assms(2)])
  then have "rm_initial_balance (pt_risk ?out) \<noteq> 0" "0 < pt_peak_equity ?out"
    by (auto simp: paper_inv_def)
  then obtain rm d where br: "book_result (or_default occurred now) ?pnl ?settled ?out =
     (?out\<lparr>pt_balance := pt_balance ?out + ?pnl, pt_peak_equity := max (pt_peak_equity ?out) (pt_balance ?out + ?pnl),
        pt_max_drawdown_percent := max (pt_max_drawdown_percent ?out) d, pt_risk := rm,
        pt_equity_curve := pt_equity_curve ?out @ [(or_default occurred now, py_round (pt_balance ?out + ?pnl) 4)]\<rparr>,
      Inr ?settled)" and ib: "rm_initial_balance rm = rm_initial_balance (pt_risk ?out)"
    by (rule book_result_ok)
  have "keyed_book ?out" "ledgers_ok ?out"
    using e3 keyed_book_leave ledgers_ok_leave by (auto simp: paper_inv_def)
  then show ?thesis using br settled(7) e3 ib
    by (auto simp: paper_inv_def keyed_book_def ledgers_ok_def max_def)
qed

lemma resolve_error: "resolve ds t = Inl x \<Longrightarrow> exn_class x = ValueError"
  by (auto simp: resolve_def Let_def split: if_splits)

lemma funding_loop_error: "funding_loop a n d en rest t cur p = Inl x \<Longrightarrow> exn_class x = ValueError"
proof (induction a n d en rest t cur p rule: funding_loop.induct)
  case (1 a n d en rest t cur p)
  then show ?case
    by (subst (asm) (3) funding_loop.simps)
      (auto simp: funding_segment_def Let_def split: if_splits sum.splits)
qed

lemma funding_cost_error: "funding_cost m order s t = Inl x \<Longrightarrow> exn_class x = ValueError"
  by (auto simp: funding_cost_def Let_def historical_funding_cost_def bind_result_def
      split: if_splits option.splits sum.splits dest: resolve_error funding_loop_error)

lemma accrue_no_key_error:
  assumes "pt_execution_model e = None \<or> dict_get (pt_execution_costs e) (po_paper_order_id order) \<noteq> None"
  shows "snd (accrue_funding order t e) \<noteq> raise KeyError i"
proof -
  have "funding_cost m order s t \<noteq> raise KeyError i" for m s using funding_cost_error by fastforce
  with assms show ?thesis
    by (auto simp: accrue_funding_def Let_def split: option.splits sum.splits)
qed

lemma accrue_inv:
  assumes "accrue_funding order t e = (e', r)" "paper_inv e"
  shows "paper_inv e'"
  using paper_inv_account [of e' e] assms accrue_account [of order t e] accrue_ledgers [of e order t]
    accrue_risk [of order t e] by simp

lemma check_orders_inv:
  assumes "check_orders now c orders acc e = (e', res)" "paper_inv e"
  shows "paper_inv e'"
  using assms
proof (induction orders arbitrary: acc e)
  case (Cons order orders)
  show ?case
  proof (cases "po_symbol order = cd_symbol c")
    case True
    obtain e1 r1 where a: "accrue_funding order (cd_closed_at c) e = (e1, r1)" by force
    have e1: "paper_inv e1" using accrue_inv [OF a] Cons.prems by simp
    show ?thesis
    proof (cases "r1 = Inr () \<and> exit_of e1 order c \<noteq> None")
      case False
      then show ?thesis using Cons.prems(1) Cons.IH [of acc e1] True a e1
        by (cases "exit_of e1 order c") (auto split: sum.splits)
    next
      case closing: True
      then obtain price reason where exit: "exit_of e1 order c = Some (price, reason)" by force
      obtain e2 r2 where b: "close_order now (po_paper_order_id order) price (Some reason) (Some c)
          (Some (cd_closed_at c)) e1 = (e2, r2)" by force
      have e2: "paper_inv e2" using close_order_inv [OF b e1] .
      show ?thesis
        using Cons.prems(1) Cons.IH [of _ e2] True a closing exit b e2 by (auto split: sum.splits)
    qed
  next
    case False
    then show ?thesis using Cons by simp
  qed
qed simp

section \<open>Histories of the account\<close>

text \<open>
  What may happen to the engine: its own operations with any arguments, whatever their result, and
  operations of the risk manager by its other clients, which keep the balance it was configured with.
\<close>

inductive paper_step :: "paper_engine \<Rightarrow> paper_engine \<Rightarrow> bool" where
  step_create: "create_order H U now created t t' dec c price candle occurred e = (e', r) \<Longrightarrow> paper_step e e'"
| step_close: "close_order now i price reason candle occurred e = (e', r) \<Longrightarrow> paper_step e e'"
| step_candle: "on_candle now c e = (e', r) \<Longrightarrow> paper_step e e'"
| step_risk: "rm_initial_balance rm = rm_initial_balance (pt_risk e) \<Longrightarrow> paper_step e (e\<lparr>pt_risk := rm\<rparr>)"

lemmas paper_steps [step_intros] = step_create step_close step_candle step_risk

lemma paper_step_inv: "paper_step e e' \<Longrightarrow> paper_inv e \<Longrightarrow> paper_inv e'"
proof (induction rule: paper_step.induct)
  case (step_create H U now created t t' dec c price candle occurred e e' r)
  then show ?case by (rule create_order_inv)
next
  case (step_close now i price reason candle occurred e e' r)
  then show ?case by (rule close_order_inv)
next
  case (step_candle now c e e' r)
  then show ?case unfolding on_candle_def by (rule check_orders_inv)
next
  case (step_risk rm e)
  then show ?case by (simp add: paper_inv_def)
qed

lemma new_engine_inv:
  "0 < b \<Longrightarrow> rm_initial_balance rm \<noteq> 0 \<Longrightarrow> paper_inv (new_paper_engine rm b fee slip m g t repo)"
  by (simp add: new_paper_engine_def paper_inv_def keyed_book_def ledgers_ok_def)

text \<open>
  C14. The account stays consistent over every history of creations, closes, candles and risk
  operations, failed ones included: open orders are keyed by their identifier and FILLED, closed ones
  CLOSED, the peak is at least the balance and the initial balance, the drawdown is not negative; and
  with an execution model every open order has its ledger and funding clock, so that accruing funding
  on an open order never fails for a missing ledger.
\<close>

theorem paper_account_invariant:
  assumes "paper_step\<^sup>*\<^sup>* (new_paper_engine rm b fee slip m g t repo) e" "0 < b" "rm_initial_balance rm \<noteq> 0"
  shows "paper_inv e \<and>
     (\<forall>i order now. dict_get (pt_open_orders e) i = Some order \<longrightarrow>
        snd (accrue_funding order now e) \<noteq> raise KeyError i)"
proof -
  have inv: "paper_inv e" using assms(1)
    by (induction rule: rtranclp_induct) (use new_engine_inv [OF assms(2,3)] paper_step_inv in blast)+
  have "snd (accrue_funding order now e) \<noteq> raise KeyError i"
    if "dict_get (pt_open_orders e) i = Some order" for i order now
  proof -
    have "po_paper_order_id order = i" using keyed_bookD that inv by (auto simp: paper_inv_def)
    moreover have "i \<in> set (map fst (pt_open_orders e))" using that by (force dest: map_of_SomeD)
    ultimately have "pt_execution_model e = None \<or> dict_get (pt_execution_costs e) (po_paper_order_id order) \<noteq> None"
      using inv unfolding paper_inv_def ledgers_ok_def by blast
    then show ?thesis by (rule accrue_no_key_error)
  qed
  with inv show ?thesis by blast
qed

section \<open>A concrete account\<close>

definition sample_engine :: paper_engine where
  "sample_engine =
     new_paper_engine ledger_rm (flt 10000) (flt (8 / 100)) (flt (2 / 100)) None None 0 False"

definition sample_creation :: "(paper_engine, paper_order) outcome" where
  "sample_creation = create_order sample_H sample_U 5 5 5 5 sample_decision sample_check (flt 1000) None None sample_engine"

lemma sample_creation_ok: "\<exists>order. sample_creation = (fst sample_creation, Inr order)"
proof -
  have "is_ok (snd sample_creation)" by code_simp
  then show ?thesis unfolding is_ok_iff by (metis prod.collapse)
qed

theorem paper_order_under_approval_witness:
  "create_order sample_H sample_U 6 6 6 6 sample_decision sample_check (flt 1000) None None (fst sample_creation) =
     (fst sample_creation, raise ValidationError ''Duplicate paper order for the same decision and risk check'')"
proof -
  obtain order where o: "create_order sample_H sample_U 5 5 5 5 sample_decision sample_check (flt 1000) None None sample_engine
      = (fst sample_creation, Inr order)"
    using sample_creation_ok unfolding sample_creation_def by metis
  from paper_order_under_approval [OF o, of 6 6 6 6 "flt 1000" None None] show ?thesis by (elim conjE)
qed

theorem create_order_atomic_witness:
  "pt_open_orders (fst (create_order sample_H sample_U 6 6 6 6 sample_decision (sample_check\<lparr>rc_risk_status := RsBLOCKED\<rparr>)
      (flt 1000) None None sample_engine)) = pt_open_orders sample_engine"
proof -
  let ?again = "create_order sample_H sample_U 6 6 6 6 sample_decision (sample_check\<lparr>rc_risk_status := RsBLOCKED\<rparr>)
      (flt 1000) None None sample_engine"
  have "\<not> is_ok (snd ?again)" by (simp add: create_order_def)
  then obtain x where "?again = (fst ?again, Inl x)" by (cases "snd ?again") (auto simp: prod_eq_iff)
  from create_order_atomic [OF this] show ?thesis by (elim conjE)
qed

lemma sample_engine_inv: "paper_inv sample_engine"
proof -
  have "(0 :: pyfloat) < flt 10000" by code_simp
  then show ?thesis unfolding sample_engine_def
    by (intro new_engine_inv) (auto simp: ledger_rm_def new_risk_manager_def)
qed

theorem paper_account_invariant_witness: "paper_inv (fst sample_creation)"
proof -
  have "paper_step sample_engine (fst sample_creation)"
    unfolding sample_creation_def by (rule step_create) (rule prod.collapse [symmetric])
  then have "paper_step\<^sup>*\<^sup>* sample_engine (fst sample_creation)" by blast
  moreover have "(0 :: pyfloat) < flt 10000" by code_simp
  moreover have "rm_initial_balance ledger_rm \<noteq> 0" by code_simp
  ultimately show ?thesis using paper_account_invariant unfolding sample_engine_def by blast
qed

definition sample_holding :: paper_engine where
  "sample_holding = sample_engine\<lparr>pt_open_orders := [(''paper-1'', sample_paper_order)]\<rparr>"

theorem close_order_settles_witness:
  "pt_open_orders (fst (close_order 9 ''paper-1'' (flt 1100) (Some ''TAKE_PROFIT'') None None sample_holding)) = []"
proof -
  let ?close = "close_order 9 ''paper-1'' (flt 1100) (Some ''TAKE_PROFIT'') None None sample_holding"
  have "is_ok (snd ?close)" by code_simp
  then obtain o' where c: "?close = (fst ?close, Inr o')" unfolding is_ok_iff by (metis prod.collapse)
  have "keyed_book sample_holding"
    by (simp add: sample_holding_def keyed_book_def sample_paper_order_def dict_wf_def)
  moreover have "rm_initial_balance (pt_risk sample_holding) \<noteq> 0" "0 < pt_peak_equity sample_holding"
    using sample_engine_inv by (auto simp: paper_inv_def sample_holding_def)
  ultimately have "pt_open_orders (fst ?close) = dict_pop ''paper-1'' (pt_open_orders sample_holding)"
    using close_order_settles [OF c] by simp
  then show ?thesis by (simp add: sample_holding_def)
qed

section \<open>Candles\<close>

definition due :: "paper_engine \<Rightarrow> candle \<Rightarrow> paper_order \<Rightarrow> bool" where
  "due e c order \<longleftrightarrow> po_symbol order = cd_symbol c \<and> exit_of e order c \<noteq> None"

lemma exit_of_cong: "pt_margin_model e' = pt_margin_model e \<Longrightarrow> exit_of e' order c = exit_of e order c"
  by (simp add: exit_of_def)

lemma due_cong: "pt_margin_model e' = pt_margin_model e \<Longrightarrow> due e' c = due e c"
  by (auto simp: due_def fun_eq_iff exit_of_cong [of e' e])

lemma close_order_ok:
  assumes "close_order now i price reason candle occurred e = (e', Inr settled)" "paper_inv e"
  shows "pt_open_orders e' = dict_pop i (pt_open_orders e)" "pt_closed_orders e' = pt_closed_orders e @ [settled]"
    "pt_margin_model e' = pt_margin_model e"
proof -
  have "keyed_book e" "rm_initial_balance (pt_risk e) \<noteq> 0" "0 < pt_peak_equity e" using assms(2) by (auto simp: paper_inv_def)
  from close_order_effect [OF assms(1) this] show "pt_open_orders e' = dict_pop i (pt_open_orders e)"
    "pt_closed_orders e' = pt_closed_orders e @ [settled]" "pt_margin_model e' = pt_margin_model e" by auto
qed

text \<open>When a level of a position is reached by a candle, and the price at which each level is left.\<close>

definition liquidation_hit :: "paper_engine \<Rightarrow> candle \<Rightarrow> paper_order \<Rightarrow> bool" where
  "liquidation_hit e c order \<longleftrightarrow>
     pt_margin_model e \<noteq> None \<and>
     (\<exists>p. po_liquidation_price order = Some p \<and> 0 < p \<and> (if po_side order = BUY then cd_low c \<le> p else p \<le> cd_high c))"

definition stop_hit :: "candle \<Rightarrow> paper_order \<Rightarrow> bool" where
  "stop_hit c order \<longleftrightarrow> (\<exists>p. po_stop_loss order = Some p \<and> (if po_side order = BUY then cd_low c \<le> p else p \<le> cd_high c))"

definition target_hit :: "candle \<Rightarrow> paper_order \<Rightarrow> bool" where
  "target_hit c order \<longleftrightarrow> (\<exists>p. po_take_profit order = Some p \<and> (if po_side order = BUY then p \<le> cd_high c else cd_low c \<le> p))"

definition left_at :: "paper_engine \<Rightarrow> candle \<Rightarrow> paper_order \<Rightarrow> pyfloat \<Rightarrow> string \<Rightarrow> paper_order \<Rightarrow> bool" where
  "left_at e c order level reason settled \<longleftrightarrow>
     po_exit_reason settled = Some reason \<and>
     (case pt_execution_model e of
        None \<Rightarrow> po_exit_price settled = Some (py_round level 8)
      | Some m \<Rightarrow>
          \<exists>f. close_fill m (po_side order) level (po_position_size order / po_entry_price order) (Some c) = Inr f \<and>
              po_exit_price settled = Some (py_round (sf_fill_price f) 8))"

definition exits :: "paper_engine \<Rightarrow> candle \<Rightarrow> paper_order \<Rightarrow> paper_order \<Rightarrow> bool" where
  "exits e c order settled \<longleftrightarrow>
     po_paper_order_id settled = po_paper_order_id order \<and> po_status settled = PsCLOSED \<and>
     po_closed_at settled = Some (cd_closed_at c) \<and>
     (if liquidation_hit e c order
      then left_at e c order ((if po_side order = BUY then min else max) (the (po_liquidation_price order)) (cd_open c)) ''LIQUIDATION'' settled
      else if stop_hit c order then left_at e c order (the (po_stop_loss order)) ''STOP_LOSS'' settled
      else left_at e c order (the (po_take_profit order)) ''TAKE_PROFIT'' settled)"

lemma exit_of_hits:
  "exit_of e order c =
     (if liquidation_hit e c order
      then Some ((if po_side order = BUY then min else max) (the (po_liquidation_price order)) (cd_open c), ''LIQUIDATION'')
      else if stop_hit c order then Some (the (po_stop_loss order), ''STOP_LOSS'')
      else if target_hit c order then Some (the (po_take_profit order), ''TAKE_PROFIT'')
      else None)"
proof -
  have side: "po_side order = SELL \<longleftrightarrow> po_side order \<noteq> BUY" by (cases "po_side order") auto
  have "(case pt_margin_model e of None \<Rightarrow> None | Some _ \<Rightarrow> liquidation_reference order c) =
      (if liquidation_hit e c order
       then Some ((if po_side order = BUY then min else max) (the (po_liquidation_price order)) (cd_open c)) else None)"
    by (auto simp: liquidation_reference_def liquidation_hit_def side not_le split: option.split)
  then show ?thesis
    by (auto simp: exit_of_def Let_def stop_hit_def target_hit_def split: option.split)
qed

lemma due_hits: "due e c order \<longleftrightarrow>
    po_symbol order = cd_symbol c \<and> (liquidation_hit e c order \<or> stop_hit c order \<or> target_hit c order)"
  by (simp add: due_def exit_of_hits)

lemma close_order_exit:
  assumes "close_order now i price (Some reason) (Some c) (Some (cd_closed_at c)) e = (e', Inr settled)" "paper_inv e"
    and "dict_get (pt_open_orders e) i = Some order"
  shows "po_closed_at settled = Some (cd_closed_at c)" "left_at e c order price reason settled"
    "pt_execution_model e' = pt_execution_model e"
proof -
  have inv: "keyed_book e" "rm_initial_balance (pt_risk e) \<noteq> 0" "0 < pt_peak_equity e" using assms(2) by (auto simp: paper_inv_def)
  have "po_closed_at settled = Some (cd_closed_at c) \<and> left_at e c order price reason settled \<and>
      pt_execution_model e' = pt_execution_model e"
    using assms(1)
  proof (cases rule: close_order_cases)
    case (settled order' s e1 e3)
    let ?qty = "po_position_size order' / po_entry_price order'"
    let ?pnl = "net_pnl order' ?qty s"
    let ?settled = "closed_order order' ?pnl (Some reason) s (cd_closed_at c)"
    let ?out = "leave_book ?settled (se_ledger s) e3"
    have o': "order' = order" using settled(1) assms(3) by simp
    note same = account_fields [OF settled(3)] and same1 = account_fields [OF settled(6)]
    have "rm_initial_balance (pt_risk ?out) \<noteq> 0" "0 < pt_peak_equity ?out"
      using inv(2,3) settled(4) same by simp_all
    then obtain rm d where br: "book_result (cd_closed_at c) ?pnl ?settled ?out =
       (?out\<lparr>pt_balance := pt_balance ?out + ?pnl, pt_peak_equity := max (pt_peak_equity ?out) (pt_balance ?out + ?pnl),
          pt_max_drawdown_percent := max (pt_max_drawdown_percent ?out) d, pt_risk := rm,
          pt_equity_curve := pt_equity_curve ?out @ [(cd_closed_at c, py_round (pt_balance ?out + ?pnl) 4)]\<rparr>,
        Inr ?settled)"
      by (rule book_result_ok)
    have at: "or_default (Some (cd_closed_at c)) now = cd_closed_at c" by (simp add: or_default_def)
    from settled(7) have "settled = ?settled" "pt_execution_model e' = pt_execution_model e"
      unfolding at br using same by (simp_all add: eq_commute [of _ e'])
    moreover have "case pt_execution_model e of None \<Rightarrow> se_exit_price s = price
        | Some m \<Rightarrow> \<exists>f. close_fill m (po_side order) price (po_position_size order / po_entry_price order) (Some c) = Inr f \<and>
            se_exit_price s = sf_fill_price f"
      using settled(5) unfolding same1(7) [symmetric] o' settle_exit_def Let_def
      by (auto simp: bind_result_Inr split: option.splits if_splits)
    ultimately show ?thesis
      by (auto simp: left_at_def closed_order_def split: option.splits)
  qed simp
  then show "po_closed_at settled = Some (cd_closed_at c)" "left_at e c order price reason settled"
    "pt_execution_model e' = pt_execution_model e" by auto
qed


lemma exits_cong:
  assumes "pt_margin_model e' = pt_margin_model e" "pt_execution_model e' = pt_execution_model e"
  shows "exits e' c = exits e c"
  by (intro ext) (simp only: exits_def liquidation_hit_def left_at_def assms)

lemma check_orders_ok:
  assumes "check_orders now c orders acc e = (e', Inr done')" "paper_inv e"
    and "distinct (map po_paper_order_id orders)"
    and "\<forall>o' \<in> set orders. dict_get (pt_open_orders e) (po_paper_order_id o') = Some o'"
  shows "\<exists>new. done' = acc @ new \<and> pt_closed_orders e' = pt_closed_orders e @ new \<and>
     list_all2 (exits e c) (filter (due e c) orders) new \<and>
     (\<forall>k. dict_get (pt_open_orders e') k =
        (if \<exists>o' \<in> set orders. po_paper_order_id o' = k \<and> due e c o' then None else dict_get (pt_open_orders e) k))"
  using assms
proof (induction orders arbitrary: acc e)
  case (Cons order orders)
  show ?case
  proof (cases "po_symbol order = cd_symbol c")
    case True
    obtain e1 r1 where a: "accrue_funding order (cd_closed_at c) e = (e1, r1)" by force
    note same = account_fields [OF accrue_account [of order "cd_closed_at c" e, unfolded a fst_conv]]
    have e1: "paper_inv e1" using accrue_inv [OF a] Cons.prems by simp
    have due1: "due e1 c = due e c" using due_cong same by blast
    have exits1: "exits e1 c = exits e c" using exits_cong same by blast
    obtain u where r1: "r1 = Inr u" using Cons.prems(1) True a by (cases r1) auto
    show ?thesis
    proof (cases "exit_of e1 order c")
      case None
      have nd: "\<not> due e c order" using None due1 by (metis due_def)
      have "check_orders now c orders acc e1 = (e', Inr done')" using Cons.prems(1) True a r1 None by simp
      moreover have "distinct (map po_paper_order_id orders)" using Cons.prems(3) by simp
      moreover have "\<forall>o' \<in> set orders. dict_get (pt_open_orders e1) (po_paper_order_id o') = Some o'"
        using Cons.prems(4) by (simp add: same(1))
      ultimately show ?thesis using Cons.IH [of acc e1] e1 nd unfolding due1 exits1 same(1,2) by simp
    next
      case (Some pr)
      obtain price reason where pr: "pr = (price, reason)" by force
      have d: "due e c order" using Some due1 True by (metis due_def option.distinct(1))
      obtain e2 r2 where b: "close_order now (po_paper_order_id order) price (Some reason) (Some c)
          (Some (cd_closed_at c)) e1 = (e2, r2)" by force
      obtain settled where r2: "r2 = Inr settled" using Cons.prems(1) True a r1 Some pr b by (cases r2) auto
      note closed = close_order_ok [OF b [unfolded r2] e1]
      have held: "dict_get (pt_open_orders e1) (po_paper_order_id order) = Some order" using Cons.prems(4) by (simp add: same(1))
      note exit = close_order_exit [OF b [unfolded r2] e1 held]
      have e2: "paper_inv e2" using close_order_inv [OF b e1] .
      have due2: "due e2 c = due e c" using due_cong closed(3) due1 by metis
      have exits2: "exits e2 c = exits e c" using exits_cong [OF closed(3) exit(3)] exits1 by simp
      have "po_paper_order_id settled = po_paper_order_id order \<and> po_status settled = PsCLOSED"
        using close_order_effect [OF b [unfolded r2]] e1 by (auto simp: paper_inv_def)
      then have out: "exits e c order settled"
        using exit(1,2) Some unfolding exits1 [symmetric] exits_def pr exit_of_hits by (simp split: if_splits)
      have g: "dict_get (pt_open_orders e2) k = (if k = po_paper_order_id order then None else dict_get (pt_open_orders e) k)"
        for k using closed(1) same(1) by (simp add: dict_simps)
      have rest: "check_orders now c orders (acc @ [settled]) e2 = (e', Inr done')"
        using Cons.prems(1) True a r1 Some pr b r2 by simp
      have dist: "distinct (map po_paper_order_id orders)" using Cons.prems(3) by simp
      have mem: "\<forall>o' \<in> set orders. dict_get (pt_open_orders e2) (po_paper_order_id o') = Some o'"
      proof
        fix o' assume m: "o' \<in> set orders"
        have "po_paper_order_id o' \<noteq> po_paper_order_id order" using Cons.prems(3) imageI [OF m, of po_paper_order_id] by auto
        moreover have "dict_get (pt_open_orders e) (po_paper_order_id o') = Some o'"
          using Cons.prems(4) m by (meson list.set_intros(2))
        ultimately show "dict_get (pt_open_orders e2) (po_paper_order_id o') = Some o'" by (simp add: g)
      qed
      from Cons.IH [OF rest e2 dist mem] obtain new where new: "done' = (acc @ [settled]) @ new" "pt_closed_orders e' = pt_closed_orders e2 @ new"
        "list_all2 (exits e2 c) (filter (due e2 c) orders) new"
        "\<forall>k. dict_get (pt_open_orders e') k =
          (if \<exists>o' \<in> set orders. po_paper_order_id o' = k \<and> due e2 c o' then None else dict_get (pt_open_orders e2) k)"
        by (elim exE conjE)
      have "done' = acc @ (settled # new)" "pt_closed_orders e' = pt_closed_orders e @ (settled # new)"
        using new closed(2) same(2) by simp_all
      moreover have "list_all2 (exits e c) (filter (due e c) (order # orders)) (settled # new)"
        using new(3) out d unfolding due2 exits2 by simp
      moreover have "\<forall>k. dict_get (pt_open_orders e') k =
          (if \<exists>o' \<in> set (order # orders). po_paper_order_id o' = k \<and> due e c o' then None
           else dict_get (pt_open_orders e) k)"
        using new(4) d unfolding due2 g by auto
      ultimately show ?thesis by blast
    qed
  next
    case False
    then have "\<not> due e c order" by (simp add: due_def)
    moreover have "check_orders now c orders acc e = (e', Inr done')" using Cons.prems(1) False by simp
    ultimately show ?thesis using Cons.IH [of acc e] Cons.prems(2-4) by simp
  qed
qed simp

text \<open>
  C15. A closed candle acts on exactly the positions it must. When the sweep over the open orders succeeds, the
  orders of the candle's symbol of which the candle reached the liquidation, the stop or the target have left the open
  book, every other open order is still there unchanged, and the closed orders grew by exactly the returned ones, one for
  each order that left, in the order of the book. A long position reaches its liquidation and its stop when the low is at
  or below the level, and its target when the high is at or above it; for a short one it is the high at or above, and
  the low at or below. A reached liquidation has precedence over the stop and the stop over the target, also when one
  candle reaches them all; the order is closed at the time of the candle, with the reason and at the level that had
  precedence, the liquidation at the opening price where the candle opened beyond it. With an execution model the
  level is the price the fill starts from.
\<close>

theorem on_candle_sweeps:
  assumes "on_candle now c e = (e', Inr done')" "paper_inv e"
  defines "reached \<equiv> \<lambda>order. po_symbol order = cd_symbol c \<and> (liquidation_hit e c order \<or> stop_hit c order \<or> target_hit c order)"
  shows "pt_closed_orders e' = pt_closed_orders e @ done' \<and>
     list_all2 (exits e c) (filter reached (dict_values (pt_open_orders e))) done' \<and>
     (\<forall>k order. dict_get (pt_open_orders e) k = Some order \<longrightarrow>
        dict_get (pt_open_orders e') k = (if reached order then None else Some order))"
proof -
  let ?orders = "dict_values (pt_open_orders e)"
  have reached: "reached = due e c" by (simp add: fun_eq_iff reached_def due_hits)
  have keyed: "keyed_book e" using assms(2) by (simp add: paper_inv_def)
  then have ids: "map po_paper_order_id ?orders = map fst (pt_open_orders e)"
    by (force simp: keyed_book_def dict_values_def)
  have "distinct (map po_paper_order_id ?orders)" using keyed unfolding ids by (simp add: keyed_book_def dict_wf_def)
  moreover have mem: "\<forall>o' \<in> set ?orders. dict_get (pt_open_orders e) (po_paper_order_id o') = Some o'"
    using keyed by (force simp: keyed_book_def dict_values_def dict_wf_def)
  ultimately obtain new where new: "done' = [] @ new" "pt_closed_orders e' = pt_closed_orders e @ new"
    "list_all2 (exits e c) (filter (due e c) ?orders) new"
    "\<forall>k. dict_get (pt_open_orders e') k =
        (if \<exists>o' \<in> set ?orders. po_paper_order_id o' = k \<and> due e c o' then None else dict_get (pt_open_orders e) k)"
    using check_orders_ok [OF assms(1) [unfolded on_candle_def] assms(2)] by blast
  have left: "dict_get (pt_open_orders e') k = (if due e c order then None else Some order)"
    if order: "dict_get (pt_open_orders e) k = Some order" for k order
  proof -
    have "order \<in> set ?orders" "po_paper_order_id order = k"
      using dict_get_in_values [OF order] keyed_bookD [OF keyed order] by auto
    moreover have "o' = order" if "o' \<in> set ?orders" "po_paper_order_id o' = k" for o'
      using mem that order by (metis option.inject)
    ultimately have "(\<exists>o' \<in> set ?orders. po_paper_order_id o' = k \<and> due e c o') \<longleftrightarrow> due e c order" by metis
    then show ?thesis using new(4) order by simp
  qed
  have "pt_closed_orders e' = pt_closed_orders e @ done'" using new(1,2) by simp
  with left new(1,3) show ?thesis unfolding reached by simp
qed


definition guarded_order :: paper_order where
  "guarded_order = sample_paper_order\<lparr>po_stop_loss := Some (flt 990), po_take_profit := Some (flt 1010)\<rparr>"

definition wide_candle :: candle where
  "wide_candle = sample_candle\<lparr>cd_open := flt 1000, cd_low := flt 980, cd_high := flt 1020, cd_close := flt 1000\<rparr>"

definition guarded_holding :: paper_engine where
  "guarded_holding = sample_engine\<lparr>pt_open_orders := [(''paper-1'', guarded_order)]\<rparr>"

lemma guarded_sweep: "is_ok (snd (on_candle 9 wide_candle guarded_holding))"
  by code_simp

text \<open>The candle reaches the stop and the target of the position: it leaves at the stop.\<close>

theorem on_candle_sweeps_witness:
  "\<exists>x. snd (on_candle 9 wide_candle guarded_holding) = Inr [x] \<and> po_exit_reason x = Some ''STOP_LOSS'' \<and>
     po_exit_price x = Some (py_round (flt 990) 8) \<and>
     dict_get (pt_open_orders (fst (on_candle 9 wide_candle guarded_holding))) ''paper-1'' = None"
proof -
  let ?run = "on_candle 9 wide_candle guarded_holding"
  obtain xs where run: "?run = (fst ?run, Inr xs)" using guarded_sweep unfolding is_ok_iff by (metis prod.collapse)
  have inv: "paper_inv guarded_holding"
    using sample_engine_inv
    by (simp add: paper_inv_def guarded_holding_def guarded_order_def keyed_book_def sample_paper_order_def dict_wf_def
        ledgers_ok_def sample_engine_def new_paper_engine_def)
  have "flt 980 \<le> flt 990" by (rule flt_mono) simp
  then have hit: "po_symbol guarded_order = cd_symbol wide_candle" "stop_hit wide_candle guarded_order"
    "\<not> liquidation_hit guarded_holding wide_candle guarded_order"
    by (simp_all add: stop_hit_def liquidation_hit_def guarded_order_def wide_candle_def sample_paper_order_def sample_candle_def)
  have book: "pt_open_orders guarded_holding = [(''paper-1'', guarded_order)]" and plain: "pt_execution_model guarded_holding = None"
    by (simp_all add: guarded_holding_def sample_engine_def new_paper_engine_def)
  from on_candle_sweeps [OF run inv] have "list_all2 (exits guarded_holding wide_candle) [guarded_order] xs"
    "dict_get (pt_open_orders (fst ?run)) ''paper-1'' = None"
    using hit by (simp_all add: book dict_values_def)
  then obtain x where "xs = [x]" "exits guarded_holding wide_candle guarded_order x"
    by (auto simp: list_all2_Cons1)
  with hit plain run \<open>dict_get _ _ = None\<close> show ?thesis
    by (auto simp: exits_def left_at_def guarded_order_def prod_eq_iff)
qed

end
