(* ===== verification/Paper_Reports.thy ===== *)
theory Paper_Reports
  imports Paper_Properties "HOL-Library.Multiset"
begin

text \<open>
  The breakdown of the PAPER results: the grouping loop of \<^verbatim>\<open>performance_by\<close> against its reference, one
  group per key in key order, each holding the closed orders of that key in closing order.
\<close>

lemma group_by_snoc:
  "group_by key (xs @ [x]) =
     dict_set (key x) (or_default (dict_get (group_by key xs) (key x)) [] @ [x]) (group_by key xs)"
  by (simp add: group_by_def)

lemma group_by_get:
  "dict_get (group_by key xs) k = (if k \<in> key ` set xs then Some (filter (\<lambda>x. key x = k) xs) else None)"
proof (induction xs arbitrary: k rule: rev_induct)
  case Nil
  show ?case by (simp add: group_by_def)
next
  case (snoc x xs)
  have "filter (\<lambda>y. key y = key x) xs = []" if "key x \<notin> key ` set xs"
    using that by (metis (mono_tags, lifting) filter_False image_eqI)
  then show ?case by (auto simp: group_by_snoc dict_simps snoc or_default_def)
qed

lemma group_by_keys: "distinct (map fst (group_by key xs)) \<and> set (map fst (group_by key xs)) = key ` set xs"
proof (induction xs rule: rev_induct)
  case Nil
  show ?case by (simp add: group_by_def)
next
  case (snoc x xs)
  then show ?case by (auto simp: group_by_snoc keys_dict_set distinct_update simp del: set_map)
qed

lemma map_sort_key: "map f (sort_key f xs) = sort (map f xs)"
  by (rule properties_for_sort [symmetric]) simp_all

lemma sorted_groups:
  "sort_key fst (group_by key xs) = map (\<lambda>k. (k, filter (\<lambda>x. key x = k) xs)) (sorted_list_of_set (key ` set xs))"
proof -
  let ?g = "group_by key xs"
  have keys: "map fst (sort_key fst ?g) = sorted_list_of_set (key ` set xs)"
    using group_by_keys [of key xs]
    by (metis map_sort_key sorted_list_of_set_sort_remdups distinct_remdups_id set_map)
  have "snd p = filter (\<lambda>x. key x = fst p) xs" if "p \<in> set (sort_key fst ?g)" for p
  proof -
    have "dict_get ?g (fst p) = Some (snd p)" using that group_by_keys [of key xs] by simp
    then show ?thesis by (simp add: group_by_get split: if_splits)
  qed
  then have "sort_key fst ?g = map (\<lambda>k. (k, filter (\<lambda>x. key x = k) xs)) (map fst (sort_key fst ?g))"
    by (simp add: comp_def) (rule map_idI [symmetric], simp add: prod_eq_iff)
  then show ?thesis unfolding keys .
qed

definition report_key :: "string \<Rightarrow> paper_order \<Rightarrow> string" where
  "report_key dimension o' = (if dimension = ''symbol'' then po_symbol o' else or_unknown (po_timeframe o'))"

lemma sum_list_filter_keys:
  assumes "finite K" "key ` set xs \<subseteq> K"
  shows "(\<Sum>k\<in>K. length (filter (\<lambda>x. key x = k) xs)) = length xs"
  using assms(2)
proof (induction xs)
  case (Cons x xs)
  have "(\<Sum>k\<in>K. length (filter (\<lambda>y. key y = k) (x # xs))) =
        (\<Sum>k\<in>K. (if k = key x then 1 else 0) + length (filter (\<lambda>y. key y = k) xs))"
    by (rule sum.cong) auto
  also have "\<dots> = 1 + length xs"
    using Cons assms(1) by (simp add: sum.distrib)
  finally show ?case by simp
qed simp

text \<open>
  The breakdown is a partition of the closed orders: performance_by returns, in increasing key
  order, one entry per symbol (or timeframe), computed on exactly the closed orders of that key in the
  order they were closed, and the trades of the entries add up to the closed trades of the performance report,
  which are also its wins plus its losses.
\<close>

theorem performance_by_partition:
  "performance_by dimension e =
     map (\<lambda>k. group_performance k (filter (\<lambda>o'. report_key dimension o' = k) (pt_closed_orders e)))
       (sorted_list_of_set (report_key dimension ` set (pt_closed_orders e))) \<and>
   sum_list (map sy_trades (performance_by dimension e)) = pp_closed_trades (performance e) \<and>
   pp_wins (performance e) + pp_losses (performance e) = pp_closed_trades (performance e)"
proof -
  let ?key = "report_key dimension" and ?xs = "pt_closed_orders e"
  have groups: "performance_by dimension e =
     map (\<lambda>k. group_performance k (filter (\<lambda>o'. ?key o' = k) ?xs)) (sorted_list_of_set (?key ` set ?xs))"
    using sorted_groups [of ?key ?xs] by (simp add: performance_by_def report_key_def [abs_def] comp_def)
  have "sum_list (map sy_trades (performance_by dimension e)) =
      (\<Sum>k\<in>?key ` set ?xs. int (length (filter (\<lambda>o'. ?key o' = k) ?xs)))"
    by (simp add: groups comp_def group_performance_def Let_def sum_list_distinct_conv_sum_set)
  also have "\<dots> = int (length ?xs)"
    using sum_list_filter_keys [of "?key ` set ?xs" ?key ?xs] by (simp flip: of_nat_sum)
  finally have "sum_list (map sy_trades (performance_by dimension e)) = pp_closed_trades (performance e)"
    by (simp add: performance_def Let_def)
  moreover have "length (filter (\<lambda>o'. 0 < pnl_of o') ?xs) + length (filter (\<lambda>o'. pnl_of o' \<le> 0) ?xs) = length ?xs"
    using sum_length_filter_compl [of "\<lambda>o'. 0 < pnl_of o'" ?xs] by (simp add: not_less)
  ultimately show ?thesis using groups by (simp add: performance_def Let_def flip: of_nat_add)
qed

end
