(* ===== verification/Oms_Service.thy ===== *)
theory Oms_Service
  imports Paper_Properties Store_Properties
begin

text \<open>
  The order boundary, \<^verbatim>\<open>app/oms/service.py\<close>: submission through the PAPER engine or through the durable
  TESTNET outbox, cancellation, and the worker that executes one leased command at a time.

  The exchange adapters talk to a network. Their answers are parameters of the operations that call
  them: \<open>prepare\<close> for \<^verbatim>\<open>prepare_order\<close>, \<open>venue\<close> for \<^verbatim>\<open>submit_order\<close> and \<^verbatim>\<open>cancel_order\<close>; an answer is a
  snapshot or an exception, of any class. The service keeps no record of the writes it sends; the
  field \<open>os_writes\<close> of the model does, so that theorems can count them. Audit payloads and log output are
  left out.
\<close>

section \<open>State\<close>

record oms_service =
  os_target_environment :: environment
  os_target_exchange :: exchange
  os_paper :: paper_engine
  os_adapters :: "(exchange \<times> environment) set"
  os_repository :: bool
  os_worker_id :: string
  os_lease_seconds :: pyfloat
  os_orders :: "oms_order dict"
  os_commands :: "execution_command dict"
  os_writes :: "(command_type \<times> oms_order) list"

abbreviation os_risk :: "oms_service \<Rightarrow> risk_manager" where
  "os_risk s \<equiv> pt_risk (os_paper s)"

definition new_oms_service ::
  "environment \<Rightarrow> exchange \<Rightarrow> paper_engine \<Rightarrow> (exchange \<times> environment) set \<Rightarrow> bool \<Rightarrow> string \<Rightarrow> pyfloat
     \<Rightarrow> oms_service result" where
  "new_oms_service target_environment target_exchange paper adapters repository worker_id lease_seconds =
     (if target_environment = EnvTESTNET \<and> \<not> repository
      then raise SecurityError ''TESTNET OMS requires durable database persistence''
      else if (target_exchange, target_environment) \<notin> adapters
      then raise SecurityError ''OMS target has no explicitly configured adapter''
      else Inr \<lparr>os_target_environment = target_environment, os_target_exchange = target_exchange,
                os_paper = paper, os_adapters = adapters, os_repository = repository,
                os_worker_id = worker_id, os_lease_seconds = lease_seconds, os_orders = [],
                os_commands = [], os_writes = []\<rparr>)"

text \<open>Operations of the risk manager, of the repository and of the audit service on the shared state.\<close>

definition on_risk :: "(risk_manager \<Rightarrow> (risk_manager, 'a) outcome) \<Rightarrow> oms_service \<Rightarrow> (oms_service, 'a) outcome" where
  "on_risk f s = (case f (os_risk s) of (rm, r) \<Rightarrow> (s\<lparr>os_paper := (os_paper s)\<lparr>pt_risk := rm\<rparr>\<rparr>, r))"

definition on_db :: "(db \<Rightarrow> (db, 'a) outcome) \<Rightarrow> oms_service \<Rightarrow> (oms_service, 'a) outcome" where
  "on_db f = on_risk (\<lambda>rm. case f (rm_db rm) of (d, r) \<Rightarrow> (rm\<lparr>rm_db := d\<rparr>, r))"

definition audit_oms :: "string \<Rightarrow> oms_order \<Rightarrow> oms_service \<Rightarrow> (oms_service, unit) outcome" where
  "audit_oms audit_type order =
     on_risk (\<lambda>rm. case record_audit \<lparr>au_correlation_id = oo_correlation_id order, au_audit_type = audit_type,
         au_entity_type = ''oms_order'', au_entity_id = Some (oo_oms_order_id order)\<rparr> (rm_audit rm, rm_db rm) of
       ((a, d), r) \<Rightarrow> (rm\<lparr>rm_audit := a, rm_db := d\<rparr>, r))"

definition remember :: "oms_order \<Rightarrow> oms_service \<Rightarrow> oms_service" where
  "remember order s = s\<lparr>os_orders := dict_set (oo_oms_order_id order) order (os_orders s)\<rparr>"

definition trip_unless_active ::
  "time \<Rightarrow> string \<Rightarrow> string option \<Rightarrow> oms_service \<Rightarrow> (oms_service, unit) outcome" where
  "trip_unless_active now reason correlation_id s =
     (if kill_switch_active (os_risk s) then (s, Inr ())
      else on_risk (trigger_risk_kill_switch now reason ''oms-worker'' correlation_id) s)"

section \<open>Queries\<close>

fun remember_all :: "oms_order list \<Rightarrow> oms_service \<Rightarrow> oms_service" where
  "remember_all [] s = s"
| "remember_all (o' # os) s = remember_all os (remember o' s)"

definition initialize_oms :: "oms_service \<Rightarrow> (oms_service, unit) outcome" where
  "initialize_oms s =
     (if \<not> os_repository s then (s, Inr ())
      else bind_outcome (on_db (list_oms_orders None None (Some 1000)) s) (\<lambda>s1 orders. (remember_all orders s1, Inr ())))"

definition get_order :: "string \<Rightarrow> oms_service \<Rightarrow> (oms_service, oms_order option) outcome" where
  "get_order oms_order_id s =
     (if os_repository s
      then bind_outcome (on_db (load_oms_order oms_order_id) s) (\<lambda>s1 durable.
             case durable of
               Some o' \<Rightarrow> (remember o' s1, Inr (Some o'))
             | None \<Rightarrow> (s1, Inr (dict_get (os_orders s1) oms_order_id)))
      else (s, Inr (dict_get (os_orders s) oms_order_id)))"

definition list_orders :: "int \<Rightarrow> oms_service \<Rightarrow> (oms_service, oms_order list) outcome" where
  "list_orders limit s =
     (if os_repository s then on_db (list_oms_orders None None (Some limit)) s
      else (s, Inr (let newest = rev (sort_key oo_created_at (rev (dict_values (os_orders s))))
                    in if 0 \<le> limit then take (nat limit) newest else take (length newest - nat (- limit)) newest)))"

section \<open>Submission\<close>

definition paper_oms_order :: "paper_order \<Rightarrow> oms_order result" where
  "paper_oms_order order =
     (let approval_id = (if truthy_id (po_approval_id order) then the (po_approval_id order) else replicate 64 CHR ''0'');
          timestamp = or_default (po_opened_at order) (po_created_at order)
      in if po_entry_price order = 0 then raise ZeroDivisionError ''float division by zero''
         else case po_request_fingerprint order of
                None \<Rightarrow> raise PydanticValidationError ''validation error''
              | Some fingerprint \<Rightarrow>
                  validate valid_oms_order
                    \<lparr>oo_oms_order_id = po_paper_order_id order, oo_client_order_id = ''paper-'' @ take 24 approval_id,
                     oo_decision_id = po_decision_id order, oo_risk_check_id = po_risk_check_id order,
                     oo_approval_id = approval_id, oo_request_fingerprint = fingerprint,
                     oo_correlation_id = po_correlation_id order, oo_exchange = po_exchange order,
                     oo_environment = EnvPAPER, oo_symbol = po_symbol order,
                     oo_timeframe = or_unknown (po_timeframe order), oo_strategy = po_strategy order,
                     oo_side = po_side order, oo_order_type = MARKET, oo_time_in_force = IOC,
                     oo_quantity = po_position_size order / po_entry_price order,
                     oo_requested_notional = po_position_size order, oo_leverage = po_leverage order,
                     oo_limit_price = None, oo_reference_price = po_entry_price order, oo_status = OsFILLED,
                     oo_venue_order_id = Some (po_paper_order_id order),
                     oo_cumulative_filled_quantity = po_position_size order / po_entry_price order,
                     oo_average_fill_price = Some (po_entry_price order), oo_rejection_reason = None,
                     oo_state_version = 1, oo_created_at = po_created_at order, oo_updated_at = timestamp,
                     oo_submitted_at = Some timestamp, oo_terminal_at = Some timestamp\<rparr>)"

definition on_paper :: "(paper_engine \<Rightarrow> (paper_engine, 'a) outcome) \<Rightarrow> oms_service \<Rightarrow> (oms_service, 'a) outcome" where
  "on_paper f s = (case f (os_paper s) of (e, r) \<Rightarrow> (s\<lparr>os_paper := e\<rparr>, r))"

definition submit_paper ::
  "(json \<Rightarrow> string) \<Rightarrow> (string \<Rightarrow> string) \<Rightarrow> time \<Rightarrow> decision \<Rightarrow> risk_check \<Rightarrow> pyfloat \<Rightarrow> candle option \<Rightarrow> time option
     \<Rightarrow> oms_service \<Rightarrow> (oms_service, oms_order) outcome" where
  "submit_paper H U now dec c current_price market_candle occurred_at s =
     bind_outcome (on_paper (create_order H U now now now now dec c current_price market_candle occurred_at) s)
       (\<lambda>s1 paper_order.
        case paper_oms_order paper_order of
          Inl e \<Rightarrow> (s1, Inl e)
        | Inr mirrored \<Rightarrow>
            if \<not> os_repository s1 then (remember mirrored s1, Inr mirrored)
            else bind_outcome (on_db (load_oms_order (oo_oms_order_id mirrored)) s1) (\<lambda>s2 durable.
                   case durable of
                     None \<Rightarrow> (s2, raise ValidationError ''Atomic PAPER OMS mirror is missing'')
                   | Some o' \<Rightarrow> (remember o' s2, Inr o')))"

definition testnet_order ::
  "oms_service \<Rightarrow> string \<Rightarrow> time \<Rightarrow> decision \<Rightarrow> risk_check \<Rightarrow> pyfloat \<Rightarrow> oms_order result" where
  "testnet_order s order_id now dec c current_price =
     (let size' = or_default (rc_position_size c) 0;
          approval_id = or_default (rc_approval_id c) []
      in if current_price = 0 then raise ZeroDivisionError ''float division by zero''
         else case side_of_action (dec_candidate_action dec) of
                Inl _ \<Rightarrow> raise PydanticValidationError ''validation error''
              | Inr side \<Rightarrow>
                  validate valid_oms_order
                    \<lparr>oo_oms_order_id = order_id, oo_client_order_id = ''cc-'' @ take 32 approval_id,
                     oo_decision_id = dec_decision_id dec, oo_risk_check_id = rc_risk_check_id c,
                     oo_approval_id = approval_id, oo_request_fingerprint = rc_request_fingerprint c,
                     oo_correlation_id = dec_correlation_id dec, oo_exchange = os_target_exchange s,
                     oo_environment = EnvTESTNET, oo_symbol = dec_symbol dec, oo_timeframe = dec_timeframe dec,
                     oo_strategy = dec_strategy dec, oo_side = side, oo_order_type = MARKET,
                     oo_time_in_force = IOC, oo_quantity = size' / current_price, oo_requested_notional = size',
                     oo_leverage = (case rc_leverage c of None \<Rightarrow> 1 | Some l \<Rightarrow> if l = 0 then 1 else l),
                     oo_limit_price = None, oo_reference_price = current_price,
                     oo_status = OsPENDING_SUBMISSION, oo_venue_order_id = None,
                     oo_cumulative_filled_quantity = 0, oo_average_fill_price = None,
                     oo_rejection_reason = None, oo_state_version = 1, oo_created_at = now,
                     oo_updated_at = now, oo_submitted_at = None, oo_terminal_at = None\<rparr>)"

definition new_command :: "string \<Rightarrow> command_type \<Rightarrow> time \<Rightarrow> oms_order \<Rightarrow> execution_command" where
  "new_command command_id command_type now order =
     \<lparr>xc_command_id = command_id, xc_oms_order_id = oo_oms_order_id order, xc_command_type = command_type,
      xc_status = CsPENDING, xc_attempt_count = 0, xc_max_attempts = 1, xc_leased_by = None,
      xc_lease_expires_at = None, xc_available_at = now, xc_last_error_type = None, xc_created_at = now,
      xc_completed_at = None\<rparr>"

definition submit_testnet ::
  "(json \<Rightarrow> string) \<Rightarrow> (string \<Rightarrow> string) \<Rightarrow> (oms_order \<Rightarrow> oms_order result) \<Rightarrow> time \<Rightarrow> string \<Rightarrow> decision \<Rightarrow> risk_check
     \<Rightarrow> pyfloat \<Rightarrow> oms_service \<Rightarrow> (oms_service, oms_order) outcome" where
  "submit_testnet H U prepare now order_id dec c current_price s =
     (case bind_result (testnet_order s order_id now dec c current_price) prepare of
        Inl e \<Rightarrow> (s, Inl e)
      | Inr order \<Rightarrow>
          let command = new_command (U (''oms-submit:'' @ oo_oms_order_id order)) SUBMIT now order
          in bind_outcome (audit_oms ''OMS_TESTNET_ORDER_REQUESTED'' order s) (\<lambda>s1 _.
             bind_outcome (on_risk (consume_oms_approval H now now dec c order command) s1) (\<lambda>s2 created.
               let s3 = remember created s2
               in (if os_repository s3 then s3
                   else s3\<lparr>os_commands := dict_set (xc_command_id command) command (os_commands s3)\<rparr>, Inr created))))"

definition submit_approved ::
  "(json \<Rightarrow> string) \<Rightarrow> (string \<Rightarrow> string) \<Rightarrow> (oms_order \<Rightarrow> oms_order result) \<Rightarrow> time \<Rightarrow> decision \<Rightarrow> risk_check \<Rightarrow> pyfloat
     \<Rightarrow> candle option \<Rightarrow> time option \<Rightarrow> oms_service \<Rightarrow> (oms_service, oms_order) outcome" where
  "submit_approved H U prepare now dec c current_price market_candle occurred_at s =
     (if \<not> approving (rc_risk_status c) then (s, raise RiskError ''OMS requires central risk approval'')
      else if \<not> truthy_id (rc_approval_id c)
      then (s, raise RiskError ''OMS requires a single-use approval identity'')
      else
        let order_id = U ((if os_target_environment s = EnvPAPER then ''paper-order:'' else ''oms-order:'')
                            @ the (rc_approval_id c))
        in bind_outcome (get_order order_id s) (\<lambda>s1 existing.
             case existing of
               Some o' \<Rightarrow> (s1, Inr o')
             | None \<Rightarrow>
                 if os_target_environment s1 = EnvPAPER
                 then submit_paper H U now dec c current_price market_candle occurred_at s1
                 else submit_testnet H U prepare now order_id dec c current_price s1))"

section \<open>Cancellation\<close>

definition queue_cancel :: "(string \<Rightarrow> string) \<Rightarrow> time \<Rightarrow> string \<Rightarrow> oms_service \<Rightarrow> (oms_service, oms_order) outcome" where
  "queue_cancel U now oms_order_id s =
     bind_outcome (get_order oms_order_id s) (\<lambda>s1 found.
       case found of
         None \<Rightarrow> (s1, raise ValidationError ''OMS order does not exist'')
       | Some order \<Rightarrow>
           if oo_environment order \<noteq> EnvTESTNET
           then (s1, raise SecurityError ''Only TESTNET OMS orders can be canceled here'')
           else if terminal (oo_status order)
           then (s1, raise ValidationError ''Terminal OMS order cannot be canceled'')
           else if oo_status order \<notin> {OsSUBMITTED, OsPARTIALLY_FILLED, OsCANCEL_PENDING, OsUNKNOWN}
           then (s1, raise ValidationError ''TESTNET cancellation requires a venue-acknowledged or ambiguous order'')
           else
             let updated = order\<lparr>oo_status := OsCANCEL_PENDING, oo_state_version := oo_state_version order + 1,
                                 oo_updated_at := now\<rparr>;
                 command = new_command (U (''oms-cancel:'' @ oo_oms_order_id order)) CANCEL now order
             in bind_outcome (audit_oms ''OMS_TESTNET_CANCEL_REQUESTED'' order s1) (\<lambda>s2 _.
                if os_repository s2
                then bind_outcome (on_db (queue_cancel_command updated command) s2) (\<lambda>s3 stored.
                       (remember stored s3, Inr stored))
                else (remember updated
                        (s2\<lparr>os_commands := dict_set (xc_command_id command) command (os_commands s2)\<rparr>), Inr updated)))"

section \<open>The worker\<close>

definition claim_in_memory :: "time \<Rightarrow> oms_service \<Rightarrow> (oms_service, (execution_command \<times> oms_order) option) outcome" where
  "claim_in_memory now s =
     (case filter (\<lambda>(_, c). xc_status c = CsPENDING \<and> xc_attempt_count c < xc_max_attempts c \<and> xc_available_at c \<le> now)
             (os_commands s) of
        [] \<Rightarrow> (s, Inr None)
      | (command_id, command) # _ \<Rightarrow>
          let leased = lease (os_worker_id s) (now + seconds_delta (os_lease_seconds s)) command;
              s1 = s\<lparr>os_commands := dict_set command_id leased (os_commands s)\<rparr>
          in (case dict_get (os_orders s1) (xc_oms_order_id command) of
                None \<Rightarrow> (s1, raise ValidationError ''In-memory OMS order is missing'')
              | Some order \<Rightarrow> (s1, Inr (Some (leased, order)))))"

definition claim_command :: "time \<Rightarrow> oms_service \<Rightarrow> (oms_service, (execution_command \<times> oms_order) option) outcome" where
  "claim_command now s =
     (if os_repository s then on_db (claim_execution_command now (os_worker_id s) (os_lease_seconds s)) s
      else claim_in_memory now s)"

definition finish_command ::
  "execution_command \<Rightarrow> oms_order \<Rightarrow> string \<Rightarrow> string option \<Rightarrow> oms_service \<Rightarrow> (oms_service, oms_order) outcome" where
  "finish_command command order event_type error_type s =
     (if os_repository s
      then on_db (finish_execution_command (xc_command_id command) (os_worker_id s) order event_type error_type) s
      else (s\<lparr>os_commands := dict_set (xc_command_id command)
                (command\<lparr>xc_status := CsCOMPLETED, xc_leased_by := None, xc_lease_expires_at := None,
                         xc_last_error_type := error_type, xc_completed_at := Some (oo_updated_at order)\<rparr>)
                (os_commands s)\<rparr>, Inr order))"

definition apply_venue_snapshot :: "oms_order \<Rightarrow> venue_order_snapshot \<Rightarrow> oms_order result" where
  "apply_venue_snapshot order v =
     (if vo_exchange v \<noteq> oo_exchange order \<or> vo_environment v \<noteq> oo_environment order \<or>
         vo_client_order_id v \<noteq> oo_client_order_id order \<or> vo_symbol v \<noteq> oo_symbol order
      then raise SecurityError ''Venue acknowledgement identity does not match OMS''
      else
        let now = vo_observed_at v
        in Inr (order\<lparr>oo_status := vo_status v, oo_venue_order_id := Some (vo_venue_order_id v),
                      oo_cumulative_filled_quantity := vo_cumulative_filled_quantity v,
                      oo_average_fill_price := vo_average_fill_price v,
                      oo_state_version := oo_state_version order + 1, oo_updated_at := now,
                      oo_submitted_at :=
                        (if vo_status v = OsCREATED \<or> vo_status v = OsPENDING_SUBMISSION then oo_submitted_at order
                         else Some (or_default (oo_submitted_at order) now)),
                      oo_terminal_at := (if terminal (vo_status v) then Some now else oo_terminal_at order)\<rparr>))"

definition unknown_status :: "time \<Rightarrow> oms_order \<Rightarrow> oms_order" where
  "unknown_status now order =
     order\<lparr>oo_status := OsUNKNOWN, oo_state_version := oo_state_version order + 1, oo_updated_at := now,
           oo_rejection_reason := None\<rparr>"

text \<open>The transition the worker records for the answer of a write, with its event, error and violation.\<close>

record write_outcome =
  wo_order :: oms_order
  wo_event :: string
  wo_error :: "string option"
  wo_violation :: "string option"

definition classify_write ::
  "time \<Rightarrow> command_type \<Rightarrow> oms_order \<Rightarrow> venue_order_snapshot result \<Rightarrow> write_outcome" where
  "classify_write now ctype order answer =
     (case bind_result answer (apply_venue_snapshot order) of
        Inr updated \<Rightarrow>
          \<lparr>wo_order = updated,
           wo_event = (if ctype = SUBMIT then ''SUBMISSION_ACKNOWLEDGED'' else ''CANCELLATION_ACKNOWLEDGED''),
           wo_error = None, wo_violation = None\<rparr>
      | Inl e \<Rightarrow>
          if exn_class e = ExecutionRejectedError
          then if ctype = SUBMIT
               then \<lparr>wo_order = order\<lparr>oo_status := OsREJECTED, oo_state_version := oo_state_version order + 1,
                       oo_updated_at := now, oo_terminal_at := Some now,
                       oo_rejection_reason := Some ''EXECUTION_REJECTED''\<rparr>,
                     wo_event = ''WRITE_REJECTED'', wo_error = Some (class_name (exn_class e)), wo_violation = None\<rparr>
               else \<lparr>wo_order = (unknown_status now order)\<lparr>oo_terminal_at := None\<rparr>,
                     wo_event = ''CANCEL_REJECTED_RECONCILE_REQUIRED'',
                     wo_error = Some (class_name (exn_class e)), wo_violation = None\<rparr>
          else if exn_class e = SecurityError
          then \<lparr>wo_order = unknown_status now order, wo_event = ''VENUE_IDENTITY_REJECTED'',
                wo_error = Some (class_name (exn_class e)), wo_violation = Some (exn_message e)\<rparr>
          else \<lparr>wo_order = unknown_status now order, wo_event = ''WRITE_STATUS_UNKNOWN'',
                wo_error = Some (class_name (exn_class e)), wo_violation = None\<rparr>)"

text \<open>An exception of a step is handled by the worker, as \<^verbatim>\<open>try\<close> does: the state the step left is kept.\<close>

definition recover :: "('s, unit) outcome \<Rightarrow> (exn \<Rightarrow> 's \<Rightarrow> ('s, unit) outcome) \<Rightarrow> ('s, unit) outcome" where
  "recover m h = (case m of (s, Inl e) \<Rightarrow> h e s | (s, Inr _) \<Rightarrow> (s, Inr ()))"

definition refuse_adapter ::
  "time \<Rightarrow> execution_command \<Rightarrow> oms_order \<Rightarrow> oms_service \<Rightarrow> (oms_service, bool) outcome" where
  "refuse_adapter now command order s =
     bind_outcome (finish_command command
         (order\<lparr>oo_status := OsUNKNOWN, oo_state_version := oo_state_version order + 1, oo_updated_at := now\<rparr>)
         ''EXECUTION_ADAPTER_BLOCKED'' (Some ''SecurityError'') s) (\<lambda>s1 updated.
     bind_outcome (trip_unless_active now ''OMS command has no exact TESTNET adapter'' (Some (oo_correlation_id order))
         (remember updated s1)) (\<lambda>s2 _. (s2, Inr True)))"

definition quarantine ::
  "time \<Rightarrow> execution_command \<Rightarrow> oms_order \<Rightarrow> oms_service \<Rightarrow> (oms_service, bool) outcome" where
  "quarantine now command order s =
     bind_outcome (finish_command command
         (order\<lparr>oo_status := OsQUARANTINED, oo_state_version := oo_state_version order + 1, oo_updated_at := now,
                oo_terminal_at := Some now, oo_rejection_reason := Some ''KILL_SWITCH_ACTIVE''\<rparr>)
         ''SUBMISSION_BLOCKED_BY_KILL_SWITCH'' (Some ''RiskError'') s) (\<lambda>s1 updated.
     bind_outcome (if os_repository s1 then recover (on_risk refresh_positions (remember updated s1)) (\<lambda>_ s. (s, Inr ()))
                   else (remember updated s1, Inr ())) (\<lambda>s2 _.
     bind_outcome (recover (audit_oms ''OMS_SUBMISSION_BLOCKED_BY_KILL_SWITCH'' updated s2) (\<lambda>_ s. (s, Inr ()))) (\<lambda>s3 _.
       (s3, Inr True))))"

definition after_write ::
  "time \<Rightarrow> execution_command \<Rightarrow> write_outcome \<Rightarrow> oms_service \<Rightarrow> (oms_service, bool) outcome" where
  "after_write now command w s =
     bind_outcome (finish_command command (wo_order w) (wo_event w) (wo_error w) s) (\<lambda>s1 updated.
     bind_outcome (if os_repository s1
                   then recover (on_risk refresh_positions (remember updated s1)) (\<lambda>e s.
                          trip_unless_active now
                            (''OMS completed a TESTNET write but portfolio refresh failed: '' @ class_name (exn_class e))
                            (Some (oo_correlation_id updated)) s)
                   else (remember updated s1, Inr ())) (\<lambda>s2 _.
     bind_outcome (case wo_violation w of
                     None \<Rightarrow> (s2, Inr ())
                   | Some v \<Rightarrow> trip_unless_active now (''OMS venue identity violation: '' @ v)
                                 (Some (oo_correlation_id updated)) s2) (\<lambda>s3 _.
     bind_outcome (recover (audit_oms (''OMS_'' @ wo_event w) updated s3) (\<lambda>_ s.
                     trip_unless_active now ''OMS post-write audit persistence failed''
                       (Some (oo_correlation_id updated)) s)) (\<lambda>s4 _.
       (s4, Inr True)))))"

definition dispatch_once ::
  "(command_type \<Rightarrow> oms_order \<Rightarrow> venue_order_snapshot result) \<Rightarrow> time \<Rightarrow> oms_service \<Rightarrow> (oms_service, bool) outcome" where
  "dispatch_once venue now s =
     bind_outcome (claim_command now s) (\<lambda>s1 claimed.
       case claimed of
         None \<Rightarrow> (s1, Inr False)
       | Some (command, order) \<Rightarrow>
           if (oo_exchange order, oo_environment order) \<notin> os_adapters s1 \<or> oo_environment order \<noteq> EnvTESTNET
           then refuse_adapter now command order s1
           else if xc_command_type command = SUBMIT \<and> kill_switch_active (os_risk s1)
           then quarantine now command order s1
           else
             let ctype = xc_command_type command
             in after_write now command (classify_write now ctype order (venue ctype order))
                  (s1\<lparr>os_writes := os_writes s1 @ [(ctype, order)]\<rparr>))"

text \<open>
  One turn of \<^verbatim>\<open>run\<close>: an exception of the dispatch trips the kill switch, and nothing escapes. The
  waiting between turns is left out; a run is a list of turns, each with the venue and the clock it meets.
\<close>

definition run_turn ::
  "(command_type \<Rightarrow> oms_order \<Rightarrow> venue_order_snapshot result) \<Rightarrow> time \<Rightarrow> oms_service \<Rightarrow> oms_service \<times> bool" where
  "run_turn venue now s =
     (case dispatch_once venue now s of
        (s1, Inr worked) \<Rightarrow> (s1, worked)
      | (s1, Inl e) \<Rightarrow>
          (fst (trip_unless_active now (''OMS worker failure: '' @ class_name (exn_class e)) None s1), False))"

fun run :: "((command_type \<Rightarrow> oms_order \<Rightarrow> venue_order_snapshot result) \<times> time) list \<Rightarrow> oms_service \<Rightarrow> oms_service" where
  "run [] s = s"
| "run ((venue, now) # turns) s = run turns (fst (run_turn venue now s))"

end
