(* ===== verification/Oms_Worker.thy ===== *)
theory Oms_Worker
  imports Oms_Service
begin

text \<open>
  Guarantees of the order boundary: over every history of submissions, cancellations, worker turns and
  transactions of other processes, each command reaches the venue at most once; the kill switch stops
  submissions; the worker fails closed.
\<close>

section \<open>Operations that only move a state forward\<close>

text \<open>
  Most steps of the service relate the state before and after by a preorder: the store only grows,
  a latch stays set. One law for the sequencing combinators covers them all.
\<close>

locale forward_state =
  fixes le :: "'s \<Rightarrow> 's \<Rightarrow> bool"
  assumes forward_refl: "le s s"
    and forward_trans: "le s t \<Longrightarrow> le t u \<Longrightarrow> le s u"
begin

lemma bind_forward:
  assumes "le s (fst m)" "\<And>t x. le s t \<Longrightarrow> le s (fst (f t x))"
  shows "le s (fst (bind_outcome m f))"
  using assms by (cases m, cases "snd m") (auto simp: bind_outcome_def)

lemma recover_forward:
  assumes "le s (fst m)" "\<And>t e. le s t \<Longrightarrow> le s (fst (h e t))"
  shows "le s (fst (recover m h))"
  using assms by (cases m, cases "snd m") (auto simp: recover_def)

end

section \<open>The store behind the service\<close>

abbreviation os_db :: "oms_service \<Rightarrow> db" where
  "os_db s \<equiv> rm_db (os_risk s)"

definition svc_le :: "oms_service \<Rightarrow> oms_service \<Rightarrow> bool" where
  "svc_le s t \<longleftrightarrow> db_le (os_db s) (os_db t) \<and> os_writes t = os_writes s \<and> os_repository t = os_repository s"

interpretation svc: forward_state svc_le
  by unfold_locales (auto simp: svc_le_def store.store_refl intro: store.store_trans)

lemma record_audit_le: "record_audit r (a, d) = ((a', d'), res) \<Longrightarrow> db_le d d'"
  using save_audit_log_le [of d r]
  by (auto simp: record_audit_def Let_def store.store_refl split: if_splits prod.splits sum.splits)

lemma on_risk_forward:
  assumes "\<And>rm. db_le (rm_db rm) (rm_db (fst (f rm)))"
  shows "svc_le s (fst (on_risk f s))"
  using assms [of "os_risk s"] by (auto simp: on_risk_def svc_le_def split: prod.splits)

lemma on_db_forward:
  assumes "\<And>d. db_le d (fst (f d))"
  shows "svc_le s (fst (on_db f s))"
proof -
  have "db_le (rm_db rm) (rm_db (fst (case f (rm_db rm) of (d, r) \<Rightarrow> (rm\<lparr>rm_db := d\<rparr>, r))))" for rm
    using assms [of "rm_db rm"] by (cases "f (rm_db rm)") simp
  then show ?thesis unfolding on_db_def by (rule on_risk_forward)
qed

lemma remember_forward [simp]: "svc_le s (remember o' t) = svc_le s t"
  by (simp add: svc_le_def remember_def)

lemma audit_oms_forward: "svc_le s (fst (audit_oms t o' s))"
  unfolding audit_oms_def by (rule on_risk_forward) (auto split: prod.splits dest: record_audit_le)

lemma get_order_forward: "svc_le s (fst (get_order i s))"
  unfolding get_order_def
  by (auto intro!: svc.bind_forward svc.forward_refl on_db_forward load_oms_order_le split: option.splits)

section \<open>The risk manager moves the store forward\<close>

definition rm_le :: "risk_manager \<Rightarrow> risk_manager \<Rightarrow> bool" where
  "rm_le rm rm' \<longleftrightarrow> db_le (rm_db rm) (rm_db rm')"

interpretation rms: forward_state rm_le
  by unfold_locales (auto simp: rm_le_def store.store_refl intro: store.store_trans)

lemma rm_le_same: "rm_db rm' = rm_db rm \<Longrightarrow> rm_le rm rm'"
  by (simp add: rm_le_def store.store_refl)

lemma rm_le_db [simp]: "rm_le rm (rm'\<lparr>rm_approvals := a\<rparr>) = rm_le rm rm'"
  by (simp add: rm_le_def)

lemma authorize_forward: "rm_le rm (fst (authorize H now dec c side n l p m rm))"
  by (rule rm_le_same) (rule authorize_frame(2))

lemma consume_approval_forward: "rm_le rm (fst (consume_approval H t t' dec c order p rm))"
  unfolding consume_approval_def
proof (rule rms.bind_forward [OF authorize_forward], goal_cases)
  case (1 rm1 ap)
  have "rm_le rm (rm1\<lparr>rm_db := d\<rparr>)" if "consume_order_approval H t' a order m (rm_db rm1) = (d, r)" for a m d r
    using 1 consume_order_approval_le [of "rm_db rm1" H t' a order m] that
    by (auto simp: rm_le_def intro: store.store_trans)
  with 1 show ?case by (auto simp: Let_def split: sum.splits prod.splits)
qed

lemma reserve_created_forward: "rm_le rm (fst (reserve_created o' rm))"
  by (rule rm_le_same)
    (auto simp: reserve_created_def Let_def with_positions_def set_open_positions_def split: sum.splits)

lemma consume_oms_approval_forward: "rm_le rm (fst (consume_oms_approval H t t' dec c order cmd rm))"
proof -
  have create: "rm_le rm (fst (if \<not> rm_repository rm1 then (rm1, Inr order)
        else (case create_oms_order H t' order (Some cmd) True (rm_db rm1) of (d, r) \<Rightarrow> (rm1\<lparr>rm_db := d\<rparr>, r))))"
    if "rm_le rm rm1" for rm1
    using that create_oms_order_le [of "rm_db rm1" H t' order "Some cmd" True]
    by (auto simp: rm_le_def split: prod.splits intro: store.store_trans)
  show ?thesis unfolding consume_oms_approval_def
    by (auto intro!: rms.bind_forward create authorize_forward rms.forward_refl
        intro: rms.forward_trans [OF _ reserve_created_forward])
qed

lemma refresh_positions_forward: "rm_le rm (fst (refresh_positions rm))"
  using load_open_position_exposures_le [of "rm_db rm"]
  by (auto simp: refresh_positions_def rm_le_def sync_positions_def with_positions_def set_open_positions_def
      store.store_refl split: prod.splits sum.splits)

lemma trigger_forward: "rm_le rm (fst (trigger_risk_kill_switch now reason actor cid rm))"
proof -
  have a: "rm_le rm1 (fst (set_control now active reason' actor cid rm1))" for rm1 active reason'
    using set_risk_control_le [of "rm_db rm1" now active reason' actor cid]
    by (auto simp: set_control_def rm_le_def store.store_refl split: prod.splits sum.splits)
  have b: "rm_le rm1 (fst (trip reason' actor cid now rm1))" for rm1 reason'
    by (rule rm_le_same) (auto simp: trip_def split: prod.splits sum.splits)
  have c: "rm_le rm1 (fst (control_audit t cid rm1))" for rm1 t
    by (auto simp: control_audit_def rm_le_def split: prod.splits dest: record_audit_le)
  obtain rm1 r1 where 1: "set_control now True (strip reason) actor cid rm = (rm1, r1)" by force
  obtain rm2 r2 where 2: "trip (strip reason) actor cid now rm1 = (rm2, r2)" by force
  have le1: "rm_le rm rm1" using a [of rm True "strip reason"] 1 by simp
  have le2: "rm_le rm rm2" using rms.forward_trans [OF le1] b [of rm1 "strip reason"] 2 by simp
  then have le3: "rm_le rm (fst (control_audit t cid rm2))" for t using c rms.forward_trans by blast
  show ?thesis
    using 1 2 le1 le2 le3 by (auto simp: trigger_risk_kill_switch_def rms.forward_refl split: sum.splits)
qed

lemma register_position_forward: "rm_le rm (fst (register_position o' rm))"
  by (rule rm_le_same)
    (auto simp: register_position_def with_positions_def set_open_positions_def split: sum.splits)

lemma on_rm_forward: "(\<And>rm. rm_le rm (fst (f rm))) \<Longrightarrow> svc_le s (fst (on_risk f s))"
  by (rule on_risk_forward) (simp add: rm_le_def)

section \<open>The service moves the store forward\<close>

definition engine_le :: "paper_engine \<Rightarrow> paper_engine \<Rightarrow> bool" where
  "engine_le e e' \<longleftrightarrow> rm_le (pt_risk e) (pt_risk e')"

interpretation engines: forward_state engine_le
  by unfold_locales (auto simp: engine_le_def rms.forward_refl intro: rms.forward_trans)

lemma audit_paper_forward: "engine_le e (fst (audit_paper t o' e))"
  by (auto simp: audit_paper_def engine_le_def rm_le_def split: prod.splits dest: record_audit_le)

lemma with_risk_forward:
  assumes "engine_le e e1" "rm_le (pt_risk e1) (fst m)"
  shows "engine_le e (fst (with_risk m e1))"
  using assms rms.forward_trans by (auto simp: with_risk_def engine_le_def split: prod.splits)

lemma engine_le_enter [simp]: "engine_le e (enter_book o' l t e1) = engine_le e e1"
  by (simp add: engine_le_def)

lemma with_risk_enter_forward:
  "engine_le e e1 \<Longrightarrow> rm_le (pt_risk e1) (fst m) \<Longrightarrow> engine_le e (fst (with_risk m (enter_book o' l t e1)))"
  by (rule with_risk_forward) simp_all

lemma create_order_forward: "engine_le e (fst (create_order H U n cr t t' dec c p cd oc e))"
  unfolding create_order_def Let_def
  by (auto intro!: engines.bind_forward engines.forward_refl audit_paper_forward
      intro: with_risk_forward with_risk_enter_forward consume_approval_forward register_position_forward split: sum.splits)

lemma on_paper_forward: "(\<And>e. engine_le e (fst (f e))) \<Longrightarrow> svc_le s (fst (on_paper f s))"
proof -
  assume "\<And>e. engine_le e (fst (f e))"
  from this [of "os_paper s"] show ?thesis
    by (auto simp: on_paper_def svc_le_def engine_le_def rm_le_def split: prod.splits)
qed

lemmas service_forward = svc.bind_forward svc.recover_forward svc.forward_refl on_db_forward

lemma trip_unless_active_forward: "svc_le s (fst (trip_unless_active now reason cid s))"
  by (simp add: trip_unless_active_def svc.forward_refl on_rm_forward trigger_forward)

text \<open>Each operation, from any state the call has already reached.\<close>

lemmas reached_forward =
  svc.forward_trans [OF _ audit_oms_forward] svc.forward_trans [OF _ get_order_forward]
  svc.forward_trans [OF _ trip_unless_active_forward]
  svc.forward_trans [OF _ on_db_forward [OF load_oms_order_le]]
  svc.forward_trans [OF _ on_db_forward [OF queue_cancel_command_le]]
  svc.forward_trans [OF _ on_rm_forward [OF consume_oms_approval_forward]]
  svc.forward_trans [OF _ on_rm_forward [OF refresh_positions_forward]]

lemma remembered_refresh: "svc_le s t \<Longrightarrow> svc_le s (fst (on_risk refresh_positions (remember o' t)))"
  by (rule svc.forward_trans [OF _ on_rm_forward [OF refresh_positions_forward]]) simp

lemma svc_le_commands [simp]: "svc_le s (t\<lparr>os_commands := cs\<rparr>) = svc_le s t"
  by (simp add: svc_le_def)

lemma submit_paper_forward: "svc_le s (fst (submit_paper H U now dec c p cd oc s))"
  unfolding submit_paper_def
  by (auto intro!: svc.bind_forward on_paper_forward create_order_forward svc.forward_refl
      intro: reached_forward split: sum.splits option.splits)

lemma submit_testnet_forward: "svc_le s (fst (submit_testnet H U prep now i dec c p s))"
  unfolding submit_testnet_def Let_def
  by (auto intro!: svc.bind_forward audit_oms_forward svc.forward_refl intro: reached_forward
      split: sum.splits option.splits)

lemma submit_approved_forward: "svc_le s (fst (submit_approved H U prep now dec c p cd oc s))"
  unfolding submit_approved_def Let_def
  by (auto intro!: svc.bind_forward get_order_forward svc.forward_refl
      intro: svc.forward_trans [OF _ submit_paper_forward] svc.forward_trans [OF _ submit_testnet_forward]
      split: option.splits)

lemma queue_cancel_forward: "svc_le s (fst (queue_cancel U now i s))"
  unfolding queue_cancel_def Let_def
  by (auto intro!: svc.bind_forward get_order_forward svc.forward_refl reached_forward split: option.splits)

lemma finish_command_forward: "svc_le s (fst (finish_command c o' t e s))"
  by (simp add: finish_command_def svc.forward_refl on_db_forward finish_execution_command_le)

lemma refuse_adapter_forward: "svc_le s (fst (refuse_adapter now c o' s))"
  unfolding refuse_adapter_def
  by (auto intro!: svc.bind_forward finish_command_forward svc.forward_refl intro: reached_forward)

lemma quarantine_forward: "svc_le s (fst (quarantine now c o' s))"
  unfolding quarantine_def
  by (auto intro!: svc.bind_forward svc.recover_forward finish_command_forward svc.forward_refl remembered_refresh
      intro: reached_forward)

lemma after_write_forward: "svc_le s (fst (after_write now c w s))"
  unfolding after_write_def
  by (auto intro!: svc.bind_forward svc.recover_forward finish_command_forward svc.forward_refl remembered_refresh
      intro: reached_forward split: option.splits)

section \<open>Writes and the command table\<close>

definition write_key :: "command_type \<times> oms_order \<Rightarrow> string \<times> command_type" where
  "write_key w = (oo_oms_order_id (snd w), fst w)"

definition command_key :: "execution_command \<Rightarrow> string \<times> command_type" where
  "command_key c = (xc_oms_order_id c, xc_command_type c)"

text \<open>Every write sent is recorded by an attempted command, and no two writes are the same.\<close>

definition spent :: "db \<Rightarrow> string \<times> command_type \<Rightarrow> bool" where
  "spent d k \<longleftrightarrow> (\<exists>i c. dict_get (db_commands d) i = Some c \<and> command_key c = k \<and> 1 \<le> xc_attempt_count c)"

definition writes_recorded :: "oms_service \<Rightarrow> bool" where
  "writes_recorded s \<longleftrightarrow> os_repository s \<and> db_wf (os_db s) \<and> distinct (map write_key (os_writes s)) \<and>
     (\<forall>w \<in> set (os_writes s). spent (os_db s) (write_key w) \<and> oo_environment (snd w) = EnvTESTNET)"

lemma spent_later: "db_le d d' \<Longrightarrow> db_wf d \<Longrightarrow> spent d k \<Longrightarrow> spent d' k"
proof -
  assume le: "db_le d d'" and wf: "db_wf d" and "spent d k"
  then obtain i c where c: "dict_get (db_commands d) i = Some c" "command_key c = k" "1 \<le> xc_attempt_count c"
    by (auto simp: spent_def)
  obtain c' where "dict_get (db_commands d') i = Some c'" "command_advances c c'"
    using commands.le_row [of "db_commands d" "db_commands d'"] le wf c(1)
    by (auto simp: db_le_def db_step_def db_wf_def)
  with c(2,3) show ?thesis unfolding spent_def
    by (intro exI [of _ i] exI [of _ c']) (simp add: command_key_def command_advances_def)
qed

lemma writes_recorded_forward: "svc_le s t \<Longrightarrow> writes_recorded s \<Longrightarrow> writes_recorded t"
  unfolding writes_recorded_def svc_le_def using spent_later db_le_wf by metis

lemma on_db_result: "on_db f s = (t, r) \<Longrightarrow> f (os_db s) = (os_db t, r)"
  by (auto simp: on_db_def on_risk_def split: prod.splits)

lemma claim_command_forward: "svc_le s (fst (claim_command now s))"
proof -
  have "svc_le s (fst (claim_in_memory now s))"
    by (auto simp: claim_in_memory_def Let_def svc.forward_refl split: list.splits option.splits prod.splits)
  then show ?thesis by (simp add: claim_command_def on_db_forward claim_execution_command_le)
qed

lemma claimed_write:
  assumes "claim_command now s = (t, Inr (Some (c, o')))" "writes_recorded s" "oo_environment o' = EnvTESTNET"
  shows "writes_recorded (t\<lparr>os_writes := os_writes t @ [(xc_command_type c, o')]\<rparr>)"
proof -
  have repo: "os_repository s" and wf: "db_wf (os_db s)" using assms(2) by (auto simp: writes_recorded_def)
  have on: "on_db (claim_execution_command now (os_worker_id s) (os_lease_seconds s)) s = (t, Inr (Some (c, o')))"
    using assms(1) repo by (simp add: claim_command_def)
  note claim = on_db_result [OF on]
  have "svc_le s t" using claim_command_forward [of s now] assms(1) by simp
  then have t: "writes_recorded t" and same: "os_writes t = os_writes s"
    using writes_recorded_forward assms(2) by (auto simp: svc_le_def)
  note row = claimed_row [OF claim wf]
  obtain d1 row' where r: "db_le (os_db s) d1" "c = lease (os_worker_id s) (now + seconds_delta (max (flt 1) (os_lease_seconds s))) row'"
    "dict_get (db_oms_orders d1) (xc_oms_order_id row') = Some o'"
    using claim_execution_command_Some [OF claim] by metis
  have "db_wf d1" using r(1) wf db_le_wf by blast
  then have "oo_oms_order_id o' = xc_oms_order_id row'"
    using r(3) by (auto simp: db_wf_def orders.wf_def dest: coherent_key)
  then have key: "write_key (xc_command_type c, o') = command_key c"
    by (simp add: write_key_def command_key_def r(2) lease_def)
  have spent: "spent (os_db t) (command_key c)" using row(2,3) by (auto simp: spent_def)
  have "command_key c \<noteq> write_key w" if "w \<in> set (os_writes s)" for w
  proof -
    obtain i old where "dict_get (db_commands (os_db s)) i = Some old" "command_key old = write_key w" "1 \<le> xc_attempt_count old"
      using assms(2) \<open>w \<in> set (os_writes s)\<close> by (auto simp: writes_recorded_def spent_def)
    with claimable_fresh [OF claim wf] show ?thesis by (metis command_key_def)
  qed
  then have "command_key c \<notin> set (map write_key (os_writes t))" by (auto simp: same)
  with t spent key assms(3) show ?thesis by (auto simp: writes_recorded_def)
qed

lemma dispatch_recorded:
  assumes "writes_recorded s"
  shows "writes_recorded (fst (dispatch_once venue now s))"
proof -
  obtain t r where claim: "claim_command now s = (t, r)" by force
  have t: "writes_recorded t" using writes_recorded_forward [OF claim_command_forward assms] claim by (metis fst_conv)
  show ?thesis
  proof (cases "\<exists>c o'. r = Inr (Some (c, o'))")
    case True
    then obtain c o' where r: "r = Inr (Some (c, o'))" by blast
    have w: "writes_recorded (t\<lparr>os_writes := os_writes t @ [(xc_command_type c, o')]\<rparr>)" if "oo_environment o' = EnvTESTNET"
      using claimed_write [OF claim [unfolded r] assms that] .
    show ?thesis
      using claim r t w writes_recorded_forward [OF refuse_adapter_forward] writes_recorded_forward [OF quarantine_forward]
        writes_recorded_forward [OF after_write_forward]
      by (simp add: dispatch_once_def bind_outcome_def Let_def)
  next
    case False
    then show ?thesis using claim t
      by (auto simp: dispatch_once_def bind_outcome_def split: sum.splits option.splits)
  qed
qed


section \<open>Histories of the service\<close>

lemma remember_all_forward: "svc_le s (remember_all os t) = svc_le s t"
  by (induction os arbitrary: t) simp_all

lemma initialize_oms_forward: "svc_le s (fst (initialize_oms s))"
  unfolding initialize_oms_def
  by (auto intro!: svc.bind_forward svc.forward_refl on_db_forward list_oms_orders_le simp: remember_all_forward)

text \<open>
  One step: an operation of this service, a turn of its worker, or any transaction of another process
  on the shared database.
\<close>

inductive oms_step :: "oms_service \<Rightarrow> oms_service \<Rightarrow> bool" where
  step_initialize_oms: "oms_step s (fst (initialize_oms s))"
| step_get_order: "oms_step s (fst (get_order i s))"
| step_submit: "oms_step s (fst (submit_approved H U prep now dec c p cd oc s))"
| step_queue_cancel: "oms_step s (fst (queue_cancel U now i s))"
| step_turn: "oms_step s (fst (run_turn venue now s))"
| step_other_process: "repo_step (os_db s) d \<Longrightarrow>
    oms_step s (s\<lparr>os_paper := (os_paper s)\<lparr>pt_risk := (os_risk s)\<lparr>rm_db := d\<rparr>\<rparr>\<rparr>)"

lemma run_turn_recorded:
  assumes "writes_recorded s"
  shows "writes_recorded (fst (run_turn venue now s))"
  using dispatch_recorded [OF assms, of venue now] writes_recorded_forward [OF trip_unless_active_forward]
  by (auto simp: run_turn_def split: prod.splits sum.splits)

lemma oms_step_recorded: "oms_step s t \<Longrightarrow> writes_recorded s \<Longrightarrow> writes_recorded t"
proof (induction rule: oms_step.induct)
  case (step_other_process s d)
  have "svc_le s (s\<lparr>os_paper := (os_paper s)\<lparr>pt_risk := (os_risk s)\<lparr>rm_db := d\<rparr>\<rparr>\<rparr>)"
    using repo_step_le [OF step_other_process(1)] by (simp add: svc_le_def)
  then show ?case using step_other_process(2) by (rule writes_recorded_forward)
qed (auto intro: run_turn_recorded writes_recorded_forward initialize_oms_forward get_order_forward
      submit_approved_forward queue_cancel_forward)

lemma oms_steps_recorded: "oms_step\<^sup>*\<^sup>* s t \<Longrightarrow> writes_recorded s \<Longrightarrow> writes_recorded t"
  by (induction rule: rtranclp_induct) (auto intro: oms_step_recorded)

lemma new_service_fields:
  assumes "new_oms_service env x paper adapters repo w l = Inr s"
  shows "os_writes s = []" "os_paper s = paper" "os_repository s = repo" "env = EnvTESTNET \<Longrightarrow> repo"
  using assms by (auto simp: new_oms_service_def split: if_splits)

text \<open>
  C17. A TESTNET service over a database that the repository's own transactions produced: after any
  sequence of submissions, cancellations, worker turns (with any venue answers, lost answers and
  database failures included) and transactions of other processes, no order has been submitted to
  the venue twice nor cancelled twice, and every write sent was for a TESTNET order.
\<close>

theorem one_write_per_command:
  assumes "new_oms_service EnvTESTNET x paper adapters repo w l = Inr s"
    and "repo_reachable (rm_db (pt_risk paper))" "oms_step\<^sup>*\<^sup>* s t"
  shows "distinct (map (\<lambda>(ctype, order). (oo_oms_order_id order, ctype)) (os_writes t)) \<and>
     (\<forall>(ctype, order) \<in> set (os_writes t). oo_environment order = EnvTESTNET)"
proof -
  have "writes_recorded s"
    using new_service_fields [OF assms(1)] repo_reachable_wf [OF assms(2)] by (simp add: writes_recorded_def)
  from oms_steps_recorded [OF assms(3) this] show ?thesis
    by (auto simp: writes_recorded_def write_key_def [abs_def] case_prod_unfold)
qed

section \<open>Fail-closed behaviour of the worker\<close>

lemma strip_head: "\<not> is_space c \<Longrightarrow> strip (c # cs) \<noteq> []"
  by (simp add: strip_def dropWhile_eq_Nil_conv)

lemma trip_unless_active_latches:
  assumes "strip reason \<noteq> []"
  shows "kill_switch_active (os_risk (fst (trip_unless_active now reason cid s)))"
  using trigger_latches [OF assms, of now "''oms-worker''" cid "os_risk s"]
  by (auto simp: trip_unless_active_def on_risk_def kill_switch_active_def split: prod.splits)

lemma reasons_not_blank:
  "strip (''OMS worker failure: '' @ r) \<noteq> []" "strip (''OMS venue identity violation: '' @ r) \<noteq> []"
  "strip ''OMS command has no exact TESTNET adapter'' \<noteq> []" "strip ''OMS post-write audit persistence failed'' \<noteq> []"
  by (simp_all add: strip_head is_space_def)

lemma audit_oms_switch: "kill_switch_active (os_risk (fst (audit_oms t o' s))) = kill_switch_active (os_risk s)"
  by (auto simp: audit_oms_def on_risk_def kill_switch_active_def split: prod.splits)

lemma recover_switch:
  assumes "kill_switch_active (os_risk (fst m))" "\<And>e. strip (reason e) \<noteq> []"
  shows "kill_switch_active (os_risk (fst (recover m (\<lambda>e. trip_unless_active now (reason e) cid))))"
  using assms trip_unless_active_latches by (cases m, cases "snd m") (auto simp: recover_def)

lemma violation_latches:
  assumes "after_write now c w s = (t, Inr r)" "wo_violation w = Some v"
  shows "kill_switch_active (os_risk t)"
proof -
  obtain s2 u s3 where 3: "trip_unless_active now (''OMS venue identity violation: '' @ v) (Some (oo_correlation_id u)) s2 = (s3, Inr ())"
    and t: "bind_outcome (recover (audit_oms (''OMS_'' @ wo_event w) u s3) (\<lambda>_ s.
             trip_unless_active now ''OMS post-write audit persistence failed'' (Some (oo_correlation_id u)) s))
           (\<lambda>s4 _. (s4, Inr True)) = (t, Inr r)"
    using assms by (auto simp: after_write_def bind_outcome_Inr)
  have "kill_switch_active (os_risk s3)"
    using trip_unless_active_latches [OF reasons_not_blank(2), of now v "Some (oo_correlation_id u)" s2] 3 by simp
  then have "kill_switch_active (os_risk (fst (recover (audit_oms (''OMS_'' @ wo_event w) u s3) (\<lambda>_.
      trip_unless_active now ''OMS post-write audit persistence failed'' (Some (oo_correlation_id u))))))"
    by (intro recover_switch) (simp_all add: audit_oms_switch reasons_not_blank)
  with t show ?thesis by (auto simp: bind_outcome_Inr)
qed

lemma refused_adapter_latches:
  assumes "refuse_adapter now c o' s = (t, Inr r)"
  shows "kill_switch_active (os_risk t)"
  using assms trip_unless_active_latches [OF reasons_not_blank(3)]
  by (auto simp: refuse_adapter_def bind_outcome_Inr) (metis fst_conv)

lemma run_turn_exception:
  assumes "dispatch_once venue now s = (s1, Inl e)"
  shows "kill_switch_active (os_risk (fst (run_turn venue now s)))"
  using assms trip_unless_active_latches [OF reasons_not_blank(1)] by (simp add: run_turn_def)

text \<open>
  C18. The worker fails closed: after a turn the kill switch is active whenever the dispatch raised (a
  database failure after the write included), the claimed command had no exact TESTNET adapter, or
  the venue's answer to a write that was sent contradicted the identity of the order.
\<close>

theorem worker_fails_closed:
  assumes "(\<exists>e. snd (dispatch_once venue now s) = Inl e) \<or>
     (\<exists>s1 c order. claim_command now s = (s1, Inr (Some (c, order))) \<and>
       ((oo_exchange order, oo_environment order) \<notin> os_adapters s1 \<or> oo_environment order \<noteq> EnvTESTNET \<or>
        \<not> (xc_command_type c = SUBMIT \<and> kill_switch_active (os_risk s1)) \<and>
        (\<exists>v. venue (xc_command_type c) order = Inr v \<and>
           (vo_exchange v, vo_environment v, vo_client_order_id v, vo_symbol v) \<noteq>
           (oo_exchange order, oo_environment order, oo_client_order_id order, oo_symbol order))))"
  shows "kill_switch_active (os_risk (fst (run_turn venue now s)))"
proof (cases "dispatch_once venue now s")
  case (Pair t r)
  show ?thesis
  proof (cases r)
    case (Inl e)
    with Pair show ?thesis using run_turn_exception by blast
  next
    case (Inr worked)
    then obtain s1 c order where claim: "claim_command now s = (s1, Inr (Some (c, order)))"
      and why: "(oo_exchange order, oo_environment order) \<notin> os_adapters s1 \<or> oo_environment order \<noteq> EnvTESTNET \<or>
        \<not> (xc_command_type c = SUBMIT \<and> kill_switch_active (os_risk s1)) \<and>
        (\<exists>v. venue (xc_command_type c) order = Inr v \<and>
           (vo_exchange v, vo_environment v, vo_client_order_id v, vo_symbol v) \<noteq>
           (oo_exchange order, oo_environment order, oo_client_order_id order, oo_symbol order))"
      using assms Pair by auto
    have "kill_switch_active (os_risk t)"
    proof (cases "(oo_exchange order, oo_environment order) \<notin> os_adapters s1 \<or> oo_environment order \<noteq> EnvTESTNET")
      case True
      then have "refuse_adapter now c order s1 = (t, Inr worked)"
        using Pair Inr claim by (simp add: dispatch_once_def bind_outcome_def)
      then show ?thesis by (rule refused_adapter_latches)
    next
      case False
      let ?w = "classify_write now (xc_command_type c) order (venue (xc_command_type c) order)"
      have "\<exists>v. wo_violation ?w = Some v"
        using why False by (auto simp: classify_write_def bind_result_def apply_venue_snapshot_def)
      moreover have "after_write now c ?w (s1\<lparr>os_writes := os_writes s1 @ [(xc_command_type c, order)]\<rparr>) = (t, Inr worked)"
        using Pair Inr claim why False by (auto simp: dispatch_once_def bind_outcome_def Let_def)
      ultimately show ?thesis using violation_latches by blast
    qed
    with Pair Inr show ?thesis by (simp add: run_turn_def)
  qed
qed

text \<open>
  C19. While the kill switch is active no submission reaches the venue: a worker turn sends nothing, or
  one cancellation.
\<close>

theorem kill_switch_blocks_submission:
  assumes "kill_switch_active (os_risk s)"
  shows "os_writes (fst (run_turn venue now s)) = os_writes s \<or>
     (\<exists>order. os_writes (fst (run_turn venue now s)) = os_writes s @ [(CANCEL, order)])"
proof -
  obtain s1 r where claim: "claim_command now s = (s1, r)" by force
  have w1: "os_writes s1 = os_writes s" using claim_command_forward [of s now] claim by (simp add: svc_le_def)
  have k1: "kill_switch_active (os_risk s1)" using assms claim
    by (auto simp: claim_command_def claim_in_memory_def on_db_def on_risk_def kill_switch_active_def Let_def
        split: if_splits prod.splits list.splits option.splits)
  have d: "os_writes (fst (dispatch_once venue now s)) = os_writes s \<or>
     (\<exists>order. os_writes (fst (dispatch_once venue now s)) = os_writes s @ [(CANCEL, order)])"
  proof (cases "\<exists>c order. r = Inr (Some (c, order))")
    case True
    then obtain c order where r: "r = Inr (Some (c, order))" by blast
    show ?thesis
      using claim r k1 w1 refuse_adapter_forward [of s1 now c order] quarantine_forward [of s1 now c order]
        after_write_forward [of "s1\<lparr>os_writes := os_writes s1 @ [(CANCEL, order)]\<rparr>" now c]
      by (cases "xc_command_type c") (auto simp: dispatch_once_def bind_outcome_def Let_def svc_le_def)
  next
    case False
    then show ?thesis using claim w1 by (auto simp: dispatch_once_def bind_outcome_def split: sum.splits option.splits)
  qed
  have "os_writes (fst (run_turn venue now s)) = os_writes (fst (dispatch_once venue now s))"
    using trip_unless_active_forward by (auto simp: run_turn_def svc_le_def split: prod.splits sum.splits)
  with d show ?thesis by simp
qed

text \<open>
  The worker records only what the venue confirmed. The order it stores has the identity of the one
  it dispatched and the next version. A status other than UNKNOWN and REJECTED, a venue identity, a
  filled quantity and a fill price come from an answer that names this very order; a rejection is
  recorded for a submission that the venue rejected (or reported as rejected); anything else is UNKNOWN.
\<close>

theorem write_outcome_confirmed:
  assumes "classify_write now ctype order answer = w" "stored = wo_order w"
  shows "same_oms_identity order stored \<and> oo_state_version stored = oo_state_version order + 1 \<and>
     ((\<exists>v. answer = Inr v \<and> vo_exchange v = oo_exchange order \<and> vo_environment v = oo_environment order \<and>
          vo_client_order_id v = oo_client_order_id order \<and> vo_symbol v = oo_symbol order \<and>
          oo_status stored = vo_status v \<and> oo_venue_order_id stored = Some (vo_venue_order_id v) \<and>
          oo_cumulative_filled_quantity stored = vo_cumulative_filled_quantity v \<and>
          oo_average_fill_price stored = vo_average_fill_price v) \<or>
      oo_venue_order_id stored = oo_venue_order_id order \<and>
      oo_cumulative_filled_quantity stored = oo_cumulative_filled_quantity order \<and>
      oo_average_fill_price stored = oo_average_fill_price order \<and>
      (oo_status stored = OsUNKNOWN \<or>
       oo_status stored = OsREJECTED \<and> ctype = SUBMIT \<and> (\<exists>e. answer = Inl e \<and> exn_class e = ExecutionRejectedError)))"
proof (cases "bind_result answer (apply_venue_snapshot order)")
  case (Inr u)
  then obtain v where v: "answer = Inr v" "apply_venue_snapshot order v = Inr u" by (auto simp: bind_result_Inr)
  moreover have "stored = u" using assms Inr by (auto simp: classify_write_def)
  ultimately show ?thesis
    by (simp only: apply_venue_snapshot_def Let_def sum.simps split: if_splits) (drule sym, simp add: same_oms_identity_def)+
next
  case (Inl e)
  then have e: "exn_class e = ExecutionRejectedError \<Longrightarrow> answer = Inl e"
    by (auto simp: bind_result_def apply_venue_snapshot_def Let_def split: sum.splits if_splits)
  have "stored = wo_order (classify_write now ctype order answer)" using assms by simp
  with Inl e show ?thesis
    by (cases ctype) (simp_all add: classify_write_def unknown_status_def same_oms_identity_def)
qed

section \<open>A concrete service\<close>

definition sample_paper :: paper_engine where
  "sample_paper = sample_engine\<lparr>pt_risk := (pt_risk sample_engine)\<lparr>rm_db := db_created\<rparr>\<rparr>"

definition sample_service :: oms_service where
  "sample_service =
     \<lparr>os_target_environment = EnvTESTNET, os_target_exchange = BYBIT, os_paper = sample_paper,
      os_adapters = {(BYBIT, EnvTESTNET)}, os_repository = True, os_worker_id = ''worker'',
      os_lease_seconds = flt 30, os_orders = [], os_commands = [], os_writes = []\<rparr>"

definition sample_ack :: venue_order_snapshot where
  "sample_ack =
     \<lparr>vo_exchange = BYBIT, vo_environment = EnvTESTNET, vo_venue_order_id = ''venue-1'',
      vo_client_order_id = ''ccoms-00000001'', vo_symbol = ''BTCUSDT'', vo_side = BUY, vo_order_type = MARKET, vo_status = OsFILLED,
      vo_quantity = flt (1 / 2), vo_cumulative_filled_quantity = flt (1 / 2),
      vo_average_fill_price = Some (flt 1000), vo_observed_at = 3000000\<rparr>"

lemma sample_service_new:
  "new_oms_service EnvTESTNET BYBIT sample_paper {(BYBIT, EnvTESTNET)} True ''worker'' (flt 30) = Inr sample_service"
  by (simp add: new_oms_service_def sample_service_def)

definition sample_turn :: oms_service where
  "sample_turn = fst (run_turn (\<lambda>_ _. Inr sample_ack) 2000000 sample_service)"

lemma sample_turn_writes: "os_writes sample_turn = [(SUBMIT, sample_order)]"
  by code_simp

theorem one_write_per_command_witness:
  "os_writes sample_turn = [(SUBMIT, sample_order)] \<and>
   distinct (map (\<lambda>(ctype, order). (oo_oms_order_id order, ctype))
     (os_writes (fst (run_turn (\<lambda>_ _. Inr sample_ack) 99000000 sample_turn))))"
proof -
  let ?t = "fst (run_turn (\<lambda>_ _. Inr sample_ack) 99000000 sample_turn)"
  have "oms_step sample_service sample_turn" unfolding sample_turn_def by (rule step_turn)
  moreover have "oms_step sample_turn ?t" by (rule step_turn)
  ultimately have "oms_step\<^sup>*\<^sup>* sample_service ?t" by simp
  moreover have "repo_reachable (rm_db (pt_risk sample_paper))" using db_created_reachable by (simp add: sample_paper_def)
  ultimately show ?thesis using one_write_per_command [OF sample_service_new] sample_turn_writes by blast
qed

definition stranger :: venue_order_snapshot where
  "stranger = sample_ack\<lparr>vo_client_order_id := ''someone-else-1''\<rparr>"

lemma sample_claim:
  "claim_command 2000000 sample_service =
     (fst (claim_command 2000000 sample_service),
      Inr (Some (lease ''worker'' 32000000 sample_command, sample_order)))"
proof -
  have "snd (claim_command 2000000 sample_service) = Inr (Some (lease ''worker'' 32000000 sample_command, sample_order))"
    by code_simp
  then show ?thesis by (metis prod.collapse)
qed

theorem worker_fails_closed_witness:
  "kill_switch_active (os_risk (fst (run_turn (\<lambda>_ _. Inr stranger) 2000000 sample_service)))"
proof -
  have "\<not> kill_switch_active (os_risk (fst (claim_command 2000000 sample_service)))" by code_simp
  moreover have "vo_client_order_id stranger \<noteq> oo_client_order_id sample_order" by code_simp
  ultimately show ?thesis using sample_claim by (intro worker_fails_closed) blast
qed

theorem kill_switch_blocks_submission_witness:
  "os_writes (fst (run_turn (\<lambda>_ _. Inr sample_ack) 2000000
     (fst (trip_unless_active 0 ''drill'' None sample_service)))) = []"
proof -
  let ?s = "fst (trip_unless_active 0 ''drill'' None sample_service)"
  have "kill_switch_active (os_risk ?s)" by code_simp
  from kill_switch_blocks_submission [OF this, of "\<lambda>_ _. Inr sample_ack" 2000000]
  have "os_writes (fst (run_turn (\<lambda>_ _. Inr sample_ack) 2000000 ?s)) \<noteq> os_writes ?s @ [(SUBMIT, sample_order)]" by auto
  moreover have "os_writes (fst (run_turn (\<lambda>_ _. Inr sample_ack) 2000000 ?s)) \<in> {[], [(SUBMIT, sample_order)]}" by code_simp
  moreover have "os_writes ?s = []" by code_simp
  ultimately show ?thesis by auto
qed

theorem write_outcome_confirmed_witness:
  "oo_status (wo_order (classify_write 5 SUBMIT sample_order (raise TransportError ''connection lost''))) = OsUNKNOWN"
proof -
  from write_outcome_confirmed [OF refl refl, where now = 5 and ctype = SUBMIT and order = sample_order
      and answer = "raise TransportError ''connection lost''"]
  show ?thesis by simp
qed

end
