(* ===== verification/Reconciliation.thy ===== *)
theory Reconciliation
  imports Oms_Worker
begin

text \<open>
  Reconciliation of the durable orders with the venue, \<^verbatim>\<open>app/oms/reconciliation.py\<close>.

  What the venue reports is the parameter \<open>fetch\<close>: the answer of \<^verbatim>\<open>fetch_state\<close> for a set of symbols,
  a snapshot or an exception. Identifiers drawn with \<^verbatim>\<open>uuid4\<close> are parameters too: \<open>run_id\<close> for
  the run and \<open>fresh k\<close> for its \<open>k\<close>-th mismatch.
\<close>

section \<open>Values\<close>

fun oms_status_value :: "oms_status \<Rightarrow> string" where
  "oms_status_value OsCREATED = ''CREATED''"
| "oms_status_value OsPENDING_SUBMISSION = ''PENDING_SUBMISSION''"
| "oms_status_value OsSUBMITTED = ''SUBMITTED''"
| "oms_status_value OsPARTIALLY_FILLED = ''PARTIALLY_FILLED''"
| "oms_status_value OsFILLED = ''FILLED''"
| "oms_status_value OsCANCEL_PENDING = ''CANCEL_PENDING''"
| "oms_status_value OsCANCELED = ''CANCELED''"
| "oms_status_value OsREJECTED = ''REJECTED''"
| "oms_status_value OsEXPIRED = ''EXPIRED''"
| "oms_status_value OsUNKNOWN = ''UNKNOWN''"
| "oms_status_value OsQUARANTINED = ''QUARANTINED''"

abbreviation jopt :: "string option \<Rightarrow> json" where
  "jopt s \<equiv> (case s of None \<Rightarrow> JNull | Some x \<Rightarrow> JStr x)"

section \<open>Comparison of orders\<close>

definition order_mismatch ::
  "mismatch_type \<Rightarrow> severity \<Rightarrow> oms_order \<Rightarrow> string option \<Rightarrow> (string \<times> json) list \<Rightarrow> (string \<times> json) list
     \<Rightarrow> time \<Rightarrow> reconciliation_mismatch" where
  "order_mismatch kind sev local venue_order_id expected observed now =
     \<lparr>mm_mismatch_id = [], mm_run_id = ''pending'', mm_mismatch_type = kind, mm_severity = sev,
      mm_exchange = oo_exchange local, mm_environment = oo_environment local,
      mm_oms_order_id = Some (oo_oms_order_id local), mm_venue_order_id = venue_order_id,
      mm_symbol = Some (oo_symbol local), mm_expected = expected, mm_observed = observed, mm_created_at = now\<rparr>"

definition status_drift :: "oms_order \<Rightarrow> venue_order_snapshot \<Rightarrow> bool" where
  "status_drift local v \<longleftrightarrow> vo_status v \<noteq> oo_status local"

definition quantity_drift :: "oms_order \<Rightarrow> venue_order_snapshot \<Rightarrow> bool" where
  "quantity_drift local v \<longleftrightarrow>
     flt (1 / 10 ^ 10) < \<bar>vo_cumulative_filled_quantity v - oo_cumulative_filled_quantity local\<bar>"

definition identity_drift :: "oms_order \<Rightarrow> venue_order_snapshot \<Rightarrow> bool" where
  "identity_drift local v \<longleftrightarrow>
     oo_venue_order_id local \<noteq> None \<and> oo_venue_order_id local \<noteq> Some (vo_venue_order_id v)"

definition order_mismatches ::
  "time \<Rightarrow> (string \<times> venue_order_snapshot) list \<Rightarrow> oms_order \<Rightarrow> reconciliation_mismatch list" where
  "order_mismatches now venue_by_client local =
     (case dict_get venue_by_client (oo_client_order_id local) of
        None \<Rightarrow>
          if oo_status local \<in> {OsCREATED, OsPENDING_SUBMISSION} \<or> terminal (oo_status local) then []
          else [order_mismatch LOCAL_ORDER_MISSING_AT_VENUE CRITICAL local (oo_venue_order_id local)
                  [(''client_order_id'', JStr (oo_client_order_id local)),
                   (''status'', JStr (oms_status_value (oo_status local)))]
                  [(''present'', JBool False)] now]
      | Some v \<Rightarrow>
          (if status_drift local v
           then [order_mismatch ORDER_STATUS_DRIFT
                   (if terminal (oo_status local) \<and> \<not> terminal (vo_status v) then CRITICAL else WARNING)
                   local (Some (vo_venue_order_id v))
                   [(''status'', JStr (oms_status_value (oo_status local)))]
                   [(''status'', JStr (oms_status_value (vo_status v)))] now]
           else []) @
          (if quantity_drift local v
           then [order_mismatch FILLED_QUANTITY_DRIFT WARNING local (Some (vo_venue_order_id v))
                   [(''filled_quantity'', JFloat (oo_cumulative_filled_quantity local))]
                   [(''filled_quantity'', JFloat (vo_cumulative_filled_quantity v))] now]
           else []) @
          (if identity_drift local v
           then [order_mismatch ORDER_STATUS_DRIFT CRITICAL local (Some (vo_venue_order_id v))
                   [(''venue_order_id'', jopt (oo_venue_order_id local))]
                   [(''venue_order_id'', JStr (vo_venue_order_id v))] now]
           else []))"

definition must_reconcile :: "oms_order \<Rightarrow> venue_order_snapshot \<Rightarrow> bool" where
  "must_reconcile local v \<longleftrightarrow>
     \<not> terminal (oo_status local) \<and> (status_drift local v \<or> quantity_drift local v \<or> oo_venue_order_id local = None)"

definition reconciled_order :: "time \<Rightarrow> oms_order \<Rightarrow> venue_order_snapshot \<Rightarrow> oms_order" where
  "reconciled_order observed_at local v =
     local\<lparr>oo_status := vo_status v, oo_venue_order_id := Some (vo_venue_order_id v),
           oo_cumulative_filled_quantity := vo_cumulative_filled_quantity v,
           oo_average_fill_price := vo_average_fill_price v, oo_state_version := oo_state_version local + 1,
           oo_updated_at := observed_at, oo_submitted_at := Some (or_default (oo_submitted_at local) observed_at),
           oo_terminal_at := (if terminal (vo_status v) then Some (or_default (oo_terminal_at local) observed_at)
                              else oo_terminal_at local)\<rparr>"

definition order_update ::
  "time \<Rightarrow> (string \<times> venue_order_snapshot) list \<Rightarrow> oms_order \<Rightarrow> oms_order option" where
  "order_update observed_at venue_by_client local =
     (case dict_get venue_by_client (oo_client_order_id local) of
        None \<Rightarrow> None
      | Some v \<Rightarrow> if must_reconcile local v then Some (reconciled_order observed_at local v) else None)"

definition orphan_order_mismatch :: "time \<Rightarrow> venue_order_snapshot \<Rightarrow> reconciliation_mismatch" where
  "orphan_order_mismatch now v =
     \<lparr>mm_mismatch_id = [], mm_run_id = ''pending'', mm_mismatch_type = ORPHAN_VENUE_ORDER,
      mm_severity = (if terminal (vo_status v) then WARNING else CRITICAL), mm_exchange = vo_exchange v,
      mm_environment = vo_environment v, mm_oms_order_id = None, mm_venue_order_id = Some (vo_venue_order_id v),
      mm_symbol = Some (vo_symbol v), mm_expected = [(''managed_by_oms'', JBool True)],
      mm_observed = [(''managed_by_oms'', JBool False), (''client_order_id'', JStr (vo_client_order_id v))],
      mm_created_at = now\<rparr>"

definition orphan_fill_mismatch :: "time \<Rightarrow> execution_fill \<Rightarrow> reconciliation_mismatch" where
  "orphan_fill_mismatch now f =
     \<lparr>mm_mismatch_id = [], mm_run_id = ''pending'', mm_mismatch_type = ORPHAN_VENUE_FILL, mm_severity = CRITICAL,
      mm_exchange = xf_exchange f, mm_environment = xf_environment f, mm_oms_order_id = None,
      mm_venue_order_id = Some (xf_venue_order_id f), mm_symbol = Some (xf_symbol f),
      mm_expected = [(''managed_by_oms'', JBool True)],
      mm_observed = [(''managed_by_oms'', JBool False), (''fill_id'', JStr (xf_fill_id f)),
                     (''client_order_id'', jopt (xf_client_order_id f))],
      mm_created_at = now\<rparr>"

text \<open>The orders the OMS manages, by the identity the venue gave them.\<close>

definition managed_by_venue :: "oms_order list \<Rightarrow> venue_order_snapshot list \<Rightarrow> (string \<times> oms_order) list" where
  "managed_by_venue local_orders venues =
     fold (\<lambda>v d. case dict_get (dict_of oo_client_order_id local_orders) (vo_client_order_id v) of
                   None \<Rightarrow> d
                 | Some managed \<Rightarrow> dict_set (vo_venue_order_id v) managed d)
       venues
       (dict_of (\<lambda>o'. the (oo_venue_order_id o')) (filter (\<lambda>o'. oo_venue_order_id o' \<noteq> None) local_orders))"

definition fill_managed :: "oms_order list \<Rightarrow> venue_order_snapshot list \<Rightarrow> execution_fill \<Rightarrow> bool" where
  "fill_managed local_orders venues f \<longleftrightarrow>
     (case xf_client_order_id f of
        None \<Rightarrow> False | Some i \<Rightarrow> dict_get (dict_of oo_client_order_id local_orders) i \<noteq> None) \<or>
     dict_get (managed_by_venue local_orders venues) (xf_venue_order_id f) \<noteq> None \<or>
     (case xf_oms_order_id f of
        None \<Rightarrow> False | Some i \<Rightarrow> dict_get (dict_of oo_oms_order_id local_orders) i \<noteq> None)"

definition compare_orders ::
  "time \<Rightarrow> oms_order list \<Rightarrow> venue_state_snapshot \<Rightarrow> reconciliation_mismatch list \<times> oms_order list" where
  "compare_orders now local_orders snapshot =
     (let venue_by_client = dict_of vo_client_order_id (vs_orders snapshot);
          local_by_client = dict_of oo_client_order_id local_orders
      in (concat (map (order_mismatches now venue_by_client) local_orders) @
          map (orphan_order_mismatch now)
            (filter (\<lambda>v. dict_get local_by_client (vo_client_order_id v) = None) (vs_orders snapshot)) @
          map (orphan_fill_mismatch now)
            (filter (\<lambda>f. \<not> fill_managed local_orders (vs_orders snapshot) f) (vs_fills snapshot)),
          List.map_filter (order_update (vs_observed_at snapshot) venue_by_client) local_orders))"

section \<open>Comparison of positions\<close>

definition signed :: "order_side \<Rightarrow> pyfloat \<Rightarrow> pyfloat" where
  "signed side q = (if side = BUY then flt 1 else - flt 1) * q"

definition add_quantity :: "string \<Rightarrow> pyfloat \<Rightarrow> (string \<times> pyfloat) list \<Rightarrow> (string \<times> pyfloat) list" where
  "add_quantity symbol q d = dict_set symbol (or_default (dict_get d symbol) 0 + q) d"

definition local_quantities :: "oms_order list \<Rightarrow> (string \<times> pyfloat) list" where
  "local_quantities local_orders =
     fold (\<lambda>o' d. if 0 < oo_cumulative_filled_quantity o'
                  then add_quantity (oo_symbol o') (signed (oo_side o') (oo_cumulative_filled_quantity o')) d else d)
       local_orders []"

definition venue_quantities :: "venue_position_snapshot list \<Rightarrow> (string \<times> pyfloat) list" where
  "venue_quantities positions =
     fold (\<lambda>p. add_quantity (vp_symbol p) (signed (vp_side p) (vp_quantity p))) positions []"

definition side_label :: "pyfloat \<Rightarrow> json" where
  "side_label q = JStr (if 0 < q then ''BUY'' else if q < 0 then ''SELL'' else ''FLAT'')"

definition compare_positions ::
  "time \<Rightarrow> exchange \<Rightarrow> environment \<Rightarrow> oms_order list \<Rightarrow> venue_state_snapshot \<Rightarrow> string
     \<Rightarrow> reconciliation_mismatch list" where
  "compare_positions now run_exchange environment local_orders snapshot run_id =
     (let local = local_quantities local_orders;
          venue = venue_quantities (vs_positions snapshot)
      in List.map_filter (\<lambda>symbol.
           let expected = or_default (dict_get local symbol) 0;
               observed = or_default (dict_get venue symbol) 0
           in if \<bar>expected - observed\<bar> \<le> flt (1 / 10 ^ 10) then None
              else Some \<lparr>mm_mismatch_id = [], mm_run_id = run_id, mm_mismatch_type = POSITION_QUANTITY_DRIFT,
                         mm_severity = CRITICAL, mm_exchange = run_exchange, mm_environment = environment,
                         mm_oms_order_id = None, mm_venue_order_id = None, mm_symbol = Some symbol,
                         mm_expected = [(''side'', side_label expected), (''quantity'', JFloat \<bar>expected\<bar>)],
                         mm_observed = [(''side'', side_label observed), (''quantity'', JFloat \<bar>observed\<bar>)],
                         mm_created_at = now\<rparr>)
         (sorted_set (map fst local @ map fst venue)))"

section \<open>The service\<close>

record reconciliation_service =
  rn_exchange :: exchange
  rn_environment :: environment
  rn_risk :: risk_manager
  rn_repository :: bool
  rn_halt :: bool
  rn_orders :: "oms_order dict"
  rn_latest :: "(reconciliation_run \<times> reconciliation_mismatch list \<times> venue_state_snapshot) option"

definition new_reconciliation_service ::
  "exchange \<Rightarrow> environment \<Rightarrow> risk_manager \<Rightarrow> bool \<Rightarrow> bool \<Rightarrow> reconciliation_service" where
  "new_reconciliation_service exchange environment risk repository halt =
     \<lparr>rn_exchange = exchange, rn_environment = environment, rn_risk = risk, rn_repository = repository,
      rn_halt = halt, rn_orders = [], rn_latest = None\<rparr>"

definition with_risk_manager ::
  "(risk_manager \<Rightarrow> (risk_manager, 'a) outcome) \<Rightarrow> reconciliation_service \<Rightarrow> (reconciliation_service, 'a) outcome" where
  "with_risk_manager f s = (case f (rn_risk s) of (rm, r) \<Rightarrow> (s\<lparr>rn_risk := rm\<rparr>, r))"

definition with_db :: "(db \<Rightarrow> (db, 'a) outcome) \<Rightarrow> reconciliation_service \<Rightarrow> (reconciliation_service, 'a) outcome" where
  "with_db f = with_risk_manager (\<lambda>rm. case f (rm_db rm) of (d, r) \<Rightarrow> (rm\<lparr>rm_db := d\<rparr>, r))"

definition local_orders :: "reconciliation_service \<Rightarrow> (reconciliation_service, oms_order list) outcome" where
  "local_orders s =
     (if rn_repository s then with_db (list_oms_orders (Some (rn_exchange s)) (Some (rn_environment s)) None) s
      else (s, Inr (filter (\<lambda>o'. oo_exchange o' = rn_exchange s \<and> oo_environment o' = rn_environment s)
                      (dict_values (rn_orders s)))))"

definition trip_reconciliation ::
  "time \<Rightarrow> string \<Rightarrow> string option \<Rightarrow> reconciliation_service \<Rightarrow> (reconciliation_service, unit) outcome" where
  "trip_reconciliation now reason correlation_id s =
     (if kill_switch_active (rn_risk s) then (s, Inr ())
      else with_risk_manager (trigger_risk_kill_switch now reason ''oms-reconciliation'' correlation_id) s)"

definition record_run :: "reconciliation_run \<Rightarrow> reconciliation_service \<Rightarrow> (reconciliation_service, unit) outcome" where
  "record_run run' =
     with_risk_manager (\<lambda>rm. case record_audit \<lparr>au_correlation_id = rr_run_id run',
         au_audit_type = ''OMS_RECONCILIATION_COMPLETED'', au_entity_type = ''reconciliation_run'',
         au_entity_id = Some (rr_run_id run')\<rparr> (rm_audit rm, rm_db rm) of
       ((a, d), r) \<Rightarrow> (rm\<lparr>rm_audit := a, rm_db := d\<rparr>, r))"

definition persist ::
  "time \<Rightarrow> reconciliation_run \<Rightarrow> reconciliation_mismatch list \<Rightarrow> venue_state_snapshot \<Rightarrow> oms_order list
     \<Rightarrow> reconciliation_service \<Rightarrow> (reconciliation_service, unit) outcome" where
  "persist now run' mismatches snapshot reconciled s =
     bind_outcome
       (if rn_repository s then with_db (persist_reconciliation run' mismatches snapshot reconciled) s
        else (s\<lparr>rn_orders := fold (\<lambda>o'. dict_set (oo_oms_order_id o') o') reconciled (rn_orders s)\<rparr>, Inr ()))
       (\<lambda>s1 _. recover (record_run run' (s1\<lparr>rn_latest := Some (run', mismatches, snapshot)\<rparr>)) (\<lambda>e s2.
          if exn_class e = AuditError
          then trip_reconciliation now ''OMS reconciliation audit persistence failed'' (Some (rr_run_id run')) s2
          else (s2, Inl e)))"

definition handle_critical ::
  "time \<Rightarrow> reconciliation_run \<Rightarrow> reconciliation_service \<Rightarrow> (reconciliation_service, unit) outcome" where
  "handle_critical now run' s =
     (if \<not> rn_halt s then (s, Inr ())
      else trip_reconciliation now
             (''OMS '' @ exchange_value (rr_exchange run') @ '' '' @ environment_value (rr_environment run') @
              '' reconciliation found '' @ decimal (nat (rr_critical_mismatch_count run')) @ '' critical mismatch(es)'')
             (Some (rr_run_id run')) s)"

section \<open>One run\<close>

definition failed_run :: "string \<Rightarrow> time \<Rightarrow> time \<Rightarrow> int \<Rightarrow> exn \<Rightarrow> reconciliation_service \<Rightarrow> reconciliation_run" where
  "failed_run run_id started_at completed_at count e s =
     \<lparr>rr_run_id = run_id, rr_exchange = rn_exchange s, rr_environment = rn_environment s, rr_status = RunFAILED,
      rr_local_order_count = count, rr_venue_order_count = 0, rr_fill_count = 0, rr_position_count = 0,
      rr_balance_count = 0, rr_mismatch_count = 1, rr_critical_mismatch_count = 1, rr_started_at = started_at,
      rr_completed_at = Some completed_at, rr_error_type = Some (class_name (exn_class e))\<rparr>"

definition unavailable :: "string \<Rightarrow> time \<Rightarrow> exn \<Rightarrow> reconciliation_run \<Rightarrow> reconciliation_mismatch" where
  "unavailable mismatch_id now e run' =
     \<lparr>mm_mismatch_id = mismatch_id, mm_run_id = rr_run_id run', mm_mismatch_type = ADAPTER_UNAVAILABLE,
      mm_severity = CRITICAL, mm_exchange = rr_exchange run', mm_environment = rr_environment run',
      mm_oms_order_id = None, mm_venue_order_id = None, mm_symbol = None,
      mm_expected = [(''adapter_available'', JBool True)],
      mm_observed = [(''adapter_available'', JBool False), (''error_type'', JStr (class_name (exn_class e)))],
      mm_created_at = now\<rparr>"

definition empty_snapshot :: "time \<Rightarrow> reconciliation_service \<Rightarrow> venue_state_snapshot" where
  "empty_snapshot now s =
     \<lparr>vs_exchange = rn_exchange s, vs_environment = rn_environment s, vs_orders = [], vs_fills = [],
      vs_positions = [], vs_balances = [], vs_observed_at = now\<rparr>"

text \<open>The orders after the venue's state is applied to them.\<close>

definition projected_orders :: "oms_order list \<Rightarrow> oms_order list \<Rightarrow> oms_order list" where
  "projected_orders locals reconciled =
     map (\<lambda>o'. or_default (dict_get (dict_of oo_oms_order_id reconciled) (oo_oms_order_id o')) o') locals"

definition find_mismatches ::
  "time \<Rightarrow> oms_order list \<Rightarrow> venue_state_snapshot \<Rightarrow> reconciliation_mismatch list \<times> oms_order list" where
  "find_mismatches now locals snapshot =
     (case compare_orders now locals snapshot of
        (mismatches, reconciled) \<Rightarrow>
          (mismatches @
             (if vs_environment snapshot = EnvTESTNET \<and> vs_positions snapshot \<noteq> []
              then compare_positions now (vs_exchange snapshot) (vs_environment snapshot)
                     (projected_orders locals reconciled) snapshot ''pending''
              else []), reconciled))"

definition critical_count :: "reconciliation_mismatch list \<Rightarrow> nat" where
  "critical_count mismatches = length (filter (\<lambda>m. mm_severity m = CRITICAL) mismatches)"

definition completed_run ::
  "string \<Rightarrow> time \<Rightarrow> time \<Rightarrow> oms_order list \<Rightarrow> venue_state_snapshot \<Rightarrow> reconciliation_mismatch list
     \<Rightarrow> reconciliation_run" where
  "completed_run run_id started_at completed_at locals snapshot mismatches =
     \<lparr>rr_run_id = run_id, rr_exchange = vs_exchange snapshot, rr_environment = vs_environment snapshot,
      rr_status = (if mismatches \<noteq> [] then RunDRIFT else RunMATCHED),
      rr_local_order_count = int (length locals), rr_venue_order_count = int (length (vs_orders snapshot)),
      rr_fill_count = int (length (vs_fills snapshot)), rr_position_count = int (length (vs_positions snapshot)),
      rr_balance_count = int (length (vs_balances snapshot)), rr_mismatch_count = int (length mismatches),
      rr_critical_mismatch_count = int (critical_count mismatches), rr_started_at = started_at,
      rr_completed_at = Some completed_at, rr_error_type = None\<rparr>"

definition stamp :: "(nat \<Rightarrow> string) \<Rightarrow> string \<Rightarrow> reconciliation_mismatch list \<Rightarrow> reconciliation_mismatch list" where
  "stamp fresh run_id mismatches =
     map2 (\<lambda>k m. m\<lparr>mm_mismatch_id := fresh k, mm_run_id := run_id\<rparr>) [0..<length mismatches] mismatches"

definition reconcile_once ::
  "(string set \<Rightarrow> venue_state_snapshot result) \<Rightarrow> string \<Rightarrow> (nat \<Rightarrow> string) \<Rightarrow> time \<Rightarrow> time \<Rightarrow> reconciliation_service
     \<Rightarrow> (reconciliation_service, reconciliation_run) outcome" where
  "reconcile_once fetch run_id fresh started_at now s =
     bind_outcome (local_orders s) (\<lambda>s1 locals.
       case fetch (set (map oo_symbol locals)) of
         Inl e \<Rightarrow>
           let run' = failed_run run_id started_at now (int (length locals)) e s1
           in bind_outcome (persist now run' [unavailable (fresh 0) now e run'] (empty_snapshot now s1) [] s1) (\<lambda>s2 _.
              bind_outcome (handle_critical now run' s2) (\<lambda>s3 _. (s3, Inr run')))
       | Inr snapshot \<Rightarrow>
           (case find_mismatches now locals snapshot of
              (mismatches, reconciled) \<Rightarrow>
                let run' = completed_run run_id started_at now locals snapshot mismatches
                in bind_outcome (persist now run' (stamp fresh run_id mismatches) snapshot reconciled s1) (\<lambda>s2 _.
                   bind_outcome (if rn_repository s2 then with_risk_manager refresh_positions s2 else (s2, Inr ())) (\<lambda>s3 _.
                   bind_outcome (if critical_count mismatches \<noteq> 0 then handle_critical now run' s3 else (s3, Inr ()))
                     (\<lambda>s4 _. (s4, Inr run'))))))"

text \<open>One turn of \<^verbatim>\<open>run\<close>; the waiting between turns is left out.\<close>

definition reconcile_turn ::
  "(string set \<Rightarrow> venue_state_snapshot result) \<Rightarrow> string \<Rightarrow> (nat \<Rightarrow> string) \<Rightarrow> time \<Rightarrow> time \<Rightarrow> reconciliation_service
     \<Rightarrow> reconciliation_service" where
  "reconcile_turn fetch run_id fresh started_at now s =
     (case reconcile_once fetch run_id fresh started_at now s of
        (s1, Inr _) \<Rightarrow> s1
      | (s1, Inl e) \<Rightarrow>
          fst (trip_reconciliation now (''OMS reconciliation worker failure: '' @ class_name (exn_class e)) None s1))"

end
