(* ===== verification/Paper_Adapter.thy ===== *)
theory Paper_Adapter
  imports Reconciliation_Properties
begin

text \<open>
  The read-only view of the PAPER account that reconciliation compares the OMS with,
  \<^verbatim>\<open>app/execution/adapters/paper.py\<close>, and the agreement of that view with the orders the OMS mirrors.
\<close>

section \<open>The adapter\<close>

definition paper_client_order_id :: "string option \<Rightarrow> string" where
  "paper_client_order_id approval_id =
     ''paper-'' @ take 24 (if truthy_id approval_id then the approval_id else ''legacy'')"

fun paper_status :: "paper_order_status \<Rightarrow> oms_status" where
  "paper_status PsCREATED = OsCREATED"
| "paper_status PsFILLED = OsFILLED"
| "paper_status PsPARTIALLY_FILLED = OsPARTIALLY_FILLED"
| "paper_status PsCANCELLED = OsCANCELED"
| "paper_status PsCLOSED = OsFILLED"
| "paper_status PsEXPIRED = OsEXPIRED"
| "paper_status PsFAILED = OsREJECTED"

definition paper_submit_order :: "oms_order \<Rightarrow> venue_order_snapshot result" where
  "paper_submit_order order = raise SecurityError ''PAPER submission must enter through PaperTradingEngine risk checks''"

definition paper_cancel_order :: "oms_order \<Rightarrow> venue_order_snapshot result" where
  "paper_cancel_order order = raise SecurityError ''PAPER cancellation must enter through PaperTradingEngine''"

definition paper_quantity :: "paper_order \<Rightarrow> pyfloat result" where
  "paper_quantity order =
     (if po_entry_price order = 0 then raise ZeroDivisionError ''float division by zero''
      else Inr (po_position_size order / po_entry_price order))"

definition paper_venue_order :: "time \<Rightarrow> paper_order \<Rightarrow> venue_order_snapshot result" where
  "paper_venue_order observed_at order =
     bind_result (paper_quantity order) (\<lambda>q.
       validate valid_venue_order_snapshot
         \<lparr>vo_exchange = po_exchange order, vo_environment = EnvPAPER, vo_venue_order_id = po_paper_order_id order,
          vo_client_order_id = paper_client_order_id (po_approval_id order), vo_symbol = po_symbol order,
          vo_side = po_side order, vo_order_type = MARKET, vo_status = paper_status (po_status order),
          vo_quantity = q, vo_cumulative_filled_quantity = q, vo_average_fill_price = Some (po_entry_price order),
          vo_observed_at = observed_at\<rparr>)"

definition paper_fill :: "time \<Rightarrow> paper_order \<Rightarrow> execution_fill result" where
  "paper_fill observed_at order =
     bind_result (paper_quantity order) (\<lambda>q.
       validate valid_execution_fill
         \<lparr>xf_fill_id = ''paper:'' @ po_paper_order_id order @ '':open'', xf_oms_order_id = Some (po_paper_order_id order),
          xf_venue_order_id = po_paper_order_id order,
          xf_client_order_id = Some (paper_client_order_id (po_approval_id order)), xf_exchange = po_exchange order,
          xf_environment = EnvPAPER, xf_symbol = po_symbol order, xf_side = po_side order, xf_quantity = q,
          xf_price = po_entry_price order, xf_fee = po_fees_estimated order, xf_fee_asset = None,
          xf_occurred_at = or_default (po_opened_at order) (po_created_at order), xf_observed_at = observed_at\<rparr>)"

definition paper_position :: "time \<Rightarrow> paper_order \<Rightarrow> venue_position_snapshot result" where
  "paper_position observed_at order =
     bind_result (paper_quantity order) (\<lambda>q.
       validate valid_venue_position_snapshot
         \<lparr>vp_exchange = po_exchange order, vp_environment = EnvPAPER, vp_symbol = po_symbol order,
          vp_side = po_side order, vp_quantity = q, vp_entry_price = Some (po_entry_price order),
          vp_mark_price = Some (po_entry_price order), vp_unrealized_pnl = 0, vp_observed_at = observed_at\<rparr>)"

text \<open>No filter when no symbol is given; comparison in upper case.\<close>

definition symbol_allowed :: "string list \<Rightarrow> paper_order \<Rightarrow> bool" where
  "symbol_allowed symbols order \<longleftrightarrow> symbols = [] \<or> to_upper (po_symbol order) \<in> set (map to_upper symbols)"

definition paper_fetch_state ::
  "exchange \<Rightarrow> time \<Rightarrow> paper_engine \<Rightarrow> string list \<Rightarrow> venue_state_snapshot result" where
  "paper_fetch_state exchange observed_at e symbols =
     (let paper_orders = filter (symbol_allowed symbols) (dict_values (pt_open_orders e) @ pt_closed_orders e);
          balance = max 0 (pt_balance e)
      in bind_result (map_result (paper_venue_order observed_at) paper_orders) (\<lambda>orders.
         bind_result (map_result (paper_fill observed_at)
           (filter (\<lambda>o'. po_status o' \<in> {PsFILLED, PsPARTIALLY_FILLED, PsCLOSED}) paper_orders)) (\<lambda>fills.
         bind_result (map_result (paper_position observed_at)
           (filter (symbol_allowed symbols) (dict_values (pt_open_orders e)))) (\<lambda>positions.
         bind_result (validate valid_venue_balance_snapshot
           \<lparr>vb_exchange = exchange, vb_environment = EnvPAPER, vb_asset = ''USDT'', vb_available = balance,
            vb_locked = 0, vb_equity = balance, vb_observed_at = observed_at\<rparr>) (\<lambda>b.
         validate valid_venue_state_snapshot
           \<lparr>vs_exchange = exchange, vs_environment = EnvPAPER, vs_orders = orders, vs_fills = fills,
            vs_positions = positions, vs_balances = [b], vs_observed_at = observed_at\<rparr>)))))"

section \<open>Agreement with the mirror of the OMS\<close>

lemma mirror_fields:
  assumes "paper_oms_order p = Inr m"
  shows "oo_oms_order_id m = po_paper_order_id p" "oo_venue_order_id m = Some (po_paper_order_id p)"
    "oo_status m = OsFILLED" "oo_symbol m = po_symbol p" "oo_cumulative_filled_quantity m = po_position_size p / po_entry_price p"
    "truthy_id (po_approval_id p) \<Longrightarrow> oo_client_order_id m = paper_client_order_id (po_approval_id p)"
  using assms
  by (auto simp: paper_oms_order_def paper_client_order_id_def Let_def split: if_splits option.splits)

lemma view_fields:
  assumes "paper_venue_order t p = Inr v"
  shows "vo_client_order_id v = paper_client_order_id (po_approval_id p)" "vo_venue_order_id v = po_paper_order_id p"
    "vo_status v = paper_status (po_status p)" "vo_cumulative_filled_quantity v = po_position_size p / po_entry_price p"
  using assms by (auto simp: paper_venue_order_def paper_quantity_def bind_result_Inr split: if_splits)

text \<open>A PAPER order, its mirror in the OMS and the adapter's view of it do not differ.\<close>

lemma mirror_matches_view:
  assumes "paper_oms_order p = Inr m" "paper_venue_order t p = Inr v" "po_status p \<in> {PsFILLED, PsCLOSED}"
  shows "\<not> status_drift m v" "\<not> quantity_drift m v" "\<not> identity_drift m v" "terminal (oo_status m)"
proof -
  have tol: "\<not> flt (1 / 10 ^ 10) < \<bar>0\<bar>" by code_simp
  note f = mirror_fields [OF assms(1)] view_fields [OF assms(2)]
  show "\<not> quantity_drift m v" using tol by (simp add: quantity_drift_def f diff_self_pyfloat)
  show "\<not> status_drift m v" "\<not> identity_drift m v" "terminal (oo_status m)"
    using assms(3) by (auto simp: status_drift_def identity_drift_def f)
qed

lemma fetched_lists:
  assumes "paper_fetch_state x now e symbols = Inr v"
    and "\<And>p. p \<in> set (dict_values (pt_open_orders e) @ pt_closed_orders e) \<Longrightarrow> symbol_allowed symbols p"
  shows "list_all2 (\<lambda>p o'. paper_venue_order now p = Inr o') (dict_values (pt_open_orders e) @ pt_closed_orders e) (vs_orders v)"
    and "f \<in> set (vs_fills v) \<Longrightarrow>
           \<exists>p \<in> set (dict_values (pt_open_orders e) @ pt_closed_orders e). paper_fill now p = Inr f"
    and "vs_environment v = EnvPAPER"
proof -
  let ?book = "dict_values (pt_open_orders e) @ pt_closed_orders e"
  have same: "filter (symbol_allowed symbols) ?book = ?book" using assms(2) by (simp only: filter_id_conv) blast
  have orders: "map_result (paper_venue_order now) ?book = Inr (vs_orders v)"
    and fills: "map_result (paper_fill now) (filter (\<lambda>o'. po_status o' \<in> {PsFILLED, PsPARTIALLY_FILLED, PsCLOSED}) ?book) = Inr (vs_fills v)"
    and env: "vs_environment v = EnvPAPER"
    using assms(1) unfolding paper_fetch_state_def Let_def same by (auto simp: bind_result_Inr)
  show "list_all2 (\<lambda>p o'. paper_venue_order now p = Inr o') ?book (vs_orders v)" using orders by (simp add: map_result_Inr)
  show "vs_environment v = EnvPAPER" by (rule env)
  assume "f \<in> set (vs_fills v)"
  from list_all2_source [OF fills [unfolded map_result_Inr] this] show "\<exists>p \<in> set ?book. paper_fill now p = Inr f"
    by auto
qed

text \<open>The orders of a book, their mirrors and their views, position by position.\<close>

lemma views_have_clients:
  assumes "list_all2 (\<lambda>p m. paper_oms_order p = Inr m) ps mirrors" "list_all2 (\<lambda>p o'. paper_venue_order now p = Inr o') ps views"
    and "\<forall>p \<in> set ps. truthy_id (po_approval_id p)"
  shows "map vo_client_order_id views = map oo_client_order_id mirrors"
    and "p \<in> set ps \<Longrightarrow> paper_client_order_id (po_approval_id p) \<in> oo_client_order_id ` set mirrors"
proof -
  have mirrored: "map oo_client_order_id mirrors = map (\<lambda>p. paper_client_order_id (po_approval_id p)) ps"
    using assms(1,3) mirror_fields(6) by (induction rule: list_all2_induct) auto
  moreover have "map vo_client_order_id views = map (\<lambda>p. paper_client_order_id (po_approval_id p)) ps"
    using assms(2) view_fields(1) by (induction rule: list_all2_induct) auto
  ultimately show "map vo_client_order_id views = map oo_client_order_id mirrors" by simp
  show "p \<in> set ps \<Longrightarrow> paper_client_order_id (po_approval_id p) \<in> oo_client_order_id ` set mirrors"
    using arg_cong [OF mirrored, of set] by auto
qed

lemma mirror_found:
  assumes ms: "list_all2 (\<lambda>p m. paper_oms_order p = Inr m) ps mirrors"
    and os: "list_all2 (\<lambda>p o'. paper_venue_order now p = Inr o') ps views"
    and filled: "\<forall>p \<in> set ps. po_status p \<in> {PsFILLED, PsCLOSED} \<and> truthy_id (po_approval_id p)"
    and unique: "distinct (map oo_client_order_id mirrors)" and m: "m \<in> set mirrors"
  obtains o' where "dict_get (dict_of vo_client_order_id views) (oo_client_order_id m) = Some o'"
    "\<not> status_drift m o'" "\<not> quantity_drift m o'" "\<not> identity_drift m o'" "terminal (oo_status m)"
proof -
  have clients: "map vo_client_order_id views = map oo_client_order_id mirrors" using views_have_clients(1) [OF ms os] filled by blast
  then have inj: "inj_on vo_client_order_id (set views)" using unique by (metis distinct_map)
  obtain i where i: "i < length mirrors" "m = mirrors ! i" using m by (metis in_set_conv_nth)
  have len: "length ps = length mirrors" "length views = length mirrors"
    using list_all2_lengthD [OF ms] list_all2_lengthD [OF os] by simp_all
  have p: "paper_oms_order (ps ! i) = Inr m" "paper_venue_order now (ps ! i) = Inr (views ! i)" "ps ! i \<in> set ps"
    "views ! i \<in> set views"
    using list_all2_nthD [OF ms, of i] list_all2_nthD [OF os, of i] i len by simp_all
  have "vo_client_order_id (views ! i) = oo_client_order_id m" using clients i by (metis length_map nth_map)
  then have "dict_get (dict_of vo_client_order_id views) (oo_client_order_id m) = Some (views ! i)"
    using dict_of_single [OF p(4) inj] by simp
  with mirror_matches_view [OF p(1,2)] p(3) filled show thesis using that by blast
qed

text \<open>
  C24. The PAPER account and its mirror in the OMS agree by construction: when every order of the book
  is filled or closed, carries its approval identity and has a client identity of its own, reconciling
  the mirrored orders with the adapter's view of the account finds no mismatch and changes no order.
\<close>

theorem paper_mirror_reconciles:
  assumes mirrors: "map_result paper_oms_order (dict_values (pt_open_orders e) @ pt_closed_orders e) = Inr mirrors"
    and fetch: "paper_fetch_state x now e (map oo_symbol mirrors) = Inr v"
    and unique: "distinct (map oo_client_order_id mirrors)"
    and book: "\<forall>p \<in> set (dict_values (pt_open_orders e) @ pt_closed_orders e).
        po_status p \<in> {PsFILLED, PsCLOSED} \<and> truthy_id (po_approval_id p)"
  shows "find_mismatches t mirrors v = ([], [])"
proof -
  let ?book = "dict_values (pt_open_orders e) @ pt_closed_orders e"
  let ?vs = "dict_of vo_client_order_id (vs_orders v)"
  note ms = mirrors [unfolded map_result_Inr]
  have allowed: "symbol_allowed (map oo_symbol mirrors) p" if p: "p \<in> set ?book" for p
  proof -
    obtain m where "m \<in> set mirrors" "paper_oms_order p = Inr m"
      using list_all2_image [OF ms p] by blast
    then show ?thesis using mirror_fields(4) [of p m] by (auto simp: symbol_allowed_def intro!: image_eqI [of _ _ m])
  qed
  note os = fetched_lists(1) [OF fetch allowed]
  have ids: "\<forall>p \<in> set ?book. truthy_id (po_approval_id p)" using book by blast
  have quiet: "order_mismatches t ?vs m = [] \<and> order_update (vs_observed_at v) ?vs m = None" if m: "m \<in> set mirrors" for m
  proof -
    obtain o' where o': "dict_get ?vs (oo_client_order_id m) = Some o'" "\<not> status_drift m o'" "\<not> quantity_drift m o'"
      "\<not> identity_drift m o'" "terminal (oo_status m)"
      by (rule mirror_found [OF ms os book unique m])
    have "\<not> must_reconcile m o'" using o'(5) unfolding must_reconcile_def by blast
    with o'(1-4) show ?thesis by (simp add: order_mismatches_def order_update_def)
  qed
  have managed: "vo_client_order_id o' \<in> oo_client_order_id ` set mirrors" if "o' \<in> set (vs_orders v)" for o'
    using that views_have_clients(1) [OF ms os ids] by (metis image_eqI image_set)
  have fills: "fill_managed mirrors (vs_orders v) f" if f: "f \<in> set (vs_fills v)" for f
  proof -
    obtain p where p: "p \<in> set ?book" "paper_fill now p = Inr f" using fetched_lists(2) [OF fetch allowed f] by blast
    then have "xf_client_order_id f = Some (paper_client_order_id (po_approval_id p))"
      by (auto simp: paper_fill_def bind_result_Inr)
    then show ?thesis
      using views_have_clients(2) [OF ms os ids p(1)] dict_get_dict_of_None [of oo_client_order_id mirrors]
      by (simp add: fill_managed_def)
  qed
  have "compare_orders t mirrors v = ([], [])"
    using quiet managed fills dict_get_dict_of_None [of oo_client_order_id mirrors]
    by (simp add: compare_orders_def Let_def map_filter_None filter_empty_conv)
  then show ?thesis using fetched_lists(3) [OF fetch allowed] by (simp add: find_mismatches_def)
qed

definition sample_account :: paper_engine where
  "sample_account =
     sample_engine\<lparr>pt_open_orders := [(''paper-1'', sample_paper_order)],
       pt_closed_orders := [sample_paper_order\<lparr>po_paper_order_id := ''paper-2'', po_approval_id := Some (hash64 CHR ''b''),
         po_status := PsCLOSED\<rparr>]\<rparr>"

theorem paper_mirror_reconciles_witness:
  "\<exists>mirrors v. map_result paper_oms_order (dict_values (pt_open_orders sample_account) @ pt_closed_orders sample_account) = Inr mirrors \<and>
     paper_fetch_state BINANCE 9 sample_account (map oo_symbol mirrors) = Inr v \<and> length (vs_orders v) = 2 \<and>
     find_mismatches 10 mirrors v = ([], [])"
proof -
  let ?book = "dict_values (pt_open_orders sample_account) @ pt_closed_orders sample_account"
  have "is_ok (map_result paper_oms_order ?book)" by code_simp
  then obtain mirrors where m: "map_result paper_oms_order ?book = Inr mirrors" by (auto simp: is_ok_iff)
  have "case map_result paper_oms_order ?book of Inl _ \<Rightarrow> False
      | Inr ms \<Rightarrow> distinct (map oo_client_order_id ms) \<and>
          (case paper_fetch_state BINANCE 9 sample_account (map oo_symbol ms) of Inl _ \<Rightarrow> False | Inr v \<Rightarrow> length (vs_orders v) = 2)"
    by code_simp
  with m obtain v where "distinct (map oo_client_order_id mirrors)"
    "paper_fetch_state BINANCE 9 sample_account (map oo_symbol mirrors) = Inr v" "length (vs_orders v) = 2"
    by (auto split: sum.splits)
  moreover have "\<forall>p \<in> set ?book. po_status p \<in> {PsFILLED, PsCLOSED} \<and> truthy_id (po_approval_id p)" by code_simp
  ultimately show ?thesis using paper_mirror_reconciles [OF m] m by blast
qed

end
