(* ===== verification/Decision_Engine.thy ===== *)
theory Decision_Engine
  imports Risk_Manager
begin

text \<open>
  Consolidation of agent outputs into a candidate decision, \<^verbatim>\<open>app/orchestrator/decision_engine.py\<close>, with
  the agent output contract of \<^verbatim>\<open>app/schemas/agents.py\<close>. Weights and thresholds are binary64 values and
  the confidence is rounded the way \<^verbatim>\<open>round\<close> does. The decision identity and the instant are parameters.
\<close>

section \<open>Agent outputs\<close>

datatype signal = SigBUY | SigSELL | SigHOLD | SigWAIT | SigBLOCK | SigNEUTRAL
datatype agent_status = AsCOMPLETED | AsFAILED | AsTIMEOUT | AsSKIPPED | AsBLOCKED

fun signal_value :: "signal \<Rightarrow> string" where
  "signal_value SigBUY = ''BUY''"
| "signal_value SigSELL = ''SELL''"
| "signal_value SigHOLD = ''HOLD''"
| "signal_value SigWAIT = ''WAIT''"
| "signal_value SigBLOCK = ''BLOCK''"
| "signal_value SigNEUTRAL = ''NEUTRAL''"

fun agent_status_value :: "agent_status \<Rightarrow> string" where
  "agent_status_value AsCOMPLETED = ''COMPLETED''"
| "agent_status_value AsFAILED = ''FAILED''"
| "agent_status_value AsTIMEOUT = ''TIMEOUT''"
| "agent_status_value AsSKIPPED = ''SKIPPED''"
| "agent_status_value AsBLOCKED = ''BLOCKED''"

record agent_output =
  ao_agent_name :: string
  ao_status :: agent_status
  ao_signal :: signal
  ao_confidence :: int
  ao_reason :: string
  ao_evidence :: "(string \<times> json) list"
  ao_warnings :: "string list"
  ao_latency_ms :: int
  ao_created_at :: time

definition valid_agent_output :: "agent_output \<Rightarrow> bool" where
  [valid_defs]: "valid_agent_output o' \<longleftrightarrow>
     ao_agent_name o' \<noteq> [] \<and> 0 \<le> ao_confidence o' \<and> ao_confidence o' \<le> 100 \<and>
     ao_reason o' \<noteq> [] \<and> length (ao_reason o') \<le> 1000 \<and> 0 \<le> ao_latency_ms o'"

section \<open>The engine\<close>

definition W_QUANT :: pyfloat where "W_QUANT = flt (40 / 100)"
definition W_TREND :: pyfloat where "W_TREND = flt (30 / 100)"
definition W_QUALITY :: pyfloat where "W_QUALITY = flt (20 / 100)"
definition W_CONTEXT :: pyfloat where "W_CONTEXT = flt (10 / 100)"

definition CRITICAL_AGENTS :: "string list" where
  "CRITICAL_AGENTS = [''MarketDataAgent'', ''QuantAgent'', ''TrendAgent'']"

abbreviation critical :: "agent_output \<Rightarrow> bool" where
  "critical o' \<equiv> ao_agent_name o' \<in> set CRITICAL_AGENTS"

fun DIRECTIONAL :: "signal \<Rightarrow> int option" where
  "DIRECTIONAL SigBUY = Some 1"
| "DIRECTIONAL SigSELL = Some (- 1)"
| "DIRECTIONAL _ = None"

record decision_engine =
  de_minimum_confidence :: int
  de_strategy :: string

record consolidation =
  cq_correlation_id :: string
  cq_symbol :: string
  cq_timeframe :: string
  cq_agent_outputs :: "agent_output list"
  cq_data_quality_score :: int
  cq_operational_context_score :: int
  cq_strategy :: "string option"
  cq_minimum_confidence :: "int option"

definition summary_entry :: "agent_output \<Rightarrow> json" where
  "summary_entry o' =
     JObj [(''name'', JStr (ao_agent_name o')), (''status'', JStr (agent_status_value (ao_status o'))),
           (''signal'', JStr (signal_value (ao_signal o'))), (''confidence'', JInt (ao_confidence o')),
           (''reason'', JStr (ao_reason o'))]"

definition make_decision ::
  "string \<Rightarrow> time \<Rightarrow> decision_engine \<Rightarrow> consolidation \<Rightarrow> candidate_action \<Rightarrow> int \<Rightarrow> string \<Rightarrow> string list
     \<Rightarrow> decision result" where
  "make_decision decision_id now eng q action confidence reason warnings =
     validate valid_decision
       \<lparr>dec_decision_id = decision_id, dec_correlation_id = cq_correlation_id q, dec_symbol = cq_symbol q,
        dec_timeframe = cq_timeframe q, dec_candidate_action = action, dec_confidence = confidence,
        dec_strategy = (if truthy_id (cq_strategy q) then the (cq_strategy q) else de_strategy eng),
        dec_reason = reason, dec_agent_summary = map summary_entry (cq_agent_outputs q), dec_warnings = warnings,
        dec_risk_status = RsPENDING, dec_created_at = now\<rparr>"

definition missing_critical :: "agent_output list \<Rightarrow> string list" where
  "missing_critical outputs =
     filter (\<lambda>name. case dict_get (dict_of ao_agent_name outputs) name of
               None \<Rightarrow> True | Some o' \<Rightarrow> ao_status o' \<noteq> AsCOMPLETED) CRITICAL_AGENTS"

definition critical_warnings :: "agent_output list \<Rightarrow> string list" where
  "critical_warnings outputs =
     concat (map (\<lambda>o'. (if ao_status o' = AsTIMEOUT then [''AGENT_TIMEOUT''] else []) @ ao_warnings o')
               (filter critical outputs))"

definition blocking_output :: "agent_output list \<Rightarrow> agent_output option" where
  "blocking_output outputs =
     List.find (\<lambda>o'. ao_status o' = AsCOMPLETED \<and> critical o' \<and> ao_signal o' = SigBLOCK) outputs"

definition strong_conflict :: "agent_output option \<Rightarrow> agent_output option \<Rightarrow> bool" where
  "strong_conflict quant trend \<longleftrightarrow>
     (case (quant, trend) of
        (Some a, Some b) \<Rightarrow>
          DIRECTIONAL (ao_signal a) \<noteq> None \<and> DIRECTIONAL (ao_signal b) \<noteq> None \<and>
          DIRECTIONAL (ao_signal a) \<noteq> DIRECTIONAL (ao_signal b) \<and> 70 \<le> ao_confidence a \<and> 70 \<le> ao_confidence b
      | _ \<Rightarrow> False)"

definition percent :: "int \<Rightarrow> pyfloat" where
  "percent n = flt (of_int n / 100)"

definition directional_term :: "agent_output option \<Rightarrow> pyfloat \<Rightarrow> pyfloat \<Rightarrow> pyfloat" where
  "directional_term output weight acc =
     (case output of
        None \<Rightarrow> acc
      | Some o' \<Rightarrow> (case DIRECTIONAL (ao_signal o') of
                     None \<Rightarrow> acc
                   | Some d \<Rightarrow> acc + flt (of_int d) * percent (ao_confidence o') * weight))"

definition weighted_direction :: "agent_output option \<Rightarrow> agent_output option \<Rightarrow> pyfloat" where
  "weighted_direction quant trend = directional_term trend W_TREND (directional_term quant W_QUANT 0)"

definition raw_confidence :: "pyfloat \<Rightarrow> int \<Rightarrow> int \<Rightarrow> int" where
  "raw_confidence w quality context =
     round_half_even (fval
       (\<bar>w\<bar> / (W_QUANT + W_TREND) * flt 100 *
        (flt (7 / 10) + percent quality * W_QUALITY + percent context * W_CONTEXT)))"

definition penalised :: "int \<Rightarrow> string list \<Rightarrow> int" where
  "penalised confidence warnings = max 0 (min 100 (confidence - 5 * int (card (set warnings))))"

definition action_of_direction :: "pyfloat \<Rightarrow> candidate_action" where
  "action_of_direction w =
     (if flt (15 / 100) < w then ActBUY else if w < - flt (15 / 100) then ActSELL else ActHOLD)"

definition reasons_text :: "agent_output option \<Rightarrow> agent_output option \<Rightarrow> string" where
  "reasons_text quant trend =
     (let text = join '' | '' ((case quant of None \<Rightarrow> [] | Some o' \<Rightarrow> [''Quant: '' @ ao_reason o']) @
                              (case trend of None \<Rightarrow> [] | Some o' \<Rightarrow> [''Trend: '' @ ao_reason o']))
      in if text = [] then ''Consolidated decision'' else text)"

definition consolidate ::
  "string \<Rightarrow> time \<Rightarrow> decision_engine \<Rightarrow> consolidation \<Rightarrow> decision result" where
  "consolidate decision_id now eng q =
     (let outputs = cq_agent_outputs q;
          by_name = dict_of ao_agent_name outputs;
          min_conf = (case cq_minimum_confidence q of None \<Rightarrow> de_minimum_confidence eng | Some m \<Rightarrow> m);
          warnings = critical_warnings outputs;
          build = make_decision decision_id now eng q
      in if missing_critical outputs \<noteq> []
         then build ActBLOCK 0 (''Critical agents unavailable: '' @ join '', '' (sort (missing_critical outputs))) warnings
         else case blocking_output outputs of
           Some o' \<Rightarrow> build ActBLOCK 0 (ao_agent_name o' @ '' blocked: '' @ ao_reason o') warnings
         | None \<Rightarrow>
             if cq_data_quality_score q < 60
             then build ActBLOCK 0 (''Data quality score '' @ str_int (cq_data_quality_score q) @ '' below minimum'')
                    (warnings @ [''DATA_QUALITY_ISSUE''])
             else
               let warnings1 = warnings @ (if cq_data_quality_score q < 80 then [''DATA_QUALITY_ISSUE''] else []);
                   quant = dict_get by_name ''QuantAgent'';
                   trend = dict_get by_name ''TrendAgent''
               in if strong_conflict quant trend
                  then build ActWAIT 0
                         (''Strong conflict: QuantAgent '' @ signal_value (ao_signal (the quant)) @ '' ('' @
                          str_int (ao_confidence (the quant)) @ '') vs TrendAgent '' @ signal_value (ao_signal (the trend)) @
                          '' ('' @ str_int (ao_confidence (the trend)) @ '')'')
                         (warnings1 @ [''CONFLICTING_SIGNALS''])
                  else
                    let w = weighted_direction quant trend;
                        scored = penalised (raw_confidence w (cq_data_quality_score q) (cq_operational_context_score q)) warnings1;
                        action = action_of_direction w;
                        confidence = (if action = ActHOLD then min scored 50 else scored)
                    in if (action = ActBUY \<or> action = ActSELL) \<and> confidence < min_conf
                       then build ActWAIT confidence
                              (''Confidence '' @ str_int confidence @ '' below minimum '' @ str_int min_conf @ '' for '' @
                               action_value action) (warnings1 @ [''LOW_CONFIDENCE''])
                       else build action confidence
                              (reasons_text quant trend)
                              (sorted_set warnings1))"

end
