(* ===== verification/Decision_Properties.thy ===== *)
theory Decision_Properties
  imports Decision_Engine Execution_Properties
begin

text \<open>
  What a candidate decision promises: it is well formed, it is actionable only on the evidence the rules
  ask for, and agents outside the critical set have no influence on it.
\<close>

section \<open>Shape of the outcome\<close>

definition quant_of :: "agent_output list \<Rightarrow> agent_output option" where
  "quant_of outputs = dict_get (dict_of ao_agent_name outputs) ''QuantAgent''"

definition trend_of :: "agent_output list \<Rightarrow> agent_output option" where
  "trend_of outputs = dict_get (dict_of ao_agent_name outputs) ''TrendAgent''"

definition minimum_of :: "decision_engine \<Rightarrow> consolidation \<Rightarrow> int" where
  "minimum_of eng q = (case cq_minimum_confidence q of None \<Rightarrow> de_minimum_confidence eng | Some m \<Rightarrow> m)"

lemma make_decision_Inr:
  assumes "make_decision i now eng q action confidence reason warnings = Inr d"
  shows "dec_candidate_action d = action" "dec_confidence d = confidence" "valid_decision d"
  using assms by (auto simp: make_decision_def)

lemma make_decision_ok:
  assumes "cq_symbol q \<noteq> []" "0 \<le> confidence" "confidence \<le> 100"
  shows "\<exists>d. make_decision i now eng q action confidence reason warnings = Inr d"
  using assms by (simp add: make_decision_def validate_def valid_decision_def)

lemma penalised_range: "0 \<le> penalised c ws" "penalised c ws \<le> 100"
  by (simp_all add: penalised_def)

text \<open>
  Consolidation always returns a decision: for every symbol and whatever the agents reported, there
  is a candidate, its confidence is between 0 and 100, a hold never has more than 50, and a block has 0.
\<close>

theorem consolidate_total:
  assumes "cq_symbol q \<noteq> []"
  shows "\<exists>d. consolidate i now eng q = Inr d \<and> valid_decision d \<and>
     (dec_candidate_action d = ActHOLD \<longrightarrow> dec_confidence d \<le> 50) \<and>
     (dec_candidate_action d = ActBLOCK \<longrightarrow> dec_confidence d = 0)"
proof -
  have zero: "\<exists>d. make_decision i now eng q a 0 r ws = Inr d \<and> valid_decision d \<and>
      (dec_candidate_action d = ActHOLD \<longrightarrow> dec_confidence d \<le> 50) \<and>
      (dec_candidate_action d = ActBLOCK \<longrightarrow> dec_confidence d = 0)" for a r ws
    using make_decision_ok [OF assms, of 0 i now eng a r ws] make_decision_Inr [of i now eng q a 0 r ws] by fastforce
  have some: "\<exists>d. make_decision i now eng q a c r ws = Inr d \<and> valid_decision d \<and>
      (dec_candidate_action d = ActHOLD \<longrightarrow> dec_confidence d \<le> 50) \<and>
      (dec_candidate_action d = ActBLOCK \<longrightarrow> dec_confidence d = 0)"
    if "0 \<le> c" "c \<le> 100" "a = ActHOLD \<longrightarrow> c \<le> 50" "a \<noteq> ActBLOCK" for a c r ws
    using make_decision_ok [OF assms that(1,2), of i now eng a r ws] make_decision_Inr [of i now eng q a c r ws] that(3,4)
    by fastforce
  have "action_of_direction w \<noteq> ActBLOCK" for w by (simp add: action_of_direction_def)
  then show ?thesis
    unfolding consolidate_def Let_def
    by (auto simp: penalised_range intro!: zero some split: option.splits)
qed

section \<open>Evidence for an actionable decision\<close>

lemma missing_critical_Nil:
  "missing_critical outputs = [] \<longleftrightarrow>
     (\<forall>name \<in> set CRITICAL_AGENTS. \<exists>o'. dict_get (dict_of ao_agent_name outputs) name = Some o' \<and> ao_status o' = AsCOMPLETED)"
  by (auto simp: missing_critical_def filter_empty_conv split: option.splits)

lemma blocking_output_None:
  "blocking_output outputs = None \<longleftrightarrow>
     (\<forall>o' \<in> set outputs. ao_status o' = AsCOMPLETED \<and> critical o' \<longrightarrow> ao_signal o' \<noteq> SigBLOCK)"
  by (auto simp: blocking_output_def find_None_iff)

lemma consolidate_actionable:
  assumes "consolidate i now eng q = Inr d" "dec_candidate_action d \<in> {ActBUY, ActSELL}"
  shows "missing_critical (cq_agent_outputs q) = []" "blocking_output (cq_agent_outputs q) = None"
    "60 \<le> cq_data_quality_score q" "\<not> strong_conflict (quant_of (cq_agent_outputs q)) (trend_of (cq_agent_outputs q))"
    "minimum_of eng q \<le> dec_confidence d"
    "dec_candidate_action d = action_of_direction (weighted_direction (quant_of (cq_agent_outputs q)) (trend_of (cq_agent_outputs q)))"
  using assms
  by (auto simp: consolidate_def Let_def quant_of_def trend_of_def minimum_of_def dest: make_decision_Inr(1,2)
      split: if_splits option.splits)

lemma weights_nonneg: "0 \<le> W_QUANT" "0 \<le> W_TREND" "0 \<le> flt (15 / 100)" "- flt (15 / 100) \<le> 0"
  by code_simp+

lemma term_sign:
  assumes "0 \<le> ao_confidence o'" "0 \<le> weight"
  shows "ao_signal o' \<noteq> SigBUY \<Longrightarrow> directional_term (Some o') weight acc \<le> acc"
    and "ao_signal o' \<noteq> SigSELL \<Longrightarrow> acc \<le> directional_term (Some o') weight acc"
proof -
  have p: "0 \<le> percent (ao_confidence o')" 
    using assms(1) flt_mono [of 0 "of_int (ao_confidence o') / 100"] by (simp add: percent_def)
  have pos: "0 \<le> flt 1 * percent (ao_confidence o') * weight" 
    using p assms(2) flt_mono [of 0 1] by (intro pyfloat_mult_nonneg) simp_all
  have neg: "flt (- 1) * percent (ao_confidence o') * weight = - (flt 1 * percent (ao_confidence o') * weight)"
    by (simp add: fval_inject [symmetric] fval_simps fl_minus)
  show "ao_signal o' \<noteq> SigBUY \<Longrightarrow> directional_term (Some o') weight acc \<le> acc"
    using pos by (cases "ao_signal o'") (simp_all add: directional_term_def neg pyfloat_add_nonpos pyfloat_minus_nonpos)
  show "ao_signal o' \<noteq> SigSELL \<Longrightarrow> acc \<le> directional_term (Some o') weight acc"
    using pos by (cases "ao_signal o'") (simp_all add: directional_term_def pyfloat_le_add)
qed

text \<open>Without an agent in favour of the action the weighted direction does not leave the neutral band.\<close>

lemma direction_needs_agent:
  assumes "quant_of outputs = Some a" "trend_of outputs = Some b" "0 \<le> ao_confidence a" "0 \<le> ao_confidence b"
    and "action_of_direction (weighted_direction (quant_of outputs) (trend_of outputs)) = action"
  shows "action = ActBUY \<Longrightarrow> SigBUY \<in> {ao_signal a, ao_signal b}"
    and "action = ActSELL \<Longrightarrow> SigSELL \<in> {ao_signal a, ao_signal b}"
proof -
  let ?q = "directional_term (Some a) W_QUANT 0"
  have w: "weighted_direction (quant_of outputs) (trend_of outputs) = directional_term (Some b) W_TREND ?q"
    by (simp add: weighted_direction_def assms(1,2))
  note q = term_sign [OF assms(3) weights_nonneg(1), of 0] and t = term_sign [OF assms(4) weights_nonneg(2), of ?q]
  show "SigBUY \<in> {ao_signal a, ao_signal b}" if "action = ActBUY"
  proof (rule ccontr)
    assume "SigBUY \<notin> {ao_signal a, ao_signal b}"
    then have "weighted_direction (quant_of outputs) (trend_of outputs) \<le> 0"
      using order_trans [OF t(1) q(1)] w by auto
    with that assms(5) weights_nonneg(3) show False by (auto simp: action_of_direction_def split: if_splits)
  qed
  show "SigSELL \<in> {ao_signal a, ao_signal b}" if "action = ActSELL"
  proof (rule ccontr)
    assume "SigSELL \<notin> {ao_signal a, ao_signal b}"
    then have "0 \<le> weighted_direction (quant_of outputs) (trend_of outputs)"
      using order_trans [OF q(2) t(2)] w by auto
    with that assms(5) weights_nonneg(4) show False by (auto simp: action_of_direction_def split: if_splits)
  qed
qed

text \<open>
  C25. A buy or sell candidate rests on evidence: the three critical agents completed and none of them
  blocked, the data quality reached 60, the confidence reached the minimum asked for, the quant and
  trend agents do not contradict each other strongly, and one of the two signalled that very side.
\<close>

theorem decision_rests_on_evidence:
  assumes "consolidate i now eng q = Inr d" "dec_candidate_action d = ActBUY \<and> side = SigBUY \<or> dec_candidate_action d = ActSELL \<and> side = SigSELL"
    and "\<forall>o' \<in> set (cq_agent_outputs q). valid_agent_output o'"
  shows "\<exists>market quant trend. {market, quant, trend} \<subseteq> set (cq_agent_outputs q) \<and>
     map ao_agent_name [market, quant, trend] = CRITICAL_AGENTS \<and>
     map ao_status [market, quant, trend] = [AsCOMPLETED, AsCOMPLETED, AsCOMPLETED] \<and>
     SigBLOCK \<notin> ao_signal ` {market, quant, trend} \<and> side \<in> ao_signal ` {quant, trend} \<and>
     \<not> strong_conflict (Some quant) (Some trend) \<and>
     60 \<le> cq_data_quality_score q \<and> minimum_of eng q \<le> dec_confidence d"
proof -
  let ?os = "cq_agent_outputs q"
  have act: "dec_candidate_action d \<in> {ActBUY, ActSELL}" using assms(2) by auto
  note c = consolidate_actionable [OF assms(1) act]
  obtain m a b where found: "dict_get (dict_of ao_agent_name ?os) ''MarketDataAgent'' = Some m"
    "quant_of ?os = Some a" "trend_of ?os = Some b"
    and completed: "ao_status m = AsCOMPLETED" "ao_status a = AsCOMPLETED" "ao_status b = AsCOMPLETED"
    using c(1) unfolding missing_critical_Nil CRITICAL_AGENTS_def quant_of_def trend_of_def by auto
  have mem: "m \<in> set ?os" "a \<in> set ?os" "b \<in> set ?os"
    and name: "ao_agent_name m = ''MarketDataAgent''" "ao_agent_name a = ''QuantAgent''" "ao_agent_name b = ''TrendAgent''"
    using found unfolding quant_of_def trend_of_def by (auto dest: dict_get_dict_of)
  have "SigBLOCK \<notin> ao_signal ` {m, a, b}"
    using c(2) [unfolded blocking_output_None] mem name completed by (auto simp: CRITICAL_AGENTS_def)
  moreover have "side \<in> {ao_signal a, ao_signal b}"
    using direction_needs_agent [OF found(2,3) _ _ c(6) [symmetric]] assms(2,3) mem by (auto simp: valid_agent_output_def)
  ultimately show ?thesis
    using mem name completed c(3,4,5) found(2,3)
    by (intro exI [of _ m] exI [of _ a] exI [of _ b]) (simp add: CRITICAL_AGENTS_def)
qed

section \<open>Shadow agents\<close>

lemma dict_of_snoc: "dict_get (dict_of key (xs @ [x])) k = (if k = key x then Some x else dict_get (dict_of key xs) k)"
  by (simp add: dict_of_def dict_simps)

lemma dict_of_filter:
  assumes "\<And>x. key x = k \<Longrightarrow> P x"
  shows "dict_get (dict_of key (filter P xs)) k = dict_get (dict_of key xs) k"
proof (induction xs rule: rev_induct)
  case (snoc x xs)
  then show ?case using assms [of x] by (auto simp: dict_of_snoc)
qed (simp add: dict_of_def)

lemma critical_view:
  "missing_critical (filter critical os) = missing_critical os" "critical_warnings (filter critical os) = critical_warnings os"
  "blocking_output (filter critical os) = blocking_output os" "quant_of (filter critical os) = quant_of os"
  "trend_of (filter critical os) = trend_of os"
proof -
  have get: "dict_get (dict_of ao_agent_name (filter critical os)) n = dict_get (dict_of ao_agent_name os) n"
    if "n \<in> set CRITICAL_AGENTS" for n
    using that by (intro dict_of_filter) simp
  show "missing_critical (filter critical os) = missing_critical os"
    unfolding missing_critical_def by (rule filter_cong) (auto simp: get)
  show "quant_of (filter critical os) = quant_of os" "trend_of (filter critical os) = trend_of os"
    unfolding quant_of_def trend_of_def by (rule get, simp add: CRITICAL_AGENTS_def)+
  show "blocking_output (filter critical os) = blocking_output os"
    by (induction os) (auto simp: blocking_output_def)
  show "critical_warnings (filter critical os) = critical_warnings os" by (simp add: critical_warnings_def)
qed

definition without_summary :: "decision result \<Rightarrow> decision result" where
  "without_summary = map_sum id (\<lambda>d. d\<lparr>dec_agent_summary := []\<rparr>)"

lemma make_decision_summary:
  "without_summary (make_decision i now eng (q\<lparr>cq_agent_outputs := os\<rparr>) a c r ws) =
   without_summary (make_decision i now eng q a c r ws)"
  by (simp add: make_decision_def without_summary_def validate_def valid_decision_def)

text \<open>
  Shadow agents have no authority: whatever agents outside the critical set report, the decision is
  the one the critical agents alone give, apart from the summary that lists every agent.
\<close>

theorem shadow_agents_have_no_authority:
  "without_summary (consolidate i now eng q) =
   without_summary (consolidate i now eng (q\<lparr>cq_agent_outputs := filter critical (cq_agent_outputs q)\<rparr>))"
proof -
  note view = critical_view [of "cq_agent_outputs q", unfolded quant_of_def trend_of_def]
  show ?thesis
    by (simp add: consolidate_def Let_def view make_decision_summary split: option.splits)
qed

section \<open>A concrete consolidation\<close>

definition sample_output :: "string \<Rightarrow> signal \<Rightarrow> int \<Rightarrow> agent_output" where
  "sample_output name sig conf =
     \<lparr>ao_agent_name = name, ao_status = AsCOMPLETED, ao_signal = sig, ao_confidence = conf, ao_reason = ''ok'',
      ao_evidence = [], ao_warnings = [], ao_latency_ms = 1, ao_created_at = 0\<rparr>"

definition sample_consolidation :: consolidation where
  "sample_consolidation =
     \<lparr>cq_correlation_id = ''corr-1'', cq_symbol = ''BTCUSDT'', cq_timeframe = ''15m'',
      cq_agent_outputs = [sample_output ''MarketDataAgent'' SigNEUTRAL 90, sample_output ''QuantAgent'' SigBUY 90,
                          sample_output ''TrendAgent'' SigBUY 90, sample_output ''ShadowAgent'' SigSELL 100],
      cq_data_quality_score = 100, cq_operational_context_score = 100, cq_strategy = None,
      cq_minimum_confidence = Some 75\<rparr>"

definition sample_decision_engine :: decision_engine where
  "sample_decision_engine = \<lparr>de_minimum_confidence = 70, de_strategy = ''SCALP_15M''\<rparr>"

lemma sample_consolidated:
  "case consolidate ''d-1'' 5 sample_decision_engine sample_consolidation of
     Inl _ \<Rightarrow> False | Inr d \<Rightarrow> dec_candidate_action d = ActBUY \<and> dec_confidence d = 90"
  by code_simp

theorem consolidate_total_witness:
  "\<exists>d. consolidate ''d-1'' 5 sample_decision_engine sample_consolidation = Inr d \<and> valid_decision d"
proof -
  have "cq_symbol sample_consolidation \<noteq> []" by (simp add: sample_consolidation_def)
  from consolidate_total [OF this, of "''d-1''" 5 sample_decision_engine] show ?thesis by (elim exE conjE) (rule exI, rule conjI)
qed

theorem decision_rests_on_evidence_witness:
  "\<exists>market quant trend. {market, quant, trend} \<subseteq> set (cq_agent_outputs sample_consolidation) \<and>
     map ao_agent_name [market, quant, trend] = CRITICAL_AGENTS \<and> SigBUY \<in> ao_signal ` {quant, trend}"
proof -
  obtain d where d: "consolidate ''d-1'' 5 sample_decision_engine sample_consolidation = Inr d" "dec_candidate_action d = ActBUY"
    using sample_consolidated by (auto split: sum.splits)
  have "\<forall>o' \<in> set (cq_agent_outputs sample_consolidation). valid_agent_output o'" by code_simp
  from decision_rests_on_evidence [OF d(1) _ this, of SigBUY] d(2) show ?thesis by blast
qed

end
