(* ===== verification/Strategy_Engine.thy ===== *)
theory Strategy_Engine
  imports Risk_Manager
begin

text \<open>
  Strategy selection and regime rules, \<^verbatim>\<open>app/strategy/engine.py\<close> and \<^verbatim>\<open>app/schemas/strategy.py\<close>. Fields of a
  strategy that nothing reads (the required, optional and allowed lists) are left out.
\<close>

datatype market_regime = BULL_TREND | BEAR_TREND | RANGE | HIGH_VOLATILITY | LOW_VOLATILITY | UNDEFINED_REGIME

fun regime_value :: "market_regime \<Rightarrow> string" where
  "regime_value BULL_TREND = ''BULL_TREND''"
| "regime_value BEAR_TREND = ''BEAR_TREND''"
| "regime_value RANGE = ''RANGE''"
| "regime_value HIGH_VOLATILITY = ''HIGH_VOLATILITY''"
| "regime_value LOW_VOLATILITY = ''LOW_VOLATILITY''"
| "regime_value UNDEFINED_REGIME = ''UNDEFINED''"

text \<open>\<^verbatim>\<open>MarketRegime(value)\<close>, with the fallback of the orchestrator for a value that is no regime.\<close>

definition regime_of :: "string \<Rightarrow> market_regime" where
  "regime_of s =
     (case List.find (\<lambda>r. regime_value r = s) [BULL_TREND, BEAR_TREND, RANGE, HIGH_VOLATILITY, LOW_VOLATILITY, UNDEFINED_REGIME] of
        None \<Rightarrow> UNDEFINED_REGIME | Some r \<Rightarrow> r)"

datatype risk_profile_name = CONSERVATIVE | MODERATE | AGGRESSIVE

record risk_profile =
  rp_name :: risk_profile_name
  rp_risk_per_trade_percent :: pyfloat
  rp_max_open_positions :: int
  rp_risk_reward_min :: pyfloat
  rp_max_strategy_exposure_percent :: pyfloat
  rp_max_portfolio_var_percent :: pyfloat

fun RISK_PROFILES :: "risk_profile_name \<Rightarrow> risk_profile" where
  "RISK_PROFILES CONSERVATIVE =
     \<lparr>rp_name = CONSERVATIVE, rp_risk_per_trade_percent = flt (5 / 10), rp_max_open_positions = 3,
      rp_risk_reward_min = flt (18 / 10), rp_max_strategy_exposure_percent = flt 50, rp_max_portfolio_var_percent = flt (25 / 10)\<rparr>"
| "RISK_PROFILES MODERATE =
     \<lparr>rp_name = MODERATE, rp_risk_per_trade_percent = flt 1, rp_max_open_positions = 8,
      rp_risk_reward_min = flt (22 / 10), rp_max_strategy_exposure_percent = flt 100, rp_max_portfolio_var_percent = flt 5\<rparr>"
| "RISK_PROFILES AGGRESSIVE =
     \<lparr>rp_name = AGGRESSIVE, rp_risk_per_trade_percent = flt (15 / 10), rp_max_open_positions = 15,
      rp_risk_reward_min = flt (28 / 10), rp_max_strategy_exposure_percent = flt 150, rp_max_portfolio_var_percent = flt (75 / 10)\<rparr>"

record strategy_config =
  sc_strategy_id :: string
  sc_version :: string
  sc_enabled :: bool
  sc_symbols :: "string list"
  sc_timeframe :: string
  sc_minimum_confidence :: int
  sc_risk_profile :: risk_profile_name
  sc_reduced_regimes :: "market_regime list"
  sc_blocked_regimes :: "market_regime list"
  sc_range_confidence_penalty :: int

definition valid_strategy_config :: "strategy_config \<Rightarrow> bool" where
  [valid_defs]: "valid_strategy_config s \<longleftrightarrow> 0 \<le> sc_minimum_confidence s \<and> sc_minimum_confidence s \<le> 100"

definition versioned_id :: "strategy_config \<Rightarrow> string" where
  "versioned_id s = sc_strategy_id s @ ''_'' @ sc_version s"

definition DEFAULT_SYMBOLS :: "string list" where
  "DEFAULT_SYMBOLS = [''BTCUSDT'', ''ETHUSDT'', ''SOLUSDT'']"

definition base_strategy :: "string \<Rightarrow> string \<Rightarrow> int \<Rightarrow> risk_profile_name \<Rightarrow> strategy_config" where
  "base_strategy strategy_id timeframe minimum_confidence profile =
     \<lparr>sc_strategy_id = strategy_id, sc_version = ''v1'', sc_enabled = True, sc_symbols = DEFAULT_SYMBOLS,
      sc_timeframe = timeframe, sc_minimum_confidence = minimum_confidence, sc_risk_profile = profile,
      sc_reduced_regimes = [RANGE], sc_blocked_regimes = [HIGH_VOLATILITY], sc_range_confidence_penalty = 10\<rparr>"

definition default_strategies :: "strategy_config list" where
  "default_strategies =
     [base_strategy ''SCALP_15M'' ''15m'' 75 MODERATE, base_strategy ''DAY_1H'' ''1h'' 75 MODERATE,
      base_strategy ''SWING_4H'' ''4h'' 70 CONSERVATIVE]"

record strategy_evaluation =
  se_strategy_id :: string
  se_versioned_id :: string
  se_allowed :: bool
  se_reduced :: bool
  se_minimum_confidence :: int
  se_risk_profile :: risk_profile_name
  se_reason :: string

type_synonym strategy_engine = "strategy_config dict"

definition register_strategy :: "strategy_config \<Rightarrow> strategy_engine \<Rightarrow> strategy_engine" where
  "register_strategy s e = dict_set (versioned_id s) s e"

definition new_strategy_engine :: "strategy_config list option \<Rightarrow> strategy_engine" where
  "new_strategy_engine strategies =
     fold register_strategy (case strategies of None \<Rightarrow> default_strategies | Some ss \<Rightarrow> ss) []"

definition set_enabled :: "string \<Rightarrow> bool \<Rightarrow> strategy_engine \<Rightarrow> (strategy_engine, strategy_config) outcome" where
  "set_enabled i enabled e =
     (case dict_get e i of
        None \<Rightarrow> (e, raise KeyError i)
      | Some s \<Rightarrow> (dict_set i (s\<lparr>sc_enabled := enabled\<rparr>) e, Inr (s\<lparr>sc_enabled := enabled\<rparr>)))"

definition select_strategy :: "string \<Rightarrow> string \<Rightarrow> strategy_engine \<Rightarrow> strategy_config option" where
  "select_strategy symbol timeframe e =
     List.find (\<lambda>s. sc_enabled s \<and> sc_timeframe s = timeframe \<and> to_upper symbol \<in> set (sc_symbols s)) (dict_values e)"

definition evaluate_strategy :: "string \<Rightarrow> string \<Rightarrow> market_regime \<Rightarrow> strategy_engine \<Rightarrow> strategy_evaluation" where
  "evaluate_strategy symbol timeframe regime e =
     (case select_strategy symbol timeframe e of
        None \<Rightarrow> \<lparr>se_strategy_id = ''NONE'', se_versioned_id = ''NONE'', se_allowed = False, se_reduced = False,
                 se_minimum_confidence = 100, se_risk_profile = CONSERVATIVE,
                 se_reason = ''No enabled strategy for '' @ symbol @ '' '' @ timeframe\<rparr>
      | Some s \<Rightarrow>
          if regime \<in> set (sc_blocked_regimes s)
          then \<lparr>se_strategy_id = sc_strategy_id s, se_versioned_id = versioned_id s, se_allowed = False, se_reduced = False,
                se_minimum_confidence = sc_minimum_confidence s, se_risk_profile = sc_risk_profile s,
                se_reason = ''Regime '' @ regime_value regime @ '' blocked for '' @ versioned_id s\<rparr>
          else if regime \<in> set (sc_reduced_regimes s)
          then \<lparr>se_strategy_id = sc_strategy_id s, se_versioned_id = versioned_id s, se_allowed = True, se_reduced = True,
                se_minimum_confidence = min 100 (sc_minimum_confidence s + sc_range_confidence_penalty s),
                se_risk_profile = sc_risk_profile s,
                se_reason = ''Regime '' @ regime_value regime @ '': reduced aggressiveness''\<rparr>
          else \<lparr>se_strategy_id = sc_strategy_id s, se_versioned_id = versioned_id s, se_allowed = True, se_reduced = False,
                se_minimum_confidence = sc_minimum_confidence s, se_risk_profile = sc_risk_profile s,
                se_reason = ''Regime '' @ regime_value regime @ '' allowed''\<rparr>)"

lemma regime_roundtrip: "regime_of (regime_value r) = r"
  by (cases r) (simp_all add: regime_of_def)

lemma select_strategy_Some:
  assumes "select_strategy symbol timeframe e = Some s"
  shows "s \<in> set (dict_values e)" "sc_enabled s" "sc_timeframe s = timeframe" "to_upper symbol \<in> set (sc_symbols s)"
  using assms by (auto simp: select_strategy_def find_Some_iff)

lemma evaluate_strategy_allowed:
  assumes "se_allowed (evaluate_strategy symbol timeframe regime e)"
  obtains s where "select_strategy symbol timeframe e = Some s" "regime \<notin> set (sc_blocked_regimes s)"
    "se_versioned_id (evaluate_strategy symbol timeframe regime e) = versioned_id s"
  using assms by (auto simp: evaluate_strategy_def split: option.splits if_splits)

end
