(* ===== verification/Market_Gates.thy ===== *)
theory Market_Gates
  imports Portfolio_Risk
begin

text \<open>
  The gates a candle passes before it can reach agents, risk or trading: the quality score of the series,
  \<^verbatim>\<open>app/market_data/data_quality.py\<close>, and the trusted clock, \<^verbatim>\<open>app/market_data/clock.py\<close>. Instants are
  aware by construction, so the checks for naive instants have no counterpart.
\<close>

section \<open>Data quality\<close>

datatype quality_status = QVALID | QWARNING | QSUSPECT | QINVALID

record data_quality_report =
  dq_score :: int
  dq_status :: quality_status
  dq_warnings :: "string list"
  dq_errors :: "string list"

definition TIMEFRAME_SECONDS :: "(string \<times> int) list" where
  "TIMEFRAME_SECONDS =
     [(''1m'', 60), (''5m'', 300), (''15m'', 900), (''1h'', 3600), (''4h'', 14400), (''1d'', 86400)]"

definition out_of_order :: "candle list \<Rightarrow> bool" where
  "out_of_order candles \<longleftrightarrow> map cd_closed_at candles \<noteq> sort (map cd_closed_at candles)"

definition candle_identity :: "candle \<Rightarrow> exchange \<times> string \<times> string \<times> time" where
  "candle_identity c = (cd_exchange c, cd_symbol c, cd_timeframe c, cd_closed_at c)"

definition has_duplicates :: "candle list \<Rightarrow> bool" where
  "has_duplicates candles \<longleftrightarrow> card (set (map candle_identity candles)) \<noteq> length candles"

definition gap_between :: "int \<Rightarrow> candle \<times> candle \<Rightarrow> bool" where
  "gap_between step pair \<longleftrightarrow>
     flt (of_int step) * flt (3 / 2) < total_seconds (cd_closed_at (snd pair) - cd_closed_at (fst pair))"

definition has_gap :: "int option \<Rightarrow> candle list \<Rightarrow> bool" where
  "has_gap step candles \<longleftrightarrow>
     (case step of None \<Rightarrow> False | Some s \<Rightarrow> list_ex (gap_between s) (zip candles (tl candles)))"

definition is_stale :: "int option \<Rightarrow> int \<Rightarrow> time \<Rightarrow> candle list \<Rightarrow> bool" where
  "is_stale step max_delay_ms now candles \<longleftrightarrow>
     (case step of
        None \<Rightarrow> False
      | Some s \<Rightarrow> of_int (s * 1000 + max_delay_ms) < fval (total_seconds (now - cd_closed_at (last candles)) * flt 1000))"

definition has_outlier :: "candle list \<Rightarrow> bool" where
  "has_outlier candles \<longleftrightarrow>
     10 \<le> length candles \<and>
     (let ranges = map (\<lambda>c. cd_high c - cd_low c) (slice_from (- 10) candles);
          avg_range = py_sum (butlast ranges) / flt (of_int (max (int (length ranges) - 1) 1))
      in 0 < avg_range \<and> avg_range * flt 5 < last ranges)"

definition evaluate_candles :: "string \<Rightarrow> int \<Rightarrow> time \<Rightarrow> bool \<Rightarrow> candle list \<Rightarrow> data_quality_report" where
  "evaluate_candles timeframe max_delay_ms now check_staleness candles =
     (if candles = [] then \<lparr>dq_score = 0, dq_status = QINVALID, dq_warnings = [], dq_errors = [''NO_CANDLES'']\<rparr>
      else
        let step = dict_get TIMEFRAME_SECONDS timeframe;
            findings = [(has_duplicates candles, ''DUPLICATE_CANDLES'', 10 :: int), (has_gap step candles, ''GAP_DETECTED'', 15),
                        (check_staleness \<and> is_stale step max_delay_ms now candles, ''STALE_DATA'', 20),
                        (has_outlier candles, ''DATA_ANOMALY'', 10)];
            errors = (if out_of_order candles then [''CANDLES_OUT_OF_ORDER''] else []);
            warnings = map (fst \<circ> snd) (filter fst findings);
            score = max 0 (min 100 (100 - (if out_of_order candles then 50 else 0)
                                        - sum_list (map (snd \<circ> snd) (filter fst findings))))
        in \<lparr>dq_score = score,
            dq_status = (if errors \<noteq> [] \<or> score < 60 then if errors \<noteq> [] then QINVALID else QSUSPECT
                         else if warnings \<noteq> [] then QWARNING else QVALID),
            dq_warnings = warnings, dq_errors = errors\<rparr>)"

section \<open>Trusted clock\<close>

datatype clock_status = SYNCED | CLOCK_WARNING | UNSAFE | UNKNOWN_CLOCK

record clock_observation =
  ck_observation_id :: string
  ck_source :: string
  ck_request_started_at :: time
  ck_source_at :: time
  ck_response_received_at :: time
  ck_offset_ms :: pyfloat
  ck_round_trip_ms :: pyfloat
  ck_status :: clock_status

definition is_lower :: "char \<Rightarrow> bool" where
  "is_lower c \<longleftrightarrow> CHR ''a'' \<le> c \<and> c \<le> CHR ''z''"

text \<open>The source pattern \<^verbatim>\<open>^[a-z0-9][a-z0-9._:-]{2,127}$\<close>.\<close>

definition valid_clock_observation :: "clock_observation \<Rightarrow> bool" where
  [valid_defs]: "valid_clock_observation c \<longleftrightarrow>
     3 \<le> length (ck_source c) \<and> length (ck_source c) \<le> 128 \<and>
     (is_lower (hd (ck_source c)) \<or> is_digit (hd (ck_source c))) \<and>
     list_all (\<lambda>x. is_lower x \<or> is_digit x \<or> x \<in> {CHR ''.'', CHR ''_'', CHR '':'', CHR ''-''}) (tl (ck_source c)) \<and>
     0 \<le> ck_round_trip_ms c \<and> ck_request_started_at c \<le> ck_response_received_at c"

definition evaluate_clock_probe ::
  "(string \<times> time \<times> time \<times> time \<Rightarrow> string) \<Rightarrow> string \<Rightarrow> time \<Rightarrow> time \<Rightarrow> time \<Rightarrow> pyfloat \<Rightarrow> pyfloat \<Rightarrow> pyfloat \<Rightarrow> pyfloat
     \<Rightarrow> clock_observation result" where
  "evaluate_clock_probe sha source request_started_at source_at response_received_at
       warning_offset_ms unsafe_offset_ms warning_round_trip_ms unsafe_round_trip_ms =
     (if response_received_at < request_started_at
      then raise ValueError ''response_received_at must not precede request_started_at''
      else if \<not> (0 \<le> warning_offset_ms \<and> warning_offset_ms \<le> unsafe_offset_ms)
      then raise ValueError ''clock offset thresholds are inconsistent''
      else if \<not> (0 \<le> warning_round_trip_ms \<and> warning_round_trip_ms \<le> unsafe_round_trip_ms)
      then raise ValueError ''round-trip thresholds are inconsistent''
      else
        let round_trip_ms = total_seconds (response_received_at - request_started_at) * flt 1000;
            midpoint = request_started_at + round_half_even (of_int (response_received_at - request_started_at) / 2);
            offset_ms = total_seconds (source_at - midpoint) * flt 1000;
            status = (if unsafe_offset_ms < \<bar>offset_ms\<bar> \<or> unsafe_round_trip_ms < round_trip_ms then UNSAFE
                      else if warning_offset_ms < \<bar>offset_ms\<bar> \<or> warning_round_trip_ms < round_trip_ms
                      then CLOCK_WARNING else SYNCED)
        in validate valid_clock_observation
             \<lparr>ck_observation_id = sha (source, request_started_at, source_at, response_received_at), ck_source = source,
              ck_request_started_at = request_started_at, ck_source_at = source_at,
              ck_response_received_at = response_received_at, ck_offset_ms = offset_ms,
              ck_round_trip_ms = round_trip_ms, ck_status = status\<rparr>)"

record clock_verdict =
  cv_exchange :: exchange
  cv_status :: clock_status
  cv_trusted :: bool
  cv_observation :: "clock_observation option"
  cv_reason :: string

record clock_registry =
  cr_max_age_seconds :: pyfloat
  cr_latest :: "(exchange \<times> clock_observation) list"

definition new_clock_registry :: "pyfloat \<Rightarrow> clock_registry result" where
  "new_clock_registry max_age_seconds =
     (if max_age_seconds \<le> 0 then raise ValueError ''max_age_seconds must be positive''
      else Inr \<lparr>cr_max_age_seconds = max_age_seconds, cr_latest = []\<rparr>)"

definition record_observation :: "exchange \<Rightarrow> clock_observation \<Rightarrow> clock_registry \<Rightarrow> clock_registry" where
  "record_observation exchange observation r = r\<lparr>cr_latest := dict_set exchange observation (cr_latest r)\<rparr>"

definition clock_verdict_for :: "exchange \<Rightarrow> time \<Rightarrow> clock_registry \<Rightarrow> clock_verdict" where
  "clock_verdict_for exchange now r =
     (case dict_get (cr_latest r) exchange of
        None \<Rightarrow> \<lparr>cv_exchange = exchange, cv_status = UNKNOWN_CLOCK, cv_trusted = False, cv_observation = None,
                 cv_reason = ''No clock observation is available''\<rparr>
      | Some observation \<Rightarrow>
          let age_seconds = total_seconds (now - ck_response_received_at observation)
          in if age_seconds < 0 \<or> cr_max_age_seconds r < age_seconds
             then \<lparr>cv_exchange = exchange, cv_status = UNKNOWN_CLOCK, cv_trusted = False, cv_observation = Some observation,
                   cv_reason = ''Clock observation is stale or from the future''\<rparr>
             else
               let trusted = ck_status observation \<in> {SYNCED, CLOCK_WARNING}
               in \<lparr>cv_exchange = exchange, cv_status = ck_status observation, cv_trusted = trusted,
                   cv_observation = Some observation,
                   cv_reason = (if trusted then ''Clock evidence is within the ingestion gate''
                                else ''Clock offset or round-trip latency is unsafe'')\<rparr>)"

definition require_trusted :: "exchange \<Rightarrow> time \<Rightarrow> clock_registry \<Rightarrow> clock_verdict result" where
  "require_trusted exchange now r =
     (let verdict = clock_verdict_for exchange now r
      in if cv_trusted verdict then Inr verdict
         else raise DataQualityError ''Trusted market-data ingestion blocked by clock gate'')"

section \<open>What the gates promise\<close>

lemma in_order: "\<not> out_of_order candles \<longleftrightarrow> sorted (map cd_closed_at candles)"
  by (metis out_of_order_def sorted_sort sorted_sort_id)

lemma no_duplicates: "\<not> has_duplicates candles \<longleftrightarrow> distinct (map candle_identity candles)"
  by (metis has_duplicates_def card_distinct distinct_card length_map)

text \<open>One and a half steps of a known timeframe is a float, and a microsecond more is another one.\<close>

lemma step_and_a_half:
  assumes "dict_get TIMEFRAME_SECONDS timeframe = Some s"
  shows "flt (of_int s) * flt (3 / 2) = flt (of_int (1500000 * s) / 1000000)"
    "flt (of_int (1500000 * s) / 1000000) < flt (of_int (1500000 * s + 1) / 1000000)"
proof -
  have "s \<in> set (map snd TIMEFRAME_SECONDS)" using assms by (force dest: map_of_SomeD)
  moreover have "list_all (\<lambda>s. flt (of_int s) * flt (3 / 2) = flt (of_int (1500000 * s) / 1000000) \<and>
      flt (of_int (1500000 * s) / 1000000) < flt (of_int (1500000 * s + 1) / 1000000)) (map snd TIMEFRAME_SECONDS)"
    by code_simp
  ultimately show "flt (of_int s) * flt (3 / 2) = flt (of_int (1500000 * s) / 1000000)"
    "flt (of_int (1500000 * s) / 1000000) < flt (of_int (1500000 * s + 1) / 1000000)"
    unfolding list_all_iff by blast+
qed

lemma gap_in_microseconds:
  assumes "dict_get TIMEFRAME_SECONDS timeframe = Some s"
  shows "gap_between s (a, b) \<longleftrightarrow> 3 * s * 1000000 < 2 * (cd_closed_at b - cd_closed_at a)"
proof -
  let ?d = "cd_closed_at b - cd_closed_at a"
  note half = step_and_a_half [OF assms]
  have "flt (of_int ?d / 1000000) \<le> flt (of_int (1500000 * s) / 1000000)" if "?d \<le> 1500000 * s"
    using that by (intro flt_mono divide_right_mono) simp_all
  moreover have "flt (of_int (1500000 * s + 1) / 1000000) \<le> flt (of_int ?d / 1000000)" if "1500000 * s + 1 \<le> ?d"
    using that by (intro flt_mono divide_right_mono) (simp only: of_int_le_iff, simp)
  moreover have "gap_between s (a, b) \<longleftrightarrow> flt (of_int (1500000 * s) / 1000000) < flt (of_int ?d / 1000000)"
    unfolding gap_between_def fst_conv snd_conv half(1) total_seconds_def by simp
  ultimately have "gap_between s (a, b) \<longleftrightarrow> 1500000 * s < ?d" using half(2) by (cases "?d \<le> 1500000 * s") fastforce+
  moreover have "1500000 * s < ?d \<longleftrightarrow> 3 * s * 1000000 < 2 * ?d" by presburger
  ultimately show ?thesis by (rule trans)
qed

lemma has_gap_iff:
  "has_gap (dict_get TIMEFRAME_SECONDS timeframe) candles \<longleftrightarrow>
     (\<exists>s i. dict_get TIMEFRAME_SECONDS timeframe = Some s \<and> Suc i < length candles \<and>
        3 * s * 1000000 < 2 * (cd_closed_at (candles ! Suc i) - cd_closed_at (candles ! i)))"
proof (cases "dict_get TIMEFRAME_SECONDS timeframe")
  case (Some s)
  have "has_gap (Some s) candles \<longleftrightarrow>
      (\<exists>i < length (zip candles (tl candles)). gap_between s (zip candles (tl candles) ! i))"
    by (simp add: has_gap_def list_ex_length)
  also have "\<dots> \<longleftrightarrow> (\<exists>i. Suc i < length candles \<and> gap_between s (candles ! i, candles ! Suc i))"
    by (auto simp: nth_tl less_diff_conv)
  finally show ?thesis using Some gap_in_microseconds [OF Some] by auto
qed (simp add: has_gap_def)

lemma has_outlier_iff:
  "has_outlier candles \<longleftrightarrow>
     10 \<le> length candles \<and>
     (let ranges = map (\<lambda>c. cd_high c - cd_low c) (drop (length candles - 10) candles); mean = py_sum (take 9 ranges) / flt 9
      in 0 < mean \<and> mean * flt 5 < ranges ! 9)"
proof (cases "10 \<le> length candles")
  case True
  let ?ranges = "map (\<lambda>c. cd_high c - cd_low c) (drop (length candles - 10) candles)"
  have "slice_from (- 10) candles = drop (length candles - 10) candles"
    using True by (simp add: slice_from_def nat_diff_distrib)
  moreover have len: "length ?ranges = 10" using True by simp
  moreover have "last ?ranges = ?ranges ! 9" using len by (subst last_conv_nth) auto
  moreover have "butlast ?ranges = take 9 ?ranges" using len by (simp add: butlast_conv_take del: length_map)
  ultimately show ?thesis using True by (simp add: has_outlier_def Let_def)
qed (simp add: has_outlier_def)

text \<open>
  C26. The quality report is exact. It has no error just when there are candles and they are in temporal order. For
  a series, each warning stands for its defect and no other: a candle that occurs twice; two neighbours more than one
  and a half steps of the timeframe apart, to the microsecond; where staleness is checked, a last candle that is older than a
  step and the allowed delay; and a last range of more than five times the mean of the nine ranges before it. The
  score lies between 0 and 100, is 100 exactly for a clean report, and falls below the decision threshold of 60 only
  for a disordered or thrice defective series.
\<close>

theorem quality_report_sound:
  assumes "evaluate_candles timeframe max_delay_ms now check candles = r" "step = dict_get TIMEFRAME_SECONDS timeframe"
  shows "(dq_errors r = [] \<longleftrightarrow> candles \<noteq> [] \<and> sorted (map cd_closed_at candles)) \<and>
     (candles \<noteq> [] \<longrightarrow>
       (''DUPLICATE_CANDLES'' \<in> set (dq_warnings r) \<longleftrightarrow> \<not> distinct (map candle_identity candles)) \<and>
       (''GAP_DETECTED'' \<in> set (dq_warnings r) \<longleftrightarrow>
          (\<exists>s i. step = Some s \<and> Suc i < length candles \<and>
             3 * s * 1000000 < 2 * (cd_closed_at (candles ! Suc i) - cd_closed_at (candles ! i)))) \<and>
       (''STALE_DATA'' \<in> set (dq_warnings r) \<longleftrightarrow>
          check \<and> (\<exists>s. step = Some s \<and>
             of_int (s * 1000 + max_delay_ms) < fval (total_seconds (now - cd_closed_at (last candles)) * flt 1000))) \<and>
       (''DATA_ANOMALY'' \<in> set (dq_warnings r) \<longleftrightarrow>
          10 \<le> length candles \<and>
          (let ranges = map (\<lambda>c. cd_high c - cd_low c) (drop (length candles - 10) candles); mean = py_sum (take 9 ranges) / flt 9
           in 0 < mean \<and> mean * flt 5 < ranges ! 9)) \<and>
       set (dq_warnings r) \<subseteq> {''DUPLICATE_CANDLES'', ''GAP_DETECTED'', ''STALE_DATA'', ''DATA_ANOMALY''}) \<and>
     0 \<le> dq_score r \<and> dq_score r \<le> 100 \<and>
     (dq_score r = 100 \<longleftrightarrow> dq_status r = QVALID) \<and>
     (dq_status r = QVALID \<longleftrightarrow> dq_errors r = [] \<and> dq_warnings r = []) \<and>
     (dq_score r < 60 \<longrightarrow> dq_errors r \<noteq> [] \<or> 3 \<le> length (dq_warnings r))"
proof (cases "candles = []")
  case True
  with assms(1) show ?thesis by (auto simp: evaluate_candles_def)
next
  case False
  define D G S X O' where "D = has_duplicates candles" and "G = has_gap step candles"
    and "S = (check \<and> is_stale step max_delay_ms now candles)" and "X = has_outlier candles" and "O' = out_of_order candles"
  have r: "dq_errors r = (if O' then [''CANDLES_OUT_OF_ORDER''] else [])"
    "dq_warnings r = map (fst \<circ> snd) (filter fst [(D, ''DUPLICATE_CANDLES'', 10 :: int), (G, ''GAP_DETECTED'', 15),
        (S, ''STALE_DATA'', 20), (X, ''DATA_ANOMALY'', 10)])"
    "dq_score r = max 0 (min 100 (100 - (if O' then 50 else 0) - sum_list (map (snd \<circ> snd) (filter fst
        [(D, ''DUPLICATE_CANDLES'', 10 :: int), (G, ''GAP_DETECTED'', 15), (S, ''STALE_DATA'', 20), (X, ''DATA_ANOMALY'', 10)]))))"
    "dq_status r = (if dq_errors r \<noteq> [] \<or> dq_score r < 60 then if dq_errors r \<noteq> [] then QINVALID else QSUSPECT
        else if dq_warnings r \<noteq> [] then QWARNING else QVALID)"
    using False unfolding assms(1) [symmetric] D_def G_def S_def X_def O'_def assms(2) by (simp_all add: evaluate_candles_def Let_def)
  have marks: "dq_errors r = [] \<longleftrightarrow> \<not> O'" "''DUPLICATE_CANDLES'' \<in> set (dq_warnings r) \<longleftrightarrow> D"
    "''GAP_DETECTED'' \<in> set (dq_warnings r) \<longleftrightarrow> G" "''STALE_DATA'' \<in> set (dq_warnings r) \<longleftrightarrow> S"
    "''DATA_ANOMALY'' \<in> set (dq_warnings r) \<longleftrightarrow> X"
    "set (dq_warnings r) \<subseteq> {''DUPLICATE_CANDLES'', ''GAP_DETECTED'', ''STALE_DATA'', ''DATA_ANOMALY''}"
    "0 \<le> dq_score r" "dq_score r \<le> 100" "dq_score r = 100 \<longleftrightarrow> dq_status r = QVALID"
    "dq_status r = QVALID \<longleftrightarrow> dq_errors r = [] \<and> dq_warnings r = []"
    "dq_score r < 60 \<longrightarrow> dq_errors r \<noteq> [] \<or> 3 \<le> length (dq_warnings r)"
    unfolding r by (cases D; cases G; cases S; cases X; cases O'; simp)+
  have "S \<longleftrightarrow> check \<and> (\<exists>s. step = Some s \<and>
      of_int (s * 1000 + max_delay_ms) < fval (total_seconds (now - cd_closed_at (last candles)) * flt 1000))"
    by (auto simp: S_def is_stale_def split: option.split)
  with marks False in_order [of candles] no_duplicates [of candles] has_gap_iff [of timeframe candles, folded assms(2)]
    has_outlier_iff [of candles]
  show ?thesis unfolding D_def G_def X_def O'_def by (intro conjI impI) (assumption | simp only: | blast)+
qed

text \<open>
  A trusted clock verdict rests on a recorded observation of that very exchange that is neither from
  the future nor older than the registry allows, and whose offset and round trip stay within the
  thresholds it was probed with.
\<close>

theorem trusted_clock_is_recent:
  assumes "cv_trusted (clock_verdict_for exchange now r)"
  shows "\<exists>c. dict_get (cr_latest r) exchange = Some c \<and> ck_status c \<in> {SYNCED, CLOCK_WARNING} \<and>
     0 \<le> total_seconds (now - ck_response_received_at c) \<and>
     total_seconds (now - ck_response_received_at c) \<le> cr_max_age_seconds r \<and>
     (\<forall>sha src a b t w1 u1 w2 u2. evaluate_clock_probe sha src a b t w1 u1 w2 u2 = Inr c \<longrightarrow>
        \<bar>ck_offset_ms c\<bar> \<le> u1 \<and> ck_round_trip_ms c \<le> u2)"
proof -
  obtain c where c: "dict_get (cr_latest r) exchange = Some c" "ck_status c \<in> {SYNCED, CLOCK_WARNING}"
    "0 \<le> total_seconds (now - ck_response_received_at c)"
    "total_seconds (now - ck_response_received_at c) \<le> cr_max_age_seconds r"
    using assms by (auto simp: clock_verdict_for_def Let_def not_less split: option.splits if_splits)
  moreover have "\<bar>ck_offset_ms c\<bar> \<le> u1 \<and> ck_round_trip_ms c \<le> u2"
    if "evaluate_clock_probe sha src a b t w1 u1 w2 u2 = Inr c" for sha src a b t w1 u1 w2 u2
    using that c(2) by (auto simp: evaluate_clock_probe_def Let_def not_less split: if_splits)
  ultimately show ?thesis by blast
qed

definition minute_candle :: "time \<Rightarrow> candle" where
  "minute_candle t =
     \<lparr>cd_exchange = BINANCE, cd_symbol = ''BTCUSDT'', cd_timeframe = ''1m'', cd_open = flt 100, cd_high = flt 110,
      cd_low = flt 90, cd_close = flt 105, cd_volume = flt 3, cd_closed_at = t, cd_received_at = t\<rparr>"

definition gapped_series :: "candle list" where
  "gapped_series = [minute_candle 60000000, minute_candle 120000000, minute_candle 240000000]"

theorem quality_report_sound_witness:
  "''GAP_DETECTED'' \<in> set (dq_warnings (evaluate_candles ''1m'' 5000 241000000 True gapped_series)) \<and>
   ''DUPLICATE_CANDLES'' \<notin> set (dq_warnings (evaluate_candles ''1m'' 5000 241000000 True gapped_series)) \<and>
   dq_errors (evaluate_candles ''1m'' 5000 241000000 True gapped_series) = []"
proof -
  have series: "gapped_series \<noteq> []" "sorted (map cd_closed_at gapped_series)" "distinct (map candle_identity gapped_series)"
    by (simp_all add: gapped_series_def minute_candle_def candle_identity_def)
  have "dict_get TIMEFRAME_SECONDS ''1m'' = Some 60 \<and> Suc 1 < length gapped_series \<and>
      3 * 60 * 1000000 < 2 * (cd_closed_at (gapped_series ! Suc 1) - cd_closed_at (gapped_series ! 1))"
    by (simp add: gapped_series_def minute_candle_def TIMEFRAME_SECONDS_def)
  then show ?thesis
    using quality_report_sound [OF refl refl, of "''1m''" 5000 241000000 True gapped_series] series by blast
qed

end
