(* ===== verification/Event_Bus.thy ===== *)
theory Event_Bus
  imports Portfolio_Risk
begin

text \<open>
  The message bus with its durable journal and outbox: \<^verbatim>\<open>app/core/event_bus.py\<close>, \<^verbatim>\<open>app/core/outbox.py\<close>,
  \<^verbatim>\<open>app/core/payload_security.py\<close> and the four journal operations of the repository.

  The broker and the subscribed handlers are parameters: \<open>transport\<close> answers with a broker identity or an
  exception, \<open>fails h m\<close> tells whether handler \<open>h\<close> raises on \<open>m\<close>. The fields \<open>eb_delivered\<close>, \<open>eb_dead_lettered\<close> and \<open>eb_sent\<close> record
  what was handed to handlers and to the broker, so that theorems can count it. The journal is the
  repository's, as \<^verbatim>\<open>app/api/context.py\<close> composes it.
\<close>

section \<open>Payload security\<close>

definition SENSITIVE_FIELD_NAMES :: "string list" where
  "SENSITIVE_FIELD_NAMES =
     [''api_key'', ''api_secret'', ''authorization'', ''access_token'', ''refresh_token'', ''password'', ''private_key'',
      ''secret'', ''token'']"

definition to_lower :: "string \<Rightarrow> string" where
  "to_lower = map (\<lambda>c. if CHR ''A'' \<le> c \<and> c \<le> CHR ''Z'' then char_of (of_char c + 32 :: nat) else c)"

definition normalized_key :: "string \<Rightarrow> string" where
  "normalized_key k = map (\<lambda>c. if c = CHR ''-'' then CHR ''_'' else c) (to_lower (strip k))"

abbreviation sensitive_key :: "string \<Rightarrow> bool" where
  "sensitive_key k \<equiv> normalized_key k \<in> set SENSITIVE_FIELD_NAMES"

fun sensitive_payload_path :: "string \<Rightarrow> json \<Rightarrow> string option"
  and sensitive_members :: "string \<Rightarrow> (string \<times> json) list \<Rightarrow> string option"
  and sensitive_items :: "string \<Rightarrow> nat \<Rightarrow> json list \<Rightarrow> string option" where
  "sensitive_payload_path path (JObj kvs) = sensitive_members path kvs"
| "sensitive_payload_path path (JList xs) = sensitive_items path 0 xs"
| "sensitive_payload_path path _ = None"
| "sensitive_members path [] = None"
| "sensitive_members path ((k, v) # kvs) =
     (let child_path = path @ ''.'' @ k
      in if sensitive_key k then Some child_path
         else case sensitive_payload_path child_path v of Some p \<Rightarrow> Some p | None \<Rightarrow> sensitive_members path kvs)"
| "sensitive_items path i [] = None"
| "sensitive_items path i (v # vs) =
     (case sensitive_payload_path (path @ ''['' @ decimal i @ '']'') v of
        Some p \<Rightarrow> Some p | None \<Rightarrow> sensitive_items path (Suc i) vs)"

definition ensure_payload_has_no_secrets :: "json \<Rightarrow> unit result" where
  "ensure_payload_has_no_secrets payload =
     (case sensitive_payload_path ''payload'' payload of
        Some p \<Rightarrow> raise ValueError (''Sensitive field is forbidden in event payload: '' @ p)
      | None \<Rightarrow> Inr ())"

text \<open>The intended meaning: a sensitive key occurs somewhere in the value, at any depth.\<close>

inductive holds_secret :: "json \<Rightarrow> bool" where
  secret_key: "(k, v) \<in> set kvs \<Longrightarrow> sensitive_key k \<Longrightarrow> holds_secret (JObj kvs)"
| secret_member: "(k, v) \<in> set kvs \<Longrightarrow> holds_secret v \<Longrightarrow> holds_secret (JObj kvs)"
| secret_item: "v \<in> set xs \<Longrightarrow> holds_secret v \<Longrightarrow> holds_secret (JList xs)"

inductive_simps holds_secret_simps:
  "holds_secret (JObj kvs)" "holds_secret (JList xs)" "holds_secret JNull" "holds_secret (JBool b)"
  "holds_secret (JInt n)" "holds_secret (JFloat x)" "holds_secret (JStr s)" "holds_secret (JTime t)"

lemma secret_search:
  "sensitive_payload_path path j = None \<longleftrightarrow> \<not> holds_secret j"
  "sensitive_members path kvs = None \<longleftrightarrow> \<not> holds_secret (JObj kvs)"
  "sensitive_items path i vs = None \<longleftrightarrow> \<not> holds_secret (JList vs)"
  by (induction path j and path kvs and path i vs rule: sensitive_payload_path_sensitive_members_sensitive_items.induct)
    (auto simp: holds_secret_simps Let_def split: option.splits, blast+)

section \<open>Messages\<close>

record bus_message =
  bm_message_id :: string
  bm_event_id :: string
  bm_correlation_id :: string
  bm_topic :: string
  bm_event_type :: string
  bm_source :: string
  bm_timestamp :: time
  bm_payload :: json

definition lower_char :: "char \<Rightarrow> bool" where
  "lower_char c \<longleftrightarrow> CHR ''a'' \<le> c \<and> c \<le> CHR ''z''"

text \<open>The patterns \<^verbatim>\<open>^[a-z][a-z0-9_.-]+\.v[1-9][0-9]*$\<close> and \<^verbatim>\<open>^[A-Z][A-Z0-9_]+$\<close>.\<close>

definition topic_suffix_ok :: "string \<Rightarrow> bool" where
  "topic_suffix_ok s \<longleftrightarrow>
     take 2 s = ''.v'' \<and> drop 2 s \<noteq> [] \<and> is_digit (hd (drop 2 s)) \<and> hd (drop 2 s) \<noteq> CHR ''0'' \<and> list_all is_digit (drop 2 s)"

definition topic_prefix_ok :: "string \<Rightarrow> bool" where
  "topic_prefix_ok s \<longleftrightarrow>
     2 \<le> length s \<and> lower_char (hd s) \<and>
     list_all (\<lambda>c. lower_char c \<or> is_digit c \<or> c \<in> {CHR ''_'', CHR ''.'', CHR ''-''}) (tl s)"

definition topic_ok :: "string \<Rightarrow> bool" where
  "topic_ok s \<longleftrightarrow> list_ex (\<lambda>n. topic_prefix_ok (take n s) \<and> topic_suffix_ok (drop n s)) [0..<length s]"

definition event_type_ok :: "string \<Rightarrow> bool" where
  "event_type_ok s \<longleftrightarrow> 2 \<le> length s \<and> is_upper (hd s) \<and> list_all (\<lambda>c. is_upper c \<or> is_digit c \<or> c = CHR ''_'') (tl s)"

definition valid_bus_message :: "bus_message \<Rightarrow> bool" where
  [valid_defs]: "valid_bus_message m \<longleftrightarrow>
     bm_message_id m \<noteq> [] \<and> bm_event_id m \<noteq> [] \<and> bm_correlation_id m \<noteq> [] \<and> topic_ok (bm_topic m) \<and>
     event_type_ok (bm_event_type m) \<and> bm_source m \<noteq> []"

section \<open>The journal and the outbox table\<close>

record outbox_row =
  ox_broker_message_id :: "string option"
  ox_published_at :: "time option"
  ox_publish_attempts :: int
  ox_last_error_type :: "string option"

record event_store =
  es_journal :: "bus_message dict"
  es_outbox :: "outbox_row dict"
  es_faults :: "bool list"

definition es_transaction :: "(event_store \<Rightarrow> event_store \<times> 'a) \<Rightarrow> event_store \<Rightarrow> (event_store, 'a) outcome" where
  "es_transaction body d =
     (let d1 = d\<lparr>es_faults := tl (es_faults d)\<rparr>
      in if es_faults d \<noteq> [] \<and> hd (es_faults d) then (d1, raise DatabaseError ''database unavailable'')
         else case body d1 of (d2, x) \<Rightarrow> (d2, Inr x))"

definition published :: "event_store \<Rightarrow> string \<Rightarrow> bool" where
  "published d event_id \<longleftrightarrow>
     (case dict_get (es_outbox d) event_id of None \<Rightarrow> False | Some row \<Rightarrow> ox_published_at row \<noteq> None)"

record journal_write_result =
  jw_inserted :: bool
  jw_broker_published :: bool

definition save_bus_message :: "bus_message \<Rightarrow> event_store \<Rightarrow> (event_store, journal_write_result) outcome" where
  "save_bus_message m =
     es_transaction (\<lambda>d.
       case dict_get (es_journal d) (bm_event_id m) of
         None \<Rightarrow> (d\<lparr>es_journal := dict_set (bm_event_id m) m (es_journal d)\<rparr>, \<lparr>jw_inserted = True, jw_broker_published = False\<rparr>)
       | Some _ \<Rightarrow> (d, \<lparr>jw_inserted = False, jw_broker_published = published d (bm_event_id m)\<rparr>))"

definition mark_bus_message_published :: "time \<Rightarrow> string \<Rightarrow> string \<Rightarrow> event_store \<Rightarrow> (event_store, unit) outcome" where
  "mark_bus_message_published now event_id broker_id =
     es_transaction (\<lambda>d.
       (d\<lparr>es_outbox := dict_set event_id
            (case dict_get (es_outbox d) event_id of
               None \<Rightarrow> \<lparr>ox_broker_message_id = Some broker_id, ox_published_at = Some now, ox_publish_attempts = 1,
                        ox_last_error_type = None\<rparr>
             | Some row \<Rightarrow> row\<lparr>ox_broker_message_id := Some broker_id, ox_published_at := Some now,
                              ox_publish_attempts := ox_publish_attempts row + 1, ox_last_error_type := None\<rparr>)
            (es_outbox d)\<rparr>, ()))"

definition mark_bus_message_failed :: "string \<Rightarrow> string \<Rightarrow> event_store \<Rightarrow> (event_store, unit) outcome" where
  "mark_bus_message_failed event_id error_type =
     es_transaction (\<lambda>d.
       (d\<lparr>es_outbox := dict_set event_id
            (case dict_get (es_outbox d) event_id of
               None \<Rightarrow> \<lparr>ox_broker_message_id = None, ox_published_at = None, ox_publish_attempts = 1,
                        ox_last_error_type = Some error_type\<rparr>
             | Some row \<Rightarrow> row\<lparr>ox_publish_attempts := ox_publish_attempts row + 1,
                              ox_last_error_type := Some error_type\<rparr>)
            (es_outbox d)\<rparr>, ()))"

text \<open>\<^verbatim>\<open>ORDER BY created_at, message_id\<close>: sorting is stable.\<close>

definition pending_messages :: "event_store \<Rightarrow> bus_message list" where
  "pending_messages d =
     sort_key bm_timestamp (sort_key bm_message_id
       (filter (\<lambda>m. \<not> published d (bm_event_id m)) (dict_values (es_journal d))))"

definition list_pending_bus_messages :: "nat \<Rightarrow> event_store \<Rightarrow> (event_store, bus_message list) outcome" where
  "list_pending_bus_messages limit = es_transaction (\<lambda>d. (d, take limit (pending_messages d)))"

section \<open>The bus\<close>

record event_bus =
  eb_subscribers :: "string list dict"
  eb_journal :: bool
  eb_transport :: bool
  eb_transport_required :: bool
  eb_max_processed :: nat
  eb_processed :: "string list"
  eb_store :: event_store
  eb_delivered :: "(string \<times> string) list"
  eb_dead_lettered :: "(string \<times> string) list"
  eb_sent :: "string list"

definition new_event_bus :: "bool \<Rightarrow> bool \<Rightarrow> bool \<Rightarrow> int \<Rightarrow> event_store \<Rightarrow> event_bus result" where
  "new_event_bus journal transport required max_processed store =
     (if max_processed < 1 then raise ValueError ''max_processed_event_ids must be positive''
      else Inr \<lparr>eb_subscribers = [], eb_journal = journal, eb_transport = transport, eb_transport_required = required,
                eb_max_processed = nat max_processed, eb_processed = [], eb_store = store, eb_delivered = [], eb_dead_lettered = [], eb_sent = []\<rparr>)"

definition handlers :: "event_bus \<Rightarrow> string \<Rightarrow> string list" where
  "handlers b topic = (case dict_get (eb_subscribers b) topic of None \<Rightarrow> [] | Some hs \<Rightarrow> hs)"

definition subscribe :: "string \<Rightarrow> string \<Rightarrow> event_bus \<Rightarrow> event_bus" where
  "subscribe topic h b =
     (let hs = handlers b topic
      in b\<lparr>eb_subscribers := dict_set topic (if h \<in> set hs then hs else hs @ [h]) (eb_subscribers b)\<rparr>)"

definition unsubscribe :: "string \<Rightarrow> string \<Rightarrow> event_bus \<Rightarrow> event_bus" where
  "unsubscribe topic h b =
     (if h \<in> set (handlers b topic)
      then b\<lparr>eb_subscribers := dict_set topic (remove1 h (handlers b topic)) (eb_subscribers b)\<rparr> else b)"

text \<open>An ordered set of the most recent identities: the oldest ones are dropped beyond the bound.\<close>

definition remember_event :: "string \<Rightarrow> event_bus \<Rightarrow> event_bus" where
  "remember_event event_id b =
     (let ids = filter (\<lambda>i. i \<noteq> event_id) (eb_processed b) @ [event_id]
      in b\<lparr>eb_processed := drop (length ids - eb_max_processed b) ids\<rparr>)"

definition DEAD_LETTER :: string where
  "DEAD_LETTER = ''dead_letter.events.v1''"

definition to_dead_letter :: "bus_message \<Rightarrow> event_bus \<Rightarrow> event_bus" where
  "to_dead_letter m b =
     b\<lparr>eb_dead_lettered := eb_dead_lettered b @ map (\<lambda>h. (h, bm_event_id m)) (handlers b DEAD_LETTER)\<rparr>"

definition deliver :: "(string \<Rightarrow> bus_message \<Rightarrow> bool) \<Rightarrow> bus_message \<Rightarrow> string \<Rightarrow> event_bus \<Rightarrow> event_bus" where
  "deliver fails m h b =
     (let b1 = b\<lparr>eb_delivered := eb_delivered b @ [(h, bm_event_id m)]\<rparr>
      in if fails h m then to_dead_letter m b1 else b1)"

definition on_store :: "(event_store \<Rightarrow> (event_store, 'a) outcome) \<Rightarrow> event_bus \<Rightarrow> (event_bus, 'a) outcome" where
  "on_store f b = (case f (eb_store b) of (d, r) \<Rightarrow> (b\<lparr>eb_store := d\<rparr>, r))"

text \<open>
  The broker: the message is sent, then marked; a failure of either is marked too, and reaches the
  caller only when the transport is required.
\<close>

definition to_broker ::
  "(bus_message \<Rightarrow> string result) \<Rightarrow> time \<Rightarrow> bus_message \<Rightarrow> event_bus \<Rightarrow> (event_bus, unit) outcome" where
  "to_broker transport now m b =
     (if \<not> eb_transport b then (b, Inr ())
      else
        let b1 = b\<lparr>eb_sent := eb_sent b @ [bm_event_id m]\<rparr>;
            attempt = (case transport m of
                         Inl e \<Rightarrow> (b1, Inl e)
                       | Inr broker_id \<Rightarrow>
                           if eb_journal b1 then on_store (mark_bus_message_published now (bm_event_id m) broker_id) b1
                           else (b1, Inr ()))
        in (case attempt of
              (b2, Inr _) \<Rightarrow> (b2, Inr ())
            | (b2, Inl e) \<Rightarrow>
                let b3 = (if eb_journal b2 then fst (on_store (mark_bus_message_failed (bm_event_id m) (class_name (exn_class e))) b2)
                          else b2)
                in (b3, if eb_transport_required b3 then Inl e else Inr ())))"

definition publish ::
  "(bus_message \<Rightarrow> string result) \<Rightarrow> (string \<Rightarrow> bus_message \<Rightarrow> bool) \<Rightarrow> time
     \<Rightarrow> string \<Rightarrow> string \<Rightarrow> string \<Rightarrow> string \<Rightarrow> json \<Rightarrow> string \<Rightarrow> string option \<Rightarrow> event_bus
     \<Rightarrow> (event_bus, bus_message) outcome" where
  "publish transport fails now message_id event_id topic event_type payload source correlation_id b =
     (case correlation_id of
        None \<Rightarrow> (b, raise ValueError ''correlation_id is mandatory on the message bus (docs/23).'')
      | Some cid \<Rightarrow>
          (case bind_result (validate valid_bus_message
                  \<lparr>bm_message_id = message_id, bm_event_id = event_id, bm_correlation_id = cid, bm_topic = topic,
                   bm_event_type = event_type, bm_source = source, bm_timestamp = now, bm_payload = payload\<rparr>)
                (\<lambda>m. bind_result (ensure_payload_has_no_secrets (bm_payload m)) (\<lambda>_. Inr m)) of
             Inl e \<Rightarrow> (b, Inl e)
           | Inr m \<Rightarrow>
               if bm_event_id m \<in> set (eb_processed b) then (b, Inr m)
               else
                 bind_outcome (if eb_journal b then on_store (save_bus_message m) b
                               else (b, Inr \<lparr>jw_inserted = True, jw_broker_published = False\<rparr>)) (\<lambda>b1 journaled.
                 if \<not> jw_inserted journaled \<and> (\<not> eb_transport b1 \<or> jw_broker_published journaled)
                 then (remember_event (bm_event_id m) b1, Inr m)
                 else
                   bind_outcome (to_broker transport now m b1) (\<lambda>b2 _.
                     let b3 = remember_event (bm_event_id m) b2
                     in (fold (deliver fails m) (handlers b3 (bm_topic m)) b3, Inr m)))))"

section \<open>The outbox dispatcher\<close>

record drain_result =
  dr_attempted :: nat
  dr_published :: nat
  dr_failed :: nat

text \<open>One message: what the broker or the marking raises is recorded as a failure; recording it may raise.\<close>

definition drain_message ::
  "(bus_message \<Rightarrow> string result) \<Rightarrow> time \<Rightarrow> bus_message \<Rightarrow> event_store
     \<Rightarrow> (event_store, bool) outcome" where
  "drain_message transport now m d =
     (case (case transport m of
              Inl e \<Rightarrow> (d, Inl e)
            | Inr broker_id \<Rightarrow> mark_bus_message_published now (bm_event_id m) broker_id d) of
        (d1, Inr _) \<Rightarrow> (d1, Inr True)
      | (d1, Inl e) \<Rightarrow>
          bind_outcome (mark_bus_message_failed (bm_event_id m) (class_name (exn_class e)) d1) (\<lambda>d2 _. (d2, Inr False)))"

fun drain_messages ::
  "(bus_message \<Rightarrow> string result) \<Rightarrow> time \<Rightarrow> bus_message list \<Rightarrow> event_store
     \<Rightarrow> (event_store, bool list) outcome" where
  "drain_messages transport now [] d = (d, Inr [])"
| "drain_messages transport now (m # ms) d =
     bind_outcome (drain_message transport now m d) (\<lambda>d1 ok.
     bind_outcome (drain_messages transport now ms d1) (\<lambda>d2 oks. (d2, Inr (ok # oks))))"

definition drain_once ::
  "(bus_message \<Rightarrow> string result) \<Rightarrow> time \<Rightarrow> nat \<Rightarrow> event_store \<Rightarrow> (event_store, drain_result) outcome" where
  "drain_once transport now batch_size d =
     bind_outcome (list_pending_bus_messages batch_size d) (\<lambda>d1 pending.
     bind_outcome (drain_messages transport now pending d1) (\<lambda>d2 oks.
       (d2, Inr \<lparr>dr_attempted = length pending, dr_published = length (filter id oks),
                 dr_failed = length (filter Not oks)\<rparr>)))"

text \<open>Turns of \<^verbatim>\<open>run\<close>: an exception of a turn is logged and the next turn starts from what it left.\<close>

fun drain_turns ::
  "(bus_message \<Rightarrow> string result) \<Rightarrow> nat \<Rightarrow> time list \<Rightarrow> event_store \<Rightarrow> event_store" where
  "drain_turns transport batch_size [] d = d"
| "drain_turns transport batch_size (now # instants) d =
     drain_turns transport batch_size instants (fst (drain_once transport now batch_size d))"

end
