(* ===== verification/Event_Properties.thy ===== *)
theory Event_Properties
  imports Event_Bus
begin

text \<open>
  Guarantees of the message bus: no secret is journaled, a journaled bus delivers an event to a handler at
  most once, and the outbox empties once the broker is reachable.
\<close>

section \<open>The journal\<close>

lemma save_bus_message_cases:
  assumes "save_bus_message m d = (d', r)"
  obtains (failed) e where "r = Inl e" "es_journal d' = es_journal d" "es_outbox d' = es_outbox d"
  | (inserted) "dict_get (es_journal d) (bm_event_id m) = None" "es_journal d' = dict_set (bm_event_id m) m (es_journal d)"
      "r = Inr \<lparr>jw_inserted = True, jw_broker_published = False\<rparr>"
  | (known) j where "r = Inr j" "\<not> jw_inserted j" "dict_get (es_journal d) (bm_event_id m) \<noteq> None" "es_journal d' = es_journal d"
  using assms by (auto simp: save_bus_message_def es_transaction_def Let_def split: if_splits option.splits prod.splits)

lemma marks_keep_journal [simp]:
  "es_journal (fst (mark_bus_message_published now i br d)) = es_journal d"
  "es_journal (fst (mark_bus_message_failed i er d)) = es_journal d"
  by (simp_all add: mark_bus_message_published_def mark_bus_message_failed_def es_transaction_def Let_def)

lemma drain_message_journal: "es_journal (fst (drain_message transport now m d)) = es_journal d"
proof -
  have p: "es_journal d1 = es_journal d" if "mark_bus_message_published now i br d = (d1, r)" for i br d1 r
    using marks_keep_journal(1) [of now i br d] that by simp
  have f: "es_journal d2 = es_journal d1" if "mark_bus_message_failed i er d1 = (d2, r)" for i er d1 d2 r
    using marks_keep_journal(2) [of i er d1] that by simp
  show ?thesis
    by (auto simp: drain_message_def bind_outcome_def split: sum.splits prod.splits) (metis p f)+
qed

lemma drain_messages_journal: "es_journal (fst (drain_messages transport now ms d)) = es_journal d"
proof (induction ms arbitrary: d)
  case (Cons m ms)
  obtain d1 r where 1: "drain_message transport now m d = (d1, r)" by force
  then have "es_journal d1 = es_journal d" using drain_message_journal [of transport now m d] by simp
  with 1 Cons.IH [of d1] show ?case by (auto simp: bind_outcome_def split: sum.splits prod.splits)
qed simp

lemma drain_once_journal: "es_journal (fst (drain_once transport now n d)) = es_journal d"
  using drain_messages_journal
  by (auto simp: drain_once_def bind_outcome_def list_pending_bus_messages_def es_transaction_def Let_def
      split: sum.splits prod.splits) (metis (no_types, lifting) event_store.select_convs(1) event_store.surjective event_store.update_convs(3) fst_conv)+

section \<open>Publication\<close>

lemma deliver_fields [simp]:
  "eb_delivered (deliver fails m h b) = eb_delivered b @ [(h, bm_event_id m)]"
  "eb_subscribers (deliver fails m h b) = eb_subscribers b" "eb_store (deliver fails m h b) = eb_store b"
  "eb_journal (deliver fails m h b) = eb_journal b" "eb_transport (deliver fails m h b) = eb_transport b"
  by (simp_all add: deliver_def to_dead_letter_def Let_def)

lemma fold_deliver_fields [simp]:
  "eb_delivered (fold (deliver fails m) hs b) = eb_delivered b @ map (\<lambda>h. (h, bm_event_id m)) hs"
  "eb_subscribers (fold (deliver fails m) hs b) = eb_subscribers b" "eb_store (fold (deliver fails m) hs b) = eb_store b"
  "eb_journal (fold (deliver fails m) hs b) = eb_journal b" "eb_transport (fold (deliver fails m) hs b) = eb_transport b"
  by (induction hs arbitrary: b) simp_all

lemma remember_event_fields [simp]:
  "eb_delivered (remember_event i b) = eb_delivered b" "eb_subscribers (remember_event i b) = eb_subscribers b"
  "eb_store (remember_event i b) = eb_store b" "eb_journal (remember_event i b) = eb_journal b"
  "eb_transport (remember_event i b) = eb_transport b"
  by (simp_all add: remember_event_def Let_def)

text \<open>What a call of \<open>publish\<close> can do to a journaled bus without a broker.\<close>

lemma publish_cases:
  assumes "publish transport fails now mid eid topic et payload src cid b = (b', r)" "eb_journal b" "\<not> eb_transport b"
  obtains (unchanged) "eb_delivered b' = eb_delivered b" "es_journal (eb_store b') = es_journal (eb_store b)"
      "eb_subscribers b' = eb_subscribers b" "eb_journal b'" "\<not> eb_transport b'"
  | (delivered) m where "bm_event_id m = eid" "bm_payload m = payload" "\<not> holds_secret payload"
      "dict_get (es_journal (eb_store b)) eid = None" "es_journal (eb_store b') = dict_set eid m (es_journal (eb_store b))"
      "eb_delivered b' = eb_delivered b @ map (\<lambda>h. (h, eid)) (handlers b topic)"
      "eb_subscribers b' = eb_subscribers b" "eb_journal b'" "\<not> eb_transport b'"
proof (cases cid)
  case None
  with assms show thesis by (intro unchanged) (auto simp: publish_def)
next
  case (Some c)
  let ?m = "\<lparr>bm_message_id = mid, bm_event_id = eid, bm_correlation_id = c, bm_topic = topic,
      bm_event_type = et, bm_source = src, bm_timestamp = now, bm_payload = payload\<rparr>"
  show thesis
  proof (cases "valid_bus_message ?m \<and> \<not> holds_secret payload \<and> eid \<notin> set (eb_processed b)")
    case False
    then have "b' = b"
      using assms(1) Some secret_search(1) [of "''payload''" payload]
      by (auto simp: publish_def validate_def bind_result_def ensure_payload_has_no_secrets_def split: option.splits if_splits)
    with assms(2,3) show thesis by (intro unchanged) auto
  next
    case True
    obtain d1 j where sv: "save_bus_message ?m (eb_store b) = (d1, j)" by force
    have search: "sensitive_payload_path ''payload'' payload = None" using True secret_search(1) by blast
    note run = assms(1) [unfolded publish_def Some] 
    from sv show thesis
    proof (cases rule: save_bus_message_cases)
      case (failed e)
      with run sv True search assms(2,3) show thesis
        by (intro unchanged)
          (auto simp: validate_def bind_result_def ensure_payload_has_no_secrets_def bind_outcome_def on_store_def)
    next
      case inserted
      with run sv True search assms(2,3) have "b' = fold (deliver fails ?m) (handlers b topic)
          (remember_event eid (b\<lparr>eb_store := d1\<rparr>))"
        by (auto simp: validate_def bind_result_def ensure_payload_has_no_secrets_def bind_outcome_def on_store_def to_broker_def
            Let_def handlers_def remember_event_def)
      with inserted True assms(2,3) show thesis by (intro delivered [of ?m]) auto
    next
      case (known j')
      with run sv True search assms(2,3) show thesis
        by (intro unchanged)
          (auto simp: validate_def bind_result_def ensure_payload_has_no_secrets_def bind_outcome_def on_store_def)
    qed
  qed
qed

section \<open>Histories of a journaled bus\<close>

inductive bus_step :: "event_bus \<Rightarrow> event_bus \<Rightarrow> bool" where
  step_publish: "bus_step b (fst (publish transport fails now mid eid topic et payload src cid b))"
| step_subscribe: "bus_step b (subscribe topic h b)"
| step_unsubscribe: "bus_step b (unsubscribe topic h b)"
| step_drain: "bus_step b (b\<lparr>eb_store := fst (drain_once transport now n (eb_store b))\<rparr>)"
| step_restart: "bus_step b (b\<lparr>eb_processed := [], eb_subscribers := []\<rparr>)"

definition bus_inv :: "event_bus \<Rightarrow> bool" where
  "bus_inv b \<longleftrightarrow> eb_journal b \<and> \<not> eb_transport b \<and> (\<forall>topic. distinct (handlers b topic)) \<and> distinct (eb_delivered b) \<and>
     (\<forall>(h, i) \<in> set (eb_delivered b). dict_get (es_journal (eb_store b)) i \<noteq> None) \<and>
     (\<forall>i m. dict_get (es_journal (eb_store b)) i = Some m \<longrightarrow> \<not> holds_secret (bm_payload m))"

lemma publish_inv:
  assumes "bus_inv b"
  shows "bus_inv (fst (publish transport fails now mid eid topic et payload src cid b))"
proof -
  obtain b' r where p: "publish transport fails now mid eid topic et payload src cid b = (b', r)" by force
  have j: "eb_journal b" "\<not> eb_transport b" using assms by (auto simp: bus_inv_def)
  from p j have "bus_inv b'"
  proof (cases rule: publish_cases)
    case unchanged
    with assms show ?thesis by (simp add: bus_inv_def handlers_def)
  next
    case (delivered m)
    have fresh: "(h, eid) \<notin> set (eb_delivered b)" for h using assms delivered(4) by (auto simp: bus_inv_def)
    have "distinct (eb_delivered b')" using assms fresh delivered(6) by (auto simp: bus_inv_def distinct_map inj_on_def)
    moreover have "handlers b' = handlers b" using delivered(7) by (simp add: handlers_def fun_eq_iff)
    moreover have "\<forall>(h, i) \<in> set (eb_delivered b'). dict_get (es_journal (eb_store b')) i \<noteq> None"
      using assms delivered(5,6) by (auto simp: bus_inv_def dict_simps)
    moreover have "\<forall>i m'. dict_get (es_journal (eb_store b')) i = Some m' \<longrightarrow> \<not> holds_secret (bm_payload m')"
      using assms delivered(2,3,5) by (auto simp: bus_inv_def dict_simps)
    ultimately show ?thesis using assms delivered(8,9) by (simp add: bus_inv_def)
  qed
  with p show ?thesis by simp
qed

lemma subscribe_inv: "bus_inv b \<Longrightarrow> bus_inv (subscribe topic h b)"
  by (auto simp: bus_inv_def subscribe_def handlers_def Let_def dict_simps split: option.splits)

lemma unsubscribe_inv: "bus_inv b \<Longrightarrow> bus_inv (unsubscribe topic h b)"
  by (auto simp: bus_inv_def unsubscribe_def handlers_def dict_simps split: option.splits)

lemma bus_step_inv: "bus_step b b' \<Longrightarrow> bus_inv b \<Longrightarrow> bus_inv b'"
proof (induction rule: bus_step.induct)
  case (step_drain b transport now n)
  then show ?case by (simp add: bus_inv_def drain_once_journal handlers_def)
next
  case (step_restart b)
  then show ?case by (simp add: bus_inv_def handlers_def)
qed (auto intro: publish_inv subscribe_inv unsubscribe_inv)

lemma bus_steps_inv: "bus_step\<^sup>*\<^sup>* b b' \<Longrightarrow> bus_inv b \<Longrightarrow> bus_inv b'"
  by (induction rule: rtranclp_induct) (auto intro: bus_step_inv)

text \<open>
  C28. A bus over the durable journal and without a broker, over every history of publications,
  subscriptions, drains of the outbox and restarts of the process (which forget what was processed):
  no event is delivered to a handler twice, every delivered event is in the journal, and no journaled
  payload holds a sensitive field at any depth.
\<close>

theorem bus_delivers_once:
  assumes "new_event_bus True False required limit \<lparr>es_journal = [], es_outbox = [], es_faults = fs\<rparr> = Inr b0"
    and "bus_step\<^sup>*\<^sup>* b0 b"
  shows "distinct (eb_delivered b) \<and> snd ` set (eb_delivered b) \<subseteq> dom (dict_get (es_journal (eb_store b))) \<and>
     (\<forall>i m. dict_get (es_journal (eb_store b)) i = Some m \<longrightarrow> \<not> holds_secret (bm_payload m))"
proof -
  have "bus_inv b0" using assms(1) by (auto simp: new_event_bus_def bus_inv_def handlers_def split: if_splits)
  from bus_steps_inv [OF assms(2) this] show ?thesis by (auto simp: bus_inv_def)
qed

section \<open>Draining the outbox\<close>

lemma mark_published_ok:
  assumes "es_faults d = []" "mark_bus_message_published now i br d = (d', r)"
  shows "r = Inr ()" "es_faults d' = []" "published d' k = (k = i \<or> published d k)"
  using assms by (auto simp: mark_bus_message_published_def es_transaction_def published_def dict_simps split: option.splits if_splits)

lemma drain_messages_ok:
  assumes "es_faults d = []" "\<forall>m. \<exists>br. transport m = Inr br"
  shows "\<exists>d' oks. drain_messages transport now ms d = (d', Inr oks) \<and> es_faults d' = [] \<and>
     (\<forall>k. published d' k \<longleftrightarrow> k \<in> bm_event_id ` set ms \<or> published d k)"
  using assms(1)
proof (induction ms arbitrary: d)
  case (Cons m ms)
  obtain br where br: "transport m = Inr br" using assms(2) by blast
  obtain d1 r where 1: "mark_bus_message_published now (bm_event_id m) br d = (d1, r)" by force
  note ok = mark_published_ok [OF Cons.prems 1]
  have dm: "drain_message transport now m d = (d1, Inr True)" using br 1 ok(1) by (simp add: drain_message_def)
  obtain d2 oks where 2: "drain_messages transport now ms d1 = (d2, Inr oks)" "es_faults d2 = []"
    "\<forall>k. published d2 k \<longleftrightarrow> k \<in> bm_event_id ` set ms \<or> published d1 k"
    using Cons.IH [OF ok(2)] by blast
  have "drain_messages transport now (m # ms) d = (d2, Inr (True # oks))"
    using dm 2(1) by (simp add: bind_outcome_def)
  with 2(2,3) ok(3) show ?case by auto
qed simp

definition keyed_journal :: "event_store \<Rightarrow> bool" where
  "keyed_journal d \<longleftrightarrow> distinct (map bm_event_id (dict_values (es_journal d)))"

lemma pending_distinct: "keyed_journal d \<Longrightarrow> distinct (map bm_event_id (pending_messages d))"
proof -
  assume "keyed_journal d"
  then have "distinct (dict_values (es_journal d))" "inj_on bm_event_id (set (dict_values (es_journal d)))"
    by (simp_all add: keyed_journal_def distinct_map)
  then show ?thesis by (auto simp: pending_messages_def distinct_map intro: inj_on_subset)
qed

lemma drain_once_ok:
  assumes "es_faults d = []" "keyed_journal d" "\<forall>m. \<exists>br. transport m = Inr br"
  shows "\<exists>d' r. drain_once transport now n d = (d', Inr r) \<and> es_faults d' = [] \<and> keyed_journal d' \<and>
     pending_messages d' = drop n (pending_messages d)"
proof -
  let ?p = "pending_messages d"
  obtain d' oks where dm: "drain_messages transport now (take n ?p) d = (d', Inr oks)" "es_faults d' = []"
    "\<forall>k. published d' k \<longleftrightarrow> k \<in> bm_event_id ` set (take n ?p) \<or> published d k"
    using drain_messages_ok [OF assms(1,3)] by blast
  have j: "es_journal d' = es_journal d" using drain_messages_journal [of transport now "take n ?p" d] dm(1) by simp
  have "filter (\<lambda>m. \<not> published d' (bm_event_id m)) (dict_values (es_journal d)) =
      filter (\<lambda>m. bm_event_id m \<notin> bm_event_id ` set (take n ?p)) (filter (\<lambda>m. \<not> published d (bm_event_id m)) (dict_values (es_journal d)))"
    using dm(3) by (auto intro: filter_cong)
  then have "pending_messages d' = filter (\<lambda>m. bm_event_id m \<notin> bm_event_id ` set (take n ?p)) ?p"
    by (simp only: pending_messages_def j filter_sort)
  also have "\<dots> = filter (\<lambda>m. bm_event_id m \<notin> bm_event_id ` set (take n ?p)) (take n ?p @ drop n ?p)" by simp
  also have "\<dots> = drop n ?p"
  proof -
    have "distinct (map bm_event_id (take n ?p @ drop n ?p))" using pending_distinct [OF assms(2)] by simp
    then have "bm_event_id ` set (take n ?p) \<inter> bm_event_id ` set (drop n ?p) = {}"
      unfolding map_append distinct_append by simp
    then have "filter (\<lambda>m. bm_event_id m \<notin> bm_event_id ` set (take n ?p)) (drop n ?p) = drop n ?p"
      by (intro filter_True) blast
    moreover have "filter (\<lambda>m. bm_event_id m \<notin> bm_event_id ` set (take n ?p)) (take n ?p) = []" by (simp add: filter_empty_conv)
    ultimately show ?thesis by (simp only: filter_append append_Nil)
  qed
  finally have "pending_messages d' = drop n ?p" .
  moreover have "list_pending_bus_messages n d = (d, Inr (take n ?p))"
    using assms(1) by (cases d) (simp add: list_pending_bus_messages_def es_transaction_def Let_def)
  ultimately show ?thesis using dm j assms(2) by (simp add: drain_once_def bind_outcome_def keyed_journal_def)
qed

text \<open>
  C29. The outbox empties: once the broker accepts messages and the database answers, enough turns of the
  dispatcher leave nothing pending, whatever the order of the backlog; so many turns as there are
  batches in the backlog are enough.
\<close>

theorem outbox_drains:
  assumes "es_faults d = []" "keyed_journal d" "\<forall>m. \<exists>br. transport m = Inr br"
    and "length (pending_messages d) \<le> length instants * batch_size"
  shows "pending_messages (drain_turns transport batch_size instants d) = []"
  using assms(1,2,4)
proof (induction instants arbitrary: d)
  case (Cons now instants)
  obtain d' r where "drain_once transport now batch_size d = (d', Inr r)" "es_faults d' = []" "keyed_journal d'"
    "pending_messages d' = drop batch_size (pending_messages d)"
    using drain_once_ok [OF Cons.prems(1,2) assms(3)] by blast
  with Cons show ?case by simp
qed simp

section \<open>A concrete bus\<close>

definition sample_bus :: event_bus where
  "sample_bus =
     \<lparr>eb_subscribers = [], eb_journal = True, eb_transport = False, eb_transport_required = False, eb_max_processed = 2,
      eb_processed = [], eb_store = \<lparr>es_journal = [], es_outbox = [], es_faults = []\<rparr>, eb_delivered = [],
      eb_dead_lettered = [], eb_sent = []\<rparr>"

definition sample_publish :: "event_bus \<Rightarrow> event_bus" where
  "sample_publish b =
     fst (publish (\<lambda>_. Inr ''1-0'') (\<lambda>_ _. False) 5 ''m-1'' ''e-1'' ''market.events.v1'' ''CANDLE_CLOSED''
       (JObj [(''close'', JInt 7)]) ''MarketDataAdapter'' (Some ''corr-1'') b)"

definition sample_bus_run :: event_bus where
  "sample_bus_run =
     sample_publish (subscribe ''market.events.v1'' ''h''
       ((sample_publish (subscribe ''market.events.v1'' ''h'' sample_bus))\<lparr>eb_processed := [], eb_subscribers := []\<rparr>))"

theorem bus_delivers_once_witness:
  "eb_delivered sample_bus_run = [(''h'', ''e-1'')] \<and> distinct (eb_delivered sample_bus_run)"
proof -
  let ?b1 = "sample_publish (subscribe ''market.events.v1'' ''h'' sample_bus)"
  let ?b2 = "subscribe ''market.events.v1'' ''h'' (?b1\<lparr>eb_processed := [], eb_subscribers := []\<rparr>)"
  have new: "new_event_bus True False False 2 \<lparr>es_journal = [], es_outbox = [], es_faults = []\<rparr> = Inr sample_bus"
    by (simp add: new_event_bus_def sample_bus_def)
  have pub: "bus_step b (sample_publish b)" for b unfolding sample_publish_def by (rule step_publish)
  have "bus_step\<^sup>*\<^sup>* sample_bus (subscribe ''market.events.v1'' ''h'' sample_bus)" by (rule r_into_rtranclp) (rule step_subscribe)
  also have "bus_step (subscribe ''market.events.v1'' ''h'' sample_bus) ?b1" by (rule pub)
  also have "bus_step ?b1 (?b1\<lparr>eb_processed := [], eb_subscribers := []\<rparr>)" by (rule step_restart)
  also have "bus_step (?b1\<lparr>eb_processed := [], eb_subscribers := []\<rparr>) ?b2" by (rule step_subscribe)
  also have "bus_step ?b2 sample_bus_run" unfolding sample_bus_run_def by (rule pub)
  finally have "bus_step\<^sup>*\<^sup>* sample_bus sample_bus_run" .
  moreover have "eb_delivered sample_bus_run = [(''h'', ''e-1'')]" by code_simp
  ultimately show ?thesis using bus_delivers_once [OF new] by blast
qed

definition sample_backlog :: event_store where
  "sample_backlog =
     \<lparr>es_journal = map (\<lambda>(i, t). (i, \<lparr>bm_message_id = i, bm_event_id = i, bm_correlation_id = ''corr-1'',
        bm_topic = ''market.events.v1'', bm_event_type = ''CANDLE_CLOSED'', bm_source = ''s'', bm_timestamp = t,
        bm_payload = JNull\<rparr>)) [(''e-1'', 9), (''e-2'', 7), (''e-3'', 8)], es_outbox = [], es_faults = []\<rparr>"

theorem outbox_drains_witness:
  "pending_messages (drain_turns (\<lambda>m. Inr (bm_event_id m)) 2 [10, 11] sample_backlog) = []"
proof (rule outbox_drains)
  show "es_faults sample_backlog = []" "keyed_journal sample_backlog"
    "length (pending_messages sample_backlog) \<le> length [10, 11 :: time] * 2" by code_simp+
qed simp

end
