(* ===== verification/Agent_Evaluation.thy ===== *)
theory Agent_Evaluation
  imports Decision_Engine
begin

text \<open>
  The evidence store and the settlement of agent forecasts, \<^verbatim>\<open>app/agents/evaluation.py\<close>, with the contracts
  of \<^verbatim>\<open>app/schemas/specialist_evaluation.py\<close> and the append-only tables the repository keeps for them.

  \<^item> \<open>H\<close> is SHA-256 of a canonical JSON text; constructing a record assigns its identity.
  \<^item> \<^verbatim>\<open>statistics.fmean\<close> rounds the exact sum once and divides; \<^verbatim>\<open>x ** 2\<close> is the rounded square.
  \<^item> Every float of the model is finite, so the check for finite evidence values always passes.
  \<^item> A service without repository keeps its dictionaries only; with one, the transaction comes first
    and memory changes only when it committed.
\<close>

section \<open>Transactions on append-only tables\<close>

record faulty =
  fs_faults :: "bool list"

definition fs_transaction ::
  "('s faulty_scheme \<Rightarrow> ('s faulty_scheme \<times> 'a) result) \<Rightarrow> 's faulty_scheme \<Rightarrow> ('s faulty_scheme, 'a) outcome" where
  "fs_transaction body d =
     (let d1 = d\<lparr>fs_faults := tl (fs_faults d)\<rparr>
      in if fs_faults d \<noteq> [] \<and> hd (fs_faults d) then (d1, raise DatabaseError ''database unavailable'')
         else case body d1 of Inl e \<Rightarrow> (d1, Inl e) | Inr (d2, x) \<Rightarrow> (d2, Inr x))"

lemma fs_transaction_cases:
  assumes "fs_transaction body d = (d', r)"
  obtains (failed) e where "r = Inl e" "d' = d\<lparr>fs_faults := tl (fs_faults d)\<rparr>"
  | (committed) x where "body (d\<lparr>fs_faults := tl (fs_faults d)\<rparr>) = Inr (d', x)" "r = Inr x"
  using assms by (auto simp: fs_transaction_def Let_def split: if_splits sum.splits)

section \<open>Text patterns\<close>

definition is_hex :: "char \<Rightarrow> bool" where
  "is_hex c \<longleftrightarrow> is_digit c \<or> CHR ''a'' \<le> c \<and> c \<le> CHR ''f''"

text \<open>\<^verbatim>\<open>^[a-f0-9]{64}$\<close>, and \<^verbatim>\<open>^[0-9]+\.[0-9]+\.[0-9]+$\<close>.\<close>

definition sha_ok :: "string \<Rightarrow> bool" where
  "sha_ok s \<longleftrightarrow> length s = 64 \<and> list_all is_hex s"

fun split_dots :: "string \<Rightarrow> string list" where
  "split_dots [] = [[]]"
| "split_dots (c # cs) = (if c = CHR ''.'' then [] # split_dots cs
                          else case split_dots cs of [] \<Rightarrow> [[c]] | w # ws \<Rightarrow> (c # w) # ws)"

definition version_ok :: "string \<Rightarrow> bool" where
  "version_ok s \<longleftrightarrow> length (split_dots s) = 3 \<and> list_all (\<lambda>w. w \<noteq> [] \<and> list_all is_digit w) (split_dots s)"

definition lower_letter :: "char \<Rightarrow> bool" where
  "lower_letter c \<longleftrightarrow> CHR ''a'' \<le> c \<and> c \<le> CHR ''z''"

text \<open>\<^verbatim>\<open>^[a-z][a-z0-9_]{1,63}$\<close> and \<^verbatim>\<open>^(GLOBAL|[A-Z0-9._-]{2,32})$\<close>; the second alternative contains the first.\<close>

definition metric_name_ok :: "string \<Rightarrow> bool" where
  "metric_name_ok s \<longleftrightarrow> 2 \<le> length s \<and> length s \<le> 64 \<and> lower_letter (hd s) \<and>
     list_all (\<lambda>c. lower_letter c \<or> is_digit c \<or> c = CHR ''_'') (tl s)"

section \<open>Specialist evidence\<close>

datatype specialist_domain = DERIVATIVES | MACRO | ONCHAIN | NEWS

fun domain_value :: "specialist_domain \<Rightarrow> string" where
  "domain_value DERIVATIVES = ''DERIVATIVES''"
| "domain_value MACRO = ''MACRO''"
| "domain_value ONCHAIN = ''ONCHAIN''"
| "domain_value NEWS = ''NEWS''"

record specialist_evidence =
  ev_evidence_id :: string
  ev_domain :: specialist_domain
  ev_metric_name :: string
  ev_scope :: string
  ev_source :: string
  ev_source_event_id :: string
  ev_value :: pyfloat
  ev_unit :: string
  ev_quality_score :: int
  ev_observed_at :: time
  ev_received_at :: time
  ev_provenance_uri :: "string option"
  ev_payload_sha256 :: string

definition evidence_identity :: "(json \<Rightarrow> string) \<Rightarrow> specialist_evidence \<Rightarrow> string" where
  "evidence_identity H e =
     H (JObj [(''schema_version'', JStr ''1.0.0''), (''domain'', JStr (domain_value (ev_domain e))),
              (''metric_name'', JStr (ev_metric_name e)), (''scope'', JStr (ev_scope e)), (''source'', JStr (ev_source e)),
              (''source_event_id'', JStr (ev_source_event_id e)), (''value'', JFloat (ev_value e)),
              (''unit'', JStr (ev_unit e)), (''quality_score'', JInt (ev_quality_score e)),
              (''observed_at'', JTime (ev_observed_at e)), (''received_at'', JTime (ev_received_at e)),
              (''provenance_uri'', JOpt JStr (ev_provenance_uri e)), (''payload_sha256'', JStr (ev_payload_sha256 e))])"

definition valid_specialist_evidence :: "(json \<Rightarrow> string) \<Rightarrow> specialist_evidence \<Rightarrow> bool" where
  [valid_defs]: "valid_specialist_evidence H e \<longleftrightarrow>
     (ev_evidence_id e = [] \<or> sha_ok (ev_evidence_id e)) \<and> metric_name_ok (ev_metric_name e) \<and>
     candle_symbol_ok (ev_scope e) \<and> 2 \<le> length (ev_source e) \<and> length (ev_source e) \<le> 128 \<and>
     ev_source_event_id e \<noteq> [] \<and> length (ev_source_event_id e) \<le> 256 \<and> ev_unit e \<noteq> [] \<and> length (ev_unit e) \<le> 32 \<and>
     0 \<le> ev_quality_score e \<and> ev_quality_score e \<le> 100 \<and>
     (case ev_provenance_uri e of None \<Rightarrow> True | Some u \<Rightarrow> length u \<le> 1000) \<and> sha_ok (ev_payload_sha256 e) \<and>
     ev_observed_at e \<le> ev_received_at e \<and>
     (ev_evidence_id e = [] \<or> ev_evidence_id e = evidence_identity H e)"

definition new_specialist_evidence :: "(json \<Rightarrow> string) \<Rightarrow> specialist_evidence \<Rightarrow> specialist_evidence result" where
  "new_specialist_evidence H e =
     bind_result (validate (valid_specialist_evidence H) e) (\<lambda>e. Inr (e\<lparr>ev_evidence_id := evidence_identity H e\<rparr>))"

section \<open>Agent registrations, forecasts and outcomes\<close>

datatype decision_role = PRIMARY | SHADOW

fun role_value :: "decision_role \<Rightarrow> string" where
  "role_value PRIMARY = ''PRIMARY''"
| "role_value SHADOW = ''SHADOW''"

record agent_registration =
  ag_agent_name :: string
  ag_version :: string
  ag_description :: string
  ag_required_inputs :: "string list"
  ag_capabilities :: "string list"
  ag_decision_role :: decision_role
  ag_critical :: bool
  ag_timeout_ms :: int
  ag_max_attempts :: int
  ag_enabled :: bool
  ag_definition_hash :: string

definition agent_name_char :: "char \<Rightarrow> bool" where
  "agent_name_char c \<longleftrightarrow> lower_letter c \<or> is_upper c \<or> is_digit c \<or> c \<in> {CHR ''.'', CHR ''_'', CHR ''-''}"

definition valid_agent_registration :: "agent_registration \<Rightarrow> bool" where
  [valid_defs]: "valid_agent_registration a \<longleftrightarrow>
     3 \<le> length (ag_agent_name a) \<and> length (ag_agent_name a) \<le> 128 \<and>
     (lower_letter (hd (ag_agent_name a)) \<or> is_upper (hd (ag_agent_name a))) \<and> list_all agent_name_char (ag_agent_name a) \<and>
     version_ok (ag_version a) \<and> 1 \<le> ag_timeout_ms a \<and> ag_timeout_ms a \<le> 300000 \<and>
     1 \<le> ag_max_attempts a \<and> ag_max_attempts a \<le> 10 \<and> sha_ok (ag_definition_hash a)"

definition agent_key :: "agent_registration \<Rightarrow> string" where
  "agent_key a = ag_agent_name a @ ''@'' @ ag_version a"

record agent_forecast =
  fc_forecast_id :: string
  fc_correlation_id :: string
  fc_agent_name :: string
  fc_agent_version :: string
  fc_definition_hash :: string
  fc_symbol :: string
  fc_timeframe :: string
  fc_signal :: signal
  fc_confidence :: int
  fc_probability_up :: pyfloat
  fc_reference_price :: pyfloat
  fc_forecast_at :: time
  fc_target_at :: time
  fc_horizon_seconds :: int
  fc_decision_role :: decision_role
  fc_created_at :: time

definition forecast_identity :: "(json \<Rightarrow> string) \<Rightarrow> agent_forecast \<Rightarrow> string" where
  "forecast_identity H f =
     H (JObj [(''schema_version'', JStr ''1.0.0''), (''correlation_id'', JStr (fc_correlation_id f)),
              (''agent_name'', JStr (fc_agent_name f)), (''agent_version'', JStr (fc_agent_version f)),
              (''definition_hash'', JStr (fc_definition_hash f)), (''symbol'', JStr (fc_symbol f)),
              (''timeframe'', JStr (fc_timeframe f)), (''signal'', JStr (signal_value (fc_signal f))),
              (''confidence'', JInt (fc_confidence f)), (''probability_up'', JFloat (fc_probability_up f)),
              (''reference_price'', JFloat (fc_reference_price f)), (''forecast_at'', JTime (fc_forecast_at f)),
              (''target_at'', JTime (fc_target_at f))])"

definition valid_agent_forecast :: "(json \<Rightarrow> string) \<Rightarrow> agent_forecast \<Rightarrow> bool" where
  [valid_defs]: "valid_agent_forecast H f \<longleftrightarrow>
     (fc_forecast_id f = [] \<or> sha_ok (fc_forecast_id f)) \<and>
     fc_correlation_id f \<noteq> [] \<and> length (fc_correlation_id f) \<le> 36 \<and>
     3 \<le> length (fc_agent_name f) \<and> length (fc_agent_name f) \<le> 128 \<and> version_ok (fc_agent_version f) \<and>
     sha_ok (fc_definition_hash f) \<and> candle_symbol_ok (fc_symbol f) \<and> timeframe_ok (fc_timeframe f) \<and>
     0 \<le> fc_confidence f \<and> fc_confidence f \<le> 100 \<and> 0 \<le> fc_probability_up f \<and> fc_probability_up f \<le> 1 \<and>
     0 < fc_reference_price f \<and> 0 < fc_horizon_seconds f \<and>
     fc_target_at f = fc_forecast_at f + fc_horizon_seconds f * 1000000 \<and>
     (fc_forecast_id f = [] \<or> fc_forecast_id f = forecast_identity H f)"

definition new_agent_forecast :: "(json \<Rightarrow> string) \<Rightarrow> agent_forecast \<Rightarrow> agent_forecast result" where
  "new_agent_forecast H f =
     bind_result (validate (valid_agent_forecast H) f) (\<lambda>f. Inr (f\<lparr>fc_forecast_id := forecast_identity H f\<rparr>))"

record agent_forecast_outcome =
  fo_outcome_id :: string
  fo_forecast_id :: string
  fo_realized_at :: time
  fo_realized_price :: pyfloat
  fo_realized_return :: pyfloat
  fo_realized_up :: pyfloat
  fo_correct :: "bool option"
  fo_brier_loss :: pyfloat
  fo_ensemble_probability_up :: pyfloat
  fo_ensemble_brier_loss :: pyfloat
  fo_leave_one_out_probability_up :: pyfloat
  fo_leave_one_out_brier_loss :: pyfloat
  fo_marginal_contribution :: pyfloat
  fo_cohort_size :: int
  fo_created_at :: time

definition outcome_identity :: "(json \<Rightarrow> string) \<Rightarrow> agent_forecast_outcome \<Rightarrow> string" where
  "outcome_identity H x =
     H (JObj [(''schema_version'', JStr ''1.0.0''), (''forecast_id'', JStr (fo_forecast_id x)),
              (''realized_at'', JTime (fo_realized_at x)), (''realized_price'', JFloat (fo_realized_price x))])"

abbreviation unit_interval :: "pyfloat \<Rightarrow> bool" where
  "unit_interval x \<equiv> 0 \<le> x \<and> x \<le> 1"

definition valid_agent_forecast_outcome :: "(json \<Rightarrow> string) \<Rightarrow> agent_forecast_outcome \<Rightarrow> bool" where
  [valid_defs]: "valid_agent_forecast_outcome H x \<longleftrightarrow>
     (fo_outcome_id x = [] \<or> sha_ok (fo_outcome_id x)) \<and> sha_ok (fo_forecast_id x) \<and> 0 < fo_realized_price x \<and>
     unit_interval (fo_realized_up x) \<and> unit_interval (fo_brier_loss x) \<and>
     unit_interval (fo_ensemble_probability_up x) \<and> unit_interval (fo_ensemble_brier_loss x) \<and>
     unit_interval (fo_leave_one_out_probability_up x) \<and> unit_interval (fo_leave_one_out_brier_loss x) \<and>
     - 1 \<le> fo_marginal_contribution x \<and> fo_marginal_contribution x \<le> 1 \<and> 1 \<le> fo_cohort_size x \<and>
     (fo_outcome_id x = [] \<or> fo_outcome_id x = outcome_identity H x)"

definition new_agent_forecast_outcome ::
  "(json \<Rightarrow> string) \<Rightarrow> agent_forecast_outcome \<Rightarrow> agent_forecast_outcome result" where
  "new_agent_forecast_outcome H x =
     bind_result (validate (valid_agent_forecast_outcome H) x) (\<lambda>x. Inr (x\<lparr>fo_outcome_id := outcome_identity H x\<rparr>))"

record agent_scorecard =
  cr_agent_name :: string
  cr_agent_version :: string
  cr_sample_count :: int
  cr_directional_sample_count :: int
  cr_accuracy :: "pyfloat option"
  cr_mean_brier_loss :: "pyfloat option"
  cr_mean_marginal_contribution :: "pyfloat option"
  cr_evaluated :: bool
  cr_minimum_samples :: int

definition valid_agent_scorecard :: "agent_scorecard \<Rightarrow> bool" where
  [valid_defs]: "valid_agent_scorecard c \<longleftrightarrow>
     3 \<le> length (cr_agent_name c) \<and> length (cr_agent_name c) \<le> 128 \<and> version_ok (cr_agent_version c) \<and>
     0 \<le> cr_sample_count c \<and> 0 \<le> cr_directional_sample_count c \<and>
     (case cr_accuracy c of None \<Rightarrow> True | Some x \<Rightarrow> unit_interval x) \<and>
     (case cr_mean_brier_loss c of None \<Rightarrow> True | Some x \<Rightarrow> unit_interval x) \<and>
     (case cr_mean_marginal_contribution c of None \<Rightarrow> True | Some x \<Rightarrow> - 1 \<le> x \<and> x \<le> 1) \<and>
     1 \<le> cr_minimum_samples c \<and> cr_evaluated c = (cr_minimum_samples c \<le> cr_sample_count c)"

section \<open>The append-only tables\<close>

record evaluation_store = faulty +
  vs_evidence :: "specialist_evidence dict"
  vs_forecasts :: "agent_forecast dict"
  vs_outcomes :: "agent_forecast_outcome dict"

definition save_specialist_evidence ::
  "specialist_evidence \<Rightarrow> evaluation_store \<Rightarrow> (evaluation_store, specialist_evidence) outcome" where
  "save_specialist_evidence e =
     fs_transaction (\<lambda>d.
       case dict_get (vs_evidence d) (ev_evidence_id e) of
         Some stored \<Rightarrow>
           if stored \<noteq> e then raise ValidationError ''Immutable specialist evidence identity conflict'' else Inr (d, stored)
       | None \<Rightarrow>
           (case List.find (\<lambda>x. ev_source x = ev_source e \<and> ev_source_event_id x = ev_source_event_id e)
                  (dict_values (vs_evidence d)) of
              Some stored \<Rightarrow>
                if stored \<noteq> e then raise ValidationError ''Source event already maps to different evidence''
                else Inr (d, stored)
            | None \<Rightarrow> Inr (d\<lparr>vs_evidence := dict_set (ev_evidence_id e) e (vs_evidence d)\<rparr>, e)))"

definition list_limit :: "string \<Rightarrow> int \<Rightarrow> 'a list \<Rightarrow> 'a list result" where
  "list_limit label limit xs =
     (if 1 \<le> limit \<and> limit \<le> 100000 then Inr (take (nat limit) xs)
      else raise ValueError (label @ '' limit must be 1..100000''))"

text \<open>\<^verbatim>\<open>ORDER BY t DESC, identity\<close>: descending sort of a list already in identity order.\<close>

definition newest_first :: "('a \<Rightarrow> time) \<Rightarrow> ('a \<Rightarrow> string) \<Rightarrow> 'a list \<Rightarrow> 'a list" where
  "newest_first t identity xs = sort_key (\<lambda>x. - t x) (sort_key identity xs)"

definition list_specialist_evidence :: "int \<Rightarrow> evaluation_store \<Rightarrow> specialist_evidence list result" where
  "list_specialist_evidence limit d =
     list_limit ''Specialist evidence'' limit (newest_first ev_observed_at ev_evidence_id (dict_values (vs_evidence d)))"

fun append_forecasts :: "agent_forecast list \<Rightarrow> evaluation_store \<Rightarrow> (evaluation_store \<times> agent_forecast list) result" where
  "append_forecasts [] d = Inr (d, [])"
| "append_forecasts (f # fs) d =
     (case dict_get (vs_forecasts d) (fc_forecast_id f) of
        Some current \<Rightarrow>
          if current \<noteq> f then raise ValidationError ''Immutable agent forecast identity conflict''
          else bind_result (append_forecasts fs d) (\<lambda>(d', stored). Inr (d', current # stored))
      | None \<Rightarrow>
          bind_result (append_forecasts fs (d\<lparr>vs_forecasts := dict_set (fc_forecast_id f) f (vs_forecasts d)\<rparr>))
            (\<lambda>(d', stored). Inr (d', f # stored)))"

definition save_agent_forecasts ::
  "agent_forecast list \<Rightarrow> evaluation_store \<Rightarrow> (evaluation_store, agent_forecast list) outcome" where
  "save_agent_forecasts fs d = (if fs = [] then (d, Inr []) else fs_transaction (append_forecasts fs) d)"

definition list_agent_forecasts :: "int \<Rightarrow> evaluation_store \<Rightarrow> agent_forecast list result" where
  "list_agent_forecasts limit d =
     list_limit ''Agent forecast'' limit (newest_first fc_forecast_at fc_forecast_id (dict_values (vs_forecasts d)))"

text \<open>The outcome of a forecast is looked up by its own identity first, then by the forecast it settles.\<close>

definition stored_outcome :: "evaluation_store \<Rightarrow> agent_forecast_outcome \<Rightarrow> agent_forecast_outcome option" where
  "stored_outcome d x =
     (case dict_get (vs_outcomes d) (fo_outcome_id x) of
        Some y \<Rightarrow> Some y
      | None \<Rightarrow> List.find (\<lambda>y. fo_forecast_id y = fo_forecast_id x) (dict_values (vs_outcomes d)))"

fun append_outcomes ::
  "agent_forecast_outcome list \<Rightarrow> evaluation_store \<Rightarrow> (evaluation_store \<times> agent_forecast_outcome list) result" where
  "append_outcomes [] d = Inr (d, [])"
| "append_outcomes (x # xs) d =
     (case stored_outcome d x of
        Some current \<Rightarrow>
          if current \<noteq> x then raise ValidationError ''Forecast already has a different outcome''
          else bind_result (append_outcomes xs d) (\<lambda>(d', stored). Inr (d', current # stored))
      | None \<Rightarrow>
          if dict_get (vs_forecasts d) (fo_forecast_id x) = None
          then raise DatabaseError ''Failed to persist agent forecast outcomes: foreign key''
          else bind_result (append_outcomes xs (d\<lparr>vs_outcomes := dict_set (fo_outcome_id x) x (vs_outcomes d)\<rparr>))
                 (\<lambda>(d', stored). Inr (d', x # stored)))"

definition save_agent_forecast_outcomes ::
  "agent_forecast_outcome list \<Rightarrow> evaluation_store \<Rightarrow> (evaluation_store, agent_forecast_outcome list) outcome" where
  "save_agent_forecast_outcomes xs d = (if xs = [] then (d, Inr []) else fs_transaction (append_outcomes xs) d)"

definition list_agent_forecast_outcomes :: "int \<Rightarrow> evaluation_store \<Rightarrow> agent_forecast_outcome list result" where
  "list_agent_forecast_outcomes limit d =
     list_limit ''Agent outcome'' limit (newest_first fo_realized_at fo_outcome_id (dict_values (vs_outcomes d)))"

text \<open>What a service does with its repository, when it has one.\<close>

definition with_store ::
  "'d option \<Rightarrow> ('d \<Rightarrow> ('d, 'a) outcome) \<Rightarrow> 'a \<Rightarrow> 'd option \<times> 'a result" where
  "with_store repo f x =
     (case repo of None \<Rightarrow> (None, Inr x) | Some d \<Rightarrow> (case f d of (d', r) \<Rightarrow> (Some d', r)))"

section \<open>The evidence service\<close>

record evidence_service =
  sv_repository :: "evaluation_store option"
  sv_items :: "specialist_evidence dict"
  sv_source_events :: "((string \<times> string) \<times> string) list"

definition evidence_initialize :: "evidence_service \<Rightarrow> (evidence_service, unit) outcome" where
  "evidence_initialize s =
     (case sv_repository s of
        None \<Rightarrow> (s, Inr ())
      | Some d \<Rightarrow>
          (case list_specialist_evidence 10000 d of
             Inl e \<Rightarrow> (s, Inl e)
           | Inr items \<Rightarrow>
               (s\<lparr>sv_items := fold (\<lambda>e m. dict_set (ev_evidence_id e) e m) items (sv_items s),
                  sv_source_events := fold (\<lambda>e m. dict_set (ev_source e, ev_source_event_id e) (ev_evidence_id e) m)
                                        items (sv_source_events s)\<rparr>, Inr ())))"

definition ingest :: "specialist_evidence \<Rightarrow> evidence_service \<Rightarrow> (evidence_service, specialist_evidence) outcome" where
  "ingest e s =
     (let source_key = (ev_source e, ev_source_event_id e)
      in if (case dict_get (sv_source_events s) source_key of None \<Rightarrow> False | Some i \<Rightarrow> i \<noteq> ev_evidence_id e)
         then (s, raise ValueError ''Source event already maps to different immutable evidence'')
         else case dict_get (sv_items s) (ev_evidence_id e) of
                Some existing \<Rightarrow>
                  (s, if existing \<noteq> e then raise ValueError ''Immutable evidence identity conflict'' else Inr existing)
              | None \<Rightarrow>
                  (case with_store (sv_repository s) (save_specialist_evidence e) e of
                     (repo, Inl exc) \<Rightarrow> (s\<lparr>sv_repository := repo\<rparr>, Inl exc)
                   | (repo, Inr stored) \<Rightarrow>
                       (s\<lparr>sv_repository := repo, sv_items := dict_set (ev_evidence_id stored) stored (sv_items s),
                          sv_source_events := dict_set source_key (ev_evidence_id stored) (sv_source_events s)\<rparr>,
                        Inr stored)))"

text \<open>\<^verbatim>\<open>max(items, key=...)\<close>: the first of the greatest elements.\<close>

fun py_max_by :: "('a \<Rightarrow> int) \<Rightarrow> 'a \<Rightarrow> 'a list \<Rightarrow> 'a" where
  "py_max_by key best [] = best"
| "py_max_by key best (x # xs) = py_max_by key (if key best < key x then x else best) xs"

definition latest :: "specialist_domain \<Rightarrow> string \<Rightarrow> string \<Rightarrow> time \<Rightarrow> evidence_service \<Rightarrow> specialist_evidence option" where
  "latest domain metric_name scope as_of s =
     (case filter (\<lambda>e. ev_domain e = domain \<and> ev_metric_name e = metric_name \<and> ev_scope e = scope \<and>
                       ev_observed_at e \<le> as_of) (dict_values (sv_items s)) of
        [] \<Rightarrow> None
      | e # es \<Rightarrow> Some (py_max_by ev_observed_at e es))"

text \<open>\<^verbatim>\<open>sorted(xs, key=lambda x: (t, identity), reverse=True)[:limit]\<close>.\<close>

definition newest :: "('a \<Rightarrow> time) \<Rightarrow> ('a \<Rightarrow> string) \<Rightarrow> nat \<Rightarrow> 'a list \<Rightarrow> 'a list" where
  "newest t identity limit xs = take limit (rev (sort_key t (sort_key identity (rev xs))))"

definition evidence_list ::
  "specialist_domain option \<Rightarrow> string option \<Rightarrow> string option \<Rightarrow> nat \<Rightarrow> evidence_service \<Rightarrow> specialist_evidence list" where
  "evidence_list domain metric_name scope limit s =
     newest ev_observed_at ev_evidence_id limit
       (filter (\<lambda>e. (domain = None \<or> domain = Some (ev_domain e)) \<and>
                    (metric_name = None \<or> metric_name = Some (ev_metric_name e)) \<and>
                    (scope = None \<or> scope = Some (ev_scope e))) (dict_values (sv_items s)))"

section \<open>Forecast settlement\<close>

record agent_evaluation =
  av_repository :: "evaluation_store option"
  av_minimum_samples :: int
  av_forecasts :: "agent_forecast dict"
  av_outcomes :: "agent_forecast_outcome dict"
  av_settled :: "((string \<times> string) \<times> string list) list"

text \<open>\<^verbatim>\<open>statistics.fmean\<close> of a list that is not empty, and the rounded square.\<close>

definition fmean :: "pyfloat list \<Rightarrow> pyfloat" where
  "fmean xs = flt (sum_list (map fval xs)) / flt (of_nat (length xs))"

definition squared :: "pyfloat \<Rightarrow> pyfloat" where
  "squared x = x * x"

fun digits_value :: "nat \<Rightarrow> string \<Rightarrow> nat" where
  "digits_value n [] = n"
| "digits_value n (c # cs) = digits_value (10 * n + (of_char c - 48)) cs"

text \<open>On the timeframes the candle contract admits, \<^verbatim>\<open>int\<close> reads plain decimal digits.\<close>

definition timeframe_seconds :: "string \<Rightarrow> int result" where
  "timeframe_seconds timeframe =
     (if timeframe = [] then raise ValueError ''invalid literal for int()''
      else if butlast timeframe = [] \<or> \<not> list_all is_digit (butlast timeframe) then raise ValueError ''invalid literal for int()''
      else let amount = int (digits_value 0 (butlast timeframe)); unit = last timeframe
           in if unit = CHR ''m'' then Inr (amount * 60)
              else if unit = CHR ''h'' then Inr (amount * 3600)
              else if unit = CHR ''d'' then Inr (amount * 86400)
              else if unit = CHR ''w'' then Inr (amount * 604800)
              else raise KeyError [unit])"

definition settled_bucket :: "((string \<times> string) \<times> string list) list \<Rightarrow> string \<times> string \<Rightarrow> string list" where
  "settled_bucket index k = (case dict_get index k of None \<Rightarrow> [] | Some ids \<Rightarrow> ids)"

definition append_settled :: "string \<times> string \<Rightarrow> string \<Rightarrow> ((string \<times> string) \<times> string list) list
    \<Rightarrow> ((string \<times> string) \<times> string list) list" where
  "append_settled k i index = dict_set k (settled_bucket index k @ [i]) index"

definition rebuild_settled_index :: "agent_evaluation \<Rightarrow> agent_evaluation" where
  "rebuild_settled_index s =
     s\<lparr>av_settled :=
        fold (\<lambda>(i, x) index. case dict_get (av_forecasts s) i of
                 None \<Rightarrow> index
               | Some f \<Rightarrow> append_settled (fc_agent_name f, fc_agent_version f) i index)
          (sort_key (\<lambda>(i, x). fo_realized_at x) (sort_key (\<lambda>(i, x). fo_outcome_id x) (av_outcomes s))) []\<rparr>"

definition evaluation_initialize :: "agent_evaluation \<Rightarrow> (agent_evaluation, unit) outcome" where
  "evaluation_initialize s =
     (case av_repository s of
        None \<Rightarrow> (s, Inr ())
      | Some d \<Rightarrow>
          (case bind_result (list_agent_forecasts 100000 d) (\<lambda>fs.
                bind_result (list_agent_forecast_outcomes 100000 d) (\<lambda>xs. Inr (fs, xs))) of
             Inl e \<Rightarrow> (s, Inl e)
           | Inr (fs, xs) \<Rightarrow>
               (rebuild_settled_index (s\<lparr>av_forecasts := dict_of fc_forecast_id fs, av_outcomes := dict_of fo_forecast_id xs\<rparr>),
                Inr ())))"

definition probability :: "agent_output \<Rightarrow> pyfloat" where
  "probability out =
     (let conviction = flt (of_int (ao_confidence out) / 200)
      in if ao_signal out = SigBUY then flt (1 / 2) + conviction
         else if ao_signal out = SigSELL then flt (1 / 2) - conviction
         else flt (1 / 2))"

definition cohort :: "candle \<Rightarrow> agent_evaluation \<Rightarrow> agent_forecast list" where
  "cohort c s =
     filter (\<lambda>f. dict_get (av_outcomes s) (fc_forecast_id f) = None \<and> fc_symbol f = cd_symbol c \<and>
                 fc_timeframe f = cd_timeframe c \<and> fc_target_at f = cd_closed_at c)
       (dict_values (av_forecasts s))"

text \<open>
  One outcome of a cohort. The grouping by target of the source has a single members, because the
  cohort is selected by one target.
\<close>

definition realized :: "candle \<Rightarrow> agent_forecast list \<Rightarrow> pyfloat \<times> pyfloat" where
  "realized c members =
     (let ret = cd_close c / fc_reference_price (hd members) - 1
      in (ret, if 0 < ret then 1 else if ret < 0 then 0 else flt (1 / 2)))"

definition direction_correct :: "agent_forecast \<Rightarrow> pyfloat \<Rightarrow> bool option" where
  "direction_correct f realized_up =
     (if fc_probability_up f \<noteq> flt (1 / 2) \<and> realized_up \<noteq> flt (1 / 2)
      then Some (if realized_up = 1 then flt (1 / 2) < fc_probability_up f else fc_probability_up f < flt (1 / 2))
      else None)"

definition leave_one_out :: "agent_forecast list \<Rightarrow> agent_forecast \<Rightarrow> pyfloat" where
  "leave_one_out members f =
     (let others = map fc_probability_up (filter (\<lambda>g. fc_forecast_id g \<noteq> fc_forecast_id f) members)
      in if others = [] then flt (1 / 2) else fmean others)"

definition forecast_outcome ::
  "(json \<Rightarrow> string) \<Rightarrow> candle \<Rightarrow> agent_forecast list \<Rightarrow> agent_forecast \<Rightarrow> agent_forecast_outcome result" where
  "forecast_outcome H c members f =
     (let ensemble = fmean (map fc_probability_up members);
          realized_return = fst (realized c members);
          realized_up = snd (realized c members);
          ensemble_loss = squared (ensemble - realized_up);
          leave = leave_one_out members f;
          leave_loss = squared (leave - realized_up)
      in new_agent_forecast_outcome H
           \<lparr>fo_outcome_id = [], fo_forecast_id = fc_forecast_id f, fo_realized_at = cd_closed_at c,
            fo_realized_price = cd_close c, fo_realized_return = realized_return, fo_realized_up = realized_up,
            fo_correct = direction_correct f realized_up,
            fo_brier_loss = squared (fc_probability_up f - realized_up),
            fo_ensemble_probability_up = ensemble, fo_ensemble_brier_loss = ensemble_loss,
            fo_leave_one_out_probability_up = leave, fo_leave_one_out_brier_loss = leave_loss,
            fo_marginal_contribution = leave_loss - ensemble_loss, fo_cohort_size = int (length members),
            fo_created_at = cd_received_at c\<rparr>)"

definition index_outcome :: "agent_forecast_outcome \<Rightarrow> agent_evaluation \<Rightarrow> agent_evaluation" where
  "index_outcome x s =
     (case dict_get (av_forecasts s) (fo_forecast_id x) of
        None \<Rightarrow> s
      | Some f \<Rightarrow>
          (let k = (fc_agent_name f, fc_agent_version f); ids = settled_bucket (av_settled s) k
           in s\<lparr>av_settled := dict_set k (if fo_forecast_id x \<in> set ids then ids else ids @ [fo_forecast_id x]) (av_settled s)\<rparr>))"

definition settle :: "(json \<Rightarrow> string) \<Rightarrow> candle \<Rightarrow> agent_evaluation \<Rightarrow> (agent_evaluation, agent_forecast_outcome list) outcome" where
  "settle H c s =
     (let members = cohort c s
      in if members = [] then (s, Inr [])
         else case map_result (forecast_outcome H c members) members of
                Inl e \<Rightarrow> (s, Inl e)
              | Inr outcomes \<Rightarrow>
                  (case with_store (av_repository s) (save_agent_forecast_outcomes outcomes) outcomes of
                     (repo, Inl e) \<Rightarrow> (s\<lparr>av_repository := repo\<rparr>, Inl e)
                   | (repo, Inr stored) \<Rightarrow>
                       (fold index_outcome stored
                          (s\<lparr>av_repository := repo,
                             av_outcomes := fold (\<lambda>x m. dict_set (fo_forecast_id x) x m) stored (av_outcomes s)\<rparr>),
                        Inr stored)))"

definition forecast_of ::
  "(json \<Rightarrow> string) \<Rightarrow> candle \<Rightarrow> string \<Rightarrow> int \<Rightarrow> agent_registration dict \<Rightarrow> agent_output \<Rightarrow> agent_forecast result" where
  "forecast_of H c correlation_id horizon registrations out =
     (case dict_get registrations (ao_agent_name out) of
        None \<Rightarrow> raise KeyError (ao_agent_name out)
      | Some a \<Rightarrow>
          new_agent_forecast H
            \<lparr>fc_forecast_id = [], fc_correlation_id = correlation_id, fc_agent_name = ao_agent_name out,
             fc_agent_version = ag_version a, fc_definition_hash = ag_definition_hash a, fc_symbol = cd_symbol c,
             fc_timeframe = cd_timeframe c, fc_signal = ao_signal out, fc_confidence = ao_confidence out,
             fc_probability_up = probability out, fc_reference_price = cd_close c, fc_forecast_at = cd_closed_at c,
             fc_target_at = cd_closed_at c + horizon * 1000000, fc_horizon_seconds = horizon,
             fc_decision_role = ag_decision_role a, fc_created_at = cd_received_at c\<rparr>)"

definition observe ::
  "(json \<Rightarrow> string) \<Rightarrow> candle \<Rightarrow> string \<Rightarrow> agent_output list \<Rightarrow> agent_registration dict \<Rightarrow> agent_evaluation
     \<Rightarrow> (agent_evaluation, agent_forecast_outcome list \<times> agent_forecast list) outcome" where
  "observe H c correlation_id outputs registrations s =
     bind_outcome (settle H c s) (\<lambda>s1 outcomes.
       case bind_result (timeframe_seconds (cd_timeframe c)) (\<lambda>horizon.
              map_result (forecast_of H c correlation_id horizon registrations) outputs) of
         Inl e \<Rightarrow> (s1, Inl e)
       | Inr forecasts \<Rightarrow>
           (case with_store (av_repository s1) (save_agent_forecasts forecasts) forecasts of
              (repo, Inl e) \<Rightarrow> (s1\<lparr>av_repository := repo\<rparr>, Inl e)
            | (repo, Inr stored) \<Rightarrow>
                (s1\<lparr>av_repository := repo,
                    av_forecasts := fold (\<lambda>f m. dict_set (fc_forecast_id f) f m) stored (av_forecasts s1)\<rparr>,
                 Inr (outcomes, stored))))"

section \<open>Scorecards and histories\<close>

definition group_outcomes :: "agent_evaluation \<Rightarrow> ((string \<times> string) \<times> agent_forecast_outcome list) list" where
  "group_outcomes s =
     fold (\<lambda>(i, x) groups.
         case dict_get (av_forecasts s) i of
           None \<Rightarrow> groups
         | Some f \<Rightarrow>
             (let k = (fc_agent_name f, fc_agent_version f)
              in dict_set k ((case dict_get groups k of None \<Rightarrow> [] | Some xs \<Rightarrow> xs) @ [x]) groups))
       (av_outcomes s) []"

definition accuracy :: "agent_forecast_outcome list \<Rightarrow> pyfloat" where
  "accuracy directional =
     flt (of_nat (length (filter (\<lambda>x. fo_correct x = Some True) directional)) / of_nat (length directional))"

definition scorecard :: "int \<Rightarrow> (string \<times> string) \<times> agent_forecast_outcome list \<Rightarrow> agent_scorecard result" where
  "scorecard minimum_samples = (\<lambda>((name, version), outcomes).
     let directional = filter (\<lambda>x. fo_correct x \<noteq> None) outcomes; count = int (length outcomes)
     in validate valid_agent_scorecard
          \<lparr>cr_agent_name = name, cr_agent_version = version, cr_sample_count = count,
           cr_directional_sample_count = int (length directional),
           cr_accuracy = (if directional = [] then None else Some (accuracy directional)),
           cr_mean_brier_loss = Some (fmean (map fo_brier_loss outcomes)),
           cr_mean_marginal_contribution = Some (fmean (map fo_marginal_contribution outcomes)),
           cr_evaluated = (minimum_samples \<le> count), cr_minimum_samples = minimum_samples\<rparr>)"

definition scorecards :: "agent_evaluation \<Rightarrow> agent_scorecard list result" where
  "scorecards s =
     bind_result (map_result (scorecard (av_minimum_samples s)) (group_outcomes s)) (\<lambda>cards.
       Inr (sort_key cr_agent_name cards))"

definition forecast_list :: "nat \<Rightarrow> agent_evaluation \<Rightarrow> agent_forecast list" where
  "forecast_list limit s = newest fc_forecast_at fc_forecast_id limit (dict_values (av_forecasts s))"

definition history_pair :: "agent_evaluation \<Rightarrow> string \<Rightarrow> (agent_forecast \<times> agent_forecast_outcome) result" where
  "history_pair s i =
     (case (dict_get (av_forecasts s) i, dict_get (av_outcomes s) i) of
        (Some f, Some x) \<Rightarrow> Inr (f, x)
      | _ \<Rightarrow> raise KeyError i)"

definition settled_history ::
  "string \<Rightarrow> string \<Rightarrow> int \<Rightarrow> agent_evaluation \<Rightarrow> (agent_forecast \<times> agent_forecast_outcome) list result" where
  "settled_history agent_name agent_version limit s =
     (if \<not> (1 \<le> limit \<and> limit \<le> 100000) then raise ValueError ''Settled-history limit must be 1..100000''
      else map_result (history_pair s) (slice_from (- limit) (settled_bucket (av_settled s) (agent_name, agent_version))))"

end
