(* ===== verification/Evaluation_Properties.thy ===== *)
theory Evaluation_Properties
  imports Agent_Evaluation "HOL-Library.Multiset" "HOL-Library.Product_Lexorder"
begin

text \<open>
  Guarantees of the forecast settlement: an outcome is recorded once, with the candle that closes at the
  target of its forecast; memory and tables hold the same records; a restart gives the same scorecards.
\<close>

section \<open>The tables\<close>

lemma append_forecasts_Inr:
  assumes "append_forecasts fs d = Inr (d', stored)" "indexed fc_forecast_id (vs_forecasts d)"
  shows "stored = fs \<and> indexed fc_forecast_id (vs_forecasts d') \<and> vs_outcomes d' = vs_outcomes d \<and>
    set (dict_values (vs_forecasts d')) = set (dict_values (vs_forecasts d)) \<union> set fs"
  using assms
proof (induction fs arbitrary: d stored)
  case (Cons f fs)
  let ?d = "d\<lparr>vs_forecasts := dict_set (fc_forecast_id f) f (vs_forecasts d)\<rparr>"
  show ?case
  proof (cases "dict_get (vs_forecasts d) (fc_forecast_id f)")
    case None
    then have "indexed fc_forecast_id (vs_forecasts ?d)"
      "set (dict_values (vs_forecasts ?d)) = insert f (set (dict_values (vs_forecasts d)))"
      using Cons.prems(2) by (simp_all add: indexed_set set_values_set)
    with Cons.IH [of ?d] Cons.prems(1) None show ?thesis by (auto simp: bind_result_Inr)
  next
    case (Some g)
    then have "f \<in> set (dict_values (vs_forecasts d))" if "g = f" using that dict_get_in_values by fastforce
    with Cons.IH [of d] Cons.prems Some show ?thesis by (auto simp: bind_result_Inr split: if_splits)
  qed
qed simp

lemma append_outcomes_Inr:
  assumes "append_outcomes xs d = Inr (d', stored)" "indexed fo_outcome_id (vs_outcomes d)"
  shows "stored = xs \<and> indexed fo_outcome_id (vs_outcomes d') \<and> vs_forecasts d' = vs_forecasts d \<and>
    set (dict_values (vs_outcomes d')) = set (dict_values (vs_outcomes d)) \<union> set xs"
  using assms
proof (induction xs arbitrary: d stored)
  case (Cons x xs)
  let ?d = "d\<lparr>vs_outcomes := dict_set (fo_outcome_id x) x (vs_outcomes d)\<rparr>"
  show ?case
  proof (cases "stored_outcome d x")
    case None
    then have "dict_get (vs_outcomes d) (fo_outcome_id x) = None" by (simp add: stored_outcome_def split: option.splits)
    then have "indexed fo_outcome_id (vs_outcomes ?d)"
      "set (dict_values (vs_outcomes ?d)) = insert x (set (dict_values (vs_outcomes d)))"
      using Cons.prems(2) by (simp_all add: indexed_set set_values_set)
    with Cons.IH [of ?d] Cons.prems(1) None show ?thesis by (auto simp: bind_result_Inr split: if_splits)
  next
    case (Some y)
    then have "y \<in> set (dict_values (vs_outcomes d))"
      by (auto simp: stored_outcome_def find_Some_iff split: option.splits intro: dict_get_in_values)
    with Cons.IH [of d] Cons.prems Some show ?thesis by (auto simp: bind_result_Inr split: if_splits)
  qed
qed simp

section \<open>The durable service\<close>

definition settled_ids :: "agent_evaluation \<Rightarrow> string \<times> string \<Rightarrow> string set" where
  "settled_ids s k =
     {i. \<exists>f x. dict_get (av_forecasts s) i = Some f \<and> dict_get (av_outcomes s) i = Some x \<and>
               k = (fc_agent_name f, fc_agent_version f)}"

definition settles :: "agent_forecast_outcome \<Rightarrow> agent_forecast \<Rightarrow> bool" where
  "settles x f \<longleftrightarrow>
     fo_forecast_id x = fc_forecast_id f \<and> fo_realized_at x = fc_target_at f \<and> unit_interval (fo_brier_loss x) \<and>
     - 1 \<le> fo_marginal_contribution x \<and> fo_marginal_contribution x \<le> 1"

definition mirrors :: "evaluation_store \<Rightarrow> agent_evaluation \<Rightarrow> bool" where
  "mirrors d s \<longleftrightarrow>
     indexed fc_forecast_id (vs_forecasts d) \<and> indexed fo_outcome_id (vs_outcomes d) \<and>
     set (dict_values (vs_forecasts d)) = set (dict_values (av_forecasts s)) \<and>
     set (dict_values (vs_outcomes d)) = set (dict_values (av_outcomes s))"

definition memory_ok :: "agent_evaluation \<Rightarrow> bool" where
  "memory_ok s \<longleftrightarrow>
     indexed fc_forecast_id (av_forecasts s) \<and> indexed fo_forecast_id (av_outcomes s) \<and>
     (\<forall>x \<in> set (dict_values (av_outcomes s)). \<exists>f. dict_get (av_forecasts s) (fo_forecast_id x) = Some f \<and> settles x f) \<and>
     (\<forall>k. distinct (settled_bucket (av_settled s) k) \<and> set (settled_bucket (av_settled s) k) = settled_ids s k)"

definition durable_evaluation :: "agent_evaluation \<Rightarrow> bool" where
  "durable_evaluation s \<longleftrightarrow> memory_ok s \<and> (\<exists>d. av_repository s = Some d \<and> mirrors d s)"

lemma forecast_outcome_Inr:
  assumes "forecast_outcome H c members f = Inr x" "fc_target_at f = cd_closed_at c"
  shows "settles x f" "fo_realized_price x = cd_close c"
  using assms by (auto simp: forecast_outcome_def new_agent_forecast_outcome_def bind_result_Inr Let_def settles_def valid_defs)

lemma cohort_member:
  "indexed fc_forecast_id (av_forecasts s) \<Longrightarrow> f \<in> set (cohort c s) \<longleftrightarrow>
     dict_get (av_forecasts s) (fc_forecast_id f) = Some f \<and> dict_get (av_outcomes s) (fc_forecast_id f) = None \<and>
     fc_symbol f = cd_symbol c \<and> fc_timeframe f = cd_timeframe c \<and> fc_target_at f = cd_closed_at c"
  by (auto simp: cohort_def indexed_member)

lemma distinct_values: "indexed key d \<Longrightarrow> distinct (map key (dict_values d))"
proof -
  assume d: "indexed key d"
  then have "map key (dict_values d) = map fst d"
    by (auto simp: indexed_def dict_values_def intro!: map_cong)
  then show ?thesis using d by (simp add: indexed_def dict_wf_def)
qed

lemma distinct_cohort: "indexed fc_forecast_id (av_forecasts s) \<Longrightarrow> distinct (map fc_forecast_id (cohort c s))"
  using distinct_values [of fc_forecast_id "av_forecasts s"] by (simp add: cohort_def distinct_map_filter)

lemma index_outcome_fields [simp]:
  "av_forecasts (index_outcome x s) = av_forecasts s" "av_outcomes (index_outcome x s) = av_outcomes s"
  "av_repository (index_outcome x s) = av_repository s" "av_minimum_samples (index_outcome x s) = av_minimum_samples s"
  by (simp_all add: index_outcome_def Let_def split: option.splits)

lemma fold_index_fields [simp]:
  "av_forecasts (fold index_outcome xs s) = av_forecasts s" "av_outcomes (fold index_outcome xs s) = av_outcomes s"
  "av_repository (fold index_outcome xs s) = av_repository s" "av_minimum_samples (fold index_outcome xs s) = av_minimum_samples s"
  by (induction xs arbitrary: s) simp_all

lemma settled_bucket_set [dict_simps]:
  "settled_bucket (dict_set k ids index) k' = (if k' = k then ids else settled_bucket index k')"
  by (simp add: settled_bucket_def dict_simps)

definition agent_of :: "agent_evaluation \<Rightarrow> string \<Rightarrow> (string \<times> string) option" where
  "agent_of s i = map_option (\<lambda>f. (fc_agent_name f, fc_agent_version f)) (dict_get (av_forecasts s) i)"

lemma index_outcome_bucket:
  assumes "distinct (settled_bucket (av_settled s) k)"
  shows "distinct (settled_bucket (av_settled (index_outcome x s)) k) \<and>
    set (settled_bucket (av_settled (index_outcome x s)) k) =
      set (settled_bucket (av_settled s) k) \<union> {i. i = fo_forecast_id x \<and> agent_of s i = Some k}"
  using assms by (auto simp: index_outcome_def agent_of_def Let_def dict_simps split: option.splits)

lemma fold_index_bucket:
  assumes "distinct (settled_bucket (av_settled s) k)"
  shows "distinct (settled_bucket (av_settled (fold index_outcome xs s)) k) \<and>
    set (settled_bucket (av_settled (fold index_outcome xs s)) k) =
      set (settled_bucket (av_settled s) k) \<union> {i \<in> fo_forecast_id ` set xs. agent_of s i = Some k}"
  using assms
proof (induction xs arbitrary: s)
  case (Cons x xs)
  have "agent_of (index_outcome x s) = agent_of s" by (rule ext) (simp add: agent_of_def)
  with Cons.IH [of "index_outcome x s"] index_outcome_bucket [OF Cons.prems, of x] show ?case by auto
qed simp

lemma mirrors_faults [simp]: "mirrors (d\<lparr>fs_faults := fs\<rparr>) s = mirrors d s"
  by (simp add: mirrors_def)

lemma mirrors_repository [simp]: "mirrors d (s\<lparr>av_repository := repo\<rparr>) = mirrors d s"
  by (simp add: mirrors_def)

lemma memory_ok_repository [simp]: "memory_ok (s\<lparr>av_repository := repo\<rparr>) = memory_ok s"
  by (simp add: memory_ok_def settled_ids_def)

text \<open>A transaction of the service: the tables and the memory move together or not at all.\<close>

lemma save_outcomes_cases:
  assumes "save_agent_forecast_outcomes xs d = (d', r)" "mirrors d s"
  obtains (failed) e where "r = Inl e" "mirrors d' s"
  | (committed) "r = Inr xs" "vs_forecasts d' = vs_forecasts d" "indexed fo_outcome_id (vs_outcomes d')"
      "set (dict_values (vs_outcomes d')) = set (dict_values (vs_outcomes d)) \<union> set xs"
proof (cases "xs = []")
  case True
  with assms committed show ?thesis by (auto simp: save_agent_forecast_outcomes_def mirrors_def)
next
  case False
  with assms(1) have "fs_transaction (append_outcomes xs) d = (d', r)" by (simp add: save_agent_forecast_outcomes_def)
  then show ?thesis
  proof (cases rule: fs_transaction_cases)
    case (failed e)
    with assms(2) that(1) show ?thesis by simp
  next
    case (committed x)
    from append_outcomes_Inr [OF committed(1)] assms(2) committed(2) that(2) show ?thesis by (simp add: mirrors_def)
  qed
qed

lemma save_forecasts_cases:
  assumes "save_agent_forecasts fs d = (d', r)" "mirrors d s"
  obtains (failed) e where "r = Inl e" "mirrors d' s"
  | (committed) "r = Inr fs" "vs_outcomes d' = vs_outcomes d" "indexed fc_forecast_id (vs_forecasts d')"
      "set (dict_values (vs_forecasts d')) = set (dict_values (vs_forecasts d)) \<union> set fs"
proof (cases "fs = []")
  case True
  with assms committed show ?thesis by (auto simp: save_agent_forecasts_def mirrors_def)
next
  case False
  with assms(1) have "fs_transaction (append_forecasts fs) d = (d', r)" by (simp add: save_agent_forecasts_def)
  then show ?thesis
  proof (cases rule: fs_transaction_cases)
    case (failed e)
    with assms(2) that(1) show ?thesis by simp
  next
    case (committed x)
    from append_forecasts_Inr [OF committed(1)] assms(2) committed(2) that(2) show ?thesis by (simp add: mirrors_def)
  qed
qed

lemma set_values_fold_set:
  assumes "indexed key d" "inj_on key (set (dict_values d) \<union> set xs)"
  shows "set (dict_values (fold (\<lambda>x m. dict_set (key x) x m) xs d)) = set (dict_values d) \<union> set xs"
  using assms
proof (induction xs arbitrary: d)
  case (Cons x xs)
  have "dict_get d (key x) \<in> {None, Some x}"
  proof (cases "dict_get d (key x)")
    case (Some y)
    then have "y \<in> set (dict_values d)" "key y = key x" using Cons.prems(1) by (simp_all add: indexed_get)
    then have "y = x" using inj_onD [OF Cons.prems(2), of y x] by simp
    with Some show ?thesis by simp
  qed simp
  with Cons.prems(1) have "set (dict_values (dict_set (key x) x d)) = insert x (set (dict_values d))"
    by (rule set_values_set)
  with Cons.IH [OF indexed_set [OF Cons.prems(1)], of x] Cons.prems(2) show ?case by simp
qed simp

lemma list_all2_map_eq: "list_all2 P xs ys \<Longrightarrow> (\<And>x y. P x y \<Longrightarrow> f x = g y) \<Longrightarrow> map g ys = map f xs"
  by (induction rule: list_all2_induct) simp_all

lemma settled_ids_alt: "settled_ids s k = {i. agent_of s i = Some k \<and> dict_get (av_outcomes s) i \<noteq> None}"
  by (auto simp: settled_ids_def agent_of_def)

lemma settle_cases:
  assumes s: "durable_evaluation s" and run: "settle H c s = (s', r)"
  obtains (same) "durable_evaluation s'" "av_forecasts s' = av_forecasts s" "av_outcomes s' = av_outcomes s"
      "av_minimum_samples s' = av_minimum_samples s" "r = Inr [] \<longrightarrow> cohort c s = []" "\<forall>xs. r = Inr xs \<longrightarrow> xs = []"
  | (settled) xs where "durable_evaluation s'" "r = Inr xs" "av_forecasts s' = av_forecasts s"
      "av_minimum_samples s' = av_minimum_samples s"
      "list_all2 (\<lambda>f x. forecast_outcome H c (cohort c s) f = Inr x) (cohort c s) xs"
      "map fo_forecast_id xs = map fc_forecast_id (cohort c s)"
      "av_outcomes s' = fold (\<lambda>x m. dict_set (fo_forecast_id x) x m) xs (av_outcomes s)"
proof -
  obtain d where mem: "memory_ok s" and d: "av_repository s = Some d" "mirrors d s"
    using s by (auto simp: durable_evaluation_def)
  have ix: "indexed fc_forecast_id (av_forecasts s)" "indexed fo_forecast_id (av_outcomes s)"
    using mem by (simp_all add: memory_ok_def)
  let ?members = "cohort c s"
  show ?thesis
  proof (cases "?members = [] \<or> (\<exists>e. map_result (forecast_outcome H c ?members) ?members = Inl e)")
    case True
    then have "s' = s" "r = Inr [] \<longrightarrow> ?members = []" "\<forall>xs. r = Inr xs \<longrightarrow> xs = []"
      using run by (auto simp: settle_def Let_def split: if_splits)
    with s same show ?thesis by simp
  next
    case False
    then obtain xs where ne: "?members \<noteq> []" and xs: "map_result (forecast_outcome H c ?members) ?members = Inr xs"
      by (cases "map_result (forecast_outcome H c ?members) ?members") auto
    obtain d' q where q: "save_agent_forecast_outcomes xs d = (d', q)" by force
    from q d(2) show ?thesis
    proof (cases rule: save_outcomes_cases)
      case (failed e)
      with run ne xs d q have "s' = s\<lparr>av_repository := Some d'\<rparr>" "r = Inl e"
        by (auto simp: settle_def with_store_def Let_def)
      with same mem failed(2) show ?thesis by (simp add: durable_evaluation_def)
    next
      case committed
      let ?s1 = "s\<lparr>av_repository := Some d', av_outcomes := fold (\<lambda>x m. dict_set (fo_forecast_id x) x m) xs (av_outcomes s)\<rparr>"
      have run': "s' = fold index_outcome xs ?s1" "r = Inr xs"
        using run ne xs d q committed(1) by (auto simp: settle_def with_store_def Let_def)
      have each: "list_all2 (\<lambda>f x. forecast_outcome H c ?members f = Inr x) ?members xs"
        using xs by (simp add: map_result_Inr)
      have each': "list_all2 (\<lambda>f x. f \<in> set ?members \<and> settles x f) ?members xs"
        using list_all2_members [OF each]
        by (rule list_all2_mono) (auto simp: cohort_member [OF ix(1)] intro: forecast_outcome_Inr)
      then have ids: "map fo_forecast_id xs = map fc_forecast_id ?members"
        by (rule list_all2_map_eq) (simp add: settles_def)
      have new: "\<exists>f. dict_get (av_forecasts s) (fo_forecast_id x) = Some f \<and> settles x f \<and>
          dict_get (av_outcomes s) (fo_forecast_id x) = None" if "x \<in> set xs" for x
        using list_all2_source [OF each' that] by (auto simp: cohort_member [OF ix(1)] settles_def)
      have inj: "inj_on fo_forecast_id (set (dict_values (av_outcomes s)) \<union> set xs)"
        using indexed_inj [OF ix(2)] distinct_cohort [OF ix(1), of c] new
        by (subst inj_on_Un) (auto simp: ids [symmetric] distinct_map indexed_member [OF ix(2)] dest!: new)
      have out: "indexed fo_forecast_id (av_outcomes ?s1)"
        "set (dict_values (av_outcomes ?s1)) = set (dict_values (av_outcomes s)) \<union> set xs"
        using ix(2) inj by (simp_all add: indexed_fold_set set_values_fold_set)
      have known: "dict_get (av_outcomes ?s1) i = None \<longleftrightarrow> i \<notin> fo_forecast_id ` set xs \<and> dict_get (av_outcomes s) i = None" for i
        by (simp add: dict_get_fold_set_None)
      have buckets: "distinct (settled_bucket (av_settled s') k) \<and> set (settled_bucket (av_settled s') k) = settled_ids s' k" for k
      proof -
        have agents: "agent_of ?s1 = agent_of s" "agent_of s' = agent_of s" by (simp_all add: agent_of_def fun_eq_iff run')
        have old: "distinct (settled_bucket (av_settled s) k)" "set (settled_bucket (av_settled s) k) = settled_ids s k"
          using mem unfolding memory_ok_def by blast+
        have "distinct (settled_bucket (av_settled s') k)"
          "set (settled_bucket (av_settled s') k) = settled_ids s k \<union> {i \<in> fo_forecast_id ` set xs. agent_of s i = Some k}"
          using fold_index_bucket [of ?s1 k xs] old agents by (simp_all add: run')
        moreover have "dict_get (av_outcomes s') i = None \<longleftrightarrow> i \<notin> fo_forecast_id ` set xs \<and> dict_get (av_outcomes s) i = None" for i
          using known [of i] by (simp add: run')
        ultimately show ?thesis unfolding settled_ids_alt agents by auto
      qed
      have outcomes: "\<exists>f. dict_get (av_forecasts s') (fo_forecast_id x) = Some f \<and> settles x f"
        if "x \<in> set (dict_values (av_outcomes s'))" for x
      proof (cases "x \<in> set xs")
        case True
        then show ?thesis using new by (simp add: run') blast
      next
        case False
        with that out(2) have "x \<in> set (dict_values (av_outcomes s))" by (simp add: run')
        with mem show ?thesis by (simp add: memory_ok_def run')
      qed
      have "indexed fc_forecast_id (av_forecasts s')" "indexed fo_forecast_id (av_outcomes s')"
        using ix(1) out(1) by (simp_all add: run')
      then have "memory_ok s'" using buckets outcomes unfolding memory_ok_def by blast
      moreover have "mirrors d' s'"
        using d(2) committed out by (simp add: mirrors_def run')
      ultimately have "durable_evaluation s'" by (simp add: durable_evaluation_def run')
      with settled run' each ids show ?thesis by simp
    qed
  qed
qed

section \<open>Runs of the service\<close>

type_synonym observation = "candle \<times> string \<times> agent_output list \<times> agent_registration dict"

definition observe_step :: "(json \<Rightarrow> string) \<Rightarrow> observation \<Rightarrow> agent_evaluation \<Rightarrow> agent_evaluation" where
  "observe_step H = (\<lambda>(c, correlation_id, outputs, registrations) s.
     fst (observe H c correlation_id outputs registrations s))"

definition run_observations :: "(json \<Rightarrow> string) \<Rightarrow> observation list \<Rightarrow> agent_evaluation \<Rightarrow> agent_evaluation" where
  "run_observations H inputs s = fold (observe_step H) inputs s"

lemma append_forecasts_durable:
  assumes s: "durable_evaluation s" "av_repository s = Some d" and save: "save_agent_forecasts fs d = (d', Inr fs')"
    and s': "s' = s\<lparr>av_repository := Some d', av_forecasts := fold (\<lambda>f m. dict_set (fc_forecast_id f) f m) fs' (av_forecasts s)\<rparr>"
  shows "durable_evaluation s' \<and> dict_get (av_forecasts s) \<subseteq>\<^sub>m dict_get (av_forecasts s')"
proof -
  have mem: "memory_ok s" and mir: "mirrors d s" using s by (simp_all add: durable_evaluation_def)
  have ix: "indexed fc_forecast_id (av_forecasts s)" using mem by (simp add: memory_ok_def)
  from save mir show ?thesis
  proof (cases rule: save_forecasts_cases)
    case committed
    have inj: "inj_on fc_forecast_id (set (dict_values (av_forecasts s)) \<union> set fs)"
      using indexed_inj [OF committed(3)] committed(4) mir by (simp add: mirrors_def)
    have fs': "fs' = fs" using committed(1) by simp
    have ix': "indexed fc_forecast_id (av_forecasts s')"
      and vals: "set (dict_values (av_forecasts s')) = set (dict_values (av_forecasts s)) \<union> set fs"
      using ix inj by (simp_all add: s' fs' indexed_fold_set set_values_fold_set)
    have keep: "dict_get (av_forecasts s') i = Some f" if "dict_get (av_forecasts s) i = Some f" for i f
      using that vals by (simp add: indexed_get [OF ix] indexed_get [OF ix'])
    have outs: "av_outcomes s' = av_outcomes s" "av_settled s' = av_settled s" by (simp_all add: s')
    have known: "\<exists>f. dict_get (av_forecasts s) i = Some f" if known_outcome: "dict_get (av_outcomes s) i \<noteq> None" for i
    proof -
      obtain x where x: "dict_get (av_outcomes s) i = Some x" using known_outcome by blast
      have "indexed fo_forecast_id (av_outcomes s)" using mem by (simp add: memory_ok_def)
      then have "fo_forecast_id x = i" using x by (simp add: indexed_get)
      with mem dict_get_in_values [OF x] show ?thesis by (auto simp: memory_ok_def)
    qed
    have "agent_of s' i = agent_of s i" if "dict_get (av_outcomes s) i \<noteq> None" for i
      using known [OF that] keep by (auto simp: agent_of_def)
    then have "settled_ids s' k = settled_ids s k" for k by (auto simp: settled_ids_alt outs)
    then have "memory_ok s'"
      using mem ix' keep unfolding memory_ok_def outs by blast
    moreover have "mirrors d' s'"
      using mir committed(2,3,4) vals by (simp add: mirrors_def outs)
    ultimately show ?thesis using keep by (auto simp: durable_evaluation_def map_le_def dom_def) (simp add: s')
  qed simp
qed

definition settled_by :: "agent_evaluation \<Rightarrow> candle set \<Rightarrow> string \<Rightarrow> agent_forecast_outcome \<Rightarrow> bool" where
  "settled_by s' cs i x \<longleftrightarrow>
     (\<exists>c \<in> cs. \<exists>f. dict_get (av_forecasts s') i = Some f \<and> settles x f \<and> cd_symbol c = fc_symbol f \<and>
        cd_timeframe c = fc_timeframe f \<and> cd_closed_at c = fc_target_at f \<and> fo_realized_price x = cd_close c)"

definition extends :: "agent_evaluation \<Rightarrow> candle set \<Rightarrow> agent_evaluation \<Rightarrow> bool" where
  "extends s cs s' \<longleftrightarrow>
     dict_get (av_forecasts s) \<subseteq>\<^sub>m dict_get (av_forecasts s') \<and> dict_get (av_outcomes s) \<subseteq>\<^sub>m dict_get (av_outcomes s') \<and>
     (\<forall>i x. dict_get (av_outcomes s') i = Some x \<longrightarrow> dict_get (av_outcomes s) i = Some x \<or> settled_by s' cs i x)"

lemma settled_by_mono:
  "settled_by s1 cs i x \<Longrightarrow> dict_get (av_forecasts s1) \<subseteq>\<^sub>m dict_get (av_forecasts s2) \<Longrightarrow> cs \<subseteq> cs' \<Longrightarrow> settled_by s2 cs' i x"
  unfolding settled_by_def map_le_def by (metis domI subsetD)

lemma extends_refl: "extends s {} s"
  by (simp add: extends_def)

lemma extends_trans:
  assumes 1: "extends s cs s1" and 2: "extends s1 cs' s2"
  shows "extends s (cs \<union> cs') s2"
proof -
  have le: "dict_get (av_forecasts s) \<subseteq>\<^sub>m dict_get (av_forecasts s1)" "dict_get (av_outcomes s) \<subseteq>\<^sub>m dict_get (av_outcomes s1)"
    "dict_get (av_forecasts s1) \<subseteq>\<^sub>m dict_get (av_forecasts s2)" "dict_get (av_outcomes s1) \<subseteq>\<^sub>m dict_get (av_outcomes s2)"
    using 1 2 by (simp_all add: extends_def)
  have "dict_get (av_outcomes s) i = Some x \<or> settled_by s2 (cs \<union> cs') i x" if "dict_get (av_outcomes s2) i = Some x" for i x
  proof (cases "dict_get (av_outcomes s1) i = Some x")
    case True
    with 1 have "dict_get (av_outcomes s) i = Some x \<or> settled_by s1 cs i x" by (simp add: extends_def)
    with settled_by_mono [OF _ le(3), of cs i x "cs \<union> cs'"] show ?thesis by blast
  next
    case False
    with 2 that have "settled_by s2 cs' i x" unfolding extends_def by blast
    with settled_by_mono [of s2 cs' i x s2 "cs \<union> cs'"] show ?thesis by simp
  qed
  with map_le_trans [OF le(1,3)] map_le_trans [OF le(2,4)] show ?thesis by (simp add: extends_def)
qed

lemma settle_extends:
  assumes s: "durable_evaluation s" and run: "settle H c s = (s', r)"
  shows "durable_evaluation s' \<and> extends s {c} s'"
  using s run
proof (cases rule: settle_cases)
  case same
  then show ?thesis by (simp add: extends_def)
next
  case (settled xs)
  have ix: "indexed fc_forecast_id (av_forecasts s)" "indexed fo_forecast_id (av_outcomes s)"
    using s by (simp_all add: durable_evaluation_def memory_ok_def)
  have dist: "distinct (map fo_forecast_id xs)"
    using settled(6) distinct_cohort [OF ix(1), of c] by simp
  have new: "\<exists>f. dict_get (av_forecasts s) (fo_forecast_id x) = Some f \<and> settles x f \<and> cd_symbol c = fc_symbol f \<and>
      cd_timeframe c = fc_timeframe f \<and> cd_closed_at c = fc_target_at f \<and> fo_realized_price x = cd_close c \<and>
      dict_get (av_outcomes s) (fo_forecast_id x) = None" if "x \<in> set xs" for x
  proof -
    from list_all2_source [OF list_all2_members [OF settled(5)] that]
    obtain f where f: "f \<in> set (cohort c s)" "forecast_outcome H c (cohort c s) f = Inr x" by blast
    with forecast_outcome_Inr [OF f(2)] show ?thesis
      by (auto simp: cohort_member [OF ix(1)] settles_def)
  qed
  have out: "dict_get (av_outcomes s') i =
      (case List.find (\<lambda>x. fo_forecast_id x = i) xs of Some x \<Rightarrow> Some x | None \<Rightarrow> dict_get (av_outcomes s) i)" for i
    using get_fold_set [OF dist] by (simp add: settled(7))
  have "dict_get (av_outcomes s) i = Some x \<or> settled_by s' {c} i x" if "dict_get (av_outcomes s') i = Some x" for i x
    using that new [of x] by (auto simp: out settled_by_def settled(3) find_Some_iff split: option.splits)
  moreover have "dict_get (av_outcomes s') i = Some x" if "dict_get (av_outcomes s) i = Some x" for i x
  proof -
    have "fo_forecast_id y \<noteq> i" if "y \<in> set xs" for y
      using new [OF that] \<open>dict_get (av_outcomes s) i = Some x\<close> by auto
    then have "List.find (\<lambda>x. fo_forecast_id x = i) xs = None" by (simp add: find_None_iff)
    with that show ?thesis by (simp add: out)
  qed
  ultimately show ?thesis using settled(1,3) by (auto simp: extends_def map_le_def)
qed

lemma observe_extends:
  assumes "durable_evaluation s" "observe H c correlation_id outputs registrations s = (s', r)"
  shows "durable_evaluation s' \<and> extends s {c} s'"
proof -
  obtain s1 q where st: "settle H c s = (s1, q)" by force
  from settle_extends [OF assms(1) st] have 1: "durable_evaluation s1" "extends s {c} s1" by simp_all
  then obtain d where d: "av_repository s1 = Some d" "mirrors d s1" by (auto simp: durable_evaluation_def)
  show ?thesis
  proof (cases "s' = s1")
    case False
    then obtain fs where fs: "bind_result (timeframe_seconds (cd_timeframe c)) (\<lambda>horizon.
        map_result (forecast_of H c correlation_id horizon registrations) outputs) = Inr fs" "is_ok q"
      using assms(2) st by (auto simp: observe_def bind_outcome_def is_ok_iff split: sum.splits)
    obtain d' p where p: "save_agent_forecasts fs d = (d', p)" by force
    show ?thesis
    proof (cases p)
      case (Inl e)
      have "s' = s1\<lparr>av_repository := Some d'\<rparr>"
        using assms(2) st fs d(1) p Inl by (auto simp: observe_def bind_outcome_def is_ok_iff with_store_def)
      moreover have "mirrors d' s1"
        using p d(2) Inl by (cases rule: save_forecasts_cases) simp_all
      ultimately show ?thesis using 1 by (simp add: durable_evaluation_def extends_def settled_by_def)
    next
      case (Inr fs')
      let ?s' = "s1\<lparr>av_repository := Some d', av_forecasts := fold (\<lambda>f m. dict_set (fc_forecast_id f) f m) fs' (av_forecasts s1)\<rparr>"
      have s': "s' = ?s'"
        using assms(2) st fs d(1) p Inr by (auto simp: observe_def bind_outcome_def is_ok_iff with_store_def)
      from append_forecasts_durable [OF 1(1) d(1) p [unfolded Inr] s']
      have 2: "durable_evaluation s'" "dict_get (av_forecasts s1) \<subseteq>\<^sub>m dict_get (av_forecasts s')" by simp_all
      have "av_outcomes s' = av_outcomes s1" by (simp add: s')
      with 2(2) have "extends s1 {} s'" by (simp add: extends_def)
      with extends_trans [OF 1(2), of "{}" s'] 2(1) show ?thesis by simp
    qed
  qed (use 1 in simp)
qed

lemma run_extends:
  assumes "durable_evaluation s"
  shows "durable_evaluation (run_observations H inputs s) \<and> extends s (fst ` set inputs) (run_observations H inputs s)"
  using assms
proof (induction inputs arbitrary: s)
  case Nil
  then show ?case by (simp add: run_observations_def extends_refl)
next
  case (Cons input inputs)
  obtain c correlation_id outputs registrations where input: "input = (c, correlation_id, outputs, registrations)"
    by (cases input)
  let ?s1 = "observe_step H input s"
  have "durable_evaluation ?s1 \<and> extends s {c} ?s1"
    using observe_extends [OF Cons.prems] by (simp add: observe_step_def input) (metis prod.collapse)
  with Cons.IH [of ?s1] extends_trans [of s "{c}" ?s1] show ?case
    by (simp add: run_observations_def input)
qed

text \<open>
  C30. A forecast is settled once and for good. Starting from any durable state, whatever sequence of candles,
  agent outputs and database failures follows, every forecast and every outcome recorded before is still there
  unchanged, and every outcome added settles a recorded forecast with the close of a candle of its own symbol
  and timeframe that closed exactly at its target. The tables and the memory hold the same records throughout,
  and the settled index lists, per agent version, exactly the forecasts that have an outcome, each once.
\<close>

theorem forecasts_settle_once:
  assumes "durable_evaluation s"
  shows "durable_evaluation (run_observations H inputs s) \<and> extends s (fst ` set inputs) (run_observations H inputs s)"
  using assms by (rule run_extends)

section \<open>Restart\<close>

definition fresh_evaluation :: "agent_evaluation \<Rightarrow> agent_evaluation" where
  "fresh_evaluation s = s\<lparr>av_forecasts := [], av_outcomes := [], av_settled := []\<rparr>"

lemma set_newest_first [simp]: "set (newest_first t identity xs) = set xs" "length (newest_first t identity xs) = length xs"
  by (simp_all add: newest_first_def)

lemma index_items:
  "fold (\<lambda>(i, x) index. case dict_get fm i of None \<Rightarrow> index
         | Some f \<Rightarrow> append_settled (fc_agent_name f, fc_agent_version f) i index) items index0 = index1 \<Longrightarrow>
   settled_bucket index1 k = settled_bucket index0 k @
     map fst (filter (\<lambda>(i, x). map_option (\<lambda>f. (fc_agent_name f, fc_agent_version f)) (dict_get fm i) = Some k) items)"
  by (induction items arbitrary: index0)
    (auto simp: append_settled_def dict_simps split: option.splits)

lemma dict_of_values:
  "inj_on key (set xs) \<Longrightarrow> set (dict_values (dict_of key xs)) = set xs"
  using set_values_fold_set [of key "[]" xs] by (simp add: dict_of_def dict_values_def)

lemma list_limit_all: "int (length xs) \<le> 100000 \<Longrightarrow> list_limit label 100000 xs = Inr xs"
  by (simp add: list_limit_def)

lemma rebuilt_index:
  assumes "indexed fc_forecast_id (av_forecasts s)" "indexed fo_forecast_id (av_outcomes s)"
  shows "distinct (settled_bucket (av_settled (rebuild_settled_index s)) k) \<and>
    set (settled_bucket (av_settled (rebuild_settled_index s)) k) = settled_ids s k"
proof -
  let ?items = "sort_key (\<lambda>(i, x). fo_realized_at x) (sort_key (\<lambda>(i, x). fo_outcome_id x) (av_outcomes s))"
  let ?agent = "\<lambda>i. map_option (\<lambda>f. (fc_agent_name f, fc_agent_version f)) (dict_get (av_forecasts s) i)"
  have bucket: "settled_bucket (av_settled (rebuild_settled_index s)) k = map fst (filter (\<lambda>(i, x). ?agent i = Some k) ?items)"
    using index_items [OF refl, where fm = "av_forecasts s" and items = ?items and ?index0.0 = "[]" and k = k]
    by (simp add: rebuild_settled_index_def settled_bucket_def case_prod_beta)
  have "mset (map fst ?items) = mset (map fst (av_outcomes s))" by simp
  then have "distinct (map fst ?items)"
    using assms(2) mset_eq_imp_distinct_iff by (metis indexed_def dict_wf_def)
  then have "distinct (map fst (filter (\<lambda>(i, x). ?agent i = Some k) ?items))"
    by (rule distinct_map_filter)
  moreover have "set (map fst (filter (\<lambda>(i, x). ?agent i = Some k) ?items)) = settled_ids s k"
  proof -
    have "set (map fst (filter (\<lambda>(i, x). ?agent i = Some k) ?items)) = {i. i \<in> fst ` set (av_outcomes s) \<and> ?agent i = Some k}"
      by force
    then show ?thesis by (simp add: settled_ids_alt agent_of_def map_of_eq_None_iff conj_commute)
  qed
  ultimately show ?thesis by (simp add: bucket)
qed

lemma rebuild_fields [simp]:
  "av_forecasts (rebuild_settled_index s) = av_forecasts s" "av_outcomes (rebuild_settled_index s) = av_outcomes s"
  "av_repository (rebuild_settled_index s) = av_repository s" "av_minimum_samples (rebuild_settled_index s) = av_minimum_samples s"
  by (simp_all add: rebuild_settled_index_def)

lemma sort_twice: "sorted (map (\<lambda>x. (f x, g x)) (sort_key f (sort_key g xs)))"
proof -
  have lex: "sorted (map (\<lambda>x. (f x, g x)) ys)"
    if "sorted (map f ys)" "\<forall>v. sorted (map g (filter (\<lambda>x. f x = v) ys))" for ys
    using that
  proof (induction ys)
    case (Cons y ys)
    have "(f y, g y) \<le> (f z, g z)" if z: "z \<in> set ys" for z
    proof -
      have "f y \<le> f z" using Cons.prems(1) z by simp
      moreover have "g y \<le> g z" if "f z = f y"
        using Cons.prems(2) [rule_format, of "f y"] z that by auto
      ultimately show ?thesis by (auto simp: less_le)
    qed
    moreover have "sorted (map g (filter (\<lambda>x. f x = v) ys))" for v
      using Cons.prems(2) [rule_format, of v] by (auto split: if_splits)
    ultimately show ?case using Cons by simp
  qed simp
  show ?thesis
  proof (rule lex)
    have "filter (\<lambda>x. f x = v) (sort_key f (sort_key g xs)) = filter (\<lambda>x. f x = v) (sort_key g xs)" for v
      by (rule sort_key_stable)
    then show "\<forall>v. sorted (map g (filter (\<lambda>x. f x = v) (sort_key f (sort_key g xs))))"
      by (simp add: sorted_filter)
  qed simp
qed

text \<open>The order of the settled index after a restart: by the instant of the outcome, then by its identity.\<close>

definition outcome_key :: "agent_evaluation \<Rightarrow> string \<Rightarrow> time \<times> string" where
  "outcome_key s i = (let x = the (dict_get (av_outcomes s) i) in (fo_realized_at x, fo_outcome_id x))"

lemma rebuilt_order:
  assumes "indexed fo_forecast_id (av_outcomes s)"
  shows "sorted (map (outcome_key s) (settled_bucket (av_settled (rebuild_settled_index s)) k))"
proof -
  let ?items = "sort_key (\<lambda>(i, x). fo_realized_at x) (sort_key (\<lambda>(i, x). fo_outcome_id x) (av_outcomes s))"
  let ?agent = "\<lambda>i. map_option (\<lambda>f. (fc_agent_name f, fc_agent_version f)) (dict_get (av_forecasts s) i)"
  have bucket: "settled_bucket (av_settled (rebuild_settled_index s)) k = map fst (filter (\<lambda>(i, x). ?agent i = Some k) ?items)"
    using index_items [OF refl, where fm = "av_forecasts s" and items = ?items and ?index0.0 = "[]" and k = k]
    by (simp add: rebuild_settled_index_def settled_bucket_def case_prod_beta)
  have "outcome_key s (fst p) = (fo_realized_at (snd p), fo_outcome_id (snd p))" if "p \<in> set ?items" for p
  proof -
    from that have "dict_get (av_outcomes s) (fst p) = Some (snd p)"
      using assms by (auto simp: indexed_def dict_wf_def)
    then show ?thesis by (simp add: outcome_key_def Let_def)
  qed
  then have same: "map (outcome_key s) (map fst (filter P ?items)) =
      map (\<lambda>p. (fo_realized_at (snd p), fo_outcome_id (snd p))) (filter P ?items)" for P by simp
  have "sorted (map (\<lambda>p. (fo_realized_at (snd p), fo_outcome_id (snd p))) ?items)"
    using sort_twice [of "\<lambda>p. fo_realized_at (snd p)" "\<lambda>p. fo_outcome_id (snd p)" "av_outcomes s"]
    unfolding case_prod_beta .
  then show ?thesis unfolding bucket same by (rule sorted_filter)
qed

lemma same_order:
  fixes key :: "'a \<Rightarrow> 'b :: linorder"
  assumes "set ys = set xs" "distinct ys" "sorted (map key ys)" "sorted_wrt (<) (map key xs)"
  shows "ys = xs"
proof -
  have x: "sorted (map key xs)" "distinct (map key xs)"
    using assms(4) by (simp_all add: strict_sorted_iff)
  have inj: "inj_on key (set xs)" using x(2) by (simp add: distinct_map)
  have "distinct (map key ys)" using assms(1,2) inj by (simp add: distinct_map)
  then have "map key ys = map key xs" using x assms(1,3) by (intro sorted_distinct_set_unique) simp_all
  then show ?thesis using inj assms(1) by (simp add: map_inj_on)
qed

definition same_records :: "agent_evaluation \<Rightarrow> agent_evaluation \<Rightarrow> bool" where
  "same_records s s' \<longleftrightarrow>
     (\<forall>i. dict_get (av_forecasts s') i = dict_get (av_forecasts s) i) \<and>
     (\<forall>i. dict_get (av_outcomes s') i = dict_get (av_outcomes s) i) \<and>
     (\<forall>k. set (settled_bucket (av_settled s') k) = set (settled_bucket (av_settled s) k))"

lemma restart:
  assumes s: "durable_evaluation s" and d: "av_repository s = Some d"
    and bounds: "length (vs_forecasts d) \<le> 100000" "length (vs_outcomes d) \<le> 100000"
  obtains s' where "evaluation_initialize (fresh_evaluation s) = (s', Inr ())" "durable_evaluation s'" "same_records s s'"
    "av_repository s' = Some d" "av_minimum_samples s' = av_minimum_samples s"
    "\<And>k. sorted (map (outcome_key s) (settled_bucket (av_settled s') k))"
proof -
  have mem: "memory_ok s" and mir: "mirrors d s" using s d by (simp_all add: durable_evaluation_def)
  have ix: "indexed fc_forecast_id (av_forecasts s)" "indexed fo_forecast_id (av_outcomes s)"
    using mem by (simp_all add: memory_ok_def)
  let ?fs = "newest_first fc_forecast_at fc_forecast_id (dict_values (vs_forecasts d))"
  let ?xs = "newest_first fo_realized_at fo_outcome_id (dict_values (vs_outcomes d))"
  let ?s0 = "(fresh_evaluation s)\<lparr>av_forecasts := dict_of fc_forecast_id ?fs, av_outcomes := dict_of fo_forecast_id ?xs\<rparr>"
  have run: "evaluation_initialize (fresh_evaluation s) = (rebuild_settled_index ?s0, Inr ())"
    using d bounds by (simp add: evaluation_initialize_def fresh_evaluation_def list_agent_forecasts_def
        list_agent_forecast_outcomes_def list_limit_all dict_values_def bind_result_def)
  have vals: "set (dict_values (dict_of fc_forecast_id ?fs)) = set (dict_values (av_forecasts s))"
    "set (dict_values (dict_of fo_forecast_id ?xs)) = set (dict_values (av_outcomes s))"
    using mir indexed_inj [OF ix(1)] indexed_inj [OF ix(2)] by (simp_all add: mirrors_def dict_of_values)
  have same: "dict_get (dict_of fc_forecast_id ?fs) i = dict_get (av_forecasts s) i"
    "dict_get (dict_of fo_forecast_id ?xs) i = dict_get (av_outcomes s) i" for i
    using vals ix by (simp_all add: indexed_same_values [OF indexed_dict_of])
  have ids: "settled_ids ?s0 k = settled_ids s k" "settled_ids (rebuild_settled_index ?s0) k = settled_ids s k" for k
    by (simp_all add: settled_ids_def same)
  have index: "distinct (settled_bucket (av_settled (rebuild_settled_index ?s0)) k)"
    "set (settled_bucket (av_settled (rebuild_settled_index ?s0)) k) = settled_ids s k" for k
    using rebuilt_index [of ?s0 k] ids by (simp_all add: indexed_dict_of)
  have "memory_ok (rebuild_settled_index ?s0)"
    using mem unfolding memory_ok_def by (simp add: indexed_dict_of vals same index ids)
  moreover have "mirrors d (rebuild_settled_index ?s0)"
    using mir by (simp add: mirrors_def vals)
  ultimately have "durable_evaluation (rebuild_settled_index ?s0)"
    using d by (simp add: durable_evaluation_def fresh_evaluation_def)
  moreover have "same_records s (rebuild_settled_index ?s0)"
    using mem by (simp add: same_records_def same index memory_ok_def)
  moreover have keys: "outcome_key ?s0 = outcome_key s" by (simp add: fun_eq_iff outcome_key_def same)
  have "sorted (map (outcome_key s) (settled_bucket (av_settled (rebuild_settled_index ?s0)) k))" for k
    using rebuilt_order [of ?s0 k] unfolding keys by (simp add: indexed_dict_of)
  ultimately show ?thesis using that run d by (simp add: fresh_evaluation_def)
qed

section \<open>Scorecards\<close>

lemma group_items:
  "fold (\<lambda>(i, x) groups. case dict_get fm i of None \<Rightarrow> groups
         | Some f \<Rightarrow> (let k = (fc_agent_name f, fc_agent_version f)
                     in dict_set k ((case dict_get groups k of None \<Rightarrow> [] | Some xs \<Rightarrow> xs) @ [x]) groups)) items groups0 = groups1 \<Longrightarrow>
   dict_get groups1 k =
     (let new = map snd (filter (\<lambda>(i, x). map_option (\<lambda>f. (fc_agent_name f, fc_agent_version f)) (dict_get fm i) = Some k) items)
      in case dict_get groups0 k of None \<Rightarrow> if new = [] then None else Some new | Some xs \<Rightarrow> Some (xs @ new))"
  by (induction items arbitrary: groups0)
    (auto simp: dict_simps Let_def split: option.splits if_splits)

definition agent_outcomes :: "agent_evaluation \<Rightarrow> string \<times> string \<Rightarrow> agent_forecast_outcome list" where
  "agent_outcomes s k = map snd (filter (\<lambda>(i, x). agent_of s i = Some k) (av_outcomes s))"

lemma group_outcomes_get:
  "dict_get (group_outcomes s) k = (if agent_outcomes s k = [] then None else Some (agent_outcomes s k))"
  using group_items [OF refl, where fm = "av_forecasts s" and items = "av_outcomes s" and ?groups0.0 = "[]" and k = k]
  by (simp add: group_outcomes_def agent_outcomes_def agent_of_def Let_def)

lemma group_outcomes_wf: "dict_wf (group_outcomes s)"
proof -
  have "dict_wf (fold (\<lambda>(i, x) groups. case dict_get fm i of None \<Rightarrow> groups
         | Some f \<Rightarrow> (let k = (fc_agent_name f, fc_agent_version f)
                     in dict_set k ((case dict_get groups k of None \<Rightarrow> [] | Some xs \<Rightarrow> xs) @ [x]) groups)) items groups)"
    if "dict_wf groups" for fm :: "agent_forecast dict" and items :: "agent_forecast_outcome dict" and groups
    using that by (induction items arbitrary: groups) (auto simp: Let_def split: option.splits)
  then show ?thesis by (simp add: group_outcomes_def)
qed

lemma mset_dict_eq:
  assumes "dict_wf d" "dict_wf d'" "\<And>k. dict_get d' k = dict_get d k"
  shows "mset d' = mset d"
proof -
  have "set d = {(k, v). dict_get d k = Some v}" if "dict_wf d" for d :: "('a \<times> 'b) list"
    using that by (auto simp: dict_wf_def map_of_is_SomeI dest: map_of_SomeD)
  with assms have "set d' = set d" by auto
  with assms(1,2) show ?thesis
    by (simp add: dict_wf_def distinct_map set_eq_iff_mset_eq_distinct [symmetric])
qed

lemma fmean_mset: "mset xs = mset ys \<Longrightarrow> fmean xs = fmean ys"
  unfolding fmean_def by (metis mset_map size_mset sum_mset_sum_list)

lemma length_filter_mset: "mset xs = mset ys \<Longrightarrow> length (filter P xs) = length (filter P ys)"
  by (metis mset_filter size_mset)

lemma scorecard_mset:
  assumes "mset xs = mset ys"
  shows "scorecard m (k, xs) = scorecard m (k, ys)"
proof -
  have "fmean (map f xs) = fmean (map f ys)" for f by (rule fmean_mset) (simp add: assms)
  moreover have "length (filter P xs) = length (filter P ys)" for P using assms by (rule length_filter_mset)
  moreover have "filter P xs = [] \<longleftrightarrow> filter P ys = []" for P
    by (metis assms length_0_conv length_filter_mset)
  moreover have "length xs = length ys" using assms by (metis size_mset)
  ultimately show ?thesis
    by (cases k) (simp add: scorecard_def Let_def accuracy_def)
qed

lemma map_result_Inr_map: "map_result f xs = Inr ys \<longleftrightarrow> map f xs = map Inr ys"
  unfolding map_result_Inr by (induction xs arbitrary: ys) (auto simp: list_all2_Cons1 Cons_eq_map_conv)

lemma map_result_mset:
  fixes f :: "'a \<Rightarrow> 'c result" and g :: "'b \<Rightarrow> 'c result"
  assumes "map_result f xs = Inr ys" "image_mset f (mset xs) = image_mset g (mset xs')"
  obtains ys' where "map_result g xs' = Inr ys'" "mset ys' = mset ys"
proof -
  have eq: "mset (map g xs') = image_mset Inr (mset ys)"
    using assms by (simp add: map_result_Inr_map) (metis mset_map)
  have "\<exists>ys'. map g xs' = map Inr ys'"
  proof -
    have "set_mset (mset (map g xs')) = set_mset (image_mset Inr (mset ys))" by (simp only: eq)
    then have "\<forall>z \<in> set (map g xs'). \<exists>y. z = Inr y" by auto
    then show ?thesis unfolding ex_map_conv .
  qed
  then obtain ys' where ys': "map g xs' = map Inr ys'" by blast
  with eq have "(image_mset Inr (mset ys') :: (exn + 'c) multiset) = image_mset Inr (mset ys)" by simp
  then have "image_mset projr (image_mset Inr (mset ys') :: (exn + 'c) multiset) = image_mset projr (image_mset Inr (mset ys) :: (exn + 'c) multiset)"
    by (rule arg_cong)
  then have "mset ys' = mset ys" by (simp add: image_mset.compositionality comp_def)
  with ys' that show ?thesis by (simp add: map_result_Inr_map)
qed

lemma same_records_scorecards:
  assumes s: "memory_ok s" and s': "memory_ok s'" and same: "same_records s s'"
    and m: "av_minimum_samples s' = av_minimum_samples s" and cards: "scorecards s = Inr cards"
  obtains cards' where "scorecards s' = Inr cards'" "mset cards' = mset cards"
proof -
  have agents: "agent_of s' = agent_of s" using same by (simp add: agent_of_def same_records_def fun_eq_iff)
  have "mset (av_outcomes s') = mset (av_outcomes s)"
    using s s' same by (intro mset_dict_eq) (auto simp: memory_ok_def same_records_def indexed_wf)
  then have outcomes: "mset (agent_outcomes s' k) = mset (agent_outcomes s k)" for k
    by (simp add: agent_outcomes_def agents)
  let ?norm = "\<lambda>(k, xs). (k, mset xs)"
  have "mset (map ?norm (group_outcomes s')) = mset (map ?norm (group_outcomes s))"
  proof (rule mset_dict_eq)
    show "dict_get (map ?norm (group_outcomes s')) k = dict_get (map ?norm (group_outcomes s)) k" for k
      using outcomes [of k] by (auto simp: map_of_map group_outcomes_get)
  qed (use group_outcomes_wf in \<open>auto simp: dict_wf_def comp_def case_prod_beta\<close>)
  obtain cs where cs: "map_result (scorecard (av_minimum_samples s)) (group_outcomes s) = Inr cs" "cards = sort_key cr_agent_name cs"
    using cards by (auto simp: scorecards_def bind_result_Inr)
  define h where "h = (\<lambda>(k, M). scorecard (av_minimum_samples s) (k, SOME xs. mset xs = M))"
  have card: "scorecard (av_minimum_samples s) g = h (?norm g)" for g
  proof -
    have "mset (SOME xs. mset xs = mset (snd g)) = mset (snd g)" by (rule someI) simp
    from scorecard_mset [OF this] show ?thesis by (cases g) (simp add: h_def)
  qed
  have "image_mset (scorecard (av_minimum_samples s)) (mset (group_outcomes u)) =
      image_mset h (mset (map ?norm (group_outcomes u)))" for u
    by (auto simp: image_mset.compositionality comp_def card intro!: image_mset_cong)
  then have "image_mset (scorecard (av_minimum_samples s)) (mset (group_outcomes s)) =
      image_mset (scorecard (av_minimum_samples s)) (mset (group_outcomes s'))"
    by (simp only: \<open>mset (map ?norm (group_outcomes s')) = _\<close>)
  from map_result_mset [OF cs(1) this] obtain cs' where
    "map_result (scorecard (av_minimum_samples s)) (group_outcomes s') = Inr cs'" "mset cs' = mset cs" .
  then show ?thesis using that [of "sort_key cr_agent_name cs'"] cs(2) m
    by (simp add: scorecards_def bind_result_def)
qed

text \<open>
  C31. The evaluation survives a restart. A service initialised from the tables a durable service left behind, while
  neither table holds more than the 100000 rows the query reads, has the same forecasts, the same outcomes and, per
  agent version, the same settled forecasts, each once. They are ordered by the instant of their outcome and then by
  its identity; an index that was in that order before the restart is the same list after it. The scorecards computed
  from the restored records are the same cards, although the records come back in another order.
\<close>

theorem evaluation_survives_restart:
  assumes "durable_evaluation s" "av_repository s = Some d"
    and "length (vs_forecasts d) \<le> 100000" "length (vs_outcomes d) \<le> 100000"
  shows "\<exists>s'. evaluation_initialize (fresh_evaluation s) = (s', Inr ()) \<and> durable_evaluation s' \<and> same_records s s' \<and>
    (\<forall>k. distinct (settled_bucket (av_settled s') k) \<and> sorted (map (outcome_key s) (settled_bucket (av_settled s') k)) \<and>
       (sorted_wrt (<) (map (outcome_key s) (settled_bucket (av_settled s) k)) \<longrightarrow>
        settled_bucket (av_settled s') k = settled_bucket (av_settled s) k)) \<and>
    (\<forall>cards. scorecards s = Inr cards \<longrightarrow> (\<exists>cards'. scorecards s' = Inr cards' \<and> mset cards' = mset cards))"
proof -
  obtain s' where s': "evaluation_initialize (fresh_evaluation s) = (s', Inr ())" "durable_evaluation s'" "same_records s s'"
    "av_minimum_samples s' = av_minimum_samples s" "\<And>k. sorted (map (outcome_key s) (settled_bucket (av_settled s') k))"
    using restart [OF assms] by blast
  have "memory_ok s" "memory_ok s'" using assms(1) s'(2) by (simp_all add: durable_evaluation_def)
  with same_records_scorecards s'(3,4) have
    "\<exists>cards'. scorecards s' = Inr cards' \<and> mset cards' = mset cards" if "scorecards s = Inr cards" for cards
    using that by metis
  moreover have once: "distinct (settled_bucket (av_settled s') k)" for k
    using \<open>memory_ok s'\<close> unfolding memory_ok_def by blast
  moreover have "settled_bucket (av_settled s') k = settled_bucket (av_settled s) k"
    if "sorted_wrt (<) (map (outcome_key s) (settled_bucket (av_settled s) k))" for k
    using s'(3) unfolding same_records_def by (intro same_order [OF _ once s'(5) that]) blast
  ultimately show ?thesis using s'(1-3,5) by (intro exI [of _ s']) simp
qed

section \<open>Losses stay in the unit interval\<close>

lemma flt_1: "flt 1 = 1"
  using fl_integer [of 1] by (simp add: fval_inject [symmetric] fval_simps)

lemma half_unit: "unit_interval (flt (1 / 2))"
  using flt_mono [of 0 "1 / 2"] flt_mono [of "1 / 2" 1] by (simp add: flt_1)

lemma fmean_unit:
  assumes "xs \<noteq> []" "\<forall>x \<in> set xs. unit_interval x"
  shows "unit_interval (fmean xs)"
proof -
  let ?n = "flt (of_nat (length xs))"
  have sum: "0 \<le> sum_list (map fval xs)" "sum_list (map fval xs) \<le> of_nat (length xs)"
    using assms(2) by (induction xs) (auto simp: fval_simps)
  have pos: "1 \<le> ?n"
    using assms(1) flt_mono [of 1 "of_nat (length xs)"] by (cases xs) (simp_all add: flt_1)
  have bounds: "0 \<le> flt (sum_list (map fval xs))" "flt (sum_list (map fval xs)) \<le> ?n"
    using flt_mono [OF sum(1)] flt_mono [OF sum(2)] by simp_all
  have n: "0 \<le> ?n" "fval ?n \<noteq> 0" using pos by (auto simp: fval_simps)
  have "?n / ?n = 1"
    using n(2) fl_integer [of 1] by (simp add: fval_inject [symmetric] fval_simps)
  moreover have "flt (sum_list (map fval xs)) / ?n \<le> ?n / ?n"
    using bounds(2) n(1) by (rule pyfloat_divide_right_mono)
  ultimately show ?thesis
    using pyfloat_divide_nonneg [OF bounds(1) n(1)] by (simp add: fmean_def)
qed

lemma squared_unit:
  assumes "unit_interval p" "unit_interval r"
  shows "unit_interval (squared (p - r))"
proof -
  have "\<bar>fval p - fval r\<bar> \<le> 1" using assms by (auto simp: fval_simps)
  then have "fl (- 1) \<le> fval (p - r)" "fval (p - r) \<le> fl 1"
    by (auto simp: fval_simps intro!: fl_mono)
  then have "\<bar>fval (p - r)\<bar> \<le> 1" using fl_integer [of 1] fl_minus [of 1] by simp
  then have "0 \<le> fval (p - r) * fval (p - r)" "fval (p - r) * fval (p - r) \<le> 1"
    by (simp_all add: abs_le_square_iff [of _ 1, simplified] power2_eq_square)
  from fl_mono [OF this(1)] fl_mono [OF this(2)] fl_integer [of 1] show ?thesis
    by (simp add: squared_def fval_simps)
qed

lemma unit_difference: "unit_interval a \<Longrightarrow> unit_interval b \<Longrightarrow> - 1 \<le> a - b \<and> a - b \<le> 1"
  using fl_mono [of "- 1" "fval a - fval b"] fl_mono [of "fval a - fval b" 1] fl_integer [of 1] fl_minus [of 1]
  by (auto simp: fval_simps)

lemma outcomes_always_valid:
  assumes "\<forall>j. sha_ok (H j)" "0 < cd_close c" "f \<in> set members"
    and "\<forall>g \<in> set members. unit_interval (fc_probability_up g) \<and> sha_ok (fc_forecast_id g)"
  shows "\<exists>x. forecast_outcome H c members f = Inr x"
proof -
  let ?up = "snd (realized c members)"
  have up: "unit_interval ?up" using half_unit by (simp add: realized_def Let_def) (simp add: fval_simps)
  have ensemble: "unit_interval (fmean (map fc_probability_up members))"
    using assms by (intro fmean_unit) auto
  have leave: "unit_interval (leave_one_out members f)"
    using assms(4) half_unit fmean_unit [of "map fc_probability_up (filter (\<lambda>g. fc_forecast_id g \<noteq> fc_forecast_id f) members)"]
    by (auto simp: leave_one_out_def Let_def)
  have "1 \<le> int (length members)" using assms(3) by (cases members) auto
  with assms up ensemble leave show ?thesis
    unfolding forecast_outcome_def new_agent_forecast_outcome_def Let_def bind_result_def validate_def valid_agent_forecast_outcome_def
    by (simp add: squared_unit unit_difference)
qed

section \<open>A sample run\<close>

definition evaluation_H :: "json \<Rightarrow> string" where
  "evaluation_H j = replicate 64 (CHR ''a'')"

definition evaluation_candle :: "time \<Rightarrow> rat \<Rightarrow> candle" where
  "evaluation_candle t price =
     \<lparr>cd_exchange = BINANCE, cd_symbol = ''BTCUSDT'', cd_timeframe = ''1m'', cd_open = flt price, cd_high = flt price,
      cd_low = flt price, cd_close = flt price, cd_volume = flt 3, cd_closed_at = t, cd_received_at = t\<rparr>"

definition evaluation_output :: agent_output where
  "evaluation_output =
     \<lparr>ao_agent_name = ''ShadowAgent'', ao_status = AsCOMPLETED, ao_signal = SigBUY, ao_confidence = 50, ao_reason = ''up'',
      ao_evidence = [], ao_warnings = [], ao_latency_ms = 1, ao_created_at = 0\<rparr>"

definition evaluation_registration :: agent_registration where
  "evaluation_registration =
     \<lparr>ag_agent_name = ''ShadowAgent'', ag_version = ''1.0.0'', ag_description = [], ag_required_inputs = [],
      ag_capabilities = [], ag_decision_role = SHADOW, ag_critical = False, ag_timeout_ms = 5000, ag_max_attempts = 3,
      ag_enabled = True, ag_definition_hash = replicate 64 (CHR ''b'')\<rparr>"

definition empty_evaluation :: agent_evaluation where
  "empty_evaluation =
     \<lparr>av_repository = Some \<lparr>fs_faults = [False, True], vs_evidence = [], vs_forecasts = [], vs_outcomes = []\<rparr>,
      av_minimum_samples = 30, av_forecasts = [], av_outcomes = [], av_settled = []\<rparr>"

text \<open>The candle at the target comes twice: the database fails on the first, the second settles the forecast.\<close>

definition evaluation_inputs :: "observation list" where
  "evaluation_inputs =
     [(evaluation_candle 60000000 100, ''corr-1'', [evaluation_output], [(''ShadowAgent'', evaluation_registration)]),
      (evaluation_candle 120000000 101, ''corr-2'', [], []), (evaluation_candle 120000000 101, ''corr-3'', [], [])]"

lemma empty_evaluation_durable: "durable_evaluation empty_evaluation"
  by (simp add: durable_evaluation_def empty_evaluation_def memory_ok_def mirrors_def dict_values_def settled_bucket_def settled_ids_def)

definition evaluation_keys :: "agent_evaluation \<Rightarrow> string list \<times> string list \<times> string list \<times> string list" where
  "evaluation_keys s =
     (map fst (vs_forecasts (the (av_repository s))), map fst (vs_outcomes (the (av_repository s))), map fst (av_outcomes s),
      settled_bucket (av_settled s) (''ShadowAgent'', ''1.0.0''))"

lemma sample_run:
  "evaluation_keys (run_observations evaluation_H evaluation_inputs empty_evaluation) =
     ([replicate 64 (CHR ''a'')], [replicate 64 (CHR ''a'')], [replicate 64 (CHR ''a'')], [replicate 64 (CHR ''a'')])"
  by code_simp

theorem forecasts_settle_once_witness:
  "durable_evaluation (run_observations evaluation_H evaluation_inputs empty_evaluation) \<and>
   map fst (av_outcomes (run_observations evaluation_H evaluation_inputs empty_evaluation)) = [replicate 64 (CHR ''a'')]"
  using forecasts_settle_once [OF empty_evaluation_durable] sample_run unfolding evaluation_keys_def by blast

theorem evaluation_survives_restart_witness:
  "\<exists>s'. evaluation_initialize (fresh_evaluation (run_observations evaluation_H evaluation_inputs empty_evaluation)) = (s', Inr ()) \<and>
     dict_get (av_outcomes s') (replicate 64 (CHR ''a'')) \<noteq> None \<and>
     settled_bucket (av_settled s') (''ShadowAgent'', ''1.0.0'') = [replicate 64 (CHR ''a'')]"
proof -
  let ?s = "run_observations evaluation_H evaluation_inputs empty_evaluation"
  let ?d = "the (av_repository ?s)"
  have s: "durable_evaluation ?s" using run_extends [OF empty_evaluation_durable] by blast
  then have d: "av_repository ?s = Some ?d" by (auto simp: durable_evaluation_def)
  have keys: "map fst (vs_forecasts ?d) = [replicate 64 (CHR ''a'')]" "map fst (vs_outcomes ?d) = [replicate 64 (CHR ''a'')]"
    "map fst (av_outcomes ?s) = [replicate 64 (CHR ''a'')]"
    "settled_bucket (av_settled ?s) (''ShadowAgent'', ''1.0.0'') = [replicate 64 (CHR ''a'')]"
    using sample_run unfolding evaluation_keys_def by blast+
  have bounds: "length (vs_forecasts ?d) \<le> 100000" "length (vs_outcomes ?d) \<le> 100000"
    using arg_cong [OF keys(1), of length] arg_cong [OF keys(2), of length] by (simp_all only: length_map) simp_all
  have "dict_get (av_outcomes ?s) (replicate 64 (CHR ''a'')) \<noteq> None"
    using arg_cong [OF keys(3), of set] by (simp add: map_of_eq_None_iff del: replicate.simps)
  moreover have "sorted_wrt (<) (map (outcome_key ?s) (settled_bucket (av_settled ?s) (''ShadowAgent'', ''1.0.0'')))"
    unfolding keys(4) by (simp del: replicate.simps)
  ultimately show ?thesis using evaluation_survives_restart [OF s d bounds] keys(4) unfolding same_records_def by metis
qed

end
