(* ===== verification/Governance.thy ===== *)
theory Governance
  imports Agent_Evaluation
begin

text \<open>
  The governance of agent weights, \<^verbatim>\<open>app/orchestrator/portfolio_consensus.py\<close>, with the contracts of
  \<^verbatim>\<open>app/schemas/portfolio_consensus.py\<close> and the append-only tables of the repository: the registry of
  consensus experiments, the drift monitor, the weighted consensus and the portfolio construction.

  The four services share one repository, so their state is one record, \<open>governance\<close>. \<open>H\<close> is SHA-256 of a
  canonical JSON text and \<open>now\<close> the instant of the call. An artifact read back from its stored payload is the
  artifact that was stored.
\<close>

section \<open>Experiments\<close>

datatype experiment_mode = ModeSHADOW | ModeCONFIRMATION
datatype experiment_event_type = EvCREATED | EvACTIVATED | EvRETIRED

fun mode_value :: "experiment_mode \<Rightarrow> string" where
  "mode_value ModeSHADOW = ''SHADOW''"
| "mode_value ModeCONFIRMATION = ''CONFIRMATION''"

fun event_type_value :: "experiment_event_type \<Rightarrow> string" where
  "event_type_value EvCREATED = ''CREATED''"
| "event_type_value EvACTIVATED = ''ACTIVATED''"
| "event_type_value EvRETIRED = ''RETIRED''"

record consensus_experiment =
  ce_experiment_id :: string
  ce_name :: string
  ce_version :: string
  ce_mode :: experiment_mode
  ce_minimum_samples :: int
  ce_minimum_directional_samples :: int
  ce_minimum_accuracy :: pyfloat
  ce_maximum_brier_loss :: pyfloat
  ce_minimum_marginal_contribution :: pyfloat
  ce_minimum_eligible_agents :: int
  ce_maximum_agent_weight :: pyfloat
  ce_buy_probability_threshold :: pyfloat
  ce_sell_probability_threshold :: pyfloat
  ce_drift_reference_samples :: int
  ce_drift_current_samples :: int
  ce_critical_accuracy_drop :: pyfloat
  ce_critical_brier_increase :: pyfloat
  ce_critical_marginal_drop :: pyfloat
  ce_created_by :: string
  ce_created_at :: time

text \<open>\<^verbatim>\<open>^[a-z][a-z0-9_-]{2,63}$\<close>.\<close>

definition experiment_name_ok :: "string \<Rightarrow> bool" where
  "experiment_name_ok s \<longleftrightarrow> 3 \<le> length s \<and> length s \<le> 64 \<and> lower_letter (hd s) \<and>
     list_all (\<lambda>c. lower_letter c \<or> is_digit c \<or> c \<in> {CHR ''_'', CHR ''-''}) (tl s)"

definition experiment_identity :: "(json \<Rightarrow> string) \<Rightarrow> consensus_experiment \<Rightarrow> string" where
  "experiment_identity H e =
     H (JObj [(''schema_version'', JStr ''1.0.0''), (''name'', JStr (ce_name e)), (''version'', JStr (ce_version e)),
              (''mode'', JStr (mode_value (ce_mode e))), (''minimum_samples'', JInt (ce_minimum_samples e)),
              (''minimum_directional_samples'', JInt (ce_minimum_directional_samples e)),
              (''minimum_accuracy'', JFloat (ce_minimum_accuracy e)),
              (''maximum_brier_loss'', JFloat (ce_maximum_brier_loss e)),
              (''minimum_marginal_contribution'', JFloat (ce_minimum_marginal_contribution e)),
              (''minimum_eligible_agents'', JInt (ce_minimum_eligible_agents e)),
              (''maximum_agent_weight'', JFloat (ce_maximum_agent_weight e)),
              (''buy_probability_threshold'', JFloat (ce_buy_probability_threshold e)),
              (''sell_probability_threshold'', JFloat (ce_sell_probability_threshold e)),
              (''drift_reference_samples'', JInt (ce_drift_reference_samples e)),
              (''drift_current_samples'', JInt (ce_drift_current_samples e)),
              (''critical_accuracy_drop'', JFloat (ce_critical_accuracy_drop e)),
              (''critical_brier_increase'', JFloat (ce_critical_brier_increase e)),
              (''critical_marginal_drop'', JFloat (ce_critical_marginal_drop e)),
              (''created_by'', JStr (ce_created_by e))])"

definition valid_consensus_experiment :: "(json \<Rightarrow> string) \<Rightarrow> consensus_experiment \<Rightarrow> bool" where
  [valid_defs]: "valid_consensus_experiment H e \<longleftrightarrow>
     (ce_experiment_id e = [] \<or> sha_ok (ce_experiment_id e)) \<and> experiment_name_ok (ce_name e) \<and> version_ok (ce_version e) \<and>
     100 \<le> ce_minimum_samples e \<and> ce_minimum_samples e \<le> 100000 \<and>
     20 \<le> ce_minimum_directional_samples e \<and> ce_minimum_directional_samples e \<le> 100000 \<and>
     flt (1 / 2) \<le> ce_minimum_accuracy e \<and> ce_minimum_accuracy e \<le> 1 \<and>
     0 \<le> ce_maximum_brier_loss e \<and> ce_maximum_brier_loss e \<le> flt (1 / 4) \<and>
     unit_interval (ce_minimum_marginal_contribution e) \<and>
     3 \<le> ce_minimum_eligible_agents e \<and> ce_minimum_eligible_agents e \<le> 200 \<and>
     0 < ce_maximum_agent_weight e \<and> ce_maximum_agent_weight e \<le> flt (34 / 100) \<and>
     flt (1 / 2) < ce_buy_probability_threshold e \<and> ce_buy_probability_threshold e < 1 \<and>
     0 < ce_sell_probability_threshold e \<and> ce_sell_probability_threshold e < flt (1 / 2) \<and>
     30 \<le> ce_drift_reference_samples e \<and> ce_drift_reference_samples e \<le> 10000 \<and>
     10 \<le> ce_drift_current_samples e \<and> ce_drift_current_samples e \<le> 5000 \<and>
     0 < ce_critical_accuracy_drop e \<and> ce_critical_accuracy_drop e \<le> 1 \<and>
     0 < ce_critical_brier_increase e \<and> ce_critical_brier_increase e \<le> 1 \<and>
     0 < ce_critical_marginal_drop e \<and> ce_critical_marginal_drop e \<le> 1 \<and>
     2 \<le> length (ce_created_by e) \<and> length (ce_created_by e) \<le> 128 \<and>
     ce_minimum_directional_samples e \<le> ce_minimum_samples e \<and>
     ce_sell_probability_threshold e < ce_buy_probability_threshold e \<and>
     1 - flt (1 / 10 ^ 9) \<le> flt (of_int (ce_minimum_eligible_agents e)) * ce_maximum_agent_weight e \<and>
     (ce_experiment_id e = [] \<or> ce_experiment_id e = experiment_identity H e)"

definition new_consensus_experiment :: "(json \<Rightarrow> string) \<Rightarrow> consensus_experiment \<Rightarrow> consensus_experiment result" where
  "new_consensus_experiment H e =
     bind_result (validate (valid_consensus_experiment H) e) (\<lambda>e. Inr (e\<lparr>ce_experiment_id := experiment_identity H e\<rparr>))"

definition default_experiment :: "time \<Rightarrow> consensus_experiment" where
  "default_experiment now =
     \<lparr>ce_experiment_id = [], ce_name = ''month9_weighted_consensus'', ce_version = ''1.0.0'', ce_mode = ModeSHADOW,
      ce_minimum_samples = 100, ce_minimum_directional_samples = 50, ce_minimum_accuracy = flt (52 / 100),
      ce_maximum_brier_loss = flt (24 / 100), ce_minimum_marginal_contribution = 0, ce_minimum_eligible_agents = 5,
      ce_maximum_agent_weight = flt (1 / 4), ce_buy_probability_threshold = flt (55 / 100),
      ce_sell_probability_threshold = flt (45 / 100), ce_drift_reference_samples = 50, ce_drift_current_samples = 20,
      ce_critical_accuracy_drop = flt (15 / 100), ce_critical_brier_increase = flt (8 / 100),
      ce_critical_marginal_drop = flt (3 / 100), ce_created_by = ''platform'', ce_created_at = now\<rparr>"

record experiment_event =
  xe_event_id :: string
  xe_experiment_id :: string
  xe_event_type :: experiment_event_type
  xe_actor :: string
  xe_reason :: string
  xe_created_at :: time

definition event_identity :: "(json \<Rightarrow> string) \<Rightarrow> experiment_event \<Rightarrow> string" where
  "event_identity H v =
     H (JObj [(''schema_version'', JStr ''1.0.0''), (''experiment_id'', JStr (xe_experiment_id v)),
              (''event_type'', JStr (event_type_value (xe_event_type v))), (''actor'', JStr (xe_actor v)),
              (''reason'', JStr (xe_reason v)), (''created_at'', JTime (xe_created_at v))])"

definition valid_experiment_event :: "(json \<Rightarrow> string) \<Rightarrow> experiment_event \<Rightarrow> bool" where
  [valid_defs]: "valid_experiment_event H v \<longleftrightarrow>
     (xe_event_id v = [] \<or> sha_ok (xe_event_id v)) \<and> sha_ok (xe_experiment_id v) \<and>
     2 \<le> length (xe_actor v) \<and> length (xe_actor v) \<le> 128 \<and> 3 \<le> length (xe_reason v) \<and> length (xe_reason v) \<le> 1000 \<and>
     (xe_event_id v = [] \<or> xe_event_id v = event_identity H v)"

definition new_experiment_event :: "(json \<Rightarrow> string) \<Rightarrow> experiment_event \<Rightarrow> experiment_event result" where
  "new_experiment_event H v =
     bind_result (validate (valid_experiment_event H) v) (\<lambda>v. Inr (v\<lparr>xe_event_id := event_identity H v\<rparr>))"

section \<open>Consensus, drift and proposals\<close>

record consensus_weight =
  cw_agent_name :: string
  cw_agent_version :: string
  cw_sample_count :: int
  cw_directional_sample_count :: int
  cw_accuracy :: pyfloat
  cw_mean_brier_loss :: pyfloat
  cw_mean_marginal_contribution :: pyfloat
  cw_probability_up :: pyfloat
  cw_raw_score :: pyfloat
  cw_weight :: pyfloat

definition valid_consensus_weight :: "consensus_weight \<Rightarrow> bool" where
  [valid_defs]: "valid_consensus_weight w \<longleftrightarrow>
     3 \<le> length (cw_agent_name w) \<and> length (cw_agent_name w) \<le> 128 \<and> version_ok (cw_agent_version w) \<and>
     100 \<le> cw_sample_count w \<and> 20 \<le> cw_directional_sample_count w \<and> unit_interval (cw_accuracy w) \<and>
     unit_interval (cw_mean_brier_loss w) \<and> - 1 \<le> cw_mean_marginal_contribution w \<and> cw_mean_marginal_contribution w \<le> 1 \<and>
     unit_interval (cw_probability_up w) \<and> 0 < cw_raw_score w \<and> 0 < cw_weight w \<and> cw_weight w \<le> flt (34 / 100)"

record weighted_consensus =
  wc_consensus_id :: string
  wc_correlation_id :: string
  wc_experiment_id :: string
  wc_experiment_version :: string
  wc_mode :: experiment_mode
  wc_symbol :: string
  wc_timeframe :: string
  wc_ready :: bool
  wc_baseline_action :: candidate_action
  wc_baseline_confidence :: int
  wc_probability_up :: "pyfloat option"
  wc_signal :: signal
  wc_consensus_confidence :: int
  wc_eligible_agent_count :: int
  wc_excluded_agents :: "string dict"
  wc_weights :: "consensus_weight list"
  wc_applied :: bool
  wc_final_action :: candidate_action
  wc_final_confidence :: int
  wc_reason :: string
  wc_created_at :: time

text \<open>\<^verbatim>\<open>math.isclose\<close> on finite floats.\<close>

definition isclose :: "pyfloat \<Rightarrow> pyfloat \<Rightarrow> pyfloat \<Rightarrow> pyfloat \<Rightarrow> bool" where
  "isclose a b rel_tol abs_tol \<longleftrightarrow>
     a = b \<or> \<bar>b - a\<bar> \<le> \<bar>rel_tol * b\<bar> \<or> \<bar>b - a\<bar> \<le> \<bar>rel_tol * a\<bar> \<or> \<bar>b - a\<bar> \<le> abs_tol"

abbreviation directional :: "candidate_action \<Rightarrow> bool" where
  "directional a \<equiv> a = ActBUY \<or> a = ActSELL"

definition weight_json :: "consensus_weight \<Rightarrow> json" where
  "weight_json w =
     JObj [(''agent_name'', JStr (cw_agent_name w)), (''agent_version'', JStr (cw_agent_version w)),
           (''sample_count'', JInt (cw_sample_count w)), (''directional_sample_count'', JInt (cw_directional_sample_count w)),
           (''accuracy'', JFloat (cw_accuracy w)), (''mean_brier_loss'', JFloat (cw_mean_brier_loss w)),
           (''mean_marginal_contribution'', JFloat (cw_mean_marginal_contribution w)),
           (''probability_up'', JFloat (cw_probability_up w)), (''raw_score'', JFloat (cw_raw_score w)),
           (''weight'', JFloat (cw_weight w))]"

definition consensus_identity :: "(json \<Rightarrow> string) \<Rightarrow> weighted_consensus \<Rightarrow> string" where
  "consensus_identity H w =
     H (JObj [(''schema_version'', JStr ''1.0.0''), (''correlation_id'', JStr (wc_correlation_id w)),
              (''experiment_id'', JStr (wc_experiment_id w)), (''experiment_version'', JStr (wc_experiment_version w)),
              (''mode'', JStr (mode_value (wc_mode w))), (''symbol'', JStr (wc_symbol w)),
              (''timeframe'', JStr (wc_timeframe w)),
              (''status'', JStr (if wc_ready w then ''READY'' else ''INSUFFICIENT_DATA'')),
              (''baseline_action'', JStr (action_value (wc_baseline_action w))),
              (''baseline_confidence'', JInt (wc_baseline_confidence w)),
              (''probability_up'', JOpt JFloat (wc_probability_up w)), (''signal'', JStr (signal_value (wc_signal w))),
              (''consensus_confidence'', JInt (wc_consensus_confidence w)),
              (''eligible_agent_count'', JInt (wc_eligible_agent_count w)),
              (''excluded_agents'', JObj (map (\<lambda>(k, v). (k, JStr v)) (wc_excluded_agents w))),
              (''weights'', JList (map weight_json (wc_weights w))), (''applied'', JBool (wc_applied w)),
              (''final_action'', JStr (action_value (wc_final_action w))),
              (''final_confidence'', JInt (wc_final_confidence w)), (''reason'', JStr (wc_reason w)),
              (''created_at'', JTime (wc_created_at w))])"

definition valid_weighted_consensus :: "(json \<Rightarrow> string) \<Rightarrow> weighted_consensus \<Rightarrow> bool" where
  [valid_defs]: "valid_weighted_consensus H w \<longleftrightarrow>
     (wc_consensus_id w = [] \<or> sha_ok (wc_consensus_id w)) \<and> wc_correlation_id w \<noteq> [] \<and> length (wc_correlation_id w) \<le> 36 \<and>
     sha_ok (wc_experiment_id w) \<and> version_ok (wc_experiment_version w) \<and> candle_symbol_ok (wc_symbol w) \<and>
     timeframe_ok (wc_timeframe w) \<and> 0 \<le> wc_baseline_confidence w \<and> wc_baseline_confidence w \<le> 100 \<and>
     (case wc_probability_up w of None \<Rightarrow> True | Some p \<Rightarrow> unit_interval p) \<and>
     0 \<le> wc_consensus_confidence w \<and> wc_consensus_confidence w \<le> 100 \<and>
     0 \<le> wc_eligible_agent_count w \<and> wc_eligible_agent_count w \<le> 200 \<and>
     0 \<le> wc_final_confidence w \<and> wc_final_confidence w \<le> 100 \<and> 3 \<le> length (wc_reason w) \<and> length (wc_reason w) \<le> 2000 \<and>
     wc_final_confidence w \<le> wc_baseline_confidence w \<and>
     (if directional (wc_baseline_action w) then wc_final_action w \<in> {wc_baseline_action w, ActWAIT}
      else wc_final_action w = wc_baseline_action w) \<and>
     \<not> (wc_mode w = ModeSHADOW \<and>
        (wc_applied w \<or> wc_final_action w \<noteq> wc_baseline_action w \<or> wc_final_confidence w \<noteq> wc_baseline_confidence w)) \<and>
     (if wc_ready w
      then wc_probability_up w \<noteq> None \<and> wc_weights w \<noteq> [] \<and> wc_eligible_agent_count w = int (length (wc_weights w)) \<and>
           isclose (py_sum (map cw_weight (wc_weights w))) 1 0 (flt (1 / 10 ^ 6))
      else wc_probability_up w = None \<and> wc_weights w = []) \<and>
     (wc_consensus_id w = [] \<or> wc_consensus_id w = consensus_identity H w)"

definition new_weighted_consensus :: "(json \<Rightarrow> string) \<Rightarrow> weighted_consensus \<Rightarrow> weighted_consensus result" where
  "new_weighted_consensus H w =
     bind_result (validate (valid_weighted_consensus H) w) (\<lambda>w. Inr (w\<lparr>wc_consensus_id := consensus_identity H w\<rparr>))"

datatype drift_severity = DriftNONE | DriftWARNING | DriftCRITICAL

fun drift_severity_value :: "drift_severity \<Rightarrow> string" where
  "drift_severity_value DriftNONE = ''NONE''"
| "drift_severity_value DriftWARNING = ''WARNING''"
| "drift_severity_value DriftCRITICAL = ''CRITICAL''"

record drift_observation =
  do_observation_id :: string
  do_experiment_id :: string
  do_agent_name :: string
  do_agent_version :: string
  do_reference_samples :: int
  do_current_samples :: int
  do_reference_accuracy :: "pyfloat option"
  do_current_accuracy :: "pyfloat option"
  do_accuracy_delta :: "pyfloat option"
  do_reference_brier_loss :: pyfloat
  do_current_brier_loss :: pyfloat
  do_brier_delta :: pyfloat
  do_reference_marginal :: pyfloat
  do_current_marginal :: pyfloat
  do_marginal_delta :: pyfloat
  do_severity :: drift_severity
  do_reasons :: "string list"
  do_observed_at :: time
  do_created_at :: time

definition drift_identity :: "(json \<Rightarrow> string) \<Rightarrow> drift_observation \<Rightarrow> string" where
  "drift_identity H x =
     H (JObj [(''schema_version'', JStr ''1.0.0''), (''experiment_id'', JStr (do_experiment_id x)),
              (''agent_name'', JStr (do_agent_name x)), (''agent_version'', JStr (do_agent_version x)),
              (''reference_samples'', JInt (do_reference_samples x)), (''current_samples'', JInt (do_current_samples x)),
              (''reference_accuracy'', JOpt JFloat (do_reference_accuracy x)),
              (''current_accuracy'', JOpt JFloat (do_current_accuracy x)),
              (''accuracy_delta'', JOpt JFloat (do_accuracy_delta x)),
              (''reference_brier_loss'', JFloat (do_reference_brier_loss x)),
              (''current_brier_loss'', JFloat (do_current_brier_loss x)), (''brier_delta'', JFloat (do_brier_delta x)),
              (''reference_marginal_contribution'', JFloat (do_reference_marginal x)),
              (''current_marginal_contribution'', JFloat (do_current_marginal x)),
              (''marginal_delta'', JFloat (do_marginal_delta x)),
              (''severity'', JStr (drift_severity_value (do_severity x))), (''reasons'', JList (map JStr (do_reasons x))),
              (''observed_at'', JTime (do_observed_at x))])"

definition valid_drift_observation :: "(json \<Rightarrow> string) \<Rightarrow> drift_observation \<Rightarrow> bool" where
  [valid_defs]: "valid_drift_observation H x \<longleftrightarrow>
     (do_observation_id x = [] \<or> sha_ok (do_observation_id x)) \<and> sha_ok (do_experiment_id x) \<and>
     3 \<le> length (do_agent_name x) \<and> length (do_agent_name x) \<le> 128 \<and> version_ok (do_agent_version x) \<and>
     30 \<le> do_reference_samples x \<and> 10 \<le> do_current_samples x \<and>
     (case do_reference_accuracy x of None \<Rightarrow> True | Some a \<Rightarrow> unit_interval a) \<and>
     (case do_current_accuracy x of None \<Rightarrow> True | Some a \<Rightarrow> unit_interval a) \<and>
     (case do_accuracy_delta x of None \<Rightarrow> True | Some a \<Rightarrow> - 1 \<le> a \<and> a \<le> 1) \<and>
     unit_interval (do_reference_brier_loss x) \<and> unit_interval (do_current_brier_loss x) \<and>
     - 1 \<le> do_brier_delta x \<and> do_brier_delta x \<le> 1 \<and>
     - 1 \<le> do_reference_marginal x \<and> do_reference_marginal x \<le> 1 \<and>
     - 1 \<le> do_current_marginal x \<and> do_current_marginal x \<le> 1 \<and>
     - flt 2 \<le> do_marginal_delta x \<and> do_marginal_delta x \<le> flt 2 \<and>
     (do_reference_accuracy x = None \<longleftrightarrow> do_current_accuracy x = None) \<and>
     (do_reference_accuracy x = None \<longleftrightarrow> do_accuracy_delta x = None) \<and>
     (do_severity x = DriftNONE \<longleftrightarrow> do_reasons x = []) \<and>
     (do_observation_id x = [] \<or> do_observation_id x = drift_identity H x)"

definition new_drift_observation :: "(json \<Rightarrow> string) \<Rightarrow> drift_observation \<Rightarrow> drift_observation result" where
  "new_drift_observation H x =
     bind_result (validate (valid_drift_observation H) x) (\<lambda>x. Inr (x\<lparr>do_observation_id := drift_identity H x\<rparr>))"

datatype proposal_status = NO_ACTION | PROPOSED | PROPOSAL_BLOCKED

fun proposal_status_value :: "proposal_status \<Rightarrow> string" where
  "proposal_status_value NO_ACTION = ''NO_ACTION''"
| "proposal_status_value PROPOSED = ''PROPOSED''"
| "proposal_status_value PROPOSAL_BLOCKED = ''BLOCKED''"

record portfolio_proposal =
  pp_proposal_id :: string
  pp_correlation_id :: string
  pp_consensus_id :: "string option"
  pp_experiment_id :: string
  pp_symbol :: string
  pp_timeframe :: string
  pp_strategy :: string
  pp_action :: candidate_action
  pp_confidence :: int
  pp_balance :: pyfloat
  pp_requested_weight_percent :: pyfloat
  pp_capped_weight_percent :: pyfloat
  pp_max_notional :: pyfloat
  pp_current_gross_exposure :: pyfloat
  pp_current_net_exposure :: pyfloat
  pp_max_target_weight_percent :: pyfloat
  pp_max_gross_exposure_percent :: pyfloat
  pp_max_net_exposure_percent :: pyfloat
  pp_max_symbol_exposure_percent :: pyfloat
  pp_max_strategy_exposure_percent :: pyfloat
  pp_max_single_position_percent :: pyfloat
  pp_status :: proposal_status
  pp_binding_limits :: "string list"
  pp_created_at :: time

definition proposal_identity :: "(json \<Rightarrow> string) \<Rightarrow> portfolio_proposal \<Rightarrow> string" where
  "proposal_identity H p =
     H (JObj [(''schema_version'', JStr ''1.0.0''), (''correlation_id'', JStr (pp_correlation_id p)),
              (''consensus_id'', JOpt JStr (pp_consensus_id p)), (''experiment_id'', JStr (pp_experiment_id p)),
              (''symbol'', JStr (pp_symbol p)), (''timeframe'', JStr (pp_timeframe p)), (''strategy'', JStr (pp_strategy p)),
              (''action'', JStr (action_value (pp_action p))), (''confidence'', JInt (pp_confidence p)),
              (''balance'', JFloat (pp_balance p)), (''requested_weight_percent'', JFloat (pp_requested_weight_percent p)),
              (''capped_weight_percent'', JFloat (pp_capped_weight_percent p)), (''max_notional'', JFloat (pp_max_notional p)),
              (''current_gross_exposure'', JFloat (pp_current_gross_exposure p)),
              (''current_net_exposure'', JFloat (pp_current_net_exposure p)),
              (''max_target_weight_percent'', JFloat (pp_max_target_weight_percent p)),
              (''max_gross_exposure_percent'', JFloat (pp_max_gross_exposure_percent p)),
              (''max_net_exposure_percent'', JFloat (pp_max_net_exposure_percent p)),
              (''max_symbol_exposure_percent'', JFloat (pp_max_symbol_exposure_percent p)),
              (''max_strategy_exposure_percent'', JFloat (pp_max_strategy_exposure_percent p)),
              (''max_single_position_percent'', JFloat (pp_max_single_position_percent p)),
              (''status'', JStr (proposal_status_value (pp_status p))),
              (''binding_limits'', JList (map JStr (pp_binding_limits p))), (''decision_authority'', JBool False),
              (''created_at'', JTime (pp_created_at p))])"

definition valid_portfolio_proposal :: "(json \<Rightarrow> string) \<Rightarrow> portfolio_proposal \<Rightarrow> bool" where
  [valid_defs]: "valid_portfolio_proposal H p \<longleftrightarrow>
     (pp_proposal_id p = [] \<or> sha_ok (pp_proposal_id p)) \<and> pp_correlation_id p \<noteq> [] \<and> length (pp_correlation_id p) \<le> 36 \<and>
     (case pp_consensus_id p of None \<Rightarrow> True | Some i \<Rightarrow> sha_ok i) \<and> sha_ok (pp_experiment_id p) \<and>
     candle_symbol_ok (pp_symbol p) \<and> timeframe_ok (pp_timeframe p) \<and>
     pp_strategy p \<noteq> [] \<and> length (pp_strategy p) \<le> 128 \<and> 0 \<le> pp_confidence p \<and> pp_confidence p \<le> 100 \<and>
     0 < pp_balance p \<and> 0 \<le> pp_requested_weight_percent p \<and> pp_requested_weight_percent p \<le> flt 100 \<and>
     0 \<le> pp_capped_weight_percent p \<and> pp_capped_weight_percent p \<le> flt 100 \<and> 0 \<le> pp_max_notional p \<and>
     0 \<le> pp_current_gross_exposure p \<and> 0 < pp_max_target_weight_percent p \<and> pp_max_target_weight_percent p \<le> flt 100 \<and>
     0 < pp_max_gross_exposure_percent p \<and> 0 < pp_max_net_exposure_percent p \<and> 0 < pp_max_symbol_exposure_percent p \<and>
     0 < pp_max_strategy_exposure_percent p \<and> 0 < pp_max_single_position_percent p \<and>
     pp_capped_weight_percent p \<le> pp_requested_weight_percent p + flt (1 / 10 ^ 9) \<and>
     isclose (pp_max_notional p) (pp_balance p * pp_capped_weight_percent p / flt 100) (flt (1 / 10 ^ 8)) (flt (1 / 10 ^ 6)) \<and>
     (pp_status p = PROPOSED \<longrightarrow> directional (pp_action p) \<and> 0 < pp_max_notional p) \<and>
     (pp_status p \<noteq> PROPOSED \<longrightarrow> pp_max_notional p = 0) \<and>
     (pp_proposal_id p = [] \<or> pp_proposal_id p = proposal_identity H p)"

definition new_portfolio_proposal :: "(json \<Rightarrow> string) \<Rightarrow> portfolio_proposal \<Rightarrow> portfolio_proposal result" where
  "new_portfolio_proposal H p =
     bind_result (validate (valid_portfolio_proposal H) p) (\<lambda>p. Inr (p\<lparr>pp_proposal_id := proposal_identity H p\<rparr>))"

section \<open>The append-only tables\<close>

record governance_store = faulty +
  gs_experiments :: "consensus_experiment dict"
  gs_events :: "experiment_event dict"
  gs_consensus :: "weighted_consensus dict"
  gs_drift :: "drift_observation dict"
  gs_proposals :: "portfolio_proposal dict"

text \<open>
  \<^verbatim>\<open>_save_governance_artifact\<close>: the stored artifact of the same identity must be the same artifact; a new row
  must satisfy the foreign keys of its table.
\<close>

definition append_artifact :: "string \<Rightarrow> bool \<Rightarrow> string \<Rightarrow> 'a \<Rightarrow> 'a dict \<Rightarrow> ('a dict \<times> 'a) result" where
  "append_artifact label references_ok identity x rows =
     (case dict_get rows identity of
        Some stored \<Rightarrow>
          if stored \<noteq> x then raise ValidationError (''Immutable '' @ label @ '' identity conflict'') else Inr (rows, stored)
      | None \<Rightarrow>
          if references_ok then Inr (dict_set identity x rows, x)
          else raise DatabaseError (''Failed to persist '' @ label @ '': foreign key''))"

abbreviation known_experiment :: "governance_store \<Rightarrow> string \<Rightarrow> bool" where
  "known_experiment d i \<equiv> dict_get (gs_experiments d) i \<noteq> None"

definition name_taken :: "consensus_experiment dict \<Rightarrow> consensus_experiment \<Rightarrow> bool" where
  "name_taken rows e \<longleftrightarrow> list_ex (\<lambda>x. ce_name x = ce_name e \<and> ce_version x = ce_version e) (dict_values rows)"

definition save_consensus_experiment_definition ::
  "consensus_experiment \<Rightarrow> experiment_event \<Rightarrow> governance_store \<Rightarrow> (governance_store, unit) outcome" where
  "save_consensus_experiment_definition e v d =
     (if xe_experiment_id v \<noteq> ce_experiment_id e \<or> xe_event_type v \<noteq> EvCREATED
      then (d, raise ValidationError ''Experiment definition requires its matching CREATED event'')
      else fs_transaction (\<lambda>d.
        bind_result (append_artifact ''consensus experiment'' (\<not> name_taken (gs_experiments d) e) (ce_experiment_id e) e (gs_experiments d))
          (\<lambda>(experiments, _).
        bind_result (append_artifact ''consensus experiment event'' True (xe_event_id v) v (gs_events d))
          (\<lambda>(events, _). Inr (d\<lparr>gs_experiments := experiments, gs_events := events\<rparr>, ())))) d)"

definition save_consensus_experiment_event ::
  "experiment_event \<Rightarrow> governance_store \<Rightarrow> (governance_store, experiment_event) outcome" where
  "save_consensus_experiment_event v =
     fs_transaction (\<lambda>d.
       bind_result (append_artifact ''consensus experiment event'' (known_experiment d (xe_experiment_id v)) (xe_event_id v) v (gs_events d))
         (\<lambda>(events, stored). Inr (d\<lparr>gs_events := events\<rparr>, stored)))"

definition save_weighted_consensus ::
  "weighted_consensus \<Rightarrow> governance_store \<Rightarrow> (governance_store, weighted_consensus) outcome" where
  "save_weighted_consensus w =
     fs_transaction (\<lambda>d.
       bind_result (append_artifact ''weighted consensus'' (known_experiment d (wc_experiment_id w)) (wc_consensus_id w) w (gs_consensus d))
         (\<lambda>(rows, stored). Inr (d\<lparr>gs_consensus := rows\<rparr>, stored)))"

fun append_drift :: "drift_observation list \<Rightarrow> governance_store \<Rightarrow> (governance_store \<times> drift_observation list) result" where
  "append_drift [] d = Inr (d, [])"
| "append_drift (x # xs) d =
     bind_result (append_artifact ''drift observation'' (known_experiment d (do_experiment_id x)) (do_observation_id x) x (gs_drift d))
       (\<lambda>(rows, stored).
     bind_result (append_drift xs (d\<lparr>gs_drift := rows\<rparr>)) (\<lambda>(d', rest). Inr (d', stored # rest)))"

definition save_drift_observations ::
  "drift_observation list \<Rightarrow> governance_store \<Rightarrow> (governance_store, drift_observation list) outcome" where
  "save_drift_observations xs d = (if xs = [] then (d, Inr []) else fs_transaction (append_drift xs) d)"

definition save_portfolio_proposal ::
  "portfolio_proposal \<Rightarrow> governance_store \<Rightarrow> (governance_store, portfolio_proposal) outcome" where
  "save_portfolio_proposal p =
     fs_transaction (\<lambda>d.
       bind_result (append_artifact ''portfolio proposal''
           (known_experiment d (pp_experiment_id p) \<and>
            (case pp_consensus_id p of None \<Rightarrow> True | Some i \<Rightarrow> dict_get (gs_consensus d) i \<noteq> None))
           (pp_proposal_id p) p (gs_proposals d))
         (\<lambda>(rows, stored). Inr (d\<lparr>gs_proposals := rows\<rparr>, stored)))"

definition list_consensus_experiments :: "int \<Rightarrow> governance_store \<Rightarrow> consensus_experiment list result" where
  "list_consensus_experiments limit d =
     list_limit ''Consensus experiment'' limit (newest_first ce_created_at ce_experiment_id (dict_values (gs_experiments d)))"

definition list_consensus_experiment_events :: "int \<Rightarrow> governance_store \<Rightarrow> experiment_event list result" where
  "list_consensus_experiment_events limit d =
     list_limit ''Consensus event'' limit (newest_first xe_created_at xe_event_id (dict_values (gs_events d)))"

definition list_weighted_consensus :: "int \<Rightarrow> governance_store \<Rightarrow> weighted_consensus list result" where
  "list_weighted_consensus limit d =
     list_limit ''Weighted consensus'' limit (newest_first wc_created_at wc_consensus_id (dict_values (gs_consensus d)))"

definition list_drift_observations :: "int \<Rightarrow> governance_store \<Rightarrow> drift_observation list result" where
  "list_drift_observations limit d =
     list_limit ''Drift observation'' limit (newest_first do_observed_at do_observation_id (dict_values (gs_drift d)))"

definition list_portfolio_proposals :: "int \<Rightarrow> governance_store \<Rightarrow> portfolio_proposal list result" where
  "list_portfolio_proposals limit d =
     list_limit ''Portfolio proposal'' limit (newest_first pp_created_at pp_proposal_id (dict_values (gs_proposals d)))"

end
