(* ===== verification/Consensus.thy ===== *)
theory Consensus
  imports Governance
begin

text \<open>
  The services of \<^verbatim>\<open>app/orchestrator/portfolio_consensus.py\<close>: the experiment registry, the drift monitor, the
  performance weights with their concentration cap, the weighted consensus and the portfolio construction.
  Sets of small integers iterate in ascending order, as in CPython.
\<close>

record governance =
  gv_repository :: "governance_store option"
  gv_default_id :: string
  gv_experiments :: "consensus_experiment dict"
  gv_events :: "experiment_event dict"
  gv_drift :: "drift_observation dict"
  gv_snapshots :: "weighted_consensus dict"
  gv_proposals :: "portfolio_proposal dict"

section \<open>The experiment registry\<close>

definition created_event :: "(json \<Rightarrow> string) \<Rightarrow> consensus_experiment \<Rightarrow> string \<Rightarrow> string \<Rightarrow> experiment_event result" where
  "created_event H e actor reason =
     new_experiment_event H
       \<lparr>xe_event_id = [], xe_experiment_id = ce_experiment_id e, xe_event_type = EvCREATED, xe_actor = actor,
        xe_reason = reason, xe_created_at = ce_created_at e\<rparr>"

definition new_governance :: "(json \<Rightarrow> string) \<Rightarrow> time \<Rightarrow> governance_store option \<Rightarrow> governance result" where
  "new_governance H now repo =
     bind_result (new_consensus_experiment H (default_experiment now)) (\<lambda>e.
     bind_result (created_event H e ''platform'' ''Safe Month 9 default; observational until explicitly activated'') (\<lambda>v.
       Inr \<lparr>gv_repository = repo, gv_default_id = ce_experiment_id e, gv_experiments = [(ce_experiment_id e, e)],
            gv_events = [(xe_event_id v, v)], gv_drift = [], gv_snapshots = [], gv_proposals = []\<rparr>))"

definition experiments_initialize :: "governance \<Rightarrow> (governance, unit) outcome" where
  "experiments_initialize g =
     (case gv_repository g of
        None \<Rightarrow> (g, Inr ())
      | Some d \<Rightarrow>
          (case bind_result (list_consensus_experiments 10000 d) (\<lambda>es.
                bind_result (list_consensus_experiment_events 100000 d) (\<lambda>vs. Inr (es, vs))) of
             Inl exc \<Rightarrow> (g, Inl exc)
           | Inr (es, vs) \<Rightarrow>
               (case (dict_get (gv_experiments g) (gv_default_id g), dict_values (gv_events g)) of
                  (Some fallback, default_event # _) \<Rightarrow>
                    if ce_experiment_id fallback \<in> ce_experiment_id ` set es
                    then (g\<lparr>gv_experiments := dict_of ce_experiment_id es, gv_events := dict_of xe_event_id vs\<rparr>, Inr ())
                    else (case save_consensus_experiment_definition fallback default_event d of
                            (d', Inl exc) \<Rightarrow> (g\<lparr>gv_repository := Some d'\<rparr>, Inl exc)
                          | (d', Inr _) \<Rightarrow>
                              (g\<lparr>gv_repository := Some d', gv_experiments := dict_of ce_experiment_id (es @ [fallback]),
                                 gv_events := dict_of xe_event_id (vs @ [default_event])\<rparr>, Inr ()))
                | _ \<Rightarrow> (g, raise KeyError (gv_default_id g)))))"

definition outside_window :: "time \<Rightarrow> time \<Rightarrow> bool" where
  "outside_window now t \<longleftrightarrow> flt 300 < \<bar>total_seconds (now - t)\<bar>"

definition register_experiment ::
  "(json \<Rightarrow> string) \<Rightarrow> time \<Rightarrow> consensus_experiment \<Rightarrow> governance \<Rightarrow> (governance, consensus_experiment) outcome" where
  "register_experiment H now e g =
     (case dict_get (gv_experiments g) (ce_experiment_id e) of
        Some existing \<Rightarrow>
          (g, if existing \<noteq> e then raise ValueError ''Immutable experiment identity conflict'' else Inr existing)
      | None \<Rightarrow>
          if name_taken (gv_experiments g) e then (g, raise ValueError ''Experiment name and version already exist'')
          else if outside_window now (ce_created_at e)
          then (g, raise ValueError ''Experiment created_at must be within the server time window'')
          else (case created_event H e (ce_created_by e) ''Versioned experiment definition registered'' of
                  Inl exc \<Rightarrow> (g, Inl exc)
                | Inr v \<Rightarrow>
                    (case with_store (gv_repository g) (save_consensus_experiment_definition e v) () of
                       (repo, Inl exc) \<Rightarrow> (g\<lparr>gv_repository := repo\<rparr>, Inl exc)
                     | (repo, Inr _) \<Rightarrow>
                         (g\<lparr>gv_repository := repo, gv_experiments := dict_set (ce_experiment_id e) e (gv_experiments g),
                            gv_events := dict_set (xe_event_id v) v (gv_events g)\<rparr>, Inr e))))"

text \<open>The active experiment is a fold over the lifecycle events in order of time and identity.\<close>

fun activation_step :: "experiment_event \<Rightarrow> string option \<Rightarrow> string option" where
  "activation_step v active =
     (case xe_event_type v of
        EvACTIVATED \<Rightarrow> Some (xe_experiment_id v)
      | EvRETIRED \<Rightarrow> if active = Some (xe_experiment_id v) then None else active
      | EvCREATED \<Rightarrow> active)"

definition ordered_events :: "governance \<Rightarrow> experiment_event list" where
  "ordered_events g = sort_key xe_created_at (sort_key xe_event_id (dict_values (gv_events g)))"

definition activated_experiment_id :: "governance \<Rightarrow> string option" where
  "activated_experiment_id g = fold activation_step (ordered_events g) None"

definition record_event ::
  "time \<Rightarrow> experiment_event \<Rightarrow> governance \<Rightarrow> (governance, experiment_event) outcome" where
  "record_event now v g =
     (if dict_get (gv_experiments g) (xe_experiment_id v) = None then (g, raise ValueError ''Experiment does not exist'')
      else if xe_event_type v = EvCREATED then (g, raise ValueError ''CREATED is emitted only during registration'')
      else case dict_get (gv_events g) (xe_event_id v) of
             Some existing \<Rightarrow>
               (g, if existing \<noteq> v then raise ValueError ''Immutable experiment event conflict'' else Inr existing)
           | None \<Rightarrow>
               if outside_window now (xe_created_at v)
               then (g, raise ValueError ''Experiment event created_at must be within the server time window'')
               else if gv_events g = [] then (g, raise ValueError ''max() arg is an empty sequence'')
               else if list_ex (\<lambda>w. xe_created_at v < xe_created_at w) (dict_values (gv_events g))
               then (g, raise ValueError ''Experiment lifecycle events must be monotonic'')
               else if xe_event_type v = EvACTIVATED \<and> activated_experiment_id g = Some (xe_experiment_id v)
               then (g, raise ValueError ''Experiment is already active'')
               else if xe_event_type v = EvRETIRED \<and> activated_experiment_id g \<noteq> Some (xe_experiment_id v)
               then (g, raise ValueError ''Only the active experiment may be retired'')
               else (case with_store (gv_repository g) (save_consensus_experiment_event v) v of
                       (repo, Inl exc) \<Rightarrow> (g\<lparr>gv_repository := repo\<rparr>, Inl exc)
                     | (repo, Inr _) \<Rightarrow>
                         (g\<lparr>gv_repository := repo, gv_events := dict_set (xe_event_id v) v (gv_events g)\<rparr>, Inr v)))"

definition active_experiment :: "governance \<Rightarrow> consensus_experiment result" where
  "active_experiment g =
     (case dict_get (gv_experiments g) (gv_default_id g) of
        None \<Rightarrow> raise KeyError (gv_default_id g)
      | Some fallback \<Rightarrow>
          (let i = (case activated_experiment_id g of None \<Rightarrow> gv_default_id g
                    | Some j \<Rightarrow> if j = [] then gv_default_id g else j)
           in Inr (case dict_get (gv_experiments g) i of None \<Rightarrow> fallback | Some e \<Rightarrow> e)))"

definition list_experiments :: "governance \<Rightarrow> consensus_experiment list" where
  "list_experiments g = newest ce_created_at ce_experiment_id (length (gv_experiments g)) (dict_values (gv_experiments g))"

definition list_events :: "governance \<Rightarrow> experiment_event list" where
  "list_events g = newest xe_created_at xe_event_id (length (gv_events g)) (dict_values (gv_events g))"

section \<open>The drift monitor\<close>

definition drift_initialize :: "governance \<Rightarrow> (governance, unit) outcome" where
  "drift_initialize g =
     (case gv_repository g of
        None \<Rightarrow> (g, Inr ())
      | Some d \<Rightarrow>
          (case list_drift_observations 100000 d of
             Inl exc \<Rightarrow> (g, Inl exc)
           | Inr xs \<Rightarrow> (g\<lparr>gv_drift := dict_of do_observation_id xs\<rparr>, Inr ())))"

definition directional_outcomes :: "agent_forecast_outcome list \<Rightarrow> agent_forecast_outcome list" where
  "directional_outcomes = filter (\<lambda>x. fo_correct x \<noteq> None)"

definition drift_marks :: "pyfloat option \<Rightarrow> pyfloat \<Rightarrow> pyfloat \<Rightarrow> consensus_experiment \<Rightarrow> string list \<times> string list" where
  "drift_marks accuracy_delta brier_delta marginal_delta e =
     (let acc = ''ACCURACY_DROP''; brier = ''BRIER_LOSS_INCREASE''; marg = ''MARGINAL_CONTRIBUTION_DROP'';
          acc_critical = (case accuracy_delta of None \<Rightarrow> False | Some x \<Rightarrow> x \<le> - ce_critical_accuracy_drop e);
          acc_warning = (case accuracy_delta of None \<Rightarrow> False | Some x \<Rightarrow> x \<le> - (ce_critical_accuracy_drop e / flt 2));
          brier_critical = (ce_critical_brier_increase e \<le> brier_delta);
          brier_warning = (ce_critical_brier_increase e / flt 2 \<le> brier_delta);
          marg_critical = (marginal_delta \<le> - ce_critical_marginal_drop e);
          marg_warning = (marginal_delta \<le> - (ce_critical_marginal_drop e / flt 2))
      in ((if acc_critical then [acc] else []) @ (if brier_critical then [brier] else []) @ (if marg_critical then [marg] else []),
          (if \<not> acc_critical \<and> acc_warning then [acc] else []) @ (if \<not> brier_critical \<and> brier_warning then [brier] else []) @
          (if \<not> marg_critical \<and> marg_warning then [marg] else [])))"

definition drift_of ::
  "(json \<Rightarrow> string) \<Rightarrow> time \<Rightarrow> consensus_experiment \<Rightarrow> agent_registration
     \<Rightarrow> (agent_forecast \<times> agent_forecast_outcome) list \<Rightarrow> drift_observation result" where
  "drift_of H now e a history =
     (let cur = nat (ce_drift_current_samples e);
          required = nat (ce_drift_reference_samples e + ce_drift_current_samples e);
          window = map snd (drop (length history - required) history);
          reference = take (required - cur) window;
          current = drop (required - cur) window;
          comparable = (directional_outcomes reference \<noteq> [] \<and> directional_outcomes current \<noteq> []);
          reference_accuracy = (if comparable then Some (accuracy (directional_outcomes reference)) else None);
          current_accuracy = (if comparable then Some (accuracy (directional_outcomes current)) else None);
          accuracy_delta = (case (reference_accuracy, current_accuracy) of (Some r, Some c) \<Rightarrow> Some (c - r) | _ \<Rightarrow> None);
          reference_brier = fmean (map fo_brier_loss reference);
          current_brier = fmean (map fo_brier_loss current);
          reference_marginal = fmean (map fo_marginal_contribution reference);
          current_marginal = fmean (map fo_marginal_contribution current);
          marks = drift_marks accuracy_delta (current_brier - reference_brier) (current_marginal - reference_marginal) e
      in new_drift_observation H
           \<lparr>do_observation_id = [], do_experiment_id = ce_experiment_id e, do_agent_name = ag_agent_name a,
            do_agent_version = ag_version a, do_reference_samples = int (length reference),
            do_current_samples = int (length current), do_reference_accuracy = reference_accuracy,
            do_current_accuracy = current_accuracy, do_accuracy_delta = accuracy_delta,
            do_reference_brier_loss = reference_brier, do_current_brier_loss = current_brier,
            do_brier_delta = current_brier - reference_brier, do_reference_marginal = reference_marginal,
            do_current_marginal = current_marginal, do_marginal_delta = current_marginal - reference_marginal,
            do_severity = (if fst marks \<noteq> [] then DriftCRITICAL else if snd marks \<noteq> [] then DriftWARNING else DriftNONE),
            do_reasons = sorted_set (fst marks @ snd marks), do_observed_at = fo_realized_at (last current),
            do_created_at = now\<rparr>)"

fun drift_pending ::
  "(json \<Rightarrow> string) \<Rightarrow> time \<Rightarrow> consensus_experiment \<Rightarrow> agent_evaluation \<Rightarrow> agent_registration list \<Rightarrow> drift_observation list result" where
  "drift_pending H now e s [] = Inr []"
| "drift_pending H now e s (a # as) =
     bind_result (settled_history (ag_agent_name a) (ag_version a) 10000 s) (\<lambda>history.
       if int (length history) < ce_drift_reference_samples e + ce_drift_current_samples e then drift_pending H now e s as
       else bind_result (drift_of H now e a history) (\<lambda>x.
            bind_result (drift_pending H now e s as) (\<lambda>xs. Inr (x # xs))))"

definition observe_drift ::
  "(json \<Rightarrow> string) \<Rightarrow> time \<Rightarrow> consensus_experiment \<Rightarrow> agent_registration dict \<Rightarrow> agent_evaluation \<Rightarrow> governance
     \<Rightarrow> (governance, ((string \<times> string) \<times> drift_observation) list) outcome" where
  "observe_drift H now e registrations s g =
     (case drift_pending H now e s (dict_values registrations) of
        Inl exc \<Rightarrow> (g, Inl exc)
      | Inr pending \<Rightarrow>
          (case with_store (gv_repository g) (save_drift_observations pending) pending of
             (repo, Inl exc) \<Rightarrow> (g\<lparr>gv_repository := repo\<rparr>, Inl exc)
           | (repo, Inr stored) \<Rightarrow>
               (g\<lparr>gv_repository := repo, gv_drift := fold (\<lambda>x m. dict_set (do_observation_id x) x m) stored (gv_drift g)\<rparr>,
                Inr (fold (\<lambda>x m. dict_set (do_agent_name x, do_agent_version x) x m) stored []))))"

definition drift_list :: "nat \<Rightarrow> governance \<Rightarrow> drift_observation list" where
  "drift_list limit g = newest do_observed_at do_observation_id limit (dict_values (gv_drift g))"

section \<open>Concentration capping\<close>

text \<open>
  Indices whose share exceeds the cap get the cap and leave the pool; when no share does, the pool is
  distributed and the loop ends. Every round that continues removes an index.
\<close>

definition over_cap :: "pyfloat list \<Rightarrow> pyfloat \<Rightarrow> nat list \<Rightarrow> pyfloat \<Rightarrow> nat list" where
  "over_cap scores cap remaining mass =
     filter (\<lambda>i. cap < mass * (scores ! i) / py_sum (map ((!) scores) remaining)) remaining"

function capped_loop :: "pyfloat list \<Rightarrow> pyfloat \<Rightarrow> nat list \<Rightarrow> pyfloat \<Rightarrow> pyfloat list \<Rightarrow> pyfloat list result" where
  "capped_loop scores cap remaining mass weights =
     (if remaining = [] then Inr weights
      else
        let total = py_sum (map ((!) scores) remaining); capped = over_cap scores cap remaining mass
        in if total = 0 then raise ZeroDivisionError ''float division by zero''
           else if capped = [] then Inr (fold (\<lambda>i ws. ws[i := mass * (scores ! i) / total]) remaining weights)
           else capped_loop scores cap (filter (\<lambda>i. i \<notin> set capped) remaining) (fold (\<lambda>_ m. m - cap) capped mass)
                  (fold (\<lambda>i ws. ws[i := cap]) capped weights))"
  by auto
termination
proof (relation "measure (\<lambda>(_, _, remaining, _, _). length remaining)")
  fix scores cap and remaining :: "nat list" and mass and weights :: "pyfloat list" and total capped
  assume "capped = over_cap scores cap remaining mass" "capped \<noteq> []"
  then obtain i where "i \<in> set remaining" "i \<in> set capped" by (auto simp: over_cap_def filter_empty_conv)
  then show "((scores, cap, filter (\<lambda>i. i \<notin> set capped) remaining, fold (\<lambda>_ m. m - cap) capped mass,
      fold (\<lambda>i ws. ws[i := cap]) capped weights), scores, cap, remaining, mass, weights)
      \<in> measure (\<lambda>(_, _, remaining, _, _). length remaining)"
    by (auto intro!: length_filter_less)
qed simp

declare capped_loop.simps [simp del]

definition capped_weights :: "pyfloat list \<Rightarrow> pyfloat \<Rightarrow> pyfloat list result" where
  "capped_weights scores cap =
     bind_result (capped_loop scores cap [0..<length scores] 1 (replicate (length scores) 0)) (\<lambda>weights.
       let rounded = map (\<lambda>w. py_round w 12) weights
       in if rounded = [] then raise IndexError ''list index out of range''
          else Inr (butlast rounded @ [py_round (last rounded + (1 - py_sum rounded)) 12]))"

section \<open>The weighted consensus\<close>

definition consensus_initialize :: "governance \<Rightarrow> (governance, unit) outcome" where
  "consensus_initialize g =
     (case gv_repository g of
        None \<Rightarrow> (g, Inr ())
      | Some d \<Rightarrow>
          (case list_weighted_consensus 100000 d of
             Inl exc \<Rightarrow> (g, Inl exc)
           | Inr ws \<Rightarrow> (g\<lparr>gv_snapshots := dict_of wc_consensus_id ws\<rparr>, Inr ())))"

type_synonym drift_map = "((string \<times> string) \<times> drift_observation) list"

definition exclusion_reason ::
  "consensus_experiment \<Rightarrow> agent_output \<Rightarrow> agent_registration \<Rightarrow> agent_scorecard option \<Rightarrow> drift_map \<Rightarrow> string option" where
  "exclusion_reason e out a evidence drift =
     (if ao_status out \<noteq> AsCOMPLETED then Some (''OUTPUT_'' @ agent_status_value (ao_status out))
      else case evidence of
        None \<Rightarrow> Some ''INSUFFICIENT_SAMPLE''
      | Some c \<Rightarrow>
          if cr_sample_count c < ce_minimum_samples e then Some ''INSUFFICIENT_SAMPLE''
          else if cr_directional_sample_count c < ce_minimum_directional_samples e then Some ''INSUFFICIENT_DIRECTIONAL_SAMPLE''
          else if (case cr_accuracy c of None \<Rightarrow> True | Some x \<Rightarrow> x < ce_minimum_accuracy e) then Some ''ACCURACY_BELOW_THRESHOLD''
          else if (case cr_mean_brier_loss c of None \<Rightarrow> True | Some x \<Rightarrow> ce_maximum_brier_loss e < x)
          then Some ''BRIER_LOSS_ABOVE_THRESHOLD''
          else if (case cr_mean_marginal_contribution c of None \<Rightarrow> True | Some x \<Rightarrow> x \<le> ce_minimum_marginal_contribution e)
          then Some ''NON_POSITIVE_MARGINAL_CONTRIBUTION''
          else if (case dict_get drift (ag_agent_name a, ag_version a) of None \<Rightarrow> False | Some x \<Rightarrow> do_severity x = DriftCRITICAL)
          then Some ''CRITICAL_DRIFT''
          else None)"

definition raw_score :: "agent_scorecard \<Rightarrow> pyfloat" where
  "raw_score c =
     max (flt (1 / 10 ^ 9))
       (the (cr_accuracy c) * (1 - the (cr_mean_brier_loss c)) * (1 + the (cr_mean_marginal_contribution c)))"

type_synonym consensus_candidate = "agent_output \<times> agent_registration \<times> agent_scorecard \<times> pyfloat"

definition card_key :: "agent_scorecard \<Rightarrow> string \<times> string" where
  "card_key c = (cr_agent_name c, cr_agent_version c)"

definition screen_output ::
  "consensus_experiment \<Rightarrow> agent_registration dict \<Rightarrow> ((string \<times> string) \<times> agent_scorecard) list \<Rightarrow> drift_map \<Rightarrow> agent_output
     \<Rightarrow> string dict \<times> consensus_candidate list \<Rightarrow> string dict \<times> consensus_candidate list" where
  "screen_output e registrations cards drift out = (\<lambda>(excluded, candidates).
     case dict_get registrations (ao_agent_name out) of
       None \<Rightarrow> (excluded, candidates)
     | Some a \<Rightarrow>
         if ag_decision_role a \<noteq> SHADOW then (excluded, candidates)
         else let evidence = dict_get cards (ag_agent_name a, ag_version a)
              in (case exclusion_reason e out a evidence drift of
                    Some reason \<Rightarrow> (dict_set (ao_agent_name out) reason excluded, candidates)
                  | None \<Rightarrow> (excluded, candidates @ [(out, a, the evidence, raw_score (the evidence))])))"

definition screened ::
  "consensus_experiment \<Rightarrow> agent_registration dict \<Rightarrow> agent_scorecard list \<Rightarrow> drift_map \<Rightarrow> agent_output list
     \<Rightarrow> string dict \<times> consensus_candidate list" where
  "screened e registrations cards drift outputs =
     fold (screen_output e registrations (dict_of card_key cards) drift) outputs ([], [])"

definition consensus_weight_of :: "consensus_candidate \<times> pyfloat \<Rightarrow> consensus_weight result" where
  "consensus_weight_of = (\<lambda>((out, a, c, score), weight).
     validate valid_consensus_weight
       \<lparr>cw_agent_name = ag_agent_name a, cw_agent_version = ag_version a, cw_sample_count = cr_sample_count c,
        cw_directional_sample_count = cr_directional_sample_count c, cw_accuracy = the (cr_accuracy c),
        cw_mean_brier_loss = the (cr_mean_brier_loss c),
        cw_mean_marginal_contribution = the (cr_mean_marginal_contribution c), cw_probability_up = probability out,
        cw_raw_score = score, cw_weight = weight\<rparr>)"

definition pooled_probability :: "(consensus_candidate \<times> pyfloat) list \<Rightarrow> pyfloat" where
  "pooled_probability pairs = fold (\<lambda>((out, a, c, score), weight) p. p + probability out * weight) pairs 0"

definition consensus_signal :: "consensus_experiment \<Rightarrow> pyfloat \<Rightarrow> signal" where
  "consensus_signal e p =
     (if ce_buy_probability_threshold e \<le> p then SigBUY else if p \<le> ce_sell_probability_threshold e then SigSELL else SigHOLD)"

definition insufficient_consensus ::
  "(json \<Rightarrow> string) \<Rightarrow> time \<Rightarrow> consensus_experiment \<Rightarrow> decision \<Rightarrow> string dict \<Rightarrow> weighted_consensus result" where
  "insufficient_consensus H now e baseline excluded =
     new_weighted_consensus H
       \<lparr>wc_consensus_id = [], wc_correlation_id = dec_correlation_id baseline, wc_experiment_id = ce_experiment_id e,
        wc_experiment_version = ce_version e, wc_mode = ce_mode e, wc_symbol = dec_symbol baseline,
        wc_timeframe = dec_timeframe baseline, wc_ready = False, wc_baseline_action = dec_candidate_action baseline,
        wc_baseline_confidence = dec_confidence baseline, wc_probability_up = None, wc_signal = SigWAIT,
        wc_consensus_confidence = 0, wc_eligible_agent_count = 0, wc_excluded_agents = excluded, wc_weights = [],
        wc_applied = False, wc_final_action = dec_candidate_action baseline, wc_final_confidence = dec_confidence baseline,
        wc_reason = ''Performance consensus unavailable; static primary decision preserved'', wc_created_at = now\<rparr>"

definition ready_consensus ::
  "(json \<Rightarrow> string) \<Rightarrow> time \<Rightarrow> consensus_experiment \<Rightarrow> decision \<Rightarrow> string dict \<Rightarrow> consensus_weight list \<Rightarrow> pyfloat
     \<Rightarrow> weighted_consensus result" where
  "ready_consensus H now e baseline excluded weights p =
     (let signal = consensus_signal e p;
          applied = (ce_mode e = ModeCONFIRMATION \<and> directional (dec_candidate_action baseline));
          agrees = (signal_value signal = action_value (dec_candidate_action baseline));
          veto = (applied \<and> \<not> agrees)
      in new_weighted_consensus H
           \<lparr>wc_consensus_id = [], wc_correlation_id = dec_correlation_id baseline, wc_experiment_id = ce_experiment_id e,
            wc_experiment_version = ce_version e, wc_mode = ce_mode e, wc_symbol = dec_symbol baseline,
            wc_timeframe = dec_timeframe baseline, wc_ready = True, wc_baseline_action = dec_candidate_action baseline,
            wc_baseline_confidence = dec_confidence baseline, wc_probability_up = Some (py_round p 12), wc_signal = signal,
            wc_consensus_confidence = min 100 (round_half_even (fval (\<bar>p - flt (1 / 2)\<bar> * flt 200))),
            wc_eligible_agent_count = int (length weights), wc_excluded_agents = excluded, wc_weights = weights,
            wc_applied = applied, wc_final_action = (if veto then ActWAIT else dec_candidate_action baseline),
            wc_final_confidence = (if veto then 0 else dec_confidence baseline),
            wc_reason =
              (if veto then ''Consensus did not confirm the primary direction; candidate tightened to WAIT''
               else if applied then ''Eligible performance-weighted agents confirmed the primary direction''
               else ''Weighted consensus recorded in shadow mode''),
            wc_created_at = now\<rparr>)"

definition consensus_artifact ::
  "(json \<Rightarrow> string) \<Rightarrow> time \<Rightarrow> consensus_experiment \<Rightarrow> decision \<Rightarrow> string dict \<Rightarrow> consensus_candidate list \<Rightarrow> weighted_consensus result" where
  "consensus_artifact H now e baseline excluded candidates =
     (if int (length candidates) < ce_minimum_eligible_agents e then insufficient_consensus H now e baseline excluded
      else
        bind_result (capped_weights (map (\<lambda>(out, a, c, score). score) candidates) (ce_maximum_agent_weight e)) (\<lambda>normalized.
        bind_result (map_result consensus_weight_of (zip candidates normalized)) (\<lambda>weights.
          ready_consensus H now e baseline excluded weights (pooled_probability (zip candidates normalized)))))"

definition evaluate_consensus ::
  "(json \<Rightarrow> string) \<Rightarrow> time \<Rightarrow> decision \<Rightarrow> agent_output list \<Rightarrow> agent_registration dict \<Rightarrow> agent_evaluation \<Rightarrow> governance
     \<Rightarrow> (governance, weighted_consensus) outcome" where
  "evaluate_consensus H now baseline outputs registrations s g =
     (case bind_result (active_experiment g) (\<lambda>e. bind_result (scorecards s) (\<lambda>cards. Inr (e, cards))) of
        Inl exc \<Rightarrow> (g, Inl exc)
      | Inr (e, cards) \<Rightarrow>
          bind_outcome (observe_drift H now e registrations s g) (\<lambda>g1 drift.
            case screened e registrations cards drift outputs of
              (excluded, candidates) \<Rightarrow>
                (case consensus_artifact H now e baseline excluded candidates of
                   Inl exc \<Rightarrow> (g1, Inl exc)
                 | Inr w \<Rightarrow>
                     (case with_store (gv_repository g1) (save_weighted_consensus w) w of
                        (repo, Inl exc) \<Rightarrow> (g1\<lparr>gv_repository := repo\<rparr>, Inl exc)
                      | (repo, Inr stored) \<Rightarrow>
                          (g1\<lparr>gv_repository := repo, gv_snapshots := dict_set (wc_consensus_id stored) stored (gv_snapshots g1)\<rparr>,
                           Inr stored)))))"

definition consensus_list :: "nat \<Rightarrow> governance \<Rightarrow> weighted_consensus list" where
  "consensus_list limit g = newest wc_created_at wc_consensus_id limit (dict_values (gv_snapshots g))"

section \<open>Portfolio construction\<close>

definition valid_target_weight :: "pyfloat \<Rightarrow> unit result" where
  "valid_target_weight w =
     (if 0 < w \<and> w \<le> flt 100 then Inr () else raise ValueError ''Portfolio target weight must be in (0, 100]'')"

definition proposals_initialize :: "governance \<Rightarrow> (governance, unit) outcome" where
  "proposals_initialize g =
     (case gv_repository g of
        None \<Rightarrow> (g, Inr ())
      | Some d \<Rightarrow>
          (case list_portfolio_proposals 100000 d of
             Inl exc \<Rightarrow> (g, Inl exc)
           | Inr ps \<Rightarrow> (g\<lparr>gv_proposals := dict_of pp_proposal_id ps\<rparr>, Inr ())))"

definition notional_where :: "(position_exposure \<Rightarrow> bool) \<Rightarrow> position_exposure list \<Rightarrow> pyfloat" where
  "notional_where P positions = py_sum (map pe_notional (filter P positions))"

definition signed_exposure :: "position_exposure list \<Rightarrow> pyfloat" where
  "signed_exposure positions = py_sum (map (\<lambda>p. if pe_side p = BUY then pe_notional p else - pe_notional p) positions)"

definition requested_weight :: "pyfloat \<Rightarrow> decision \<Rightarrow> pyfloat" where
  "requested_weight max_target dec =
     (if directional (dec_candidate_action dec) then max_target * flt (of_int (dec_confidence dec)) / flt 100 else 0)"

definition target_capacities ::
  "risk_limits \<Rightarrow> pyfloat \<Rightarrow> decision \<Rightarrow> pyfloat \<Rightarrow> position_exposure list \<Rightarrow> (string \<times> pyfloat) list" where
  "target_capacities limits max_target dec balance positions =
     (let gross = py_sum (map pe_notional positions);
          net_percent = signed_exposure positions / balance * flt 100
      in [(''PORTFOLIO_TARGET_LIMIT'', max_target),
          (''GROSS_EXPOSURE_LIMIT'', rl_max_gross_exposure_percent limits - gross / balance * flt 100),
          (''NET_EXPOSURE_LIMIT'',
           if dec_candidate_action dec = ActBUY then rl_max_net_exposure_percent limits - net_percent
           else rl_max_net_exposure_percent limits + net_percent),
          (''SYMBOL_EXPOSURE_LIMIT'',
           rl_max_symbol_exposure_percent limits - notional_where (\<lambda>p. pe_symbol p = dec_symbol dec) positions / balance * flt 100),
          (''STRATEGY_EXPOSURE_LIMIT'',
           rl_max_strategy_exposure_percent limits - notional_where (\<lambda>p. pe_strategy p = dec_strategy dec) positions / balance * flt 100),
          (''SINGLE_POSITION_LIMIT'', rl_max_single_position_percent limits)])"

definition capped_target :: "pyfloat \<Rightarrow> (string \<times> pyfloat) list \<Rightarrow> pyfloat" where
  "capped_target requested caps = max 0 (fold min (map snd caps) requested)"

definition proposed_target ::
  "risk_limits \<Rightarrow> pyfloat \<Rightarrow> decision \<Rightarrow> pyfloat \<Rightarrow> position_exposure list
     \<Rightarrow> (pyfloat \<times> string list \<times> proposal_status) result" where
  "proposed_target limits max_target dec balance positions =
     (if 0 < requested_weight max_target dec
      then if balance = 0 then raise ZeroDivisionError ''float division by zero''
           else let caps = target_capacities limits max_target dec balance positions;
                    capped = capped_target (requested_weight max_target dec) caps
                in Inr (capped, sort (map fst (filter (\<lambda>(name, capacity). capacity \<le> capped + flt (1 / 10 ^ 9)) caps)),
                        if 0 < capped then PROPOSED else PROPOSAL_BLOCKED)
      else Inr (0, [], NO_ACTION))"

definition build_proposal ::
  "(json \<Rightarrow> string) \<Rightarrow> time \<Rightarrow> risk_limits \<Rightarrow> pyfloat \<Rightarrow> decision \<Rightarrow> weighted_consensus \<Rightarrow> pyfloat \<Rightarrow> position_exposure list
     \<Rightarrow> portfolio_proposal result" where
  "build_proposal H now limits max_target dec consensus balance positions =
     bind_result (proposed_target limits max_target dec balance positions) (\<lambda>(capped, binding, status).
       new_portfolio_proposal H
         \<lparr>pp_proposal_id = [], pp_correlation_id = dec_correlation_id dec, pp_consensus_id = Some (wc_consensus_id consensus),
          pp_experiment_id = wc_experiment_id consensus, pp_symbol = dec_symbol dec, pp_timeframe = dec_timeframe dec,
          pp_strategy = dec_strategy dec, pp_action = dec_candidate_action dec, pp_confidence = dec_confidence dec,
          pp_balance = balance, pp_requested_weight_percent = py_round (requested_weight max_target dec) 12,
          pp_capped_weight_percent = py_round capped 12, pp_max_notional = py_round (balance * capped / flt 100) 8,
          pp_current_gross_exposure = py_round (py_sum (map pe_notional positions)) 8,
          pp_current_net_exposure = py_round (signed_exposure positions) 8, pp_max_target_weight_percent = max_target,
          pp_max_gross_exposure_percent = rl_max_gross_exposure_percent limits,
          pp_max_net_exposure_percent = rl_max_net_exposure_percent limits,
          pp_max_symbol_exposure_percent = rl_max_symbol_exposure_percent limits,
          pp_max_strategy_exposure_percent = rl_max_strategy_exposure_percent limits,
          pp_max_single_position_percent = rl_max_single_position_percent limits, pp_status = status,
          pp_binding_limits = binding, pp_created_at = now\<rparr>)"

definition propose ::
  "(json \<Rightarrow> string) \<Rightarrow> time \<Rightarrow> risk_limits \<Rightarrow> pyfloat \<Rightarrow> decision \<Rightarrow> weighted_consensus \<Rightarrow> pyfloat \<Rightarrow> risk_manager \<Rightarrow> governance
     \<Rightarrow> (governance, portfolio_proposal) outcome" where
  "propose H now limits max_target dec consensus balance rm g =
     (case build_proposal H now limits max_target dec consensus balance (dict_values (rm_positions rm)) of
        Inl exc \<Rightarrow> (g, Inl exc)
      | Inr p \<Rightarrow>
          (case with_store (gv_repository g) (save_portfolio_proposal p) p of
             (repo, Inl exc) \<Rightarrow> (g\<lparr>gv_repository := repo\<rparr>, Inl exc)
           | (repo, Inr stored) \<Rightarrow>
               (g\<lparr>gv_repository := repo, gv_proposals := dict_set (pp_proposal_id stored) stored (gv_proposals g)\<rparr>, Inr stored)))"

definition proposal_list :: "nat \<Rightarrow> governance \<Rightarrow> portfolio_proposal list" where
  "proposal_list limit g = newest pp_created_at pp_proposal_id limit (dict_values (gv_proposals g))"

end
