(* ===== verification/Consensus_Properties.thy ===== *)
theory Consensus_Properties
  imports Consensus
begin

text \<open>
  Guarantees of the governance services: the consensus can only confirm a direction or tighten it to WAIT, it
  rests on eligible evidence with capped weights, the experiment registry refines a small lifecycle, and a
  portfolio proposal stays inside every limit.
\<close>

section \<open>The capped weights\<close>

lemma fold_set_nth [simp]:
  "length (fold (\<lambda>i ws. ws[i := f i]) is ws) = length ws"
  by (induction "is" arbitrary: ws) simp_all

lemma nth_fold_set:
  "j < length ws \<Longrightarrow> fold (\<lambda>i ws. ws[i := f i]) is ws ! j = (if j \<in> set is then f j else ws ! j)"
  by (induction "is" arbitrary: ws) auto

lemma capped_loop_bound:
  assumes "capped_loop scores cap remaining mass weights = Inr ws"
  shows "length ws = length weights \<and> (\<forall>j < length ws. ws ! j \<le> cap \<or> j \<notin> set remaining \<and> ws ! j = weights ! j)"
  using assms
proof (induction scores cap remaining mass weights rule: capped_loop.induct)
  case (1 scores cap remaining mass weights)
  let ?total = "py_sum (map ((!) scores) remaining)" and ?capped = "over_cap scores cap remaining mass"
  show ?case
  proof (cases "remaining = [] \<or> ?total = 0")
    case True
    then show ?thesis using "1.prems" by (auto simp: capped_loop.simps [of scores cap remaining mass weights] Let_def split: if_splits)
  next
    case False
    show ?thesis
    proof (cases "?capped = []")
      case True
      then have "\<forall>i \<in> set remaining. mass * (scores ! i) / ?total \<le> cap"
        by (auto simp: over_cap_def filter_empty_conv not_less)
      then show ?thesis using "1.prems" False True
        by (auto simp: capped_loop.simps [of scores cap remaining mass weights] Let_def nth_fold_set)
    next
      case capped: False
      have "capped_loop scores cap (filter (\<lambda>i. i \<notin> set ?capped) remaining) (fold (\<lambda>_ m. m - cap) ?capped mass)
          (fold (\<lambda>i ws. ws[i := cap]) ?capped weights) = Inr ws"
        using "1.prems" False capped by (simp add: capped_loop.simps [of scores cap remaining mass weights] Let_def)
      from "1.IH" [OF _ refl refl _ capped this] False
      have "length ws = length weights"
        "\<forall>j < length ws. ws ! j \<le> cap \<or> j \<notin> set (filter (\<lambda>i. i \<notin> set ?capped) remaining) \<and>
           ws ! j = fold (\<lambda>i ws. ws[i := cap]) ?capped weights ! j" by simp_all
      moreover have "set ?capped \<subseteq> set remaining" by (auto simp: over_cap_def)
      ultimately show ?thesis by (auto simp: nth_fold_set split: if_splits)
    qed
  qed
qed

lemma capped_weights_bound:
  assumes "capped_weights scores cap = Inr ws"
  shows "length ws = length scores \<and> (\<forall>j < length ws - 1. ws ! j \<le> py_round cap 12)"
proof -
  obtain us where us: "capped_loop scores cap [0..<length scores] 1 (replicate (length scores) 0) = Inr us"
    and ws: "us \<noteq> []" "ws = butlast (map (\<lambda>w. py_round w 12) us) @
      [py_round (last (map (\<lambda>w. py_round w 12) us) + (1 - py_sum (map (\<lambda>w. py_round w 12) us))) 12]"
    using assms by (auto simp: capped_weights_def bind_result_Inr Let_def split: if_splits)
  from capped_loop_bound [OF us] have len: "length us = length scores" and le: "\<forall>j < length us. us ! j \<le> cap"
    by auto
  have "length ws = length scores" using ws len by (simp flip: len)
  moreover have "ws ! j \<le> py_round cap 12" if "j < length ws - 1" for j
    using that le by (simp add: ws(2) nth_append nth_butlast py_round_mono)
  ultimately show ?thesis by blast
qed

section \<open>Screening\<close>

definition eligible ::
  "consensus_experiment \<Rightarrow> agent_registration dict \<Rightarrow> ((string \<times> string) \<times> agent_scorecard) list \<Rightarrow> drift_map \<Rightarrow> consensus_candidate \<Rightarrow> bool" where
  "eligible e registrations cards drift = (\<lambda>(out, a, c, score).
     dict_get registrations (ao_agent_name out) = Some a \<and> ag_decision_role a = SHADOW \<and>
     dict_get cards (ag_agent_name a, ag_version a) = Some c \<and> ao_status out = AsCOMPLETED \<and>
     ce_minimum_samples e \<le> cr_sample_count c \<and> ce_minimum_directional_samples e \<le> cr_directional_sample_count c \<and>
     (\<exists>x. cr_accuracy c = Some x \<and> ce_minimum_accuracy e \<le> x) \<and>
     (\<exists>x. cr_mean_brier_loss c = Some x \<and> x \<le> ce_maximum_brier_loss e) \<and>
     (\<exists>x. cr_mean_marginal_contribution c = Some x \<and> ce_minimum_marginal_contribution e < x) \<and>
     (\<forall>x. dict_get drift (ag_agent_name a, ag_version a) = Some x \<longrightarrow> do_severity x \<noteq> DriftCRITICAL) \<and>
     score = raw_score c)"

lemma exclusion_reason_None:
  assumes "exclusion_reason e out a evidence drift = None"
  obtains c where "evidence = Some c" "ao_status out = AsCOMPLETED"
    "ce_minimum_samples e \<le> cr_sample_count c" "ce_minimum_directional_samples e \<le> cr_directional_sample_count c"
    "\<exists>x. cr_accuracy c = Some x \<and> ce_minimum_accuracy e \<le> x"
    "\<exists>x. cr_mean_brier_loss c = Some x \<and> x \<le> ce_maximum_brier_loss e"
    "\<exists>x. cr_mean_marginal_contribution c = Some x \<and> ce_minimum_marginal_contribution e < x"
    "\<forall>x. dict_get drift (ag_agent_name a, ag_version a) = Some x \<longrightarrow> do_severity x \<noteq> DriftCRITICAL"
  using assms by (auto simp: exclusion_reason_def not_less not_le split: if_splits option.splits)

lemma screen_output_eligible:
  assumes acc: "\<forall>c \<in> set (snd acc). eligible e registrations cards drift c \<and> fst c \<in> outs" and out: "out \<in> outs"
  shows "\<forall>c \<in> set (snd (screen_output e registrations cards drift out acc)). eligible e registrations cards drift c \<and> fst c \<in> outs"
proof (cases "snd (screen_output e registrations cards drift out acc) = snd acc")
  case False
  then obtain a where a: "dict_get registrations (ao_agent_name out) = Some a" "ag_decision_role a = SHADOW"
    "exclusion_reason e out a (dict_get cards (ag_agent_name a, ag_version a)) drift = None"
    "snd (screen_output e registrations cards drift out acc) =
       snd acc @ [(out, a, the (dict_get cards (ag_agent_name a, ag_version a)), raw_score (the (dict_get cards (ag_agent_name a, ag_version a))))]"
    by (cases acc) (auto simp: screen_output_def Let_def split: option.splits if_splits)
  from a(3) obtain c where "dict_get cards (ag_agent_name a, ag_version a) = Some c"
    "eligible e registrations cards drift (out, a, c, raw_score c)"
    by (rule exclusion_reason_None) (simp add: eligible_def a(1,2))
  with acc out a(4) show ?thesis by simp
qed (use acc in simp)

lemma fold_screen_eligible:
  assumes "\<forall>c \<in> set (snd acc). eligible e registrations cards drift c \<and> fst c \<in> outs" "set xs \<subseteq> outs"
  shows "\<forall>c \<in> set (snd (fold (screen_output e registrations cards drift) xs acc)).
    eligible e registrations cards drift c \<and> fst c \<in> outs"
  using assms
proof (induction xs arbitrary: acc)
  case (Cons x xs)
  from Cons.prems(2) have "x \<in> outs" by simp
  from Cons.IH [OF screen_output_eligible [OF Cons.prems(1) this]] Cons.prems(2) show ?case by simp
qed simp

lemma screened_eligible:
  assumes "screened e registrations cards drift outputs = (excluded, candidates)"
  shows "\<forall>c \<in> set candidates. eligible e registrations (dict_of card_key cards) drift c \<and> fst c \<in> set outputs"
  using fold_screen_eligible [of "([], [])" e registrations "dict_of card_key cards" drift "set outputs" outputs] assms
  by (simp add: screened_def)

section \<open>The artifact\<close>

lemma append_artifact_Inr:
  "append_artifact label refs i x rows = Inr (rows', y) \<Longrightarrow> y = x \<and> dict_get rows' i = Some x \<and>
     (rows' = rows \<or> dict_get rows i = None \<and> refs \<and> rows' = dict_set i x rows)"
  by (auto simp: append_artifact_def dict_simps split: option.splits if_splits)

lemma save_weighted_consensus_Inr: "save_weighted_consensus w d = (d', Inr y) \<Longrightarrow> y = w"
  by (auto simp: save_weighted_consensus_def bind_result_Inr elim!: fs_transaction_cases dest: append_artifact_Inr)

lemma with_store_Inr:
  assumes "with_store repo f x = (repo', Inr y)"
  obtains (memory) "repo = None" "repo' = None" "y = x" | (stored) d d' where "repo = Some d" "repo' = Some d'" "f d = (d', Inr y)"
  using assms by (auto simp: with_store_def split: option.splits prod.splits)

lemma evaluate_consensus_Inr:
  assumes "evaluate_consensus H now baseline outputs registrations s g = (g', Inr w)"
  obtains e cards g1 drift excluded candidates where "active_experiment g = Inr e" "scorecards s = Inr cards"
    "observe_drift H now e registrations s g = (g1, Inr drift)"
    "screened e registrations cards drift outputs = (excluded, candidates)"
    "consensus_artifact H now e baseline excluded candidates = Inr w"
proof -
  obtain e cards where ec: "active_experiment g = Inr e" "scorecards s = Inr cards"
    using assms by (auto simp: evaluate_consensus_def bind_result_def split: sum.splits)
  obtain g1 drift where g1: "observe_drift H now e registrations s g = (g1, Inr drift)"
    using assms ec by (auto simp: evaluate_consensus_def bind_result_def bind_outcome_def split: sum.splits prod.splits)
  obtain excluded candidates where sc: "screened e registrations cards drift outputs = (excluded, candidates)" by force
  obtain w0 where w0: "consensus_artifact H now e baseline excluded candidates = Inr w0"
    using assms ec g1 sc by (auto simp: evaluate_consensus_def bind_result_def bind_outcome_def split: sum.splits)
  obtain repo stored where repo: "with_store (gv_repository g1) (save_weighted_consensus w0) w0 = (repo, Inr stored)"
    using assms ec g1 sc w0
    by (auto simp: evaluate_consensus_def bind_result_def bind_outcome_def split: sum.splits prod.splits)
  then have "stored = w0"
    by (cases rule: with_store_Inr) (auto dest: save_weighted_consensus_Inr)
  moreover have "w = stored"
    using assms ec g1 sc w0 repo by (simp add: evaluate_consensus_def bind_result_def bind_outcome_def)
  ultimately show ?thesis using that ec g1 sc w0 by blast
qed

lemma consensus_artifact_cases:
  assumes "consensus_artifact H now e baseline excluded candidates = Inr w"
  obtains (insufficient) "\<not> wc_ready w" "wc_weights w = []" "wc_final_action w = dec_candidate_action baseline"
      "wc_final_confidence w = dec_confidence baseline" "wc_mode w = ce_mode e" "wc_signal w = SigWAIT"
  | (ready) normalized where "wc_ready w" "ce_minimum_eligible_agents e \<le> int (length candidates)"
      "capped_weights (map (\<lambda>(out, a, c, score). score) candidates) (ce_maximum_agent_weight e) = Inr normalized"
      "map_result consensus_weight_of (zip candidates normalized) = Inr (wc_weights w)"
      "wc_signal w = consensus_signal e (pooled_probability (zip candidates normalized))"
      "wc_final_action w = (if ce_mode e = ModeCONFIRMATION \<and> directional (dec_candidate_action baseline) \<and>
          signal_value (wc_signal w) \<noteq> action_value (dec_candidate_action baseline) then ActWAIT else dec_candidate_action baseline)"
      "wc_final_confidence w = (if ce_mode e = ModeCONFIRMATION \<and> directional (dec_candidate_action baseline) \<and>
          signal_value (wc_signal w) \<noteq> action_value (dec_candidate_action baseline) then 0 else dec_confidence baseline)"
      "wc_mode w = ce_mode e" "valid_weighted_consensus H (w\<lparr>wc_consensus_id := []\<rparr>)"
proof (cases "int (length candidates) < ce_minimum_eligible_agents e")
  case True
  with assms insufficient show ?thesis
    by (auto simp: consensus_artifact_def insufficient_consensus_def new_weighted_consensus_def bind_result_Inr)
next
  case False
  then obtain normalized weights where n: "capped_weights (map (\<lambda>(out, a, c, score). score) candidates) (ce_maximum_agent_weight e) = Inr normalized"
    "map_result consensus_weight_of (zip candidates normalized) = Inr weights"
    "ready_consensus H now e baseline excluded weights (pooled_probability (zip candidates normalized)) = Inr w"
    using assms by (auto simp: consensus_artifact_def bind_result_Inr)
  have "wc_ready w" "wc_weights w = weights" "wc_signal w = consensus_signal e (pooled_probability (zip candidates normalized))"
    "wc_mode w = ce_mode e" "valid_weighted_consensus H (w\<lparr>wc_consensus_id := []\<rparr>)"
    using n(3) by (auto simp: ready_consensus_def new_weighted_consensus_def bind_result_Inr Let_def)
  moreover have "wc_final_action w = (if ce_mode e = ModeCONFIRMATION \<and> directional (dec_candidate_action baseline) \<and>
        signal_value (wc_signal w) \<noteq> action_value (dec_candidate_action baseline) then ActWAIT else dec_candidate_action baseline)"
    "wc_final_confidence w = (if ce_mode e = ModeCONFIRMATION \<and> directional (dec_candidate_action baseline) \<and>
        signal_value (wc_signal w) \<noteq> action_value (dec_candidate_action baseline) then 0 else dec_confidence baseline)"
    using n(3) by (auto simp: ready_consensus_def new_weighted_consensus_def bind_result_Inr Let_def)
  ultimately show ?thesis using ready n(1,2) False by simp
qed

text \<open>
  C32. The consensus can only confirm or tighten. Whatever the agents say, the artifact leaves action and
  confidence of the baseline decision as they are, except in one case: a CONFIRMATION experiment is active, enough
  agents are eligible, the baseline is a buy or a sell, and the pooled signal is not that side; then the result is
  WAIT with confidence 0. In particular a shadow experiment changes nothing, no direction is created or
  reversed, and no confidence is raised. What is returned is what is recorded.
\<close>

theorem consensus_only_tightens:
  assumes "evaluate_consensus H now baseline outputs registrations s g = (g', Inr w)"
  shows "dict_get (gv_snapshots g') (wc_consensus_id w) = Some w \<and>
    (\<exists>e. active_experiment g = Inr e \<and>
      (if ce_mode e = ModeCONFIRMATION \<and> wc_ready w \<and> directional (dec_candidate_action baseline) \<and>
          signal_value (wc_signal w) \<noteq> action_value (dec_candidate_action baseline)
       then wc_final_action w = ActWAIT \<and> wc_final_confidence w = 0
       else wc_final_action w = dec_candidate_action baseline \<and> wc_final_confidence w = dec_confidence baseline))"
proof -
  obtain e cards g1 drift excluded candidates where e: "active_experiment g = Inr e"
    and w: "consensus_artifact H now e baseline excluded candidates = Inr w"
    using evaluate_consensus_Inr [OF assms] by metis
  from w have "if ce_mode e = ModeCONFIRMATION \<and> wc_ready w \<and> directional (dec_candidate_action baseline) \<and>
          signal_value (wc_signal w) \<noteq> action_value (dec_candidate_action baseline)
       then wc_final_action w = ActWAIT \<and> wc_final_confidence w = 0
       else wc_final_action w = dec_candidate_action baseline \<and> wc_final_confidence w = dec_confidence baseline"
    by (cases rule: consensus_artifact_cases) auto
  moreover have "dict_get (gv_snapshots g') (wc_consensus_id w) = Some w"
    using assms by (auto simp: evaluate_consensus_def bind_outcome_def dict_simps split: sum.splits prod.splits)
  ultimately show ?thesis using e by blast
qed

text \<open>
  C33. Every weight rests on evidence. In an artifact built from the screened outputs, each weight belongs to the
  completed output of a registered SHADOW agent whose scorecard reaches the sample, accuracy, loss and
  contribution thresholds of the experiment and whose drift is not critical; there are at least as many weights as the
  experiment asks for, each is positive and at most 0.34, their sum is 1 up to 1e-6, and every weight except the
  last, which absorbs the rounding and may exceed it, is within the concentration cap.
\<close>

theorem consensus_rests_on_evidence:
  assumes "screened e registrations cards drift outputs = (excluded, candidates)"
    and "consensus_artifact H now e baseline excluded candidates = Inr w" and "wc_ready w"
  shows "ce_minimum_eligible_agents e \<le> int (length (wc_weights w)) \<and>
    isclose (py_sum (map cw_weight (wc_weights w))) 1 0 (flt (1 / 10 ^ 6)) \<and>
    (\<forall>j < length (wc_weights w) - 1. cw_weight (wc_weights w ! j) \<le> py_round (ce_maximum_agent_weight e) 12) \<and>
    (\<forall>x \<in> set (wc_weights w). 0 < cw_weight x \<and> cw_weight x \<le> flt (34 / 100) \<and>
       (\<exists>out a c. out \<in> set outputs \<and> eligible e registrations (dict_of card_key cards) drift (out, a, c, cw_raw_score x) \<and>
          cw_agent_name x = ag_agent_name a \<and> cw_agent_version x = ag_version a \<and> cw_accuracy x = the (cr_accuracy c) \<and>
          cw_probability_up x = probability out))"
  using assms(2)
proof (cases rule: consensus_artifact_cases)
  case insufficient
  then show ?thesis using assms(3) by simp
next
  case (ready normalized)
  have len: "length normalized = length candidates"
    using capped_weights_bound [OF ready(3)] by simp
  have pairs: "list_all2 (\<lambda>x y. consensus_weight_of x = Inr y) (zip candidates normalized) (wc_weights w)"
    using ready(4) by (simp add: map_result_Inr)
  then have len': "length (wc_weights w) = length candidates" using len by (simp add: list_all2_lengthD [symmetric])
  have each: "consensus_weight_of (candidates ! j, normalized ! j) = Inr (wc_weights w ! j)" if "j < length candidates" for j
    using pairs that len by (simp add: list_all2_conv_all_nth)
  have weight: "cw_weight (wc_weights w ! j) = normalized ! j" if "j < length candidates" for j
    using each [OF that] by (auto simp: consensus_weight_of_def split: prod.splits)
  have "cw_weight (wc_weights w ! j) \<le> py_round (ce_maximum_agent_weight e) 12" if "j < length (wc_weights w) - 1" for j
    using capped_weights_bound [OF ready(3)] that len len' weight by simp
  moreover have "0 < cw_weight x \<and> cw_weight x \<le> flt (34 / 100) \<and>
      (\<exists>out a c. out \<in> set outputs \<and> eligible e registrations (dict_of card_key cards) drift (out, a, c, cw_raw_score x) \<and>
         cw_agent_name x = ag_agent_name a \<and> cw_agent_version x = ag_version a \<and> cw_accuracy x = the (cr_accuracy c) \<and>
         cw_probability_up x = probability out)" if "x \<in> set (wc_weights w)" for x
  proof -
    obtain j where j: "j < length candidates" "x = wc_weights w ! j" using \<open>x \<in> _\<close> len' by (metis in_set_conv_nth)
    obtain out a c score where cj: "candidates ! j = (out, a, c, score)" by (cases "candidates ! j")
    have "(out, a, c, score) \<in> set candidates" using j(1) cj nth_mem by fastforce
    then have "eligible e registrations (dict_of card_key cards) drift (out, a, c, score)" "out \<in> set outputs"
      using screened_eligible [OF assms(1)] by auto
    then show ?thesis using each [OF j(1)] cj j(2)
      by (auto simp: consensus_weight_of_def valid_consensus_weight_def)
  qed
  moreover have "isclose (py_sum (map cw_weight (wc_weights w))) 1 0 (flt (1 / 10 ^ 6))"
    using ready(1,9) by (simp add: valid_weighted_consensus_def)
  ultimately show ?thesis using ready(2) len' by simp
qed

end
