(* ===== verification/Governance_Properties.thy ===== *)
theory Governance_Properties
  imports Consensus_Properties Risk_Properties "HOL-Library.Multiset"
begin

text \<open>
  The experiment registry as a refinement of its lifecycle, the bounds of portfolio proposals, and the
  behaviour of the drift monitor on an unchanged history.
\<close>

section \<open>The lifecycle of experiments\<close>

text \<open>The specification: which experiment is active, and what an event does to it.\<close>

fun lifecycle :: "experiment_event_type \<Rightarrow> string \<Rightarrow> string option \<Rightarrow> string option result" where
  "lifecycle EvCREATED i active = raise ValueError ''CREATED is emitted only during registration''"
| "lifecycle EvACTIVATED i active =
     (if active = Some i then raise ValueError ''Experiment is already active'' else Inr (Some i))"
| "lifecycle EvRETIRED i active =
     (if active = Some i then Inr None else raise ValueError ''Only the active experiment may be retired'')"

lemma sort_key_snoc:
  assumes "\<forall>x \<in> set xs. t x < t v"
  shows "sort_key t (sort_key identity (xs @ [v])) = sort_key t (sort_key identity xs) @ [v]"
proof (rule properties_for_sort_key)
  show "mset (sort_key t (sort_key identity xs) @ [v]) = mset (sort_key identity (xs @ [v]))" by simp
  show "sorted (map t (sort_key t (sort_key identity xs) @ [v]))"
    using assms by (auto simp: sorted_append less_imp_le)
next
  fix k assume "k \<in> set (sort_key t (sort_key identity xs) @ [v])"
  then consider "k = v" | "k \<in> set xs" by auto
  then show "filter (\<lambda>x. t k = t x) (sort_key t (sort_key identity xs) @ [v]) = filter (\<lambda>x. t k = t x) (sort_key identity (xs @ [v]))"
  proof cases
    case 1
    then have "filter (\<lambda>x. t k = t x) xs = []" using assms by (auto simp: filter_empty_conv)
    with 1 show ?thesis by (simp add: filter_sort)
  next
    case 2
    then have v: "t k \<noteq> t v" using assms by auto
    have stable: "filter (\<lambda>x. t k = t x) (sort_key t ys) = filter (\<lambda>x. t k = t x) ys" for ys
      using sort_key_stable [of t "t k" ys] by (simp add: eq_commute)
    have "filter (\<lambda>x. t k = t x) (sort_key t (sort_key identity xs) @ [v]) = filter (\<lambda>x. t k = t x) (sort_key identity xs)"
      using v by (simp only: filter_append stable) simp
    also have "\<dots> = filter (\<lambda>x. t k = t x) (sort_key identity (xs @ [v]))"
      using v by (simp add: filter_sort)
    finally show ?thesis .
  qed
qed

lemma dict_values_new: "dict_get d k = None \<Longrightarrow> dict_values (dict_set k v d) = dict_values d @ [v]"
  by (induction d) (auto simp: dict_values_def split: if_splits)

lemma record_event_cases:
  assumes "record_event now v g = (g', r)" "dict_get (gv_events g) (xe_event_id v) = None"
  obtains (refused) exc where "r = Inl exc" "gv_events g' = gv_events g"
  | (recorded) "r = Inr v" "gv_events g' = dict_set (xe_event_id v) v (gv_events g)" "xe_event_type v \<noteq> EvCREATED"
      "xe_event_type v = EvACTIVATED \<longrightarrow> activated_experiment_id g \<noteq> Some (xe_experiment_id v)"
      "xe_event_type v = EvRETIRED \<longrightarrow> activated_experiment_id g = Some (xe_experiment_id v)"
  using assms by (auto simp: record_event_def split: if_splits prod.splits sum.splits)

text \<open>
  C34. The event-sourced registry refines its lifecycle. The active experiment, which the registry recomputes from
  all events, is the state of a small machine: a new event, later than every event before it, is recorded
  only if the machine admits it, and then the recomputed state is the successor state; an event that is refused, by
  the machine, the clock window or the database, leaves the state as it is.
\<close>

theorem registry_refines_lifecycle:
  assumes "record_event now v g = (g', r)" and "dict_get (gv_events g) (xe_event_id v) = None"
    and "\<forall>w \<in> set (dict_values (gv_events g)). xe_created_at w < xe_created_at v"
  shows "case r of
      Inl _ \<Rightarrow> activated_experiment_id g' = activated_experiment_id g
    | Inr _ \<Rightarrow> lifecycle (xe_event_type v) (xe_experiment_id v) (activated_experiment_id g) = Inr (activated_experiment_id g')"
  using assms(1,2)
proof (cases rule: record_event_cases)
  case (refused exc)
  then show ?thesis by (simp add: activated_experiment_id_def ordered_events_def)
next
  case recorded
  have "ordered_events g' = ordered_events g @ [v]"
    using sort_key_snoc [OF assms(3), of xe_event_id] assms(2)
    by (simp add: ordered_events_def recorded(2) dict_values_new)
  then have "activated_experiment_id g' = activation_step v (activated_experiment_id g)"
    by (simp add: activated_experiment_id_def)
  with recorded show ?thesis by (cases "xe_event_type v") auto
qed

section \<open>Portfolio proposals\<close>

lemma save_portfolio_proposal_Inr: "save_portfolio_proposal p d = (d', Inr q) \<Longrightarrow> q = p"
  by (auto simp: save_portfolio_proposal_def bind_result_Inr elim!: fs_transaction_cases dest: append_artifact_Inr)

lemma propose_Inr:
  assumes "propose H now limits max_target dec consensus balance rm g = (g', Inr p)"
  shows "build_proposal H now limits max_target dec consensus balance (dict_values (rm_positions rm)) = Inr p"
proof -
  obtain q where q: "build_proposal H now limits max_target dec consensus balance (dict_values (rm_positions rm)) = Inr q"
    using assms by (auto simp: propose_def split: sum.splits)
  then obtain repo stored where w: "with_store (gv_repository g) (save_portfolio_proposal q) q = (repo, Inr stored)"
    using assms by (auto simp: propose_def split: sum.splits prod.splits)
  then have "stored = q" by (cases rule: with_store_Inr) (auto dest: save_portfolio_proposal_Inr)
  with assms q w show ?thesis by (simp add: propose_def)
qed

text \<open>
  C35. A proposal stays inside every limit. The requested weight is the maximal target scaled by the confidence of a buy
  or a sell, and the capped weight is at most that. A PROPOSED proposal is a buy or a sell whose weight, in percent of the
  balance, and whose notional are within the maximal target, the single position limit, and what the gross, symbol and
  strategy limits leave beside the open positions; the net limit leaves its amount less the net exposure for a buy, and
  plus the net exposure for a sale. Any other proposal has notional 0. Weights are compared after rounding to 12 and
  notionals to 8 decimals.
\<close>

theorem proposal_within_limits:
  assumes "propose H now limits max_target dec consensus balance rm g = (g', Inr p)"
  defines "gross \<equiv> py_sum (map pe_notional (dict_values (rm_positions rm)))"
    and "net \<equiv> py_sum (map (\<lambda>x. if pe_side x = BUY then pe_notional x else - pe_notional x) (dict_values (rm_positions rm)))"
    and "symbol \<equiv> py_sum (map pe_notional (filter (\<lambda>x. pe_symbol x = dec_symbol dec) (dict_values (rm_positions rm))))"
    and "strategy \<equiv> py_sum (map pe_notional (filter (\<lambda>x. pe_strategy x = dec_strategy dec) (dict_values (rm_positions rm))))"
  shows "0 < balance \<and> pp_capped_weight_percent p \<le> pp_requested_weight_percent p \<and>
    pp_requested_weight_percent p =
      py_round (if dec_candidate_action dec = ActBUY \<or> dec_candidate_action dec = ActSELL
                then max_target * flt (of_int (dec_confidence dec)) / flt 100 else 0) 12 \<and>
    (if pp_status p = PROPOSED
     then (dec_candidate_action dec = ActBUY \<or> dec_candidate_action dec = ActSELL) \<and>
       (\<forall>left \<in> {max_target, rl_max_single_position_percent limits,
                 rl_max_gross_exposure_percent limits - gross / balance * flt 100,
                 (if dec_candidate_action dec = ActBUY then rl_max_net_exposure_percent limits - net / balance * flt 100
                  else rl_max_net_exposure_percent limits + net / balance * flt 100),
                 rl_max_symbol_exposure_percent limits - symbol / balance * flt 100,
                 rl_max_strategy_exposure_percent limits - strategy / balance * flt 100}.
          pp_capped_weight_percent p \<le> py_round left 12 \<and> pp_max_notional p \<le> py_round (balance * left / flt 100) 8)
     else pp_max_notional p = 0)"
proof -
  let ?positions = "dict_values (rm_positions rm)"
  let ?caps = "target_capacities limits max_target dec balance ?positions"
  obtain capped binding status where t: "proposed_target limits max_target dec balance ?positions = Inr (capped, binding, status)"
    and p: "pp_requested_weight_percent p = py_round (requested_weight max_target dec) 12"
      "pp_capped_weight_percent p = py_round capped 12" "pp_max_notional p = py_round (balance * capped / flt 100) 8"
      "pp_status p = status" "pp_action p = dec_candidate_action dec" "pp_balance p = balance"
    and valid: "valid_portfolio_proposal H (p\<lparr>pp_proposal_id := []\<rparr>)"
    using propose_Inr [OF assms(1)]
    by (auto simp: build_proposal_def new_portfolio_proposal_def bind_result_Inr split: prod.splits)
  have bal: "0 < balance" using valid p(6) by (simp add: valid_portfolio_proposal_def)
  then have nz: "balance \<noteq> 0" by auto
  have requested: "requested_weight max_target dec = (if dec_candidate_action dec = ActBUY \<or> dec_candidate_action dec = ActSELL
      then max_target * flt (of_int (dec_confidence dec)) / flt 100 else 0)"
    by (auto simp: requested_weight_def)
  have caps: "set (map snd ?caps) = {max_target, rl_max_single_position_percent limits,
                 rl_max_gross_exposure_percent limits - gross / balance * flt 100,
                 (if dec_candidate_action dec = ActBUY then rl_max_net_exposure_percent limits - net / balance * flt 100
                  else rl_max_net_exposure_percent limits + net / balance * flt 100),
                 rl_max_symbol_exposure_percent limits - symbol / balance * flt 100,
                 rl_max_strategy_exposure_percent limits - strategy / balance * flt 100}"
    by (auto simp: target_capacities_def Let_def signed_exposure_def notional_where_def gross_def net_def symbol_def
        strategy_def)
  have within: "pp_capped_weight_percent p \<le> pp_requested_weight_percent p \<and>
    (if pp_status p = PROPOSED
     then (dec_candidate_action dec = ActBUY \<or> dec_candidate_action dec = ActSELL) \<and>
       (\<forall>left \<in> set (map snd ?caps).
          pp_capped_weight_percent p \<le> py_round left 12 \<and> pp_max_notional p \<le> py_round (balance * left / flt 100) 8)
     else pp_max_notional p = 0)"
  proof (cases "0 < requested_weight max_target dec")
    case False
    then have "capped = 0" "status = NO_ACTION" using t by (simp_all add: proposed_target_def)
    moreover have "0 \<le> pp_requested_weight_percent p" using valid by (simp add: valid_portfolio_proposal_def)
    ultimately show ?thesis using p bal valid by (simp add: valid_portfolio_proposal_def)
  next
    case True
    then have capped: "capped = max 0 (fold min (map snd ?caps) (requested_weight max_target dec))"
      and status: "status = (if 0 < capped then PROPOSED else PROPOSAL_BLOCKED)"
      using t nz by (auto simp: proposed_target_def Let_def capped_target_def)
    have "capped \<le> requested_weight max_target dec"
      using fold_min_le [of "map snd ?caps" "requested_weight max_target dec"] True by (simp add: capped)
    then have le: "pp_capped_weight_percent p \<le> pp_requested_weight_percent p" by (simp add: p py_round_mono)
    show ?thesis
    proof (cases "0 < capped")
      case pos: True
      have "capped \<le> left" if "left \<in> set (map snd ?caps)" for left
        using fold_min_le_mem [OF that, of "requested_weight max_target dec"] pos capped by (simp add: max_def split: if_splits)
      moreover have "balance * capped / flt 100 \<le> balance * left / flt 100" if "capped \<le> left" for left
        using that bal flt_mono [of 0 100]
        by (intro pyfloat_divide_right_mono) (auto simp: fval_simps intro!: fl_mono mult_left_mono)
      ultimately have "\<forall>left \<in> set (map snd ?caps).
          pp_capped_weight_percent p \<le> py_round left 12 \<and> pp_max_notional p \<le> py_round (balance * left / flt 100) 8"
        by (simp add: p py_round_mono)
      moreover have "dec_candidate_action dec = ActBUY \<or> dec_candidate_action dec = ActSELL"
        using True by (simp add: requested split: if_splits)
      ultimately show ?thesis using le status pos p by simp
    next
      case False
      with status valid p le bal show ?thesis by (simp add: valid_portfolio_proposal_def)
    qed
  qed
  with bal p(1) show ?thesis unfolding requested caps by blast
qed

section \<open>Drift on an unchanged history\<close>

abbreviation restamp :: "time \<Rightarrow> drift_observation \<Rightarrow> drift_observation" where
  "restamp t x \<equiv> x\<lparr>do_created_at := t\<rparr>"

lemma new_drift_restamp:
  "new_drift_observation H (restamp t x) = map_sum id (restamp t) (new_drift_observation H x)"
proof -
  have "drift_identity H (restamp t x) = drift_identity H x" by (simp add: drift_identity_def)
  moreover from this have "valid_drift_observation H (restamp t x) = valid_drift_observation H x"
    by (simp add: valid_drift_observation_def)
  ultimately show ?thesis by (simp add: new_drift_observation_def bind_result_def validate_def)
qed

lemma drift_of_restamp: "drift_of H t e a history = map_sum id (restamp t) (drift_of H t' e a history)"
  unfolding drift_of_def Let_def new_drift_restamp [symmetric] by simp

lemma drift_pending_restamp:
  "drift_pending H t e s as = map_sum id (map (restamp t)) (drift_pending H t' e s as)"
proof (induction "as")
  case (Cons a as)
  have "drift_of H t e a h = map_sum id (restamp t) (drift_of H t' e a h)" for h by (rule drift_of_restamp)
  with Cons show ?case by (simp add: bind_result_def split: sum.splits)
qed simp

lemma drift_of_created:
  assumes "drift_of H t e a h = Inr x"
  shows "do_created_at x = t"
proof -
  have "x = restamp t x" using drift_of_restamp [of H t e a h t] assms by simp
  then show ?thesis by (metis drift_observation.select_convs(19) drift_observation.surjective drift_observation.update_convs(19))
qed

lemma drift_pending_created:
  assumes "drift_pending H t e s as = Inr xs"
  shows "\<forall>x \<in> set xs. do_created_at x = t"
  using assms
proof (induction "as" arbitrary: xs)
  case (Cons a as)
  obtain history where h: "settled_history (ag_agent_name a) (ag_version a) 10000 s = Inr history"
    using Cons.prems by (auto simp: bind_result_Inr)
  show ?case
  proof (cases "int (length history) < ce_drift_reference_samples e + ce_drift_current_samples e")
    case True
    with Cons.prems h have "drift_pending H t e s as = Inr xs" by (simp add: bind_result_def)
    then show ?thesis by (rule Cons.IH)
  next
    case False
    with Cons.prems h obtain x rest where "drift_of H t e a history = Inr x" "drift_pending H t e s as = Inr rest" "xs = x # rest"
      by (simp add: bind_result_def split: sum.splits)
    with Cons.IH drift_of_created show ?thesis by simp
  qed
qed simp

lemma append_drift_Inr:
  assumes "append_drift xs d = Inr (d', ys)"
  shows "ys = xs \<and> (\<forall>i x. dict_get (gs_drift d) i = Some x \<longrightarrow> dict_get (gs_drift d') i = Some x) \<and>
    (\<forall>x \<in> set xs. dict_get (gs_drift d') (do_observation_id x) = Some x)"
  using assms
proof (induction xs arbitrary: d ys)
  case (Cons x xs)
  obtain rows y rest where step: "append_artifact ''drift observation'' (known_experiment d (do_experiment_id x)) (do_observation_id x) x (gs_drift d) = Inr (rows, y)"
    and rest: "append_drift xs (d\<lparr>gs_drift := rows\<rparr>) = Inr (d', rest)" "ys = y # rest"
    using Cons.prems by (auto simp: bind_result_Inr)
  from append_artifact_Inr [OF step] have x: "y = x" "dict_get rows (do_observation_id x) = Some x"
    "\<And>i z. dict_get (gs_drift d) i = Some z \<Longrightarrow> dict_get rows i = Some z"
    by (auto simp: dict_simps split: if_splits)
  from Cons.IH [OF rest(1)] x rest(2) show ?case by simp
qed simp

text \<open>
  C36. The drift monitor refuses to repeat itself. With a repository, an observation over the same settled history
  has the identity of the stored one but another creation instant; the comparison of the whole record then
  fails. So a second observation at a later instant, with no outcome settled in between, raises ValidationError,
  although the statement of the table is an idempotent append, and the consensus of that cycle is lost.
\<close>

theorem repeated_drift_refused:
  assumes "gv_repository g = Some d" and "observe_drift H t1 e registrations s g = (g1, Inr results)" and "results \<noteq> []"
    and "t2 \<noteq> t1" and "fs_faults (the (gv_repository g1)) = []"
  shows "\<exists>g2. observe_drift H t2 e registrations s g1 = (g2, raise ValidationError ''Immutable drift observation identity conflict'')"
proof -
  obtain pending where pending: "drift_pending H t1 e s (dict_values registrations) = Inr pending"
    using assms(2) by (auto simp: observe_drift_def split: sum.splits)
  obtain d1 q where q: "save_drift_observations pending d = (d1, q)" by force
  obtain stored where stored: "q = Inr stored" "gv_repository g1 = Some d1"
    "results = fold (\<lambda>x m. dict_set (do_agent_name x, do_agent_version x) x m) stored []"
    using assms(1,2) pending q by (cases q) (auto simp: observe_drift_def with_store_def)
  have "stored \<noteq> []" using assms(3) stored(3) by auto
  then have "pending \<noteq> []" using q stored(1) by (auto simp: save_drift_observations_def)
  with q stored(1) have "fs_transaction (append_drift pending) d = (d1, Inr stored)" by (simp add: save_drift_observations_def)
  then obtain d0 where "append_drift pending d0 = Inr (d1, stored)"
    by (cases rule: fs_transaction_cases) auto
  then have rows: "\<forall>x \<in> set pending. dict_get (gs_drift d1) (do_observation_id x) = Some x"
    using append_drift_Inr by blast
  obtain x xs where x: "pending = x # xs" using \<open>pending \<noteq> []\<close> by (cases pending) simp
  have "do_created_at x = t1" using drift_pending_created [OF pending] x by simp
  then have "restamp t2 x \<noteq> x" using assms(4) by (metis drift_observation.select_convs(19) drift_observation.surjective drift_observation.update_convs(19))
  then have "append_drift (map (restamp t2) pending) (d1\<lparr>fs_faults := tl (fs_faults d1)\<rparr>) =
      raise ValidationError ''Immutable drift observation identity conflict''"
    using rows x by (simp add: append_artifact_def bind_result_def)
  moreover have "fs_faults d1 = []" using assms(5) stored(2) by simp
  ultimately have "\<exists>d2. save_drift_observations (map (restamp t2) pending) d1 =
      (d2, raise ValidationError ''Immutable drift observation identity conflict'')"
    using \<open>pending \<noteq> []\<close> by (simp add: save_drift_observations_def fs_transaction_def Let_def)
  moreover have "drift_pending H t2 e s (dict_values registrations) = Inr (map (restamp t2) pending)"
    using drift_pending_restamp [of H t2 e s "dict_values registrations" t1] pending by simp
  ultimately show ?thesis using stored(2) by (auto simp: observe_drift_def with_store_def)
qed

section \<open>Concrete runs\<close>

definition gov_H :: "json \<Rightarrow> string" where
  "gov_H j = replicate 64 (CHR ''a'')"

definition gov_experiment :: consensus_experiment where
  "gov_experiment =
     (default_experiment 0)\<lparr>ce_experiment_id := replicate 64 (CHR ''e''), ce_mode := ModeCONFIRMATION,
        ce_minimum_eligible_agents := 3, ce_maximum_agent_weight := flt (34 / 100), ce_drift_reference_samples := 30,
        ce_drift_current_samples := 10\<rparr>"

definition gov_event :: "experiment_event_type \<Rightarrow> char \<Rightarrow> time \<Rightarrow> experiment_event" where
  "gov_event k c t =
     \<lparr>xe_event_id = replicate 64 c, xe_experiment_id = replicate 64 (CHR ''e''), xe_event_type = k, xe_actor = ''admin'',
      xe_reason = ''test'', xe_created_at = t\<rparr>"

definition gov_state :: governance where
  "gov_state =
     \<lparr>gv_repository = Some \<lparr>fs_faults = [], gs_experiments = [(replicate 64 (CHR ''e''), gov_experiment)],
        gs_events = [], gs_consensus = [], gs_drift = [], gs_proposals = []\<rparr>,
      gv_default_id = replicate 64 (CHR ''e''), gv_experiments = [(replicate 64 (CHR ''e''), gov_experiment)],
      gv_events = [(replicate 64 (CHR ''c''), gov_event EvCREATED CHR ''c'' 0)], gv_drift = [], gv_snapshots = [], gv_proposals = []\<rparr>"

definition gov_decision :: decision where
  "gov_decision =
     \<lparr>dec_decision_id = ''dec-1'', dec_correlation_id = ''corr-1'', dec_symbol = ''BTCUSDT'', dec_timeframe = ''1m'',
      dec_candidate_action = ActBUY, dec_confidence = 80, dec_strategy = ''TREND_v1'', dec_reason = ''up'', dec_agent_summary = [],
      dec_warnings = [], dec_risk_status = RsPENDING, dec_created_at = 0\<rparr>"

definition gov_agent :: "string \<Rightarrow> agent_registration" where
  "gov_agent name =
     \<lparr>ag_agent_name = name, ag_version = ''1.0.0'', ag_description = [], ag_required_inputs = [], ag_capabilities = [],
      ag_decision_role = SHADOW, ag_critical = False, ag_timeout_ms = 5000, ag_max_attempts = 3, ag_enabled = True,
      ag_definition_hash = replicate 64 (CHR ''b'')\<rparr>"

definition gov_output :: "string \<Rightarrow> agent_output" where
  "gov_output name =
     \<lparr>ao_agent_name = name, ao_status = AsCOMPLETED, ao_signal = SigSELL, ao_confidence = 50, ao_reason = ''down'',
      ao_evidence = [], ao_warnings = [], ao_latency_ms = 1, ao_created_at = 0\<rparr>"

definition gov_card :: "string \<Rightarrow> agent_scorecard" where
  "gov_card name =
     \<lparr>cr_agent_name = name, cr_agent_version = ''1.0.0'', cr_sample_count = 120, cr_directional_sample_count = 60,
      cr_accuracy = Some (flt (3 / 4)), cr_mean_brier_loss = Some (flt (1 / 8)),
      cr_mean_marginal_contribution = Some (flt (1 / 4)), cr_evaluated = True, cr_minimum_samples = 30\<rparr>"

definition gov_names :: "string list" where
  "gov_names = [''AgentA'', ''AgentB'', ''AgentC'']"

definition gov_registrations :: "agent_registration dict" where
  "gov_registrations = map (\<lambda>n. (n, gov_agent n)) gov_names"

definition idle_evaluation :: agent_evaluation where
  "idle_evaluation =
     \<lparr>av_repository = None, av_minimum_samples = 30, av_forecasts = [], av_outcomes = [], av_settled = []\<rparr>"

theorem consensus_only_tightens_witness:
  "\<exists>g' w. evaluate_consensus gov_H 5 gov_decision [gov_output ''AgentA''] gov_registrations idle_evaluation gov_state = (g', Inr w) \<and>
     dict_get (gv_snapshots g') (wc_consensus_id w) = Some w"
proof -
  have "is_ok (snd (evaluate_consensus gov_H 5 gov_decision [gov_output ''AgentA''] gov_registrations idle_evaluation gov_state))"
    by code_simp
  then obtain g' w where w: "evaluate_consensus gov_H 5 gov_decision [gov_output ''AgentA''] gov_registrations idle_evaluation gov_state = (g', Inr w)"
    by (metis is_ok_iff prod.collapse)
  from consensus_only_tightens [OF w] w show ?thesis by blast
qed

definition gov_screened :: "string dict \<times> consensus_candidate list" where
  "gov_screened = screened gov_experiment gov_registrations (map gov_card gov_names) [] (map gov_output gov_names)"

definition gov_shares :: "pyfloat list" where
  "gov_shares = [flt (333333333333 / 10 ^ 12), flt (333333333333 / 10 ^ 12), flt (333333333334 / 10 ^ 12)]"

definition gov_weight :: "string \<Rightarrow> pyfloat \<Rightarrow> consensus_weight" where
  "gov_weight name share =
     \<lparr>cw_agent_name = name, cw_agent_version = ''1.0.0'', cw_sample_count = 120, cw_directional_sample_count = 60,
      cw_accuracy = flt (3 / 4), cw_mean_brier_loss = flt (1 / 8), cw_mean_marginal_contribution = flt (1 / 4),
      cw_probability_up = flt (1 / 4), cw_raw_score = flt (105 / 128), cw_weight = share\<rparr>"

lemma gov_raw_score: "raw_score (gov_card n) = flt (105 / 128)"
  by code_simp

lemma gov_not_excluded: "exclusion_reason gov_experiment (gov_output n) (gov_agent n) (Some (gov_card n)) [] = None"
  by code_simp

lemma gov_screened_eq: "gov_screened = ([], map (\<lambda>n. (gov_output n, gov_agent n, gov_card n, flt (105 / 128))) gov_names)"
proof -
  have fields: "ao_agent_name (gov_output n) = n" "ag_agent_name (gov_agent n) = n" "ag_version (gov_agent n) = ''1.0.0''"
    "ag_decision_role (gov_agent n) = SHADOW" "card_key (gov_card n) = (n, ''1.0.0'')" for n
    by (simp_all add: gov_output_def gov_agent_def gov_card_def card_key_def)
  show ?thesis
    by (simp add: gov_screened_def screened_def screen_output_def fields gov_names_def gov_registrations_def dict_simps dict_of_def
        gov_not_excluded gov_raw_score Let_def)
qed

lemma gov_scores:
  "fst gov_screened = []"
  "map (\<lambda>(out, a, c, score). score) (snd gov_screened) = [flt (105 / 128), flt (105 / 128), flt (105 / 128)]"
  by (simp_all add: gov_screened_eq gov_names_def)

definition gov_thirds :: "pyfloat list" where
  "gov_thirds = replicate 3 (flt (1 / 3))"

lemma gov_not_capped: "over_cap (replicate 3 (flt (105 / 128))) (ce_maximum_agent_weight gov_experiment) [0, 1, 2] 1 = []"
  by code_simp

lemma gov_total: "py_sum (map ((!) (replicate 3 (flt (105 / 128)))) [0, 1, 2]) = flt (315 / 128)" "flt (315 / 128) \<noteq> 0"
  by code_simp+

lemma gov_share: "1 * flt (105 / 128) / flt (315 / 128) = flt (1 / 3)"
  by code_simp

lemma gov_rounded:
  "py_round (flt (1 / 3)) 12 = flt (333333333333 / 10 ^ 12)"
  "py_round (flt (333333333333 / 10 ^ 12) + (1 - py_sum (replicate 3 (flt (333333333333 / 10 ^ 12))))) 12 =
     flt (333333333334 / 10 ^ 12)"
  by code_simp+

lemma gov_capped:
  "capped_weights [flt (105 / 128), flt (105 / 128), flt (105 / 128)] (ce_maximum_agent_weight gov_experiment) = Inr gov_shares"
proof -
  have "capped_loop (replicate 3 (flt (105 / 128))) (ce_maximum_agent_weight gov_experiment) [0, 1, 2] 1 (replicate 3 0) = Inr gov_thirds"
    unfolding capped_loop.simps [of _ _ "[0, 1, 2]"] gov_not_capped gov_total(1) Let_def
    using gov_total(2) gov_share by (simp add: gov_thirds_def numeral_3_eq_3 numeral_2_eq_2)
  then show ?thesis
    using gov_rounded
    by (simp add: capped_weights_def gov_thirds_def gov_shares_def bind_result_def Let_def numeral_3_eq_3 numeral_2_eq_2 del: py_sum.simps)
qed

lemma gov_weights: "map_result consensus_weight_of (zip (snd gov_screened) gov_shares) = Inr (map2 gov_weight gov_names gov_shares)"
  unfolding gov_screened_eq by code_simp

lemma gov_pooled: "pooled_probability (zip (snd gov_screened) gov_shares) = flt (1 / 4)"
  unfolding gov_screened_eq by code_simp

lemma gov_ready:
  "(case ready_consensus gov_H 5 gov_experiment gov_decision [] (map2 gov_weight gov_names gov_shares) (flt (1 / 4)) of
      Inl exc \<Rightarrow> False | Inr w \<Rightarrow> wc_ready w \<and> wc_final_action w = ActWAIT)"
  by code_simp

theorem consensus_rests_on_evidence_witness:
  "\<exists>w. consensus_artifact gov_H 5 gov_experiment gov_decision (fst gov_screened) (snd gov_screened) = Inr w \<and>
    wc_final_action w = ActWAIT \<and> 3 \<le> length (wc_weights w)"
proof -
  have "length (snd gov_screened) = 3" using arg_cong [OF gov_scores(2), of length] by simp
  then have "consensus_artifact gov_H 5 gov_experiment gov_decision (fst gov_screened) (snd gov_screened) =
      ready_consensus gov_H 5 gov_experiment gov_decision [] (map2 gov_weight gov_names gov_shares) (flt (1 / 4))"
    by (simp add: consensus_artifact_def gov_scores gov_capped gov_weights gov_pooled bind_result_def)
      (simp add: gov_experiment_def)
  then obtain w where w: "consensus_artifact gov_H 5 gov_experiment gov_decision (fst gov_screened) (snd gov_screened) = Inr w"
    "wc_ready w" "wc_final_action w = ActWAIT" using gov_ready by (auto split: sum.splits)
  have "screened gov_experiment gov_registrations (map gov_card gov_names) [] (map gov_output gov_names) =
      (fst gov_screened, snd gov_screened)" by (simp add: gov_screened_def)
  from consensus_rests_on_evidence [OF this w(1,2)] have "3 \<le> length (wc_weights w)" by (simp add: gov_experiment_def)
  with w show ?thesis by blast
qed

theorem registry_refines_lifecycle_witness:
  "\<exists>g'. record_event 1000000 (gov_event EvACTIVATED CHR ''d'' 1000000) gov_state = (g', Inr (gov_event EvACTIVATED CHR ''d'' 1000000)) \<and>
     lifecycle EvACTIVATED (replicate 64 (CHR ''e'')) (activated_experiment_id gov_state) = Inr (activated_experiment_id g')"
proof -
  let ?v = "gov_event EvACTIVATED CHR ''d'' 1000000"
  obtain g' r where r: "record_event 1000000 ?v gov_state = (g', r)" by force
  have ok: "snd (record_event 1000000 ?v gov_state) = Inr ?v" by code_simp
  have new: "dict_get (gv_events gov_state) (xe_event_id ?v) = None" by code_simp
  have "\<forall>w \<in> set (dict_values (gv_events gov_state)). xe_created_at w < xe_created_at ?v" by code_simp
  from registry_refines_lifecycle [OF r new this] ok r show ?thesis by (simp add: gov_event_def)
qed

definition gov_consensus :: weighted_consensus where
  "gov_consensus =
     \<lparr>wc_consensus_id = replicate 64 (CHR ''d''), wc_correlation_id = ''corr-1'', wc_experiment_id = replicate 64 (CHR ''e''),
      wc_experiment_version = ''1.0.0'', wc_mode = ModeSHADOW, wc_symbol = ''BTCUSDT'', wc_timeframe = ''1m'', wc_ready = False,
      wc_baseline_action = ActBUY, wc_baseline_confidence = 80, wc_probability_up = None, wc_signal = SigWAIT,
      wc_consensus_confidence = 0, wc_eligible_agent_count = 0, wc_excluded_agents = [], wc_weights = [], wc_applied = False,
      wc_final_action = ActBUY, wc_final_confidence = 80, wc_reason = ''none'', wc_created_at = 0\<rparr>"

definition gov_positions :: "position_exposure list" where
  "gov_positions =
     [\<lparr>pe_paper_order_id = ''p-1'', pe_symbol = ''BTCUSDT'', pe_timeframe = ''1m'', pe_strategy = ''OTHER_v1'', pe_side = BUY,
       pe_notional = flt 9500, pe_leverage = flt 1\<rparr>]"

lemma gov_proposal:
  "(case build_proposal gov_H 0 default_risk_limits (flt 25) gov_decision gov_consensus (flt 10000) gov_positions of
      Inl exc \<Rightarrow> False | Inr p \<Rightarrow> pp_status p = PROPOSED \<and> pp_capped_weight_percent p = flt 5)"
  by code_simp

theorem proposal_within_limits_witness:
  "\<exists>g' p. propose gov_H 0 default_risk_limits (flt 25) gov_decision gov_consensus (flt 10000)
       (sample_rm\<lparr>rm_positions := map (\<lambda>p. (pe_paper_order_id p, p)) gov_positions\<rparr>) (gov_state\<lparr>gv_repository := None\<rparr>) = (g', Inr p) \<and>
     pp_status p = PROPOSED \<and> pp_capped_weight_percent p \<le> py_round (flt 25) 12 \<and>
     pp_capped_weight_percent p \<le> py_round (rl_max_single_position_percent default_risk_limits) 12"
proof -
  let ?rm = "sample_rm\<lparr>rm_positions := map (\<lambda>p. (pe_paper_order_id p, p)) gov_positions\<rparr>"
  have pos: "dict_values (rm_positions ?rm) = gov_positions" by (simp add: dict_values_def comp_def)
  obtain p where p: "build_proposal gov_H 0 default_risk_limits (flt 25) gov_decision gov_consensus (flt 10000) gov_positions = Inr p"
    "pp_status p = PROPOSED" using gov_proposal by (auto split: sum.splits)
  obtain g' where g': "propose gov_H 0 default_risk_limits (flt 25) gov_decision gov_consensus (flt 10000) ?rm
      (gov_state\<lparr>gv_repository := None\<rparr>) = (g', Inr p)"
    unfolding propose_def pos p(1) by (simp add: with_store_def)
  have "pp_capped_weight_percent p \<le> py_round (flt 25) 12" "pp_capped_weight_percent p \<le>
      py_round (rl_max_single_position_percent default_risk_limits) 12"
    using proposal_within_limits [OF g'] p(2) by simp_all
  with g' p(2) show ?thesis by blast
qed

section \<open>A drift run\<close>

definition drift_forecast :: "nat \<Rightarrow> agent_forecast" where
  "drift_forecast n =
     \<lparr>fc_forecast_id = decimal n, fc_correlation_id = ''corr'', fc_agent_name = ''AgentA'', fc_agent_version = ''1.0.0'',
      fc_definition_hash = replicate 64 (CHR ''b''), fc_symbol = ''BTCUSDT'', fc_timeframe = ''1m'', fc_signal = SigHOLD,
      fc_confidence = 0, fc_probability_up = flt (1 / 2), fc_reference_price = flt 100, fc_forecast_at = 60000000 * int n,
      fc_target_at = 60000000 * int n + 60000000, fc_horizon_seconds = 60, fc_decision_role = SHADOW, fc_created_at = 0\<rparr>"

definition drift_outcome :: "nat \<Rightarrow> agent_forecast_outcome" where
  "drift_outcome n =
     \<lparr>fo_outcome_id = decimal n, fo_forecast_id = decimal n, fo_realized_at = 60000000 * int n + 60000000,
      fo_realized_price = flt 100, fo_realized_return = 0, fo_realized_up = flt (1 / 2), fo_correct = None, fo_brier_loss = 0,
      fo_ensemble_probability_up = flt (1 / 2), fo_ensemble_brier_loss = 0, fo_leave_one_out_probability_up = flt (1 / 2),
      fo_leave_one_out_brier_loss = 0, fo_marginal_contribution = 0, fo_cohort_size = 1, fo_created_at = 0\<rparr>"

definition drift_evaluation :: agent_evaluation where
  "drift_evaluation =
     \<lparr>av_repository = None, av_minimum_samples = 30, av_forecasts = map (\<lambda>n. (decimal n, drift_forecast n)) [0..<40],
      av_outcomes = map (\<lambda>n. (decimal n, drift_outcome n)) [0..<40],
      av_settled = [((''AgentA'', ''1.0.0''), map decimal [0..<40])]\<rparr>"

definition drift_pairs :: "(agent_forecast \<times> agent_forecast_outcome) list" where
  "drift_pairs = map (\<lambda>n. (drift_forecast n, drift_outcome n)) [0..<40]"

lemma drift_ids: "distinct (map decimal [0..<40])"
  by code_simp

lemma drift_lookup:
  assumes "n < 40"
  shows "dict_get (map (\<lambda>n. (decimal n, f n)) [0..<40]) (decimal n) = Some (f n)"
  using assms drift_ids by (intro map_of_is_SomeI) (auto simp: comp_def)

lemma drift_history: "settled_history ''AgentA'' ''1.0.0'' 10000 drift_evaluation = Inr drift_pairs"
proof -
  have "map_result (history_pair drift_evaluation) (map decimal [0..<40]) = Inr drift_pairs"
    by (simp only: map_result_Inr drift_pairs_def list_all2_map1 list_all2_map2)
      (auto simp: list_all2_same history_pair_def drift_evaluation_def drift_lookup)
  then show ?thesis
    by (simp add: settled_history_def settled_bucket_def slice_from_def drift_evaluation_def del: upt_rec_numeral)
qed

lemma drift_observed:
  "(case drift_of gov_H 7 gov_experiment (gov_agent ''AgentA'') drift_pairs of
      Inl exc \<Rightarrow> False | Inr x \<Rightarrow> do_experiment_id x = replicate 64 (CHR ''e''))"
  by code_simp

theorem repeated_drift_refused_witness:
  "\<exists>g1 g2 results. observe_drift gov_H 7 gov_experiment [(''AgentA'', gov_agent ''AgentA'')] drift_evaluation gov_state = (g1, Inr results) \<and>
     observe_drift gov_H 8 gov_experiment [(''AgentA'', gov_agent ''AgentA'')] drift_evaluation g1 =
       (g2, raise ValidationError ''Immutable drift observation identity conflict'')"
proof -
  obtain x where x: "drift_of gov_H 7 gov_experiment (gov_agent ''AgentA'') drift_pairs = Inr x"
    "do_experiment_id x = replicate 64 (CHR ''e'')" using drift_observed by (auto split: sum.splits)
  have "length drift_pairs = 40" by (simp add: drift_pairs_def)
  then have pending: "drift_pending gov_H 7 gov_experiment drift_evaluation [gov_agent ''AgentA''] = Inr [x]"
    using x(1) drift_history by (simp add: bind_result_def gov_agent_def gov_experiment_def)
  obtain g1 results where run: "observe_drift gov_H 7 gov_experiment [(''AgentA'', gov_agent ''AgentA'')] drift_evaluation gov_state = (g1, Inr results)"
    "results \<noteq> []" "fs_faults (the (gv_repository g1)) = []"
    using pending x(2)
    by (simp add: observe_drift_def dict_values_def with_store_def save_drift_observations_def fs_transaction_def gov_state_def
        append_artifact_def bind_result_def Let_def)
  have "gv_repository gov_state = Some (the (gv_repository gov_state))" by (simp add: gov_state_def)
  from repeated_drift_refused [OF this run(1,2) _ run(3), of 8] run(1) show ?thesis by auto
qed

end
