(* ===== verification/Agents.thy ===== *)
theory Agents
  imports Agent_Evaluation Event_Bus
begin

text \<open>
  Runtime agents: the contracts of \<^verbatim>\<open>app/schemas/agents.py\<close>, the governed base class of
  \<^verbatim>\<open>app/agents/base.py\<close> and the registry of \<^verbatim>\<open>app/agents/registry.py\<close>.

  What an agent computes is a parameter: one call of \<^verbatim>\<open>_analyze\<close> answers with an output, runs into the
  timeout or raises an exception of some class, after a latency. The execution mode is \<^verbatim>\<open>"PAPER"\<close> by the
  type of its field, so the branches that refuse another mode have no counterpart. \<open>H\<close> is SHA-256 of a
  canonical JSON text.
\<close>

section \<open>Contracts\<close>

record agent_input =
  ai_request_id :: string
  ai_correlation_id :: string
  ai_agent_name :: string
  ai_timestamp :: time
  ai_symbol :: string
  ai_timeframe :: string
  ai_market_context :: "(string \<times> json) list"
  ai_config :: "(string \<times> json) list"

text \<open>\<^verbatim>\<open>^[A-Za-z][A-Za-z0-9._-]+$\<close> with 3 to 128 characters.\<close>

definition agent_name_ok :: "string \<Rightarrow> bool" where
  "agent_name_ok s \<longleftrightarrow> 3 \<le> length s \<and> length s \<le> 128 \<and> (lower_letter (hd s) \<or> is_upper (hd s)) \<and> list_all agent_name_char s"

definition valid_agent_input :: "agent_input \<Rightarrow> bool" where
  [valid_defs]: "valid_agent_input i \<longleftrightarrow>
     ai_request_id i \<noteq> [] \<and> length (ai_request_id i) \<le> 256 \<and> ai_correlation_id i \<noteq> [] \<and> length (ai_correlation_id i) \<le> 36 \<and>
     agent_name_ok (ai_agent_name i) \<and> candle_symbol_ok (ai_symbol i) \<and> timeframe_ok (ai_timeframe i)"

definition input_json :: "agent_input \<Rightarrow> json" where
  "input_json i =
     JObj [(''schema_version'', JStr ''1.0.0''), (''request_id'', JStr (ai_request_id i)),
           (''correlation_id'', JStr (ai_correlation_id i)), (''agent_name'', JStr (ai_agent_name i)),
           (''timestamp'', JTime (ai_timestamp i)), (''symbol'', JStr (ai_symbol i)), (''timeframe'', JStr (ai_timeframe i)),
           (''market_context'', JObj (ai_market_context i)), (''config'', JObj (ai_config i))]"

definition output_json :: "agent_output \<Rightarrow> json" where
  "output_json x =
     JObj [(''schema_version'', JStr ''1.0.0''), (''agent_name'', JStr (ao_agent_name x)),
           (''status'', JStr (agent_status_value (ao_status x))), (''signal'', JStr (signal_value (ao_signal x))),
           (''confidence'', JInt (ao_confidence x)), (''reason'', JStr (ao_reason x)), (''evidence'', JObj (ao_evidence x)),
           (''warnings'', JList (map JStr (ao_warnings x))), (''latency_ms'', JInt (ao_latency_ms x)),
           (''created_at'', JTime (ao_created_at x))]"

record agent_request =
  ax_agent_version :: string
  ax_idempotency_key :: "string option"
  ax_input :: agent_input

definition valid_agent_request :: "agent_request \<Rightarrow> bool" where
  [valid_defs]: "valid_agent_request q \<longleftrightarrow>
     version_ok (ax_agent_version q) \<and>
     (case ax_idempotency_key q of None \<Rightarrow> True | Some k \<Rightarrow> k \<noteq> [] \<and> length k \<le> 256) \<and> valid_agent_input (ax_input q)"

definition new_agent_request :: "agent_request \<Rightarrow> agent_request result" where
  "new_agent_request q =
     bind_result (validate valid_agent_request q) (\<lambda>q.
       Inr (if truthy_id (ax_idempotency_key q) then q else q\<lparr>ax_idempotency_key := Some (ai_request_id (ax_input q))\<rparr>))"

definition request_json :: "agent_request \<Rightarrow> json" where
  "request_json q =
     JObj [(''schema_version'', JStr ''1.0.0''), (''runtime_version'', JStr ''agent-runtime-v1''), (''execution_mode'', JStr ''PAPER''),
           (''agent_version'', JStr (ax_agent_version q)), (''idempotency_key'', JOpt JStr (ax_idempotency_key q)),
           (''input'', input_json (ax_input q))]"

definition agent_execution_fingerprint :: "(json \<Rightarrow> string) \<Rightarrow> agent_request \<Rightarrow> string" where
  "agent_execution_fingerprint H q =
     H (JObj [(''runtime_version'', JStr ''agent-runtime-v1''), (''execution_mode'', JStr ''PAPER''),
              (''agent_key'', JStr (ai_agent_name (ax_input q) @ ''@'' @ ax_agent_version q)),
              (''idempotency_key'', JOpt JStr (ax_idempotency_key q)), (''input'', input_json (ax_input q))])"

record agent_attempt =
  aa_execution_id :: string
  aa_attempt_number :: int
  aa_worker_id :: string
  aa_status :: agent_status
  aa_output :: agent_output
  aa_retryable :: bool
  aa_started_at :: time
  aa_completed_at :: time

definition valid_agent_attempt :: "agent_attempt \<Rightarrow> bool" where
  [valid_defs]: "valid_agent_attempt a \<longleftrightarrow>
     sha_ok (aa_execution_id a) \<and> 1 \<le> aa_attempt_number a \<and> aa_attempt_number a \<le> 10 \<and>
     aa_worker_id a \<noteq> [] \<and> length (aa_worker_id a) \<le> 128 \<and> aa_started_at a \<le> aa_completed_at a \<and>
     ao_status (aa_output a) = aa_status a"

definition attempt_json :: "agent_attempt \<Rightarrow> json" where
  "attempt_json a =
     JObj [(''schema_version'', JStr ''1.0.0''), (''execution_id'', JStr (aa_execution_id a)),
           (''attempt_number'', JInt (aa_attempt_number a)), (''worker_id'', JStr (aa_worker_id a)),
           (''status'', JStr (agent_status_value (aa_status a))), (''output'', output_json (aa_output a)),
           (''retryable'', JBool (aa_retryable a)), (''started_at'', JTime (aa_started_at a)),
           (''completed_at'', JTime (aa_completed_at a))]"

datatype memory_type = MemINPUT | MemATTEMPT | MemOUTPUT | MemDEAD_LETTER

record memory_entry =
  me_execution_id :: string
  me_sequence :: int
  me_entry_type :: memory_type
  me_payload :: json
  me_payload_hash :: string
  me_created_at :: time

definition valid_memory_entry :: "memory_entry \<Rightarrow> bool" where
  [valid_defs]: "valid_memory_entry m \<longleftrightarrow> sha_ok (me_execution_id m) \<and> 1 \<le> me_sequence m \<and> sha_ok (me_payload_hash m)"

datatype job_status = JobPENDING | JobLEASED | JobRETRY | JobCOMPLETED | JobDEAD_LETTER

fun job_status_value :: "job_status \<Rightarrow> string" where
  "job_status_value JobPENDING = ''PENDING''"
| "job_status_value JobLEASED = ''LEASED''"
| "job_status_value JobRETRY = ''RETRY''"
| "job_status_value JobCOMPLETED = ''COMPLETED''"
| "job_status_value JobDEAD_LETTER = ''DEAD_LETTER''"

abbreviation job_terminal :: "job_status \<Rightarrow> bool" where
  "job_terminal s \<equiv> s = JobCOMPLETED \<or> s = JobDEAD_LETTER"

record agent_job =
  aj_execution_id :: string
  aj_request_fingerprint :: string
  aj_idempotency_key :: string
  aj_correlation_id :: string
  aj_agent_name :: string
  aj_agent_version :: string
  aj_definition_hash :: string
  aj_decision_role :: decision_role
  aj_critical :: bool
  aj_input :: agent_input
  aj_status :: job_status
  aj_attempt_count :: int
  aj_max_attempts :: int
  aj_available_at :: time
  aj_leased_by :: "string option"
  aj_lease_expires_at :: "time option"
  aj_last_error_code :: "string option"
  aj_output :: "agent_output option"
  aj_created_at :: time
  aj_updated_at :: time
  aj_completed_at :: "time option"

definition valid_agent_job :: "agent_job \<Rightarrow> bool" where
  [valid_defs]: "valid_agent_job j \<longleftrightarrow>
     sha_ok (aj_execution_id j) \<and> sha_ok (aj_request_fingerprint j) \<and>
     aj_idempotency_key j \<noteq> [] \<and> length (aj_idempotency_key j) \<le> 256 \<and>
     aj_correlation_id j \<noteq> [] \<and> length (aj_correlation_id j) \<le> 36 \<and> sha_ok (aj_definition_hash j) \<and>
     valid_agent_input (aj_input j) \<and> 0 \<le> aj_attempt_count j \<and> aj_attempt_count j \<le> 10 \<and>
     1 \<le> aj_max_attempts j \<and> aj_max_attempts j \<le> 10 \<and>
     (case aj_leased_by j of None \<Rightarrow> True | Some w \<Rightarrow> length w \<le> 128) \<and>
     aj_execution_id j = aj_request_fingerprint j \<and> aj_attempt_count j \<le> aj_max_attempts j \<and>
     ai_agent_name (aj_input j) = aj_agent_name j \<and>
     (aj_status j = JobLEASED \<longleftrightarrow> aj_leased_by j \<noteq> None \<and> aj_lease_expires_at j \<noteq> None) \<and>
     (aj_status j = JobLEASED \<longrightarrow> 1 \<le> aj_attempt_count j) \<and>
     (job_terminal (aj_status j) \<longleftrightarrow> aj_completed_at j \<noteq> None) \<and>
     (job_terminal (aj_status j) \<longrightarrow> aj_output j \<noteq> None) \<and>
     (case aj_output j of None \<Rightarrow> True | Some x \<Rightarrow> ao_agent_name x = aj_agent_name j)"

record agent_trace =
  tr_job :: agent_job
  tr_attempts :: "agent_attempt list"
  tr_memory :: "memory_entry list"

definition valid_agent_trace :: "agent_trace \<Rightarrow> bool" where
  [valid_defs]: "valid_agent_trace t \<longleftrightarrow>
     list_all (\<lambda>a. aa_execution_id a = aj_execution_id (tr_job t)) (tr_attempts t) \<and>
     map aa_attempt_number (tr_attempts t) = map int [1..<length (tr_attempts t) + 1] \<and>
     int (length (tr_attempts t)) \<le> aj_attempt_count (tr_job t) \<and>
     list_all (\<lambda>m. me_execution_id m = aj_execution_id (tr_job t)) (tr_memory t) \<and>
     sorted_wrt (<) (map me_sequence (tr_memory t))"

section \<open>The base class\<close>

record agent_class =
  ba_name :: string
  ba_version :: string
  ba_description :: string
  ba_required_inputs :: "string list"
  ba_capabilities :: "string list"
  ba_decision_role :: decision_role
  ba_critical :: bool
  ba_timeout_ms :: int
  ba_max_attempts :: int

record base_agent =
  ba_class :: agent_class
  ba_enabled :: bool
  ba_status :: string
  ba_last_run_at :: "time option"
  ba_last_failure_at :: "time option"
  ba_total_runs :: int
  ba_total_failures :: int
  ba_total_latency_ms :: pyfloat
  ba_last_signal :: "string option"
  ba_last_confidence :: "int option"
  ba_last_output :: "agent_output option"
  ba_last_input :: "agent_input option"

abbreviation agent_name :: "base_agent \<Rightarrow> string" where
  "agent_name a \<equiv> ba_name (ba_class a)"

definition new_agent :: "agent_class \<Rightarrow> base_agent" where
  "new_agent c =
     \<lparr>ba_class = c, ba_enabled = True, ba_status = ''REGISTERED'', ba_last_run_at = None, ba_last_failure_at = None,
      ba_total_runs = 0, ba_total_failures = 0, ba_total_latency_ms = 0, ba_last_signal = None, ba_last_confidence = None,
      ba_last_output = None, ba_last_input = None\<rparr>"

definition agent_definition_hash :: "(json \<Rightarrow> string) \<Rightarrow> agent_class \<Rightarrow> string" where
  "agent_definition_hash H c =
     H (JObj [(''registry_version'', JStr ''agent-registry-v1''), (''agent_name'', JStr (ba_name c)),
              (''version'', JStr (ba_version c)), (''description'', JStr (ba_description c)),
              (''required_inputs'', JList (map JStr (sort (ba_required_inputs c)))),
              (''capabilities'', JList (map JStr (sort (ba_capabilities c)))), (''input_contract'', JStr ''AgentInputV1''),
              (''output_contract'', JStr ''AgentOutputV1''), (''execution_mode'', JStr ''PAPER''),
              (''decision_role'', JStr (role_value (ba_decision_role c))), (''critical'', JBool (ba_critical c)),
              (''timeout_ms'', JInt (ba_timeout_ms c)), (''max_attempts'', JInt (ba_max_attempts c))])"

definition registration_of :: "(json \<Rightarrow> string) \<Rightarrow> base_agent \<Rightarrow> agent_registration result" where
  "registration_of H a =
     (let c = ba_class a
      in validate valid_agent_registration
           \<lparr>ag_agent_name = ba_name c, ag_version = ba_version c, ag_description = ba_description c,
            ag_required_inputs = ba_required_inputs c, ag_capabilities = ba_capabilities c,
            ag_decision_role = ba_decision_role c, ag_critical = ba_critical c, ag_timeout_ms = ba_timeout_ms c,
            ag_max_attempts = ba_max_attempts c, ag_enabled = ba_enabled a, ag_definition_hash = agent_definition_hash H c\<rparr>)"

definition initialize_agent :: "base_agent \<Rightarrow> base_agent" where
  "initialize_agent a = a\<lparr>ba_status := (if ba_enabled a then ''READY'' else ''DISABLED'')\<rparr>"

definition disable_agent :: "base_agent \<Rightarrow> base_agent" where
  "disable_agent a = a\<lparr>ba_enabled := False, ba_status := ''DISABLED''\<rparr>"

definition enable_agent :: "base_agent \<Rightarrow> base_agent" where
  "enable_agent a = a\<lparr>ba_enabled := True, ba_status := ''REGISTERED''\<rparr>"

record agent_health =
  ah_name :: string
  ah_status :: string
  ah_version :: string
  ah_critical :: bool
  ah_enabled :: bool
  ah_avg_latency_ms :: pyfloat
  ah_error_rate :: pyfloat
  ah_total_runs :: int
  ah_total_failures :: int
  ah_last_signal :: "string option"
  ah_last_confidence :: "int option"

definition agent_health_of :: "base_agent \<Rightarrow> agent_health" where
  "agent_health_of a =
     \<lparr>ah_name = agent_name a, ah_status = ba_status a, ah_version = ba_version (ba_class a), ah_critical = ba_critical (ba_class a),
      ah_enabled = ba_enabled a,
      ah_avg_latency_ms =
        py_round (if ba_total_runs a \<noteq> 0 then ba_total_latency_ms a / flt (of_int (ba_total_runs a)) else 0) 2,
      ah_error_rate =
        py_round (if ba_total_runs a \<noteq> 0 then flt (of_int (ba_total_failures a) / of_int (ba_total_runs a)) else 0) 4,
      ah_total_runs = ba_total_runs a, ah_total_failures = ba_total_failures a, ah_last_signal = ba_last_signal a,
      ah_last_confidence = ba_last_confidence a\<rparr>"

text \<open>What one call of \<^verbatim>\<open>_analyze\<close> does under its timeout, and how many milliseconds it takes.\<close>

datatype analysis = Answered agent_output | TimedOut | Crashed exn_class

definition own_output :: "base_agent \<Rightarrow> agent_status \<Rightarrow> signal \<Rightarrow> string \<Rightarrow> int \<Rightarrow> time \<Rightarrow> agent_output result" where
  "own_output a status sig reason latency_ms now =
     validate valid_agent_output
       \<lparr>ao_agent_name = agent_name a, ao_status = status, ao_signal = sig, ao_confidence = 0, ao_reason = reason,
        ao_evidence = [], ao_warnings = [], ao_latency_ms = latency_ms, ao_created_at = now\<rparr>"

definition failed_analysis ::
  "agent_status \<Rightarrow> string \<Rightarrow> string \<Rightarrow> int \<Rightarrow> time \<Rightarrow> base_agent \<Rightarrow> (base_agent, agent_output) outcome" where
  "failed_analysis status label reason latency_ms now a =
     (let a1 = a\<lparr>ba_status := label, ba_total_failures := ba_total_failures a + 1, ba_last_failure_at := Some now\<rparr>
      in case own_output a1 status (if ba_critical (ba_class a) then SigBLOCK else SigNEUTRAL) reason latency_ms now of
           Inl e \<Rightarrow> (a1, Inl e)
         | Inr x \<Rightarrow> (a1\<lparr>ba_last_output := Some x\<rparr>, Inr x))"

definition run_agent :: "time \<Rightarrow> analysis \<times> int \<Rightarrow> agent_input \<Rightarrow> base_agent \<Rightarrow> (base_agent, agent_output) outcome" where
  "run_agent now answer i a =
     (if \<not> ba_enabled a then (a, own_output a AsSKIPPED SigNEUTRAL ''Agent disabled'' 0 now)
      else
        let a1 = a\<lparr>ba_status := ''RUNNING'', ba_total_runs := ba_total_runs a + 1, ba_last_run_at := Some now,
                   ba_last_input := Some i\<rparr>;
            name = agent_name a; latency_ms = snd answer;
            crash = (\<lambda>c. failed_analysis AsFAILED ''FAILED'' (name @ '' failed with '' @ class_name c) latency_ms now a1)
        in case fst answer of
             Crashed c \<Rightarrow> crash c
           | TimedOut \<Rightarrow>
               failed_analysis AsTIMEOUT ''TIMEOUT''
                 (name @ '' exceeded timeout of '' @ str_int (ba_timeout_ms (ba_class a)) @ ''ms'') latency_ms now a1
           | Answered x \<Rightarrow>
               if ao_agent_name x \<noteq> name then crash ValueError
               else let y = x\<lparr>ao_latency_ms := latency_ms\<rparr>
                    in (a1\<lparr>ba_status := ''READY'', ba_last_signal := Some (signal_value (ao_signal y)),
                           ba_last_confidence := Some (ao_confidence y), ba_last_output := Some y,
                           ba_total_latency_ms := ba_total_latency_ms a + flt (of_int latency_ms)\<rparr>, Inr y))"

section \<open>The registry\<close>

record agent_registry =
  ry_agents :: "base_agent dict"
  ry_history :: "agent_registration list"

definition register_agent ::
  "(json \<Rightarrow> string) \<Rightarrow> base_agent \<Rightarrow> agent_registry \<Rightarrow> (agent_registry, agent_registration) outcome" where
  "register_agent H a r =
     (case registration_of H a of
        Inl e \<Rightarrow> (r, Inl e)
      | Inr g \<Rightarrow>
          if dict_get (ry_agents r) (ag_agent_name g) \<noteq> None
          then (r, raise ConfigurationError (''Agent '' @ ag_agent_name g @ '' is already registered''))
          else (r\<lparr>ry_agents := dict_set (ag_agent_name g) a (ry_agents r)\<rparr>, Inr g))"

fun register_all :: "(json \<Rightarrow> string) \<Rightarrow> base_agent list \<Rightarrow> agent_registry \<Rightarrow> (agent_registry, unit) outcome" where
  "register_all H [] r = (r, Inr ())"
| "register_all H (a # as) r = bind_outcome (register_agent H a r) (\<lambda>r1 _. register_all H as r1)"

definition new_agent_registry :: "(json \<Rightarrow> string) \<Rightarrow> base_agent list \<Rightarrow> agent_registry result" where
  "new_agent_registry H agents =
     (case register_all H agents \<lparr>ry_agents = [], ry_history = []\<rparr> of (r, Inl e) \<Rightarrow> Inl e | (r, Inr _) \<Rightarrow> Inr r)"

definition get_agent :: "string \<Rightarrow> string option \<Rightarrow> agent_registry \<Rightarrow> base_agent result" where
  "get_agent name version r =
     (case dict_get (ry_agents r) name of
        None \<Rightarrow> raise ValidationError (''Agent '' @ name @ '' is not registered'')
      | Some a \<Rightarrow>
          (case version of
             None \<Rightarrow> Inr a
           | Some v \<Rightarrow>
               if ba_version (ba_class a) \<noteq> v
               then raise ValidationError (''Agent '' @ name @ '' version '' @ v @ '' is not active'')
               else Inr a))"

definition registrations :: "(json \<Rightarrow> string) \<Rightarrow> agent_registry \<Rightarrow> agent_registration list result" where
  "registrations H r = map_result (registration_of H) (dict_values (ry_agents r))"

definition agents_with_role :: "decision_role \<Rightarrow> agent_registry \<Rightarrow> base_agent list" where
  "agents_with_role role r = filter (\<lambda>a. ba_decision_role (ba_class a) = role) (dict_values (ry_agents r))"

definition initialize_all :: "agent_registry \<Rightarrow> agent_registry" where
  "initialize_all r = r\<lparr>ry_agents := map (\<lambda>(k, a). (k, initialize_agent a)) (ry_agents r)\<rparr>"

definition update_agent ::
  "(json \<Rightarrow> string) \<Rightarrow> (base_agent \<Rightarrow> base_agent) \<Rightarrow> string \<Rightarrow> agent_registry \<Rightarrow> (agent_registry, agent_registration) outcome" where
  "update_agent H f name r =
     (case get_agent name None r of
        Inl e \<Rightarrow> (r, Inl e)
      | Inr a \<Rightarrow> (r\<lparr>ry_agents := dict_set name (f a) (ry_agents r)\<rparr>, registration_of H (f a)))"

definition disable_registered :: "(json \<Rightarrow> string) \<Rightarrow> string \<Rightarrow> agent_registry \<Rightarrow> (agent_registry, agent_registration) outcome" where
  "disable_registered H = update_agent H disable_agent"

definition enable_registered :: "(json \<Rightarrow> string) \<Rightarrow> string \<Rightarrow> agent_registry \<Rightarrow> (agent_registry, agent_registration) outcome" where
  "enable_registered H = update_agent H enable_agent"

definition replace_agent ::
  "(json \<Rightarrow> string) \<Rightarrow> base_agent \<Rightarrow> string \<Rightarrow> agent_registry \<Rightarrow> (agent_registry, agent_registration) outcome" where
  "replace_agent H a expected_version r =
     (case get_agent (agent_name a) None r of
        Inl e \<Rightarrow> (r, Inl e)
      | Inr current \<Rightarrow>
          if ba_version (ba_class current) \<noteq> expected_version
          then (r, raise ValidationError (''Agent '' @ agent_name a @ '' active version changed before replacement''))
          else if ba_version (ba_class current) = ba_version (ba_class a)
          then (r, raise ValidationError ''Replacement requires a new agent version'')
          else
            let disabled = disable_agent current; r1 = r\<lparr>ry_agents := dict_set (agent_name a) disabled (ry_agents r)\<rparr>
            in case registration_of H disabled of
                 Inl e \<Rightarrow> (r1, Inl e)
               | Inr g \<Rightarrow>
                   (r1\<lparr>ry_agents := dict_set (agent_name a) a (ry_agents r1), ry_history := ry_history r @ [g]\<rparr>,
                    registration_of H a))"

definition remove_agent :: "(json \<Rightarrow> string) \<Rightarrow> string \<Rightarrow> agent_registry \<Rightarrow> (agent_registry, agent_registration) outcome" where
  "remove_agent H name r =
     (case get_agent name None r of
        Inl e \<Rightarrow> (r, Inl e)
      | Inr a \<Rightarrow>
          let removed = (disable_agent a)\<lparr>ba_status := ''REMOVED''\<rparr>;
              r1 = r\<lparr>ry_agents := dict_set name removed (ry_agents r)\<rparr>
          in case registration_of H removed of
               Inl e \<Rightarrow> (r1, Inl e)
             | Inr g \<Rightarrow> (r1\<lparr>ry_agents := dict_pop name (ry_agents r1), ry_history := ry_history r @ [g]\<rparr>, Inr g))"

definition validate_cohort :: "(json \<Rightarrow> string) \<Rightarrow> int \<Rightarrow> agent_registry \<Rightarrow> unit result" where
  "validate_cohort H expected_count r =
     bind_result (registrations H r) (\<lambda>gs.
       if int (length gs) \<noteq> expected_count
       then raise ConfigurationError (''Expected '' @ str_int expected_count @ '' PAPER agents, found '' @ str_int (int (length gs)))
       else if \<not> distinct (map ag_agent_name gs) then raise ConfigurationError ''Agent registry contains duplicate names''
       else case List.find (\<lambda>g. ag_capabilities g = []) gs of
              Some g \<Rightarrow> raise ConfigurationError (''Agent '' @ ag_agent_name g @ '' has no capability'')
            | None \<Rightarrow> Inr ())"

end
