(* ===== verification/Agent_Store.thy ===== *)
theory Agent_Store
  imports Agents
begin

text \<open>
  The two queues of agent executions: the in-memory repository of \<^verbatim>\<open>app/agents/runtime.py\<close> and the durable one of
  \<^verbatim>\<open>app/database/repositories/repository.py\<close> with the tables \<^verbatim>\<open>agent_execution_jobs\<close>, \<^verbatim>\<open>agent_execution_attempts\<close>
  and \<^verbatim>\<open>agent_memory_entries\<close>.

  Both keep the same record; the index of idempotency keys belongs to the in-memory queue, the durable one
  has a unique constraint instead. The operations of the in-memory queue start with \<open>mem\<close>. A row read back
  is validated, as \<^verbatim>\<open>_agent_execution_job_from_row\<close> does.
\<close>

type_synonym idempotency_key = "string \<times> string \<times> string"

record agent_store = faulty +
  gx_jobs :: "agent_job dict"
  gx_idempotency :: "(idempotency_key \<times> string) list"
  gx_attempts :: "agent_attempt list dict"
  gx_memory :: "memory_entry list dict"
  gx_outputs :: "(string \<times> agent_output) list"

definition empty_agent_store :: agent_store where
  "empty_agent_store = \<lparr>fs_faults = [], gx_jobs = [], gx_idempotency = [], gx_attempts = [], gx_memory = [], gx_outputs = []\<rparr>"

definition listed :: "'a list dict \<Rightarrow> string \<Rightarrow> 'a list" where
  "listed d i = (case dict_get d i of None \<Rightarrow> [] | Some xs \<Rightarrow> xs)"

definition job_key :: "agent_job \<Rightarrow> idempotency_key" where
  "job_key j = (aj_agent_name j, aj_agent_version j, aj_idempotency_key j)"

definition payload_hash :: "(json \<Rightarrow> string) \<Rightarrow> json \<Rightarrow> string" where
  "payload_hash H p = H p"

definition memory_of ::
  "(json \<Rightarrow> string) \<Rightarrow> time \<Rightarrow> string \<Rightarrow> int \<Rightarrow> memory_type \<Rightarrow> json \<Rightarrow> memory_entry result" where
  "memory_of H now i n k payload =
     validate valid_memory_entry
       \<lparr>me_execution_id = i, me_sequence = n, me_entry_type = k, me_payload = payload,
        me_payload_hash = payload_hash H payload, me_created_at = now\<rparr>"

section \<open>Leases\<close>

definition lease_ready :: "time \<Rightarrow> agent_job \<Rightarrow> bool" where
  "lease_ready now j \<longleftrightarrow> (aj_status j = JobPENDING \<or> aj_status j = JobRETRY) \<and> aj_available_at j \<le> now"

definition job_lease_expired :: "time \<Rightarrow> agent_job \<Rightarrow> bool" where
  "job_lease_expired now j \<longleftrightarrow> aj_status j = JobLEASED \<and> (case aj_lease_expires_at j of None \<Rightarrow> False | Some t \<Rightarrow> t \<le> now)"

definition job_claimable :: "time \<Rightarrow> agent_job \<Rightarrow> bool" where
  "job_claimable now j \<longleftrightarrow> lease_ready now j \<and> aj_attempt_count j < aj_max_attempts j \<or> job_lease_expired now j"

definition claimed_job :: "time \<Rightarrow> string \<Rightarrow> int \<Rightarrow> agent_job \<Rightarrow> agent_job" where
  "claimed_job now worker_id lease_seconds j =
     j\<lparr>aj_status := JobLEASED,
       aj_attempt_count := (if job_lease_expired now j then aj_attempt_count j else aj_attempt_count j + 1),
       aj_leased_by := Some worker_id, aj_lease_expires_at := Some (now + lease_seconds * 1000000), aj_updated_at := now\<rparr>"

definition put_job :: "agent_job \<Rightarrow> agent_store \<Rightarrow> agent_store" where
  "put_job j d = d\<lparr>gx_jobs := dict_set (aj_execution_id j) j (gx_jobs d)\<rparr>"

section \<open>Finishing an attempt\<close>

record finish_call =
  fn_attempt :: agent_attempt
  fn_attempt_memory :: memory_entry
  fn_worker_id :: string
  fn_output :: agent_output
  fn_retryable :: bool
  fn_retry_delay :: pyfloat
  fn_terminal_memory :: "memory_entry option"

definition successful_output :: "agent_output \<Rightarrow> bool" where
  "successful_output x \<longleftrightarrow> ao_status x \<noteq> AsFAILED \<and> ao_status x \<noteq> AsTIMEOUT"

definition finished_status :: "finish_call \<Rightarrow> agent_job \<Rightarrow> job_status" where
  "finished_status f j =
     (if successful_output (fn_output f) then JobCOMPLETED
      else if fn_retryable f \<and> aj_attempt_count j < aj_max_attempts j then JobRETRY
      else JobDEAD_LETTER)"

definition output_error_code :: "agent_output \<Rightarrow> string option" where
  "output_error_code x =
     (if successful_output x then None
      else if ao_status x = AsTIMEOUT then Some ''AGENT_TIMEOUT'' else Some ''AGENT_FAILED'')"

text \<open>The two queues differ in \<^verbatim>\<open>available_at\<close> of a terminal job: the in-memory one sets it, the durable one keeps it.\<close>

definition finished_job :: "bool \<Rightarrow> time \<Rightarrow> finish_call \<Rightarrow> agent_job \<Rightarrow> agent_job" where
  "finished_job durable now f j =
     (let s = finished_status f j
      in j\<lparr>aj_status := s,
           aj_available_at := (if s = JobRETRY then now + seconds_delta (fn_retry_delay f)
                               else if durable then aj_available_at j else now),
           aj_leased_by := None, aj_lease_expires_at := None,
           aj_last_error_code := output_error_code (fn_output f), aj_output := Some (fn_output f), aj_updated_at := now,
           aj_completed_at := (if job_terminal s then Some now else None)\<rparr>)"

definition append_listed :: "string \<Rightarrow> 'a list \<Rightarrow> 'a list dict \<Rightarrow> 'a list dict" where
  "append_listed i xs d = dict_set i (listed d i @ xs) d"

definition record_finish :: "agent_job \<Rightarrow> finish_call \<Rightarrow> agent_store \<Rightarrow> agent_store" where
  "record_finish j f d =
     d\<lparr>gx_jobs := dict_set (aa_execution_id (fn_attempt f)) j (gx_jobs d),
       gx_attempts := append_listed (aa_execution_id (fn_attempt f)) [fn_attempt f] (gx_attempts d),
       gx_memory := append_listed (aa_execution_id (fn_attempt f))
                      (fn_attempt_memory f # (case fn_terminal_memory f of None \<Rightarrow> [] | Some m \<Rightarrow> [m])) (gx_memory d)\<rparr>"

section \<open>The in-memory queue\<close>

definition mem_create :: "agent_job \<Rightarrow> memory_entry \<Rightarrow> agent_store \<Rightarrow> (agent_store, agent_job) outcome" where
  "mem_create j m d =
     (case dict_get (gx_idempotency d) (job_key j) of
        Some existing_id \<Rightarrow>
          (case dict_get (gx_jobs d) existing_id of
             None \<Rightarrow> (d, raise KeyError existing_id)
           | Some existing \<Rightarrow>
               (d, if aj_request_fingerprint existing \<noteq> aj_request_fingerprint j
                   then raise ValidationError ''Agent execution idempotency key conflicts with different input''
                   else Inr existing))
      | None \<Rightarrow>
          ((put_job j d)\<lparr>gx_idempotency := dict_set (job_key j) (aj_execution_id j) (gx_idempotency d),
             gx_attempts := dict_set (aj_execution_id j) [] (gx_attempts d),
             gx_memory := dict_set (aj_execution_id j) [m] (gx_memory d)\<rparr>, Inr j))"

definition mem_claim :: "time \<Rightarrow> string \<Rightarrow> string \<Rightarrow> int \<Rightarrow> agent_store \<Rightarrow> (agent_store, agent_job option) outcome" where
  "mem_claim now i worker_id lease_seconds d =
     (case dict_get (gx_jobs d) i of
        None \<Rightarrow> (d, Inr None)
      | Some j \<Rightarrow>
          if \<not> (lease_ready now j \<or> job_lease_expired now j) then (d, Inr None)
          else if lease_ready now j \<and> aj_max_attempts j \<le> aj_attempt_count j then (d, Inr None)
          else let c = claimed_job now worker_id lease_seconds j in (d\<lparr>gx_jobs := dict_set i c (gx_jobs d)\<rparr>, Inr (Some c)))"

fun mem_claim_first ::
  "time \<Rightarrow> agent_job list \<Rightarrow> string \<Rightarrow> int \<Rightarrow> agent_store \<Rightarrow> (agent_store, agent_job option) outcome" where
  "mem_claim_first now [] worker_id lease_seconds d = (d, Inr None)"
| "mem_claim_first now (j # js) worker_id lease_seconds d =
     bind_outcome (mem_claim now (aj_execution_id j) worker_id lease_seconds d) (\<lambda>d1 claimed.
       case claimed of
         Some c \<Rightarrow> (d1, Inr (Some c))
       | None \<Rightarrow> mem_claim_first now js worker_id lease_seconds d1)"

text \<open>Jobs in the order of \<^verbatim>\<open>(available_at, created_at)\<close>.\<close>

definition queue_order :: "agent_store \<Rightarrow> agent_job list" where
  "queue_order d = sort_key aj_available_at (sort_key aj_created_at (dict_values (gx_jobs d)))"

definition mem_claim_next :: "time \<Rightarrow> string \<Rightarrow> int \<Rightarrow> agent_store \<Rightarrow> (agent_store, agent_job option) outcome" where
  "mem_claim_next now worker_id lease_seconds d = mem_claim_first now (queue_order d) worker_id lease_seconds d"

definition mem_finish :: "time \<Rightarrow> finish_call \<Rightarrow> agent_store \<Rightarrow> (agent_store, agent_job) outcome" where
  "mem_finish now f d =
     (let a = fn_attempt f; i = aa_execution_id a
      in case dict_get (gx_jobs d) i of
           None \<Rightarrow> (d, raise KeyError i)
         | Some j \<Rightarrow>
             if aj_status j \<noteq> JobLEASED \<or> aj_leased_by j \<noteq> Some (fn_worker_id f)
             then (d, raise ValidationError ''Agent execution lease ownership lost'')
             else if aa_attempt_number a \<noteq> int (length (listed (gx_attempts d) i)) + 1
             then (d, raise ValidationError ''Agent attempts must be append-only'')
             else if me_sequence (fn_attempt_memory f) \<noteq> aa_attempt_number a * 2
             then (d, raise ValidationError ''Agent attempt memory sequence is invalid'')
             else let u = finished_job False now f j in (record_finish u f d, Inr u))"

definition trace_of :: "string \<Rightarrow> agent_store \<Rightarrow> agent_trace option result" where
  "trace_of i d =
     (case dict_get (gx_jobs d) i of
        None \<Rightarrow> Inr None
      | Some j \<Rightarrow>
          bind_result (validate valid_agent_trace
             \<lparr>tr_job = j, tr_attempts = listed (gx_attempts d) i, tr_memory = listed (gx_memory d) i\<rparr>) (\<lambda>t. Inr (Some t)))"

definition mem_trace :: "string \<Rightarrow> agent_store \<Rightarrow> (agent_store, agent_trace option) outcome" where
  "mem_trace i d = (d, trace_of i d)"

definition mem_jobs :: "int \<Rightarrow> agent_store \<Rightarrow> agent_job list result" where
  "mem_jobs limit d =
     (if 1 \<le> limit \<and> limit \<le> 1000
      then Inr (take (nat limit) (rev (sort_key aj_created_at (rev (dict_values (gx_jobs d))))))
      else raise ValueError ''Agent execution limit must be 1..1000'')"

section \<open>The durable queue\<close>

definition db_error :: "string \<Rightarrow> 'a result \<Rightarrow> 'a result" where
  "db_error label r = (case r of Inl e \<Rightarrow> raise DatabaseError (label @ exn_message e) | Inr x \<Rightarrow> Inr x)"

definition agent_job_row_ok :: "agent_job \<Rightarrow> bool" where
  "agent_job_row_ok j \<longleftrightarrow>
     0 \<le> aj_attempt_count j \<and> aj_attempt_count j \<le> aj_max_attempts j \<and> 0 < aj_max_attempts j \<and> aj_max_attempts j \<le> 10 \<and>
     (if aj_status j = JobLEASED then aj_leased_by j \<noteq> None \<and> aj_lease_expires_at j \<noteq> None
      else aj_leased_by j = None \<and> aj_lease_expires_at j = None) \<and>
     (job_terminal (aj_status j) \<longleftrightarrow> aj_completed_at j \<noteq> None)"

definition job_conflict :: "agent_store \<Rightarrow> agent_job \<Rightarrow> bool" where
  "job_conflict d j \<longleftrightarrow>
     dict_get (gx_jobs d) (aj_execution_id j) \<noteq> None \<or>
     list_ex (\<lambda>x. aj_request_fingerprint x = aj_request_fingerprint j \<or> job_key x = job_key j) (dict_values (gx_jobs d))"

definition conflicting_job :: "agent_store \<Rightarrow> agent_job \<Rightarrow> agent_job option" where
  "conflicting_job d j =
     (case List.find (\<lambda>x. job_key x = job_key j) (dict_values (gx_jobs d)) of
        Some x \<Rightarrow> Some x
      | None \<Rightarrow> dict_get (gx_jobs d) (aj_execution_id j))"

definition create_agent_execution ::
  "agent_job \<Rightarrow> memory_entry \<Rightarrow> agent_store \<Rightarrow> (agent_store, agent_job) outcome" where
  "create_agent_execution j m d =
     (if me_execution_id m \<noteq> aj_execution_id j \<or> me_sequence m \<noteq> 1 \<or> me_entry_type m \<noteq> MemINPUT
      then (d, raise ValueError ''Initial agent memory does not match the job'')
      else fs_transaction (\<lambda>d.
        if \<not> job_conflict d j
        then if \<not> agent_job_row_ok j then raise DatabaseError ''Failed to create agent execution: check constraint''
             else Inr ((put_job j d)\<lparr>gx_memory := append_listed (aj_execution_id j) [m] (gx_memory d)\<rparr>, j)
        else case conflicting_job d j of
               None \<Rightarrow> raise DatabaseError ''Failed to create agent execution: Agent execution conflict has no stored job''
             | Some x \<Rightarrow>
                 if aj_request_fingerprint x \<noteq> aj_request_fingerprint j
                 then raise ValidationError ''Agent execution idempotency key conflicts with different input''
                 else db_error ''Failed to create agent execution: '' (bind_result (validate valid_agent_job x) (\<lambda>x. Inr (d, x)))) d)"

definition claim_where ::
  "time \<Rightarrow> string option \<Rightarrow> string \<Rightarrow> int \<Rightarrow> agent_store \<Rightarrow> (agent_store, agent_job option) outcome" where
  "claim_where now execution_id worker_id lease_seconds d =
     (if lease_seconds < 1 then (d, raise ValueError ''Agent lease_seconds must be positive'')
      else fs_transaction (\<lambda>d.
        case List.find (\<lambda>j. job_claimable now j \<and> (execution_id = None \<or> execution_id = Some (aj_execution_id j))) (queue_order d) of
          None \<Rightarrow> Inr (d, None)
        | Some j \<Rightarrow>
            db_error ''Failed to claim agent execution: ''
              (bind_result (validate valid_agent_job (claimed_job now worker_id lease_seconds j)) (\<lambda>c. Inr (put_job c d, Some c)))) d)"

definition claim_agent_execution ::
  "time \<Rightarrow> string \<Rightarrow> string \<Rightarrow> int \<Rightarrow> agent_store \<Rightarrow> (agent_store, agent_job option) outcome" where
  "claim_agent_execution now i = claim_where now (Some i)"

definition claim_next_agent_execution ::
  "time \<Rightarrow> string \<Rightarrow> int \<Rightarrow> agent_store \<Rightarrow> (agent_store, agent_job option) outcome" where
  "claim_next_agent_execution now = claim_where now None"

definition attempt_row_ok :: "agent_store \<Rightarrow> agent_attempt \<Rightarrow> bool" where
  "attempt_row_ok d a \<longleftrightarrow>
     0 < aa_attempt_number a \<and> aa_attempt_number a \<le> 10 \<and> aa_started_at a \<le> aa_completed_at a \<and>
     aa_attempt_number a \<notin> aa_attempt_number ` set (listed (gx_attempts d) (aa_execution_id a))"

definition memory_rows_ok :: "agent_store \<Rightarrow> string \<Rightarrow> memory_entry list \<Rightarrow> bool" where
  "memory_rows_ok d i ms \<longleftrightarrow>
     list_all (\<lambda>m. 0 < me_sequence m) ms \<and> distinct (map me_sequence (listed (gx_memory d) i @ ms))"

definition terminal_memory_ok :: "finish_call \<Rightarrow> agent_job \<Rightarrow> bool" where
  "terminal_memory_ok f u =
     (if job_terminal (aj_status u)
      then (case fn_terminal_memory f of
              None \<Rightarrow> False
            | Some m \<Rightarrow>
                me_execution_id m = aj_execution_id u \<and>
                me_entry_type m = (if aj_status u = JobCOMPLETED then MemOUTPUT else MemDEAD_LETTER) \<and>
                me_sequence m = aa_attempt_number (fn_attempt f) * 2 + 1)
      else fn_terminal_memory f = None)"

definition finish_evidence_ok :: "finish_call \<Rightarrow> bool" where
  "finish_evidence_ok f \<longleftrightarrow>
     aa_execution_id (fn_attempt f) = me_execution_id (fn_attempt_memory f) \<and> aa_output (fn_attempt f) = fn_output f \<and>
     aa_worker_id (fn_attempt f) = fn_worker_id f \<and>
     me_sequence (fn_attempt_memory f) = aa_attempt_number (fn_attempt f) * 2 \<and> me_entry_type (fn_attempt_memory f) = MemATTEMPT"

definition finish_row :: "time \<Rightarrow> finish_call \<Rightarrow> agent_store \<Rightarrow> (agent_store \<times> agent_job) result" where
  "finish_row now f d =
     (let a = fn_attempt f; i = aa_execution_id a
      in case dict_get (gx_jobs d) i of
           None \<Rightarrow> raise ValueError ''Agent execution does not exist''
         | Some j \<Rightarrow>
             let u = finished_job True now f j
             in if aj_status j \<noteq> JobLEASED \<or> aj_leased_by j \<noteq> Some (fn_worker_id f)
                then raise ValueError ''Agent execution lease ownership lost''
                else if aj_attempt_count j \<noteq> aa_attempt_number a then raise ValueError ''Agent attempt does not match leased attempt''
                else if int (length (listed (gx_attempts d) i)) \<noteq> aa_attempt_number a - 1
                then raise ValueError ''Agent attempts are not append-only''
                else if \<not> terminal_memory_ok f u
                then raise ValueError (if job_terminal (aj_status u) then ''Terminal agent memory is inconsistent''
                                       else ''Retrying execution cannot append terminal memory'')
                else if \<not> attempt_row_ok d a \<or>
                        \<not> memory_rows_ok d i (fn_attempt_memory f # (case fn_terminal_memory f of None \<Rightarrow> [] | Some m \<Rightarrow> [m])) \<or>
                        \<not> agent_job_row_ok u
                then raise ValueError ''constraint violated''
                else bind_result (validate valid_agent_job u) (\<lambda>u.
                  Inr ((record_finish u f d)\<lparr>gx_outputs :=
                          (if job_terminal (aj_status u) then gx_outputs d @ [(aj_correlation_id u, fn_output f)] else gx_outputs d)\<rparr>,
                       u)))"

definition finish_agent_execution :: "time \<Rightarrow> finish_call \<Rightarrow> agent_store \<Rightarrow> (agent_store, agent_job) outcome" where
  "finish_agent_execution now f d =
     (if fn_retry_delay f < 0 then (d, raise ValueError ''Agent retry delay must not be negative'')
      else if \<not> finish_evidence_ok f then (d, raise ValueError ''Agent attempt evidence is inconsistent'')
      else fs_transaction (\<lambda>d. db_error ''Failed to finish agent execution: '' (finish_row now f d)) d)"

definition load_agent_execution_trace :: "string \<Rightarrow> agent_store \<Rightarrow> (agent_store, agent_trace option) outcome" where
  "load_agent_execution_trace i =
     fs_transaction (\<lambda>d.
       db_error ''Failed to load agent execution trace: ''
         (bind_result (case dict_get (gx_jobs d) i of None \<Rightarrow> Inr () | Some j \<Rightarrow> bind_result (validate valid_agent_job j) (\<lambda>_. Inr ()))
           (\<lambda>_. bind_result (trace_of i d) (\<lambda>t. Inr (d, t)))))"

definition list_agent_execution_jobs :: "int \<Rightarrow> agent_store \<Rightarrow> (agent_store, agent_job list) outcome" where
  "list_agent_execution_jobs limit d =
     (if 1 \<le> limit \<and> limit \<le> 1000
      then fs_transaction (\<lambda>d.
        db_error ''Failed to list agent executions: ''
          (bind_result (map_result (validate valid_agent_job) (take (nat limit) (sort_key (\<lambda>j. - aj_created_at j) (dict_values (gx_jobs d)))))
            (\<lambda>js. Inr (d, js)))) d
      else (d, raise ValueError ''Agent execution limit must be 1..1000''))"

end
