(* ===== verification/Agent_Runtime.thy ===== *)
theory Agent_Runtime
  imports Agent_Store
begin

text \<open>
  The agent runtime of \<^verbatim>\<open>app/agents/runtime.py\<close>: submission, the inline execution loop with leases, retries and
  backoff, one claimed execution, and the background worker.

  The surroundings are parameters: the hash, the broker and the handlers of the bus, and the identity of the
  message that carries an event. The execution loop consumes a list of turns. A turn holds the instants at
  which it polls, claims, sees the agent's answer and finishes, and that answer; a turn that finds nothing to do
  is a sleep. A loop whose turns are used up is still waiting. Executions that \<^verbatim>\<open>asyncio.gather\<close> starts
  together are taken one after the other; the lock per agent and the semaphore have no counterpart then.
\<close>

record surroundings =
  sr_hash :: "json \<Rightarrow> string"
  sr_transport :: "bus_message \<Rightarrow> string result"
  sr_fails :: "string \<Rightarrow> bus_message \<Rightarrow> bool"
  sr_message_id :: "string \<Rightarrow> string"

record agent_runtime =
  rt_registry :: agent_registry
  rt_durable :: bool
  rt_store :: agent_store
  rt_publishes :: bool
  rt_bus :: event_bus
  rt_lease_seconds :: int
  rt_retry_base :: pyfloat
  rt_retry_max :: pyfloat

record agent_turn =
  tn_poll :: time
  tn_claim :: time
  tn_done :: time
  tn_finish :: time
  tn_answer :: "analysis \<times> int"

definition new_agent_runtime ::
  "agent_registry \<Rightarrow> agent_store option \<Rightarrow> event_bus option \<Rightarrow> event_bus \<Rightarrow> int \<Rightarrow> pyfloat \<Rightarrow> pyfloat \<Rightarrow> int
     \<Rightarrow> agent_runtime result" where
  "new_agent_runtime registry repository bus idle_bus lease_seconds retry_base retry_max max_concurrency =
     (if lease_seconds < 1 then raise ValueError ''Agent lease_seconds must be positive''
      else if retry_base < 0 \<or> retry_max < retry_base then raise ValueError ''Agent retry delay settings are inconsistent''
      else if max_concurrency < 1 then raise ValueError ''Agent max_concurrency must be positive''
      else Inr \<lparr>rt_registry = registry, rt_durable = (repository \<noteq> None),
                rt_store = (case repository of None \<Rightarrow> empty_agent_store | Some d \<Rightarrow> d), rt_publishes = (bus \<noteq> None),
                rt_bus = (case bus of None \<Rightarrow> idle_bus | Some b \<Rightarrow> b), rt_lease_seconds = lease_seconds,
                rt_retry_base = retry_base, rt_retry_max = retry_max\<rparr>)"

section \<open>The queue behind the runtime\<close>

definition on_queue :: "(agent_store \<Rightarrow> (agent_store, 'a) outcome) \<Rightarrow> agent_runtime \<Rightarrow> (agent_runtime, 'a) outcome" where
  "on_queue f rt = (case f (rt_store rt) of (d, r) \<Rightarrow> (rt\<lparr>rt_store := d\<rparr>, r))"

definition queue_create :: "bool \<Rightarrow> agent_job \<Rightarrow> memory_entry \<Rightarrow> agent_store \<Rightarrow> (agent_store, agent_job) outcome" where
  "queue_create durable = (if durable then create_agent_execution else mem_create)"

definition queue_claim ::
  "bool \<Rightarrow> time \<Rightarrow> string \<Rightarrow> string \<Rightarrow> int \<Rightarrow> agent_store \<Rightarrow> (agent_store, agent_job option) outcome" where
  "queue_claim durable = (if durable then claim_agent_execution else mem_claim)"

definition queue_claim_next ::
  "bool \<Rightarrow> time \<Rightarrow> string \<Rightarrow> int \<Rightarrow> agent_store \<Rightarrow> (agent_store, agent_job option) outcome" where
  "queue_claim_next durable = (if durable then claim_next_agent_execution else mem_claim_next)"

definition queue_finish :: "bool \<Rightarrow> time \<Rightarrow> finish_call \<Rightarrow> agent_store \<Rightarrow> (agent_store, agent_job) outcome" where
  "queue_finish durable = (if durable then finish_agent_execution else mem_finish)"

definition queue_trace :: "bool \<Rightarrow> string \<Rightarrow> agent_store \<Rightarrow> (agent_store, agent_trace option) outcome" where
  "queue_trace durable = (if durable then load_agent_execution_trace else mem_trace)"

section \<open>Events\<close>

definition job_payload :: "string \<Rightarrow> agent_job \<Rightarrow> json" where
  "job_payload event_type j =
     JObj ([(''execution_id'', JStr (aj_execution_id j)), (''agent_name'', JStr (aj_agent_name j)),
            (''agent_version'', JStr (aj_agent_version j)), (''status'', JStr (job_status_value (aj_status j))),
            (''attempt_count'', JInt (aj_attempt_count j)), (''max_attempts'', JInt (aj_max_attempts j)),
            (''decision_role'', JStr (role_value (aj_decision_role j))), (''execution_mode'', JStr ''PAPER'')] @
           (case aj_output j of
              None \<Rightarrow> []
            | Some x \<Rightarrow>
                if event_type \<in> {''AGENT_RETRY_SCHEDULED'', ''AGENT_DEAD_LETTERED'', ''AGENT_COMPLETED''}
                then [(''output'', output_json x)] else []))"

definition publish_job ::
  "surroundings \<Rightarrow> time \<Rightarrow> string \<Rightarrow> agent_job \<Rightarrow> string \<Rightarrow> agent_runtime \<Rightarrow> (agent_runtime, unit) outcome" where
  "publish_job E now event_type j event_id rt =
     (if \<not> rt_publishes rt then (rt, Inr ())
      else case publish (sr_transport E) (sr_fails E) now (sr_message_id E event_id) event_id
                  (if event_type = ''AGENT_REQUESTED'' then ''agent.requests.v1'' else ''agent.outputs.v1'') event_type
                  (job_payload event_type j) ''AgentRuntime'' (Some (aj_correlation_id j)) (rt_bus rt) of
             (b, Inl e) \<Rightarrow> (rt\<lparr>rt_bus := b\<rparr>, Inl e)
           | (b, Inr _) \<Rightarrow> (rt\<lparr>rt_bus := b\<rparr>, Inr ()))"

section \<open>Submission\<close>

definition job_of_request ::
  "(json \<Rightarrow> string) \<Rightarrow> time \<Rightarrow> agent_request \<Rightarrow> agent_registration \<Rightarrow> agent_job result" where
  "job_of_request H now q g =
     (let fingerprint = agent_execution_fingerprint H q
      in case ax_idempotency_key q of
           None \<Rightarrow> raise ValueError ''assertion failed''
         | Some key \<Rightarrow>
             validate valid_agent_job
               \<lparr>aj_execution_id = fingerprint, aj_request_fingerprint = fingerprint, aj_idempotency_key = key,
                aj_correlation_id = ai_correlation_id (ax_input q), aj_agent_name = ag_agent_name g,
                aj_agent_version = ag_version g, aj_definition_hash = ag_definition_hash g,
                aj_decision_role = ag_decision_role g, aj_critical = ag_critical g, aj_input = ax_input q,
                aj_status = JobPENDING, aj_attempt_count = 0, aj_max_attempts = ag_max_attempts g, aj_available_at = now,
                aj_leased_by = None, aj_lease_expires_at = None, aj_last_error_code = None, aj_output = None,
                aj_created_at = now, aj_updated_at = now, aj_completed_at = None\<rparr>)"

definition prepare_submission ::
  "(json \<Rightarrow> string) \<Rightarrow> time \<Rightarrow> agent_request \<Rightarrow> agent_registry \<Rightarrow> (agent_job \<times> memory_entry) result" where
  "prepare_submission H now q r =
     bind_result (ensure_payload_has_no_secrets (request_json q)) (\<lambda>_.
     bind_result (get_agent (ai_agent_name (ax_input q)) (Some (ax_agent_version q)) r) (\<lambda>a.
     bind_result (registration_of H a) (\<lambda>g.
     bind_result (job_of_request H now q g) (\<lambda>j.
     bind_result (memory_of H now (aj_execution_id j) 1 MemINPUT (request_json q)) (\<lambda>m. Inr (j, m))))))"

definition submit_execution ::
  "surroundings \<Rightarrow> time \<Rightarrow> agent_request \<Rightarrow> agent_runtime \<Rightarrow> (agent_runtime, agent_job) outcome" where
  "submit_execution E now q rt =
     (case prepare_submission (sr_hash E) now q (rt_registry rt) of
        Inl e \<Rightarrow> (rt, Inl e)
      | Inr (j, m) \<Rightarrow>
          bind_outcome (on_queue (queue_create (rt_durable rt) j m) rt) (\<lambda>rt1 stored.
          bind_outcome (publish_job E now ''AGENT_REQUESTED'' stored (aj_execution_id j) rt1) (\<lambda>rt2 _. (rt2, Inr stored))))"

section \<open>One claimed execution\<close>

definition retry_delay :: "agent_runtime \<Rightarrow> int \<Rightarrow> pyfloat" where
  "retry_delay rt attempts = min (rt_retry_max rt) (rt_retry_base rt * flt (2 ^ nat (max 0 (attempts - 1))))"

definition finish_call_of ::
  "surroundings \<Rightarrow> string \<Rightarrow> agent_turn \<Rightarrow> agent_job \<Rightarrow> agent_output \<Rightarrow> bool \<Rightarrow> agent_runtime \<Rightarrow> finish_call result" where
  "finish_call_of E worker_id t j out retryable rt =
     bind_result (validate valid_agent_attempt
       \<lparr>aa_execution_id = aj_execution_id j, aa_attempt_number = aj_attempt_count j, aa_worker_id = worker_id,
        aa_status = ao_status out, aa_output = out, aa_retryable = retryable, aa_started_at = aj_updated_at j,
        aa_completed_at = tn_done t\<rparr>) (\<lambda>attempt.
     bind_result (memory_of (sr_hash E) (tn_done t) (aj_execution_id j) (aj_attempt_count j * 2) MemATTEMPT (attempt_json attempt))
       (\<lambda>attempt_memory.
     let call = \<lparr>fn_attempt = attempt, fn_attempt_memory = attempt_memory, fn_worker_id = worker_id, fn_output = out,
                 fn_retryable = retryable, fn_retry_delay = retry_delay rt (aj_attempt_count j), fn_terminal_memory = None\<rparr>
     in if retryable \<and> aj_attempt_count j < aj_max_attempts j then Inr call
        else bind_result (memory_of (sr_hash E) (tn_done t) (aj_execution_id j) (aj_attempt_count j * 2 + 1)
               (if successful_output out then MemOUTPUT else MemDEAD_LETTER) (output_json out)) (\<lambda>m.
             Inr (call\<lparr>fn_terminal_memory := Some m\<rparr>))))"

definition finished_event :: "job_status \<Rightarrow> string" where
  "finished_event s =
     (case s of JobRETRY \<Rightarrow> ''AGENT_RETRY_SCHEDULED'' | JobDEAD_LETTER \<Rightarrow> ''AGENT_DEAD_LETTERED'' | _ \<Rightarrow> ''AGENT_COMPLETED'')"

definition record_and_finish ::
  "surroundings \<Rightarrow> string \<Rightarrow> agent_turn \<Rightarrow> agent_job \<Rightarrow> agent_output \<Rightarrow> bool \<Rightarrow> agent_runtime
     \<Rightarrow> (agent_runtime, agent_job) outcome" where
  "record_and_finish E worker_id t j out retryable rt =
     (case finish_call_of E worker_id t j out retryable rt of
        Inl e \<Rightarrow> (rt, Inl e)
      | Inr f \<Rightarrow>
          bind_outcome (on_queue (queue_finish (rt_durable rt) (tn_finish t) f) rt) (\<lambda>rt1 updated.
          bind_outcome (publish_job E (tn_finish t) (finished_event (aj_status updated)) updated
              (aj_execution_id j @ '':'' @ str_int (aj_attempt_count j) @ '':'' @ job_status_value (aj_status updated)) rt1)
            (\<lambda>rt2 _. (rt2, Inr updated))))"

definition runtime_output :: "agent_job \<Rightarrow> string \<Rightarrow> string \<Rightarrow> time \<Rightarrow> agent_output result" where
  "runtime_output j reason warning now =
     validate valid_agent_output
       \<lparr>ao_agent_name = aj_agent_name j, ao_status = AsFAILED, ao_signal = (if aj_critical j then SigBLOCK else SigNEUTRAL),
        ao_confidence = 0, ao_reason = reason, ao_evidence = [], ao_warnings = [warning], ao_latency_ms = 0, ao_created_at = now\<rparr>"

definition refuse_execution ::
  "surroundings \<Rightarrow> string \<Rightarrow> agent_turn \<Rightarrow> agent_job \<Rightarrow> string \<Rightarrow> string \<Rightarrow> agent_runtime \<Rightarrow> (agent_runtime, agent_job) outcome" where
  "refuse_execution E worker_id t j reason warning rt =
     (case runtime_output j reason warning (tn_done t) of
        Inl e \<Rightarrow> (rt, Inl e)
      | Inr out \<Rightarrow> record_and_finish E worker_id t j out False rt)"

text \<open>The output of the agent is replaced when it carries a secret; such an attempt is not retried.\<close>

definition vetted_output :: "agent_job \<Rightarrow> time \<Rightarrow> agent_output \<Rightarrow> (agent_output \<times> bool) result" where
  "vetted_output j now out =
     (case ensure_payload_has_no_secrets (output_json out) of
        Inl e \<Rightarrow>
          bind_result (runtime_output j ''Agent output rejected by payload security policy'' ''AGENT_OUTPUT_REJECTED'' now)
            (\<lambda>x. Inr (x, False))
      | Inr _ \<Rightarrow> Inr (out, \<not> successful_output out))"

definition run_and_finish ::
  "surroundings \<Rightarrow> string \<Rightarrow> agent_turn \<Rightarrow> agent_job \<Rightarrow> base_agent \<Rightarrow> agent_runtime \<Rightarrow> (agent_runtime, agent_job) outcome" where
  "run_and_finish E worker_id t j a rt =
     bind_outcome (publish_job E (tn_claim t) ''AGENT_STARTED'' j
         (aj_execution_id j @ '':'' @ str_int (aj_attempt_count j) @ '':started'') rt) (\<lambda>rt1 _.
     case run_agent (tn_done t) (tn_answer t) (aj_input j) a of
       (a', r) \<Rightarrow>
         let rt2 = rt1\<lparr>rt_registry := (rt_registry rt1)\<lparr>ry_agents := dict_set (aj_agent_name j) a' (ry_agents (rt_registry rt1))\<rparr>\<rparr>
         in (case bind_result r (vetted_output j (tn_done t)) of
               Inl e \<Rightarrow> (rt2, Inl e)
             | Inr (out, retryable) \<Rightarrow> record_and_finish E worker_id t j out retryable rt2))"

definition execute_claimed ::
  "surroundings \<Rightarrow> string \<Rightarrow> agent_turn \<Rightarrow> agent_job \<Rightarrow> agent_runtime \<Rightarrow> (agent_runtime, agent_job) outcome" where
  "execute_claimed E worker_id t j rt =
     (let unavailable = refuse_execution E worker_id t j ''Queued agent version is unavailable'' ''AGENT_VERSION_UNAVAILABLE''
      in case bind_result (get_agent (aj_agent_name j) (Some (aj_agent_version j)) (rt_registry rt)) (\<lambda>a.
                bind_result (registration_of (sr_hash E) a) (\<lambda>g. Inr (a, g))) of
           Inl e \<Rightarrow> if exn_class e = ValidationError then unavailable rt else (rt, Inl e)
         | Inr (a, g) \<Rightarrow>
             if ag_definition_hash g \<noteq> aj_definition_hash j
             then (case refuse_execution E worker_id t j ''Queued agent definition no longer matches registry''
                          ''AGENT_DEFINITION_MISMATCH'' rt of
                     (rt1, Inl e) \<Rightarrow> if exn_class e = ValidationError then unavailable rt1 else (rt1, Inl e)
                   | finished \<Rightarrow> finished)
             else run_and_finish E worker_id t j a rt)"

section \<open>Inline execution\<close>

definition still_leased :: "time \<Rightarrow> agent_job \<Rightarrow> bool" where
  "still_leased now j \<longleftrightarrow>
     aj_status j = JobLEASED \<and> (case aj_lease_expires_at j of None \<Rightarrow> True | Some e \<Rightarrow> now < e)"

fun execution_loop ::
  "surroundings \<Rightarrow> string \<Rightarrow> string \<Rightarrow> agent_turn list \<Rightarrow> agent_runtime \<Rightarrow> (agent_runtime, agent_trace option) outcome" where
  "execution_loop E worker_id i [] rt = (rt, Inr None)"
| "execution_loop E worker_id i (t # ts) rt =
     bind_outcome (on_queue (queue_trace (rt_durable rt) i) rt) (\<lambda>rt1 loaded.
       case loaded of
         None \<Rightarrow> (rt1, raise DatabaseError ''Agent execution disappeared'')
       | Some trace \<Rightarrow>
           let j = tr_job trace
           in if job_terminal (aj_status j) then (rt1, Inr (Some trace))
              else if still_leased (tn_poll t) j \<or> tn_poll t < aj_available_at j then execution_loop E worker_id i ts rt1
              else bind_outcome (on_queue (queue_claim (rt_durable rt1) (tn_claim t) i worker_id (rt_lease_seconds rt1)) rt1)
                     (\<lambda>rt2 claimed.
                       case claimed of
                         None \<Rightarrow> execution_loop E worker_id i ts rt2
                       | Some c \<Rightarrow>
                           bind_outcome (execute_claimed E worker_id t c rt2) (\<lambda>rt3 _. execution_loop E worker_id i ts rt3)))"

definition execute_request ::
  "surroundings \<Rightarrow> string \<Rightarrow> time \<Rightarrow> agent_request \<Rightarrow> agent_turn list \<Rightarrow> agent_runtime
     \<Rightarrow> (agent_runtime, agent_trace option) outcome" where
  "execute_request E worker_id now q ts rt =
     bind_outcome (submit_execution E now q rt) (\<lambda>rt1 j. execution_loop E worker_id (aj_execution_id j) ts rt1)"

text \<open>
  \<^verbatim>\<open>asyncio.gather\<close>: every execution runs, the first exception is raised afterwards. The batch still
  waits when one of its executions does.
\<close>

fun gather_executions ::
  "surroundings \<Rightarrow> (agent_request \<Rightarrow> string \<times> time \<times> agent_turn list) \<Rightarrow> agent_request list \<Rightarrow> agent_runtime
     \<Rightarrow> agent_runtime \<times> agent_trace option result list" where
  "gather_executions E plan [] rt = (rt, [])"
| "gather_executions E plan (q # qs) rt =
     (let (worker_id, now, ts) = plan q; (rt1, r) = execute_request E worker_id now q ts rt;
          (rt2, rs) = gather_executions E plan qs rt1
      in (rt2, r # rs))"

definition trace_output :: "agent_trace \<Rightarrow> agent_output result" where
  "trace_output t =
     (case aj_output (tr_job t) of
        None \<Rightarrow> raise DatabaseError ''Terminal agent execution has no output'' | Some x \<Rightarrow> Inr x)"

definition execute_many ::
  "surroundings \<Rightarrow> (agent_request \<Rightarrow> string \<times> time \<times> agent_turn list) \<Rightarrow> agent_request list \<Rightarrow> agent_runtime
     \<Rightarrow> (agent_runtime, agent_output list option) outcome" where
  "execute_many E plan qs rt =
     (case gather_executions E plan qs rt of
        (rt1, rs) \<Rightarrow>
          (rt1, bind_result (map_result id rs) (\<lambda>traces.
                  if None \<in> set traces then Inr None
                  else bind_result (map_result (trace_output \<circ> the) traces) (\<lambda>outs. Inr (Some outs)))))"

section \<open>The worker\<close>

definition worker_once ::
  "surroundings \<Rightarrow> string \<Rightarrow> int \<Rightarrow> agent_turn \<Rightarrow> agent_runtime \<Rightarrow> (agent_runtime, agent_job option) outcome" where
  "worker_once E worker_id lease_seconds t rt =
     bind_outcome (on_queue (queue_claim_next (rt_durable rt) (tn_claim t) worker_id lease_seconds) rt) (\<lambda>rt1 claimed.
       case claimed of
         None \<Rightarrow> (rt1, Inr None)
       | Some c \<Rightarrow> bind_outcome (execute_claimed E worker_id t c rt1) (\<lambda>rt2 j. (rt2, Inr (Some j))))"

fun worker_run ::
  "surroundings \<Rightarrow> string \<Rightarrow> int \<Rightarrow> agent_turn list \<Rightarrow> agent_runtime \<Rightarrow> (agent_runtime, unit) outcome" where
  "worker_run E worker_id lease_seconds [] rt = (rt, Inr ())"
| "worker_run E worker_id lease_seconds (t # ts) rt =
     (case worker_once E worker_id lease_seconds t rt of
        (rt1, Inl e) \<Rightarrow> if exn_class e = DatabaseError then worker_run E worker_id lease_seconds ts rt1 else (rt1, Inl e)
      | (rt1, Inr _) \<Rightarrow> worker_run E worker_id lease_seconds ts rt1)"

end
