(* ===== verification/Agent_Queue.thy ===== *)
theory Agent_Queue
  imports Agent_Runtime "HOL-Library.Sublist"
begin

text \<open>
  What a queue of agent executions promises, and that both queues keep it.

  The specification is a machine over \<^emph>\<open>evidence\<close>: per execution its job, its attempts and its memory. It has
  three steps: a job is created, leased, or one attempt of it is finished. The interface \<open>agent_queue\<close> states
  that every call is one of these steps or leaves the evidence as it was; it is interpreted for the in-memory
  and for the durable queue. \<open>queue_step\<close> is one call by any process, so a history may interleave several
  runtimes and workers over the durable tables.
\<close>

section \<open>The machine over evidence\<close>

type_synonym execution_entry = "agent_job \<times> agent_attempt list \<times> memory_entry list"
type_synonym evidence = "string \<Rightarrow> execution_entry option"

definition evidence_of :: "agent_store \<Rightarrow> evidence" where
  "evidence_of d i = map_option (\<lambda>j. (j, listed (gx_attempts d) i, listed (gx_memory d) i)) (dict_get (gx_jobs d) i)"

definition entry_ok :: "string \<Rightarrow> execution_entry \<Rightarrow> bool" where
  "entry_ok i x \<longleftrightarrow>
     (case x of (j, as, ms) \<Rightarrow>
        aj_execution_id j = i \<and> valid_agent_job j \<and>
        map aa_attempt_number as = map int [1..<length as + 1] \<and>
        aj_attempt_count j = int (length as) + (if aj_status j = JobLEASED then 1 else 0) \<and>
        list_all (\<lambda>a. aa_execution_id a = i) as \<and> list_all (\<lambda>m. me_execution_id m = i) ms \<and>
        sorted_wrt (<) (map me_sequence ms) \<and> list_all (\<lambda>m. 0 < me_sequence m \<and> me_sequence m < 2 * int (length as) + 2) ms \<and>
        (job_terminal (aj_status j) \<longrightarrow> as \<noteq> [] \<and> aj_output j = Some (aa_output (last as))) \<and>
        (\<not> job_terminal (aj_status j) \<and> aj_status j \<noteq> JobLEASED \<longrightarrow> aj_attempt_count j < aj_max_attempts j))"

lemma entry_okI:
  assumes "aj_execution_id j = i" "valid_agent_job j" "map aa_attempt_number as = map int [1..<length as + 1]"
    "aj_attempt_count j = int (length as) + (if aj_status j = JobLEASED then 1 else 0)"
    "list_all (\<lambda>a. aa_execution_id a = i) as" "list_all (\<lambda>m. me_execution_id m = i) ms" "sorted_wrt (<) (map me_sequence ms)"
    "list_all (\<lambda>m. 0 < me_sequence m \<and> me_sequence m < 2 * int (length as) + 2) ms"
    "job_terminal (aj_status j) \<Longrightarrow> as \<noteq> [] \<and> aj_output j = Some (aa_output (last as))"
    "\<not> job_terminal (aj_status j) \<Longrightarrow> aj_status j \<noteq> JobLEASED \<Longrightarrow> aj_attempt_count j < aj_max_attempts j"
  shows "entry_ok i (j, as, ms)"
  unfolding entry_ok_def prod.case using assms by blast

definition new_entry :: "string \<Rightarrow> agent_job \<Rightarrow> memory_entry \<Rightarrow> bool" where
  "new_entry i j m \<longleftrightarrow>
     aj_execution_id j = i \<and> valid_agent_job j \<and> aj_status j = JobPENDING \<and> aj_attempt_count j = 0 \<and>
     me_execution_id m = i \<and> me_sequence m = 1 \<and> me_entry_type m = MemINPUT"

definition terminal_memory_for :: "finish_call \<Rightarrow> job_status \<Rightarrow> bool" where
  "terminal_memory_for f s \<longleftrightarrow>
     (if job_terminal s
      then \<exists>m. fn_terminal_memory f = Some m \<and> me_execution_id m = aa_execution_id (fn_attempt f) \<and>
             me_entry_type m = (if s = JobCOMPLETED then MemOUTPUT else MemDEAD_LETTER) \<and>
             me_sequence m = aa_attempt_number (fn_attempt f) * 2 + 1
      else fn_terminal_memory f = None)"

definition finish_for :: "agent_job \<Rightarrow> finish_call \<Rightarrow> bool" where
  "finish_for j f \<longleftrightarrow>
     aa_execution_id (fn_attempt f) = aj_execution_id j \<and> aa_attempt_number (fn_attempt f) = aj_attempt_count j \<and>
     finish_evidence_ok f \<and> ao_agent_name (fn_output f) = aj_agent_name j \<and> terminal_memory_for f (finished_status f j)"

inductive evidence_step :: "evidence \<Rightarrow> evidence \<Rightarrow> bool" where
  ev_create [step_intros]:
    "V i = None \<Longrightarrow> new_entry i j m \<Longrightarrow> \<forall>i' x. V i' = Some x \<longrightarrow> job_key (fst x) \<noteq> job_key j \<Longrightarrow>
     evidence_step V (V(i \<mapsto> (j, [], [m])))"
| ev_lease [step_intros]:
    "V i = Some (j, as, ms) \<Longrightarrow> job_claimable now j \<Longrightarrow> length w \<le> 128 \<Longrightarrow>
     evidence_step V (V(i \<mapsto> (claimed_job now w l j, as, ms)))"
| ev_finish [step_intros]:
    "V i = Some (j, as, ms) \<Longrightarrow> aj_status j = JobLEASED \<Longrightarrow> aj_leased_by j = Some (fn_worker_id f) \<Longrightarrow> finish_for j f \<Longrightarrow>
     evidence_step V (V(i \<mapsto> (finished_job durable now f j, as @ [fn_attempt f],
       ms @ fn_attempt_memory f # (case fn_terminal_memory f of None \<Rightarrow> [] | Some m \<Rightarrow> [m]))))"

definition evidence_ok :: "evidence \<Rightarrow> bool" where
  "evidence_ok V \<longleftrightarrow> (\<forall>i x. V i = Some x \<longrightarrow> entry_ok i x) \<and>
     (\<forall>i i' x x'. V i = Some x \<longrightarrow> V i' = Some x' \<longrightarrow> job_key (fst x) = job_key (fst x') \<longrightarrow> i = i')"

text \<open>Evidence only grows: identity is kept, attempts and memory are extended, a terminal execution is final.\<close>

definition entry_extends :: "execution_entry \<Rightarrow> execution_entry \<Rightarrow> bool" where
  "entry_extends x y \<longleftrightarrow>
     (case (x, y) of ((j, as, ms), (j', as', ms')) \<Rightarrow>
        job_key j' = job_key j \<and> aj_request_fingerprint j' = aj_request_fingerprint j \<and> aj_input j' = aj_input j \<and>
        aj_max_attempts j' = aj_max_attempts j \<and> prefix as as' \<and> prefix ms ms' \<and>
        (job_terminal (aj_status j) \<longrightarrow> y = x))"

definition evidence_extends :: "evidence \<Rightarrow> evidence \<Rightarrow> bool" where
  "evidence_extends V V' \<longleftrightarrow> (\<forall>i x. V i = Some x \<longrightarrow> (\<exists>y. V' i = Some y \<and> entry_extends x y))"

lemma job_claimable_status:
  assumes "job_claimable now j"
  shows "\<not> job_terminal (aj_status j)"
  using assms by (auto simp: job_claimable_def lease_ready_def job_lease_expired_def)

lemma entry_ok_create: "new_entry i j m \<Longrightarrow> entry_ok i (j, [], [m])"
  by (auto simp: entry_ok_def new_entry_def valid_agent_job_def)

lemma entry_ok_lease:
  assumes "entry_ok i (j, as, ms)" "job_claimable now j" "length w \<le> 128"
  shows "entry_ok i (claimed_job now w l j, as, ms)"
  using assms
  by (cases "aj_status j"; cases "aj_output j")
    (auto simp: entry_ok_def claimed_job_def valid_agent_job_def job_claimable_def lease_ready_def job_lease_expired_def)

lemma memory_append:
  assumes "sorted_wrt (<) (map me_sequence ms)" "list_all (\<lambda>m. 0 < me_sequence m \<and> me_sequence m < 2 * int n + 2) ms"
    "me_sequence a = 2 * int n + 2" "\<forall>m \<in> set ts. me_sequence m = 2 * int n + 3" "length ts \<le> 1"
  shows "sorted_wrt (<) (map me_sequence (ms @ a # ts))"
    "list_all (\<lambda>m. 0 < me_sequence m \<and> me_sequence m < 2 * int n + 4) (ms @ a # ts)"
proof -
  have ts: "ts = [] \<or> (\<exists>m. ts = [m])" using assms(5) by (cases ts) auto
  then show "sorted_wrt (<) (map me_sequence (ms @ a # ts))"
    using assms by (auto simp: sorted_wrt_append list_all_iff)
  show "list_all (\<lambda>m. 0 < me_sequence m \<and> me_sequence m < 2 * int n + 4) (ms @ a # ts)"
    using ts assms by (auto simp: list_all_iff)
qed

lemma entry_ok_finish:
  assumes "entry_ok i (j, as, ms)" "aj_status j = JobLEASED" "finish_for j f"
  shows "entry_ok i (finished_job durable now f j, as @ [fn_attempt f],
           ms @ fn_attempt_memory f # (case fn_terminal_memory f of None \<Rightarrow> [] | Some m \<Rightarrow> [m]))"
proof -
  have n: "aj_attempt_count j = int (length as) + 1" "map aa_attempt_number as = map int [1..<length as + 1]"
    and m: "list_all (\<lambda>m. 0 < me_sequence m \<and> me_sequence m < 2 * int (length as) + 2) ms" "sorted_wrt (<) (map me_sequence ms)"
    and v: "valid_agent_job j" "aj_execution_id j = i"
    using assms(1,2) by (simp_all add: entry_ok_def)
  have f: "aa_execution_id (fn_attempt f) = i" "aa_attempt_number (fn_attempt f) = int (length as) + 1" "aa_output (fn_attempt f) = fn_output f"
    "me_execution_id (fn_attempt_memory f) = i" "me_sequence (fn_attempt_memory f) = 2 * int (length as) + 2"
    "ao_agent_name (fn_output f) = aj_agent_name j" "terminal_memory_for f (finished_status f j)"
    using assms(3) n(1) v(2) by (auto simp: finish_for_def finish_evidence_ok_def)
  let ?u = "finished_job durable now f j" and ?tm = "case fn_terminal_memory f of None \<Rightarrow> [] | Some m \<Rightarrow> [m]"
  have u: "valid_agent_job ?u" "aj_status ?u = finished_status f j" "aj_execution_id ?u = i" "aj_attempt_count ?u = aj_attempt_count j"
    "aj_output ?u = Some (fn_output f)" "aj_max_attempts ?u = aj_max_attempts j"
    using v assms(2) f(6) by (auto simp: finished_job_def Let_def valid_agent_job_def finished_status_def)
  have tm: "\<forall>m \<in> set ?tm. me_execution_id m = i \<and> me_sequence m = 2 * int (length as) + 3"
    using f(1,2,7) by (auto simp: terminal_memory_for_def split: if_splits option.splits)
  have "length ?tm \<le> 1" by (simp split: option.split)
  from memory_append [OF m(2,1) f(5) _ this] tm
  have seq: "sorted_wrt (<) (map me_sequence (ms @ fn_attempt_memory f # ?tm))"
    and bounds: "list_all (\<lambda>m. 0 < me_sequence m \<and> me_sequence m < 2 * int (length as) + 4) (ms @ fn_attempt_memory f # ?tm)"
    by blast+
  have numbers: "map aa_attempt_number (as @ [fn_attempt f]) = map int [1..<length (as @ [fn_attempt f]) + 1]"
    using n(2) f(2) by simp
  have retry: "\<not> job_terminal (finished_status f j) \<Longrightarrow> aj_attempt_count j < aj_max_attempts j" "finished_status f j \<noteq> JobLEASED"
    by (simp_all add: finished_status_def split: if_splits)
  have ids: "list_all (\<lambda>a. aa_execution_id a = i) as" "list_all (\<lambda>m. me_execution_id m = i) ms"
    using assms(1) by (simp_all add: entry_ok_def)
  have memory_ids: "list_all (\<lambda>m. me_execution_id m = i) (ms @ fn_attempt_memory f # ?tm)"
    using ids(2) f(4) tm unfolding list_all_iff set_append list.set(2) by blast
  show ?thesis
  proof (rule entry_okI)
    show "valid_agent_job ?u" "aj_execution_id ?u = i" using u by simp_all
    show "aj_attempt_count ?u = int (length (as @ [fn_attempt f])) + (if aj_status ?u = JobLEASED then 1 else 0)"
      using u(2,4) n(1) retry(2) by simp
    show "list_all (\<lambda>a. aa_execution_id a = i) (as @ [fn_attempt f])" using ids(1) f(1) by simp
    show "list_all (\<lambda>m. 0 < me_sequence m \<and> me_sequence m < 2 * int (length (as @ [fn_attempt f])) + 2) (ms @ fn_attempt_memory f # ?tm)"
      using bounds by (simp add: algebra_simps)
    show "as @ [fn_attempt f] \<noteq> [] \<and> aj_output ?u = Some (aa_output (last (as @ [fn_attempt f])))" using u(5) f(3) by simp
    show "aj_attempt_count ?u < aj_max_attempts ?u" if "\<not> job_terminal (aj_status ?u)" using that u(2,4,6) retry(1) by simp
  qed (rule numbers memory_ids seq)+
qed

lemma evidence_ok_update:
  assumes "evidence_ok V" "entry_ok i y" "\<And>i' x. i' \<noteq> i \<Longrightarrow> V i' = Some x \<Longrightarrow> job_key (fst x) \<noteq> job_key (fst y)"
  shows "evidence_ok (V(i \<mapsto> y))"
proof -
  have "k = k'" if k: "(V(i \<mapsto> y)) k = Some x" "(V(i \<mapsto> y)) k' = Some x'" "job_key (fst x) = job_key (fst x')" for k k' x x'
  proof (cases "k = i \<or> k' = i")
    case True
    with k assms(3) [of k x] assms(3) [of k' x'] show ?thesis by (auto split: if_splits)
  next
    case False
    then have "V k = Some x" "V k' = Some x'" using k by simp_all
    with k(3) assms(1) show ?thesis unfolding evidence_ok_def by blast
  qed
  moreover have "entry_ok k x" if "(V(i \<mapsto> y)) k = Some x" for k x
    using that assms(1,2) unfolding evidence_ok_def by (metis fun_upd_apply option.inject)
  ultimately show ?thesis unfolding evidence_ok_def by blast
qed

lemma evidence_step_ok:
  assumes "evidence_step V V'" "evidence_ok V"
  shows "evidence_ok V'"
  using assms
proof cases
  case (ev_create i j m)
  have "job_key (fst x) \<noteq> job_key j" if "V i' = Some x" for i' x using that ev_create(4) by blast
  then show ?thesis unfolding ev_create(1) by (intro evidence_ok_update assms(2) entry_ok_create ev_create(3)) simp
next
  case (ev_lease i j as ms now w l)
  have key: "job_key (claimed_job now w l j) = job_key j" by (simp add: claimed_job_def job_key_def)
  have "entry_ok i (claimed_job now w l j, as, ms)" using ev_lease assms(2) entry_ok_lease by (auto simp: evidence_ok_def)
  moreover have "job_key (fst x) \<noteq> job_key j" if "i' \<noteq> i" "V i' = Some x" for i' x
    using that ev_lease(2) assms(2) by (metis evidence_ok_def fst_conv)
  ultimately show ?thesis unfolding ev_lease(1) by (intro evidence_ok_update assms(2)) (simp_all add: key)
next
  case (ev_finish i j as ms f durable now)
  have key: "job_key (finished_job durable now f j) = job_key j" by (simp add: finished_job_def Let_def job_key_def)
  have "entry_ok i (j, as, ms)" using ev_finish(2) assms(2) by (auto simp: evidence_ok_def)
  then have "entry_ok i (finished_job durable now f j, as @ [fn_attempt f],
      ms @ fn_attempt_memory f # (case fn_terminal_memory f of None \<Rightarrow> [] | Some m \<Rightarrow> [m]))"
    using ev_finish entry_ok_finish by blast
  moreover have "job_key (fst x) \<noteq> job_key j" if "i' \<noteq> i" "V i' = Some x" for i' x
    using that ev_finish(2) assms(2) by (metis evidence_ok_def fst_conv)
  ultimately show ?thesis unfolding ev_finish(1) by (intro evidence_ok_update assms(2)) (simp_all add: key)
qed

lemma entry_extends_refl [simp]: "entry_extends x x"
  by (simp add: entry_extends_def split: prod.splits)

lemma entry_extends_trans: "entry_extends x y \<Longrightarrow> entry_extends y z \<Longrightarrow> entry_extends x z"
  by (auto simp: entry_extends_def split: prod.splits intro: prefix_order.trans)

lemma evidence_extends_refl [simp]: "evidence_extends V V"
  by (simp add: evidence_extends_def)

lemma evidence_extends_trans: "evidence_extends V W \<Longrightarrow> evidence_extends W X \<Longrightarrow> evidence_extends V X"
  unfolding evidence_extends_def by (meson entry_extends_trans)

lemma evidence_extends_update: "(\<And>x. V i = Some x \<Longrightarrow> entry_extends x y) \<Longrightarrow> evidence_extends V (V(i \<mapsto> y))"
  unfolding evidence_extends_def by (metis entry_extends_refl fun_upd_apply)

lemma entry_extends_job:
  assumes "job_key u = job_key j" "aj_request_fingerprint u = aj_request_fingerprint j" "aj_input u = aj_input j"
    "aj_max_attempts u = aj_max_attempts j" "\<not> job_terminal (aj_status j)"
  shows "entry_extends (j, as, ms) (u, as @ as', ms @ ms')"
  using assms by (simp add: entry_extends_def)

lemma evidence_step_extends:
  assumes "evidence_step V V'"
  shows "evidence_extends V V'"
  using assms
proof cases
  case (ev_create i j m)
  then show ?thesis by (auto intro!: evidence_extends_update)
next
  case (ev_lease i j as ms now w l)
  have "entry_extends (j, as, ms) (claimed_job now w l j, as @ [], ms @ [])"
    using job_claimable_status [OF ev_lease(3)] by (intro entry_extends_job) (simp_all add: claimed_job_def job_key_def)
  with ev_lease show ?thesis by (auto intro: evidence_extends_update)
next
  case (ev_finish i j as ms f durable now)
  then show ?thesis
    by (auto intro!: evidence_extends_update entry_extends_job simp: finished_job_def job_key_def Let_def)
qed

text \<open>A sound execution can be read back: its trace satisfies the schema.\<close>

lemma entry_ok_trace:
  assumes "evidence_of d i = Some x" "entry_ok i x"
  obtains t where "trace_of i d = Inr (Some t)" "x = (tr_job t, tr_attempts t, tr_memory t)" "valid_agent_trace t"
proof -
  obtain j as ms where x: "x = (j, as, ms)" "dict_get (gx_jobs d) i = Some j" "as = listed (gx_attempts d) i" "ms = listed (gx_memory d) i"
    using assms(1) by (auto simp: evidence_of_def)
  let ?t = "\<lparr>tr_job = j, tr_attempts = as, tr_memory = ms\<rparr>"
  have "valid_agent_trace ?t" using assms(2) x by (auto simp: entry_ok_def valid_agent_trace_def)
  with x show ?thesis using that [of ?t] by (simp add: trace_of_def bind_result_def validate_def)
qed

section \<open>The interface and its two providers\<close>

definition key_index_ok :: "agent_store \<Rightarrow> bool" where
  "key_index_ok d \<longleftrightarrow>
     (\<forall>k i. dict_get (gx_idempotency d) k = Some i \<longleftrightarrow> (\<exists>j. dict_get (gx_jobs d) i = Some j \<and> job_key j = k))"

definition queue_wf :: "bool \<Rightarrow> agent_store \<Rightarrow> bool" where
  "queue_wf durable d \<longleftrightarrow>
     dict_wf (gx_jobs d) \<and> evidence_ok (evidence_of d) \<and>
     (\<forall>i. dict_get (gx_jobs d) i = None \<longrightarrow> listed (gx_attempts d) i = [] \<and> listed (gx_memory d) i = []) \<and>
     (durable \<or> key_index_ok d)"

text \<open>What the caller guarantees: identities do not collide, and a finish belongs to the job that was claimed.\<close>

definition same_identity :: "agent_store \<Rightarrow> agent_job \<Rightarrow> bool" where
  "same_identity d j \<longleftrightarrow> (\<forall>x. dict_get (gx_jobs d) (aj_execution_id j) = Some x \<longrightarrow> job_key x = job_key j)"

definition snapshot_of :: "agent_store \<Rightarrow> agent_job \<Rightarrow> bool" where
  "snapshot_of d c \<longleftrightarrow>
     (\<forall>j. dict_get (gx_jobs d) (aj_execution_id c) = Some j \<longrightarrow>
        aj_max_attempts j = aj_max_attempts c \<and> aj_agent_name j = aj_agent_name c)"

definition finished_entry :: "bool \<Rightarrow> time \<Rightarrow> finish_call \<Rightarrow> execution_entry \<Rightarrow> execution_entry" where
  "finished_entry durable now f = (\<lambda>(j, as, ms).
     (finished_job durable now f j, as @ [fn_attempt f],
      ms @ fn_attempt_memory f # (case fn_terminal_memory f of None \<Rightarrow> [] | Some m \<Rightarrow> [m])))"

definition leases :: "time \<Rightarrow> string \<Rightarrow> int \<Rightarrow> agent_job option \<Rightarrow> evidence \<Rightarrow> evidence \<Rightarrow> bool" where
  "leases now w l claimed V V' \<longleftrightarrow>
     (case claimed of
        None \<Rightarrow> V' = V
      | Some c \<Rightarrow>
          (\<exists>i j as ms. V i = Some (j, as, ms) \<and> aj_execution_id c = i \<and> job_claimable now j \<and> c = claimed_job now w l j \<and>
             V' = V(i \<mapsto> (c, as, ms))))"

locale agent_queue =
  fixes durable :: bool
    and create :: "agent_job \<Rightarrow> memory_entry \<Rightarrow> agent_store \<Rightarrow> (agent_store, agent_job) outcome"
    and claim :: "time \<Rightarrow> string \<Rightarrow> string \<Rightarrow> int \<Rightarrow> agent_store \<Rightarrow> (agent_store, agent_job option) outcome"
    and claim_next :: "time \<Rightarrow> string \<Rightarrow> int \<Rightarrow> agent_store \<Rightarrow> (agent_store, agent_job option) outcome"
    and finish :: "time \<Rightarrow> finish_call \<Rightarrow> agent_store \<Rightarrow> (agent_store, agent_job) outcome"
  assumes create_law:
    "queue_wf durable d \<Longrightarrow> new_entry (aj_execution_id j) j m \<Longrightarrow> same_identity d j \<Longrightarrow> create j m d = (d', r) \<Longrightarrow>
     queue_wf durable d' \<and>
     (case r of
        Inl e \<Rightarrow> evidence_of d' = evidence_of d
      | Inr x \<Rightarrow>
          aj_request_fingerprint x = aj_request_fingerprint j \<and> dict_get (gx_jobs d') (aj_execution_id x) = Some x \<and>
          (evidence_of d' = evidence_of d \<or>
           x = j \<and> evidence_of d' = (evidence_of d)(aj_execution_id j \<mapsto> (j, [], [m])) \<and> evidence_step (evidence_of d) (evidence_of d')))"
  and claim_law:
    "queue_wf durable d \<Longrightarrow> length w \<le> 128 \<Longrightarrow> claim now i w l d = (d', q) \<Longrightarrow>
     queue_wf durable d' \<and>
     (case q of
        Inl e \<Rightarrow> evidence_of d' = evidence_of d
      | Inr c \<Rightarrow> leases now w l c (evidence_of d) (evidence_of d') \<and> (\<forall>x. c = Some x \<longrightarrow> aj_execution_id x = i))"
  and claim_next_law:
    "queue_wf durable d \<Longrightarrow> length w \<le> 128 \<Longrightarrow> claim_next now w l d = (d', q) \<Longrightarrow>
     queue_wf durable d' \<and>
     (case q of Inl e \<Rightarrow> evidence_of d' = evidence_of d | Inr c \<Rightarrow> leases now w l c (evidence_of d) (evidence_of d'))"
  and finish_law:
    "queue_wf durable d \<Longrightarrow> finish_for c f \<Longrightarrow> snapshot_of d c \<Longrightarrow> finish now f d = (d', r) \<Longrightarrow>
     queue_wf durable d' \<and>
     (case r of
        Inl e \<Rightarrow> evidence_of d' = evidence_of d
      | Inr u \<Rightarrow>
          (\<exists>j as ms. evidence_of d (aj_execution_id c) = Some (j, as, ms) \<and> aj_status j = JobLEASED \<and>
             aj_leased_by j = Some (fn_worker_id f) \<and> finish_for j f \<and> u = finished_job durable now f j \<and>
             evidence_of d' = (evidence_of d)(aj_execution_id c \<mapsto> finished_entry durable now f (j, as, ms))))"
begin

lemma create_steps:
  assumes "queue_wf durable d" "new_entry (aj_execution_id j) j m" "same_identity d j" "create j m d = (d', r)"
  shows "evidence_step\<^sup>=\<^sup>= (evidence_of d) (evidence_of d')"
  using create_law [OF assms] by (cases r) auto

lemma leases_step: "leases now w l c V V' \<Longrightarrow> length w \<le> 128 \<Longrightarrow> evidence_step\<^sup>=\<^sup>= V V'"
  by (cases c) (auto simp: leases_def intro: ev_lease)

lemma claim_steps:
  assumes "queue_wf durable d" "length w \<le> 128" "claim now i w l d = (d', r)"
  shows "evidence_step\<^sup>=\<^sup>= (evidence_of d) (evidence_of d')"
  using claim_law [OF assms] leases_step [of now w l _ "evidence_of d" "evidence_of d'"] assms(2) by (cases r) auto

lemma claim_next_steps:
  assumes "queue_wf durable d" "length w \<le> 128" "claim_next now w l d = (d', r)"
  shows "evidence_step\<^sup>=\<^sup>= (evidence_of d) (evidence_of d')"
  using claim_next_law [OF assms] leases_step [of now w l _ "evidence_of d" "evidence_of d'"] assms(2) by (cases r) auto

lemma finish_steps:
  assumes "queue_wf durable d" "finish_for c f" "snapshot_of d c" "finish now f d = (d', r)"
  shows "evidence_step\<^sup>=\<^sup>= (evidence_of d) (evidence_of d')"
proof (cases r)
  case (Inr u)
  then obtain j as ms where "evidence_of d (aj_execution_id c) = Some (j, as, ms)" "aj_status j = JobLEASED"
    "aj_leased_by j = Some (fn_worker_id f)" "finish_for j f"
    "evidence_of d' = (evidence_of d)(aj_execution_id c \<mapsto> finished_entry durable now f (j, as, ms))"
    using finish_law [OF assms] by auto
  then show ?thesis by (auto simp: finished_entry_def intro!: ev_finish)
qed (use finish_law [OF assms] in auto)

end

section \<open>Both queues keep the interface\<close>

lemma listed_append [simp]: "listed (append_listed i xs d) i' = (if i' = i then listed d i @ xs else listed d i')"
  by (simp add: append_listed_def listed_def dict_simps)

lemma listed_set [simp]: "listed (dict_set i xs d) i' = (if i' = i then xs else listed d i')"
  by (simp add: listed_def dict_simps)

lemma evidence_of_put:
  "evidence_of (d\<lparr>gx_jobs := dict_set i c (gx_jobs d)\<rparr>) =
     (evidence_of d)(i \<mapsto> (c, listed (gx_attempts d) i, listed (gx_memory d) i))"
  by (rule ext) (simp add: evidence_of_def dict_simps)

lemma evidence_of_record_finish:
  "evidence_of (record_finish (finished_job durable now f j) f d) =
     (evidence_of d)(aa_execution_id (fn_attempt f) \<mapsto>
        finished_entry durable now f (j, listed (gx_attempts d) (aa_execution_id (fn_attempt f)), listed (gx_memory d) (aa_execution_id (fn_attempt f))))"
  by (rule ext) (simp add: evidence_of_def record_finish_def finished_entry_def dict_simps)

lemma evidence_of_stored:
  "dict_get (gx_jobs d) i = Some j \<longleftrightarrow> evidence_of d i = Some (j, listed (gx_attempts d) i, listed (gx_memory d) i)"
  by (auto simp: evidence_of_def)

lemma queue_entry:
  assumes "queue_wf durable d" "dict_get (gx_jobs d) i = Some j"
  shows "entry_ok i (j, listed (gx_attempts d) i, listed (gx_memory d) i)"
  using assms unfolding queue_wf_def evidence_ok_def evidence_of_stored by blast

lemma queue_identity: "queue_wf durable d \<Longrightarrow> dict_get (gx_jobs d) i = Some j \<Longrightarrow> aj_execution_id j = i"
  by (drule (1) queue_entry) (simp add: entry_ok_def)

lemma key_index_update:
  assumes "key_index_ok d" "dict_get (gx_jobs d) i = Some j" "job_key c = job_key j" "gx_idempotency d' = gx_idempotency d"
    "gx_jobs d' = dict_set i c (gx_jobs d)"
  shows "key_index_ok d'"
  using assms unfolding key_index_ok_def by (auto simp: dict_simps)

text \<open>A store changed at one known execution by a step of the machine stays well formed.\<close>

lemma queue_wf_change:
  assumes "queue_wf durable d" "dict_get (gx_jobs d) i = Some j" "job_key c = job_key j" "gx_jobs d' = dict_set i c (gx_jobs d)"
    "gx_idempotency d' = gx_idempotency d" "evidence_step (evidence_of d) (evidence_of d')"
    "\<And>k. k \<noteq> i \<Longrightarrow> listed (gx_attempts d') k = listed (gx_attempts d) k \<and> listed (gx_memory d') k = listed (gx_memory d) k"
  shows "queue_wf durable d'"
  unfolding queue_wf_def
proof (intro conjI)
  show "dict_wf (gx_jobs d')" using assms(1,4) by (simp add: queue_wf_def)
  show "evidence_ok (evidence_of d')" using assms(1,6) evidence_step_ok by (auto simp: queue_wf_def)
  show "durable \<or> key_index_ok d'" using assms(1-5) key_index_update by (auto simp: queue_wf_def)
  show "\<forall>k. dict_get (gx_jobs d') k = None \<longrightarrow> listed (gx_attempts d') k = [] \<and> listed (gx_memory d') k = []"
    using assms(1,4,7) by (auto simp: queue_wf_def dict_simps split: if_splits)
qed

lemma queue_wf_faults [simp]: "queue_wf durable (d\<lparr>fs_faults := x\<rparr>) = queue_wf durable d"
  by (simp add: queue_wf_def key_index_ok_def evidence_of_def [abs_def])

lemma evidence_of_faults [simp]: "evidence_of (d\<lparr>fs_faults := x\<rparr>) = evidence_of d"
  by (simp add: evidence_of_def [abs_def])

lemma job_key_claimed [simp]: "job_key (claimed_job now w l j) = job_key j"
  by (simp add: claimed_job_def job_key_def)

lemma job_key_finished [simp]: "job_key (finished_job durable now f j) = job_key j"
  by (simp add: finished_job_def job_key_def Let_def)

lemma claimed_identity [simp]: "aj_execution_id (claimed_job now w l j) = aj_execution_id j"
  by (simp add: claimed_job_def)

lemma lease_stored:
  assumes "queue_wf durable d" "dict_get (gx_jobs d) i = Some j" "job_claimable now j" "length w \<le> 128"
    "d' = d\<lparr>gx_jobs := dict_set i (claimed_job now w l j) (gx_jobs d)\<rparr>"
  shows "queue_wf durable d' \<and> leases now w l (Some (claimed_job now w l j)) (evidence_of d) (evidence_of d')"
proof
  have i: "aj_execution_id j = i" using queue_identity assms(1,2) by blast
  have V: "evidence_of d i = Some (j, listed (gx_attempts d) i, listed (gx_memory d) i)" using assms(2) by (simp add: evidence_of_stored)
  with i assms(3,5) show "leases now w l (Some (claimed_job now w l j)) (evidence_of d) (evidence_of d')"
    by (auto simp: leases_def evidence_of_put)
  have "evidence_step (evidence_of d) (evidence_of d')"
    using ev_lease [of "evidence_of d", OF V assms(3,4)] by (simp add: assms(5) evidence_of_put)
  then show "queue_wf durable d'"
    by (rule queue_wf_change [OF assms(1,2), of "claimed_job now w l j", rotated 3]) (simp_all add: assms(5))
qed

lemma finish_stored:
  assumes "queue_wf durable d" "finish_for c f" "snapshot_of d c" "dict_get (gx_jobs d) (aj_execution_id c) = Some j"
    "aj_status j = JobLEASED" "aj_leased_by j = Some (fn_worker_id f)"
    "aa_attempt_number (fn_attempt f) = int (length (listed (gx_attempts d) (aj_execution_id c))) + 1"
    "d' = (record_finish (finished_job durable now f j) f d)\<lparr>gx_outputs := outs\<rparr>"
  shows "queue_wf durable d' \<and>
    (\<exists>j as ms. evidence_of d (aj_execution_id c) = Some (j, as, ms) \<and> aj_status j = JobLEASED \<and>
       aj_leased_by j = Some (fn_worker_id f) \<and> finish_for j f \<and> finished_job durable now f j = finished_job durable now f j \<and>
       evidence_of d' = (evidence_of d)(aj_execution_id c \<mapsto> finished_entry durable now f (j, as, ms)))"
proof -
  let ?i = "aj_execution_id c"
  have i: "aa_execution_id (fn_attempt f) = ?i" "aj_execution_id j = ?i"
    using assms(2) queue_identity [OF assms(1,4)] by (simp_all add: finish_for_def)
  have "aj_attempt_count j = aa_attempt_number (fn_attempt f)"
    using queue_entry [OF assms(1,4)] assms(5,7) by (simp add: entry_ok_def)
  with assms(2,3,4) i have j: "finish_for j f"
    by (auto simp: finish_for_def snapshot_of_def finished_status_def)
  have V: "evidence_of d ?i = Some (j, listed (gx_attempts d) ?i, listed (gx_memory d) ?i)" using assms(4) by (simp add: evidence_of_stored)
  have "evidence_of d' = evidence_of (record_finish (finished_job durable now f j) f d)"
    by (simp add: assms(8) evidence_of_def [abs_def])
  then have V': "evidence_of d' = (evidence_of d)(?i \<mapsto> finished_entry durable now f (j, listed (gx_attempts d) ?i, listed (gx_memory d) ?i))"
    by (simp only: evidence_of_record_finish i)
  have "evidence_step (evidence_of d) (evidence_of d')"
    unfolding V' finished_entry_def prod.case using ev_finish [of "evidence_of d", OF V assms(5,6) j] .
  then have "queue_wf durable d'"
    by (rule queue_wf_change [OF assms(1,4), of "finished_job durable now f j", rotated 3]) (simp_all add: assms(8) record_finish_def i)
  with V V' assms(5,6) j show ?thesis by blast
qed

lemma create_stored:
  assumes "queue_wf durable d" "new_entry (aj_execution_id j) j m" "dict_get (gx_jobs d) (aj_execution_id j) = None"
    "\<And>i x. dict_get (gx_jobs d) i = Some x \<Longrightarrow> job_key x \<noteq> job_key j"
    "gx_jobs d' = dict_set (aj_execution_id j) j (gx_jobs d)"
    "\<And>k. listed (gx_attempts d') k = listed (gx_attempts d) k"
    "\<And>k. listed (gx_memory d') k = (if k = aj_execution_id j then [m] else listed (gx_memory d) k)"
    "durable \<or> gx_idempotency d' = dict_set (job_key j) (aj_execution_id j) (gx_idempotency d)"
  shows "queue_wf durable d' \<and> dict_get (gx_jobs d') (aj_execution_id j) = Some j \<and>
    evidence_of d' = (evidence_of d)(aj_execution_id j \<mapsto> (j, [], [m])) \<and> evidence_step (evidence_of d) (evidence_of d')"
proof -
  let ?i = "aj_execution_id j"
  have none: "listed (gx_attempts d) ?i = []" using assms(1,3) by (simp add: queue_wf_def)
  have V: "evidence_of d' = (evidence_of d)(?i \<mapsto> (j, [], [m]))"
    by (rule ext) (simp add: evidence_of_def assms(5-7) none dict_simps)
  have step: "evidence_step (evidence_of d) (evidence_of d')"
    unfolding V using assms(2-4) by (intro ev_create) (auto simp: evidence_of_def)
  have index: "durable \<or> key_index_ok d'"
  proof (cases durable)
    case False
    then have index: "key_index_ok d" and new: "gx_idempotency d' = dict_set (job_key j) ?i (gx_idempotency d)"
      using assms(1,8) by (simp_all add: queue_wf_def)
    have fresh: "dict_get (gx_idempotency d) (job_key j) = None"
      using index assms(4) by (metis key_index_ok_def not_None_eq)
    show ?thesis
      using index assms(3,4) fresh unfolding key_index_ok_def new assms(5)
      by (auto simp: dict_simps)
  qed simp
  have "queue_wf durable d'"
    unfolding queue_wf_def
    using assms(1) evidence_step_ok [OF step] index
    by (auto simp: queue_wf_def assms(5-7) dict_simps split: if_splits)
  moreover have "dict_get (gx_jobs d') ?i = Some j" by (simp add: assms(5) dict_simps)
  ultimately show ?thesis using V step by blast
qed

lemma leases_none [simp]: "leases now w l None V V"
  by (simp add: leases_def)

lemma mem_claim_law:
  assumes "queue_wf False d" "length w \<le> 128" "mem_claim now i w l d = (d', r)"
  shows "queue_wf False d' \<and>
    (case r of
       Inl e \<Rightarrow> evidence_of d' = evidence_of d
     | Inr c \<Rightarrow> leases now w l c (evidence_of d) (evidence_of d') \<and> (\<forall>x. c = Some x \<longrightarrow> aj_execution_id x = i))"
proof (cases "\<exists>j. dict_get (gx_jobs d) i = Some j \<and> job_claimable now j")
  case True
  then obtain j where j: "dict_get (gx_jobs d) i = Some j" "job_claimable now j" by blast
  then have "d' = d\<lparr>gx_jobs := dict_set i (claimed_job now w l j) (gx_jobs d)\<rparr>" "r = Inr (Some (claimed_job now w l j))"
    using assms(3) by (auto simp: mem_claim_def job_claimable_def lease_ready_def job_lease_expired_def Let_def split: if_splits)
  with lease_stored [OF assms(1) j assms(2)] queue_identity [OF assms(1) j(1)] show ?thesis by simp
next
  case False
  then have "d' = d" "r = Inr None"
    using assms(3) by (auto simp: mem_claim_def job_claimable_def Let_def split: option.splits if_splits)
  with assms(1) show ?thesis by simp
qed

lemma mem_claim_first_law:
  assumes "queue_wf False d" "length w \<le> 128" "mem_claim_first now js w l d = (d', r)"
  shows "queue_wf False d' \<and>
    (case r of Inl e \<Rightarrow> evidence_of d' = evidence_of d | Inr c \<Rightarrow> leases now w l c (evidence_of d) (evidence_of d'))"
  using assms
proof (induction js arbitrary: d)
  case (Cons j js)
  obtain d1 q where q: "mem_claim now (aj_execution_id j) w l d = (d1, q)" by force
  note law = mem_claim_law [OF Cons.prems(1,2) q]
  show ?case
  proof (cases q)
    case (Inr c)
    with law have c: "queue_wf False d1" "leases now w l c (evidence_of d) (evidence_of d1)" by simp_all
    show ?thesis
    proof (cases c)
      case None
      with c(2) have "evidence_of d1 = evidence_of d" by (simp add: leases_def)
      moreover have "mem_claim_first now js w l d1 = (d', r)" using Cons.prems(3) q Inr None by (simp add: bind_outcome_def)
      ultimately show ?thesis using Cons.IH [OF c(1) Cons.prems(2)] by (auto split: sum.splits)
    qed (use Cons.prems(3) q Inr c in \<open>auto simp: bind_outcome_def\<close>)
  qed (use Cons.prems(3) q law in \<open>auto simp: bind_outcome_def\<close>)
qed auto

interpretation mem: agent_queue False mem_create mem_claim mem_claim_next mem_finish
proof (unfold_locales, goal_cases)
  case (1 d j m d' r)
  show ?case
  proof (cases "dict_get (gx_idempotency d) (job_key j)")
    case None
    have other: "job_key x \<noteq> job_key j" if "dict_get (gx_jobs d) i = Some x" for i x
      using None that 1(1) by (metis key_index_ok_def option.distinct(1) queue_wf_def)
    then have new: "dict_get (gx_jobs d) (aj_execution_id j) = None"
      using 1(3) by (auto simp: same_identity_def)
    have "d' = (put_job j d)\<lparr>gx_idempotency := dict_set (job_key j) (aj_execution_id j) (gx_idempotency d),
        gx_attempts := dict_set (aj_execution_id j) [] (gx_attempts d), gx_memory := dict_set (aj_execution_id j) [m] (gx_memory d)\<rparr>"
      and r: "r = Inr j"
      using 1(4) None by (auto simp: mem_create_def)
    moreover have "listed (gx_attempts d) (aj_execution_id j) = []" using 1(1) new by (simp add: queue_wf_def)
    ultimately have "queue_wf False d' \<and> dict_get (gx_jobs d') (aj_execution_id j) = Some j \<and>
        evidence_of d' = (evidence_of d)(aj_execution_id j \<mapsto> (j, [], [m])) \<and> evidence_step (evidence_of d) (evidence_of d')"
      by (intro create_stored [OF 1(1,2) new other]) (auto simp: put_job_def)
    then show ?thesis unfolding r sum.case by blast
  next
    case (Some i)
    then obtain x where x: "dict_get (gx_jobs d) i = Some x" using 1(1) by (metis key_index_ok_def queue_wf_def)
    with Some 1(4) queue_identity [OF 1(1) x] 1(1) show ?thesis by (auto simp: mem_create_def)
  qed
next
  case (2 d w now i l d' q)
  then show ?case by (rule mem_claim_law)
next
  case (3 d w now l d' q)
  then show ?case unfolding mem_claim_next_def by (rule mem_claim_first_law)
next
  case (4 d c f now d' r)
  have i: "aa_execution_id (fn_attempt f) = aj_execution_id c" using 4(2) by (simp add: finish_for_def)
  show ?case
  proof (cases r)
    case (Inl e)
    with 4(1,4) show ?thesis by (auto simp: mem_finish_def Let_def split: option.splits if_splits)
  next
    case (Inr u)
    then obtain j where j: "dict_get (gx_jobs d) (aj_execution_id c) = Some j" "aj_status j = JobLEASED"
      "aj_leased_by j = Some (fn_worker_id f)"
      "aa_attempt_number (fn_attempt f) = int (length (listed (gx_attempts d) (aj_execution_id c))) + 1"
      "u = finished_job False now f j" "d' = record_finish u f d"
      using 4(4) by (auto simp: mem_finish_def Let_def i split: option.splits if_splits)
    have "d' = (record_finish (finished_job False now f j) f d)\<lparr>gx_outputs := gx_outputs d'\<rparr>" using j(5,6) by simp
    from finish_stored [OF 4(1-3) j(1-4) this] j(1,5) Inr show ?thesis by (auto simp: evidence_of_stored)
  qed
qed

lemma db_error_Inr [simp]: "db_error label r = Inr x \<longleftrightarrow> r = Inr x"
  by (auto simp: db_error_def split: sum.splits)

lemma find_queued:
  assumes "List.find P (queue_order d) = Some j" "P j \<Longrightarrow> j \<in> set (dict_values (gx_jobs d)) \<Longrightarrow> thesis"
  shows thesis
proof -
  obtain n where "n < length (queue_order d)" "P (queue_order d ! n)" "j = queue_order d ! n" using assms(1) by (auto simp: find_Some_iff)
  then have "P j" "j \<in> set (queue_order d)" by simp_all
  then show ?thesis using assms(2) by (simp add: queue_order_def)
qed

lemma claim_where_law:
  assumes "queue_wf True d" "length w \<le> 128" "claim_where now target w l d = (d', r)"
  shows "queue_wf True d' \<and>
    (case r of
       Inl e \<Rightarrow> evidence_of d' = evidence_of d
     | Inr c \<Rightarrow> leases now w l c (evidence_of d) (evidence_of d') \<and> (\<forall>x i. c = Some x \<longrightarrow> target = Some i \<longrightarrow> aj_execution_id x = i))"
proof (cases "l < 1")
  case False
  then have "fs_transaction (\<lambda>d.
        case List.find (\<lambda>j. job_claimable now j \<and> (target = None \<or> target = Some (aj_execution_id j))) (queue_order d) of
          None \<Rightarrow> Inr (d, None)
        | Some j \<Rightarrow>
            db_error ''Failed to claim agent execution: ''
              (bind_result (validate valid_agent_job (claimed_job now w l j)) (\<lambda>c. Inr (put_job c d, Some c)))) d = (d', r)"
    using assms(3) by (simp add: claim_where_def)
  then show ?thesis
  proof (cases rule: fs_transaction_cases)
    case (committed c)
    let ?d = "d\<lparr>fs_faults := tl (fs_faults d)\<rparr>"
    have wf: "queue_wf True ?d" using assms(1) by simp
    show ?thesis
    proof (cases "List.find (\<lambda>j. job_claimable now j \<and> (target = None \<or> target = Some (aj_execution_id j))) (queue_order ?d)")
      case None
      with committed(1) have "c = None" "d' = ?d" by simp_all
      with committed(2) wf show ?thesis by (simp only: sum.case) simp
    next
      case (Some j)
      then obtain j: "job_claimable now j" "target = None \<or> target = Some (aj_execution_id j)" "j \<in> set (dict_values (gx_jobs ?d))"
        by (rule find_queued) simp
      then obtain i where i: "dict_get (gx_jobs ?d) i = Some j"
        using wf by (auto simp: queue_wf_def set_dict_values ran_def)
      have id: "aj_execution_id j = i" using queue_identity [OF wf i] .
      have "c = Some (claimed_job now w l j)" "d' = ?d\<lparr>gx_jobs := dict_set i (claimed_job now w l j) (gx_jobs ?d)\<rparr>"
        using committed(1) Some id by (auto simp: bind_result_Inr put_job_def)
      with lease_stored [OF wf i j(1) assms(2) this(2)] committed(2) j(2) id show ?thesis by (simp only: sum.case) auto
    qed
  qed (use assms(1) in simp)
qed (use assms in \<open>auto simp: claim_where_def\<close>)

interpretation durable: agent_queue True create_agent_execution claim_agent_execution claim_next_agent_execution finish_agent_execution
proof (unfold_locales, goal_cases)
  case (1 d j m d' r)
  let ?d = "d\<lparr>fs_faults := tl (fs_faults d)\<rparr>"
  have wf: "queue_wf True ?d" using 1(1) by simp
  from 1(2) have "me_execution_id m = aj_execution_id j" "me_sequence m = 1" "me_entry_type m = MemINPUT" by (simp_all add: new_entry_def)
  with 1(4) have tx: "fs_transaction (\<lambda>d.
        if \<not> job_conflict d j
        then if \<not> agent_job_row_ok j then raise DatabaseError ''Failed to create agent execution: check constraint''
             else Inr ((put_job j d)\<lparr>gx_memory := append_listed (aj_execution_id j) [m] (gx_memory d)\<rparr>, j)
        else case conflicting_job d j of
               None \<Rightarrow> raise DatabaseError ''Failed to create agent execution: Agent execution conflict has no stored job''
             | Some x \<Rightarrow>
                 if aj_request_fingerprint x \<noteq> aj_request_fingerprint j
                 then raise ValidationError ''Agent execution idempotency key conflicts with different input''
                 else db_error ''Failed to create agent execution: '' (bind_result (validate valid_agent_job x) (\<lambda>x. Inr (d, x)))) d = (d', r)"
    by (simp add: create_agent_execution_def)
  then show ?case
  proof (cases rule: fs_transaction_cases)
    case (committed x)
    show ?thesis
    proof (cases "job_conflict ?d j")
      case True
      then obtain y where y: "conflicting_job ?d j = Some y" "aj_request_fingerprint y = aj_request_fingerprint j" "x = y" "d' = ?d"
        using committed(1) by (auto simp: bind_result_Inr validate_def split: option.splits if_splits)
      have "dict_get (gx_jobs ?d) (aj_execution_id y) = Some y"
      proof (cases "List.find (\<lambda>x. job_key x = job_key j) (dict_values (gx_jobs ?d))")
        case None
        with y(1) have "dict_get (gx_jobs ?d) (aj_execution_id j) = Some y" by (simp add: conflicting_job_def)
        with queue_identity [OF wf this] show ?thesis by simp
      next
        case (Some z)
        with y(1) have "z = y" by (simp add: conflicting_job_def)
        with Some have "y \<in> set (dict_values (gx_jobs ?d))" by (auto simp: find_Some_iff)
        then obtain i where "dict_get (gx_jobs ?d) i = Some y" using wf by (auto simp: queue_wf_def set_dict_values ran_def)
        with queue_identity [OF wf this] show ?thesis by simp
      qed
      with y committed(2) wf show ?thesis by simp
    next
      case False
      then have x: "x = j" "d' = (put_job j ?d)\<lparr>gx_memory := append_listed (aj_execution_id j) [m] (gx_memory ?d)\<rparr>"
        using committed(1) by (auto split: if_splits)
      have new: "dict_get (gx_jobs ?d) (aj_execution_id j) = None" using False by (simp add: job_conflict_def)
      have other: "job_key y \<noteq> job_key j" if "dict_get (gx_jobs ?d) i = Some y" for i y
        using False dict_get_in_values [OF that] by (auto simp: job_conflict_def list_ex_iff)
      have "listed (gx_memory ?d) (aj_execution_id j) = []" using wf new by (simp add: queue_wf_def)
      then have "queue_wf True d' \<and> dict_get (gx_jobs d') (aj_execution_id j) = Some j \<and>
          evidence_of d' = (evidence_of ?d)(aj_execution_id j \<mapsto> (j, [], [m])) \<and> evidence_step (evidence_of ?d) (evidence_of d')"
        using x(2) by (intro create_stored [OF wf 1(2) new other]) (auto simp: put_job_def)
      then show ?thesis unfolding committed(2) x(1) sum.case evidence_of_faults by blast
    qed
  qed (use wf in simp)
next
  case (2 d w now i l d' q)
  then show ?case unfolding claim_agent_execution_def using claim_where_law [of d w now "Some i" l d' q] by (auto split: sum.splits)
next
  case (3 d w now l d' q)
  then show ?case unfolding claim_next_agent_execution_def using claim_where_law [of d w now None l d' q] by (auto split: sum.splits)
next
  case (4 d c f now d' r)
  let ?d = "d\<lparr>fs_faults := tl (fs_faults d)\<rparr>"
  have wf: "queue_wf True ?d" using 4(1) by simp
  have i: "aa_execution_id (fn_attempt f) = aj_execution_id c" and ev: "finish_evidence_ok f"
    using 4(2) by (simp_all add: finish_for_def)
  show ?case
  proof (cases "fn_retry_delay f < 0")
    case False
    with 4(4) ev have "fs_transaction (\<lambda>d. db_error ''Failed to finish agent execution: '' (finish_row now f d)) d = (d', r)"
      by (simp add: finish_agent_execution_def)
    then show ?thesis
    proof (cases rule: fs_transaction_cases)
      case (committed u)
      then have row: "finish_row now f ?d = Inr (d', u)" by simp
      then obtain j where j: "dict_get (gx_jobs ?d) (aj_execution_id c) = Some j" "aj_status j = JobLEASED"
        "aj_leased_by j = Some (fn_worker_id f)"
        "aa_attempt_number (fn_attempt f) = int (length (listed (gx_attempts ?d) (aj_execution_id c))) + 1"
        "u = finished_job True now f j"
        by (auto simp: finish_row_def Let_def i bind_result_Inr validate_def split: option.splits if_splits)
      have d': "d' = (record_finish (finished_job True now f j) f ?d)\<lparr>gx_outputs := gx_outputs d'\<rparr>"
        using row j(1) by (auto simp: finish_row_def Let_def i bind_result_Inr validate_def split: option.splits if_splits)
      have "snapshot_of ?d c" using 4(3) by (simp add: snapshot_of_def)
      from finish_stored [OF wf 4(2) this j(1-4) d'] j(1,5) committed(2) show ?thesis
        by (auto simp: evidence_of_stored)
    qed (use wf in simp)
  qed (use 4(1,4) in \<open>auto simp: finish_agent_execution_def\<close>)
qed

text \<open>The queue behind a runtime is one of the two.\<close>

interpretation queue: agent_queue durable "queue_create durable" "queue_claim durable" "queue_claim_next durable" "queue_finish durable"
  for durable :: bool
  using mem.agent_queue_axioms durable.agent_queue_axioms
  by (cases durable) (simp_all add: queue_create_def queue_claim_def queue_claim_next_def queue_finish_def)

end
