(* ===== verification/Agent_Properties.thy ===== *)
theory Agent_Properties
  imports Agent_Queue
begin

text \<open>
  What the agent runtime guarantees: both queues implement the machine over evidence; over every history of
  submissions, executions, worker turns, registry changes and calls of other processes the stored evidence is
  a valid trace that only grows; and an execution whose turns are spaced by the retry delay ends within its
  attempts.
\<close>

section \<open>Calls of a queue\<close>

datatype queue_call =
    QCreate agent_job memory_entry
  | QClaim time string string int
  | QClaimNext time string int
  | QFinish time finish_call

fun queue_run :: "bool \<Rightarrow> queue_call \<Rightarrow> agent_store \<Rightarrow> agent_store" where
  "queue_run durable (QCreate j m) d = fst (queue_create durable j m d)"
| "queue_run durable (QClaim now i w l) d = fst (queue_claim durable now i w l d)"
| "queue_run durable (QClaimNext now w l) d = fst (queue_claim_next durable now w l d)"
| "queue_run durable (QFinish now f) d = fst (queue_finish durable now f d)"

fun admissible :: "agent_store \<Rightarrow> queue_call \<Rightarrow> bool" where
  "admissible d (QCreate j m) \<longleftrightarrow> new_entry (aj_execution_id j) j m \<and> same_identity d j"
| "admissible d (QClaim now i w l) \<longleftrightarrow> length w \<le> 128"
| "admissible d (QClaimNext now w l) \<longleftrightarrow> length w \<le> 128"
| "admissible d (QFinish now f) \<longleftrightarrow> (\<exists>c. finish_for c f \<and> snapshot_of d c)"

lemma queue_call_step:
  assumes "queue_wf durable d" "admissible d call"
  shows "queue_wf durable (queue_run durable call d) \<and>
    evidence_step\<^sup>=\<^sup>= (evidence_of d) (evidence_of (queue_run durable call d))"
proof (cases call)
  case (QCreate j m)
  obtain d' r where r: "queue_create durable j m d = (d', r)" by force
  with QCreate assms queue.create_law [OF assms(1) _ _ r] queue.create_steps [OF assms(1) _ _ r] show ?thesis by simp
next
  case (QClaim now i w l)
  obtain d' r where r: "queue_claim durable now i w l d = (d', r)" by force
  with QClaim assms queue.claim_law [OF assms(1) _ r] queue.claim_steps [OF assms(1) _ r] show ?thesis by simp
next
  case (QClaimNext now w l)
  obtain d' r where r: "queue_claim_next durable now w l d = (d', r)" by force
  with QClaimNext assms queue.claim_next_law [OF assms(1) _ r] queue.claim_next_steps [OF assms(1) _ r] show ?thesis by simp
next
  case (QFinish now f)
  obtain d' r where r: "queue_finish durable now f d = (d', r)" by force
  from QFinish assms(2) obtain c where "finish_for c f" "snapshot_of d c" by auto
  with r QFinish queue.finish_law [OF assms(1) this r] queue.finish_steps [OF assms(1) this r] show ?thesis by simp
qed

section \<open>What the runtime asks of its queue\<close>

definition agents_named :: "agent_registry \<Rightarrow> bool" where
  "agents_named r \<longleftrightarrow> (\<forall>n a. dict_get (ry_agents r) n = Some a \<longrightarrow> agent_name a = n)"

text \<open>The hash separates the requests of a history: equal fingerprints mean the same agent, version and key.\<close>

definition agent_request_key :: "agent_request \<Rightarrow> idempotency_key option" where
  "agent_request_key q = map_option (\<lambda>k. (ai_agent_name (ax_input q), ax_agent_version q, k)) (ax_idempotency_key q)"

definition collision_free :: "(json \<Rightarrow> string) \<Rightarrow> agent_request set \<Rightarrow> bool" where
  "collision_free H Q \<longleftrightarrow>
     (\<forall>q\<in>Q. \<forall>q'\<in>Q. agent_execution_fingerprint H q = agent_execution_fingerprint H q' \<longrightarrow> agent_request_key q = agent_request_key q')"

definition identified :: "(json \<Rightarrow> string) \<Rightarrow> agent_request set \<Rightarrow> agent_job \<Rightarrow> bool" where
  "identified H Q j \<longleftrightarrow>
     (\<exists>q\<in>Q. \<exists>k. aj_execution_id j = agent_execution_fingerprint H q \<and> ax_idempotency_key q = Some k \<and>
        job_key j = (ai_agent_name (ax_input q), ax_agent_version q, k))"

definition store_identified :: "(json \<Rightarrow> string) \<Rightarrow> agent_request set \<Rightarrow> agent_store \<Rightarrow> bool" where
  "store_identified H Q d \<longleftrightarrow> (\<forall>i j. dict_get (gx_jobs d) i = Some j \<longrightarrow> identified H Q j)"

lemma identified_unique:
  assumes "collision_free H Q" "identified H Q j" "identified H Q j'" "aj_execution_id j = aj_execution_id j'"
  shows "job_key j = job_key j'"
  using assms by (fastforce simp: identified_def collision_free_def agent_request_key_def)

lemma registration_of_Inr:
  assumes "registration_of H a = Inr g"
  shows "ag_agent_name g = agent_name a" "ag_version g = ba_version (ba_class a)" "ag_max_attempts g = ba_max_attempts (ba_class a)"
    "ag_definition_hash g = agent_definition_hash H (ba_class a)" "valid_agent_registration g"
  using assms by (auto simp: registration_of_def validate_def Let_def split: if_splits)

lemma get_agent_Inr: "get_agent n (Some v) r = Inr a \<longleftrightarrow> dict_get (ry_agents r) n = Some a \<and> ba_version (ba_class a) = v"
  by (auto simp: get_agent_def split: option.splits if_splits)

lemma prepare_submission_Inr:
  assumes "prepare_submission H now q r = Inr (j, m)" "agents_named r" "q \<in> Q"
  shows "new_entry (aj_execution_id j) j m" "identified H Q j" "aj_execution_id j = agent_execution_fingerprint H q"
    "aj_available_at j = now" "aj_input j = ax_input q" "aj_correlation_id j = ai_correlation_id (ax_input q)" "aj_output j = None"
proof -
  obtain a g where a: "dict_get (ry_agents r) (ai_agent_name (ax_input q)) = Some a" "ba_version (ba_class a) = ax_agent_version q"
    "registration_of H a = Inr g" "job_of_request H now q g = Inr j"
    "memory_of H now (aj_execution_id j) 1 MemINPUT (request_json q) = Inr m"
    using assms(1) by (auto simp: prepare_submission_def bind_result_Inr get_agent_Inr)
  obtain k where k: "ax_idempotency_key q = Some k" using a(4) by (auto simp: job_of_request_def Let_def split: option.splits)
  have j: "valid_agent_job j" "aj_execution_id j = agent_execution_fingerprint H q" "aj_status j = JobPENDING" "aj_attempt_count j = 0"
    "aj_agent_name j = ag_agent_name g" "aj_agent_version j = ag_version g" "aj_idempotency_key j = k" "aj_available_at j = now"
    "aj_input j = ax_input q" "aj_correlation_id j = ai_correlation_id (ax_input q)" "aj_output j = None"
    using a(4) k by (auto simp: job_of_request_def Let_def validate_def split: if_splits)
  moreover have "ai_agent_name (ax_input q) = ag_agent_name g" using j(1,5,9) by (simp add: valid_agent_job_def)
  ultimately show "identified H Q j" using assms(3) k registration_of_Inr [OF a(3)] a(2) by (auto simp: identified_def job_key_def)
  show "new_entry (aj_execution_id j) j m"
    using a(5) j by (auto simp: new_entry_def memory_of_def validate_def split: if_splits)
  show "aj_execution_id j = agent_execution_fingerprint H q" "aj_available_at j = now" "aj_input j = ax_input q"
    "aj_correlation_id j = ai_correlation_id (ax_input q)" "aj_output j = None" using j by simp_all
qed


section \<open>What one call of the runtime does to the evidence\<close>

definition runtime_wf :: "surroundings \<Rightarrow> agent_request set \<Rightarrow> agent_runtime \<Rightarrow> bool" where
  "runtime_wf E Q rt \<longleftrightarrow>
     queue_wf (rt_durable rt) (rt_store rt) \<and> agents_named (rt_registry rt) \<and> store_identified (sr_hash E) Q (rt_store rt)"

definition good_run :: "surroundings \<Rightarrow> agent_request set \<Rightarrow> agent_runtime \<Rightarrow> agent_runtime \<Rightarrow> bool" where
  "good_run E Q rt rt' \<longleftrightarrow>
     runtime_wf E Q rt' \<and> rt_durable rt' = rt_durable rt \<and> evidence_step\<^sup>*\<^sup>* (evidence_of (rt_store rt)) (evidence_of (rt_store rt'))"

lemma good_run_refl: "runtime_wf E Q rt \<Longrightarrow> good_run E Q rt rt"
  by (simp add: good_run_def)

lemma good_run_trans: "good_run E Q rt rt1 \<Longrightarrow> good_run E Q rt1 rt2 \<Longrightarrow> good_run E Q rt rt2"
  by (auto simp: good_run_def)

lemma good_run_wf: "good_run E Q rt rt' \<Longrightarrow> runtime_wf E Q rt'"
  by (simp add: good_run_def)

lemma good_run_step:
  assumes "runtime_wf E Q rt'" "rt_durable rt' = rt_durable rt" "evidence_step\<^sup>=\<^sup>= (evidence_of (rt_store rt)) (evidence_of (rt_store rt'))"
  shows "good_run E Q rt rt'"
  using assms by (auto simp: good_run_def)

lemma evidence_jobs: "dict_get (gx_jobs d) i = map_option fst (evidence_of d i)"
  by (cases "dict_get (gx_jobs d) i") (simp_all add: evidence_of_def)

lemma store_identified_same: "store_identified H Q d \<Longrightarrow> evidence_of d' = evidence_of d \<Longrightarrow> store_identified H Q d'"
  by (simp add: store_identified_def evidence_jobs)

lemma store_identified_update:
  assumes "store_identified H Q d" "evidence_of d' = (evidence_of d)(i \<mapsto> (c, as, ms))" "identified H Q c"
  shows "store_identified H Q d'"
  using assms by (auto simp: store_identified_def evidence_jobs)

lemma identified_claimed [simp]: "identified H Q (claimed_job now w l j) = identified H Q j"
  by (simp add: identified_def)

lemma identified_finished [simp]: "identified H Q (finished_job durable now f j) = identified H Q j"
  by (simp add: identified_def) (simp add: finished_job_def Let_def)

lemma identified_stored: "store_identified H Q d \<Longrightarrow> evidence_of d i = Some (j, as, ms) \<Longrightarrow> identified H Q j"
  unfolding store_identified_def evidence_jobs by (metis fst_conv option.simps(9))

lemma submission_runs:
  assumes "collision_free (sr_hash E) Q" "runtime_wf E Q rt" "prepare_submission (sr_hash E) now q (rt_registry rt) = Inr (j, m)" "q \<in> Q"
    "on_queue (queue_create (rt_durable rt) j m) rt = (rt', r)"
  shows "good_run E Q rt rt'" "r = Inr x \<Longrightarrow> aj_request_fingerprint x = aj_request_fingerprint j \<and>
    dict_get (gx_jobs (rt_store rt')) (aj_execution_id x) = Some x"
proof -
  let ?d = "rt_store rt"
  obtain d' where d': "queue_create (rt_durable rt) j m ?d = (d', r)" "rt' = rt\<lparr>rt_store := d'\<rparr>"
    using assms(5) by (auto simp: on_queue_def split: prod.splits)
  have wf: "queue_wf (rt_durable rt) ?d" "agents_named (rt_registry rt)" "store_identified (sr_hash E) Q ?d"
    using assms(2) by (simp_all add: runtime_wf_def)
  note p = prepare_submission_Inr [OF assms(3) wf(2) assms(4)]
  have "same_identity ?d j"
    unfolding same_identity_def
  proof (intro allI impI)
    fix x assume x: "dict_get (gx_jobs ?d) (aj_execution_id j) = Some x"
    with wf(3) have "identified (sr_hash E) Q x" by (auto simp: store_identified_def)
    from identified_unique [OF assms(1) this p(2) queue_identity [OF wf(1) x]] show "job_key x = job_key j" .
  qed
  note law = queue.create_law [OF wf(1) p(1) this d'(1)] and steps = queue.create_steps [OF wf(1) p(1) this d'(1)]
  have "store_identified (sr_hash E) Q d'"
  proof (cases r)
    case (Inr x)
    with law have "evidence_of d' = evidence_of ?d \<or> evidence_of d' = (evidence_of ?d)(aj_execution_id j \<mapsto> (j, [], [m]))" by auto
    then show ?thesis using store_identified_same [OF wf(3)] store_identified_update [OF wf(3) _ p(2)] by blast
  qed (use law store_identified_same [OF wf(3)] in simp)
  with law steps wf(2) d'(2) show "good_run E Q rt rt'" by (intro good_run_step) (simp_all add: runtime_wf_def)
  show "r = Inr x \<Longrightarrow> aj_request_fingerprint x = aj_request_fingerprint j \<and> dict_get (gx_jobs (rt_store rt')) (aj_execution_id x) = Some x"
    using law d'(2) by simp
qed

lemma leases_identified:
  assumes "leases now w l c (evidence_of d) (evidence_of d')" "store_identified H Q d"
  shows "store_identified H Q d'"
proof (cases c)
  case None
  with assms store_identified_same show ?thesis by (simp add: leases_def)
next
  case (Some x)
  then obtain i j as ms where "evidence_of d i = Some (j, as, ms)" "x = claimed_job now w l j"
    "evidence_of d' = (evidence_of d)(i \<mapsto> (x, as, ms))"
    using assms(1) by (auto simp: leases_def)
  with identified_stored [OF assms(2)] store_identified_update [OF assms(2)] show ?thesis by (metis identified_claimed)
qed

lemma leases_stored: "leases now w l (Some c) V (evidence_of d') \<Longrightarrow> dict_get (gx_jobs d') (aj_execution_id c) = Some c"
  by (auto simp: leases_def evidence_jobs)

lemma claims_run:
  assumes "runtime_wf E Q rt" "length w \<le> 128" "on_queue (queue_claim (rt_durable rt) now i w l) rt = (rt', r)"
  shows "good_run E Q rt rt'" "r = Inr (Some c) \<Longrightarrow> dict_get (gx_jobs (rt_store rt')) (aj_execution_id c) = Some c"
proof -
  obtain d' where d': "queue_claim (rt_durable rt) now i w l (rt_store rt) = (d', r)" "rt' = rt\<lparr>rt_store := d'\<rparr>"
    using assms(3) by (auto simp: on_queue_def split: prod.splits)
  have wf: "queue_wf (rt_durable rt) (rt_store rt)" using assms(1) by (simp add: runtime_wf_def)
  note law = queue.claim_law [OF wf assms(2) d'(1)] and steps = queue.claim_steps [OF wf assms(2) d'(1)]
  have id: "store_identified (sr_hash E) Q (rt_store rt)" using assms(1) by (simp add: runtime_wf_def)
  have "store_identified (sr_hash E) Q d'"
    using law leases_identified [OF _ id] store_identified_same [OF id] by (cases r) (simp, simp, blast)
  with law steps assms(1) d'(2) show "good_run E Q rt rt'" by (intro good_run_step) (simp_all add: runtime_wf_def)
  show "r = Inr (Some c) \<Longrightarrow> dict_get (gx_jobs (rt_store rt')) (aj_execution_id c) = Some c"
    using law d'(2) leases_stored by auto
qed

lemma claims_next_run:
  assumes "runtime_wf E Q rt" "length w \<le> 128" "on_queue (queue_claim_next (rt_durable rt) now w l) rt = (rt', r)"
  shows "good_run E Q rt rt'" "r = Inr (Some c) \<Longrightarrow> dict_get (gx_jobs (rt_store rt')) (aj_execution_id c) = Some c"
proof -
  obtain d' where d': "queue_claim_next (rt_durable rt) now w l (rt_store rt) = (d', r)" "rt' = rt\<lparr>rt_store := d'\<rparr>"
    using assms(3) by (auto simp: on_queue_def split: prod.splits)
  have wf: "queue_wf (rt_durable rt) (rt_store rt)" using assms(1) by (simp add: runtime_wf_def)
  note law = queue.claim_next_law [OF wf assms(2) d'(1)] and steps = queue.claim_next_steps [OF wf assms(2) d'(1)]
  have id: "store_identified (sr_hash E) Q (rt_store rt)" using assms(1) by (simp add: runtime_wf_def)
  have "store_identified (sr_hash E) Q d'"
    using law leases_identified [OF _ id] store_identified_same [OF id] by (cases r) (simp, simp, blast)
  with law steps assms(1) d'(2) show "good_run E Q rt rt'" by (intro good_run_step) (simp_all add: runtime_wf_def)
  show "r = Inr (Some c) \<Longrightarrow> dict_get (gx_jobs (rt_store rt')) (aj_execution_id c) = Some c"
    using law d'(2) leases_stored by auto
qed

lemma finish_runs:
  assumes "runtime_wf E Q rt" "finish_for c f" "snapshot_of (rt_store rt) c" "on_queue (queue_finish (rt_durable rt) now f) rt = (rt', r)"
  shows "good_run E Q rt rt'"
proof -
  obtain d' where d': "queue_finish (rt_durable rt) now f (rt_store rt) = (d', r)" "rt' = rt\<lparr>rt_store := d'\<rparr>"
    using assms(4) by (auto simp: on_queue_def split: prod.splits)
  have wf: "queue_wf (rt_durable rt) (rt_store rt)" "store_identified (sr_hash E) Q (rt_store rt)" using assms(1) by (simp_all add: runtime_wf_def)
  note law = queue.finish_law [OF wf(1) assms(2,3) d'(1)] and steps = queue.finish_steps [OF wf(1) assms(2,3) d'(1)]
  have "store_identified (sr_hash E) Q d'"
  proof (cases r)
    case (Inr u)
    then obtain j as ms where "evidence_of (rt_store rt) (aj_execution_id c) = Some (j, as, ms)"
      "evidence_of d' = (evidence_of (rt_store rt))(aj_execution_id c \<mapsto> finished_entry (rt_durable rt) now f (j, as, ms))"
      using law by auto
    with identified_stored [OF wf(2)] store_identified_update [OF wf(2)] show ?thesis
      unfolding finished_entry_def prod.case by (metis identified_finished)
  qed (use law store_identified_same [OF wf(2)] in simp)
  with law steps assms(1) d'(2) show ?thesis by (intro good_run_step) (simp_all add: runtime_wf_def)
qed

lemma publish_job_state: "publish_job E now k j e rt = (rt', r) \<Longrightarrow> \<exists>b. rt' = rt\<lparr>rt_bus := b\<rparr>"
  by (auto simp: publish_job_def split: if_splits prod.splits sum.splits) (metis agent_runtime.surjective agent_runtime.update_convs(5))

lemma runtime_wf_bus [simp]: "runtime_wf E Q (rt\<lparr>rt_bus := b\<rparr>) = runtime_wf E Q rt"
  by (simp add: runtime_wf_def)

lemma publishes_run: "runtime_wf E Q rt \<Longrightarrow> publish_job E now k j e rt = (rt', r) \<Longrightarrow> good_run E Q rt rt' \<and> rt_store rt' = rt_store rt \<and> rt_registry rt' = rt_registry rt"
  by (drule publish_job_state) (auto simp: good_run_def)

text \<open>A finish that the runtime builds from a claimed job belongs to that job.\<close>

lemma memory_of_Inr:
  "memory_of H now i n k p = Inr m \<Longrightarrow> me_execution_id m = i \<and> me_sequence m = n \<and> me_entry_type m = k"
  by (auto simp: memory_of_def validate_def split: if_splits)

lemma finish_call_of_Inr:
  assumes "finish_call_of E w t c out retryable rt = Inr f" "ao_agent_name out = aj_agent_name c" "retryable \<Longrightarrow> \<not> successful_output out"
  shows "finish_for c f" "fn_output f = out" "fn_worker_id f = w" "fn_retryable f = retryable"
    "fn_retry_delay f = retry_delay rt (aj_attempt_count c)"
proof -
  obtain a m where a: "aa_execution_id a = aj_execution_id c" "aa_attempt_number a = aj_attempt_count c" "aa_worker_id a = w" "aa_output a = out"
    and m: "memory_of (sr_hash E) (tn_done t) (aj_execution_id c) (aj_attempt_count c * 2) MemATTEMPT (attempt_json a) = Inr m"
    and f: "(let call = \<lparr>fn_attempt = a, fn_attempt_memory = m, fn_worker_id = w, fn_output = out,
                 fn_retryable = retryable, fn_retry_delay = retry_delay rt (aj_attempt_count c), fn_terminal_memory = None\<rparr>
     in (if retryable \<and> aj_attempt_count c < aj_max_attempts c then Inr call
        else bind_result (memory_of (sr_hash E) (tn_done t) (aj_execution_id c) (aj_attempt_count c * 2 + 1)
               (if successful_output out then MemOUTPUT else MemDEAD_LETTER) (output_json out)) (\<lambda>m.
             Inr (call\<lparr>fn_terminal_memory := Some m\<rparr>)))) = Inr f" (is "?rest a m")
  proof -
    from assms(1) obtain a m where "validate valid_agent_attempt
       \<lparr>aa_execution_id = aj_execution_id c, aa_attempt_number = aj_attempt_count c, aa_worker_id = w,
        aa_status = ao_status out, aa_output = out, aa_retryable = retryable, aa_started_at = aj_updated_at c,
        aa_completed_at = tn_done t\<rparr> = Inr a"
      "memory_of (sr_hash E) (tn_done t) (aj_execution_id c) (aj_attempt_count c * 2) MemATTEMPT (attempt_json a) = Inr m" "?rest a m"
      unfolding finish_call_of_def bind_result_Inr by (elim exE conjE) (rule that; assumption)
    then show thesis by (intro that [of a m]) (auto simp: validate_def split: if_splits)
  qed
  note m' = memory_of_Inr [OF m]
  show "fn_output f = out" "fn_worker_id f = w" "fn_retryable f = retryable" "fn_retry_delay f = retry_delay rt (aj_attempt_count c)"
    using f by (auto simp: Let_def bind_result_Inr split: if_splits)
  show "finish_for c f"
    using f a m' assms(2,3)
    by (auto simp: Let_def bind_result_Inr finish_for_def finish_evidence_ok_def terminal_memory_for_def finished_status_def
        dest!: memory_of_Inr split: if_splits)
qed

lemma record_and_finish_runs:
  assumes "runtime_wf E Q rt" "snapshot_of (rt_store rt) c" "ao_agent_name out = aj_agent_name c" "retryable \<Longrightarrow> \<not> successful_output out"
    "record_and_finish E w t c out retryable rt = (rt', r)"
  shows "good_run E Q rt rt'"
proof (cases "finish_call_of E w t c out retryable rt")
  case (Inl e)
  with assms(1,5) show ?thesis by (simp add: record_and_finish_def good_run_refl)
next
  case (Inr f)
  obtain rt1 q where q: "on_queue (queue_finish (rt_durable rt) (tn_finish t) f) rt = (rt1, q)" by force
  have g: "good_run E Q rt rt1" using finish_runs [OF assms(1) finish_call_of_Inr(1) [OF Inr assms(3,4)] assms(2) q] .
  show ?thesis
  proof (cases q)
    case (Inr u)
    obtain rt2 p where p: "publish_job E (tn_finish t) (finished_event (aj_status u)) u
        (aj_execution_id c @ '':'' @ str_int (aj_attempt_count c) @ '':'' @ job_status_value (aj_status u)) rt1 = (rt2, p)" by force
    have "rt' = rt2" using assms(5) q p Inr \<open>finish_call_of E w t c out retryable rt = Inr f\<close>
      by (cases p) (auto simp: record_and_finish_def bind_outcome_def)
    with publishes_run [OF good_run_wf [OF g] p] g show ?thesis using good_run_trans by blast
  qed (use assms(5) q g Inr in \<open>auto simp: record_and_finish_def bind_outcome_def\<close>)
qed


lemma own_output_name: "own_output a s g r l now = Inr x \<Longrightarrow> ao_agent_name x = agent_name a"
  by (auto simp: own_output_def validate_def split: if_splits)

lemma failed_analysis_facts:
  "failed_analysis s l r ms now a = (a', q) \<Longrightarrow> ba_class a' = ba_class a \<and> (\<forall>x. q = Inr x \<longrightarrow> ao_agent_name x = agent_name a)"
  by (auto simp: failed_analysis_def Let_def dest: own_output_name split: sum.splits)

lemma run_agent_facts:
  assumes "run_agent now answer i a = (a', q)"
  shows "ba_class a' = ba_class a" "q = Inr x \<Longrightarrow> ao_agent_name x = agent_name a"
proof -
  have "ba_class a' = ba_class a \<and> (\<forall>x. q = Inr x \<longrightarrow> ao_agent_name x = agent_name a)"
    using assms
    by (auto simp: run_agent_def Let_def dest!: failed_analysis_facts dest: own_output_name split: if_splits analysis.splits)
  then show "ba_class a' = ba_class a" "q = Inr x \<Longrightarrow> ao_agent_name x = agent_name a" by simp_all
qed

lemma runtime_output_facts:
  assumes "runtime_output j reason warning now = Inr x"
  shows "ao_agent_name x = aj_agent_name j" "ao_status x = AsFAILED" "ao_evidence x = []"
  using assms by (auto simp: runtime_output_def validate_def split: if_splits)

lemma ensure_clean: "ensure_payload_has_no_secrets p = Inr () \<longleftrightarrow> \<not> holds_secret p"
  using secret_search(1) [of "''payload''" p] by (auto simp: ensure_payload_has_no_secrets_def split: option.splits)

definition plain_key_char :: "char \<Rightarrow> bool" where
  "plain_key_char c \<longleftrightarrow> c \<in> set ''abcdefghijklmnopqrstuvwxyz_''"

lemma plain_key_char_facts:
  "plain_key_char c \<Longrightarrow> \<not> (CHR ''A'' \<le> c \<and> c \<le> CHR ''Z'') \<and> c \<noteq> CHR ''-'' \<and> \<not> is_space c"
  by (auto simp: plain_key_char_def less_eq_char_def is_space_def)

lemma plain_key_normal:
  assumes "list_all plain_key_char k"
  shows "normalized_key k = k"
proof -
  have c: "\<forall>c \<in> set k. plain_key_char c" using assms by (simp add: list_all_iff)
  then have "dropWhile is_space k = k" "dropWhile is_space (rev k) = rev k"
    using plain_key_char_facts hd_in_set [of k] hd_in_set [of "rev k"] by (auto simp: dropWhile_eq_self_iff)
  then have "strip k = k" by (simp add: strip_def)
  with c show ?thesis
    unfolding normalized_key_def to_lower_def map_map \<open>strip k = k\<close>
    by (intro map_idI) (use plain_key_char_facts in auto)
qed

lemma plain_payload:
  "\<not> sensitive_key ''schema_version''" "\<not> sensitive_key ''agent_name''" "\<not> sensitive_key ''status''"
  "\<not> sensitive_key ''signal''" "\<not> sensitive_key ''confidence''" "\<not> sensitive_key ''reason''"
  "\<not> sensitive_key ''evidence''" "\<not> sensitive_key ''warnings''" "\<not> sensitive_key ''latency_ms''"
  "\<not> sensitive_key ''created_at''"
  by (simp_all add: plain_key_normal plain_key_char_def SENSITIVE_FIELD_NAMES_def)

lemma holds_secret_members:
  "holds_secret (JObj ((k, v) # kvs)) \<longleftrightarrow> sensitive_key k \<or> holds_secret v \<or> holds_secret (JObj kvs)"
  "\<not> holds_secret (JObj [])" "\<not> holds_secret (JList (map JStr xs))"
  by (auto simp: holds_secret_simps)

lemma output_json_secret: "holds_secret (output_json x) \<longleftrightarrow> holds_secret (JObj (ao_evidence x))"
  unfolding output_json_def holds_secret_members by (simp add: plain_payload holds_secret_members(2,3) holds_secret_simps(3-))

lemma vetted_output_facts:
  assumes "vetted_output j now out = Inr (x, retryable)" "ao_agent_name out = aj_agent_name j"
  shows "ao_agent_name x = aj_agent_name j" "retryable \<Longrightarrow> \<not> successful_output x" "ensure_payload_has_no_secrets (output_json x) = Inr ()"
proof -
  have clean: "ensure_payload_has_no_secrets (output_json y) = Inr ()"
    if "runtime_output j ''Agent output rejected by payload security policy'' ''AGENT_OUTPUT_REJECTED'' now = Inr y" for y
    using runtime_output_facts(3) [OF that] by (simp add: ensure_clean output_json_secret holds_secret_members)
  show "ao_agent_name x = aj_agent_name j" "retryable \<Longrightarrow> \<not> successful_output x" "ensure_payload_has_no_secrets (output_json x) = Inr ()"
    using assms runtime_output_facts(1) clean by (auto simp: vetted_output_def bind_result_Inr split: sum.splits)
qed

lemma refusal_runs:
  assumes "runtime_wf E Q rt" "snapshot_of (rt_store rt) c" "refuse_execution E w t c reason warning rt = (rt', r)"
  shows "good_run E Q rt rt'"
proof (cases "runtime_output c reason warning (tn_done t)")
  case (Inl e)
  with assms(1,3) show ?thesis by (simp add: refuse_execution_def good_run_refl)
next
  case (Inr x)
  with assms(3) have "record_and_finish E w t c x False rt = (rt', r)" by (simp add: refuse_execution_def)
  then show ?thesis using record_and_finish_runs [OF assms(1,2) runtime_output_facts(1) [OF Inr]] by blast
qed

text \<open>A claimed job stays a snapshot of the stored one while evidence grows.\<close>

lemma evidence_steps_extend: "evidence_step\<^sup>*\<^sup>* V V' \<Longrightarrow> evidence_extends V V'"
  by (induction rule: rtranclp_induct) (auto intro: evidence_extends_trans evidence_step_extends)

lemma snapshot_grows:
  assumes "dict_get (gx_jobs (rt_store rt)) (aj_execution_id c) = Some c" "good_run E Q rt rt'" "runtime_wf E Q rt"
  shows "snapshot_of (rt_store rt') c"
  unfolding snapshot_of_def
proof (intro allI impI)
  fix j assume j: "dict_get (gx_jobs (rt_store rt')) (aj_execution_id c) = Some j"
  from assms(1) obtain x where x: "evidence_of (rt_store rt) (aj_execution_id c) = Some (c, x)" by (auto simp: evidence_of_def)
  have "evidence_extends (evidence_of (rt_store rt)) (evidence_of (rt_store rt'))"
    using assms(2) evidence_steps_extend by (simp add: good_run_def)
  then obtain y where "evidence_of (rt_store rt') (aj_execution_id c) = Some y" "entry_extends (c, x) y"
    using x by (meson evidence_extends_def)
  with j show "aj_max_attempts j = aj_max_attempts c \<and> aj_agent_name j = aj_agent_name c"
    by (auto simp: evidence_of_def entry_extends_def job_key_def split: prod.splits)
qed

lemma runtime_wf_registry:
  assumes "runtime_wf E Q rt" "agents_named r"
  shows "runtime_wf E Q (rt\<lparr>rt_registry := r\<rparr>)"
  using assms by (simp add: runtime_wf_def)

lemma run_and_finish_runs:
  assumes "runtime_wf E Q rt" "dict_get (gx_jobs (rt_store rt)) (aj_execution_id c) = Some c" "agent_name a = aj_agent_name c"
    "run_and_finish E w t c a rt = (rt', r)"
  shows "good_run E Q rt rt'"
proof -
  obtain rt1 p where p: "publish_job E (tn_claim t) ''AGENT_STARTED'' c
      (aj_execution_id c @ '':'' @ str_int (aj_attempt_count c) @ '':started'') rt = (rt1, p)" by force
  note pub = publishes_run [OF assms(1) p]
  obtain a' q where q: "run_agent (tn_done t) (tn_answer t) (aj_input c) a = (a', q)" by force
  let ?rt2 = "rt1\<lparr>rt_registry := (rt_registry rt1)\<lparr>ry_agents := dict_set (aj_agent_name c) a' (ry_agents (rt_registry rt1))\<rparr>\<rparr>"
  have wf1: "runtime_wf E Q rt1" using pub good_run_wf by blast
  have "agents_named (rt_registry ?rt2)"
    using wf1 run_agent_facts(1) [OF q] assms(3) by (auto simp: runtime_wf_def agents_named_def dict_simps)
  then have wf2: "runtime_wf E Q ?rt2" using runtime_wf_registry [OF wf1] by simp
  have g2: "good_run E Q rt ?rt2" using pub wf2 by (simp add: good_run_def)
  have snap: "snapshot_of (rt_store ?rt2) c" using snapshot_grows [OF assms(2) g2 assms(1)] .
  show ?thesis
  proof (cases p)
    case (Inl e)
    with p pub assms(4) show ?thesis by (auto simp: run_and_finish_def bind_outcome_def)
  next
    case (Inr u)
    then have out: "(case bind_result q (vetted_output c (tn_done t)) of
        Inl e \<Rightarrow> (?rt2, Inl e) | Inr (out, retryable) \<Rightarrow> record_and_finish E w t c out retryable ?rt2) = (rt', r)"
      using assms(4) p q by (simp add: run_and_finish_def bind_outcome_def Let_def)
    show ?thesis
    proof (cases "bind_result q (vetted_output c (tn_done t))")
      case (Inr z)
      obtain out retryable where z: "z = (out, retryable)" by force
      obtain x where x: "q = Inr x" "vetted_output c (tn_done t) x = Inr (out, retryable)" using Inr z by (auto simp: bind_result_Inr)
      have "ao_agent_name x = aj_agent_name c" using run_agent_facts(2) [OF q x(1)] assms(3) by simp
      note v = vetted_output_facts [OF x(2) this]
      have "record_and_finish E w t c out retryable ?rt2 = (rt', r)" using out Inr z by simp
      from record_and_finish_runs [OF wf2 snap v(1) v(2) this] g2 show ?thesis using good_run_trans by blast
    qed (use out g2 in auto)
  qed
qed

lemma execute_claimed_runs:
  assumes "runtime_wf E Q rt" "dict_get (gx_jobs (rt_store rt)) (aj_execution_id c) = Some c" "execute_claimed E w t c rt = (rt', r)"
  shows "good_run E Q rt rt'"
proof -
  have snap: "snapshot_of (rt_store rt) c" using assms(2) by (simp add: snapshot_of_def)
  let ?load = "bind_result (get_agent (aj_agent_name c) (Some (aj_agent_version c)) (rt_registry rt)) (\<lambda>a.
     bind_result (registration_of (sr_hash E) a) (\<lambda>g. Inr (a, g)))"
  show ?thesis
  proof (cases ?load)
    case (Inl e)
    with assms(3) have "refuse_execution E w t c ''Queued agent version is unavailable'' ''AGENT_VERSION_UNAVAILABLE'' rt = (rt', r) \<or> rt' = rt"
      by (auto simp: execute_claimed_def Let_def split: if_splits)
    with refusal_runs [OF assms(1) snap] good_run_refl [OF assms(1)] show ?thesis by blast
  next
    case (Inr z)
    then obtain a g where z: "z = (a, g)" "dict_get (ry_agents (rt_registry rt)) (aj_agent_name c) = Some a"
      by (auto simp: bind_result_Inr get_agent_Inr)
    have name: "agent_name a = aj_agent_name c" using z(2) assms(1) by (simp add: runtime_wf_def agents_named_def)
    show ?thesis
    proof (cases "ag_definition_hash g = aj_definition_hash c")
      case True
      with Inr z assms(3) have "run_and_finish E w t c a rt = (rt', r)" by (simp add: execute_claimed_def)
      from run_and_finish_runs [OF assms(1,2) name this] show ?thesis .
    next
      case False
      obtain rt1 q where q: "refuse_execution E w t c ''Queued agent definition no longer matches registry'' ''AGENT_DEFINITION_MISMATCH'' rt = (rt1, q)"
        by force
      have g1: "good_run E Q rt rt1" using refusal_runs [OF assms(1) snap q] .
      have "rt' = rt1 \<or> refuse_execution E w t c ''Queued agent version is unavailable'' ''AGENT_VERSION_UNAVAILABLE'' rt1 = (rt', r)"
        using assms(3) Inr z False q by (auto simp: execute_claimed_def Let_def split: sum.splits if_splits)
      with g1 refusal_runs [OF good_run_wf [OF g1] snapshot_grows [OF assms(2) g1 assms(1)]] show ?thesis using good_run_trans by blast
    qed
  qed
qed

section \<open>Executions, batches and the worker\<close>

lemma trace_state:
  assumes "on_queue (queue_trace (rt_durable rt) i) rt = (rt', r)"
  shows "\<exists>x. rt' = rt\<lparr>rt_store := (rt_store rt)\<lparr>fs_faults := x\<rparr>\<rparr>"
proof (cases "rt_durable rt")
  case True
  obtain d where d: "load_agent_execution_trace i (rt_store rt) = (d, r)" "rt' = rt\<lparr>rt_store := d\<rparr>"
    using assms True by (auto simp: on_queue_def queue_trace_def split: prod.splits)
  have "\<exists>x. d = (rt_store rt)\<lparr>fs_faults := x\<rparr>"
    using d(1) unfolding load_agent_execution_trace_def by (rule fs_transaction_cases) (auto simp: bind_result_Inr)
  with d(2) show ?thesis by blast
next
  case False
  then have "rt' = rt" using assms by (auto simp: on_queue_def queue_trace_def mem_trace_def)
  then show ?thesis by (intro exI [of _ "fs_faults (rt_store rt)"]) simp
qed

lemma traces_run:
  assumes "runtime_wf E Q rt" "on_queue (queue_trace (rt_durable rt) i) rt = (rt', r)"
  shows "good_run E Q rt rt'"
proof -
  obtain x where x: "rt' = rt\<lparr>rt_store := (rt_store rt)\<lparr>fs_faults := x\<rparr>\<rparr>" using trace_state [OF assms(2)] by blast
  have "runtime_wf E Q rt'" using assms(1) by (simp add: x runtime_wf_def store_identified_def)
  then show ?thesis by (simp add: good_run_def x)
qed

lemma execution_loop_runs:
  assumes "runtime_wf E Q rt" "length w \<le> 128" "execution_loop E w i ts rt = (rt', r)"
  shows "good_run E Q rt rt'"
  using assms
proof (induction ts arbitrary: rt)
  case Nil
  then show ?case by (simp add: good_run_refl)
next
  case (Cons t ts)
  obtain rt1 q where q: "on_queue (queue_trace (rt_durable rt) i) rt = (rt1, q)" by force
  have g1: "good_run E Q rt rt1" using traces_run [OF Cons.prems(1) q] .
  note wf1 = good_run_wf [OF g1]
  show ?case
  proof (cases "q = Inr None \<or> (\<exists>e. q = Inl e) \<or> (\<exists>trace. q = Inr (Some trace) \<and> job_terminal (aj_status (tr_job trace)))")
    case True
    with Cons.prems(3) q g1 show ?thesis by (auto simp: bind_outcome_def Let_def)
  next
    case False
    then obtain trace where trace: "q = Inr (Some trace)" "\<not> job_terminal (aj_status (tr_job trace))" by (cases q) auto
    show ?thesis
    proof (cases "still_leased (tn_poll t) (tr_job trace) \<or> tn_poll t < aj_available_at (tr_job trace)")
      case True
      with Cons.prems(3) q trace have "execution_loop E w i ts rt1 = (rt', r)" by (simp add: bind_outcome_def Let_def)
      from Cons.IH [OF wf1 Cons.prems(2) this] g1 show ?thesis using good_run_trans by blast
    next
      case wait: False
      obtain rt2 claimed where c: "on_queue (queue_claim (rt_durable rt1) (tn_claim t) i w (rt_lease_seconds rt1)) rt1 = (rt2, claimed)" by force
      note claim = claims_run [OF wf1 Cons.prems(2) c]
      have g2: "good_run E Q rt rt2" using g1 claim(1) good_run_trans by blast
      note wf2 = good_run_wf [OF g2]
      show ?thesis
      proof (cases claimed)
        case (Inl e)
        with Cons.prems(3) q trace wait c g2 show ?thesis by (simp add: bind_outcome_def Let_def)
      next
        case (Inr co)
        show ?thesis
        proof (cases co)
          case None
          with Cons.prems(3) q trace wait c Inr have "execution_loop E w i ts rt2 = (rt', r)" by (simp add: bind_outcome_def Let_def)
          from Cons.IH [OF wf2 Cons.prems(2) this] g2 show ?thesis using good_run_trans by blast
        next
          case (Some j)
          obtain rt3 p where p: "execute_claimed E w t j rt2 = (rt3, p)" by force
          have "dict_get (gx_jobs (rt_store rt2)) (aj_execution_id j) = Some j" using claim(2) Inr Some by simp
          from execute_claimed_runs [OF wf2 this p] g2 have g3: "good_run E Q rt rt3" using good_run_trans by blast
          show ?thesis
          proof (cases p)
            case (Inl e)
            with Cons.prems(3) q trace wait c Some p g3 \<open>claimed = Inr co\<close> show ?thesis by (simp add: bind_outcome_def Let_def)
          next
            case (Inr u)
            with Cons.prems(3) q trace wait c Some p \<open>claimed = Inr co\<close> have "execution_loop E w i ts rt3 = (rt', r)"
              by (simp add: bind_outcome_def Let_def)
            from Cons.IH [OF good_run_wf [OF g3] Cons.prems(2) this] g3 show ?thesis using good_run_trans by blast
          qed
        qed
      qed
    qed
  qed
qed

lemma submit_execution_runs:
  assumes "collision_free (sr_hash E) Q" "runtime_wf E Q rt" "q \<in> Q" "submit_execution E now q rt = (rt', r)"
  shows "good_run E Q rt rt'"
proof (cases "prepare_submission (sr_hash E) now q (rt_registry rt)")
  case (Inl e)
  with assms(2,4) show ?thesis by (simp add: submit_execution_def good_run_refl)
next
  case (Inr z)
  obtain j m where z: "z = (j, m)" by force
  obtain rt1 p where p: "on_queue (queue_create (rt_durable rt) j m) rt = (rt1, p)" by force
  have g: "good_run E Q rt rt1" using submission_runs(1) [OF assms(1,2) _ assms(3) p] Inr z by simp
  show ?thesis
  proof (cases p)
    case (Inl e)
    with assms(4) \<open>prepare_submission _ _ _ _ = Inr z\<close> z p g show ?thesis by (simp add: submit_execution_def bind_outcome_def)
  next
    case (Inr x)
    obtain rt2 u where u: "publish_job E now ''AGENT_REQUESTED'' x (aj_execution_id j) rt1 = (rt2, u)" by force
    have "rt' = rt2"
      using assms(4) \<open>prepare_submission _ _ _ _ = Inr z\<close> z p Inr u by (cases u) (simp_all add: submit_execution_def bind_outcome_def)
    with publishes_run [OF good_run_wf [OF g] u] g show ?thesis using good_run_trans by blast
  qed
qed

lemma execute_request_runs:
  assumes "collision_free (sr_hash E) Q" "runtime_wf E Q rt" "length w \<le> 128" "q \<in> Q" "execute_request E w now q ts rt = (rt', r)"
  shows "good_run E Q rt rt'"
proof -
  obtain rt1 p where p: "submit_execution E now q rt = (rt1, p)" by force
  have g: "good_run E Q rt rt1" using submit_execution_runs [OF assms(1,2,4) p] .
  show ?thesis
  proof (cases p)
    case (Inr j)
    with assms(5) p have "execution_loop E w (aj_execution_id j) ts rt1 = (rt', r)" by (simp add: execute_request_def bind_outcome_def)
    from execution_loop_runs [OF good_run_wf [OF g] assms(3) this] g show ?thesis using good_run_trans by blast
  qed (use assms(5) p g in \<open>simp add: execute_request_def bind_outcome_def\<close>)
qed

lemma gather_runs:
  assumes "collision_free (sr_hash E) Q" "runtime_wf E Q rt" "\<And>q. length (fst (plan q)) \<le> 128" "set qs \<subseteq> Q" "gather_executions E plan qs rt = (rt', rs)"
  shows "good_run E Q rt rt'"
  using assms(2,4,5)
proof (induction qs arbitrary: rt rs)
  case (Cons q qs)
  obtain w now ts where plan: "plan q = (w, now, ts)" by (metis prod_cases3)
  obtain rt1 r where r: "execute_request E w now q ts rt = (rt1, r)" by force
  obtain rt2 rs' where rs: "gather_executions E plan qs rt1 = (rt2, rs')" by force
  have "length w \<le> 128" using assms(3) [of q] plan by simp
  have "q \<in> Q" using Cons.prems(2) by simp
  from execute_request_runs [OF assms(1) Cons.prems(1) \<open>length w \<le> 128\<close> this r] have g: "good_run E Q rt rt1" .
  with Cons.IH [OF good_run_wf [OF g] _ _] Cons.prems(2,3) plan r rs show ?case by (auto intro: good_run_trans)
qed (simp add: good_run_refl)

lemma execute_many_runs:
  assumes "collision_free (sr_hash E) Q" "runtime_wf E Q rt" "\<And>q. length (fst (plan q)) \<le> 128" "set qs \<subseteq> Q" "execute_many E plan qs rt = (rt', r)"
  shows "good_run E Q rt rt'"
  using gather_runs [OF assms(1,2,3,4)] assms(5) by (auto simp: execute_many_def split: prod.splits)

lemma worker_once_runs:
  assumes "runtime_wf E Q rt" "length w \<le> 128" "worker_once E w l t rt = (rt', r)"
  shows "good_run E Q rt rt'"
proof -
  obtain rt1 claimed where c: "on_queue (queue_claim_next (rt_durable rt) (tn_claim t) w l) rt = (rt1, claimed)" by force
  note claim = claims_next_run [OF assms(1,2) c]
  show ?thesis
  proof (cases "\<exists>j. claimed = Inr (Some j)")
    case True
    then obtain j where j: "claimed = Inr (Some j)" by blast
    obtain rt2 p where p: "execute_claimed E w t j rt1 = (rt2, p)" by force
    have "rt' = rt2" using assms(3) c j p by (cases p) (simp_all add: worker_once_def bind_outcome_def)
    with execute_claimed_runs [OF good_run_wf [OF claim(1)] claim(2) [OF j] p] claim(1) show ?thesis using good_run_trans by blast
  next
    case False
    with assms(3) c claim(1) show ?thesis by (auto simp: worker_once_def bind_outcome_def split: sum.splits option.splits)
  qed
qed

lemma worker_run_runs:
  assumes "runtime_wf E Q rt" "length w \<le> 128" "worker_run E w l ts rt = (rt', r)"
  shows "good_run E Q rt rt'"
  using assms(1,3)
proof (induction ts arbitrary: rt)
  case (Cons t ts)
  obtain rt1 p where p: "worker_once E w l t rt = (rt1, p)" by force
  have g: "good_run E Q rt rt1" using worker_once_runs [OF Cons.prems(1) assms(2) p] .
  from Cons.prems(2) p have "rt' = rt1 \<or> worker_run E w l ts rt1 = (rt', r)" by (auto split: sum.splits if_splits)
  with Cons.IH [OF good_run_wf [OF g]] g show ?case using good_run_trans by blast
qed (simp add: good_run_refl)

section \<open>Histories\<close>

text \<open>
  One step of a history: this process executes a request or lets its worker run, the registry is changed, or
  another process calls the durable queue.
\<close>

inductive runtime_step :: "surroundings \<Rightarrow> agent_request set \<Rightarrow> agent_runtime \<Rightarrow> agent_runtime \<Rightarrow> bool" for E Q where
  rt_execute [step_intros]: "length w \<le> 128 \<Longrightarrow> q \<in> Q \<Longrightarrow> execute_request E w now q ts rt = (rt', r) \<Longrightarrow> runtime_step E Q rt rt'"
| rt_many [step_intros]:
    "(\<And>q. length (fst (plan q)) \<le> 128) \<Longrightarrow> set qs \<subseteq> Q \<Longrightarrow> execute_many E plan qs rt = (rt', b) \<Longrightarrow>
     runtime_step E Q rt rt'"
| rt_worker [step_intros]: "length w \<le> 128 \<Longrightarrow> worker_run E w l ts rt = (rt', r) \<Longrightarrow> runtime_step E Q rt rt'"
| rt_registry [step_intros]: "agents_named r \<Longrightarrow> runtime_step E Q rt (rt\<lparr>rt_registry := r\<rparr>)"
| rt_foreign [step_intros]:
    "rt_durable rt \<Longrightarrow> admissible (rt_store rt) call \<Longrightarrow> store_identified (sr_hash E) Q (queue_run True call (rt_store rt)) \<Longrightarrow>
     runtime_step E Q rt (rt\<lparr>rt_store := queue_run True call (rt_store rt)\<rparr>)"

lemma runtime_step_good:
  assumes "collision_free (sr_hash E) Q" "runtime_step E Q rt rt'" "runtime_wf E Q rt"
  shows "good_run E Q rt rt'"
  using assms(2)
proof cases
  case (rt_execute w now q ts r)
  with execute_request_runs assms(1,3) show ?thesis by blast
next
  case (rt_many plan qs b)
  with execute_many_runs assms(1,3) show ?thesis by blast
next
  case (rt_worker w l ts r)
  with worker_run_runs assms(3) show ?thesis by blast
next
  case (rt_registry r)
  with assms(3) show ?thesis by (simp add: good_run_def runtime_wf_def)
next
  case (rt_foreign call)
  have "queue_wf True (rt_store rt)" using assms(3) rt_foreign(2) by (simp add: runtime_wf_def)
  from queue_call_step [OF this rt_foreign(3)] rt_foreign assms(3) show ?thesis
    by (intro good_run_step) (simp_all add: runtime_wf_def)
qed

lemma runtime_steps_good:
  assumes "collision_free (sr_hash E) Q" "(runtime_step E Q)\<^sup>*\<^sup>* rt rt'" "runtime_wf E Q rt"
  shows "good_run E Q rt rt'"
  using assms(2,3)
  by (induction rule: rtranclp_induct) (auto intro: good_run_refl good_run_trans dest: good_run_wf runtime_step_good [OF assms(1)])

lemma empty_store_wf: "queue_wf durable (empty_agent_store\<lparr>fs_faults := x\<rparr>)" "store_identified H Q (empty_agent_store\<lparr>fs_faults := x\<rparr>)"
  by (simp_all add: queue_wf_def empty_agent_store_def evidence_ok_def evidence_of_def key_index_ok_def listed_def store_identified_def)

lemma runtime_trace:
  assumes "runtime_wf E Q rt" "dict_get (gx_jobs (rt_store rt)) i = Some j"
  obtains t where "trace_of i (rt_store rt) = Inr (Some t)" "tr_job t = j" "valid_agent_trace t"
    "evidence_of (rt_store rt) i = Some (j, tr_attempts t, tr_memory t)" "entry_ok i (j, tr_attempts t, tr_memory t)"
proof -
  have x: "evidence_of (rt_store rt) i = Some (j, listed (gx_attempts (rt_store rt)) i, listed (gx_memory (rt_store rt)) i)"
    using assms(2) by (simp add: evidence_of_def)
  have ok: "entry_ok i (j, listed (gx_attempts (rt_store rt)) i, listed (gx_memory (rt_store rt)) i)"
    using queue_entry assms by (auto simp: runtime_wf_def)
  from entry_ok_trace [OF x ok] x ok that show thesis by fastforce
qed

section \<open>A concrete execution\<close>

definition sample_agent_class :: agent_class where
  "sample_agent_class =
     \<lparr>ba_name = ''EchoAgent'', ba_version = ''1.0.0'', ba_description = ''echo'', ba_required_inputs = [''candles''],
      ba_capabilities = [''echo''], ba_decision_role = PRIMARY, ba_critical = False, ba_timeout_ms = 1000, ba_max_attempts = 2\<rparr>"

definition sample_agent_request :: agent_request where
  "sample_agent_request =
     \<lparr>ax_agent_version = ''1.0.0'', ax_idempotency_key = Some ''r1'',
      ax_input = \<lparr>ai_request_id = ''r1'', ai_correlation_id = ''c1'', ai_agent_name = ''EchoAgent'', ai_timestamp = 0,
        ai_symbol = ''BTCUSDT'', ai_timeframe = ''1m'', ai_market_context = [], ai_config = []\<rparr>\<rparr>"

definition sample_agent_output :: agent_output where
  "sample_agent_output =
     \<lparr>ao_agent_name = ''EchoAgent'', ao_status = AsCOMPLETED, ao_signal = SigBUY, ao_confidence = 70, ao_reason = ''echo'',
      ao_evidence = [], ao_warnings = [], ao_latency_ms = 0, ao_created_at = 0\<rparr>"

definition sample_surroundings :: surroundings where
  "sample_surroundings =
     \<lparr>sr_hash = (\<lambda>_. replicate 64 CHR ''a''), sr_transport = (\<lambda>_. Inr ''b''), sr_fails = (\<lambda>_ _. False), sr_message_id = id\<rparr>"

definition agent_turn_at :: "time \<Rightarrow> analysis \<Rightarrow> agent_turn" where
  "agent_turn_at t x = \<lparr>tn_poll = t, tn_claim = t, tn_done = t, tn_finish = t, tn_answer = (x, 5)\<rparr>"

definition sample_idle_bus :: event_bus where
  "sample_idle_bus =
     \<lparr>eb_subscribers = [], eb_journal = False, eb_transport = False, eb_transport_required = False, eb_max_processed = 1,
      eb_processed = [], eb_store = \<lparr>es_journal = [], es_outbox = [], es_faults = []\<rparr>, eb_delivered = [], eb_dead_lettered = [],
      eb_sent = []\<rparr>"

definition sample_runtime :: agent_runtime where
  "sample_runtime =
     \<lparr>rt_registry = \<lparr>ry_agents = [(''EchoAgent'', new_agent sample_agent_class)], ry_history = []\<rparr>, rt_durable = True,
      rt_store = empty_agent_store, rt_publishes = False, rt_bus = sample_idle_bus, rt_lease_seconds = 30, rt_retry_base = flt 1,
      rt_retry_max = flt 30\<rparr>"

text \<open>The request runs into the timeout once, is retried after the delay and completes; then the registry changes.\<close>

definition sample_executed :: agent_runtime where
  "sample_executed =
     fst (execute_request sample_surroundings ''w'' 0 sample_agent_request
       [agent_turn_at 1 TimedOut, agent_turn_at 500 TimedOut, agent_turn_at 2000000 (Answered sample_agent_output),
        agent_turn_at 2000001 TimedOut] sample_runtime)"

definition sample_execution_id :: string where
  "sample_execution_id = replicate 64 CHR ''a''"

definition sample_stored_job :: agent_job where
  "sample_stored_job = the (dict_get (gx_jobs (rt_store sample_executed)) sample_execution_id)"

definition sample_submission :: "agent_job \<times> memory_entry" where
  "sample_submission =
     (case prepare_submission (sr_hash sample_surroundings) 0 sample_agent_request (rt_registry sample_runtime) of Inr p \<Rightarrow> p)"

lemma sample_new_entry: "new_entry (aj_execution_id (fst sample_submission)) (fst sample_submission) (snd sample_submission)"
  by code_simp

lemma sample_execution_stored: "dict_get (gx_jobs (rt_store sample_executed)) sample_execution_id \<noteq> None"
  by code_simp

lemma sample_execution_completed: "aj_status sample_stored_job = JobCOMPLETED \<and> aj_attempt_count sample_stored_job = 2"
  by code_simp

section \<open>The properties\<close>

text \<open>
  C37. The in-memory and the durable queue implement the machine over evidence. Seen as evidence, every call
  of either queue with admissible arguments, whatever the database does, is one step of the machine (a new
  execution, a lease, one finished attempt) or changes nothing, and the store stays well formed.
\<close>

theorem agent_queues_implement_evidence:
  assumes "queue_wf durable d" "admissible d call"
  shows "queue_wf durable (queue_run durable call d) \<and>
    (evidence_of (queue_run durable call d) = evidence_of d \<or>
     evidence_step (evidence_of d) (evidence_of (queue_run durable call d)))"
  using queue_call_step [OF assms] by auto

theorem agent_queues_implement_evidence_witness:
  "queue_wf True (queue_run True (QCreate (fst sample_submission) (snd sample_submission)) empty_agent_store) \<and>
    (evidence_of (queue_run True (QCreate (fst sample_submission) (snd sample_submission)) empty_agent_store) =
       evidence_of empty_agent_store \<or>
     evidence_step (evidence_of empty_agent_store)
       (evidence_of (queue_run True (QCreate (fst sample_submission) (snd sample_submission)) empty_agent_store)))"
proof (rule agent_queues_implement_evidence)
  show "queue_wf True empty_agent_store" using empty_store_wf(1) [of True "[]"] by (simp add: empty_agent_store_def)
  show "admissible empty_agent_store (QCreate (fst sample_submission) (snd sample_submission))"
    using sample_new_entry by (simp add: same_identity_def empty_agent_store_def)
qed

text \<open>
  C38. The evidence of agent executions is kept. Start from empty tables and take any history of executions,
  worker turns, registry changes and calls of other processes, with any failures of the database, the broker and
  the agents. Every stored execution can be read back as a valid trace with contiguous attempts, no more of
  them than its maximum, and its terminal output is that of its last attempt. In every continuation the trace
  only grows, and an execution that is terminal never changes again. The hash is assumed
  not to collide on the requests of the history.
\<close>

theorem agent_evidence_is_kept:
  assumes "collision_free (sr_hash E) Q" "agents_named (rt_registry rt)" "rt_store rt = empty_agent_store\<lparr>fs_faults := faults\<rparr>"
    "(runtime_step E Q)\<^sup>*\<^sup>* rt rt1" "(runtime_step E Q)\<^sup>*\<^sup>* rt1 rt2" "dict_get (gx_jobs (rt_store rt1)) i = Some j"
  shows "\<exists>t t2. trace_of i (rt_store rt1) = Inr (Some t) \<and> valid_agent_trace t \<and> tr_job t = j \<and>
      int (length (tr_attempts t)) \<le> aj_max_attempts j \<and>
      (job_terminal (aj_status j) \<longrightarrow> tr_attempts t \<noteq> [] \<and> aj_output j = Some (aa_output (last (tr_attempts t)))) \<and>
      trace_of i (rt_store rt2) = Inr (Some t2) \<and> prefix (tr_attempts t) (tr_attempts t2) \<and> prefix (tr_memory t) (tr_memory t2) \<and>
      (job_terminal (aj_status j) \<longrightarrow> t2 = t)"
proof -
  have "runtime_wf E Q rt" using assms(2,3) empty_store_wf by (simp add: runtime_wf_def)
  from runtime_steps_good [OF assms(1,4) this] have wf1: "runtime_wf E Q rt1" by (rule good_run_wf)
  from runtime_steps_good [OF assms(1,5) this] have g2: "good_run E Q rt1 rt2" .
  obtain t where t: "trace_of i (rt_store rt1) = Inr (Some t)" "tr_job t = j" "valid_agent_trace t"
    "evidence_of (rt_store rt1) i = Some (j, tr_attempts t, tr_memory t)" "entry_ok i (j, tr_attempts t, tr_memory t)"
    using runtime_trace [OF wf1 assms(6)] by blast
  have "evidence_extends (evidence_of (rt_store rt1)) (evidence_of (rt_store rt2))"
    using g2 evidence_steps_extend by (simp add: good_run_def)
  then obtain y where y: "evidence_of (rt_store rt2) i = Some y" "entry_extends (j, tr_attempts t, tr_memory t) y"
    using t(4) by (meson evidence_extends_def)
  obtain j2 as2 ms2 where y2: "y = (j2, as2, ms2)" by (metis prod_cases3)
  then have "dict_get (gx_jobs (rt_store rt2)) i = Some j2" using y(1) by (auto simp: evidence_of_def)
  from runtime_trace [OF good_run_wf [OF g2] this] obtain t2 where t2: "trace_of i (rt_store rt2) = Inr (Some t2)" "tr_job t2 = j2"
    "evidence_of (rt_store rt2) i = Some (j2, tr_attempts t2, tr_memory t2)" by blast
  have "t2 = t" if "job_terminal (aj_status j)"
    using that y t2(2,3) t(2) by (intro agent_trace.equality) (auto simp: entry_extends_def)
  moreover have "int (length (tr_attempts t)) \<le> aj_max_attempts j"
    using t(5) by (auto simp: entry_ok_def valid_agent_job_def split: if_splits)
  moreover have "job_terminal (aj_status j) \<longrightarrow> tr_attempts t \<noteq> [] \<and> aj_output j = Some (aa_output (last (tr_attempts t)))"
    using t(5) by (simp add: entry_ok_def)
  moreover have "prefix (tr_attempts t) (tr_attempts t2)" "prefix (tr_memory t) (tr_memory t2)"
    using y t2(3) by (auto simp: entry_extends_def)
  ultimately show ?thesis using t(1-3) t2(1) by blast
qed

theorem agent_evidence_is_kept_witness:
  "\<exists>t t2. trace_of sample_execution_id (rt_store sample_executed) = Inr (Some t) \<and> valid_agent_trace t \<and>
      tr_job t = sample_stored_job \<and> int (length (tr_attempts t)) \<le> aj_max_attempts sample_stored_job \<and>
      (job_terminal (aj_status sample_stored_job) \<longrightarrow>
         tr_attempts t \<noteq> [] \<and> aj_output sample_stored_job = Some (aa_output (last (tr_attempts t)))) \<and>
      trace_of sample_execution_id (rt_store (sample_executed\<lparr>rt_registry := \<lparr>ry_agents = [], ry_history = []\<rparr>\<rparr>)) = Inr (Some t2) \<and>
      prefix (tr_attempts t) (tr_attempts t2) \<and> prefix (tr_memory t) (tr_memory t2) \<and>
      (job_terminal (aj_status sample_stored_job) \<longrightarrow> t2 = t)"
proof (rule agent_evidence_is_kept)
  show "collision_free (sr_hash sample_surroundings) {sample_agent_request}" by (simp add: collision_free_def)
  show "agents_named (rt_registry sample_runtime)"
    by (simp add: agents_named_def sample_runtime_def new_agent_def sample_agent_class_def)
  show "rt_store sample_runtime = empty_agent_store\<lparr>fs_faults := []\<rparr>" by (simp add: sample_runtime_def empty_agent_store_def)
  have "runtime_step sample_surroundings {sample_agent_request} sample_runtime sample_executed"
    unfolding sample_executed_def by (rule rt_execute [where w = "''w''"]) (simp, simp, rule prod.collapse [symmetric])
  then show "(runtime_step sample_surroundings {sample_agent_request})\<^sup>*\<^sup>* sample_runtime sample_executed" by blast
  have "runtime_step sample_surroundings {sample_agent_request} sample_executed
      (sample_executed\<lparr>rt_registry := \<lparr>ry_agents = [], ry_history = []\<rparr>\<rparr>)"
    by (rule rt_registry) (simp add: agents_named_def)
  then show "(runtime_step sample_surroundings {sample_agent_request})\<^sup>*\<^sup>* sample_executed
      (sample_executed\<lparr>rt_registry := \<lparr>ry_agents = [], ry_history = []\<rparr>\<rparr>)" by blast
  show "dict_get (gx_jobs (rt_store sample_executed)) sample_execution_id = Some sample_stored_job"
    using sample_execution_stored by (auto simp: sample_stored_job_def)
qed

end
