(* ===== verification/Resilience.thy ===== *)
theory Resilience
  imports Governance Agents
begin

text \<open>
  Dependency health and metrics: \<^verbatim>\<open>app/operations/resilience.py\<close>, \<^verbatim>\<open>app/operations/metrics.py\<close> and the contracts of
  \<^verbatim>\<open>app/schemas/operations.py\<close>.

  The monotonic clock of the metrics is read once per call of the service and passed as \<open>clk\<close>, in seconds.
  Counters, gauges and samples are finite floats, so the checks for infinity and NaN always pass.
\<close>

section \<open>Dependency health\<close>

datatype dependency = DepDATABASE | DepAUDIT | DepRISK | DepBROKER | DepMARKET_DATA | DepSHADOW_RUNTIME

fun dependency_name :: "dependency \<Rightarrow> string" where
  "dependency_name DepDATABASE = ''DATABASE''"
| "dependency_name DepAUDIT = ''AUDIT''"
| "dependency_name DepRISK = ''RISK''"
| "dependency_name DepBROKER = ''BROKER''"
| "dependency_name DepMARKET_DATA = ''MARKET_DATA''"
| "dependency_name DepSHADOW_RUNTIME = ''SHADOW_RUNTIME''"

record dependency_state =
  dy_critical :: bool
  dy_healthy :: bool
  dy_reason :: string
  dy_successes :: int
  dy_failures :: int

record recovery_coordinator =
  rc_required :: int
  rc_dependencies :: "(dependency \<times> dependency_state) list"
  rc_latched :: bool

datatype recovery_mode = RecHEALTHY | RecDEGRADED | RecSAFE_HALT

definition new_recovery :: "int \<Rightarrow> recovery_coordinator result" where
  "new_recovery required =
     (if 2 \<le> required \<and> required \<le> 100
      then Inr \<lparr>rc_required = required,
                rc_dependencies =
                  map (\<lambda>(name, critical). (name, \<lparr>dy_critical = critical, dy_healthy = True, dy_reason = ''healthy'',
                                                  dy_successes = 0, dy_failures = 0\<rparr>))
                    [(DepDATABASE, True), (DepAUDIT, True), (DepRISK, True), (DepBROKER, False), (DepMARKET_DATA, False),
                     (DepSHADOW_RUNTIME, False)],
                rc_latched = False\<rparr>
      else raise ValueError ''Recovery confirmation must be 2..100'')"

definition observed_state :: "bool \<Rightarrow> string \<Rightarrow> dependency_state \<Rightarrow> dependency_state" where
  "observed_state healthy reason s =
     s\<lparr>dy_healthy := healthy, dy_reason := take 500 reason,
       dy_successes := (if healthy then dy_successes s + 1 else 0),
       dy_failures := (if healthy then 0 else dy_failures s + 1)\<rparr>"

definition recovered :: "int \<Rightarrow> dependency_state list \<Rightarrow> bool" where
  "recovered required states \<longleftrightarrow>
     list_all (\<lambda>s. dy_critical s \<longrightarrow> dy_healthy s \<and> required \<le> dy_successes s) states"

definition observe_health :: "dependency \<Rightarrow> bool \<Rightarrow> string \<Rightarrow> recovery_coordinator \<Rightarrow> (recovery_coordinator, dependency_state) outcome" where
  "observe_health name healthy reason rc =
     (case dict_get (rc_dependencies rc) name of
        None \<Rightarrow> (rc, raise KeyError (dependency_name name))
      | Some s \<Rightarrow>
          let s' = observed_state healthy reason s;
              dependencies = dict_set name s' (rc_dependencies rc);
              latched = rc_latched rc \<or> \<not> healthy \<and> dy_critical s'
          in (rc\<lparr>rc_dependencies := dependencies,
                 rc_latched := latched \<and> \<not> recovered (rc_required rc) (dict_values dependencies)\<rparr>, Inr s'))"

definition recovery_mode_of :: "recovery_coordinator \<Rightarrow> recovery_mode" where
  "recovery_mode_of rc =
     (let states = dict_values (rc_dependencies rc)
      in if rc_latched rc \<or> list_ex (\<lambda>s. dy_critical s \<and> \<not> dy_healthy s) states then RecSAFE_HALT
         else if list_ex (\<lambda>s. \<not> dy_critical s \<and> \<not> dy_healthy s) states then RecDEGRADED
         else RecHEALTHY)"

definition decisions_allowed :: "recovery_coordinator \<Rightarrow> bool" where
  "decisions_allowed rc \<longleftrightarrow> recovery_mode_of rc \<noteq> RecSAFE_HALT"

definition shadow_allowed :: "recovery_coordinator \<Rightarrow> bool" where
  "shadow_allowed rc \<longleftrightarrow> recovery_mode_of rc = RecHEALTHY"

section \<open>Contracts\<close>

datatype metric_kind = MetCOUNTER | MetGAUGE | MetHISTOGRAM
datatype slo_comparator = SloGTE | SloLTE
datatype slo_status = SloNO_DATA | SloHEALTHY | SloWARNING | SloBREACHED
datatype alert_event_type = AlOPENED | AlRESOLVED
datatype alert_severity = SevWARNING | SevERROR | SevCRITICAL
datatype budget_level = BudHEALTHY | BudWARNING | BudHARD_LIMIT
datatype cost_center = CostAGENT_RUNTIME | CostEXTERNAL_DATA | CostSTORAGE | CostOBSERVABILITY
datatype run_type = RunLOAD | RunCHAOS | RunRECOVERY
datatype run_environment = EnvLOCAL | EnvCI | EnvPAPER

definition dotted_char :: "char \<Rightarrow> bool" where
  "dotted_char c \<longleftrightarrow> lower_letter c \<or> is_digit c \<or> c \<in> {CHR ''_'', CHR ''.'', CHR ''-''}"

text \<open>\<^verbatim>\<open>^[a-z][a-z0-9_.-]+$\<close> with 3 to \<open>n\<close> characters.\<close>

definition dotted_name_ok :: "nat \<Rightarrow> string \<Rightarrow> bool" where
  "dotted_name_ok n s \<longleftrightarrow> 3 \<le> length s \<and> length s \<le> n \<and> lower_letter (hd s) \<and> list_all dotted_char (tl s)"

record metric_point =
  mp_name :: string
  mp_kind :: metric_kind
  mp_value :: pyfloat
  mp_sample_count :: int
  mp_labels :: "(string \<times> string) list"

definition valid_metric_point :: "metric_point \<Rightarrow> bool" where
  "valid_metric_point p \<longleftrightarrow> dotted_name_ok 128 (mp_name p) \<and> 0 \<le> mp_sample_count p \<and> length (mp_labels p) \<le> 16"

record metric_snapshot =
  sn_snapshot_id :: string
  sn_correlation_id :: string
  sn_window_seconds :: int
  sn_registered_agents :: int
  sn_active_agents :: int
  sn_metrics :: "metric_point list"
  sn_captured_at :: time

definition valid_metric_snapshot :: "metric_snapshot \<Rightarrow> bool" where
  "valid_metric_snapshot s \<longleftrightarrow>
     1 \<le> length (sn_correlation_id s) \<and> length (sn_correlation_id s) \<le> 64 \<and>
     1 \<le> sn_window_seconds s \<and> sn_window_seconds s \<le> 86400 \<and>
     0 \<le> sn_registered_agents s \<and> sn_registered_agents s \<le> 10000 \<and> 0 \<le> sn_active_agents s \<and> sn_active_agents s \<le> 10000 \<and>
     1 \<le> length (sn_metrics s) \<and> length (sn_metrics s) \<le> 512 \<and> list_all valid_metric_point (sn_metrics s) \<and>
     sn_active_agents s \<le> sn_registered_agents s \<and> distinct (map (\<lambda>p. (mp_name p, set (mp_labels p))) (sn_metrics s))"

record slo_evaluation =
  se_evaluation_id :: string
  se_slo_name :: string
  se_comparator :: slo_comparator
  se_target :: pyfloat
  se_measured :: "pyfloat option"
  se_sample_count :: int
  se_compliant :: "bool option"
  se_error_budget_remaining :: pyfloat
  se_status :: slo_status
  se_window_seconds :: int
  se_evaluated_at :: time

definition valid_slo_evaluation :: "slo_evaluation \<Rightarrow> bool" where
  "valid_slo_evaluation s \<longleftrightarrow>
     dotted_name_ok 128 (se_slo_name s) \<and> 0 \<le> se_target s \<and> (case se_measured s of None \<Rightarrow> True | Some x \<Rightarrow> 0 \<le> x) \<and>
     0 \<le> se_sample_count s \<and> 0 \<le> se_error_budget_remaining s \<and> se_error_budget_remaining s \<le> flt 100 \<and>
     1 \<le> se_window_seconds s \<and> se_window_seconds s \<le> 86400 \<and>
     (se_status s = SloNO_DATA \<longleftrightarrow> se_sample_count s = 0 \<and> se_measured s = None \<and> se_compliant s = None) \<and>
     (se_status s \<noteq> SloNO_DATA \<longrightarrow> se_sample_count s \<noteq> 0 \<and> se_measured s \<noteq> None \<and> se_compliant s \<noteq> None) \<and>
     (se_status s = SloBREACHED \<longrightarrow> se_compliant s = Some False) \<and>
     (se_status s \<in> {SloHEALTHY, SloWARNING} \<longrightarrow> se_compliant s = Some True)"

record alert_event =
  al_event_id :: string
  al_alert_key :: string
  al_sequence :: int
  al_event_type :: alert_event_type
  al_severity :: alert_severity
  al_source :: string
  al_correlation_id :: "string option"
  al_reason :: string
  al_metadata :: "(string \<times> json) list"
  al_occurred_at :: time

definition correlation_ok :: "string option \<Rightarrow> bool" where
  "correlation_ok c \<longleftrightarrow> (case c of None \<Rightarrow> True | Some s \<Rightarrow> length s \<le> 64)"

definition valid_alert_event :: "alert_event \<Rightarrow> bool" where
  "valid_alert_event a \<longleftrightarrow>
     3 \<le> length (al_alert_key a) \<and> length (al_alert_key a) \<le> 160 \<and> lower_letter (hd (al_alert_key a)) \<and>
     list_all (\<lambda>c. dotted_char c \<or> c = CHR '':'') (tl (al_alert_key a)) \<and> 1 \<le> al_sequence a \<and>
     2 \<le> length (al_source a) \<and> length (al_source a) \<le> 128 \<and> correlation_ok (al_correlation_id a) \<and>
     1 \<le> length (al_reason a) \<and> length (al_reason a) \<le> 1000"

record cost_record =
  co_usage_id :: string
  co_cost_center :: cost_center
  co_resource :: string
  co_quantity :: pyfloat
  co_unit :: string
  co_unit_cost :: pyfloat
  co_estimated_cost :: pyfloat
  co_correlation_id :: "string option"
  co_observed_at :: time

definition letter_or_digit :: "char \<Rightarrow> bool" where
  "letter_or_digit c \<longleftrightarrow> lower_letter c \<or> is_upper c \<or> is_digit c"

definition valid_cost_record :: "cost_record \<Rightarrow> bool" where
  "valid_cost_record c \<longleftrightarrow>
     2 \<le> length (co_resource c) \<and> length (co_resource c) \<le> 128 \<and> letter_or_digit (hd (co_resource c)) \<and>
     list_all (\<lambda>x. letter_or_digit x \<or> x \<in> {CHR ''.'', CHR ''_'', CHR '':'', CHR ''-''}) (tl (co_resource c)) \<and>
     0 < co_quantity c \<and> 1 \<le> length (co_unit c) \<and> length (co_unit c) \<le> 32 \<and>
     (lower_letter (hd (co_unit c)) \<or> is_upper (hd (co_unit c))) \<and>
     list_all (\<lambda>x. letter_or_digit x \<or> x \<in> {CHR ''_'', CHR ''-''}) (tl (co_unit c)) \<and>
     0 \<le> co_unit_cost c \<and> 0 \<le> co_estimated_cost c \<and> correlation_ok (co_correlation_id c) \<and>
     (let expected = co_quantity c * co_unit_cost c
      in \<bar>co_estimated_cost c - expected\<bar> \<le> max (flt (1 / 10 ^ 9)) (\<bar>expected\<bar> * flt (1 / 10 ^ 6)))"

record cost_budget =
  cb_daily_budget :: pyfloat
  cb_spent :: pyfloat
  cb_remaining :: pyfloat
  cb_utilization :: pyfloat
  cb_warning_percent :: pyfloat
  cb_status :: budget_level
  cb_shadow_admission_allowed :: bool

definition valid_cost_budget :: "cost_budget \<Rightarrow> bool" where
  "valid_cost_budget b \<longleftrightarrow>
     0 < cb_daily_budget b \<and> 0 \<le> cb_spent b \<and> 0 \<le> cb_remaining b \<and> 0 \<le> cb_utilization b \<and>
     0 < cb_warning_percent b \<and> cb_warning_percent b < flt 100 \<and>
     \<bar>cb_remaining b - max 0 (cb_daily_budget b - cb_spent b)\<bar> \<le> flt (1 / 10 ^ 6) \<and>
     (cb_status b = BudHARD_LIMIT \<longleftrightarrow> \<not> cb_shadow_admission_allowed b)"

record resilience_run =
  rr_run_id :: string
  rr_run_type :: run_type
  rr_scenario :: string
  rr_passed :: bool
  rr_environment :: run_environment
  rr_target_agents :: int
  rr_executed_agents :: int
  rr_duration_ms :: pyfloat
  rr_throughput :: pyfloat
  rr_p95_latency_ms :: pyfloat
  rr_error_rate :: pyfloat
  rr_recovery_time_ms :: "pyfloat option"
  rr_invariants :: "(string \<times> bool) list"
  rr_started_at :: time
  rr_completed_at :: time

definition valid_resilience_run :: "resilience_run \<Rightarrow> bool" where
  "valid_resilience_run r \<longleftrightarrow>
     dotted_name_ok 160 (rr_scenario r) \<and> 0 \<le> rr_target_agents r \<and> rr_target_agents r \<le> 10000 \<and>
     0 \<le> rr_executed_agents r \<and> rr_executed_agents r \<le> 10000 \<and> 0 \<le> rr_duration_ms r \<and> 0 \<le> rr_throughput r \<and>
     0 \<le> rr_p95_latency_ms r \<and> 0 \<le> rr_error_rate r \<and> rr_error_rate r \<le> 1 \<and>
     (case rr_recovery_time_ms r of None \<Rightarrow> True | Some x \<Rightarrow> 0 \<le> x) \<and>
     1 \<le> length (rr_invariants r) \<and> length (rr_invariants r) \<le> 64 \<and> rr_started_at r \<le> rr_completed_at r \<and>
     (rr_target_agents r \<noteq> 0 \<longrightarrow> rr_executed_agents r \<le> rr_target_agents r) \<and>
     rr_passed r = list_all snd (rr_invariants r)"

section \<open>Metrics\<close>

text \<open>A \<^verbatim>\<open>deque(maxlen=n)\<close> drops its oldest element when it is full.\<close>

definition push_bounded :: "nat \<Rightarrow> 'a \<Rightarrow> 'a list \<Rightarrow> 'a list" where
  "push_bounded n x xs = drop (length xs + 1 - n) (xs @ [x])"

definition extend_bounded :: "nat \<Rightarrow> 'a list \<Rightarrow> 'a list \<Rightarrow> 'a list" where
  "extend_bounded n ys xs = fold (push_bounded n) ys xs"

type_synonym samples = "(pyfloat \<times> pyfloat) list"

record metric_registry =
  mr_capacity :: nat
  mr_counters :: "pyfloat dict"
  mr_counter_events :: "samples dict"
  mr_gauges :: "pyfloat dict"
  mr_histograms :: "samples dict"

definition new_metric_registry :: "int \<Rightarrow> metric_registry result" where
  "new_metric_registry capacity =
     (if 100 \<le> capacity \<and> capacity \<le> 1000000
      then Inr \<lparr>mr_capacity = nat capacity, mr_counters = [], mr_counter_events = [], mr_gauges = [], mr_histograms = []\<rparr>
      else raise ValueError ''Metric sample capacity must be 100..1000000'')"

definition samples_of :: "samples dict \<Rightarrow> string \<Rightarrow> samples" where
  "samples_of d name = (case dict_get d name of None \<Rightarrow> [] | Some xs \<Rightarrow> xs)"

definition increment :: "pyfloat \<Rightarrow> string \<Rightarrow> pyfloat \<Rightarrow> metric_registry \<Rightarrow> metric_registry result" where
  "increment clk name amount m =
     (if amount < 0 then raise ValueError ''Counter increments must be finite and nonnegative''
      else Inr (m\<lparr>mr_counters :=
                    dict_set name ((case dict_get (mr_counters m) name of None \<Rightarrow> 0 | Some x \<Rightarrow> x) + amount) (mr_counters m),
                  mr_counter_events :=
                    dict_set name (push_bounded (mr_capacity m) (clk, amount) (samples_of (mr_counter_events m) name))
                      (mr_counter_events m)\<rparr>))"

definition gauge :: "string \<Rightarrow> pyfloat \<Rightarrow> metric_registry \<Rightarrow> metric_registry" where
  "gauge name x m = m\<lparr>mr_gauges := dict_set name x (mr_gauges m)\<rparr>"

definition observe_sample :: "pyfloat \<Rightarrow> string \<Rightarrow> pyfloat \<Rightarrow> metric_registry \<Rightarrow> metric_registry" where
  "observe_sample clk name x m =
     m\<lparr>mr_histograms :=
         dict_set name (push_bounded (mr_capacity m) (clk, x) (samples_of (mr_histograms m) name)) (mr_histograms m)\<rparr>"

definition in_window :: "pyfloat \<Rightarrow> int option \<Rightarrow> samples \<Rightarrow> pyfloat list" where
  "in_window clk window xs =
     map snd (filter (\<lambda>(t, x). case window of None \<Rightarrow> True | Some w \<Rightarrow> clk - flt (of_int w) \<le> t) xs)"

definition counter :: "pyfloat \<Rightarrow> string \<Rightarrow> int option \<Rightarrow> metric_registry \<Rightarrow> pyfloat" where
  "counter clk name window m =
     (case window of
        None \<Rightarrow> (case dict_get (mr_counters m) name of None \<Rightarrow> 0 | Some x \<Rightarrow> x)
      | Some _ \<Rightarrow> py_sum (in_window clk window (samples_of (mr_counter_events m) name)))"

text \<open>The nearest rank: element \<^verbatim>\<open>ceil(p * n) - 1\<close> of the sorted values, kept inside the list.\<close>

definition percentile :: "pyfloat list \<Rightarrow> pyfloat \<Rightarrow> pyfloat" where
  "percentile values p =
     (if values = [] then 0
      else let n = int (length values)
           in sort values ! nat (max 0 (min (n - 1) (py_ceil (p * flt (of_int n)) - 1))))"

record metric_summary =
  ms_count :: int
  ms_total :: pyfloat
  ms_average :: pyfloat
  ms_p95 :: pyfloat
  ms_maximum :: pyfloat

definition summary :: "pyfloat \<Rightarrow> string \<Rightarrow> int option \<Rightarrow> metric_registry \<Rightarrow> metric_summary" where
  "summary clk name window m =
     (let values = in_window clk window (samples_of (mr_histograms m) name)
      in if values = [] then \<lparr>ms_count = 0, ms_total = 0, ms_average = 0, ms_p95 = 0, ms_maximum = 0\<rparr>
         else \<lparr>ms_count = int (length values), ms_total = py_sum values,
               ms_average = py_sum values / flt (of_int (int (length values))), ms_p95 = percentile values (flt (95 / 100)),
               ms_maximum = Max (set values)\<rparr>)"

definition point :: "string \<Rightarrow> metric_kind \<Rightarrow> pyfloat \<Rightarrow> int \<Rightarrow> metric_point" where
  "point name kind x n = \<lparr>mp_name = name, mp_kind = kind, mp_value = x, mp_sample_count = n, mp_labels = []\<rparr>"

definition metric_points :: "pyfloat \<Rightarrow> int \<Rightarrow> metric_registry \<Rightarrow> metric_point list" where
  "metric_points clk window m =
     (let counters =
            map (\<lambda>name. let x = counter clk name (Some window) m in point name MetCOUNTER (py_round x 8) \<lfloor>fval x\<rfloor>)
              (sort (map fst (mr_counters m)));
          gauges = map (\<lambda>name. point name MetGAUGE (py_round (the (dict_get (mr_gauges m) name)) 8) 1) (sort (map fst (mr_gauges m)));
          histograms =
            concat (map (\<lambda>name. let s = summary clk name (Some window) m
                                in map (\<lambda>(suffix, x). point (name @ ''.'' @ suffix) MetHISTOGRAM (py_round x 8) (ms_count s))
                                     [(''avg'', ms_average s), (''p95'', ms_p95 s), (''max'', ms_maximum s)])
                     (sort (map fst (mr_histograms m))))
      in counters @ gauges @ histograms)"

definition metric_snapshot_of ::
  "time \<Rightarrow> pyfloat \<Rightarrow> string \<Rightarrow> string \<Rightarrow> int \<Rightarrow> int \<Rightarrow> int \<Rightarrow> metric_registry \<Rightarrow> metric_snapshot result" where
  "metric_snapshot_of now clk fresh correlation_id window registered active m =
     bind_result (map_result (validate valid_metric_point) (metric_points clk window m)) (\<lambda>points.
       validate valid_metric_snapshot
         \<lparr>sn_snapshot_id = fresh, sn_correlation_id = correlation_id, sn_window_seconds = window,
          sn_registered_agents = registered, sn_active_agents = active,
          sn_metrics = (if points = [] then [point ''operations.started'' MetGAUGE 1 1] else points), sn_captured_at = now\<rparr>)"

end
