(* ===== verification/Operations.thy ===== *)
theory Operations
  imports Resilience
begin

text \<open>
  Operations monitoring, \<^verbatim>\<open>app/operations/service.py\<close>, with its append-only tables: metrics, service level
  objectives, the alert life cycle, the cost budget, the admission of agents and the monitor loop.

  \<open>fresh\<close> gives the \<^verbatim>\<open>uuid4\<close> of the record a call creates, per name of what it is created for. The text of a
  reason leaves out the numbers it prints. The lock around alerts has no counterpart: calls are not interleaved.
\<close>

section \<open>Tables\<close>

record operations_store = faulty +
  os_snapshots :: "metric_snapshot dict"
  os_slos :: "slo_evaluation dict"
  os_alerts :: "alert_event dict"
  os_costs :: "cost_record dict"
  os_runs :: "resilience_run dict"

definition save_operational_metric_snapshot ::
  "metric_snapshot \<Rightarrow> operations_store \<Rightarrow> (operations_store, metric_snapshot) outcome" where
  "save_operational_metric_snapshot s =
     fs_transaction (\<lambda>d.
       bind_result (append_artifact ''operational metric snapshot''
           (0 \<le> sn_registered_agents s \<and> 0 \<le> sn_active_agents s \<and> sn_active_agents s \<le> sn_registered_agents s)
           (sn_snapshot_id s) s (os_snapshots d))
         (\<lambda>(rows, stored). Inr (d\<lparr>os_snapshots := rows\<rparr>, stored)))"

fun append_slos :: "slo_evaluation list \<Rightarrow> operations_store \<Rightarrow> (operations_store \<times> slo_evaluation list) result" where
  "append_slos [] d = Inr (d, [])"
| "append_slos (x # xs) d =
     bind_result (append_artifact ''SLO evaluation'' (0 \<le> se_sample_count x) (se_evaluation_id x) x (os_slos d)) (\<lambda>(rows, stored).
     bind_result (append_slos xs (d\<lparr>os_slos := rows\<rparr>)) (\<lambda>(d', rest). Inr (d', stored # rest)))"

definition save_slo_evaluations ::
  "slo_evaluation list \<Rightarrow> operations_store \<Rightarrow> (operations_store, slo_evaluation list) outcome" where
  "save_slo_evaluations xs d = (if xs = [] then (d, Inr []) else fs_transaction (append_slos xs) d)"

definition alert_row_ok :: "alert_event dict \<Rightarrow> alert_event \<Rightarrow> bool" where
  "alert_row_ok rows a \<longleftrightarrow>
     1 \<le> al_sequence a \<and>
     \<not> list_ex (\<lambda>x. al_alert_key x = al_alert_key a \<and> al_sequence x = al_sequence a) (dict_values rows)"

definition save_operational_alert_event :: "alert_event \<Rightarrow> operations_store \<Rightarrow> (operations_store, alert_event) outcome" where
  "save_operational_alert_event a =
     fs_transaction (\<lambda>d.
       bind_result (append_artifact ''operational alert event'' (alert_row_ok (os_alerts d) a) (al_event_id a) a (os_alerts d))
         (\<lambda>(rows, stored). Inr (d\<lparr>os_alerts := rows\<rparr>, stored)))"

definition save_cost_usage_record :: "cost_record \<Rightarrow> operations_store \<Rightarrow> (operations_store, cost_record) outcome" where
  "save_cost_usage_record c =
     fs_transaction (\<lambda>d.
       bind_result (append_artifact ''cost usage record'' (0 \<le> co_estimated_cost c) (co_usage_id c) c (os_costs d))
         (\<lambda>(rows, stored). Inr (d\<lparr>os_costs := rows\<rparr>, stored)))"

definition save_resilience_test_run :: "resilience_run \<Rightarrow> operations_store \<Rightarrow> (operations_store, resilience_run) outcome" where
  "save_resilience_test_run r =
     fs_transaction (\<lambda>d.
       bind_result (append_artifact ''resilience test run'' True (rr_run_id r) r (os_runs d))
         (\<lambda>(rows, stored). Inr (d\<lparr>os_runs := rows\<rparr>, stored)))"

definition list_operational_metric_snapshots :: "int \<Rightarrow> operations_store \<Rightarrow> metric_snapshot list result" where
  "list_operational_metric_snapshots limit d =
     list_limit ''Operational snapshot'' limit (newest_first sn_captured_at sn_snapshot_id (dict_values (os_snapshots d)))"

definition list_slo_evaluations :: "int \<Rightarrow> operations_store \<Rightarrow> slo_evaluation list result" where
  "list_slo_evaluations limit d =
     list_limit ''SLO evaluation'' limit (newest_first se_evaluated_at se_evaluation_id (dict_values (os_slos d)))"

definition list_operational_alert_events :: "int \<Rightarrow> operations_store \<Rightarrow> alert_event list result" where
  "list_operational_alert_events limit d =
     list_limit ''Operational alert'' limit (newest_first al_occurred_at al_event_id (dict_values (os_alerts d)))"

definition list_cost_usage_records :: "int \<Rightarrow> operations_store \<Rightarrow> cost_record list result" where
  "list_cost_usage_records limit d =
     list_limit ''Cost usage'' limit (newest_first co_observed_at co_usage_id (dict_values (os_costs d)))"

definition list_resilience_test_runs :: "int \<Rightarrow> operations_store \<Rightarrow> resilience_run list result" where
  "list_resilience_test_runs limit d =
     list_limit ''Resilience run'' limit (newest_first rr_completed_at rr_run_id (dict_values (os_runs d)))"

section \<open>The service\<close>

record operations_settings =
  ot_metric_capacity :: int
  ot_window_seconds :: int
  ot_daily_budget :: pyfloat
  ot_warning_percent :: pyfloat
  ot_unit_cost :: pyfloat
  ot_agent_success :: pyfloat
  ot_agent_latency :: pyfloat
  ot_orchestrator_success :: pyfloat
  ot_orchestrator_latency :: pyfloat
  ot_recovery_successes :: int

record operations =
  op_settings :: operations_settings
  op_repository :: "operations_store option"
  op_metrics :: metric_registry
  op_recovery :: recovery_coordinator
  op_snapshots :: "metric_snapshot list"
  op_slos :: "slo_evaluation list"
  op_alerts :: "alert_event list"
  op_costs :: "cost_record list"
  op_runs :: "resilience_run list"
  op_active :: "alert_event dict"
  op_sequences :: "int dict"

definition success_target_ok :: "pyfloat \<Rightarrow> bool" where
  "success_target_ok x \<longleftrightarrow> flt (1 / 2) \<le> x \<and> x \<le> 1"

definition new_operations :: "operations_settings \<Rightarrow> operations_store option \<Rightarrow> operations result" where
  "new_operations c repo =
     (if \<not> (10 \<le> ot_window_seconds c \<and> ot_window_seconds c \<le> 86400)
      then raise ValueError ''Operational window must be 10..86400 seconds''
      else if ot_daily_budget c \<le> 0 then raise ValueError ''Daily operational budget must be positive''
      else if \<not> (1 \<le> ot_warning_percent c \<and> ot_warning_percent c < flt 100)
      then raise ValueError ''Budget warning percent must be 1..<100''
      else if ot_unit_cost c < 0 then raise ValueError ''Agent execution unit cost cannot be negative''
      else if \<not> (success_target_ok (ot_agent_success c) \<and> success_target_ok (ot_orchestrator_success c))
      then raise ValueError ''Success SLO target must be 0.5..1''
      else bind_result (new_metric_registry (ot_metric_capacity c)) (\<lambda>m.
           bind_result (new_recovery (ot_recovery_successes c)) (\<lambda>rc.
             Inr \<lparr>op_settings = c, op_repository = repo, op_metrics = m, op_recovery = rc, op_snapshots = [], op_slos = [],
                  op_alerts = [], op_costs = [], op_runs = [], op_active = [], op_sequences = []\<rparr>)))"

definition sequence_of :: "int dict \<Rightarrow> string \<Rightarrow> int" where
  "sequence_of d key = (case dict_get d key of None \<Rightarrow> 0 | Some n \<Rightarrow> n)"

definition replay_alert :: "alert_event \<Rightarrow> operations \<Rightarrow> operations" where
  "replay_alert a o1 =
     o1\<lparr>op_alerts := push_bounded 5000 a (op_alerts o1),
        op_sequences := dict_set (al_alert_key a) (max (sequence_of (op_sequences o1) (al_alert_key a)) (al_sequence a)) (op_sequences o1),
        op_active := (if al_event_type a = AlOPENED then dict_set (al_alert_key a) a (op_active o1)
                      else dict_pop (al_alert_key a) (op_active o1))\<rparr>"

definition operations_initialize :: "operations \<Rightarrow> (operations, unit) outcome" where
  "operations_initialize o1 =
     (case op_repository o1 of
        None \<Rightarrow> (o1, Inr ())
      | Some d \<Rightarrow>
          (case bind_result (list_operational_metric_snapshots 1000 d) (\<lambda>snapshots.
                bind_result (list_slo_evaluations 5000 d) (\<lambda>slos.
                bind_result (list_operational_alert_events 5000 d) (\<lambda>alerts.
                bind_result (list_cost_usage_records 100000 d) (\<lambda>costs.
                bind_result (list_resilience_test_runs 1000 d) (\<lambda>runs. Inr (snapshots, slos, alerts, costs, runs)))))) of
             Inl e \<Rightarrow> (o1, Inl e)
           | Inr (snapshots, slos, alerts, costs, runs) \<Rightarrow>
               (fold replay_alert (rev alerts)
                  (o1\<lparr>op_snapshots := extend_bounded 1000 (rev snapshots) (op_snapshots o1),
                      op_slos := extend_bounded 5000 (rev slos) (op_slos o1),
                      op_costs := extend_bounded 100000 (rev costs) (op_costs o1),
                      op_runs := extend_bounded 1000 (rev runs) (op_runs o1)\<rparr>), Inr ())))"

section \<open>Budget and admission\<close>

definition utc_day :: "time \<Rightarrow> int" where
  "utc_day t = t div 86400000000"

definition spent_on :: "int \<Rightarrow> cost_record list \<Rightarrow> pyfloat" where
  "spent_on day costs = py_sum (map co_estimated_cost (filter (\<lambda>c. utc_day (co_observed_at c) = day) costs))"

definition budget_status :: "int \<Rightarrow> operations \<Rightarrow> cost_budget result" where
  "budget_status day o1 =
     (let c = op_settings o1; spent = spent_on day (op_costs o1); utilization = spent / ot_daily_budget c * flt 100;
          status = (if flt 100 \<le> utilization then BudHARD_LIMIT
                    else if ot_warning_percent c \<le> utilization then BudWARNING else BudHEALTHY)
      in validate valid_cost_budget
           \<lparr>cb_daily_budget = ot_daily_budget c, cb_spent = py_round spent 8,
            cb_remaining = py_round (max 0 (ot_daily_budget c - spent)) 8, cb_utilization = py_round utilization 6,
            cb_warning_percent = ot_warning_percent c, cb_status = status,
            cb_shadow_admission_allowed = (status \<noteq> BudHARD_LIMIT)\<rparr>)"

definition shadow_admission_allowed :: "time \<Rightarrow> operations \<Rightarrow> bool result" where
  "shadow_admission_allowed now o1 =
     (if shadow_allowed (op_recovery o1)
      then bind_result (budget_status (utc_day now) o1) (\<lambda>b. Inr (cb_shadow_admission_allowed b))
      else Inr False)"

definition admitted_registrations :: "time \<Rightarrow> agent_registration list \<Rightarrow> operations \<Rightarrow> agent_registration list result" where
  "admitted_registrations now gs o1 =
     bind_result (shadow_admission_allowed now o1) (\<lambda>allowed.
       Inr (if allowed then gs else filter (\<lambda>g. ag_decision_role g = PRIMARY) gs))"

definition record_cost :: "time \<Rightarrow> cost_record \<Rightarrow> operations \<Rightarrow> (operations, cost_record) outcome" where
  "record_cost now c o1 =
     (case with_store (op_repository o1) (save_cost_usage_record c) c of
        (repo, Inl e) \<Rightarrow> (o1\<lparr>op_repository := repo\<rparr>, Inl e)
      | (repo, Inr stored) \<Rightarrow>
          let o2 = o1\<lparr>op_repository := repo,
                      op_costs := (if co_usage_id stored \<in> co_usage_id ` set (op_costs o1) then op_costs o1
                                   else push_bounded 100000 stored (op_costs o1))\<rparr>
          in case budget_status (utc_day now) o2 of
               Inl e \<Rightarrow> (o2, Inl e)
             | Inr b \<Rightarrow> (o2\<lparr>op_metrics := gauge ''cost.daily_utilization_percent'' (cb_utilization b) (op_metrics o2)\<rparr>, Inr stored))"

definition batch_failed :: "agent_output \<Rightarrow> bool" where
  "batch_failed x \<longleftrightarrow> ao_status x = AsFAILED \<or> ao_status x = AsTIMEOUT"

definition batch_metrics :: "pyfloat \<Rightarrow> agent_output list \<Rightarrow> pyfloat \<Rightarrow> metric_registry \<Rightarrow> metric_registry result" where
  "batch_metrics clk outs duration_ms m =
     (let size_of = (\<lambda>p. flt (of_int (int (length (filter p outs)))))
      in bind_result (increment clk ''agents.executions'' (size_of (\<lambda>_. True)) m) (\<lambda>m.
         bind_result (increment clk ''agents.failures'' (size_of batch_failed) m) (\<lambda>m.
         bind_result (increment clk ''agents.timeouts'' (size_of (\<lambda>x. ao_status x = AsTIMEOUT)) m) (\<lambda>m.
           Inr (fold (\<lambda>x. observe_sample clk ''agents.execution_latency_ms'' (flt (of_int (ao_latency_ms x)))) outs
                  (observe_sample clk ''agent_batch.duration_ms'' duration_ms m))))))"

definition batch_cost :: "time \<Rightarrow> (string \<Rightarrow> string) \<Rightarrow> agent_output list \<Rightarrow> string \<Rightarrow> operations \<Rightarrow> cost_record result" where
  "batch_cost now fresh outs correlation_id o1 =
     (let quantity = flt (of_int (int (length outs)))
      in validate valid_cost_record
           \<lparr>co_usage_id = fresh ''agent-batch-cost'', co_cost_center = CostAGENT_RUNTIME, co_resource = ''paper-agent-execution'',
            co_quantity = quantity, co_unit = ''execution'', co_unit_cost = ot_unit_cost (op_settings o1),
            co_estimated_cost = quantity * ot_unit_cost (op_settings o1), co_correlation_id = Some correlation_id,
            co_observed_at = now\<rparr>)"

definition observe_agent_batch ::
  "time \<Rightarrow> pyfloat \<Rightarrow> (string \<Rightarrow> string) \<Rightarrow> agent_output list \<Rightarrow> string \<Rightarrow> pyfloat \<Rightarrow> operations
     \<Rightarrow> (operations, cost_record option) outcome" where
  "observe_agent_batch now clk fresh outs correlation_id duration_ms o1 =
     (case batch_metrics clk outs duration_ms (op_metrics o1) of
        Inl e \<Rightarrow> (o1, Inl e)
      | Inr m \<Rightarrow>
          let o2 = o1\<lparr>op_metrics := m\<rparr>
          in if outs = [] then (o2, Inr None)
             else case batch_cost now fresh outs correlation_id o2 of
                    Inl e \<Rightarrow> (o2, Inl e)
                  | Inr c \<Rightarrow> bind_outcome (record_cost now c o2) (\<lambda>o3 stored. (o3, Inr (Some stored))))"

definition observe_orchestrator_cycle :: "pyfloat \<Rightarrow> bool \<Rightarrow> pyfloat \<Rightarrow> operations \<Rightarrow> (operations, unit) outcome" where
  "observe_orchestrator_cycle clk success duration_ms o1 =
     (case bind_result (increment clk ''orchestrator.cycles'' 1 (op_metrics o1)) (\<lambda>m.
           if success then Inr m else increment clk ''orchestrator.failures'' 1 m) of
        Inl e \<Rightarrow> (o1, Inl e)
      | Inr m \<Rightarrow> (o1\<lparr>op_metrics := observe_sample clk ''orchestrator.cycle_latency_ms'' duration_ms m\<rparr>, Inr ()))"

section \<open>Alerts\<close>

record alert_request =
  aq_key :: string
  aq_event_type :: alert_event_type
  aq_severity :: alert_severity
  aq_source :: string
  aq_correlation_id :: "string option"
  aq_reason :: string
  aq_metadata :: "(string \<times> json) list"

definition alert_of :: "time \<Rightarrow> (string \<Rightarrow> string) \<Rightarrow> int \<Rightarrow> alert_request \<Rightarrow> alert_event result" where
  "alert_of now fresh n q =
     validate valid_alert_event
       \<lparr>al_event_id = fresh (aq_key q), al_alert_key = aq_key q, al_sequence = n, al_event_type = aq_event_type q,
        al_severity = aq_severity q, al_source = aq_source q, al_correlation_id = aq_correlation_id q, al_reason = aq_reason q,
        al_metadata = aq_metadata q, al_occurred_at = now\<rparr>"

definition keep_alert :: "string \<Rightarrow> int \<Rightarrow> alert_event_type \<Rightarrow> alert_event \<Rightarrow> operations \<Rightarrow> operations" where
  "keep_alert key n kind stored o1 =
     o1\<lparr>op_alerts := (if al_event_id stored \<in> al_event_id ` set (op_alerts o1) then op_alerts o1
                      else push_bounded 5000 stored (op_alerts o1)),
        op_sequences := dict_set key n (op_sequences o1),
        op_active := (if kind = AlOPENED then dict_set key stored (op_active o1) else dict_pop key (op_active o1))\<rparr>"

definition record_alert ::
  "time \<Rightarrow> (string \<Rightarrow> string) \<Rightarrow> alert_request \<Rightarrow> operations \<Rightarrow> (operations, alert_event option) outcome" where
  "record_alert now fresh q o1 =
     (let active = dict_get (op_active o1) (aq_key q); n = sequence_of (op_sequences o1) (aq_key q) + 1
      in if aq_event_type q = AlOPENED \<and> active \<noteq> None then (o1, Inr active)
         else if aq_event_type q = AlRESOLVED \<and> active = None then (o1, Inr None)
         else case alert_of now fresh n q of
                Inl e \<Rightarrow> (o1, Inl e)
              | Inr a \<Rightarrow>
                  (case with_store (op_repository o1) (save_operational_alert_event a) a of
                     (repo, Inl e) \<Rightarrow> (o1\<lparr>op_repository := repo\<rparr>, Inl e)
                   | (repo, Inr stored) \<Rightarrow>
                       (keep_alert (aq_key q) n (aq_event_type q) stored (o1\<lparr>op_repository := repo\<rparr>), Inr (Some stored))))"

definition dependency_key :: "dependency \<Rightarrow> string" where
  "dependency_key name = ''dependency:'' @ to_lower (dependency_name name)"

definition recovery_mode_value :: "recovery_mode \<Rightarrow> string" where
  "recovery_mode_value m = (case m of RecHEALTHY \<Rightarrow> ''HEALTHY'' | RecDEGRADED \<Rightarrow> ''DEGRADED'' | RecSAFE_HALT \<Rightarrow> ''SAFE_HALT'')"

definition dependency_alert ::
  "recovery_mode \<Rightarrow> dependency \<Rightarrow> dependency_state \<Rightarrow> bool \<Rightarrow> string \<Rightarrow> string option \<Rightarrow> operations \<Rightarrow> alert_request option" where
  "dependency_alert before name s healthy reason correlation_id o1 =
     (let key = dependency_key name; active = dict_get (op_active o1) key
      in if \<not> healthy \<and> active = None
         then Some \<lparr>aq_key = key, aq_event_type = AlOPENED, aq_severity = (if dy_critical s then SevCRITICAL else SevWARNING),
                    aq_source = ''RecoveryCoordinator'', aq_correlation_id = correlation_id, aq_reason = reason,
                    aq_metadata = [(''dependency'', JStr (dependency_name name)), (''critical'', JBool (dy_critical s))]\<rparr>
         else case active of
                None \<Rightarrow> None
              | Some a \<Rightarrow>
                  if healthy \<and> (\<not> dy_critical s \<or> rc_required (op_recovery o1) \<le> dy_successes s)
                  then Some \<lparr>aq_key = key, aq_event_type = AlRESOLVED, aq_severity = al_severity a,
                             aq_source = ''RecoveryCoordinator'', aq_correlation_id = correlation_id,
                             aq_reason = dependency_name name @ '' recovered'',
                             aq_metadata = [(''dependency'', JStr (dependency_name name)), (''mode_before'', JStr (recovery_mode_value before))]\<rparr>
                  else None)"

definition observe_dependency ::
  "time \<Rightarrow> (string \<Rightarrow> string) \<Rightarrow> dependency \<Rightarrow> bool \<Rightarrow> string \<Rightarrow> string option \<Rightarrow> operations \<Rightarrow> (operations, unit) outcome" where
  "observe_dependency now fresh name healthy reason correlation_id o1 =
     (case observe_health name healthy reason (op_recovery o1) of
        (rc, Inl e) \<Rightarrow> (o1\<lparr>op_recovery := rc\<rparr>, Inl e)
      | (rc, Inr s) \<Rightarrow>
          let o2 = o1\<lparr>op_recovery := rc,
                      op_metrics := gauge (''dependency.'' @ to_lower (dependency_name name) @ ''.healthy'')
                        (if dy_healthy s then 1 else 0) (op_metrics o1)\<rparr>
          in case dependency_alert (recovery_mode_of (op_recovery o1)) name s healthy reason correlation_id o2 of
               None \<Rightarrow> (o2, Inr ())
             | Some q \<Rightarrow> bind_outcome (record_alert now fresh q o2) (\<lambda>o3 _. (o3, Inr ())))"

section \<open>Service level objectives\<close>

definition slo :: "time \<Rightarrow> (string \<Rightarrow> string) \<Rightarrow> operations \<Rightarrow> string \<Rightarrow> slo_comparator \<Rightarrow> pyfloat \<Rightarrow> slo_evaluation" where
  "slo now fresh o1 name comparator target =
     \<lparr>se_evaluation_id = fresh name, se_slo_name = name, se_comparator = comparator, se_target = target, se_measured = None,
      se_sample_count = 0, se_compliant = None, se_error_budget_remaining = flt 100, se_status = SloNO_DATA,
      se_window_seconds = ot_window_seconds (op_settings o1), se_evaluated_at = now\<rparr>"

definition measured_slo :: "pyfloat \<Rightarrow> int \<Rightarrow> bool \<Rightarrow> pyfloat \<Rightarrow> slo_evaluation \<Rightarrow> slo_evaluation" where
  "measured_slo measured n compliant remaining s =
     s\<lparr>se_measured := Some (py_round measured 8), se_sample_count := n, se_compliant := Some compliant,
       se_error_budget_remaining := py_round remaining 6,
       se_status := (if \<not> compliant then SloBREACHED else if remaining \<le> flt 20 then SloWARNING else SloHEALTHY)\<rparr>"

definition rate_evaluation ::
  "time \<Rightarrow> pyfloat \<Rightarrow> (string \<Rightarrow> string) \<Rightarrow> string \<Rightarrow> string \<Rightarrow> string \<Rightarrow> pyfloat \<Rightarrow> operations \<Rightarrow> slo_evaluation result" where
  "rate_evaluation now clk fresh name total_metric failure_metric target o1 =
     (let window = Some (ot_window_seconds (op_settings o1)); n = \<lfloor>fval (counter clk total_metric window (op_metrics o1))\<rfloor>;
          failures = counter clk failure_metric window (op_metrics o1);
          measured = max 0 (min 1 (1 - failures / flt (of_int n)));
          allowed_error = max (flt (1 / 10 ^ 12)) (1 - target);
          remaining = max 0 (flt 100 - (1 - measured) / allowed_error * flt 100);
          s = slo now fresh o1 name SloGTE target
      in validate valid_slo_evaluation (if n = 0 then s else measured_slo measured n (target \<le> measured) remaining s))"

definition latency_evaluation ::
  "time \<Rightarrow> pyfloat \<Rightarrow> (string \<Rightarrow> string) \<Rightarrow> string \<Rightarrow> string \<Rightarrow> pyfloat \<Rightarrow> operations \<Rightarrow> slo_evaluation result" where
  "latency_evaluation now clk fresh name metric target o1 =
     (let m = summary clk metric (Some (ot_window_seconds (op_settings o1))) (op_metrics o1);
          remaining = max 0 ((target - ms_p95 m) / max target (flt (1 / 10 ^ 12)) * flt 100);
          s = slo now fresh o1 name SloLTE target
      in validate valid_slo_evaluation
           (if ms_count m = 0 then s else measured_slo (ms_p95 m) (ms_count m) (ms_p95 m \<le> target) remaining s))"

definition slo_alert :: "string \<Rightarrow> slo_evaluation \<Rightarrow> operations \<Rightarrow> alert_request option" where
  "slo_alert correlation_id s o1 =
     (let key = ''slo:'' @ se_slo_name s;
          request = \<lparr>aq_key = key, aq_event_type = AlOPENED, aq_severity = SevERROR, aq_source = ''OperationsService'',
                     aq_correlation_id = Some correlation_id, aq_reason = ''SLO '' @ se_slo_name s @ '' breached'',
                     aq_metadata = [(''evaluation_id'', JStr (se_evaluation_id s)), (''measured'', JOpt JFloat (se_measured s)),
                                    (''target'', JFloat (se_target s))]\<rparr>
      in case dict_get (op_active o1) key of
           None \<Rightarrow> if se_status s = SloBREACHED then Some request else None
         | Some a \<Rightarrow>
             if se_status s \<in> {SloHEALTHY, SloWARNING}
             then Some (request\<lparr>aq_event_type := AlRESOLVED, aq_severity := al_severity a,
                                aq_reason := ''SLO '' @ se_slo_name s @ '' recovered'',
                                aq_metadata := [(''evaluation_id'', JStr (se_evaluation_id s))]\<rparr>)
             else None)"

definition sync_slo_alert :: "time \<Rightarrow> (string \<Rightarrow> string) \<Rightarrow> string \<Rightarrow> slo_evaluation \<Rightarrow> operations \<Rightarrow> (operations, unit) outcome" where
  "sync_slo_alert now fresh correlation_id s o1 =
     (case slo_alert correlation_id s o1 of
        None \<Rightarrow> (o1, Inr ())
      | Some q \<Rightarrow> bind_outcome (record_alert now fresh q o1) (\<lambda>o2 _. (o2, Inr ())))"

fun sync_slo_alerts ::
  "time \<Rightarrow> (string \<Rightarrow> string) \<Rightarrow> string \<Rightarrow> slo_evaluation list \<Rightarrow> operations \<Rightarrow> (operations, unit) outcome" where
  "sync_slo_alerts now fresh correlation_id [] o1 = (o1, Inr ())"
| "sync_slo_alerts now fresh correlation_id (s # ss) o1 =
     bind_outcome (sync_slo_alert now fresh correlation_id s o1) (\<lambda>o2 _. sync_slo_alerts now fresh correlation_id ss o2)"

definition slo_evaluations_of :: "time \<Rightarrow> pyfloat \<Rightarrow> (string \<Rightarrow> string) \<Rightarrow> operations \<Rightarrow> slo_evaluation list result" where
  "slo_evaluations_of now clk fresh o1 =
     (let c = op_settings o1
      in map_result id
           [rate_evaluation now clk fresh ''agents.execution_success_rate'' ''agents.executions'' ''agents.failures'' (ot_agent_success c) o1,
            latency_evaluation now clk fresh ''agents.execution_p95_latency_ms'' ''agents.execution_latency_ms'' (ot_agent_latency c) o1,
            rate_evaluation now clk fresh ''orchestrator.cycle_success_rate'' ''orchestrator.cycles'' ''orchestrator.failures''
              (ot_orchestrator_success c) o1,
            latency_evaluation now clk fresh ''orchestrator.cycle_p95_latency_ms'' ''orchestrator.cycle_latency_ms''
              (ot_orchestrator_latency c) o1])"

definition evaluate_slos ::
  "time \<Rightarrow> pyfloat \<Rightarrow> (string \<Rightarrow> string) \<Rightarrow> string \<Rightarrow> operations \<Rightarrow> (operations, slo_evaluation list) outcome" where
  "evaluate_slos now clk fresh correlation_id o1 =
     (case slo_evaluations_of now clk fresh o1 of
        Inl e \<Rightarrow> (o1, Inl e)
      | Inr ss \<Rightarrow>
          (case with_store (op_repository o1) (save_slo_evaluations ss) ss of
             (repo, Inl e) \<Rightarrow> (o1\<lparr>op_repository := repo\<rparr>, Inl e)
           | (repo, Inr stored) \<Rightarrow>
               let known = se_evaluation_id ` set (op_slos o1);
                   o2 = o1\<lparr>op_repository := repo,
                           op_slos := extend_bounded 5000 (filter (\<lambda>s. se_evaluation_id s \<notin> known) stored) (op_slos o1)\<rparr>
               in bind_outcome (sync_slo_alerts now fresh correlation_id stored o2) (\<lambda>o3 _. (o3, Inr stored))))"

section \<open>Snapshots, resilience evidence and the monitor\<close>

definition capture_snapshot ::
  "(json \<Rightarrow> string) \<Rightarrow> time \<Rightarrow> pyfloat \<Rightarrow> (string \<Rightarrow> string) \<Rightarrow> string \<Rightarrow> bool \<Rightarrow> agent_registry \<Rightarrow> operations
     \<Rightarrow> (operations, metric_snapshot) outcome" where
  "capture_snapshot H now clk fresh correlation_id persist r o1 =
     (case bind_result (registrations H r) (\<lambda>gs.
           metric_snapshot_of now clk (fresh ''snapshot'') correlation_id (ot_window_seconds (op_settings o1)) (int (length gs))
             (int (length (filter ag_enabled gs))) (op_metrics o1)) of
        Inl e \<Rightarrow> (o1, Inl e)
      | Inr s \<Rightarrow>
          (case (if persist then with_store (op_repository o1) (save_operational_metric_snapshot s) s else (op_repository o1, Inr s)) of
             (repo, Inl e) \<Rightarrow> (o1\<lparr>op_repository := repo\<rparr>, Inl e)
           | (repo, Inr stored) \<Rightarrow>
               (o1\<lparr>op_repository := repo,
                   op_snapshots := (if sn_snapshot_id stored \<in> sn_snapshot_id ` set (op_snapshots o1) then op_snapshots o1
                                    else push_bounded 1000 stored (op_snapshots o1))\<rparr>, Inr stored)))"

definition record_resilience_run :: "resilience_run \<Rightarrow> operations \<Rightarrow> (operations, resilience_run) outcome" where
  "record_resilience_run r o1 =
     (case with_store (op_repository o1) (save_resilience_test_run r) r of
        (repo, Inl e) \<Rightarrow> (o1\<lparr>op_repository := repo\<rparr>, Inl e)
      | (repo, Inr stored) \<Rightarrow>
          (o1\<lparr>op_repository := repo,
              op_runs := (if rr_run_id stored \<in> rr_run_id ` set (op_runs o1) then op_runs o1
                          else push_bounded 1000 stored (op_runs o1))\<rparr>, Inr stored))"

text \<open>One turn of the monitor: what the probe answers, and when.\<close>

record monitor_turn =
  mt_now :: time
  mt_clock :: pyfloat
  mt_fresh :: "string \<Rightarrow> string"
  mt_probe :: "(dependency \<times> bool \<times> string) list result"

fun observe_dependencies ::
  "time \<Rightarrow> (string \<Rightarrow> string) \<Rightarrow> (dependency \<times> bool \<times> string) list \<Rightarrow> operations \<Rightarrow> (operations, unit) outcome" where
  "observe_dependencies now fresh [] o1 = (o1, Inr ())"
| "observe_dependencies now fresh ((name, healthy, reason) # xs) o1 =
     bind_outcome (observe_dependency now fresh name healthy reason None o1) (\<lambda>o2 _. observe_dependencies now fresh xs o2)"

definition monitor_cycle ::
  "(json \<Rightarrow> string) \<Rightarrow> agent_registry \<Rightarrow> monitor_turn \<Rightarrow> operations \<Rightarrow> (operations, unit) outcome" where
  "monitor_cycle H r t o1 =
     (let correlation_id = ''operations-'' @ str_int (mt_now t div 1000000)
      in case mt_probe t of
           Inl e \<Rightarrow> (o1, Inl e)
         | Inr xs \<Rightarrow>
             bind_outcome (observe_dependencies (mt_now t) (mt_fresh t) xs o1) (\<lambda>o2 _.
             bind_outcome (capture_snapshot H (mt_now t) (mt_clock t) (mt_fresh t) correlation_id True r o2) (\<lambda>o3 _.
             bind_outcome (evaluate_slos (mt_now t) (mt_clock t) (mt_fresh t) correlation_id o3) (\<lambda>o4 _. (o4, Inr ())))))"

definition operations_run ::
  "(json \<Rightarrow> string) \<Rightarrow> agent_registry \<Rightarrow> pyfloat \<Rightarrow> monitor_turn list \<Rightarrow> operations \<Rightarrow> (operations, unit) outcome" where
  "operations_run H r interval_seconds ts o1 =
     (if \<not> (1 \<le> interval_seconds \<and> interval_seconds \<le> flt 3600)
      then (o1, raise ValueError ''Operations monitor interval must be 1..3600'')
      else (fold (\<lambda>t o1. fst (monitor_cycle H r t o1)) ts o1, Inr ()))"

section \<open>What the service shows\<close>

text \<open>\<^verbatim>\<open>list(reversed(items))[:limit]\<close>.\<close>

definition newest_items :: "int \<Rightarrow> 'a list \<Rightarrow> 'a list" where
  "newest_items limit xs = (if 0 \<le> limit then take (nat limit) (rev xs) else take (length xs - nat (- limit)) (rev xs))"

definition severity_value :: "alert_severity \<Rightarrow> string" where
  "severity_value s = (case s of SevWARNING \<Rightarrow> ''WARNING'' | SevERROR \<Rightarrow> ''ERROR'' | SevCRITICAL \<Rightarrow> ''CRITICAL'')"

definition active_alerts :: "operations \<Rightarrow> alert_event list" where
  "active_alerts o1 = sort_key (\<lambda>a. severity_value (al_severity a)) (sort_key al_alert_key (dict_values (op_active o1)))"

record operations_status =
  ou_mode :: recovery_mode
  ou_budget :: cost_budget
  ou_registered_agents :: int
  ou_shadow_admission_allowed :: bool
  ou_decisions_allowed :: bool
  ou_active_alerts :: int

definition operations_status_of :: "(json \<Rightarrow> string) \<Rightarrow> time \<Rightarrow> agent_registry \<Rightarrow> operations \<Rightarrow> operations_status result" where
  "operations_status_of H now r o1 =
     bind_result (budget_status (utc_day now) o1) (\<lambda>b.
     bind_result (registrations H r) (\<lambda>gs.
     bind_result (shadow_admission_allowed now o1) (\<lambda>shadow.
       Inr \<lparr>ou_mode = recovery_mode_of (op_recovery o1), ou_budget = b, ou_registered_agents = int (length gs),
            ou_shadow_admission_allowed = shadow, ou_decisions_allowed = decisions_allowed (op_recovery o1),
            ou_active_alerts = int (length (op_active o1))\<rparr>)))"

end
