(* ===== verification/Operations_Properties.thy ===== *)
theory Operations_Properties
  imports Operations Consensus_Properties
begin

text \<open>
  Operations monitoring over every history of calls: when decisions are halted and released again, and the life
  cycle of alerts in the append-only table.
\<close>

section \<open>Histories\<close>

lemma new_operations_Inr:
  assumes "new_operations c repo = Inr o1"
  shows "op_repository o1 = repo" "op_active o1 = []" "op_sequences o1 = []"
    "\<exists>rc. new_recovery (ot_recovery_successes c) = Inr rc \<and> op_recovery o1 = rc"
proof -
  obtain m rc where "new_recovery (ot_recovery_successes c) = Inr rc"
    "o1 = \<lparr>op_settings = c, op_repository = repo, op_metrics = m, op_recovery = rc, op_snapshots = [], op_slos = [],
           op_alerts = [], op_costs = [], op_runs = [], op_active = [], op_sequences = []\<rparr>"
    using assms by (auto simp: new_operations_def bind_result_Inr split: if_splits)
  then show "op_repository o1 = repo" "op_active o1 = []" "op_sequences o1 = []"
    "\<exists>rc. new_recovery (ot_recovery_successes c) = Inr rc \<and> op_recovery o1 = rc" by simp_all
qed

text \<open>One call of the service, labelled with the health reports it takes in.\<close>

type_synonym health_report = "dependency \<times> bool"

inductive operations_step :: "operations \<Rightarrow> health_report list \<Rightarrow> operations \<Rightarrow> bool" where
  st_dependency [step_intros]:
    "observe_dependency now fresh name healthy reason c o1 = (o2, r1) \<Longrightarrow> operations_step o1 [(name, healthy)] o2"
| st_batch [step_intros]: "observe_agent_batch now clk fresh outs c1 ms o1 = (o2, r2) \<Longrightarrow> operations_step o1 [] o2"
| st_cycle [step_intros]: "observe_orchestrator_cycle clk ok ms o1 = (o2, r3) \<Longrightarrow> operations_step o1 [] o2"
| st_cost [step_intros]: "record_cost now x o1 = (o2, r4) \<Longrightarrow> operations_step o1 [] o2"
| st_slos [step_intros]: "evaluate_slos now clk fresh c1 o1 = (o2, r5) \<Longrightarrow> operations_step o1 [] o2"
| st_snapshot [step_intros]: "capture_snapshot H now clk fresh c1 p reg o1 = (o2, r6) \<Longrightarrow> operations_step o1 [] o2"
| st_run [step_intros]: "record_resilience_run x1 o1 = (o2, r7) \<Longrightarrow> operations_step o1 [] o2"

inductive operations_history :: "operations \<Rightarrow> health_report list \<Rightarrow> operations \<Rightarrow> bool" where
  hi_nil: "operations_history o1 [] o1"
| hi_step: "operations_history o1 xs o2 \<Longrightarrow> operations_step o2 ys o3 \<Longrightarrow> operations_history o1 (xs @ ys) o3"

lemma history_single: "operations_step o1 ys o2 \<Longrightarrow> operations_history o1 ys o2"
  using hi_step [OF hi_nil] by simp

lemma history_append:
  assumes "operations_history o2 ys o3" "operations_history o1 xs o2"
  shows "operations_history o1 (xs @ ys) o3"
  using assms by (induction rule: operations_history.induct) (auto intro: operations_history.intros simp flip: append_assoc)

text \<open>The monitor loop is such a history; its reports are a prefix of what the probe answers.\<close>

lemma dependencies_history:
  "observe_dependencies now fresh xs o1 = (o2, r) \<Longrightarrow> \<exists>n. operations_history o1 (map (\<lambda>(d, h, _). (d, h)) (take n xs)) o2"
proof (induction xs arbitrary: o1)
  case Nil
  then show ?case by (auto intro: hi_nil)
next
  case (Cons x xs)
  obtain d h reason where x: "x = (d, h, reason)" by (metis prod_cases3)
  obtain o3 q where q: "observe_dependency now fresh d h reason None o1 = (o3, q)" by force
  have first: "operations_history o1 [(d, h)] o3" by (rule history_single [OF st_dependency [OF q]])
  show ?case
  proof (cases q)
    case (Inl e)
    with Cons.prems x q have "o2 = o3" by (simp add: bind_outcome_def)
    with first x show ?thesis by (intro exI [of _ 1]) simp
  next
    case (Inr u)
    with Cons.prems x q have "observe_dependencies now fresh xs o3 = (o2, r)" by (simp add: bind_outcome_def)
    from Cons.IH [OF this] obtain n where "operations_history o3 (map (\<lambda>(d, h, _). (d, h)) (take n xs)) o2" ..
    from history_append [OF this first] x show ?thesis by (intro exI [of _ "Suc n"]) simp
  qed
qed

lemma monitor_history:
  assumes "monitor_cycle H r t o1 = (o2, q)"
  shows "\<exists>ys. operations_history o1 ys o2"
proof (cases "mt_probe t")
  case (Inl e)
  with assms show ?thesis by (auto simp: monitor_cycle_def Let_def intro: hi_nil)
next
  case (Inr xs)
  let ?c = "''operations-'' @ str_int (mt_now t div 1000000)"
  obtain o3 q3 where 3: "observe_dependencies (mt_now t) (mt_fresh t) xs o1 = (o3, q3)" by force
  obtain o4 q4 where 4: "capture_snapshot H (mt_now t) (mt_clock t) (mt_fresh t) ?c True r o3 = (o4, q4)" by force
  obtain o5 q5 where 5: "evaluate_slos (mt_now t) (mt_clock t) (mt_fresh t) ?c o4 = (o5, q5)" by force
  from dependencies_history [OF 3] obtain ys where h3: "operations_history o1 ys o3" by blast
  have h4: "operations_history o1 (ys @ []) o4" by (rule hi_step [OF h3 st_snapshot [OF 4]])
  have h5: "operations_history o1 ((ys @ []) @ []) o5" by (rule hi_step [OF h4 st_slos [OF 5]])
  have "o2 = o3 \<or> o2 = o4 \<or> o2 = o5"
    using assms Inr 3 4 5 by (cases q3; cases q4; cases q5) (auto simp: monitor_cycle_def Let_def bind_outcome_def)
  with h3 h4 h5 show ?thesis by blast
qed

section \<open>The halt of decisions\<close>

definition critical_dependency :: "dependency \<Rightarrow> bool" where
  "critical_dependency d \<longleftrightarrow> d \<in> {DepDATABASE, DepAUDIT, DepRISK}"

text \<open>How many reports on \<open>d\<close> in a row, up to now, were healthy.\<close>

definition streak :: "dependency \<Rightarrow> health_report list \<Rightarrow> nat" where
  "streak d xs = length (takeWhile snd (rev (filter (\<lambda>x. fst x = d) xs)))"

definition reported :: "dependency \<Rightarrow> health_report list \<Rightarrow> bool" where
  "reported d xs \<longleftrightarrow> d \<in> fst ` set xs"

definition no_critical_failure :: "health_report list \<Rightarrow> bool" where
  "no_critical_failure xs \<longleftrightarrow> list_all (\<lambda>(d, healthy). critical_dependency d \<longrightarrow> healthy) xs"

definition all_confirmed :: "int \<Rightarrow> health_report list \<Rightarrow> bool" where
  "all_confirmed n xs \<longleftrightarrow> list_all (\<lambda>d. n \<le> int (streak d xs)) [DepDATABASE, DepAUDIT, DepRISK]"

definition recovery_ok :: "recovery_coordinator \<Rightarrow> health_report list \<Rightarrow> bool" where
  "recovery_ok rc xs \<longleftrightarrow>
     2 \<le> rc_required rc \<and> dict_wf (rc_dependencies rc) \<and>
     (\<forall>d. \<exists>s. dict_get (rc_dependencies rc) d = Some s \<and> dy_critical s = critical_dependency d \<and>
            dy_successes s = int (streak d xs) \<and> dy_healthy s = (0 < streak d xs \<or> \<not> reported d xs)) \<and>
     rc_latched rc = (\<not> (no_critical_failure xs \<or> all_confirmed (rc_required rc) xs))"

lemma streak_append [simp]: "streak d (xs @ [(d', h)]) = (if d' = d then (if h then streak d xs + 1 else 0) else streak d xs)"
  by (simp add: streak_def)

lemma streak_Nil [simp]: "streak d [] = 0"
  by (simp add: streak_def)

lemma reported_append [simp]: "reported d (xs @ [(d', h)]) = (d = d' \<or> reported d xs)"
  by (auto simp: reported_def)

lemma all_confirmed_critical: "all_confirmed n xs \<longleftrightarrow> (\<forall>d. critical_dependency d \<longrightarrow> n \<le> int (streak d xs))"
  by (auto simp: all_confirmed_def critical_dependency_def)

lemma new_recovery_ok:
  assumes "new_recovery n = Inr rc"
  shows "recovery_ok rc []" "rc_required rc = n"
  using assms
  by (auto simp: new_recovery_def recovery_ok_def critical_dependency_def reported_def no_critical_failure_def dict_wf_def split: if_splits)
    (case_tac d; simp)+

lemma dependency_states:
  assumes "recovery_ok rc xs"
  shows "list_all p (dict_values (rc_dependencies rc)) \<longleftrightarrow> (\<forall>d. p (the (dict_get (rc_dependencies rc) d)))"
proof -
  have "set (dict_values (rc_dependencies rc)) = ran (dict_get (rc_dependencies rc))"
    using assms by (simp add: set_dict_values recovery_ok_def)
  moreover have "\<exists>s. dict_get (rc_dependencies rc) d = Some s" for d using assms by (auto simp: recovery_ok_def)
  ultimately show ?thesis unfolding list_all_iff ran_def by (auto; metis option.sel)
qed

lemma recovered_confirmed:
  assumes "2 \<le> n" "dict_wf ds"
    "\<forall>d. \<exists>s. dict_get ds d = Some s \<and> dy_critical s = critical_dependency d \<and> dy_successes s = int (streak d xs) \<and>
       dy_healthy s = (0 < streak d xs \<or> \<not> reported d xs)"
  shows "recovered n (dict_values ds) \<longleftrightarrow> all_confirmed n xs"
proof -
  have "recovered n (dict_values ds) \<longleftrightarrow> (\<forall>s \<in> ran (dict_get ds). dy_critical s \<longrightarrow> dy_healthy s \<and> n \<le> dy_successes s)"
    using assms(2) by (simp add: recovered_def list_all_iff set_dict_values)
  also have "\<dots> \<longleftrightarrow> (\<forall>d. critical_dependency d \<longrightarrow> n \<le> int (streak d xs))"
  proof
    assume a: "\<forall>s \<in> ran (dict_get ds). dy_critical s \<longrightarrow> dy_healthy s \<and> n \<le> dy_successes s"
    show "\<forall>d. critical_dependency d \<longrightarrow> n \<le> int (streak d xs)"
    proof (intro allI impI)
      fix d assume "critical_dependency d"
      moreover obtain s where "dict_get ds d = Some s" "dy_critical s = critical_dependency d" "dy_successes s = int (streak d xs)"
        using assms(3) by blast
      ultimately show "n \<le> int (streak d xs)" using a by (metis ranI)
    qed
  next
    assume a: "\<forall>d. critical_dependency d \<longrightarrow> n \<le> int (streak d xs)"
    show "\<forall>s \<in> ran (dict_get ds). dy_critical s \<longrightarrow> dy_healthy s \<and> n \<le> dy_successes s"
    proof
      fix s assume "s \<in> ran (dict_get ds)"
      then obtain d where d: "dict_get ds d = Some s" by (auto simp: ran_def)
      with assms(3) have "dy_critical s = critical_dependency d" "dy_successes s = int (streak d xs)"
        "dy_healthy s = (0 < streak d xs \<or> \<not> reported d xs)" by (metis option.inject)+
      with a assms(1) show "dy_critical s \<longrightarrow> dy_healthy s \<and> n \<le> dy_successes s"
        by (metis of_nat_0 of_nat_0_less_iff order_less_le_trans zero_less_numeral)
    qed
  qed
  finally show ?thesis by (simp add: all_confirmed_critical)
qed

lemma observe_health_ok:
  assumes "recovery_ok rc xs" "observe_health d h reason rc = (rc', r)"
  shows "recovery_ok rc' (xs @ [(d, h)])" "rc_required rc' = rc_required rc" "is_ok r"
proof -
  let ?xs = "xs @ [(d, h)]"
  obtain s where s: "dict_get (rc_dependencies rc) d = Some s" "dy_critical s = critical_dependency d" "dy_successes s = int (streak d xs)"
    using assms(1) by (auto simp: recovery_ok_def)
  let ?ds = "dict_set d (observed_state h reason s) (rc_dependencies rc)"
  have rc': "rc' = rc\<lparr>rc_dependencies := ?ds, rc_latched :=
      (rc_latched rc \<or> \<not> h \<and> critical_dependency d) \<and> \<not> recovered (rc_required rc) (dict_values ?ds)\<rparr>" "is_ok r"
    using assms(2) s by (auto simp: observe_health_def Let_def observed_state_def)
  have states: "\<forall>c. \<exists>s. dict_get ?ds c = Some s \<and> dy_critical s = critical_dependency c \<and> dy_successes s = int (streak c ?xs) \<and>
      dy_healthy s = (0 < streak c ?xs \<or> \<not> reported c ?xs)"
  proof
    fix c
    show "\<exists>s. dict_get ?ds c = Some s \<and> dy_critical s = critical_dependency c \<and> dy_successes s = int (streak c ?xs) \<and>
      dy_healthy s = (0 < streak c ?xs \<or> \<not> reported c ?xs)"
      using assms(1) s by (cases "c = d") (auto simp: dict_simps observed_state_def recovery_ok_def)
  qed
  have wf: "dict_wf ?ds" "2 \<le> rc_required rc" using assms(1) by (simp_all add: recovery_ok_def)
  have latched: "rc_latched rc = (\<not> (no_critical_failure xs \<or> all_confirmed (rc_required rc) xs))" using assms(1) by (simp add: recovery_ok_def)
  have nf: "no_critical_failure ?xs = (no_critical_failure xs \<and> (critical_dependency d \<longrightarrow> h))" by (auto simp: no_critical_failure_def)
  have grow: "all_confirmed (rc_required rc) xs \<Longrightarrow> critical_dependency d \<longrightarrow> h \<Longrightarrow> all_confirmed (rc_required rc) ?xs"
    by (auto simp: all_confirmed_critical)
  have reset: "\<not> h \<Longrightarrow> critical_dependency d \<Longrightarrow> \<not> all_confirmed (rc_required rc) ?xs"
    using wf(2) by (auto simp: all_confirmed_critical intro!: exI [of _ d])
  show "recovery_ok rc' ?xs" "rc_required rc' = rc_required rc" "is_ok r"
    using wf states rc' latched nf grow reset recovered_confirmed [OF wf(2,1) states]
    unfolding recovery_ok_def by auto
qed

lemma recovery_ok_allowed:
  assumes "recovery_ok rc xs"
  shows "decisions_allowed rc \<longleftrightarrow> no_critical_failure xs \<or> all_confirmed (rc_required rc) xs"
proof -
  have "\<not> list_ex (\<lambda>s. dy_critical s \<and> \<not> dy_healthy s) (dict_values (rc_dependencies rc))"
    if "no_critical_failure xs \<or> all_confirmed (rc_required rc) xs"
  proof -
    have "dy_critical (the (dict_get (rc_dependencies rc) d)) \<longrightarrow> dy_healthy (the (dict_get (rc_dependencies rc) d))" for d
    proof -
      obtain s where s: "dict_get (rc_dependencies rc) d = Some s" "dy_critical s = critical_dependency d"
        "dy_healthy s = (0 < streak d xs \<or> \<not> reported d xs)" using assms by (auto simp: recovery_ok_def)
      have "0 < streak d xs" if "reported d xs" "critical_dependency d" "no_critical_failure xs"
      proof -
        have "filter (\<lambda>x. fst x = d) xs \<noteq> []" using that(1) by (auto simp: reported_def filter_empty_conv)
        then obtain y ys where y: "rev (filter (\<lambda>x. fst x = d) xs) = y # ys" by (meson list.exhaust rev_is_Nil_conv)
        then have "y \<in> set (filter (\<lambda>x. fst x = d) xs)" by (metis list.set_intros(1) set_rev)
        then have "y \<in> set xs" "fst y = d" by simp_all
        with that have "snd y" by (auto simp: no_critical_failure_def list_all_iff)
        with y show ?thesis by (simp add: streak_def)
      qed
      moreover have "0 < streak d xs" if "critical_dependency d" "all_confirmed (rc_required rc) xs"
      proof -
        have "2 \<le> rc_required rc" using assms by (simp add: recovery_ok_def)
        moreover have "rc_required rc \<le> int (streak d xs)" using that by (simp add: all_confirmed_critical)
        ultimately show ?thesis by linarith
      qed
      ultimately show ?thesis using s that by auto
    qed
    with dependency_states [OF assms, of "\<lambda>s. dy_critical s \<longrightarrow> dy_healthy s"] show ?thesis
      by (auto simp: list_all_iff list_ex_iff)
  qed
  moreover have "rc_latched rc = (\<not> (no_critical_failure xs \<or> all_confirmed (rc_required rc) xs))" using assms by (simp add: recovery_ok_def)
  ultimately show ?thesis by (auto simp: decisions_allowed_def recovery_mode_of_def Let_def)
qed

text \<open>What the other calls leave alone.\<close>

lemma record_alert_recovery: "record_alert now fresh q o1 = (o2, r) \<Longrightarrow> op_recovery o2 = op_recovery o1"
  by (auto simp: record_alert_def Let_def keep_alert_def split: if_splits sum.splits prod.splits)

lemma record_cost_frame:
  "record_cost now x o1 = (o2, r) \<Longrightarrow> op_recovery o2 = op_recovery o1 \<and> op_active o2 = op_active o1 \<and> op_sequences o2 = op_sequences o1"
  by (auto simp: record_cost_def Let_def split: sum.splits prod.splits)

lemma observe_agent_batch_frame:
  "observe_agent_batch now clk fresh outs c ms o1 = (o2, r) \<Longrightarrow>
     op_recovery o2 = op_recovery o1 \<and> op_active o2 = op_active o1 \<and> op_sequences o2 = op_sequences o1"
  by (auto simp: observe_agent_batch_def Let_def bind_outcome_def split: if_splits sum.splits prod.splits dest!: record_cost_frame)

lemma observe_cycle_frame:
  "observe_orchestrator_cycle clk ok ms o1 = (o2, r) \<Longrightarrow> op_recovery o2 = op_recovery o1 \<and> op_repository o2 = op_repository o1 \<and>
     op_active o2 = op_active o1 \<and> op_sequences o2 = op_sequences o1"
  by (auto simp: observe_orchestrator_cycle_def split: sum.splits)

lemma sync_slo_alert_recovery: "sync_slo_alert now fresh c s o1 = (o2, r) \<Longrightarrow> op_recovery o2 = op_recovery o1"
  by (auto simp: sync_slo_alert_def bind_outcome_def split: option.splits sum.splits prod.splits dest: record_alert_recovery)

lemma sync_slo_alerts_recovery: "sync_slo_alerts now fresh c ss o1 = (o2, r) \<Longrightarrow> op_recovery o2 = op_recovery o1"
  by (induction ss arbitrary: o1)
    (auto simp: bind_outcome_def split: sum.splits prod.splits dest!: sync_slo_alert_recovery)

lemma evaluate_slos_recovery: "evaluate_slos now clk fresh c o1 = (o2, r) \<Longrightarrow> op_recovery o2 = op_recovery o1"
  by (auto simp: evaluate_slos_def Let_def bind_outcome_def split: sum.splits prod.splits dest!: sync_slo_alerts_recovery)

lemma capture_snapshot_frame:
  "capture_snapshot H now clk fresh c p reg o1 = (o2, r) \<Longrightarrow>
     op_recovery o2 = op_recovery o1 \<and> op_active o2 = op_active o1 \<and> op_sequences o2 = op_sequences o1"
  by (auto simp: capture_snapshot_def split: sum.splits prod.splits)

lemma record_resilience_run_frame:
  "record_resilience_run x o1 = (o2, r) \<Longrightarrow>
     op_recovery o2 = op_recovery o1 \<and> op_active o2 = op_active o1 \<and> op_sequences o2 = op_sequences o1"
  by (auto simp: record_resilience_run_def split: sum.splits prod.splits)

lemma observe_dependency_recovery:
  assumes "observe_dependency now fresh d h reason c o1 = (o2, r)"
  shows "op_recovery o2 = fst (observe_health d h reason (op_recovery o1))"
  using assms
  by (auto simp: observe_dependency_def Let_def bind_outcome_def split: sum.splits prod.splits option.splits dest!: record_alert_recovery)

lemma operations_step_recovery:
  assumes "operations_step o1 ys o2" "recovery_ok (op_recovery o1) xs"
  shows "recovery_ok (op_recovery o2) (xs @ ys) \<and> rc_required (op_recovery o2) = rc_required (op_recovery o1)"
  using assms(1)
proof cases
  case (st_dependency now fresh d h reason c r)
  obtain rc q where rc: "observe_health d h reason (op_recovery o1) = (rc, q)" by force
  with observe_dependency_recovery [OF st_dependency(2)] have "op_recovery o2 = rc" by simp
  with observe_health_ok [OF assms(2) rc] st_dependency(1) show ?thesis by simp
qed (use assms(2) in \<open>auto dest: observe_agent_batch_frame observe_cycle_frame record_cost_frame evaluate_slos_recovery
    capture_snapshot_frame record_resilience_run_frame\<close>)

lemma operations_history_recovery:
  "operations_history o1 ys o2 \<Longrightarrow> recovery_ok (op_recovery o1) xs \<Longrightarrow>
     recovery_ok (op_recovery o2) (xs @ ys) \<and> rc_required (op_recovery o2) = rc_required (op_recovery o1)"
  by (induction rule: operations_history.induct) (auto dest: operations_step_recovery)

lemma replay_alerts_recovery: "op_recovery (fold replay_alert as o1) = op_recovery o1"
  by (induction as arbitrary: o1) (simp_all add: replay_alert_def)

lemma operations_initialize_recovery: "operations_initialize o1 = (o2, r) \<Longrightarrow> op_recovery o2 = op_recovery o1"
  by (auto simp: operations_initialize_def replay_alerts_recovery split: option.splits sum.splits)

section \<open>The life cycle of alerts\<close>

definition alternating :: "nat \<Rightarrow> alert_event_type list" where
  "alternating n = map (\<lambda>i. if even i then AlOPENED else AlRESOLVED) [0..<n]"

definition alert_rows :: "operations_store \<Rightarrow> string \<Rightarrow> alert_event set" where
  "alert_rows d key = {a \<in> set (dict_values (os_alerts d)). al_alert_key a = key}"

definition alert_lifecycle :: "operations_store \<Rightarrow> operations \<Rightarrow> string \<Rightarrow> alert_event list \<Rightarrow> bool" where
  "alert_lifecycle d o1 key as \<longleftrightarrow>
     set as = alert_rows d key \<and> map al_sequence as = map int [1..<length as + 1] \<and>
     map al_event_type as = alternating (length as) \<and> sequence_of (op_sequences o1) key = int (length as) \<and>
     dict_get (op_active o1) key = (if odd (length as) then Some (last as) else None)"

definition alerts_ok :: "operations \<Rightarrow> bool" where
  "alerts_ok o1 \<longleftrightarrow> (\<exists>d. op_repository o1 = Some d \<and> dict_wf (os_alerts d) \<and> (\<forall>key. \<exists>as. alert_lifecycle d o1 key as))"

lemma alternating_Suc [simp]: "alternating (Suc n) = alternating n @ [if even n then AlOPENED else AlRESOLVED]"
  by (simp add: alternating_def)

lemma alerts_ok_frame:
  assumes "alerts_ok o1" "op_active o2 = op_active o1" "op_sequences o2 = op_sequences o1"
    "\<And>d. op_repository o1 = Some d \<Longrightarrow> \<exists>d'. op_repository o2 = Some d' \<and> os_alerts d' = os_alerts d"
  shows "alerts_ok o2"
proof -
  obtain d where d: "op_repository o1 = Some d" "dict_wf (os_alerts d)" "\<forall>key. \<exists>as. alert_lifecycle d o1 key as"
    using assms(1) by (auto simp: alerts_ok_def)
  with assms(4) obtain d' where "op_repository o2 = Some d'" "os_alerts d' = os_alerts d" by blast
  moreover from this have "alert_lifecycle d' o2 key as = alert_lifecycle d o1 key as" for key as
    using assms(2,3) by (simp add: alert_lifecycle_def alert_rows_def)
  ultimately show ?thesis using d unfolding alerts_ok_def by metis
qed

lemma set_values_new:
  assumes "dict_wf d" "dict_get d k = None"
  shows "set (dict_values (dict_set k v d)) = insert v (set (dict_values d))"
proof -
  have "k \<notin> fst ` set d" using assms(2) by (simp add: map_of_eq_None_iff)
  then have "dict_set k v d = d @ [(k, v)]" by (induction d) auto
  then show ?thesis by (auto simp: dict_values_def)
qed

text \<open>An append to the table of alerts: a row with a new identity, or nothing.\<close>

lemma alert_append:
  assumes "save_operational_alert_event a d = (d', r)" "dict_wf (os_alerts d)"
    "\<forall>x \<in> alert_rows d (al_alert_key a). al_sequence x \<noteq> al_sequence a"
  shows "dict_wf (os_alerts d')" "r = Inl e \<Longrightarrow> os_alerts d' = os_alerts d"
    "r = Inr x \<Longrightarrow> x = a \<and> alert_rows d' key = (if key = al_alert_key a then insert a (alert_rows d key) else alert_rows d key)"
proof -
  have "dict_wf (os_alerts d') \<and> (\<forall>e. r = Inl e \<longrightarrow> os_alerts d' = os_alerts d) \<and> (\<forall>x. r = Inr x \<longrightarrow> x = a \<and>
    alert_rows d' key = (if key = al_alert_key a then insert a (alert_rows d key) else alert_rows d key))"
    using assms(1) unfolding save_operational_alert_event_def
  proof (cases rule: fs_transaction_cases)
    case (failed e)
    with assms(2) show ?thesis by simp
  next
    case (committed x)
    then obtain rows where rows: "append_artifact ''operational alert event'' (alert_row_ok (os_alerts d) a) (al_event_id a) a (os_alerts d) = Inr (rows, x)"
      "os_alerts d' = rows" by (auto simp: bind_result_Inr)
    note step = append_artifact_Inr [OF rows(1)]
    have "a \<notin> set (dict_values (os_alerts d))" using assms(3) by (auto simp: alert_rows_def)
    then have "rows \<noteq> os_alerts d" using step dict_get_in_values by fastforce
    with step have new: "dict_get (os_alerts d) (al_event_id a) = None" "rows = dict_set (al_event_id a) a (os_alerts d)" "x = a" by auto
    have "set (dict_values rows) = insert a (set (dict_values (os_alerts d)))"
      using new(2) set_values_new [OF assms(2) new(1)] by simp
    with new rows(2) committed(2) assms(2) show ?thesis by (auto simp: alert_rows_def)
  qed
  then show "dict_wf (os_alerts d')" "r = Inl e \<Longrightarrow> os_alerts d' = os_alerts d"
    "r = Inr x \<Longrightarrow> x = a \<and> alert_rows d' key = (if key = al_alert_key a then insert a (alert_rows d key) else alert_rows d key)"
    by blast+
qed

lemma lifecycle_sequences:
  assumes "alert_lifecycle d o1 key as" "x \<in> alert_rows d key"
  shows "al_sequence x \<le> int (length as)"
proof -
  have "al_sequence x \<in> set (map al_sequence as)" using assms unfolding alert_lifecycle_def set_map by blast
  also have "\<dots> = set (map int [1..<length as + 1])" using assms(1) unfolding alert_lifecycle_def by metis
  finally show ?thesis by auto
qed

lemma record_alert_ok:
  assumes "alerts_ok o1" "record_alert now fresh q o1 = (o2, r)"
  shows "alerts_ok o2"
proof -
  let ?key = "aq_key q" and ?n = "sequence_of (op_sequences o1) (aq_key q) + 1"
  obtain d where d: "op_repository o1 = Some d" "dict_wf (os_alerts d)" "\<forall>key. \<exists>as. alert_lifecycle d o1 key as"
    using assms(1) by (auto simp: alerts_ok_def)
  then obtain as where as: "alert_lifecycle d o1 ?key as" by blast
  show ?thesis
  proof (cases "aq_event_type q = AlOPENED \<and> dict_get (op_active o1) ?key \<noteq> None \<or>
      aq_event_type q = AlRESOLVED \<and> dict_get (op_active o1) ?key = None \<or> (\<exists>e. alert_of now fresh ?n q = Inl e)")
    case True
    then have "o2 = o1" using assms(2) by (auto simp: record_alert_def Let_def split: if_splits)
    with assms(1) show ?thesis by simp
  next
    case False
    then obtain a where a: "alert_of now fresh ?n q = Inr a" by (cases "alert_of now fresh ?n q") auto
    then have fields: "al_alert_key a = ?key" "al_sequence a = ?n" "al_event_type a = aq_event_type q" by (auto simp: alert_of_def)
    have n: "?n = int (length as) + 1" using as by (simp add: alert_lifecycle_def)
    have kind: "aq_event_type q = (if even (length as) then AlOPENED else AlRESOLVED)"
      using False as by (cases "aq_event_type q") (auto simp: alert_lifecycle_def split: if_splits)
    obtain d' s where s: "save_operational_alert_event a d = (d', s)" by force
    have fresh_sequence: "\<forall>x \<in> alert_rows d (al_alert_key a). al_sequence x \<noteq> al_sequence a"
      using lifecycle_sequences [OF as] fields n by fastforce
    note app = alert_append [OF s d(2) fresh_sequence]
    show ?thesis
    proof (cases s)
      case (Inl e)
      then have "o2 = o1\<lparr>op_repository := Some d'\<rparr>" using assms(2) a d(1) s False by (auto simp: record_alert_def Let_def with_store_def)
      with app(2) [OF Inl] d(1) assms(1) show ?thesis by (intro alerts_ok_frame [OF assms(1)]) auto
    next
      case (Inr x)
      note app3 = app(3) [OF Inr]
      then have o2: "o2 = keep_alert ?key ?n (aq_event_type q) a (o1\<lparr>op_repository := Some d'\<rparr>)"
        using assms(2) a d(1) s False Inr by (auto simp: record_alert_def Let_def with_store_def)
      have "\<exists>bs. alert_lifecycle d' o2 key bs" for key
      proof (cases "key = ?key")
        case True
        have "alert_lifecycle d' o2 key (as @ [a])"
          using as app3 [of key] o2 True fields n kind
          by (auto simp: alert_lifecycle_def keep_alert_def dict_simps sequence_of_def)
        then show ?thesis ..
      next
        case False
        obtain bs where bs: "alert_lifecycle d o1 key bs" using d(3) by blast
        have "alert_lifecycle d' o2 key bs"
          using bs app3 [of key] o2 False fields by (auto simp: alert_lifecycle_def keep_alert_def dict_simps sequence_of_def)
        then show ?thesis ..
      qed
      with app(1) o2 show ?thesis by (auto simp: alerts_ok_def keep_alert_def)
    qed
  qed
qed

lemma with_store_frame:
  assumes "with_store repo f x = (repo', r)" "\<And>d d' r. f d = (d', r) \<Longrightarrow> os_alerts d' = os_alerts d" "repo = Some d"
  shows "\<exists>d'. repo' = Some d' \<and> os_alerts d' = os_alerts d"
  using assms by (auto simp: with_store_def split: prod.splits)

lemma append_slos_alerts: "append_slos ss d = Inr (d', xs) \<Longrightarrow> os_alerts d' = os_alerts d"
  by (induction ss arbitrary: d xs) (auto simp: bind_result_Inr split: prod.splits)

lemma saves_keep_alerts:
  "save_operational_metric_snapshot s d = (d', r1) \<Longrightarrow> os_alerts d' = os_alerts d"
  "save_slo_evaluations ss d = (d', r2) \<Longrightarrow> os_alerts d' = os_alerts d"
  "save_cost_usage_record c d = (d', r3) \<Longrightarrow> os_alerts d' = os_alerts d"
  "save_resilience_test_run x d = (d', r4) \<Longrightarrow> os_alerts d' = os_alerts d"
  by (auto simp: save_operational_metric_snapshot_def save_slo_evaluations_def save_cost_usage_record_def save_resilience_test_run_def
      bind_result_Inr split: if_splits elim!: fs_transaction_cases dest: append_slos_alerts)

lemma record_cost_store:
  assumes "record_cost now c o1 = (o2, r)" "op_repository o1 = Some d"
  shows "\<exists>d'. op_repository o2 = Some d' \<and> os_alerts d' = os_alerts d"
proof -
  obtain repo q where w: "with_store (op_repository o1) (save_cost_usage_record c) c = (repo, q)" by force
  from with_store_frame [OF w _ assms(2)] have "\<exists>d'. repo = Some d' \<and> os_alerts d' = os_alerts d" by (auto dest: saves_keep_alerts)
  with assms(1) w show ?thesis by (auto simp: record_cost_def Let_def split: sum.splits)
qed

lemma observe_agent_batch_store:
  assumes "observe_agent_batch now clk fresh outs c ms o1 = (o2, r)" "op_repository o1 = Some d"
  shows "\<exists>d'. op_repository o2 = Some d' \<and> os_alerts d' = os_alerts d"
proof -
  have "o2 = o1 \<or> (\<exists>m. o2 = o1\<lparr>op_metrics := m\<rparr>) \<or> (\<exists>m x q. record_cost now x (o1\<lparr>op_metrics := m\<rparr>) = (o2, q))"
  proof (cases "batch_metrics clk outs ms (op_metrics o1)")
    case (Inr m)
    show ?thesis
    proof (cases "outs = [] \<or> (\<exists>e. batch_cost now fresh outs c (o1\<lparr>op_metrics := m\<rparr>) = Inl e)")
      case False
      then obtain x where x: "batch_cost now fresh outs c (o1\<lparr>op_metrics := m\<rparr>) = Inr x" by (metis sumE)
      obtain o3 q where q: "record_cost now x (o1\<lparr>op_metrics := m\<rparr>) = (o3, q)" by force
      with assms(1) Inr False x have "o3 = o2" by (cases q) (simp_all add: observe_agent_batch_def bind_outcome_def)
      with q show ?thesis by blast
    qed (use assms(1) Inr in \<open>auto simp: observe_agent_batch_def Let_def split: if_splits\<close>)
  qed (use assms(1) in \<open>simp add: observe_agent_batch_def\<close>)
  with record_cost_store assms(2) show ?thesis by fastforce
qed

lemma observe_dependency_alerts:
  assumes "alerts_ok o1" "observe_dependency now fresh d h reason c o1 = (o2, r)"
  shows "alerts_ok o2"
proof -
  obtain rc q where rc: "observe_health d h reason (op_recovery o1) = (rc, q)" by force
  have frame: "alerts_ok (o1\<lparr>op_recovery := rc\<rparr>)" "alerts_ok (o1\<lparr>op_recovery := rc, op_metrics := m\<rparr>)" for m
    by (auto intro: alerts_ok_frame [OF assms(1)])
  show ?thesis
    using assms(2) rc frame
    by (auto simp: observe_dependency_def Let_def bind_outcome_def split: sum.splits option.splits prod.splits intro: record_alert_ok)
qed

lemma sync_slo_alerts_ok: "alerts_ok o1 \<Longrightarrow> sync_slo_alerts now fresh c ss o1 = (o2, r) \<Longrightarrow> alerts_ok o2"
proof (induction ss arbitrary: o1)
  case (Cons s ss)
  obtain o3 q where q: "sync_slo_alert now fresh c s o1 = (o3, q)" by force
  then have "alerts_ok o3"
    using Cons.prems(1) by (auto simp: sync_slo_alert_def bind_outcome_def split: option.splits sum.splits prod.splits intro: record_alert_ok)
  with Cons q show ?case by (auto simp: bind_outcome_def split: sum.splits)
qed simp

lemma evaluate_slos_alerts:
  assumes "alerts_ok o1" "evaluate_slos now clk fresh c o1 = (o2, r)"
  shows "alerts_ok o2"
proof (cases "slo_evaluations_of now clk fresh o1")
  case (Inl e)
  with assms show ?thesis by (simp add: evaluate_slos_def)
next
  case (Inr ss)
  obtain d where d: "op_repository o1 = Some d" using assms(1) by (auto simp: alerts_ok_def)
  obtain repo q where w: "with_store (op_repository o1) (save_slo_evaluations ss) ss = (repo, q)" by force
  have "\<exists>d'. repo = Some d' \<and> os_alerts d' = os_alerts d" using with_store_frame [OF w _ d] saves_keep_alerts(2) by blast
  then have frame: "alerts_ok (o1\<lparr>op_repository := repo\<rparr>)" "alerts_ok (o1\<lparr>op_repository := repo, op_slos := xs\<rparr>)" for xs
    using d by (auto intro: alerts_ok_frame [OF assms(1)])
  show ?thesis
    using assms(2) Inr w frame
    by (auto simp: evaluate_slos_def Let_def bind_outcome_def split: sum.splits prod.splits intro: sync_slo_alerts_ok)
qed

lemma operations_step_alerts:
  assumes "operations_step o1 ys o2" "alerts_ok o1"
  shows "alerts_ok o2"
proof -
  obtain d where d: "op_repository o1 = Some d" using assms(2) by (auto simp: alerts_ok_def)
  show ?thesis
    using assms(1)
  proof cases
    case st_dependency
    with assms(2) observe_dependency_alerts show ?thesis by blast
  next
    case (st_batch now clk fresh outs c1 ms r)
    note frame = observe_agent_batch_frame [OF st_batch(2)] observe_agent_batch_store [OF st_batch(2) d]
    show ?thesis by (rule alerts_ok_frame [OF assms(2)]) (use frame d in auto)
  next
    case (st_cycle clk ok ms r)
    note frame = observe_cycle_frame [OF st_cycle(2)]
    show ?thesis by (rule alerts_ok_frame [OF assms(2)]) (use frame d in auto)
  next
    case (st_cost now x r)
    note frame = record_cost_frame [OF st_cost(2)] record_cost_store [OF st_cost(2) d]
    show ?thesis by (rule alerts_ok_frame [OF assms(2)]) (use frame d in auto)
  next
    case st_slos
    with assms(2) evaluate_slos_alerts show ?thesis by blast
  next
    case (st_snapshot H now clk fresh c1 p reg r)
    have "\<exists>d'. op_repository o2 = Some d' \<and> os_alerts d' = os_alerts d"
      using st_snapshot(2) d
      by (auto simp: capture_snapshot_def with_store_def split: sum.splits prod.splits if_splits dest: saves_keep_alerts)
    with capture_snapshot_frame [OF st_snapshot(2)] d show ?thesis by (intro alerts_ok_frame [OF assms(2)]) auto
  next
    case (st_run x r)
    have "\<exists>d'. op_repository o2 = Some d' \<and> os_alerts d' = os_alerts d"
      using st_run(2) d
      by (auto simp: record_resilience_run_def with_store_def split: sum.splits prod.splits if_splits dest: saves_keep_alerts)
    with record_resilience_run_frame [OF st_run(2)] d show ?thesis by (intro alerts_ok_frame [OF assms(2)]) auto
  qed
qed

lemma operations_history_alerts: "operations_history o1 ys o2 \<Longrightarrow> alerts_ok o1 \<Longrightarrow> alerts_ok o2"
  by (induction rule: operations_history.induct) (auto dest: operations_step_alerts)

definition empty_operations_store :: operations_store where
  "empty_operations_store = \<lparr>fs_faults = [], os_snapshots = [], os_slos = [], os_alerts = [], os_costs = [], os_runs = []\<rparr>"

section \<open>A concrete history\<close>

definition sample_operations_settings :: operations_settings where
  "sample_operations_settings =
     \<lparr>ot_metric_capacity = 100, ot_window_seconds = 300, ot_daily_budget = flt 10, ot_warning_percent = flt 80, ot_unit_cost = 0,
      ot_agent_success = flt (99 / 100), ot_agent_latency = flt 2000, ot_orchestrator_success = flt (99 / 100),
      ot_orchestrator_latency = flt 5000, ot_recovery_successes = 2\<rparr>"

definition sample_operations :: operations where
  "sample_operations =
     (case new_operations sample_operations_settings (Some (empty_operations_store\<lparr>fs_faults := [True]\<rparr>)) of Inr o1 \<Rightarrow> o1)"

text \<open>The database fails, twice, and the first alert cannot be stored; then every critical dependency answers twice.\<close>

definition sample_reports :: "health_report list" where
  "sample_reports =
     [(DepDATABASE, False), (DepDATABASE, False), (DepDATABASE, True), (DepAUDIT, True), (DepRISK, True), (DepDATABASE, True),
      (DepAUDIT, True), (DepRISK, True)]"

definition report_health :: "nat \<times> health_report \<Rightarrow> operations \<Rightarrow> operations" where
  "report_health x o1 =
     (case x of (n, d, h) \<Rightarrow> fst (observe_dependency (int n) (\<lambda>key. key @ decimal n) d h ''probe'' None o1))"

definition sample_reported :: operations where
  "sample_reported = fold report_health (enumerate 0 sample_reports) sample_operations"

lemma report_health_history: "operations_history o1 (map snd xs) (fold report_health xs o1)"
proof (induction xs arbitrary: o1)
  case Nil
  show ?case by (simp add: hi_nil)
next
  case (Cons x xs)
  obtain n d h where x: "x = (n, d, h)" by (metis prod_cases3)
  have "operations_step o1 [(d, h)] (report_health x o1)"
    unfolding x report_health_def prod.case by (rule st_dependency) (rule prod.collapse [symmetric])
  from history_append [OF Cons.IH history_single [OF this]] x show ?case by simp
qed

lemma sample_reported_history: "operations_history sample_operations sample_reports sample_reported"
  using report_health_history [of sample_operations "enumerate 0 sample_reports"] by (simp add: sample_reported_def)

lemma sample_operations_new:
  "new_operations sample_operations_settings (Some (empty_operations_store\<lparr>fs_faults := [True]\<rparr>)) = Inr sample_operations"
proof -
  have "is_ok (new_operations sample_operations_settings (Some (empty_operations_store\<lparr>fs_faults := [True]\<rparr>)))" by code_simp
  then show ?thesis by (auto simp: sample_operations_def is_ok_iff)
qed

lemma sample_operations_store: "op_repository sample_operations = Some (empty_operations_store\<lparr>fs_faults := [True]\<rparr>)"
  using new_operations_Inr [OF sample_operations_new] by simp

section \<open>The properties\<close>

text \<open>
  C39. Decisions are halted by a failed critical dependency and released by confirmation only. Over every
  history of calls after a start, whatever the database does, decisions are allowed exactly when no report of a
  critical dependency was unhealthy, or when by now each of the three critical dependencies has been
  reported healthy at least the required number of times in a row.
\<close>

theorem decisions_halt_until_confirmed:
  assumes "new_operations c repo = Inr o0" "operations_initialize o0 = (o1, r)" "operations_history o1 reports o2"
  shows "decisions_allowed (op_recovery o2) \<longleftrightarrow>
    no_critical_failure reports \<or> all_confirmed (ot_recovery_successes c) reports"
proof -
  obtain rc where rc: "new_recovery (ot_recovery_successes c) = Inr rc" "op_recovery o0 = rc"
    using new_operations_Inr [OF assms(1)] by blast
  have "op_recovery o1 = rc" using operations_initialize_recovery [OF assms(2)] rc(2) by simp
  with new_recovery_ok [OF rc(1)] operations_history_recovery [OF assms(3)]
  have "recovery_ok (op_recovery o2) reports" "rc_required (op_recovery o2) = ot_recovery_successes c" by fastforce+
  with recovery_ok_allowed show ?thesis by metis
qed

theorem decisions_halt_until_confirmed_witness:
  "decisions_allowed (op_recovery sample_reported) \<longleftrightarrow>
    no_critical_failure sample_reports \<or> all_confirmed (ot_recovery_successes sample_operations_settings) sample_reports"
proof (rule decisions_halt_until_confirmed [OF sample_operations_new])
  show "operations_initialize sample_operations = (sample_operations, Inr ())"
    by (simp add: operations_initialize_def sample_operations_store empty_operations_store_def dict_values_def newest_first_def
        list_operational_metric_snapshots_def list_slo_evaluations_def list_operational_alert_events_def
        list_cost_usage_records_def list_resilience_test_runs_def list_limit_def bind_result_def extend_bounded_def)
qed (rule sample_reported_history)

lemma sample_reported_recovers: "decisions_allowed (op_recovery sample_reported) \<and> \<not> no_critical_failure sample_reports"
  by code_simp

text \<open>
  C40. Alerts have a life cycle that survives every failure. Start from empty tables and take any history of
  calls with any failures of the database. The stored events of a key are numbered 1 to n without gap, they
  open and resolve in turn, and the alert is active exactly when the last of them opened it.
\<close>

theorem alerts_alternate:
  assumes "new_operations c (Some (empty_operations_store\<lparr>fs_faults := faults\<rparr>)) = Inr o1" "operations_history o1 reports o2"
  shows "\<exists>d as. op_repository o2 = Some d \<and> set as = alert_rows d key \<and> map al_sequence as = map int [1..<length as + 1] \<and>
    map al_event_type as = alternating (length as) \<and>
    dict_get (op_active o2) key = (if odd (length as) then Some (last as) else None)"
proof -
  have "op_repository o1 = Some (empty_operations_store\<lparr>fs_faults := faults\<rparr>)" "op_active o1 = []" "op_sequences o1 = []"
    using new_operations_Inr [OF assms(1)] by simp_all
  then have "alerts_ok o1"
    by (auto simp: alerts_ok_def alert_lifecycle_def alert_rows_def empty_operations_store_def dict_values_def sequence_of_def alternating_def)
  with operations_history_alerts [OF assms(2)] have "alerts_ok o2" .
  then show ?thesis unfolding alerts_ok_def alert_lifecycle_def by meson
qed

theorem alerts_alternate_witness:
  "\<exists>d as. op_repository sample_reported = Some d \<and> set as = alert_rows d ''dependency:database'' \<and>
    map al_sequence as = map int [1..<length as + 1] \<and> map al_event_type as = alternating (length as) \<and>
    dict_get (op_active sample_reported) ''dependency:database'' = (if odd (length as) then Some (last as) else None)"
  by (rule alerts_alternate [OF sample_operations_new sample_reported_history])

lemma sample_reported_alerts:
  "map_option (\<lambda>d. map al_event_type (dict_values (os_alerts d))) (op_repository sample_reported) = Some [AlOPENED, AlRESOLVED]"
  by code_simp

end
