(* ===== verification/Market_Store.thy ===== *)
theory Market_Store
  imports Market_Gates Agent_Evaluation
begin

text \<open>
  Persisted market data: the candle table, the decision table and the system events of the repository, and gap
  detection with its table, \<^verbatim>\<open>app/market_data/gaps.py\<close> and \<^verbatim>\<open>app/market_data/identity.py\<close>.

  \<open>H\<close> is SHA-256 of a canonical JSON text; \<open>G\<close> is SHA-256 of the text that joins the fields of a gap. The market
  facts of a candle identify it, its reception does not.
\<close>

section \<open>Candle identity\<close>

definition canonical_candle_payload :: "candle \<Rightarrow> json" where
  "canonical_candle_payload c =
     JObj [(''schema_version'', JStr ''1.0.0''), (''exchange'', JStr (exchange_value (cd_exchange c))), (''symbol'', JStr (cd_symbol c)),
           (''timeframe'', JStr (cd_timeframe c)), (''open'', JFloat (cd_open c)), (''high'', JFloat (cd_high c)),
           (''low'', JFloat (cd_low c)), (''close'', JFloat (cd_close c)), (''volume'', JFloat (cd_volume c)),
           (''closed_at'', JTime (cd_closed_at c))]"

definition candle_event_id :: "(json \<Rightarrow> string) \<Rightarrow> candle \<Rightarrow> string" where
  "candle_event_id H c = H (canonical_candle_payload c)"

section \<open>Gaps\<close>

datatype gap_status = GapOPEN | GapFILLING | GapRESOLVED | GapFAILED

record market_data_gap =
  gp_gap_id :: string
  gp_exchange :: string
  gp_symbol :: string
  gp_timeframe :: string
  gp_start_at :: time
  gp_end_at :: time
  gp_missing_count :: int
  gp_status :: gap_status
  gp_detected_at :: time
  gp_resolved_at :: "time option"
  gp_backfill_job_id :: "string option"

definition valid_market_data_gap :: "market_data_gap \<Rightarrow> bool" where
  [valid_defs]: "valid_market_data_gap g \<longleftrightarrow>
     sha_ok (gp_gap_id g) \<and> gp_exchange g \<in> {''BINANCE'', ''BYBIT''} \<and> candle_symbol_ok (gp_symbol g) \<and>
     timeframe_ok (gp_timeframe g) \<and> 0 < gp_missing_count g \<and>
     (case gp_backfill_job_id g of None \<Rightarrow> True | Some i \<Rightarrow> sha_ok i) \<and> gp_start_at g \<le> gp_end_at g \<and>
     (gp_status g = GapRESOLVED \<longrightarrow> gp_resolved_at g \<noteq> None)"

type_synonym gap_hash = "string \<times> string \<times> string \<times> time \<times> time \<Rightarrow> string"

definition gap_id :: "gap_hash \<Rightarrow> string \<Rightarrow> string \<Rightarrow> string \<Rightarrow> time \<Rightarrow> time \<Rightarrow> string" where
  "gap_id G exchange symbol timeframe start_at end_at = G (to_upper exchange, to_upper symbol, timeframe, start_at, end_at)"

text \<open>\<^verbatim>\<open>missing\<close> steps from \<^verbatim>\<open>first\<close> on, as first instant, last instant and count; none when nothing is missing.\<close>

definition missing_range :: "int \<Rightarrow> time \<Rightarrow> int \<Rightarrow> (time \<times> time \<times> int) list" where
  "missing_range step first missing = (if missing = 0 then [] else [(first, first + step * (missing - 1), missing)])"

definition missing_between :: "int \<Rightarrow> time \<Rightarrow> time \<Rightarrow> int" where
  "missing_between step_seconds previous current =
     max 0 (round_half_even (fval (total_seconds (current - previous) / flt (of_int step_seconds))) - 1)"

fun inner_ranges :: "int \<Rightarrow> time list \<Rightarrow> (time \<times> time \<times> int) list" where
  "inner_ranges step_seconds (p # c # ts) =
     missing_range (step_seconds * 1000000) (p + step_seconds * 1000000) (missing_between step_seconds p c) @
     inner_ranges step_seconds (c # ts)"
| "inner_ranges step_seconds _ = []"

definition gap_ranges :: "int \<Rightarrow> time \<Rightarrow> time \<Rightarrow> time list \<Rightarrow> (time \<times> time \<times> int) list" where
  "gap_ranges step_seconds start_at end_at ts =
     (let step = step_seconds * 1000000
      in if ts = [] then missing_range step start_at ((end_at - start_at) div step + 1)
         else (if start_at < hd ts then missing_range step start_at ((hd ts - start_at) div step) else []) @
              inner_ranges step_seconds ts @
              (if last ts < end_at then missing_range step (last ts + step) ((end_at - last ts) div step) else []))"

definition selected_candle :: "string \<Rightarrow> string \<Rightarrow> string \<Rightarrow> time \<Rightarrow> time \<Rightarrow> candle \<Rightarrow> bool" where
  "selected_candle exchange symbol timeframe start_at end_at c \<longleftrightarrow>
     exchange_value (cd_exchange c) = to_upper exchange \<and> cd_symbol c = to_upper symbol \<and> cd_timeframe c = timeframe \<and>
     start_at \<le> cd_closed_at c \<and> cd_closed_at c \<le> end_at"

definition detect_candle_gaps ::
  "gap_hash \<Rightarrow> time \<Rightarrow> string \<Rightarrow> string \<Rightarrow> string \<Rightarrow> time \<Rightarrow> time \<Rightarrow> candle list \<Rightarrow> market_data_gap list result" where
  "detect_candle_gaps G now exchange symbol timeframe start_at end_at candles =
     (if end_at < start_at then raise ValueError ''start_at must not be after end_at''
      else case dict_get TIMEFRAME_SECONDS timeframe of
             None \<Rightarrow> raise DataQualityError (''Unsupported timeframe for gap detection: '' @ timeframe)
           | Some step_seconds \<Rightarrow>
               let ts = sort (map cd_closed_at (filter (selected_candle exchange symbol timeframe start_at end_at) candles))
               in if \<not> distinct ts then raise DataQualityError ''Cannot scan gaps in a series with duplicate timestamps''
                  else map_result (\<lambda>(a, b, n). validate valid_market_data_gap
                         \<lparr>gp_gap_id = gap_id G exchange symbol timeframe a b, gp_exchange = to_upper exchange, gp_symbol = to_upper symbol,
                          gp_timeframe = timeframe, gp_start_at = a, gp_end_at = b, gp_missing_count = n, gp_status = GapOPEN,
                          gp_detected_at = now, gp_resolved_at = None, gp_backfill_job_id = None\<rparr>)
                       (gap_ranges step_seconds start_at end_at ts))"

section \<open>Tables\<close>

record system_event =
  sy_event_type :: string
  sy_source :: string
  sy_correlation_id :: string
  sy_payload :: "(string \<times> json) list"
  sy_created_at :: time

record market_store = faulty +
  mk_candles :: "(candle \<times> data_quality_report option) dict"
  mk_gaps :: "market_data_gap dict"
  mk_decisions :: "decision dict"
  mk_events :: "system_event list"

definition save_system_event :: "system_event \<Rightarrow> market_store \<Rightarrow> (market_store, unit) outcome" where
  "save_system_event e = fs_transaction (\<lambda>d. Inr (d\<lparr>mk_events := mk_events d @ [e]\<rparr>, ()))"

definition same_series_time :: "candle \<Rightarrow> candle \<Rightarrow> bool" where
  "same_series_time c c' \<longleftrightarrow>
     cd_exchange c = cd_exchange c' \<and> cd_symbol c = cd_symbol c' \<and> cd_timeframe c = cd_timeframe c' \<and>
     cd_closed_at c = cd_closed_at c'"

definition candle_row_ok :: "market_store \<Rightarrow> candle \<times> data_quality_report option \<Rightarrow> bool" where
  "candle_row_ok d row \<longleftrightarrow>
     (case row of (c, q) \<Rightarrow>
        0 < cd_open c \<and> 0 < cd_high c \<and> 0 < cd_low c \<and> 0 < cd_close c \<and>
        cd_open c \<le> cd_high c \<and> cd_close c \<le> cd_high c \<and> cd_low c \<le> cd_high c \<and> cd_low c \<le> cd_open c \<and> cd_low c \<le> cd_close c \<and>
        0 \<le> cd_volume c \<and> (case q of None \<Rightarrow> True | Some r \<Rightarrow> 0 \<le> dq_score r \<and> dq_score r \<le> 100) \<and>
        \<not> list_ex (\<lambda>(c', _). same_series_time c c') (dict_values (mk_candles d)))"

fun insert_candles ::
  "(json \<Rightarrow> string) \<Rightarrow> (candle \<times> data_quality_report option) list \<Rightarrow> market_store \<Rightarrow> (market_store \<times> nat) result" where
  "insert_candles H [] d = Inr (d, 0)"
| "insert_candles H (row # rows) d =
     (let i = candle_event_id H (fst row)
      in if dict_get (mk_candles d) i \<noteq> None then insert_candles H rows d
         else if \<not> candle_row_ok d row then raise DatabaseError ''Failed to persist candle batch: constraint violated''
         else bind_result (insert_candles H rows (d\<lparr>mk_candles := dict_set i row (mk_candles d)\<rparr>)) (\<lambda>(d', n). Inr (d', Suc n)))"

definition save_candles ::
  "(json \<Rightarrow> string) \<Rightarrow> candle list \<Rightarrow> data_quality_report option list option \<Rightarrow> market_store \<Rightarrow> (market_store, nat) outcome" where
  "save_candles H cs reports d =
     (if cs = [] then (d, Inr 0)
      else let qs = (case reports of None \<Rightarrow> replicate (length cs) None | Some qs \<Rightarrow> qs)
           in if length qs \<noteq> length cs then (d, raise ValueError ''quality_reports must match candles'')
              else fs_transaction (insert_candles H (zip cs qs)) d)"

definition save_candle ::
  "(json \<Rightarrow> string) \<Rightarrow> candle \<Rightarrow> data_quality_report option \<Rightarrow> market_store \<Rightarrow> (market_store, bool) outcome" where
  "save_candle H c q d = bind_outcome (save_candles H [c] (Some [q]) d) (\<lambda>d' n. (d', Inr (n = 1)))"

definition list_candles ::
  "string \<Rightarrow> string \<Rightarrow> string \<Rightarrow> time option \<Rightarrow> time option \<Rightarrow> int \<Rightarrow> market_store \<Rightarrow> candle list result" where
  "list_candles exchange symbol timeframe start_at end_at limit d =
     (if limit < 1 \<or> 1000000 < limit then raise ValueError ''limit must be between 1 and 1000000''
      else map_result (validate valid_candle)
        (take (nat limit) (sort_key cd_closed_at (filter
           (\<lambda>c. exchange_value (cd_exchange c) = to_upper exchange \<and> cd_symbol c = to_upper symbol \<and> cd_timeframe c = timeframe \<and>
                (case start_at of None \<Rightarrow> True | Some t \<Rightarrow> t \<le> cd_closed_at c) \<and>
                (case end_at of None \<Rightarrow> True | Some t \<Rightarrow> cd_closed_at c \<le> t))
           (map fst (dict_values (mk_candles d)))))))"

definition gap_row_ok :: "market_data_gap \<Rightarrow> bool" where
  "gap_row_ok g \<longleftrightarrow> 0 < gp_missing_count g \<and> gp_start_at g \<le> gp_end_at g"

text \<open>A gap seen again takes over the new scan; its backfill job is kept unless the new one names another.\<close>

definition upsert_gap :: "market_data_gap \<Rightarrow> market_data_gap dict \<Rightarrow> market_data_gap dict" where
  "upsert_gap g rows =
     (case dict_get rows (gp_gap_id g) of
        None \<Rightarrow> dict_set (gp_gap_id g) g rows
      | Some old \<Rightarrow>
          dict_set (gp_gap_id g)
            (old\<lparr>gp_missing_count := gp_missing_count g, gp_status := gp_status g, gp_detected_at := gp_detected_at g,
                 gp_resolved_at := gp_resolved_at g,
                 gp_backfill_job_id := (if gp_backfill_job_id g = None then gp_backfill_job_id old else gp_backfill_job_id g)\<rparr>) rows)"

definition save_market_data_gaps :: "market_data_gap list \<Rightarrow> market_store \<Rightarrow> (market_store, nat) outcome" where
  "save_market_data_gaps gs d =
     (if gs = [] then (d, Inr 0)
      else fs_transaction (\<lambda>d.
        if \<not> list_all gap_row_ok gs then raise DatabaseError ''Failed to persist market-data gaps: constraint violated''
        else Inr (d\<lparr>mk_gaps := fold upsert_gap gs (mk_gaps d)\<rparr>, length gs)) d)"

definition resolved_by_scan :: "string \<Rightarrow> string \<Rightarrow> string \<Rightarrow> time \<Rightarrow> time \<Rightarrow> string list \<Rightarrow> market_data_gap \<Rightarrow> bool" where
  "resolved_by_scan exchange symbol timeframe start_at end_at unresolved g \<longleftrightarrow>
     gp_exchange g = to_upper exchange \<and> gp_symbol g = to_upper symbol \<and> gp_timeframe g = timeframe \<and>
     gp_status g \<in> {GapOPEN, GapFILLING, GapFAILED} \<and> start_at \<le> gp_end_at g \<and> gp_start_at g \<le> end_at \<and>
     gp_gap_id g \<notin> set unresolved"

definition resolve_market_data_gaps ::
  "time \<Rightarrow> string \<Rightarrow> string \<Rightarrow> string \<Rightarrow> time \<Rightarrow> time \<Rightarrow> string list \<Rightarrow> string option \<Rightarrow> market_store \<Rightarrow> (market_store, nat) outcome" where
  "resolve_market_data_gaps now exchange symbol timeframe start_at end_at unresolved job_id =
     fs_transaction (\<lambda>d.
       let hit = resolved_by_scan exchange symbol timeframe start_at end_at unresolved
       in Inr (d\<lparr>mk_gaps :=
                   map (\<lambda>(i, g). (i, if hit g
                       then g\<lparr>gp_status := GapRESOLVED, gp_resolved_at := Some now,
                              gp_backfill_job_id := (if job_id = None then gp_backfill_job_id g else job_id)\<rparr>
                       else g)) (mk_gaps d)\<rparr>,
               length (filter hit (dict_values (mk_gaps d)))))"

definition save_decision :: "decision \<Rightarrow> market_store \<Rightarrow> (market_store, unit) outcome" where
  "save_decision dec =
     fs_transaction (\<lambda>d.
       if dict_get (mk_decisions d) (dec_decision_id dec) \<noteq> None
       then raise DatabaseError ''Failed to persist decision: identity taken''
       else Inr (d\<lparr>mk_decisions := dict_set (dec_decision_id dec) dec (mk_decisions d)\<rparr>, ()))"

definition update_decision_risk_status :: "string \<Rightarrow> risk_status \<Rightarrow> market_store \<Rightarrow> (market_store, unit) outcome" where
  "update_decision_risk_status i status =
     fs_transaction (\<lambda>d.
       Inr (case dict_get (mk_decisions d) i of
              None \<Rightarrow> d
            | Some dec \<Rightarrow> d\<lparr>mk_decisions := dict_set i (dec\<lparr>dec_risk_status := status\<rparr>) (mk_decisions d)\<rparr>, ()))"

section \<open>The gap service\<close>

definition scan_gaps ::
  "gap_hash \<Rightarrow> time \<Rightarrow> string \<Rightarrow> string \<Rightarrow> string \<Rightarrow> time \<Rightarrow> time \<Rightarrow> int \<Rightarrow> string option \<Rightarrow> market_store
     \<Rightarrow> (market_store, market_data_gap list) outcome" where
  "scan_gaps G now exchange symbol timeframe start_at end_at limit job_id d =
     (case dict_get TIMEFRAME_SECONDS timeframe of
        None \<Rightarrow> (d, raise DataQualityError (''Unsupported timeframe for gap detection: '' @ timeframe))
      | Some step_seconds \<Rightarrow>
          if limit < \<lfloor>fval (total_seconds (end_at - start_at)) / of_int step_seconds\<rfloor> + 1
          then (d, raise DataQualityError ''Gap scan limit is smaller than the requested range'')
          else case bind_result (list_candles exchange symbol timeframe (Some start_at) (Some end_at) limit d)
                      (detect_candle_gaps G now exchange symbol timeframe start_at end_at) of
                 Inl e \<Rightarrow> (d, Inl e)
               | Inr found \<Rightarrow>
                   let gs = (case job_id of None \<Rightarrow> found | Some i \<Rightarrow> map (\<lambda>g. g\<lparr>gp_backfill_job_id := Some i\<rparr>) found)
                   in bind_outcome (save_market_data_gaps gs d) (\<lambda>d1 _.
                      bind_outcome (resolve_market_data_gaps now exchange symbol timeframe start_at end_at (map gp_gap_id gs) job_id d1)
                        (\<lambda>d2 _. (d2, Inr gs))))"

end
