(* ===== verification/Market_Properties.thy ===== *)
theory Market_Properties
  imports Market_Store
begin

text \<open>
  Gap detection against its specification: the instants of the expected grid at which no candle closed. The
  floating-point quotient that counts the steps between two candles is exact on aligned instants.
\<close>

section \<open>The grid\<close>

definition grid :: "int \<Rightarrow> time \<Rightarrow> nat \<Rightarrow> time list" where
  "grid step a n = map (\<lambda>i. a + step * int i) [0..<n]"

lemma grid_0 [simp]: "grid step a 0 = []"
  by (simp add: grid_def)

lemma grid_append: "grid step a (m + n) = grid step a m @ grid step (a + step * int m) n"
proof -
  have "map f [0..<m + n] = map f [0..<m] @ map (\<lambda>i. f (m + i)) [0..<n]" for f :: "nat \<Rightarrow> int"
    by (rule nth_equalityI) (auto simp: nth_append)
  then show ?thesis by (simp add: grid_def algebra_simps)
qed

lemma grid_Suc: "grid step a (Suc n) = a # grid step (a + step) n"
  using grid_append [of step a 1 n] by (simp add: grid_def)

lemma grid_1 [simp]: "grid step a (Suc 0) = [a]"
  by (simp add: grid_def)

lemma grid_bounds:
  assumes "t \<in> set (grid step a n)" "0 < step"
  shows "a \<le> t" "t < a + step * int n"
  using assms by (auto simp: grid_def)

definition instants :: "int \<Rightarrow> time \<times> time \<times> int \<Rightarrow> time list" where
  "instants step r = (case r of (a, b, n) \<Rightarrow> grid step a (nat n))"

lemma instants_missing_range [simp]: "concat (map (instants step) (missing_range step a n)) = grid step a (nat n)"
  by (simp add: missing_range_def instants_def)

section \<open>Counting the steps between two candles\<close>

lemma missing_between_aligned:
  assumes "0 < s" "0 < k" "k * s < 2 ^ 53"
  shows "missing_between s p (p + s * 1000000 * k) = k - 1"
proof -
  have "s * 1 \<le> s * k" "k * 1 \<le> k * s" by (rule mult_left_mono; use assms in simp)+
  then have s: "s < 2 ^ 53" "k < 2 ^ 53" using assms(3) by (simp_all add: mult.commute)
  have "fl (of_int (s * k)) = of_int (s * k)" by (rule fl_integer) (use assms in \<open>simp add: mult.commute\<close>)
  moreover have "fl (of_int s) = of_int s" "fl (of_int k) = of_int k"
    using assms s by (auto intro: fl_integer)
  moreover have "(of_int (s * k) :: rat) / of_int s = of_int k" using assms by simp
  moreover have "(of_int (s * 1000000 * k) :: rat) / 1000000 = of_int (s * k)" by simp
  ultimately have "fval (total_seconds (s * 1000000 * k) / flt (of_int s)) = of_int k"
    unfolding total_seconds_def divide_pyfloat.rep_eq fval_flt by (simp only:)
  then show ?thesis using assms by (simp add: missing_between_def)
qed

section \<open>The ranges are the instants without a candle\<close>

definition missing_instants :: "int \<Rightarrow> time \<Rightarrow> nat \<Rightarrow> time list \<Rightarrow> time list" where
  "missing_instants step a n ts = filter (\<lambda>t. t \<notin> set ts) (grid step a n)"

lemma missing_instants_all:
  assumes "\<And>t. t \<in> set ts \<Longrightarrow> t \<in> set (grid step a n) \<Longrightarrow> False"
  shows "missing_instants step a n ts = grid step a n"
  unfolding missing_instants_def using assms by (auto simp: filter_id_conv)

lemma missing_instants_append:
  "missing_instants step a (m + n) ts = missing_instants step a m ts @ missing_instants step (a + step * int m) n ts"
  by (simp add: missing_instants_def grid_append)

lemma missing_instants_cong:
  assumes "\<And>t. t \<in> set (grid step a n) \<Longrightarrow> t \<in> set ts \<longleftrightarrow> t \<in> set us"
  shows "missing_instants step a n ts = missing_instants step a n us"
  unfolding missing_instants_def using assms by (auto intro: filter_cong)

definition aligned :: "int \<Rightarrow> time \<Rightarrow> time list \<Rightarrow> bool" where
  "aligned step a ts \<longleftrightarrow> list_all (\<lambda>t. (t - a) mod step = 0) ts"

lemma steps_between:
  fixes p t :: int
  assumes "(t - p) mod step = 0" "p < t" "0 < step"
  obtains k where "t = p + step * k" "0 < k"
proof
  show "t = p + step * ((t - p) div step)" using assms by (simp add: minus_mod_eq_mult_div [symmetric])
  then have "0 < step * ((t - p) div step)" using assms by linarith
  then show "0 < (t - p) div step" using assms by (simp add: zero_less_mult_iff)
qed

lemma aligned_shift:
  assumes "aligned step a ts" "(c - a) mod step = 0"
  shows "aligned step c ts"
  unfolding aligned_def list_all_iff
proof
  fix t
  assume "t \<in> set ts"
  then have "step dvd t - a - (c - a)"
    using assms unfolding aligned_def list_all_iff mod_eq_0_iff_dvd by (intro dvd_diff [of step "t - a" "c - a"]) blast+
  then show "(t - c) mod step = 0" by simp
qed

lemma steps_nonneg: "0 < step \<Longrightarrow> y \<le> x \<Longrightarrow> 0 \<le> (x - y) div step" for x y step :: int
  by (simp add: pos_imp_zdiv_nonneg_iff)

lemma steps_add: "0 < step \<Longrightarrow> (x + step * k) div step = k + x div step" for x k step :: int
  by simp

lemma grid_within:
  assumes "t \<in> set (grid step a (Suc (nat ((b - a) div step))))" "0 < step" "a \<le> b"
  shows "a \<le> t" "t \<le> b"
proof -
  have "\<exists>i. t = a + step * int i \<and> i < n" if "t \<in> set (grid step a n)" for n using that unfolding grid_def by auto
  with assms(1) obtain i where i: "t = a + step * int i" "i < Suc (nat ((b - a) div step))" by blast
  then have "int i \<le> (b - a) div step" using steps_nonneg [OF assms(2,3)] by linarith
  note i = i(1) this
  then show "a \<le> t" using assms(2) by simp
  have "step * int i \<le> step * ((b - a) div step)" using i(2) assms(2) by (intro mult_left_mono) auto
  also have "\<dots> = (b - a) - (b - a) mod step" by (simp add: minus_mod_eq_mult_div)
  also have "\<dots> \<le> b - a" using assms(2) by simp
  finally show "t \<le> b" using i(1) by simp
qed

text \<open>One leg: the steps strictly between two neighbouring candles.\<close>

lemma missing_leg:
  assumes "0 < step" "0 < k" "list_all (\<lambda>t. p + step * k \<le> t) ts"
  shows "missing_instants step p (nat k) (p # ts) = grid step (p + step) (nat (k - 1))"
proof -
  have "missing_instants step (p + step) (nat (k - 1)) (p # ts) = grid step (p + step) (nat (k - 1))"
  proof (rule missing_instants_all)
    fix t
    assume t: "t \<in> set (p # ts)" "t \<in> set (grid step (p + step) (nat (k - 1)))"
    have "step * int (nat (k - 1)) = step * k - step" using assms(2) by (simp add: algebra_simps)
    with grid_bounds [OF t(2) assms(1)] assms(1) have "p < t" "t < p + step * k" by linarith+
    then show False using t(1) assms(3) by (auto simp: list_all_iff)
  qed
  moreover have "nat k = Suc (nat (k - 1))" using assms(2) by simp
  ultimately show ?thesis by (simp add: missing_instants_def grid_Suc)
qed

lemma inner_ranges_missing:
  assumes "0 < s" "step = s * 1000000" "sorted_wrt (<) (p # ts)" "aligned step p ts" "last (p # ts) - p < 2 ^ 53"
  shows "concat (map (instants step) (inner_ranges s (p # ts))) =
         missing_instants step p (Suc (nat ((last (p # ts) - p) div step))) (p # ts)"
  using assms(3-5)
proof (induction ts arbitrary: p)
  case Nil
  then show ?case by (simp add: missing_instants_def)
next
  case (Cons c ts)
  define l where "l = last (c # ts)"
  have step: "0 < step" using assms(1,2) by simp
  have after: "list_all (\<lambda>t. c \<le> t) (c # ts)" using Cons.prems(1) by (auto simp: list_all_iff)
  have pc: "p < c" "(c - p) mod step = 0" using Cons.prems by (auto simp: aligned_def)
  from steps_between [OF pc(2) pc(1) step] obtain k where k: "c = p + step * k" "0 < k" by blast
  have "l \<in> set (c # ts)" unfolding l_def by (rule last_in_set) simp
  then have l: "c \<le> l" using after by (auto simp: list_all_iff)
  have "c - p = 1000000 * (k * s)" using k(1) assms(2) by simp
  moreover have "c - p < 2 ^ 53" using Cons.prems(3) l unfolding l_def by simp
  moreover have "0 < k * s" using k(2) assms(1) by simp
  ultimately have "k * s < 2 ^ 53" by linarith
  from missing_between_aligned [OF assms(1) k(2) this, of p] have count: "missing_between s p c = k - 1"
    unfolding k(1) assms(2) .
  have IH: "concat (map (instants step) (inner_ranges s (c # ts))) =
      missing_instants step c (Suc (nat ((l - c) div step))) (c # ts)"
    unfolding l_def
  proof (rule Cons.IH)
    show "aligned step c ts" by (rule aligned_shift [OF _ pc(2)]) (use Cons.prems(2) in \<open>simp add: aligned_def\<close>)
    show "last (c # ts) - c < 2 ^ 53" using Cons.prems(3) pc(1) by simp
  qed (use Cons.prems(1) in simp)
  have "l - p = (l - c) + step * k" using k(1) by simp
  then have "(l - p) div step = k + (l - c) div step" by (simp only: steps_add [OF step])
  then have size: "Suc (nat ((l - p) div step)) = nat k + Suc (nat ((l - c) div step))"
    using k(2) steps_nonneg [OF step l] by (simp add: nat_add_distrib)
  have leg: "missing_instants step p (nat k) (p # c # ts) = grid step (p + step) (nat (k - 1))"
    by (rule missing_leg [OF step k(2)]) (use after k(1) in simp)
  have rest: "missing_instants step c n (p # c # ts) = missing_instants step c n (c # ts)" for n
    by (rule missing_instants_cong) (use pc(1) grid_bounds(1) [OF _ step] in force)
  have "p + step * int (nat k) = c" using k by simp
  then have "missing_instants step p (Suc (nat ((l - p) div step))) (p # c # ts) =
      grid step (p + step) (nat (k - 1)) @ missing_instants step c (Suc (nat ((l - c) div step))) (c # ts)"
    unfolding size missing_instants_append leg by (simp only: rest)
  then show ?case using IH count assms(2) unfolding l_def by simp
qed

lemma sorted_last_greatest: "(t :: int) \<in> set xs \<Longrightarrow> sorted_wrt (<) xs \<Longrightarrow> t \<le> last xs"
  by (induction xs) (auto dest: last_in_set less_imp_le)

lemma gap_ranges_missing:
  assumes "0 < s" "step = s * 1000000" "sorted_wrt (<) ts" "aligned step a ts" "list_all (\<lambda>t. a \<le> t \<and> t \<le> b) ts"
    "a \<le> b" "b - a < 2 ^ 53"
  shows "concat (map (instants step) (gap_ranges s a b ts)) = missing_instants step a (Suc (nat ((b - a) div step))) ts"
proof (cases ts)
  case Nil
  have step: "0 < step" using assms(1,2) by simp
  have "nat ((b - a) div step + 1) = Suc (nat ((b - a) div step))" using steps_nonneg [OF step assms(6)] by simp
  with Nil show ?thesis unfolding gap_ranges_def Let_def assms(2) by (simp add: missing_instants_def)
next
  case (Cons h us)
  define l k0 m n1 where "l = last ts" and "k0 = (h - a) div step" and "m = (l - h) div step" and "n1 = (b - l) div step"
  have step: "0 < step" using assms(1,2) by simp
  have after: "h \<le> t" if "t \<in> set ts" for t using that assms(3) Cons by auto
  have before: "t \<le> l" if "t \<in> set ts" for t using that assms(3) unfolding l_def by (rule sorted_last_greatest)
  have l: "l \<in> set ts" "h \<in> set ts" unfolding l_def Cons by (auto simp: last_in_set)
  have h: "a \<le> h" "l \<le> b" "(h - a) mod step = 0" "h \<le> l"
    using assms(4,5) l after by (auto simp: aligned_def list_all_iff)
  have shifted: "aligned step h ts" using assms(4) h(3) by (rule aligned_shift)
  have "(l - h) mod step = 0" using shifted l(1) by (simp add: aligned_def list_all_iff)
  then have hk: "h = a + step * k0" "l = h + step * m"
    using h(3) unfolding k0_def m_def by (simp_all add: minus_mod_eq_mult_div [symmetric])
  have pos: "0 \<le> k0" "0 \<le> m" "0 \<le> n1"
    unfolding k0_def m_def n1_def using steps_nonneg [OF step] h by blast+
  have "b - a = (b - l) + step * (k0 + m)" using hk by (simp add: algebra_simps)
  then have "(b - a) div step = (k0 + m) + n1" unfolding n1_def by (simp only: steps_add [OF step])
  then have size: "Suc (nat ((b - a) div step)) = nat k0 + (Suc (nat m) + nat n1)"
    using pos by (simp add: nat_add_distrib)
  have leading: "missing_instants step a (nat k0) ts = grid step a (nat k0)"
  proof (rule missing_instants_all)
    fix t
    assume t: "t \<in> set ts" "t \<in> set (grid step a (nat k0))"
    have "t < h" using grid_bounds(2) [OF t(2) step] hk(1) pos by simp
    with after [OF t(1)] show False by simp
  qed
  have trailing: "missing_instants step (l + step) (nat n1) ts = grid step (l + step) (nat n1)"
  proof (rule missing_instants_all)
    fix t
    assume t: "t \<in> set ts" "t \<in> set (grid step (l + step) (nat n1))"
    have "l < t" using grid_bounds(1) [OF t(2) step] step by simp
    with before [OF t(1)] show False by simp
  qed
  have inner: "concat (map (instants step) (inner_ranges s ts)) = missing_instants step h (Suc (nat m)) ts"
    unfolding m_def l_def Cons
  proof (rule inner_ranges_missing [OF assms(1,2)])
    show "aligned step h us" using shifted Cons by (simp add: aligned_def)
    show "last (h # us) - h < 2 ^ 53" using h assms(7) unfolding l_def Cons by linarith
  qed (use assms(3) Cons in simp)
  have "h + step * int (Suc (nat m)) = l + step" "a + step * int (nat k0) = h" using hk pos by (simp_all add: algebra_simps)
  then have "missing_instants step a (Suc (nat ((b - a) div step))) ts =
      grid step a (nat k0) @ concat (map (instants step) (inner_ranges s ts)) @ grid step (l + step) (nat n1)"
    unfolding size missing_instants_append leading inner by (simp only: trailing)
  moreover have "\<not> a < h \<Longrightarrow> k0 = 0" "\<not> l < b \<Longrightarrow> n1 = 0" using h k0_def n1_def by auto
  moreover have "gap_ranges s a b ts =
      (if a < h then missing_range step a k0 else []) @ inner_ranges s ts @ (if l < b then missing_range step (l + step) n1 else [])"
    unfolding gap_ranges_def Let_def k0_def n1_def l_def assms(2) using Cons by simp
  ultimately show ?thesis by simp
qed

section \<open>Detection\<close>

lemma gap_ranges_wf:
  assumes "0 < s" "r \<in> set (gap_ranges s a b ts)" "a \<le> b"
  shows "0 < snd (snd r) \<and> fst r \<le> fst (snd r)"
proof -
  have wf: "0 < snd (snd r) \<and> fst r \<le> fst (snd r)" if "r \<in> set (missing_range (s * 1000000) x n)" "0 \<le> n" for x n
    using that assms(1) by (auto simp: missing_range_def split: if_splits)
  have inner: "0 < snd (snd r) \<and> fst r \<le> fst (snd r)" if "r \<in> set (inner_ranges s us)" for us
    using that
  proof (induction us rule: induct_list012)
    case (3 p c us)
    have "0 \<le> missing_between s p c" by (simp add: missing_between_def)
    with 3 wf show ?case by fastforce
  qed simp_all
  have "0 \<le> (x - y) div (s * 1000000)" if "y \<le> x" for x y :: int
    using that assms(1) by (intro pos_imp_zdiv_nonneg_iff [THEN iffD2]) auto
  note nonneg = this
  show ?thesis
    using assms(2,3) nonneg [of a b] nonneg [of a "hd ts"] nonneg [of "last ts" b]
    by (auto simp: gap_ranges_def Let_def dest!: wf inner split: if_splits)
qed

lemma TIMEFRAME_SECONDS_pos: "dict_get TIMEFRAME_SECONDS tf = Some s \<Longrightarrow> 0 < s \<and> timeframe_ok tf"
  by (auto simp: TIMEFRAME_SECONDS_def timeframe_ok_def is_digit_def split: if_splits)

lemma map_result_total:
  assumes "\<And>x. x \<in> set xs \<Longrightarrow> f x = Inr (g x)"
  shows "map_result f xs = Inr (map g xs)"
  using assms by (induction xs) (auto simp: bind_result_def)

definition gap_instants :: "int \<Rightarrow> market_data_gap \<Rightarrow> time list" where
  "gap_instants step g = instants step (gp_start_at g, gp_end_at g, gp_missing_count g)"

definition closes_at :: "string \<Rightarrow> string \<Rightarrow> string \<Rightarrow> candle list \<Rightarrow> time \<Rightarrow> bool" where
  "closes_at exchange symbol timeframe cs t \<longleftrightarrow>
     list_ex (\<lambda>c. exchange_value (cd_exchange c) = to_upper exchange \<and> cd_symbol c = to_upper symbol \<and>
                  cd_timeframe c = timeframe \<and> cd_closed_at c = t) cs"

text \<open>
  C27. Gap detection is exact: on a series without duplicates whose candles close on the grid of the timeframe, the
  gaps it reports cover, in order, every grid instant of the range at which no candle of the series closed, and no
  other instant. The floating-point quotient and its rounding lose nothing while the range is shorter than
  2^53 microseconds.
\<close>

theorem detected_gaps_are_missing_candles:
  assumes "dict_get TIMEFRAME_SECONDS timeframe = Some s" "a \<le> b" "b - a < 2 ^ 53"
    and "distinct (map cd_closed_at (filter (selected_candle exchange symbol timeframe a b) cs))"
    and "list_all (\<lambda>c. selected_candle exchange symbol timeframe a b c \<longrightarrow> (cd_closed_at c - a) mod (s * 1000000) = 0) cs"
    and "to_upper exchange \<in> {''BINANCE'', ''BYBIT''}" "candle_symbol_ok (to_upper symbol)" "\<forall>x. sha_ok (G x)"
  shows "\<exists>gs. detect_candle_gaps G now exchange symbol timeframe a b cs = Inr gs \<and>
               concat (map (gap_instants (s * 1000000)) gs) =
               filter (\<lambda>t. \<not> closes_at exchange symbol timeframe cs t)
                 (grid (s * 1000000) a (Suc (nat ((b - a) div (s * 1000000)))))"
proof -
  let ?sel = "selected_candle exchange symbol timeframe a b"
  define step where "step = s * 1000000"
  define ts where "ts = sort (map cd_closed_at (filter ?sel cs))"
  define gap where "gap = (\<lambda>(x, y, n). \<lparr>gp_gap_id = gap_id G exchange symbol timeframe x y, gp_exchange = to_upper exchange,
      gp_symbol = to_upper symbol, gp_timeframe = timeframe, gp_start_at = x, gp_end_at = y, gp_missing_count = n,
      gp_status = GapOPEN, gp_detected_at = now, gp_resolved_at = None, gp_backfill_job_id = None\<rparr>)"
  have s: "0 < s" "timeframe_ok timeframe" using TIMEFRAME_SECONDS_pos assms(1) by blast+
  have ts: "distinct ts" "sorted_wrt (<) ts" "set ts = cd_closed_at ` set (filter ?sel cs)"
    using assms(4) by (simp_all add: ts_def strict_sorted_iff)
  have "map_result (\<lambda>(x, y, n). validate valid_market_data_gap (gap (x, y, n))) (gap_ranges s a b ts) =
      Inr (map gap (gap_ranges s a b ts))"
  proof (rule map_result_total)
    fix r
    assume "r \<in> set (gap_ranges s a b ts)"
    from gap_ranges_wf [OF s(1) this assms(2)]
    show "(\<lambda>(x, y, n). validate valid_market_data_gap (gap (x, y, n))) r = Inr (gap r)"
      using assms s by (cases r) (auto simp: gap_def valid_market_data_gap_def gap_id_def)
  qed
  then have detected: "detect_candle_gaps G now exchange symbol timeframe a b cs = Inr (map gap (gap_ranges s a b ts))"
    using assms(1,2) ts(1) by (simp add: detect_candle_gaps_def Let_def ts_def [symmetric] gap_def)
  have ranged: "gap_instants step (gap r) = instants step r" for r
    by (cases r) (simp add: gap_instants_def gap_def)
  have "aligned step a ts" "list_all (\<lambda>t. a \<le> t \<and> t \<le> b) ts"
    using assms(5) ts(3) unfolding aligned_def step_def by (auto simp: list_all_iff selected_candle_def)
  from gap_ranges_missing [OF s(1) step_def ts(2) this assms(2,3)]
  have "concat (map (gap_instants step) (map gap (gap_ranges s a b ts))) =
      missing_instants step a (Suc (nat ((b - a) div step))) ts"
    by (simp add: comp_def ranged)
  also have "\<dots> = filter (\<lambda>t. \<not> closes_at exchange symbol timeframe cs t) (grid step a (Suc (nat ((b - a) div step))))"
    unfolding missing_instants_def
  proof (rule filter_cong [OF refl])
    fix t
    assume t: "t \<in> set (grid step a (Suc (nat ((b - a) div step))))"
    have "0 < step" using s(1) by (simp add: step_def)
    from grid_within [OF t this assms(2)] have "a \<le> t" "t \<le> b" .
    then show "(t \<notin> set ts) = (\<not> closes_at exchange symbol timeframe cs t)"
      unfolding ts(3) by (auto simp: closes_at_def selected_candle_def list_ex_iff)
  qed
  finally show ?thesis using detected unfolding step_def by blast
qed

definition sample_close :: "time \<Rightarrow> candle" where
  "sample_close t =
     \<lparr>cd_exchange = BINANCE, cd_symbol = ''BTCUSDT'', cd_timeframe = ''1m'', cd_open = 1, cd_high = 1, cd_low = 1, cd_close = 1,
      cd_volume = 1, cd_closed_at = t, cd_received_at = t\<rparr>"

theorem detected_gaps_are_missing_candles_witness:
  "\<exists>gs. detect_candle_gaps (\<lambda>_. replicate 64 CHR ''0'') 0 ''binance'' ''btcusdt'' ''1m'' 0 360000000 (map sample_close [240000000, 60000000]) = Inr gs \<and>
        concat (map (gap_instants 60000000) gs) = [0, 120000000, 180000000, 300000000, 360000000]"
proof -
  let ?cs = "map sample_close [240000000, 60000000]" and ?G = "\<lambda>_. replicate 64 CHR ''0''"
  have "to_upper ''binance'' \<in> {''BINANCE'', ''BYBIT''}" "candle_symbol_ok (to_upper ''btcusdt'')" "\<forall>x. sha_ok (?G x)"
    by (code_simp, code_simp) (simp add: sha_ok_def list_all_iff is_hex_def is_digit_def)
  moreover have "dict_get TIMEFRAME_SECONDS ''1m'' = Some 60" by code_simp
  moreover have "distinct (map cd_closed_at (filter (selected_candle ''binance'' ''btcusdt'' ''1m'' 0 360000000) ?cs))" by code_simp
  moreover have "list_all (\<lambda>c. selected_candle ''binance'' ''btcusdt'' ''1m'' 0 360000000 c \<longrightarrow> (cd_closed_at c - 0) mod (60 * 1000000) = 0) ?cs"
    by code_simp
  ultimately obtain gs where gs: "detect_candle_gaps ?G 0 ''binance'' ''btcusdt'' ''1m'' 0 360000000 ?cs = Inr gs"
      "concat (map (gap_instants (60 * 1000000)) gs) =
       filter (\<lambda>t. \<not> closes_at ''binance'' ''btcusdt'' ''1m'' ?cs t)
         (grid (60 * 1000000) 0 (Suc (nat ((360000000 - 0) div (60 * 1000000)))))"
    using detected_gaps_are_missing_candles [of "''1m''" 60 0 360000000 "''binance''" "''btcusdt''" ?cs ?G 0] by auto
  have "filter (\<lambda>t. \<not> closes_at ''binance'' ''btcusdt'' ''1m'' ?cs t)
          (grid (60 * 1000000) 0 (Suc (nat ((360000000 - 0) div (60 * 1000000))))) =
        [0, 120000000, 180000000, 300000000, 360000000]"
    by code_simp
  with gs show ?thesis by auto
qed

end
