(* ===== verification/Orchestrator.thy ===== *)
theory Orchestrator
  imports Market_Store Strategy_Engine Oms_Service Consensus Agent_Runtime Operations
begin

text \<open>
  The orchestrator, \<^verbatim>\<open>app/orchestrator/service.py\<close>: one decision cycle per closed candle, composed of every other
  part: clock, data quality, persistence, gap scan, position monitoring, agents, strategy, decision engine,
  consensus, portfolio construction, audit, central risk and the order boundary.

  The services share their parts as \<^verbatim>\<open>app/api/context.py\<close> composes them: the order boundary owns the PAPER
  engine, which owns the risk manager with the state machine, the audit service and the trading tables; the
  agent runtime publishes on the bus of the orchestrator. Event payloads keep what identifies the record
  they carry. A cycle reads the clock once. A cycle whose agents need more turns than it is given is still
  waiting.
\<close>

section \<open>State and surroundings\<close>

record orchestrator =
  oc_oms :: oms_service
  oc_uses_oms :: bool
  oc_bus :: event_bus
  oc_store :: candle_store
  oc_market :: "market_store option"
  oc_decision_engine :: decision_engine
  oc_strategies :: strategy_engine
  oc_max_data_delay_ms :: int
  oc_clock :: "clock_registry option"
  oc_require_clock :: bool
  oc_scans_gaps :: bool
  oc_runtime :: agent_runtime
  oc_evaluation :: "agent_evaluation option"
  oc_governance :: "governance option"
  oc_target_weight :: "pyfloat option"
  oc_operations :: "operations option"
  oc_current_day :: "int option"
  oc_recent :: "decision list"
  oc_last :: "decision option"
  oc_latencies :: "int list"
  oc_failures :: "(string \<times> string) list"

record cycle_world =
  cy_hash :: "json \<Rightarrow> string"
  cy_uuid :: "string \<Rightarrow> string"
  cy_gap_hash :: gap_hash
  cy_prepare :: "oms_order \<Rightarrow> oms_order result"
  cy_transport :: "bus_message \<Rightarrow> string result"
  cy_fails :: "string \<Rightarrow> bus_message \<Rightarrow> bool"
  cy_fresh :: "string \<Rightarrow> string"
  cy_now :: time
  cy_clock :: pyfloat
  cy_cycle_ms :: pyfloat
  cy_batch_ms :: pyfloat
  cy_plan :: "agent_request \<Rightarrow> string \<times> time \<times> agent_turn list"

abbreviation cy_correlation :: "cycle_world \<Rightarrow> string" where
  "cy_correlation E \<equiv> cy_fresh E ''correlation''"

abbreviation oc_paper :: "orchestrator \<Rightarrow> paper_engine" where
  "oc_paper oc \<equiv> os_paper (oc_oms oc)"

abbreviation oc_risk :: "orchestrator \<Rightarrow> risk_manager" where
  "oc_risk oc \<equiv> os_risk (oc_oms oc)"

text \<open>A step of the cycle may end it early with \<^verbatim>\<open>return None\<close>: \<open>Inr None\<close>.\<close>

definition unless_stopped ::
  "('s, 'a option) outcome \<Rightarrow> ('s \<Rightarrow> 'a \<Rightarrow> ('s, 'b option) outcome) \<Rightarrow> ('s, 'b option) outcome" where
  "unless_stopped m f =
     (case m of
        (s, Inl e) \<Rightarrow> (s, Inl e)
      | (s, Inr None) \<Rightarrow> (s, Inr None)
      | (s, Inr (Some x)) \<Rightarrow> f s x)"

declare unless_stopped_def [code_unfold]

definition on_oms :: "(oms_service \<Rightarrow> (oms_service, 'a) outcome) \<Rightarrow> orchestrator \<Rightarrow> (orchestrator, 'a) outcome" where
  "on_oms f oc = (case f (oc_oms oc) of (s, r) \<Rightarrow> (oc\<lparr>oc_oms := s\<rparr>, r))"

text \<open>A call of the optional repository; without one it does nothing.\<close>

definition on_market :: "(market_store \<Rightarrow> (market_store, 'a) outcome) \<Rightarrow> 'a \<Rightarrow> orchestrator \<Rightarrow> (orchestrator, 'a) outcome" where
  "on_market f x oc = (case with_store (oc_market oc) f x of (repo, r) \<Rightarrow> (oc\<lparr>oc_market := repo\<rparr>, r))"

definition publish_event ::
  "cycle_world \<Rightarrow> string \<Rightarrow> string \<Rightarrow> string \<Rightarrow> json \<Rightarrow> string \<Rightarrow> string \<Rightarrow> orchestrator \<Rightarrow> (orchestrator, unit) outcome" where
  "publish_event E topic event_type key payload source correlation_id oc =
     (case publish (cy_transport E) (cy_fails E) (cy_now E) (cy_fresh E (''message:'' @ key)) (cy_fresh E (''event:'' @ key)) topic
             event_type payload source (Some correlation_id) (oc_bus oc) of
        (b, Inl e) \<Rightarrow> (oc\<lparr>oc_bus := b\<rparr>, Inl e)
      | (b, Inr _) \<Rightarrow> (oc\<lparr>oc_bus := b\<rparr>, Inr ()))"

definition identity_payload :: "string \<Rightarrow> string \<Rightarrow> json" where
  "identity_payload key i = JObj [(key, JStr i)]"

definition audit_cycle :: "string \<Rightarrow> string \<Rightarrow> string \<Rightarrow> string \<Rightarrow> orchestrator \<Rightarrow> (orchestrator, unit) outcome" where
  "audit_cycle correlation_id audit_type entity_type entity_id =
     on_oms (on_risk (\<lambda>rm. case record_audit \<lparr>au_correlation_id = correlation_id, au_audit_type = audit_type,
         au_entity_type = entity_type, au_entity_id = Some entity_id\<rparr> (rm_audit rm, rm_db rm) of
       ((a, d), r) \<Rightarrow> (rm\<lparr>rm_audit := a, rm_db := d\<rparr>, r)))"

definition note_failure :: "cycle_world \<Rightarrow> string \<Rightarrow> orchestrator \<Rightarrow> orchestrator" where
  "note_failure E error oc = oc\<lparr>oc_failures := push_bounded 50 (cy_correlation E, error) (oc_failures oc)\<rparr>"

section \<open>Before the agents\<close>

definition clock_gate :: "cycle_world \<Rightarrow> candle \<Rightarrow> orchestrator \<Rightarrow> (orchestrator, clock_verdict option option) outcome" where
  "clock_gate E c oc =
     (if \<not> oc_require_clock oc then (oc, Inr (Some None))
      else case oc_clock oc of
             None \<Rightarrow> (oc, raise DataQualityError ''Trusted market-data ingestion requires a clock registry'')
           | Some registry \<Rightarrow>
               let v = clock_verdict_for (cd_exchange c) (cy_now E) registry
               in if cv_trusted v then (oc, Inr (Some (Some v)))
                  else bind_outcome (on_market (save_system_event
                           \<lparr>sy_event_type = ''CLOCK_GATE_BLOCKED'', sy_source = ''Orchestrator'', sy_correlation_id = cy_correlation E,
                            sy_payload = [(''exchange'', JStr (exchange_value (cd_exchange c)))], sy_created_at = cy_now E\<rparr>) ()
                         (note_failure E ''CLOCK_UNTRUSTED'' oc)) (\<lambda>oc1 _. (oc1, Inr None)))"

definition clock_adjusted :: "clock_verdict option \<Rightarrow> data_quality_report \<Rightarrow> data_quality_report" where
  "clock_adjusted v q =
     (if map_option cv_status v = Some CLOCK_WARNING
      then q\<lparr>dq_score := max 0 (dq_score q - 5),
             dq_status := (if dq_status q \<in> {QSUSPECT, QINVALID} then dq_status q else QWARNING),
             dq_warnings := sorted_set (dq_warnings q @ [''CLOCK_WARNING''])\<rparr>
      else q)"

definition known_candles :: "candle \<Rightarrow> orchestrator \<Rightarrow> candle list" where
  "known_candles c oc = store_get (oc_store oc) (exchange_value (cd_exchange c)) (cd_symbol c) (cd_timeframe c) 200"

definition assessed :: "cycle_world \<Rightarrow> candle \<Rightarrow> clock_verdict option \<Rightarrow> orchestrator \<Rightarrow> data_quality_report" where
  "assessed E c v oc =
     clock_adjusted v
       (evaluate_candles (cd_timeframe c) (oc_max_data_delay_ms oc) (cy_now E) True (known_candles c oc @ [c]))"

definition persist_candle ::
  "cycle_world \<Rightarrow> candle \<Rightarrow> data_quality_report \<Rightarrow> orchestrator \<Rightarrow> (orchestrator, unit option) outcome" where
  "persist_candle E c q oc =
     (if oc_market oc = None then (oc, Inr (Some ()))
      else bind_outcome (on_market (save_candle (cy_hash E) c (Some q)) True oc) (\<lambda>oc1 inserted.
             let known = known_candles c oc
             in if \<not> inserted then (oc1, Inr None)
                else if oc_scans_gaps oc1 \<and> known \<noteq> [] \<and> cd_closed_at (last known) < cd_closed_at c
                then bind_outcome (on_market (scan_gaps (cy_gap_hash E) (cy_now E) (exchange_value (cd_exchange c)) (cd_symbol c)
                       (cd_timeframe c) (cd_closed_at (last known)) (cd_closed_at c) 10000 None) [] oc1) (\<lambda>oc2 _. (oc2, Inr (Some ())))
                else (oc1, Inr (Some ()))))"

text \<open>The candle store is shared with the risk manager.\<close>

definition put_candle_store :: "candle_store \<Rightarrow> orchestrator \<Rightarrow> orchestrator" where
  "put_candle_store cs oc =
     fst (on_oms (on_risk (\<lambda>rm. (rm\<lparr>rm_candle_store := map_option (\<lambda>_. cs) (rm_candle_store rm)\<rparr>, Inr ()))) (oc\<lparr>oc_store := cs\<rparr>))"

definition keep_candle ::
  "cycle_world \<Rightarrow> candle \<Rightarrow> data_quality_report \<Rightarrow> orchestrator \<Rightarrow> (orchestrator, unit option) outcome" where
  "keep_candle E c q oc =
     (if dq_errors q \<noteq> [] then (note_failure E ''DATA_QUALITY_ERROR'' oc, Inr None)
      else case store_add c (oc_store oc) of
             (cs, Inl e) \<Rightarrow> (put_candle_store cs oc, Inl e)
           | (cs, Inr added) \<Rightarrow> (put_candle_store cs oc, Inr (if added then Some () else None)))"

definition daily_reset :: "candle \<Rightarrow> orchestrator \<Rightarrow> orchestrator" where
  "daily_reset c oc =
     (let day = utc_day (cd_closed_at c); oc1 = oc\<lparr>oc_current_day := Some day\<rparr>
      in if oc_current_day oc = None \<or> oc_current_day oc = Some day then oc1
         else fst (on_oms (on_risk (\<lambda>rm. (reset_daily rm, Inr ()))) oc1))"

fun publish_closed :: "cycle_world \<Rightarrow> paper_order list \<Rightarrow> orchestrator \<Rightarrow> (orchestrator, unit) outcome" where
  "publish_closed E [] oc = (oc, Inr ())"
| "publish_closed E (x # xs) oc =
     bind_outcome (publish_event E ''paper.orders.v1'' ''PAPER_ORDER_CLOSED'' (''closed:'' @ po_paper_order_id x)
         (identity_payload ''paper_order_id'' (po_paper_order_id x)) ''PaperTradingEngine'' (po_correlation_id x) oc)
       (\<lambda>oc1 _. publish_closed E xs oc1)"

definition monitor_positions :: "cycle_world \<Rightarrow> candle \<Rightarrow> orchestrator \<Rightarrow> (orchestrator, unit) outcome" where
  "monitor_positions E c oc =
     bind_outcome (on_oms (on_paper (on_candle (cy_now E) c)) oc) (\<lambda>oc1 closed. publish_closed E closed oc1)"

definition evaluation_permitted :: "orchestrator \<Rightarrow> bool" where
  "evaluation_permitted oc \<longleftrightarrow>
     can_operate (rm_sm (oc_risk oc)) \<and>
     (case oc_operations oc of None \<Rightarrow> True | Some ops \<Rightarrow> decisions_allowed (op_recovery ops))"

definition announce_candle :: "cycle_world \<Rightarrow> candle \<Rightarrow> orchestrator \<Rightarrow> (orchestrator, unit) outcome" where
  "announce_candle E c =
     publish_event E ''market.events.v1'' ''CANDLE_CLOSED'' ''candle'' (canonical_candle_payload c) ''MarketDataAdapter'' (cy_correlation E)"

definition prepare_cycle :: "cycle_world \<Rightarrow> candle \<Rightarrow> orchestrator \<Rightarrow> (orchestrator, data_quality_report option) outcome" where
  "prepare_cycle E c oc =
     unless_stopped (clock_gate E c oc) (\<lambda>oc1 v.
       let q = assessed E c v oc1
       in unless_stopped (persist_candle E c q oc1) (\<lambda>oc2 _.
          unless_stopped (keep_candle E c q oc2) (\<lambda>oc3 _.
          bind_outcome (monitor_positions E c (daily_reset c oc3)) (\<lambda>oc4 _.
            if \<not> evaluation_permitted oc4 then (oc4, Inr None)
            else bind_outcome (announce_candle E c oc4) (\<lambda>oc5 _. (oc5, Inr (Some q)))))))"

section \<open>The agents\<close>

definition request_for :: "cycle_world \<Rightarrow> candle \<Rightarrow> agent_registration \<Rightarrow> agent_request result" where
  "request_for E c g =
     (let key = cy_correlation E @ '':'' @ ag_agent_name g
      in bind_result (validate valid_agent_input
           \<lparr>ai_request_id = key, ai_correlation_id = cy_correlation E, ai_agent_name = ag_agent_name g,
            ai_timestamp = cd_closed_at c, ai_symbol = cd_symbol c, ai_timeframe = cd_timeframe c,
            ai_market_context = [(''exchange'', JStr (exchange_value (cd_exchange c)))], ai_config = []\<rparr>) (\<lambda>i.
         new_agent_request \<lparr>ax_agent_version = ag_version g, ax_idempotency_key = Some key, ax_input = i\<rparr>))"

definition agent_requests :: "cycle_world \<Rightarrow> candle \<Rightarrow> orchestrator \<Rightarrow> agent_request list result" where
  "agent_requests E c oc =
     bind_result (registrations (cy_hash E) (rt_registry (oc_runtime oc))) (\<lambda>gs.
     bind_result (case oc_operations oc of None \<Rightarrow> Inr gs | Some ops \<Rightarrow> admitted_registrations (cy_now E) gs ops) (\<lambda>admitted.
       map_result (request_for E c) admitted))"

definition agent_surroundings :: "cycle_world \<Rightarrow> surroundings" where
  "agent_surroundings E =
     \<lparr>sr_hash = cy_hash E, sr_transport = cy_transport E, sr_fails = cy_fails E, sr_message_id = (\<lambda>i. cy_fresh E (''message:'' @ i))\<rparr>"

definition run_agents :: "cycle_world \<Rightarrow> candle \<Rightarrow> orchestrator \<Rightarrow> (orchestrator, agent_output list option) outcome" where
  "run_agents E c oc =
     (case agent_requests E c oc of
        Inl e \<Rightarrow> (oc, Inl e)
      | Inr qs \<Rightarrow>
          (case execute_many (agent_surroundings E) (cy_plan E) qs ((oc_runtime oc)\<lparr>rt_bus := oc_bus oc\<rparr>) of
             (rt, r) \<Rightarrow> (oc\<lparr>oc_runtime := rt, oc_bus := rt_bus rt\<rparr>, r)))"

text \<open>Telemetry and evaluation are observational: what they raise is logged.\<close>

definition observe_batch :: "cycle_world \<Rightarrow> agent_output list \<Rightarrow> orchestrator \<Rightarrow> orchestrator" where
  "observe_batch E outs oc =
     (case oc_operations oc of
        None \<Rightarrow> oc
      | Some ops \<Rightarrow>
          oc\<lparr>oc_operations :=
               Some (fst (observe_agent_batch (cy_now E) (cy_clock E) (cy_fresh E) outs (cy_correlation E) (cy_batch_ms E) ops))\<rparr>)"

definition registrations_by_name :: "cycle_world \<Rightarrow> orchestrator \<Rightarrow> agent_registration dict result" where
  "registrations_by_name E oc =
     bind_result (registrations (cy_hash E) (rt_registry (oc_runtime oc))) (\<lambda>gs. Inr (dict_of ag_agent_name gs))"

definition observe_evaluation :: "cycle_world \<Rightarrow> candle \<Rightarrow> agent_output list \<Rightarrow> orchestrator \<Rightarrow> orchestrator" where
  "observe_evaluation E c outs oc =
     (case (oc_evaluation oc, registrations_by_name E oc) of
        (Some s, Inr regs) \<Rightarrow> oc\<lparr>oc_evaluation := Some (fst (observe (cy_hash E) c (cy_correlation E) outs regs s))\<rparr>
      | _ \<Rightarrow> oc)"

section \<open>The decision\<close>

definition output_of :: "string \<Rightarrow> agent_output list \<Rightarrow> agent_output option" where
  "output_of name outs = List.find (\<lambda>x. ao_agent_name x = name) outs"

definition reported_regime :: "agent_output list \<Rightarrow> market_regime" where
  "reported_regime outs =
     (case output_of ''TrendAgent'' outs of
        None \<Rightarrow> UNDEFINED_REGIME
      | Some x \<Rightarrow> (case dict_get (ao_evidence x) ''market_regime'' of Some (JStr s) \<Rightarrow> regime_of s | _ \<Rightarrow> UNDEFINED_REGIME))"

definition selected_profile :: "candle \<Rightarrow> strategy_evaluation \<Rightarrow> orchestrator \<Rightarrow> risk_profile option" where
  "selected_profile c ev oc =
     (if se_allowed ev
      then map_option (\<lambda>s. RISK_PROFILES (sc_risk_profile s)) (select_strategy (cd_symbol c) (cd_timeframe c) (oc_strategies oc))
      else None)"

abbreviation actionable :: "decision \<Rightarrow> bool" where
  "actionable dec \<equiv> dec_candidate_action dec = ActBUY \<or> dec_candidate_action dec = ActSELL"

definition strategy_ruled :: "strategy_evaluation \<Rightarrow> market_regime \<Rightarrow> decision \<Rightarrow> decision" where
  "strategy_ruled ev regime dec =
     (if \<not> se_allowed ev \<and> actionable dec
      then dec\<lparr>dec_candidate_action := ActBLOCK, dec_confidence := 0, dec_reason := ''Strategy rule: '' @ se_reason ev,
               dec_warnings := (if regime = UNDEFINED_REGIME then sorted_set (dec_warnings dec @ [''REGIME_UNCLEAR''])
                                else dec_warnings dec)\<rparr>
      else dec)"

definition candidate_decision ::
  "cycle_world \<Rightarrow> candle \<Rightarrow> data_quality_report \<Rightarrow> agent_output list \<Rightarrow> strategy_evaluation \<Rightarrow> market_regime \<Rightarrow> orchestrator
     \<Rightarrow> decision result" where
  "candidate_decision E c q outs ev regime oc =
     bind_result (consolidate (cy_fresh E ''decision'') (cy_now E) (oc_decision_engine oc)
         \<lparr>cq_correlation_id = cy_correlation E, cq_symbol = cd_symbol c, cq_timeframe = cd_timeframe c, cq_agent_outputs = outs,
          cq_data_quality_score = dq_score q, cq_operational_context_score = 100, cq_strategy = Some (se_versioned_id ev),
          cq_minimum_confidence = Some (se_minimum_confidence ev)\<rparr>)
       (\<lambda>dec. Inr (strategy_ruled ev regime dec))"

definition apply_consensus :: "weighted_consensus \<Rightarrow> decision \<Rightarrow> decision" where
  "apply_consensus w dec =
     (if wc_final_action w \<noteq> dec_candidate_action dec \<or> wc_final_confidence w \<noteq> dec_confidence dec
      then dec\<lparr>dec_candidate_action := wc_final_action w, dec_confidence := wc_final_confidence w,
               dec_reason := dec_reason dec @ '' | Consensus: '' @ wc_reason w,
               dec_warnings := sorted_set (dec_warnings dec @ [''PERFORMANCE_CONSENSUS_VETO''])\<rparr>
      else dec)"

text \<open>
  An exception of the consensus is swallowed. It drops the consensus; a decision that the consensus has already
  changed stays changed.
\<close>

definition consult_consensus ::
  "cycle_world \<Rightarrow> agent_output list \<Rightarrow> decision \<Rightarrow> orchestrator \<Rightarrow> orchestrator \<times> decision \<times> weighted_consensus option" where
  "consult_consensus E outs dec oc =
     (case (oc_governance oc, oc_evaluation oc, registrations_by_name E oc) of
        (Some g, Some s, Inr regs) \<Rightarrow>
          (case evaluate_consensus (cy_hash E) (cy_now E) dec outs regs s g of
             (g1, Inl e) \<Rightarrow> (oc\<lparr>oc_governance := Some g1\<rparr>, dec, None)
           | (g1, Inr w) \<Rightarrow>
               let dec1 = apply_consensus w dec
               in (case bind_outcome (audit_cycle (cy_correlation E) ''WEIGHTED_CONSENSUS'' ''weighted_consensus'' (wc_consensus_id w)
                          (oc\<lparr>oc_governance := Some g1\<rparr>)) (\<lambda>oc1 _.
                        publish_event E ''decision.events.v1'' ''WEIGHTED_CONSENSUS_CREATED'' ''consensus''
                          (identity_payload ''consensus_id'' (wc_consensus_id w)) ''WeightedConsensusService'' (cy_correlation E) oc1) of
                     (oc2, Inl e) \<Rightarrow> (oc2, dec1, None)
                   | (oc2, Inr _) \<Rightarrow> (oc2, dec1, Some w)))
      | _ \<Rightarrow> (oc, dec, None))"

definition construct_portfolio ::
  "cycle_world \<Rightarrow> decision \<Rightarrow> weighted_consensus option \<Rightarrow> orchestrator \<Rightarrow> orchestrator \<times> portfolio_proposal option" where
  "construct_portfolio E dec consensus oc =
     (case (consensus, oc_target_weight oc, oc_governance oc) of
        (Some w, Some target, Some g) \<Rightarrow>
          (case propose (cy_hash E) (cy_now E) (rm_limits (oc_risk oc)) target dec w (pt_balance (oc_paper oc)) (oc_risk oc) g of
             (g1, Inl e) \<Rightarrow> (oc\<lparr>oc_governance := Some g1\<rparr>, None)
           | (g1, Inr p) \<Rightarrow>
               (case bind_outcome (audit_cycle (cy_correlation E) ''PORTFOLIO_PROPOSAL'' ''portfolio_proposal'' (pp_proposal_id p)
                       (oc\<lparr>oc_governance := Some g1\<rparr>)) (\<lambda>oc1 _.
                     publish_event E ''decision.events.v1'' ''PORTFOLIO_PROPOSAL_CREATED'' ''proposal''
                       (identity_payload ''proposal_id'' (pp_proposal_id p)) ''PortfolioConstructionService'' (cy_correlation E) oc1) of
                  (oc2, Inl e) \<Rightarrow> (oc2, None)
                | (oc2, Inr _) \<Rightarrow> (oc2, Some p)))
      | _ \<Rightarrow> (oc, None))"

definition remember_decision :: "decision \<Rightarrow> orchestrator \<Rightarrow> orchestrator" where
  "remember_decision dec oc = oc\<lparr>oc_last := Some dec, oc_recent := push_bounded 200 dec (oc_recent oc)\<rparr>"

definition record_candidate :: "cycle_world \<Rightarrow> decision \<Rightarrow> orchestrator \<Rightarrow> (orchestrator, unit) outcome" where
  "record_candidate E dec oc =
     bind_outcome (audit_cycle (cy_correlation E) ''DECISION_CANDIDATE'' ''decision'' (dec_decision_id dec) (remember_decision dec oc)) (\<lambda>oc1 _.
     bind_outcome (on_market (save_decision dec) () oc1) (\<lambda>oc2 _.
       publish_event E ''decision.events.v1'' ''DECISION_CANDIDATE_CREATED'' ''decision''
         (identity_payload ''decision_id'' (dec_decision_id dec)) ''Orchestrator'' (cy_correlation E) oc2))"

section \<open>Risk and the order boundary\<close>

definition reported_atr :: "agent_output list \<Rightarrow> pyfloat option" where
  "reported_atr outs =
     (case output_of ''QuantAgent'' outs of
        None \<Rightarrow> None
      | Some x \<Rightarrow>
          (case dict_get (ao_evidence x) ''atr'' of
             Some (JFloat a) \<Rightarrow> Some a | Some (JInt n) \<Rightarrow> Some (flt (of_int n)) | _ \<Rightarrow> None))"

definition risk_request_for ::
  "candle \<Rightarrow> data_quality_report \<Rightarrow> agent_output list \<Rightarrow> risk_profile option \<Rightarrow> portfolio_proposal option \<Rightarrow> orchestrator
     \<Rightarrow> risk_request" where
  "risk_request_for c q outs profile proposal oc =
     \<lparr>rq_entry_price = cd_close c, rq_atr = reported_atr outs, rq_data_quality_score = dq_score q, rq_market_data_delay_ms = 0,
      rq_balance = Some (pt_balance (oc_paper oc)), rq_leverage = Some (simulated_leverage (oc_paper oc)), rq_idempotency_key = None,
      rq_risk_per_trade_percent = map_option rp_risk_per_trade_percent profile,
      rq_min_risk_reward = map_option rp_risk_reward_min profile,
      rq_max_open_positions = map_option rp_max_open_positions profile,
      rq_max_strategy_exposure_percent = map_option rp_max_strategy_exposure_percent profile,
      rq_max_portfolio_var_percent = map_option rp_max_portfolio_var_percent profile,
      rq_max_notional = map_option pp_max_notional proposal\<rparr>"

definition check_candidate :: "cycle_world \<Rightarrow> decision \<Rightarrow> risk_request \<Rightarrow> orchestrator \<Rightarrow> (orchestrator, risk_check) outcome" where
  "check_candidate E dec q = on_oms (on_risk (check (cy_hash E) (cy_uuid E) (cy_now E) dec q))"

definition replace_last :: "decision \<Rightarrow> orchestrator \<Rightarrow> orchestrator" where
  "replace_last dec oc = oc\<lparr>oc_last := Some dec, oc_recent := butlast (oc_recent oc) @ [dec]\<rparr>"

definition record_risk :: "cycle_world \<Rightarrow> decision \<Rightarrow> risk_check \<Rightarrow> orchestrator \<Rightarrow> (orchestrator, unit) outcome" where
  "record_risk E dec x oc =
     bind_outcome (on_market (update_decision_risk_status (dec_decision_id dec) (rc_risk_status x)) () oc) (\<lambda>oc1 _.
       publish_event E ''risk.events.v1'' ''RISK_CHECK_COMPLETED'' ''risk'' (identity_payload ''risk_check_id'' (rc_risk_check_id x))
         ''RiskManager'' (cy_correlation E) oc1)"

definition route_order :: "cycle_world \<Rightarrow> candle \<Rightarrow> decision \<Rightarrow> risk_check \<Rightarrow> orchestrator \<Rightarrow> (orchestrator, unit) outcome" where
  "route_order E c dec x oc =
     (if oc_uses_oms oc
      then bind_outcome (on_oms (submit_approved (cy_hash E) (cy_uuid E) (cy_prepare E) (cy_now E) dec x (cd_close c) (Some c)
               (Some (cd_closed_at c))) oc) (\<lambda>oc1 order.
             publish_event E ''oms.orders.v1'' ''OMS_ORDER_ACCEPTED'' ''order'' (identity_payload ''oms_order_id'' (oo_oms_order_id order))
               ''OMSService'' (cy_correlation E) oc1)
      else bind_outcome (on_oms (on_paper (create_order (cy_hash E) (cy_uuid E) (cy_now E) (cy_now E) (cy_now E) (cy_now E) dec x
               (cd_close c) (Some c) (Some (cd_closed_at c)))) oc) (\<lambda>oc1 order.
             publish_event E ''paper.orders.v1'' ''PAPER_ORDER_CREATED'' ''order''
               (identity_payload ''paper_order_id'' (po_paper_order_id order)) ''PaperTradingEngine'' (cy_correlation E) oc1))"

definition execute_decision ::
  "cycle_world \<Rightarrow> candle \<Rightarrow> decision \<Rightarrow> risk_request \<Rightarrow> orchestrator \<Rightarrow> (orchestrator, decision) outcome" where
  "execute_decision E c dec q oc =
     (if \<not> actionable dec then (oc, Inr dec)
      else bind_outcome (check_candidate E dec q oc) (\<lambda>oc1 x.
             let checked = dec\<lparr>dec_risk_status := rc_risk_status x\<rparr>
             in bind_outcome (record_risk E dec x (replace_last checked oc1)) (\<lambda>oc2 _.
                if rc_risk_status x \<in> {RsBLOCKED, RsKILL_SWITCH} then (oc2, Inr checked)
                else bind_outcome (route_order E c checked x oc2) (\<lambda>oc3 _. (oc3, Inr checked)))))"

definition decide_candle ::
  "cycle_world \<Rightarrow> candle \<Rightarrow> data_quality_report \<Rightarrow> agent_output list \<Rightarrow> orchestrator \<Rightarrow> (orchestrator, decision) outcome" where
  "decide_candle E c q outs oc =
     (let regime = reported_regime outs;
          ev = evaluate_strategy (cd_symbol c) (cd_timeframe c) regime (oc_strategies oc)
      in case candidate_decision E c q outs ev regime oc of
           Inl e \<Rightarrow> (oc, Inl e)
         | Inr dec0 \<Rightarrow>
             (case consult_consensus E outs dec0 oc of
                (oc1, dec, consensus) \<Rightarrow>
                  (case construct_portfolio E dec consensus oc1 of
                     (oc2, proposal) \<Rightarrow>
                       bind_outcome (record_candidate E dec oc2) (\<lambda>oc3 _.
                         execute_decision E c dec (risk_request_for c q outs (selected_profile c ev oc) proposal oc3) oc3))))"

text \<open>One evaluation: \<open>Inr None\<close> is a cycle that still waits for its agents.\<close>

definition evaluate_cycle ::
  "cycle_world \<Rightarrow> candle \<Rightarrow> data_quality_report \<Rightarrow> orchestrator \<Rightarrow> (orchestrator, decision option) outcome" where
  "evaluate_cycle E c q oc =
     unless_stopped (run_agents E c oc) (\<lambda>oc1 outs.
       bind_outcome (decide_candle E c q outs (observe_evaluation E c outs (observe_batch E outs oc1))) (\<lambda>oc2 dec. (oc2, Inr (Some dec))))"

section \<open>The cycle\<close>

datatype cycle_result = Returned "decision option" | Waiting

definition core_error :: "exn_class \<Rightarrow> bool" where
  "core_error k \<longleftrightarrow> k \<notin> {ValueError, KeyError, IndexError, ZeroDivisionError, PydanticValidationError, TransportError}"

fun error_code :: "exn_class \<Rightarrow> string" where
  "error_code ValidationError = ''VALIDATION_ERROR''"
| "error_code DataQualityError = ''DATA_QUALITY_ERROR''"
| "error_code MarketDataError = ''MARKET_DATA_UNAVAILABLE''"
| "error_code AgentError = ''AGENT_FAILED''"
| "error_code AgentTimeoutError = ''AGENT_TIMEOUT''"
| "error_code RiskError = ''RISK_BLOCKED''"
| "error_code AuditError = ''AUDIT_FAILED''"
| "error_code DatabaseError = ''DATABASE_ERROR''"
| "error_code ConfigurationError = ''CONFIGURATION_ERROR''"
| "error_code SecurityError = ''SECURITY_ERROR''"
| "error_code SystemStateError = ''SYSTEM_NOT_READY''"
| "error_code ExternalServiceError = ''EXTERNAL_SERVICE_ERROR''"
| "error_code AmbiguousExecutionError = ''EXECUTION_STATUS_UNKNOWN''"
| "error_code ExecutionRejectedError = ''EXECUTION_REJECTED''"
| "error_code KillSwitchActiveError = ''KILL_SWITCH_ACTIVE''"
| "error_code _ = ''INTERNAL_ERROR''"

definition mark_unhealthy :: "cycle_world \<Rightarrow> dependency \<Rightarrow> string \<Rightarrow> orchestrator \<Rightarrow> orchestrator" where
  "mark_unhealthy E name reason oc =
     (case oc_operations oc of
        None \<Rightarrow> oc
      | Some ops \<Rightarrow>
          oc\<lparr>oc_operations :=
               Some (fst (observe_dependency (cy_now E) (cy_fresh E) name False reason (Some (cy_correlation E)) ops))\<rparr>)"

definition failed_dependency :: "exn_class \<Rightarrow> (dependency \<times> string) option" where
  "failed_dependency k =
     (case k of
        AuditError \<Rightarrow> Some (DepAUDIT, ''audit operation failed during decision cycle'')
      | DatabaseError \<Rightarrow> Some (DepDATABASE, ''database operation failed during decision cycle'')
      | RiskError \<Rightarrow> Some (DepRISK, ''central risk invariant failed during decision cycle'')
      | _ \<Rightarrow> None)"

definition recover_cycle :: "cycle_world \<Rightarrow> exn \<Rightarrow> orchestrator \<Rightarrow> (orchestrator, cycle_result) outcome" where
  "recover_cycle E e oc =
     (if \<not> core_error (exn_class e) then (oc, Inl e)
      else (note_failure E (error_code (exn_class e))
              (case failed_dependency (exn_class e) of None \<Rightarrow> oc | Some (name, reason) \<Rightarrow> mark_unhealthy E name reason oc),
            Inr (Returned None)))"

definition observe_cycle :: "cycle_world \<Rightarrow> bool \<Rightarrow> orchestrator \<Rightarrow> orchestrator" where
  "observe_cycle E success oc =
     (case oc_operations oc of
        None \<Rightarrow> oc
      | Some ops \<Rightarrow> oc\<lparr>oc_operations := Some (fst (observe_orchestrator_cycle (cy_clock E) success (cy_cycle_ms E) ops))\<rparr>)"

definition on_candle_closed :: "cycle_world \<Rightarrow> candle \<Rightarrow> orchestrator \<Rightarrow> (orchestrator, cycle_result) outcome" where
  "on_candle_closed E c oc =
     (case prepare_cycle E c oc of
        (oc1, Inl e) \<Rightarrow> recover_cycle E e oc1
      | (oc1, Inr None) \<Rightarrow> (oc1, Inr (Returned None))
      | (oc1, Inr (Some q)) \<Rightarrow>
          (case evaluate_cycle E c q oc1 of
             (oc2, Inl e) \<Rightarrow> (case recover_cycle E e oc2 of (oc3, r) \<Rightarrow> (observe_cycle E False oc3, r))
           | (oc2, Inr None) \<Rightarrow> (oc2, Inr Waiting)
           | (oc2, Inr (Some dec)) \<Rightarrow>
               (observe_cycle E True (oc2\<lparr>oc_latencies := push_bounded 100 \<lfloor>fval (cy_cycle_ms E)\<rfloor> (oc_latencies oc2)\<rparr>),
                Inr (Returned (Some dec)))))"

section \<open>Status\<close>

record orchestrator_status =
  sx_mode :: system_state
  sx_kill_switch_active :: bool
  sx_agents :: "(string \<times> string) list"
  sx_last_decision_id :: "string option"
  sx_avg_cycle_latency_ms :: pyfloat
  sx_recent_failures :: int
  sx_latest_consensus :: "weighted_consensus option"
  sx_latest_portfolio :: "portfolio_proposal option"
  sx_operations :: "operations_status option"

definition orchestrator_status_of :: "cycle_world \<Rightarrow> orchestrator \<Rightarrow> orchestrator_status result" where
  "orchestrator_status_of E oc =
     bind_result (case oc_operations oc of
         None \<Rightarrow> Inr None
       | Some ops \<Rightarrow>
           bind_result (operations_status_of (cy_hash E) (cy_now E) (rt_registry (oc_runtime oc)) ops) (\<lambda>s. Inr (Some s))) (\<lambda>ops.
       Inr \<lparr>sx_mode = sm_state (rm_sm (oc_risk oc)), sx_kill_switch_active = sm_kill_switch_active (rm_sm (oc_risk oc)),
            sx_agents = map (\<lambda>(name, a). (name, ba_status a)) (ry_agents (rt_registry (oc_runtime oc))),
            sx_last_decision_id = map_option dec_decision_id (oc_last oc),
            sx_avg_cycle_latency_ms =
              py_round (if oc_latencies oc = [] then 0
                        else flt (of_int (sum_list (oc_latencies oc)) / of_int (int (length (oc_latencies oc))))) 2,
            sx_recent_failures = int (length (oc_failures oc)),
            sx_latest_consensus = (case oc_governance oc of None \<Rightarrow> None | Some g \<Rightarrow> List.find (\<lambda>_. True) (consensus_list 1 g)),
            sx_latest_portfolio =
              (case (oc_target_weight oc, oc_governance oc) of (Some _, Some g) \<Rightarrow> List.find (\<lambda>_. True) (proposal_list 1 g) | _ \<Rightarrow> None),
            sx_operations = ops\<rparr>)"

end
