(* ===== verification/Orchestrator_Properties.thy ===== *)
theory Orchestrator_Properties
  imports Orchestrator Paper_Properties Operations_Properties
begin

text \<open>
  What a cycle of the orchestrator can do to the exposure: only the last step of an evaluation adds an order, and
  every gate in front of it has been passed then. A failed invariant closes the gates for the cycles to come.
\<close>

section \<open>Steps that add no exposure\<close>

definition opens_nothing :: "orchestrator \<Rightarrow> orchestrator \<Rightarrow> bool" where
  "opens_nothing oc oc' \<longleftrightarrow>
     set (map fst (os_orders (oc_oms oc'))) \<subseteq> set (map fst (os_orders (oc_oms oc))) \<and>
     set (map fst (os_commands (oc_oms oc'))) \<subseteq> set (map fst (os_commands (oc_oms oc))) \<and>
     set (map fst (pt_open_orders (oc_paper oc'))) \<subseteq> set (map fst (pt_open_orders (oc_paper oc)))"

named_theorems quiet

lemma opens_nothing_refl [simp, quiet]: "opens_nothing oc oc"
  by (simp add: opens_nothing_def)

lemma opens_nothing_trans: "opens_nothing a b \<Longrightarrow> opens_nothing b c \<Longrightarrow> opens_nothing a c"
  unfolding opens_nothing_def by blast

lemma opens_nothing_same: "oc_oms oc' = oc_oms oc \<Longrightarrow> opens_nothing oc oc'"
  by (simp add: opens_nothing_def)

lemma opens_nothing_cong:
  assumes "oc_oms a = oc_oms a'" "oc_oms b = oc_oms b'"
  shows "opens_nothing a b = opens_nothing a' b'"
  using assms by (simp add: opens_nothing_def)

lemma opens_nothing_from: "oc_oms a = oc_oms a' \<Longrightarrow> opens_nothing a b = opens_nothing a' b"
  by (simp add: opens_nothing_def)

lemma opens_nothing_bind:
  assumes "opens_nothing oc (fst m)" "\<And>s x. m = (s, Inr x) \<Longrightarrow> opens_nothing s (fst (f s x))"
  shows "opens_nothing oc (fst (bind_outcome m f))"
proof (cases m)
  case (Pair s r)
  with assms show ?thesis by (cases r) (auto simp: bind_outcome_def intro: opens_nothing_trans)
qed

lemma opens_nothing_unless:
  assumes "opens_nothing oc (fst m)" "\<And>s x. m = (s, Inr (Some x)) \<Longrightarrow> opens_nothing s (fst (f s x))"
  shows "opens_nothing oc (fst (unless_stopped m f))"
proof (cases m)
  case (Pair s r)
  with assms show ?thesis
    by (cases r) (auto simp: unless_stopped_def split: option.splits intro: opens_nothing_trans)
qed

lemma opens_later:
  assumes "\<not> opens_nothing oc (fst (bind_outcome m f))" "opens_nothing oc (fst m)"
  obtains s x where "m = (s, Inr x)" "\<not> opens_nothing s (fst (f s x))"
proof (rule ccontr)
  assume "\<not> thesis"
  with that have "opens_nothing s (fst (f s x))" if "m = (s, Inr x)" for s x using that by blast
  from opens_nothing_bind [OF assms(2) this] assms(1) show False by simp
qed

lemma opens_unless_stopped:
  assumes "\<not> opens_nothing oc (fst (unless_stopped m f))" "opens_nothing oc (fst m)"
  obtains s x where "m = (s, Inr (Some x))" "\<not> opens_nothing s (fst (f s x))"
proof (rule ccontr)
  assume "\<not> thesis"
  with that have "opens_nothing s (fst (f s x))" if "m = (s, Inr (Some x))" for s x using that by blast
  from opens_nothing_unless [OF assms(2) this] assms(1) show False by simp
qed

lemma on_risk_exposure:
  "os_orders (fst (on_risk f s)) = os_orders s" "os_commands (fst (on_risk f s)) = os_commands s"
  "pt_open_orders (os_paper (fst (on_risk f s))) = pt_open_orders (os_paper s)"
  by (simp_all add: on_risk_def split: prod.split)

lemma on_risk_quiet [quiet]: "opens_nothing oc (fst (on_oms (on_risk f) oc))"
  using on_risk_exposure [of f "oc_oms oc"] by (auto simp: on_oms_def opens_nothing_def split: prod.splits)

lemma on_market_oms [simp]: "oc_oms (fst (on_market f x oc)) = oc_oms oc"
  by (simp add: on_market_def split: prod.split)

lemma publish_event_oms [simp]: "oc_oms (fst (publish_event E t ty key p src cid oc)) = oc_oms oc"
  by (simp add: publish_event_def split: prod.split sum.split)

lemma note_failure_oms [simp]: "oc_oms (note_failure E x oc) = oc_oms oc"
  by (simp add: note_failure_def)

lemma on_market_quiet [quiet]: "opens_nothing oc (fst (on_market f x oc))"
  by (simp add: opens_nothing_same)

lemma publish_event_quiet [quiet]: "opens_nothing oc (fst (publish_event E t ty key p src cid oc))"
  by (simp add: opens_nothing_same)

lemma audit_cycle_quiet [quiet]: "opens_nothing oc (fst (audit_cycle cid ty ety i oc))"
  unfolding audit_cycle_def by (rule on_risk_quiet)

section \<open>Monitoring only closes\<close>

definition open_ids :: "paper_engine \<Rightarrow> string set" where
  "open_ids e = set (map fst (pt_open_orders e))"

lemma open_ids_account: "account e' = account e \<Longrightarrow> open_ids e' = open_ids e"
  using account_fields(1) [of e' e] by (simp add: open_ids_def)

lemma open_ids_leave_book: "open_ids (leave_book o' l e) \<subseteq> open_ids e"
  by (auto simp: open_ids_def dest: set_dict_pop)

lemma book_result_open: "pt_open_orders (fst (book_result t pnl o' e)) = pt_open_orders e"
  by (auto simp: book_result_def with_risk_def bind_outcome_def Let_def split: prod.splits sum.splits)

lemma close_order_open: "open_ids (fst (close_order now i price reason candle occurred e)) \<subseteq> open_ids e"
proof -
  obtain e' res where run: "close_order now i price reason candle occurred e = (e', res)" by force
  from run have "open_ids e' \<subseteq> open_ids e"
  proof (cases rule: close_order_cases)
    case refused
    show ?thesis using open_ids_account [OF refused(2)] by simp
  next
    case (settled order s e1 e3)
    obtain settled' l where "open_ids e' = open_ids (leave_book settled' l e3)"
      using arg_cong [OF settled(7), of "open_ids \<circ> fst"] unfolding open_ids_def comp_def book_result_open fst_conv by blast
    with open_ids_leave_book [of settled' l e3] open_ids_account [OF settled(3)] show ?thesis by simp
  qed
  with run show ?thesis by simp
qed

lemma accrue_open: "open_ids (fst (accrue_funding order t e)) = open_ids e"
  by (rule open_ids_account) (rule accrue_account)

lemma check_orders_open: "open_ids (fst (check_orders now c orders settled e)) \<subseteq> open_ids e"
proof (induction now c orders settled e rule: check_orders.induct)
  case (2 now c order orders settled e)
  show ?case
  proof (cases "po_symbol order \<noteq> cd_symbol c")
    case True
    with 2(1) show ?thesis by simp
  next
    case False
    obtain e1 r1 where a: "accrue_funding order (cd_closed_at c) e = (e1, r1)" by force
    have e1: "open_ids e1 = open_ids e" using accrue_open [of order "cd_closed_at c" e] a by simp
    show ?thesis
    proof (cases r1)
      case (Inl x)
      then show ?thesis using False a e1 by simp
    next
      case (Inr u)
      show ?thesis
      proof (cases "exit_of e1 order c")
        case None
        with 2(2) [OF False a [symmetric] Inr None] show ?thesis using False a Inr e1 by simp
      next
        case (Some pr)
        obtain price reason where pr: "pr = (price, reason)" by force
        obtain e2 r2 where cl: "close_order now (po_paper_order_id order) price (Some reason) (Some c) (Some (cd_closed_at c)) e1 = (e2, r2)"
          by force
        have e2: "open_ids e2 \<subseteq> open_ids e"
          using close_order_open [of now "po_paper_order_id order" price "Some reason" "Some c" "Some (cd_closed_at c)" e1] cl e1 by simp
        show ?thesis
        proof (cases r2)
          case (Inl x)
          then show ?thesis using False a \<open>r1 = Inr u\<close> Some pr cl e2 by simp
        next
          case r2: (Inr settled')
          with 2(3) [OF False a [symmetric] Inr Some pr [symmetric] cl [symmetric] r2] show ?thesis
            using False a Inr Some pr cl e2 by simp
        qed
      qed
    qed
  qed
qed simp

lemma on_candle_quiet [quiet]: "opens_nothing oc (fst (on_oms (on_paper (on_candle now c)) oc))"
proof -
  obtain e r where run: "on_candle now c (oc_paper oc) = (e, r)" by force
  have "open_ids (fst (on_candle now c (oc_paper oc))) \<subseteq> open_ids (oc_paper oc)"
    unfolding on_candle_def by (rule check_orders_open)
  with run show ?thesis by (simp add: opens_nothing_def on_oms_def on_paper_def open_ids_def)
qed

lemma publish_closed_quiet [quiet]: "opens_nothing oc (fst (publish_closed E xs oc))"
  by (induction xs arbitrary: oc) (auto intro!: opens_nothing_bind publish_event_quiet)

lemma monitor_positions_quiet [quiet]: "opens_nothing oc (fst (monitor_positions E c oc))"
  unfolding monitor_positions_def by (intro opens_nothing_bind quiet)

section \<open>Preparation and agents\<close>

lemma clock_gate_quiet [quiet]: "opens_nothing oc (fst (clock_gate E c oc))"
proof -
  have "opens_nothing oc (fst (on_market f x (note_failure E y oc)))" for f :: "market_store \<Rightarrow> (market_store, unit) outcome" and x y
    by (simp add: opens_nothing_same)
  then show ?thesis
    unfolding clock_gate_def Let_def by (auto split: option.split intro!: opens_nothing_bind)
qed

lemma persist_candle_quiet [quiet]: "opens_nothing oc (fst (persist_candle E c q oc))"
  unfolding persist_candle_def Let_def by (auto intro!: opens_nothing_bind quiet)

lemma put_candle_store_quiet: "opens_nothing oc (put_candle_store cs oc)"
proof -
  have "opens_nothing (oc\<lparr>oc_store := cs\<rparr>) (put_candle_store cs oc)" unfolding put_candle_store_def by (rule on_risk_quiet)
  then show ?thesis by (simp add: opens_nothing_def)
qed

lemma keep_candle_quiet [quiet]: "opens_nothing oc (fst (keep_candle E c q oc))"
  unfolding keep_candle_def using put_candle_store_quiet opens_nothing_same [of "note_failure E ''DATA_QUALITY_ERROR'' oc" oc]
  by (auto split: prod.split sum.split)

lemma daily_reset_quiet: "opens_nothing oc (daily_reset c oc)"
proof -
  have "opens_nothing (oc\<lparr>oc_current_day := d\<rparr>) (fst (on_oms (on_risk f) (oc\<lparr>oc_current_day := d\<rparr>)))" for d and f :: "risk_manager \<Rightarrow> (risk_manager, unit) outcome"
    by (rule on_risk_quiet)
  then show ?thesis by (simp add: daily_reset_def Let_def opens_nothing_def)
qed

lemma announce_candle_quiet [quiet]: "opens_nothing oc (fst (announce_candle E c oc))"
  unfolding announce_candle_def by (rule publish_event_quiet)

lemma prepare_cycle_quiet [quiet]: "opens_nothing oc (fst (prepare_cycle E c oc))"
  unfolding prepare_cycle_def Let_def
proof (intro opens_nothing_unless opens_nothing_bind quiet)
  fix oc3
  show "opens_nothing oc3 (fst (monitor_positions E c (daily_reset c oc3)))"
    by (rule opens_nothing_trans [OF daily_reset_quiet monitor_positions_quiet])
next
  fix oc4 q
  show "opens_nothing oc4 (fst (if \<not> evaluation_permitted oc4 then (oc4, Inr None)
      else bind_outcome (announce_candle E c oc4) (\<lambda>oc5 _. (oc5, Inr (Some q)))))"
    by (auto intro!: opens_nothing_bind quiet)
qed

lemma run_agents_oms [simp]: "oc_oms (fst (run_agents E c oc)) = oc_oms oc"
  by (simp add: run_agents_def split: sum.split prod.split)

lemma observe_batch_oms [simp]: "oc_oms (observe_batch E outs oc) = oc_oms oc"
  by (simp add: observe_batch_def split: option.split)

lemma observe_evaluation_oms [simp]: "oc_oms (observe_evaluation E c outs oc) = oc_oms oc"
  by (simp add: observe_evaluation_def split: option.split sum.split)

section \<open>The decision\<close>

lemma consult_consensus_quiet: "opens_nothing oc (fst (consult_consensus E outs dec oc))"
proof -
  have "opens_nothing oc (fst (bind_outcome (audit_cycle cid ty ety i (oc\<lparr>oc_governance := g\<rparr>)) (\<lambda>oc1 _. publish_event E t ty' k p src cid' oc1)))"
    for cid ty ety i g t ty' k p src cid'
  proof -
    have "opens_nothing (oc\<lparr>oc_governance := g\<rparr>)
        (fst (bind_outcome (audit_cycle cid ty ety i (oc\<lparr>oc_governance := g\<rparr>)) (\<lambda>oc1 _. publish_event E t ty' k p src cid' oc1)))"
      by (intro opens_nothing_bind quiet)
    then show ?thesis by (simp add: opens_nothing_def)
  qed
  then show ?thesis
    unfolding consult_consensus_def Let_def
    by (auto split: option.split sum.split prod.split simp: opens_nothing_same) (metis fst_conv)+
qed

lemma construct_portfolio_quiet: "opens_nothing oc (fst (construct_portfolio E dec w oc))"
proof -
  have "opens_nothing oc (fst (bind_outcome (audit_cycle cid ty ety i (oc\<lparr>oc_governance := g\<rparr>)) (\<lambda>oc1 _. publish_event E t ty' k p src cid' oc1)))"
    for cid ty ety i g t ty' k p src cid'
  proof -
    have "opens_nothing (oc\<lparr>oc_governance := g\<rparr>)
        (fst (bind_outcome (audit_cycle cid ty ety i (oc\<lparr>oc_governance := g\<rparr>)) (\<lambda>oc1 _. publish_event E t ty' k p src cid' oc1)))"
      by (intro opens_nothing_bind quiet)
    then show ?thesis by (simp add: opens_nothing_def)
  qed
  then show ?thesis
    unfolding construct_portfolio_def Let_def
    by (auto split: option.split sum.split prod.split simp: opens_nothing_same) (metis fst_conv)+
qed

lemma remember_decision_oms [simp]: "oc_oms (remember_decision dec oc) = oc_oms oc"
  by (simp add: remember_decision_def)

lemma replace_last_oms [simp]: "oc_oms (replace_last dec oc) = oc_oms oc"
  by (simp add: replace_last_def)

lemma record_candidate_quiet [quiet]: "opens_nothing oc (fst (record_candidate E dec oc))"
proof -
  have "opens_nothing (remember_decision dec oc) (fst (record_candidate E dec oc))"
    unfolding record_candidate_def by (intro opens_nothing_bind quiet)
  then show ?thesis by (simp add: opens_nothing_def)
qed

lemma check_candidate_quiet [quiet]: "opens_nothing oc (fst (check_candidate E dec q oc))"
  unfolding check_candidate_def by (rule on_risk_quiet)

lemma record_risk_quiet [quiet]: "opens_nothing oc (fst (record_risk E dec x oc))"
  unfolding record_risk_def by (intro opens_nothing_bind quiet)

lemma route_order_refuses:
  assumes "\<not> approving (rc_risk_status x)"
  shows "opens_nothing oc (fst (route_order E c dec x oc))"
proof -
  have "on_oms (submit_approved H U f t dec x p mc o') oc = (oc, raise RiskError ''OMS requires central risk approval'')" for H U f t p mc o'
    using assms by (simp add: on_oms_def submit_approved_def)
  moreover have "\<exists>m. on_oms (on_paper (create_order H U t t t t dec x p mc o')) oc = (oc, raise RiskError m)" for H U t p mc o'
    using assms by (simp add: on_oms_def on_paper_def create_order_def)
  ultimately show ?thesis
    unfolding route_order_def by (auto simp: bind_outcome_def split: prod.split sum.split) (metis Inl_Inr_False prod.inject opens_nothing_refl)+
qed

text \<open>The exposure of a decision rests on an approving check of an actionable decision, and is what the order boundary made of it.\<close>

lemma bind_outcome_fst: "fst (bind_outcome m (\<lambda>s _. (s, Inr y))) = fst m"
  by (simp add: bind_outcome_def split: prod.split sum.split)

lemma execute_decision_opens:
  assumes "\<not> opens_nothing oc (fst (execute_decision E c dec q oc))"
  obtains oc1 x oc2 where "actionable dec" "check_candidate E dec q oc = (oc1, Inr x)" "approving (rc_risk_status x)"
    "record_risk E dec x (replace_last (dec\<lparr>dec_risk_status := rc_risk_status x\<rparr>) oc1) = (oc2, Inr ())"
    "fst (execute_decision E c dec q oc) = fst (route_order E c (dec\<lparr>dec_risk_status := rc_risk_status x\<rparr>) x oc2)"
proof -
  have act: "actionable dec" by (rule ccontr) (use assms in \<open>simp add: execute_decision_def\<close>)
  let ?d = "\<lambda>x. dec\<lparr>dec_risk_status := rc_risk_status x\<rparr>"
  let ?route = "\<lambda>x oc2. if rc_risk_status x \<in> {RsBLOCKED, RsKILL_SWITCH} then (oc2, Inr (?d x))
      else bind_outcome (route_order E c (?d x) x oc2) (\<lambda>oc3 _. (oc3, Inr (?d x)))"
  have run: "execute_decision E c dec q oc =
      bind_outcome (check_candidate E dec q oc) (\<lambda>oc1 x. bind_outcome (record_risk E dec x (replace_last (?d x) oc1)) (\<lambda>oc2 _. ?route x oc2))"
    using act by (simp add: execute_decision_def Let_def)
  from opens_later [OF assms [unfolded run] check_candidate_quiet] obtain oc1 x where ch: "check_candidate E dec q oc = (oc1, Inr x)"
    and more: "\<not> opens_nothing oc1 (fst (bind_outcome (record_risk E dec x (replace_last (?d x) oc1)) (\<lambda>oc2 _. ?route x oc2)))" .
  have "opens_nothing oc1 (fst (record_risk E dec x (replace_last (?d x) oc1)))"
    using record_risk_quiet [of "replace_last (?d x) oc1" E dec x] by (simp add: opens_nothing_def)
  from opens_later [OF more this] obtain oc2 u where rec: "record_risk E dec x (replace_last (?d x) oc1) = (oc2, Inr u)"
    and route: "\<not> opens_nothing oc2 (fst (?route x oc2))" .
  from route have go: "rc_risk_status x \<notin> {RsBLOCKED, RsKILL_SWITCH}" "\<not> opens_nothing oc2 (fst (route_order E c (?d x) x oc2))"
    by (auto simp: bind_outcome_fst split: if_splits)
  then have "approving (rc_risk_status x)" using route_order_refuses by blast
  moreover have "fst (execute_decision E c dec q oc) = fst (route_order E c (?d x) x oc2)"
    unfolding run ch using rec go(1) by (simp add: bind_outcome_fst bind_outcome_def [of "(_, Inr _)"])
  ultimately show thesis using that act ch rec by simp
qed

section \<open>What an opened position rests on\<close>

definition trusted_clock :: "cycle_world \<Rightarrow> candle \<Rightarrow> orchestrator \<Rightarrow> bool" where
  "trusted_clock E c oc \<longleftrightarrow>
     (oc_require_clock oc \<longrightarrow>
      (case oc_clock oc of None \<Rightarrow> False | Some r \<Rightarrow> cv_trusted (clock_verdict_for (cd_exchange c) (cy_now E) r)))"

definition new_candle :: "cycle_world \<Rightarrow> candle \<Rightarrow> orchestrator \<Rightarrow> bool" where
  "new_candle E c oc \<longleftrightarrow>
     (case oc_market oc of None \<Rightarrow> True | Some m \<Rightarrow> dict_get (mk_candles m) (candle_event_id (cy_hash E) c) = None)"

definition candidate_record :: "cycle_world \<Rightarrow> decision \<Rightarrow> audit_record" where
  "candidate_record E dec =
     \<lparr>au_correlation_id = cy_correlation E, au_audit_type = ''DECISION_CANDIDATE'', au_entity_type = ''decision'',
      au_entity_id = Some (dec_decision_id dec)\<rparr>"

text \<open>The last record of the trail, in the buffer and, with a repository, in the database.\<close>

definition last_audited :: "audit_record \<Rightarrow> risk_manager \<Rightarrow> bool" where
  "last_audited x rm \<longleftrightarrow>
     (1 \<le> as_max_buffer (rm_audit rm) \<longrightarrow> as_buffer (rm_audit rm) \<noteq> [] \<and> last (as_buffer (rm_audit rm)) = x) \<and>
     (as_repository (rm_audit rm) \<longrightarrow> db_audit_logs (rm_db rm) \<noteq> [] \<and> last (db_audit_logs (rm_db rm)) = x)"

lemma record_audit_last:
  assumes "record_audit x (rm_audit rm, rm_db rm) = ((a, d), Inr u)"
  shows "last_audited x (rm\<lparr>rm_audit := a, rm_db := d\<rparr>)"
proof -
  let ?b = "as_buffer (rm_audit rm)"
  have "tl (?b @ [x]) \<noteq> [] \<and> last (tl (?b @ [x])) = x" if "1 < length (?b @ [x])"
    using that by (cases ?b) auto
  moreover have "1 < length (?b @ [x])" if "1 \<le> n" "n < int (length (?b @ [x]))" for n using that by linarith
  moreover have "as_max_buffer a = as_max_buffer (rm_audit rm)"
    "as_buffer a = (if as_max_buffer a < int (length (?b @ [x])) then tl (?b @ [x]) else ?b @ [x])"
    using assms by (auto simp: record_audit_def Let_def split: if_splits prod.splits sum.splits)
  ultimately have "1 \<le> as_max_buffer a \<longrightarrow> as_buffer a \<noteq> [] \<and> last (as_buffer a) = x"
    by (cases "as_max_buffer a < int (length (?b @ [x]))") auto
  moreover have "as_repository a = as_repository (rm_audit rm)"
    using assms by (auto simp: record_audit_def Let_def split: if_splits prod.splits sum.splits)
  ultimately show ?thesis using record_audit_ok(2) [OF assms] by (auto simp: last_audited_def)
qed

lemma record_candidate_audited:
  assumes "record_candidate E dec oc = (oc', Inr u)"
  shows "last_audited (candidate_record E dec) (oc_risk oc')"
proof -
  obtain oc1 where a: "audit_cycle (cy_correlation E) ''DECISION_CANDIDATE'' ''decision'' (dec_decision_id dec) (remember_decision dec oc) =
      (oc1, Inr ())" and rest: "oc_oms oc' = oc_oms oc1"
  proof -
    from assms obtain oc1 oc2 v w where h:
      "audit_cycle (cy_correlation E) ''DECISION_CANDIDATE'' ''decision'' (dec_decision_id dec) (remember_decision dec oc) = (oc1, Inr v)"
      "on_market (save_decision dec) () oc1 = (oc2, Inr w)"
      "publish_event E ''decision.events.v1'' ''DECISION_CANDIDATE_CREATED'' ''decision''
         (identity_payload ''decision_id'' (dec_decision_id dec)) ''Orchestrator'' (cy_correlation E) oc2 = (oc', Inr u)"
      unfolding record_candidate_def bind_outcome_Inr by blast
    have "oc_oms oc2 = oc_oms oc1" using arg_cong [OF h(2), of "oc_oms \<circ> fst"] by simp
    moreover have "oc_oms oc' = oc_oms oc2" using arg_cong [OF h(3), of "oc_oms \<circ> fst"] by simp
    ultimately show thesis using that [of oc1] h(1) by simp
  qed
  obtain au d r where x: "record_audit (candidate_record E dec) (rm_audit (oc_risk oc), rm_db (oc_risk oc)) = ((au, d), r)"
    by (metis prod.exhaust)
  with a have "r = Inr ()" "oc_risk oc1 = (oc_risk oc)\<lparr>rm_audit := au, rm_db := d\<rparr>"
    by (auto simp: audit_cycle_def on_oms_def on_risk_def candidate_record_def)
  with record_audit_last [of "candidate_record E dec" "oc_risk oc" au d "()"] x rest show ?thesis by simp
qed

lemma unless_stopped_Some:
  "unless_stopped m f = (t, Inr (Some y)) \<longleftrightarrow> (\<exists>s x. m = (s, Inr (Some x)) \<and> f s x = (t, Inr (Some y)))"
  by (auto simp: unless_stopped_def split: prod.splits sum.splits option.splits)

lemma clock_gate_passed:
  assumes "clock_gate E c oc = (oc', Inr (Some v))"
  shows "oc' = oc" "trusted_clock E c oc"
  using assms
  by (auto simp: clock_gate_def trusted_clock_def Let_def bind_outcome_def split: if_splits option.splits prod.splits sum.splits)

lemma save_candle_new:
  assumes "save_candle H c q d = (d', Inr True)"
  shows "dict_get (mk_candles d) (candle_event_id H c) = None"
proof (rule ccontr)
  assume "dict_get (mk_candles d) (candle_event_id H c) \<noteq> None"
  with assms show False
    by (auto simp: save_candle_def save_candles_def bind_outcome_def Let_def fs_transaction_def split: if_splits prod.splits sum.splits)
qed

lemma persist_candle_passed:
  assumes "persist_candle E c q oc = (oc', Inr (Some u))"
  shows "new_candle E c oc"
proof (cases "oc_market oc")
  case (Some m)
  obtain m' r where sv: "save_candle (cy_hash E) c (Some q) m = (m', r)" by force
  have "r = Inr True"
    using assms Some sv
    by (cases r) (auto simp: persist_candle_def on_market_def with_store_def bind_outcome_def Let_def split: if_splits bool.splits)
  with sv save_candle_new Some show ?thesis by (auto simp: new_candle_def)
qed (simp add: new_candle_def)

lemma prepare_cycle_passed:
  assumes "prepare_cycle E c oc = (oc', Inr (Some q))"
  shows "trusted_clock E c oc" "new_candle E c oc" "dq_errors q = []" "evaluation_permitted oc'"
proof -
  obtain oc1 v where gate: "clock_gate E c oc = (oc1, Inr (Some v))"
    and tail1: "unless_stopped (persist_candle E c (assessed E c v oc1) oc1) (\<lambda>oc2 _.
          unless_stopped (keep_candle E c (assessed E c v oc1) oc2) (\<lambda>oc3 _.
          bind_outcome (monitor_positions E c (daily_reset c oc3)) (\<lambda>oc4 _.
            if \<not> evaluation_permitted oc4 then (oc4, Inr None)
            else bind_outcome (announce_candle E c oc4) (\<lambda>oc5 _. (oc5, Inr (Some (assessed E c v oc1))))))) = (oc', Inr (Some q))"
    using assms unfolding prepare_cycle_def Let_def unless_stopped_Some by blast
  show "trusted_clock E c oc" using clock_gate_passed [OF gate] by blast
  obtain oc2 u where persist: "persist_candle E c (assessed E c v oc1) oc1 = (oc2, Inr (Some u))"
    and tail2: "unless_stopped (keep_candle E c (assessed E c v oc1) oc2) (\<lambda>oc3 _.
          bind_outcome (monitor_positions E c (daily_reset c oc3)) (\<lambda>oc4 _.
            if \<not> evaluation_permitted oc4 then (oc4, Inr None)
            else bind_outcome (announce_candle E c oc4) (\<lambda>oc5 _. (oc5, Inr (Some (assessed E c v oc1)))))) = (oc', Inr (Some q))"
    using tail1 unfolding unless_stopped_Some by blast
  show "new_candle E c oc" using persist_candle_passed [OF persist] clock_gate_passed(1) [OF gate] by simp
  obtain oc3 w where keep: "keep_candle E c (assessed E c v oc1) oc2 = (oc3, Inr (Some w))"
    and tail3: "bind_outcome (monitor_positions E c (daily_reset c oc3)) (\<lambda>oc4 _.
            if \<not> evaluation_permitted oc4 then (oc4, Inr None)
            else bind_outcome (announce_candle E c oc4) (\<lambda>oc5 _. (oc5, Inr (Some (assessed E c v oc1))))) = (oc', Inr (Some q))"
    using tail2 unfolding unless_stopped_Some by blast
  have ok: "dq_errors (assessed E c v oc1) = []" using keep by (auto simp: keep_candle_def split: if_splits)
  obtain oc4 where permitted: "evaluation_permitted oc4" and q: "q = assessed E c v oc1"
    and ann: "\<exists>u. announce_candle E c oc4 = (oc', Inr u)"
    using tail3 unfolding bind_outcome_Inr by (auto split: if_splits simp: bind_outcome_Inr)
  from ok q show "dq_errors q = []" by simp
  have "oc_oms oc' = oc_oms oc4" "oc_operations oc' = oc_operations oc4"
    using ann by (auto simp: announce_candle_def publish_event_def split: prod.splits sum.splits)
  with permitted show "evaluation_permitted oc'" by (simp add: evaluation_permitted_def)
qed

text \<open>The states an evaluation passes on its way to the order boundary, in their order.\<close>

definition observed :: "cycle_world \<Rightarrow> candle \<Rightarrow> agent_output list \<Rightarrow> orchestrator \<Rightarrow> orchestrator" where
  "observed E c outs oc = observe_evaluation E c outs (observe_batch E outs oc)"

definition strategy_of :: "candle \<Rightarrow> agent_output list \<Rightarrow> orchestrator \<Rightarrow> strategy_evaluation" where
  "strategy_of c outs oc = evaluate_strategy (cd_symbol c) (cd_timeframe c) (reported_regime outs) (oc_strategies oc)"

lemma observed_oms [simp]: "oc_oms (observed E c outs oc) = oc_oms oc"
  by (simp add: observed_def)

lemma decide_candle_opens:
  assumes "\<not> opens_nothing oc (fst (decide_candle E c q outs oc))"
  obtains dec0 oc1 dec w oc2 p oc3 oc4 x oc5 where
    "candidate_decision E c q outs (strategy_of c outs oc) (reported_regime outs) oc = Inr dec0"
    "consult_consensus E outs dec0 oc = (oc1, dec, w)" "actionable dec" "construct_portfolio E dec w oc1 = (oc2, p)"
    "record_candidate E dec oc2 = (oc3, Inr ())"
    "check_candidate E dec (risk_request_for c q outs (selected_profile c (strategy_of c outs oc) oc) p oc3) oc3 = (oc4, Inr x)"
    "approving (rc_risk_status x)" "opens_nothing oc oc4"
    "record_risk E dec x (replace_last (dec\<lparr>dec_risk_status := rc_risk_status x\<rparr>) oc4) = (oc5, Inr ())"
    "fst (decide_candle E c q outs oc) = fst (route_order E c (dec\<lparr>dec_risk_status := rc_risk_status x\<rparr>) x oc5)"
proof -
  let ?ev = "strategy_of c outs oc"
  obtain dec0 where dec0: "candidate_decision E c q outs ?ev (reported_regime outs) oc = Inr dec0"
    using assms
    by (cases "candidate_decision E c q outs ?ev (reported_regime outs) oc") (auto simp: decide_candle_def strategy_of_def Let_def)
  obtain oc1 dec w where con: "consult_consensus E outs dec0 oc = (oc1, dec, w)" by (metis prod.exhaust)
  obtain oc2 p where por: "construct_portfolio E dec w oc1 = (oc2, p)" by force
  let ?rq = "risk_request_for c q outs (selected_profile c ?ev oc) p"
  have run: "decide_candle E c q outs oc =
      bind_outcome (record_candidate E dec oc2) (\<lambda>oc3 _. execute_decision E c dec (?rq oc3) oc3)"
    using dec0 con por by (simp add: decide_candle_def strategy_of_def Let_def)
  have quiet2: "opens_nothing oc oc2"
    using consult_consensus_quiet [of oc E outs dec0] construct_portfolio_quiet [of oc1 E dec w] con por
    by (auto intro: opens_nothing_trans)
  then have "\<not> opens_nothing oc2 (fst (decide_candle E c q outs oc))" using assms opens_nothing_trans by blast
  from opens_later [OF this [unfolded run] record_candidate_quiet]
  obtain oc3 u where rec: "record_candidate E dec oc2 = (oc3, Inr u)"
    and ex: "\<not> opens_nothing oc3 (fst (execute_decision E c dec (?rq oc3) oc3))" .
  from execute_decision_opens [OF ex] obtain oc4 x oc5 where x: "actionable dec"
    "check_candidate E dec (?rq oc3) oc3 = (oc4, Inr x)" "approving (rc_risk_status x)"
    "record_risk E dec x (replace_last (dec\<lparr>dec_risk_status := rc_risk_status x\<rparr>) oc4) = (oc5, Inr ())"
    "fst (execute_decision E c dec (?rq oc3) oc3) = fst (route_order E c (dec\<lparr>dec_risk_status := rc_risk_status x\<rparr>) x oc5)" .
  have "opens_nothing oc oc4"
    using quiet2 record_candidate_quiet [of oc2 E dec] check_candidate_quiet [of oc3 E dec "?rq oc3"] rec x(2)
    by (auto intro: opens_nothing_trans)
  moreover have "fst (decide_candle E c q outs oc) = fst (execute_decision E c dec (?rq oc3) oc3)"
    unfolding run rec by (simp add: bind_outcome_def)
  ultimately show thesis using that dec0 con por rec x by simp
qed

lemma recover_oms [simp]: "oc_oms (fst (recover_cycle E e oc)) = oc_oms oc"
  by (simp add: recover_cycle_def mark_unhealthy_def split: option.split prod.split)

lemma observe_cycle_oms [simp]: "oc_oms (observe_cycle E ok oc) = oc_oms oc"
  by (simp add: observe_cycle_def split: option.split)

lemma evaluate_cycle_opens:
  assumes "\<not> opens_nothing oc (fst (evaluate_cycle E c q oc))"
  obtains oc1 outs where "run_agents E c oc = (oc1, Inr (Some outs))"
    "\<not> opens_nothing (observed E c outs oc1) (fst (decide_candle E c q outs (observed E c outs oc1)))"
    "fst (evaluate_cycle E c q oc) = fst (decide_candle E c q outs (observed E c outs oc1))"
proof -
  have "opens_nothing oc (fst (run_agents E c oc))" by (simp add: opens_nothing_same)
  from opens_unless_stopped [OF assms [unfolded evaluate_cycle_def] this] obtain oc1 outs where
    ran: "run_agents E c oc = (oc1, Inr (Some outs))" and ex: "\<not> opens_nothing oc1
      (fst (bind_outcome (decide_candle E c q outs (observe_evaluation E c outs (observe_batch E outs oc1)))
         (\<lambda>oc2 dec. (oc2, Inr (Some dec)))))" .
  have bind: "fst (bind_outcome m (\<lambda>s y. (s, Inr (Some y)))) = fst m" for m :: "(orchestrator, decision) outcome"
    by (simp add: bind_outcome_def split: prod.split sum.split)
  have "fst (evaluate_cycle E c q oc) = fst (decide_candle E c q outs (observed E c outs oc1))"
    by (simp add: evaluate_cycle_def ran unless_stopped_def bind observed_def)
  moreover have "\<not> opens_nothing (observed E c outs oc1) (fst (decide_candle E c q outs (observed E c outs oc1)))"
    using ex opens_nothing_from [OF observed_oms, of E c outs oc1] by (simp add: bind observed_def)
  ultimately show thesis using that ran by simp
qed

section \<open>What a new position carries\<close>

definition position_under :: "time \<Rightarrow> decision \<Rightarrow> risk_check \<Rightarrow> risk_manager \<Rightarrow> paper_order \<Rightarrow> bool" where
  "position_under now dec x rm p \<longleftrightarrow>
     po_decision_id p = dec_decision_id dec \<and> po_risk_check_id p = rc_risk_check_id x \<and> po_approval_id p = rc_approval_id x \<and>
     dict_get (rm_checks_by_key rm) (rc_idempotency_key x) = Some x \<and> \<not> latched rm \<and>
     (\<exists>a. approval_of_check x rm = Some a \<and> oa_status a = ApACTIVE \<and> now < oa_expires_at a \<and> oa_decision_id a = dec_decision_id dec \<and>
          po_position_size p \<le> oa_max_notional a + tol8)"

lemma create_order_position:
  assumes "create_order H U now created t t' dec x price candle occurred e = (e', res)"
    "dict_get (pt_open_orders e') i = Some p" "dict_get (pt_open_orders e) i = None"
  shows "position_under t dec x (pt_risk e) p"
  using assms(1)
proof (cases rule: create_order_cases)
  case refused
  from refused(2) have "pt_open_orders e' = pt_open_orders e" by (auto simp: book_eq_iff)
  with assms(2,3) show ?thesis by simp
next
  case (opened side en order e1 rm2 rm3)
  obtain a d where e1: "e1 = e\<lparr>pt_risk := (pt_risk e)\<lparr>rm_audit := a, rm_db := d\<rparr>\<rparr>"
    using opened(8) audit_paper_frame [of "''PAPER_ORDER_CREATED''" order e] by (metis prod.inject)
  have "pt_open_orders e' = dict_set (po_paper_order_id order) order (pt_open_orders e)" using opened(11) by (simp add: e1)
  with assms(2,3) have p: "p = order" by (auto simp: dict_simps split: if_splits)
  obtain ap where ap: "authorize H t dec x (po_side order) (po_position_size order) (po_leverage order) price
       ''Paper order does not match its central approval'' (pt_risk e1) = (pt_risk e1, Inr ap)"
    using consume_approval_cases [OF opened(9)] by metis
  show ?thesis
    using authorize_ok [OF ap] build_order_fields [OF opened(7)] p
    by (auto simp: position_under_def e1 approval_of_check_def)
qed

lemma on_db_frame:
  "pt_open_orders (os_paper (fst (on_db f s))) = pt_open_orders (os_paper s)"
  "\<exists>d. os_risk (fst (on_db f s)) = (os_risk s)\<lparr>rm_db := d\<rparr>"
  by (auto simp: on_db_def on_risk_def split: prod.split)

lemma remember_paper [simp]: "os_paper (remember o' s) = os_paper s"
  by (simp add: remember_def)

lemma get_order_frame:
  "pt_open_orders (os_paper (fst (get_order i s))) = pt_open_orders (os_paper s)"
  "\<exists>d. os_risk (fst (get_order i s)) = (os_risk s)\<lparr>rm_db := d\<rparr>"
proof -
  obtain s1 r where run: "on_db (load_oms_order i) s = (s1, r)" by force
  have p: "os_paper (fst (get_order i s)) = (if os_repository s then os_paper s1 else os_paper s)"
    using run by (auto simp: get_order_def bind_outcome_def split: sum.split option.split)
  then show "pt_open_orders (os_paper (fst (get_order i s))) = pt_open_orders (os_paper s)"
    using on_db_frame(1) [of "load_oms_order i" s] run by simp
  have "\<exists>d. os_risk s = (os_risk s)\<lparr>rm_db := d\<rparr>" by (rule exI [of _ "rm_db (os_risk s)"]) simp
  with p show "\<exists>d. os_risk (fst (get_order i s)) = (os_risk s)\<lparr>rm_db := d\<rparr>"
    using on_db_frame(2) [of "load_oms_order i" s] run by (cases "os_repository s") auto
qed

lemma submit_paper_book:
  "pt_open_orders (os_paper (fst (submit_paper H U now dec x price candle occurred s))) =
     pt_open_orders (fst (create_order H U now now now now dec x price candle occurred (os_paper s)))"
proof -
  obtain e r where run: "create_order H U now now now now dec x price candle occurred (os_paper s) = (e, r)" by force
  show ?thesis
  proof (cases r)
    case (Inl _)
    then show ?thesis using run by (simp add: submit_paper_def on_paper_def bind_outcome_def)
  next
    case (Inr order)
    have "pt_open_orders (os_paper (fst (bind_outcome (on_db f s') (\<lambda>s2 durable. case durable of
            None \<Rightarrow> (s2, raise ValidationError ''Atomic PAPER OMS mirror is missing'')
          | Some o' \<Rightarrow> (remember o' s2, Inr o'))))) = pt_open_orders (os_paper s')" for f s'
      using on_db_frame(1) [of f s'] by (auto simp: bind_outcome_def split: prod.split sum.split option.split)
    then show ?thesis using run Inr
      by (auto simp: submit_paper_def on_paper_def bind_outcome_def [of "(_, Inr _)"] split: sum.split)
  qed
qed

lemma bind_outcome_same:
  assumes "\<And>s x. m = (s, Inr x) \<Longrightarrow> F (fst (f s x)) = F s"
  shows "F (fst (bind_outcome m f)) = F (fst m)"
  using assms by (cases m, cases "snd m") (auto simp: bind_outcome_def)

lemma submit_testnet_book:
  "pt_open_orders (os_paper (fst (submit_testnet H U prep now i dec x price s))) = pt_open_orders (os_paper s)"
proof (cases "bind_result (testnet_order s i now dec x price) prep")
  case (Inr order)
  let ?F = "\<lambda>s. pt_open_orders (os_paper s)"
  let ?c = "new_command (U (''oms-submit:'' @ oo_oms_order_id order)) SUBMIT now order"
  let ?k = "\<lambda>s2 created. let s3 = remember created s2
     in (if os_repository s3 then s3 else s3\<lparr>os_commands := dict_set (xc_command_id ?c) ?c (os_commands s3)\<rparr>, Inr created)"
  have "?F (fst (bind_outcome (on_risk (consume_oms_approval H now now dec x order ?c) s1) ?k)) = ?F s1" for s1
    by (subst bind_outcome_same [of _ ?F]) (simp_all add: Let_def on_risk_exposure)
  then have "?F (fst (bind_outcome (audit_oms ''OMS_TESTNET_ORDER_REQUESTED'' order s) (\<lambda>s1 _.
       bind_outcome (on_risk (consume_oms_approval H now now dec x order ?c) s1) ?k))) = ?F s"
    by (subst bind_outcome_same [of _ ?F]) (simp_all add: audit_oms_def on_risk_exposure)
  then show ?thesis unfolding submit_testnet_def Inr sum.case Let_def .
qed (simp add: submit_testnet_def)

lemma submit_approved_position:
  assumes "dict_get (pt_open_orders (os_paper (fst (submit_approved H U prep now dec x price candle occurred s)))) i = Some p"
    "dict_get (pt_open_orders (os_paper s)) i = None"
  shows "position_under now dec x (os_risk s) p"
proof -
  let ?f = "U ((if os_target_environment s = environment.EnvPAPER then ''paper-order:'' else ''oms-order:'') @ the (rc_approval_id x))"
  obtain f where f: "f = ?f" by simp
  obtain s1 r where g: "get_order f s = (s1, r)" by force
  have same: "pt_open_orders (os_paper s1) = pt_open_orders (os_paper s)" using get_order_frame(1) [of f s] g by simp
  obtain d where d: "os_risk s1 = (os_risk s)\<lparr>rm_db := d\<rparr>" using get_order_frame(2) [of f s] g by auto
  have "dict_get (pt_open_orders (os_paper (fst (submit_paper H U now dec x price candle occurred s1)))) i = Some p"
    using assms same
    by (auto simp: submit_approved_def Let_def f [symmetric] g bind_outcome_def submit_testnet_book split: sum.splits option.splits if_splits)
  then have "dict_get (pt_open_orders (fst (create_order H U now now now now dec x price candle occurred (os_paper s1)))) i = Some p"
    by (simp add: submit_paper_book)
  from create_order_position [OF prod.collapse [symmetric] this] same assms(2)
  have "position_under now dec x (os_risk s1) p" by simp
  then show ?thesis by (simp add: position_under_def d approval_of_check_def)
qed

lemma publish_after_oms:
  "oc_oms (fst (bind_outcome (on_oms f oc) (\<lambda>oc1 order. publish_event E t ty (k order) (pl order) src cid oc1))) = fst (f (oc_oms oc))"
  by (subst bind_outcome_same [of _ oc_oms]) (simp_all add: on_oms_def split: prod.split)

lemma on_paper_book: "os_paper (fst (on_paper f s)) = fst (f (os_paper s))"
  by (simp add: on_paper_def split: prod.split)

lemma route_order_position:
  assumes "dict_get (pt_open_orders (oc_paper (fst (route_order E c dec x oc)))) i = Some p"
    "dict_get (pt_open_orders (oc_paper oc)) i = None"
  shows "position_under (cy_now E) dec x (oc_risk oc) p"
proof (cases "oc_uses_oms oc")
  case True
  with assms submit_approved_position show ?thesis unfolding route_order_def if_P [OF True] publish_after_oms by metis
next
  case False
  obtain e r where new: "create_order (cy_hash E) (cy_uuid E) (cy_now E) (cy_now E) (cy_now E) (cy_now E) dec x (cd_close c)
      (Some c) (Some (cd_closed_at c)) (oc_paper oc) = (e, r)" by force
  have "oc_paper (fst (route_order E c dec x oc)) = e"
    unfolding route_order_def if_not_P [OF False] publish_after_oms on_paper_book new by simp
  with create_order_position [OF new] assms show ?thesis by simp
qed

lemma opens_nothing_absent:
  assumes "opens_nothing oc oc'" "dict_get (pt_open_orders (oc_paper oc)) i = None"
  shows "dict_get (pt_open_orders (oc_paper oc')) i = None"
  using assms by (auto simp: opens_nothing_def map_of_eq_None_iff)

lemma position_under_status: "position_under t (dec\<lparr>dec_risk_status := st\<rparr>) x rm p = position_under t dec x rm p"
  by (simp add: position_under_def)

lemma record_risk_oms [simp]: "oc_oms (fst (record_risk E dec x oc)) = oc_oms oc"
  unfolding record_risk_def by (subst bind_outcome_same [of _ oc_oms]) simp_all

text \<open>
  C1. A candle opens exposure only behind every gate, in that order. If a cycle leaves an order of the order boundary,
  a venue command or an open position that was not there, then its clock was trusted where trust is required, the
  candle was new to the database and without data-quality errors, the state machine and the recovery gate permitted
  the evaluation, and the agents answered. The decision is the one the engine and the consensus made of their outputs,
  a purchase or a sale. Its candidate record ended the audit trail of the state in which the central risk manager then
  checked it, at the close of this candle and its quality score. Nothing had been opened when that check had approved,
  and the orders, commands and positions of the final state are what the order boundary made of the state the check
  left, for that decision and that check. A new PAPER position carries the identities of the decision, the check and
  its approval; the check is the one the manager keeps, and the approval was live and covers the size.
\<close>

theorem exposure_only_behind_every_gate:
  assumes "on_candle_closed E c oc = (oc', r)" "\<not> opens_nothing oc oc'"
  shows "\<exists>oc1 q oc2 outs start dec0 oc3 dec w oc4 p oc5 rq oc6 x oc7.
    trusted_clock E c oc \<and> new_candle E c oc \<and>
    prepare_cycle E c oc = (oc1, Inr (Some q)) \<and> dq_errors q = [] \<and> evaluation_permitted oc1 \<and>
    run_agents E c oc1 = (oc2, Inr (Some outs)) \<and> start = observed E c outs oc2 \<and>
    candidate_decision E c q outs (strategy_of c outs start) (reported_regime outs) start = Inr dec0 \<and>
    consult_consensus E outs dec0 start = (oc3, dec, w) \<and> actionable dec \<and>
    construct_portfolio E dec w oc3 = (oc4, p) \<and>
    record_candidate E dec oc4 = (oc5, Inr ()) \<and> last_audited (candidate_record E dec) (oc_risk oc5) \<and>
    rq = risk_request_for c q outs (selected_profile c (strategy_of c outs start) start) p oc5 \<and>
    rq_entry_price rq = cd_close c \<and> rq_data_quality_score rq = dq_score q \<and>
    check_candidate E dec rq oc5 = (oc6, Inr x) \<and> approving (rc_risk_status x) \<and> opens_nothing oc oc6 \<and>
    record_risk E dec x (replace_last (dec\<lparr>dec_risk_status := rc_risk_status x\<rparr>) oc6) = (oc7, Inr ()) \<and>
    oc_oms oc' = oc_oms (fst (route_order E c (dec\<lparr>dec_risk_status := rc_risk_status x\<rparr>) x oc7)) \<and>
    (\<forall>i o'. dict_get (pt_open_orders (oc_paper oc)) i = None \<and> dict_get (pt_open_orders (oc_paper oc')) i = Some o' \<longrightarrow>
       position_under (cy_now E) dec x (oc_risk oc6) o')"
proof -
  obtain oc1 v where prep: "prepare_cycle E c oc = (oc1, v)" by force
  have quiet1: "opens_nothing oc oc1" using prepare_cycle_quiet [of oc E c] prep by simp
  have "opens_nothing oc1 (fst (recover_cycle E e oc1))" for e by (simp add: opens_nothing_same)
  then have "\<exists>q. v = Inr (Some q)"
    using assms prep quiet1 opens_nothing_trans
    by (auto simp: on_candle_closed_def split: sum.splits option.splits) (metis fst_conv)
  then obtain q where q: "v = Inr (Some q)" ..
  have oms: "oc_oms oc' = oc_oms (fst (evaluate_cycle E c q oc1))"
  proof (cases "evaluate_cycle E c q oc1")
    case (Pair s e)
    then show ?thesis using assms(1) prep q
      by (cases e) (auto simp: on_candle_closed_def split: option.splits prod.splits, metis fst_conv recover_oms)
  qed
  have "\<not> opens_nothing oc1 (fst (evaluate_cycle E c q oc1))"
    using assms(2) opens_nothing_trans [OF quiet1] opens_nothing_cong [OF refl oms, of oc] by blast
  from evaluate_cycle_opens [OF this] obtain oc2 outs where ran: "run_agents E c oc1 = (oc2, Inr (Some outs))"
    and ex: "\<not> opens_nothing (observed E c outs oc2) (fst (decide_candle E c q outs (observed E c outs oc2)))"
    and dc: "fst (evaluate_cycle E c q oc1) = fst (decide_candle E c q outs (observed E c outs oc2))" .
  from decide_candle_opens [OF ex] obtain dec0 oc3 dec w oc4 p oc5 oc6 x oc7 where d:
    "candidate_decision E c q outs (strategy_of c outs (observed E c outs oc2)) (reported_regime outs) (observed E c outs oc2) = Inr dec0"
    "consult_consensus E outs dec0 (observed E c outs oc2) = (oc3, dec, w)" "actionable dec" "construct_portfolio E dec w oc3 = (oc4, p)"
    "record_candidate E dec oc4 = (oc5, Inr ())"
    "check_candidate E dec (risk_request_for c q outs (selected_profile c (strategy_of c outs (observed E c outs oc2)) (observed E c outs oc2)) p oc5)
       oc5 = (oc6, Inr x)"
    "approving (rc_risk_status x)" "opens_nothing (observed E c outs oc2) oc6"
    "record_risk E dec x (replace_last (dec\<lparr>dec_risk_status := rc_risk_status x\<rparr>) oc6) = (oc7, Inr ())"
    "fst (decide_candle E c q outs (observed E c outs oc2)) = fst (route_order E c (dec\<lparr>dec_risk_status := rc_risk_status x\<rparr>) x oc7)" .
  have "oc_oms (observed E c outs oc2) = oc_oms oc1" using run_agents_oms [of E c oc1] ran by simp
  from opens_nothing_from [OF this] d(8) quiet1 have unopened: "opens_nothing oc oc6" using opens_nothing_trans by blast
  have same7: "oc_oms oc7 = oc_oms oc6"
    using record_risk_oms [of E dec x "replace_last (dec\<lparr>dec_risk_status := rc_risk_status x\<rparr>) oc6"] d(9) by simp
  have routed: "oc_oms oc' = oc_oms (fst (route_order E c (dec\<lparr>dec_risk_status := rc_risk_status x\<rparr>) x oc7))"
    using oms dc d(10) by simp
  have carried: "position_under (cy_now E) dec x (oc_risk oc6) o'"
    if "dict_get (pt_open_orders (oc_paper oc)) i = None \<and> dict_get (pt_open_orders (oc_paper oc')) i = Some o'" for i o'
  proof -
    from that have new: "dict_get (pt_open_orders (oc_paper (fst (route_order E c (dec\<lparr>dec_risk_status := rc_risk_status x\<rparr>) x oc7)))) i = Some o'"
      "dict_get (pt_open_orders (oc_paper oc7)) i = None"
      using opens_nothing_absent [OF unopened] by (simp_all add: routed same7)
    from route_order_position [OF new] show ?thesis unfolding same7 position_under_status .
  qed
  note gates = prepare_cycle_passed [OF prep [unfolded q]]
  show ?thesis
    by (intro exI conjI, rule gates(1), rule gates(2), rule prep [unfolded q], rule gates(3), rule gates(4), rule ran, rule refl,
        rule d(1), rule d(2), rule d(3), rule d(4), rule d(5), rule record_candidate_audited [OF d(5)], rule refl,
        simp add: risk_request_for_def, simp add: risk_request_for_def, rule d(6), rule d(7), rule unopened, rule d(9), rule routed)
      (use carried in blast)
qed

end
