(* ===== verification/Orchestrator_Halt.thy ===== *)
theory Orchestrator_Halt
  imports Orchestrator_Properties
begin

text \<open>
  A cycle that fails on the audit, the database or the central risk engine halts the platform: it opens nothing
  itself that its own steps had not opened, and no later candle is evaluated until the dependency is confirmed.
\<close>

section \<open>What a cycle leaves alone\<close>

definition recovery_gate :: "orchestrator \<Rightarrow> recovery_coordinator option" where
  "recovery_gate oc = map_option op_recovery (oc_operations oc)"

lemma keeps_bind:
  assumes "f (fst m) = f oc" "\<And>s x. m = (s, Inr x) \<Longrightarrow> f (fst (g s x)) = f s"
  shows "f (fst (bind_outcome m g)) = f oc"
proof (cases m)
  case (Pair s r)
  with assms show ?thesis by (cases r) (auto simp: bind_outcome_def)
qed

lemma keeps_unless:
  assumes "f (fst m) = f oc" "\<And>s x. m = (s, Inr (Some x)) \<Longrightarrow> f (fst (g s x)) = f s"
  shows "f (fst (unless_stopped m g)) = f oc"
proof (cases m)
  case (Pair s r)
  with assms show ?thesis by (cases r) (auto simp: unless_stopped_def split: option.splits)
qed

text \<open>The parts no step but the agents and the operations touches.\<close>

definition standing :: "orchestrator \<Rightarrow> operations option \<times> agent_runtime" where
  "standing oc = (oc_operations oc, oc_runtime oc)"

lemma standing_steps [simp]:
  "standing (fst (on_oms f oc)) = standing oc" "standing (fst (on_market g x oc)) = standing oc"
  "standing (fst (publish_event E t ty k p src cid oc)) = standing oc" "standing (note_failure E y oc) = standing oc"
  "standing (fst (audit_cycle cid aty ety i oc)) = standing oc"
  by (simp_all add: standing_def on_oms_def on_market_def publish_event_def note_failure_def audit_cycle_def split: prod.split sum.split)

lemma clock_gate_standing: "standing (fst (clock_gate E c oc)) = standing oc"
proof -
  have "standing (fst (bind_outcome (on_market f x (note_failure E y oc)) (\<lambda>oc1 _. (oc1, Inr z)))) = standing oc"
    for f :: "market_store \<Rightarrow> (market_store, unit) outcome" and x y and z :: "clock_verdict option option"
    by (rule keeps_bind) simp_all
  then show ?thesis unfolding clock_gate_def Let_def by (simp split: option.split)
qed

lemma persist_candle_standing: "standing (fst (persist_candle E c q oc)) = standing oc"
  unfolding persist_candle_def Let_def by (auto intro!: keeps_bind [of standing])

lemma put_candle_store_standing: "standing (put_candle_store cs oc) = standing oc"
  unfolding put_candle_store_def standing_steps by (simp add: standing_def)

lemma keep_candle_standing: "standing (fst (keep_candle E c q oc)) = standing oc"
  unfolding keep_candle_def by (simp add: put_candle_store_standing split: prod.split sum.split)

lemma daily_reset_standing: "standing (daily_reset c oc) = standing oc"
  unfolding daily_reset_def Let_def by (simp add: standing_def on_oms_def split: prod.split)

lemma publish_closed_standing: "standing (fst (publish_closed E xs oc)) = standing oc"
  by (induction xs arbitrary: oc) (auto intro!: keeps_bind [of standing])

lemma monitor_positions_standing: "standing (fst (monitor_positions E c oc)) = standing oc"
  unfolding monitor_positions_def by (rule keeps_bind) (simp_all add: publish_closed_standing)

lemma prepare_cycle_standing: "standing (fst (prepare_cycle E c oc)) = standing oc"
  unfolding prepare_cycle_def Let_def
proof (intro keeps_unless [of standing] clock_gate_standing persist_candle_standing keep_candle_standing)
  fix oc3 q
  show "standing (fst (bind_outcome (monitor_positions E c (daily_reset c oc3)) (\<lambda>oc4 _.
      if \<not> evaluation_permitted oc4 then (oc4, Inr None)
      else bind_outcome (announce_candle E c oc4) (\<lambda>oc5 _. (oc5, Inr (Some q)))))) = standing oc3"
    by (rule keeps_bind)
       (auto simp: monitor_positions_standing daily_reset_standing announce_candle_def intro!: keeps_bind [of standing])
qed

lemma standing_gate: "standing oc' = standing oc \<Longrightarrow> recovery_gate oc' = recovery_gate oc"
  by (simp add: standing_def recovery_gate_def)

section \<open>The evaluation keeps the gate\<close>

lemma run_agents_gate: "recovery_gate (fst (run_agents E c oc)) = recovery_gate oc"
  by (simp add: recovery_gate_def run_agents_def split: sum.split prod.split)

lemma observe_batch_gate: "recovery_gate (observe_batch E outs oc) = recovery_gate oc"
proof (cases "oc_operations oc")
  case (Some ops)
  obtain o2 r where "observe_agent_batch (cy_now E) (cy_clock E) (cy_fresh E) outs (cy_correlation E) (cy_batch_ms E) ops = (o2, r)"
    by force
  with observe_agent_batch_frame [OF this] Some show ?thesis by (simp add: recovery_gate_def observe_batch_def)
qed (simp add: observe_batch_def)

lemma observe_evaluation_gate: "recovery_gate (observe_evaluation E c outs oc) = recovery_gate oc"
  by (simp add: recovery_gate_def observe_evaluation_def split: option.split sum.split)

lemma audited_publication_standing:
  "standing (fst (bind_outcome (audit_cycle cid aty ety i oc) (\<lambda>oc1 _. publish_event E t ty k p src cid' oc1))) = standing oc"
  by (rule keeps_bind) simp_all

lemma consult_consensus_standing: "standing (fst (consult_consensus E outs dec oc)) = standing oc"
proof -
  have "standing (fst (bind_outcome (audit_cycle cid aty ety i (oc\<lparr>oc_governance := g\<rparr>)) (\<lambda>oc1 _. publish_event E t ty k p src cid' oc1))) =
      standing oc" for cid aty ety i g t ty k p src cid'
    by (simp only: audited_publication_standing) (simp add: standing_def)
  moreover have "standing (oc\<lparr>oc_governance := g\<rparr>) = standing oc" for g by (simp add: standing_def)
  ultimately show ?thesis
    unfolding consult_consensus_def Let_def by (auto split: option.split sum.split prod.split) (metis fst_conv)+
qed

lemma construct_portfolio_standing: "standing (fst (construct_portfolio E dec w oc)) = standing oc"
proof -
  have "standing (fst (bind_outcome (audit_cycle cid aty ety i (oc\<lparr>oc_governance := g\<rparr>)) (\<lambda>oc1 _. publish_event E t ty k p src cid' oc1))) =
      standing oc" for cid aty ety i g t ty k p src cid'
    by (simp only: audited_publication_standing) (simp add: standing_def)
  moreover have "standing (oc\<lparr>oc_governance := g\<rparr>) = standing oc" for g by (simp add: standing_def)
  ultimately show ?thesis
    unfolding construct_portfolio_def Let_def by (auto split: option.split sum.split prod.split) (metis fst_conv)+
qed

lemma record_candidate_standing: "standing (fst (record_candidate E dec oc)) = standing oc"
proof -
  have "standing (fst (record_candidate E dec oc)) = standing (remember_decision dec oc)"
    unfolding record_candidate_def by (intro keeps_bind [of standing]) simp_all
  then show ?thesis by (simp add: standing_def remember_decision_def)
qed

lemma route_order_standing: "standing (fst (route_order E c dec x oc)) = standing oc"
  unfolding route_order_def by (auto intro!: keeps_bind [of standing])

lemma execute_decision_standing: "standing (fst (execute_decision E c dec q oc)) = standing oc"
proof -
  have recorded: "standing (fst (record_risk E dec x (replace_last d oc))) = standing oc" for d x oc
  proof -
    have "standing (fst (record_risk E dec x (replace_last d oc))) = standing (replace_last d oc)"
      unfolding record_risk_def by (rule keeps_bind) simp_all
    then show ?thesis by (simp add: standing_def replace_last_def)
  qed
  show ?thesis
    unfolding execute_decision_def Let_def
    by (auto intro!: keeps_bind [of standing] simp: check_candidate_def recorded route_order_standing)
qed

lemma decide_candle_standing: "standing (fst (decide_candle E c q outs oc)) = standing oc"
proof (cases "candidate_decision E c q outs (evaluate_strategy (cd_symbol c) (cd_timeframe c) (reported_regime outs) (oc_strategies oc))
    (reported_regime outs) oc")
  case (Inr dec0)
  obtain oc1 dec w where con: "consult_consensus E outs dec0 oc = (oc1, dec, w)" by (metis prod.exhaust)
  obtain oc2 p where por: "construct_portfolio E dec w oc1 = (oc2, p)" by force
  have "standing oc2 = standing oc"
    using consult_consensus_standing [of E outs dec0 oc] construct_portfolio_standing [of E dec w oc1] con por by simp
  moreover have "standing (fst (bind_outcome (record_candidate E dec oc2) (\<lambda>oc3 _. execute_decision E c dec (g oc3) oc3))) = standing oc2" for g
    by (rule keeps_bind) (simp_all add: record_candidate_standing execute_decision_standing)
  ultimately show ?thesis by (simp add: decide_candle_def Let_def Inr con por)
qed (simp add: decide_candle_def Let_def)

lemma evaluate_cycle_gate: "recovery_gate (fst (evaluate_cycle E c q oc)) = recovery_gate oc"
  unfolding evaluate_cycle_def
proof (intro keeps_unless [of recovery_gate] run_agents_gate)
  fix oc1 outs
  let ?oc = "observe_evaluation E c outs (observe_batch E outs oc1)"
  have "recovery_gate (fst (bind_outcome (decide_candle E c q outs ?oc) (\<lambda>oc2 dec. (oc2, Inr (Some dec))))) = recovery_gate ?oc"
    by (rule keeps_bind) (simp_all add: standing_gate [OF decide_candle_standing])
  then show "recovery_gate (fst (bind_outcome (decide_candle E c q outs ?oc) (\<lambda>oc2 dec. (oc2, Inr (Some dec))))) = recovery_gate oc1"
    by (simp add: observe_evaluation_gate observe_batch_gate)
qed

lemma observe_cycle_gate: "recovery_gate (observe_cycle E ok oc) = recovery_gate oc"
proof (cases "oc_operations oc")
  case (Some ops)
  obtain o2 r where "observe_orchestrator_cycle (cy_clock E) ok (cy_cycle_ms E) ops = (o2, r)" by force
  with observe_cycle_frame [OF this] Some show ?thesis by (simp add: recovery_gate_def observe_cycle_def)
qed (simp add: observe_cycle_def)

section \<open>The halt\<close>

definition halted :: "orchestrator \<Rightarrow> bool" where
  "halted oc \<longleftrightarrow>
     (\<exists>rc xs. recovery_gate oc = Some rc \<and> recovery_ok rc xs \<and> \<not> decisions_allowed rc)"

lemma halted_gate: "recovery_gate oc' = recovery_gate oc \<Longrightarrow> halted oc' = halted oc"
  by (simp add: halted_def)

lemma halted_not_permitted: "halted oc \<Longrightarrow> \<not> evaluation_permitted oc"
  by (auto simp: halted_def recovery_gate_def evaluation_permitted_def split: option.splits)

text \<open>Reporting a critical dependency unhealthy halts, whatever was reported before.\<close>

lemma unhealthy_halts:
  assumes "recovery_ok rc xs" "critical_dependency d" "observe_health d False reason rc = (rc', r)"
  shows "recovery_ok rc' (xs @ [(d, False)])" "\<not> decisions_allowed rc'"
proof -
  from observe_health_ok(1) [OF assms(1,3)] show ok: "recovery_ok rc' (xs @ [(d, False)])" by simp
  have "2 \<le> rc_required rc'" using ok by (simp add: recovery_ok_def)
  then have "\<not> all_confirmed (rc_required rc') (xs @ [(d, False)])"
    using assms(2) by (auto simp: all_confirmed_critical streak_def intro!: exI [of _ d])
  moreover have "\<not> no_critical_failure (xs @ [(d, False)])" using assms(2) by (simp add: no_critical_failure_def)
  ultimately show "\<not> decisions_allowed rc'" using recovery_ok_allowed [OF ok] by simp
qed

lemma mark_unhealthy_halts:
  assumes "recovery_gate oc = Some rc" "recovery_ok rc xs" "critical_dependency d"
  shows "halted (mark_unhealthy E d reason oc)"
proof -
  obtain ops where ops: "oc_operations oc = Some ops" "op_recovery ops = rc" using assms(1) by (auto simp: recovery_gate_def)
  obtain o2 r where o2: "observe_dependency (cy_now E) (cy_fresh E) d False reason (Some (cy_correlation E)) ops = (o2, r)" by force
  obtain rc' x where rc': "observe_health d False reason rc = (rc', x)" by force
  have "op_recovery o2 = rc'" using observe_dependency_recovery [OF o2] ops(2) rc' by simp
  then have "recovery_gate (mark_unhealthy E d reason oc) = Some rc'"
    using ops o2 by (simp add: recovery_gate_def mark_unhealthy_def)
  with unhealthy_halts [OF assms(2,3) rc'] show ?thesis unfolding halted_def by blast
qed

lemma failed_dependency_critical: "failed_dependency k = Some (d, reason) \<Longrightarrow> critical_dependency d"
  by (auto simp: failed_dependency_def critical_dependency_def split: exn_class.splits)

lemma recover_keeps_halt:
  assumes "halted oc"
  shows "halted (fst (recover_cycle E e oc))"
proof -
  obtain rc xs where "recovery_gate oc = Some rc" "recovery_ok rc xs" using assms by (auto simp: halted_def)
  from mark_unhealthy_halts [OF this] have "halted (mark_unhealthy E d reason oc)" if "critical_dependency d" for d reason
    using that by blast
  moreover have "halted (note_failure E y oc') = halted oc'" for y oc'
    by (rule halted_gate) (simp add: recovery_gate_def note_failure_def)
  ultimately show ?thesis
    using assms unfolding recover_cycle_def by (auto split: option.split dest: failed_dependency_critical)
qed

lemma recover_runtime: "oc_runtime (fst (recover_cycle E e oc)) = oc_runtime oc"
  by (simp add: recover_cycle_def note_failure_def mark_unhealthy_def split: option.split)

lemma halted_cycle:
  assumes "halted oc"
  shows "opens_nothing oc (fst (on_candle_closed E c oc)) \<and> halted (fst (on_candle_closed E c oc)) \<and>
    oc_runtime (fst (on_candle_closed E c oc)) = oc_runtime oc"
proof -
  obtain oc1 p where prep: "prepare_cycle E c oc = (oc1, p)" by force
  have quiet1: "opens_nothing oc oc1" using prepare_cycle_quiet [of oc E c] prep by simp
  have stand: "standing oc1 = standing oc" using prepare_cycle_standing [of E c oc] prep by simp
  then have halt1: "halted oc1" using halted_gate [OF standing_gate] assms by blast
  have run1: "oc_runtime oc1 = oc_runtime oc" using stand by (simp add: standing_def)
  show ?thesis
  proof (cases p)
    case (Inl e)
    have "opens_nothing oc1 (fst (recover_cycle E e oc1))" by (simp add: opens_nothing_same)
    then show ?thesis
      using prep Inl quiet1 recover_keeps_halt [OF halt1] run1
      by (simp add: on_candle_closed_def recover_runtime opens_nothing_trans [OF quiet1])
  next
    case (Inr m)
    have "m = None"
    proof (rule ccontr)
      assume "m \<noteq> None"
      then obtain q where "prepare_cycle E c oc = (oc1, Inr (Some q))" using prep Inr by auto
      from prepare_cycle_passed(4) [OF this] halted_not_permitted [OF halt1] show False by simp
    qed
    then show ?thesis using prep Inr quiet1 halt1 run1 by (simp add: on_candle_closed_def)
  qed
qed

text \<open>The error that ended a cycle.\<close>

definition cycle_error :: "cycle_world \<Rightarrow> candle \<Rightarrow> orchestrator \<Rightarrow> exn option" where
  "cycle_error E c oc =
     (case prepare_cycle E c oc of
        (_, Inl e) \<Rightarrow> Some e
      | (_, Inr None) \<Rightarrow> None
      | (oc1, Inr (Some q)) \<Rightarrow> (case snd (evaluate_cycle E c q oc1) of Inl e \<Rightarrow> Some e | Inr _ \<Rightarrow> None))"

fun later_cycles :: "(cycle_world \<times> candle) list \<Rightarrow> orchestrator \<Rightarrow> orchestrator" where
  "later_cycles [] oc = oc"
| "later_cycles ((E, c) # xs) oc = later_cycles xs (fst (on_candle_closed E c oc))"

lemma later_cycles_halted:
  assumes "halted oc"
  shows "opens_nothing oc (later_cycles xs oc) \<and> halted (later_cycles xs oc) \<and> oc_runtime (later_cycles xs oc) = oc_runtime oc"
  using assms
proof (induction xs oc rule: later_cycles.induct)
  case (2 E c xs oc)
  from halted_cycle [OF 2(2), of E c] 2(1) show ?case by (auto intro: opens_nothing_trans)
qed simp

lemma failing_recover:
  assumes "exn_class e \<in> {AuditError, DatabaseError, RiskError}" "recovery_gate oc = Some rc" "recovery_ok rc xs"
  shows "snd (recover_cycle E e oc) = Inr (Returned None)" "halted (fst (recover_cycle E e oc))"
proof -
  obtain d reason where d: "failed_dependency (exn_class e) = Some (d, reason)"
    using assms(1) by (auto simp: failed_dependency_def)
  have "core_error (exn_class e)" using assms(1) by (auto simp: core_error_def)
  moreover have "halted (note_failure E y oc') = halted oc'" for y oc'
    by (rule halted_gate) (simp add: recovery_gate_def note_failure_def)
  ultimately show "snd (recover_cycle E e oc) = Inr (Returned None)" "halted (fst (recover_cycle E e oc))"
    using d mark_unhealthy_halts [OF assms(2,3) failed_dependency_critical [OF d]] by (simp_all add: recover_cycle_def)
qed

text \<open>
  C10. A failed invariant halts the platform. When a cycle, after any history of the operations service, ends in an
  error of the audit, of the database or of the central risk engine, it returns no decision, and from then on, over
  every sequence of later candles, no order, venue command or position is added, no agent is run, and no evaluation
  is permitted.
\<close>

theorem failed_invariant_halts_platform:
  assumes "cycle_error E c oc = Some e" "exn_class e \<in> {AuditError, DatabaseError, RiskError}" "oc_operations oc = Some ops"
    and "new_operations settings repo = Inr o0" "operations_initialize o0 = (o1, r)" "operations_history o1 reports ops"
  shows "\<exists>oc'. on_candle_closed E c oc = (oc', Inr (Returned None)) \<and>
    (\<forall>xs. opens_nothing oc' (later_cycles xs oc') \<and> oc_runtime (later_cycles xs oc') = oc_runtime oc' \<and>
          \<not> evaluation_permitted (later_cycles xs oc'))"
proof -
  obtain rc0 where rc0: "new_recovery (ot_recovery_successes settings) = Inr rc0" "op_recovery o0 = rc0"
    using new_operations_Inr [OF assms(4)] by blast
  have "op_recovery o1 = rc0" using operations_initialize_recovery [OF assms(5)] rc0(2) by simp
  with new_recovery_ok [OF rc0(1)] operations_history_recovery [OF assms(6), of "[]"]
  have ok: "recovery_ok (op_recovery ops) reports" by simp
  have gate: "recovery_gate oc = Some (op_recovery ops)" using assms(3) by (simp add: recovery_gate_def)
  obtain oc1 p where prep: "prepare_cycle E c oc = (oc1, p)" by force
  have gate1: "recovery_gate oc1 = Some (op_recovery ops)"
    using standing_gate [OF prepare_cycle_standing [of E c oc]] prep gate by simp
  have "\<exists>oc'. on_candle_closed E c oc = (oc', Inr (Returned None)) \<and> halted oc'"
  proof (cases p)
    case (Inl x)
    with assms(1) prep have "x = e" by (simp add: cycle_error_def)
    with failing_recover [OF assms(2) gate1 ok] prep Inl show ?thesis
      by (metis (no_types, lifting) on_candle_closed_def old.prod.case old.sum.simps(5) prod.collapse)
  next
    case (Inr m)
    with assms(1) prep obtain q where q: "m = Some q" by (cases m) (auto simp: cycle_error_def)
    obtain oc2 y where ev: "evaluate_cycle E c q oc1 = (oc2, y)" by force
    have y: "y = Inl e" using assms(1) prep Inr q ev by (cases y) (auto simp: cycle_error_def)
    have "recovery_gate oc2 = Some (op_recovery ops)" using evaluate_cycle_gate [of E c q oc1] ev gate1 by simp
    obtain oc3 z where rec: "recover_cycle E e oc2 = (oc3, z)" by force
    from failing_recover [OF assms(2) \<open>recovery_gate oc2 = _\<close> ok, of E] rec
    have "z = Inr (Returned None)" "halted (observe_cycle E False oc3)" by (simp_all add: halted_gate [OF observe_cycle_gate])
    then have "on_candle_closed E c oc = (observe_cycle E False oc3, Inr (Returned None))" "halted (observe_cycle E False oc3)"
      using prep Inr q ev y rec by (simp_all add: on_candle_closed_def)
    then show ?thesis by blast
  qed
  then obtain oc' where "on_candle_closed E c oc = (oc', Inr (Returned None))" "halted oc'" by blast
  with later_cycles_halted halted_not_permitted show ?thesis by blast
qed

end
