(* ===== verification/Orchestrator_Samples.thy ===== *)
theory Orchestrator_Samples
  imports Orchestrator_Halt
begin

text \<open>
  A concrete platform in memory: three PAPER agents that agree on a purchase, the default limits and strategies,
  and the world of one cycle. The hash of the world tells
  the executions of the three agents apart and nothing else.
\<close>

section \<open>The world\<close>

definition toy_hash :: "json \<Rightarrow> string" where
  "toy_hash j =
     (case j of
        JObj fs \<Rightarrow>
          (case dict_get fs ''agent_key'' of
             Some (JStr s) \<Rightarrow> hash64 (if hd s = CHR ''M'' then CHR ''a'' else if hd s = CHR ''Q'' then CHR ''b'' else CHR ''c'')
           | _ \<Rightarrow> hash64 CHR ''d'')
      | _ \<Rightarrow> hash64 CHR ''d'')"

definition sample_answer :: "string \<Rightarrow> agent_output" where
  "sample_answer name =
     \<lparr>ao_agent_name = name, ao_status = AsCOMPLETED, ao_signal = (if name = ''MarketDataAgent'' then SigNEUTRAL else SigBUY),
      ao_confidence = 96, ao_reason = ''momentum'',
      ao_evidence = [(''atr'', JFloat (flt 2)), (''market_regime'', JStr ''BULL_TREND'')], ao_warnings = [], ao_latency_ms = 1,
      ao_created_at = 900000001\<rparr>"

definition answered_turn :: "time \<Rightarrow> string \<Rightarrow> agent_turn" where
  "answered_turn t name = \<lparr>tn_poll = t, tn_claim = t, tn_done = t, tn_finish = t, tn_answer = (Answered (sample_answer name), 1)\<rparr>"

definition sample_world :: cycle_world where
  "sample_world =
     \<lparr>cy_hash = toy_hash, cy_uuid = id, cy_gap_hash = (\<lambda>_. replicate 64 CHR ''0''), cy_prepare = Inr,
      cy_transport = (\<lambda>_. Inr ''broker''), cy_fails = (\<lambda>_ _. False), cy_fresh = id, cy_now = 900000005, cy_clock = 0,
      cy_cycle_ms = 1, cy_batch_ms = 1,
      cy_plan = (\<lambda>q. (''inline'', 900000005,
        [answered_turn 900000005 (ai_agent_name (ax_input q)), answered_turn 900000006 (ai_agent_name (ax_input q))]))\<rparr>"

section \<open>The platform\<close>

definition paper_agent :: "string \<Rightarrow> string \<times> base_agent" where
  "paper_agent name =
     (name, new_agent \<lparr>ba_name = name, ba_version = ''1.0.0'', ba_description = ''analysis'', ba_required_inputs = [''candles''],
        ba_capabilities = [''analysis''], ba_decision_role = PRIMARY, ba_critical = True, ba_timeout_ms = 1000, ba_max_attempts = 2\<rparr>)"

definition quiet_bus :: event_bus where
  "quiet_bus =
     \<lparr>eb_subscribers = [], eb_journal = False, eb_transport = False, eb_transport_required = False, eb_max_processed = 100,
      eb_processed = [], eb_store = \<lparr>es_journal = [], es_outbox = [], es_faults = []\<rparr>, eb_delivered = [], eb_dead_lettered = [],
      eb_sent = []\<rparr>"

definition sample_books :: paper_engine where
  "sample_books =
     new_paper_engine
       (new_risk_manager default_risk_limits (new_state_machine PAPER) (new_audit_service False) False empty_db
          None (flt 10000))
       (flt 10000) (flt (8 / 100)) (flt (2 / 100)) None None 0 False"

definition sample_orchestrator :: orchestrator where
  "sample_orchestrator =
     \<lparr>oc_oms = \<lparr>os_target_environment = environment.EnvPAPER, os_target_exchange = BINANCE, os_paper = sample_books, os_adapters = {},
        os_repository = False, os_worker_id = ''worker'', os_lease_seconds = flt 30, os_orders = [], os_commands = [],
        os_writes = []\<rparr>,
      oc_uses_oms = True, oc_bus = quiet_bus, oc_store = \<lparr>cs_max_candles = 500, cs_store = []\<rparr>, oc_market = None,
      oc_decision_engine = \<lparr>de_minimum_confidence = 75, de_strategy = ''MVP_BASELINE_v1''\<rparr>,
      oc_strategies = new_strategy_engine None, oc_max_data_delay_ms = 5000, oc_clock = None, oc_require_clock = False,
      oc_scans_gaps = False,
      oc_runtime = \<lparr>rt_registry = \<lparr>ry_agents = map paper_agent [''MarketDataAgent'', ''QuantAgent'', ''TrendAgent''], ry_history = []\<rparr>,
        rt_durable = False, rt_store = empty_agent_store, rt_publishes = True, rt_bus = quiet_bus, rt_lease_seconds = 30,
        rt_retry_base = flt 1, rt_retry_max = flt 30\<rparr>,
      oc_evaluation = None, oc_governance = None, oc_target_weight = None, oc_operations = None, oc_current_day = None,
      oc_recent = [], oc_last = None, oc_latencies = [], oc_failures = []\<rparr>"

definition sample_cycle :: "(orchestrator, cycle_result) outcome" where
  "sample_cycle = on_candle_closed sample_world sample_candle sample_orchestrator"

lemma sample_cycle_opens: "map fst (os_orders (oc_oms (fst sample_cycle))) \<noteq> []"
  by code_simp

theorem exposure_only_behind_every_gate_witness:
  "\<exists>oc4 dec oc5 rq oc6 x oc7. actionable dec \<and>
     record_candidate sample_world dec oc4 = (oc5, Inr ()) \<and> last_audited (candidate_record sample_world dec) (oc_risk oc5) \<and>
     check_candidate sample_world dec rq oc5 = (oc6, Inr x) \<and> approving (rc_risk_status x) \<and>
     opens_nothing sample_orchestrator oc6 \<and>
     oc_oms (fst sample_cycle) =
       oc_oms (fst (route_order sample_world sample_candle (dec\<lparr>dec_risk_status := rc_risk_status x\<rparr>) x oc7))"
proof -
  have run: "on_candle_closed sample_world sample_candle sample_orchestrator = (fst sample_cycle, snd sample_cycle)"
    by (simp add: sample_cycle_def)
  have "os_orders (oc_oms sample_orchestrator) = []" by (simp add: sample_orchestrator_def)
  with sample_cycle_opens have opened: "\<not> opens_nothing sample_orchestrator (fst sample_cycle)"
    by (simp add: opens_nothing_def)
  from exposure_only_behind_every_gate [OF run opened] show ?thesis by (elim exE conjE) (intro exI conjI)
qed

section \<open>A cycle whose database fails\<close>

definition sample_struck :: orchestrator where
  "sample_struck = sample_orchestrator
     \<lparr>oc_market := Some \<lparr>fs_faults = [True], mk_candles = [], mk_gaps = [], mk_decisions = [], mk_events = []\<rparr>,
      oc_operations := Some sample_operations\<rparr>"

lemma sample_struck_error:
  "cycle_error sample_world sample_candle sample_struck = Some (Exn DatabaseError ''database unavailable'')"
  by code_simp

theorem failed_invariant_halts_platform_witness:
  "\<exists>oc'. on_candle_closed sample_world sample_candle sample_struck = (oc', Inr (Returned None)) \<and>
    (\<forall>xs. opens_nothing oc' (later_cycles xs oc') \<and> oc_runtime (later_cycles xs oc') = oc_runtime oc' \<and>
          \<not> evaluation_permitted (later_cycles xs oc'))"
proof (rule failed_invariant_halts_platform [OF sample_struck_error _ _ sample_operations_new _ hi_nil])
  show "exn_class (Exn DatabaseError ''database unavailable'') \<in> {AuditError, DatabaseError, RiskError}" by simp
  show "oc_operations sample_struck = Some sample_operations" by (simp add: sample_struck_def)
  show "operations_initialize sample_operations = (sample_operations, Inr ())"
    by (simp add: operations_initialize_def sample_operations_store empty_operations_store_def dict_values_def newest_first_def
        list_operational_metric_snapshots_def list_slo_evaluations_def list_operational_alert_events_def
        list_cost_usage_records_def list_resilience_test_runs_def list_limit_def bind_result_def extend_bounded_def)
qed

end
