(* ===== verification/Spec2Isabelle.thy ===== *)
theory Spec2Isabelle
  imports Store_Properties Paper_Reports Paper_Adapter Decision_Properties Strategy_Engine Market_Gates Event_Properties Evaluation_Properties Governance_Properties Agent_Properties Operations_Properties Market_Properties Orchestrator_Samples
begin

text \<open>
  \<^bold>\<open>The trading core of Capital Cipher.\<close>

  The program is a PAPER and TESTNET trading platform, \<^verbatim>\<open>src/backend/app\<close>. A closed candle passes the market
  data gates, agents report on it, a decision engine consolidates their reports, the central risk
  manager checks the candidate and issues a single-use approval, the order boundary (OMS) turns the
  approval into a PAPER fill or a durable TESTNET command, a worker executes the command at the venue at
  most once, and reconciliation compares the result with what the venue reports. A kill switch can stop
  all of this at any moment. The development models these parts from the source and proves what makes
  them safe to run.

  \<^bold>\<open>Conventions.\<close>

  \<^item> Python floats are binary64 values: \<open>pyfloat\<close> is the set of rationals that rounding to 53 bits leaves
    unchanged, every operation is exact rational arithmetic followed by that rounding (\<open>Rounding\<close>,
    \<open>PyFloat\<close>). Overflow to infinity and NaN do not occur in the validated ranges and are not represented.
  \<^item> An operation returns the state it leaves and a result; \<open>Inl\<close> is the exception it raised. What was
    assigned before a \<^verbatim>\<open>raise\<close> stays assigned. Error messages are kept, log output is not.
  \<^item> A \<^verbatim>\<open>dict\<close> is an association list in insertion order. Instants are integers in microseconds. The clock,
    \<^verbatim>\<open>uuid4\<close> identities, SHA-256 and \<^verbatim>\<open>uuid5\<close> are parameters; what exchanges, brokers and handlers answer is a
    parameter too, an answer or an exception of any class.
  \<^item> The database answers according to a failure schedule: a transaction commits or leaves every table as
    it was and raises. Histories are sequences of whole calls; other processes interleave between
    transactions. Calls of one process are not interleaved inside a call.

  \<^bold>\<open>Theories and what they model.\<close>

  \<^item> \<open>Prelude\<close>: exceptions (\<^verbatim>\<open>core/errors.py\<close>), outcomes, dictionaries, text. \<open>Rounding\<close>, \<open>PyFloat\<close>: arithmetic.
  \<^item> \<open>Schemas\<close>: the pydantic models of decisions, risk, PAPER orders and the OMS with their validators.
  \<^item> \<open>State_Machine\<close>: \<^verbatim>\<open>core/state_machine.py\<close>, transitions and the kill switch latch.
  \<^item> \<open>Portfolio_Risk\<close>: candles and their store (\<^verbatim>\<open>market_data/store.py\<close>), exposure and value at risk
    (\<^verbatim>\<open>risk/portfolio.py\<close>). \<open>Risk_Manager\<close>, \<open>Risk_Properties\<close>, \<open>Risk_Latch\<close>: \<^verbatim>\<open>risk/manager.py\<close>; an approval is
    minted only through every gate, its size respects every limit, it is consumed once, and the kill
    switch stops approvals and revokes what is outstanding.
  \<^item> \<open>Database\<close>, \<open>Repository\<close>, \<open>Oms_Repository\<close>: the tables, triggers and transactions of
    \<^verbatim>\<open>database/models.py\<close>, \<^verbatim>\<open>database/session.py\<close> and \<^verbatim>\<open>database/repositories/repository.py\<close> that trading uses.
    \<open>Oms_Store\<close>, \<open>Store_Properties\<close>: the store only moves forward (a locale of guarded tables, interpreted
    for orders, commands and approvals), commands are dispatched at most once, orders are backed by
    consumed approvals, terminal rows are final.
  \<^item> \<open>Audit_Service\<close>: \<^verbatim>\<open>audit/service.py\<close>.
  \<^item> \<open>Paper_Execution\<close>, \<open>Execution_Properties\<close>: \<^verbatim>\<open>paper_trading/execution.py\<close>, \<^verbatim>\<open>backtesting/execution_data.py\<close>; fills,
    funding, margin and the as-of lookup, without lookahead. \<open>Paper_Engine\<close>, \<open>Paper_Properties\<close>,
    \<open>Paper_Reports\<close>: \<^verbatim>\<open>paper_trading/engine.py\<close>; the account stays consistent, a candle closes exactly the
    positions whose levels it reached, each at the level with precedence; a failed creation changes nothing.
  \<^item> \<open>Oms_Service\<close>, \<open>Oms_Worker\<close>: \<^verbatim>\<open>oms/service.py\<close>; one write per command over every history, no submission
    under the kill switch, fail-closed worker, recorded outcomes are confirmed ones.
  \<^item> \<open>Reconciliation\<close>, \<open>Reconciliation_Properties\<close>: \<^verbatim>\<open>oms/reconciliation.py\<close>; only live orders move, one pass
    converges, a clean run is agreement, failures and (where the policy halts) drift trip the switch. \<open>Paper_Adapter\<close>:
    \<^verbatim>\<open>execution/adapters/paper.py\<close>; the PAPER account and its mirror in the OMS agree.
  \<^item> \<open>Decision_Engine\<close>, \<open>Decision_Properties\<close>: \<^verbatim>\<open>orchestrator/decision_engine.py\<close>; actionable decisions rest on
    evidence and shadow agents have no authority. \<open>Strategy_Engine\<close>: \<^verbatim>\<open>strategy/engine.py\<close>. \<open>Market_Gates\<close>:
    \<^verbatim>\<open>market_data/data_quality.py\<close> and \<^verbatim>\<open>market_data/clock.py\<close>; each quality warning stands for exactly its defect.
  \<^item> \<open>Event_Bus\<close>, \<open>Event_Properties\<close>: \<^verbatim>\<open>core/event_bus.py\<close>, \<^verbatim>\<open>core/outbox.py\<close>, \<^verbatim>\<open>core/payload_security.py\<close> and the
    journal operations of the repository; at most one delivery per handler, no secret in the journal
    (for a bus without a broker), the outbox empties.
  \<^item> \<open>Agent_Evaluation\<close>, \<open>Evaluation_Properties\<close>: \<^verbatim>\<open>agents/evaluation.py\<close> and its append-only tables; every
    forecast is settled once, by the candle at its target, and a restart restores the evaluation,
    with the settled index in its order.
  \<^item> \<open>Governance\<close>, \<open>Consensus\<close>, \<open>Consensus_Properties\<close>, \<open>Governance_Properties\<close>:
    \<^verbatim>\<open>schemas/portfolio_consensus.py\<close> and \<^verbatim>\<open>orchestrator/portfolio_consensus.py\<close>; the consensus can only tighten
    a decision and rests on evidence, the registry refines a machine with one active experiment, portfolio
    targets stay within the risk limits.
  \<^item> \<open>Agents\<close>, \<open>Agent_Store\<close>, \<open>Agent_Queue\<close>, \<open>Agent_Runtime\<close>, \<open>Agent_Properties\<close>: \<^verbatim>\<open>agents/base.py\<close>,
    \<^verbatim>\<open>agents/registry.py\<close>, \<^verbatim>\<open>schemas/agents.py\<close>, \<^verbatim>\<open>agents/runtime.py\<close> and the agent tables; both queues implement one
    machine over evidence, evidence only grows and finished executions are final.
  \<^item> \<open>Resilience\<close>, \<open>Operations\<close>, \<open>Operations_Properties\<close>: \<^verbatim>\<open>operations/resilience.py\<close>, \<^verbatim>\<open>operations/metrics.py\<close>,
    \<^verbatim>\<open>operations/service.py\<close>; decisions are halted by a failed critical dependency until it is confirmed, alert
    events alternate.
  \<^item> \<open>Market_Store\<close>, \<open>Market_Properties\<close>: \<^verbatim>\<open>market_data/identity.py\<close>, \<^verbatim>\<open>market_data/gaps.py\<close> and the candle, gap,
    decision and system-event tables; the detected gaps are exactly the missing instants.
  \<^item> \<open>Orchestrator\<close>, \<open>Orchestrator_Properties\<close>, \<open>Orchestrator_Halt\<close>, \<open>Orchestrator_Samples\<close>:
    \<^verbatim>\<open>orchestrator/service.py\<close>, composed of all of the above. \<^verbatim>\<open>on_candle_closed\<close> is \<open>prepare_cycle\<close> (clock, quality,
    persistence, gap scan, positions, permission) followed by \<open>evaluate_cycle\<close> (agents, strategy, decision,
    consensus, portfolio, audit, risk, order), and \<open>recover_cycle\<close> for what they raise. A candle adds exposure only
    behind every gate, from the state in which its recorded decision was approved; a failed audit, database or risk invariant halts the platform.
  \<^item> \<open>Samples\<close>: the concrete values on which hypotheses are shown to hold.

  \<^bold>\<open>Bounds.\<close> Every function is total. The value-at-risk bisection runs the 24 rounds of the source, the
  funding loop is bounded by the number of observations, integer square roots by the bits of their
  argument; no fuel is chosen by the model. A worker run is a finite list of turns; so is the wait of an agent
  execution, and an execution whose turns end before it does is still waiting, as a value of its own
  (\<open>None\<close>, \<open>Waiting\<close>). Gap detection counts steps by a floating-point quotient; its property asks for a range
  shorter than 2^53 microseconds, about 285 years.

  \<^bold>\<open>Not modelled.\<close> The numeric heuristics of the analytical agents: what an agent answers is a parameter that the
  runtime checks. Shadow validation, release readiness, backtesting and walk-forward, backfill, the data lake
  and catalogue, the ranking report and decimal quantity precision: they look at the trading core from
  outside and no property here depends on them. The exchange and broker adapters, the HTTP and websocket
  layer, configuration, logging and the migrations are input, output and composition.
\<close>

end
